(* ===== verification/Prelude.thy ===== *)
theory Prelude
  imports Main "HOL-Library.List_Lexorder" "HOL-Library.Char_ord" "HOL-Library.Sublist"
begin

text \<open>
  Shared vocabulary of the development.

  \<^item> \<open>bindE\<close> sequences fallible steps: a Python \<open>raise\<close> is \<open>Inl\<close>, a value is \<open>Inr\<close>.
  \<^item> A SQL table is the list of its rows. \<open>update_where\<close> is \<open>UPDATE .. WHERE\<close>,
    \<open>count_where\<close> its \<open>rowcount\<close>, \<open>exists_where\<close> is \<open>SELECT .. LIMIT 1\<close> read for
    presence. A comparison with a SQL \<open>NULL\<close> is false (\<open>after\<close>, \<open>not_after\<close>).
  \<^item> Persisted timestamps are strings compared lexicographically, as SQL compares \<open>TEXT\<close>;
    the order is the library's order on \<open>char list\<close>.
\<close>

named_theorems table_simps \<open>how table operations distribute over rows\<close>
named_theorems op_defs \<open>definitions of the modelled operations\<close>

section \<open>Fallible steps\<close>

fun bindE :: "'e + 'a \<Rightarrow> ('a \<Rightarrow> 'e + 'b) \<Rightarrow> 'e + 'b" where
  "bindE (Inl e) f = Inl e"
| "bindE (Inr x) f = f x"

definition guardE :: "bool \<Rightarrow> 'e \<Rightarrow> 'e + unit" where
  "guardE b e = (if b then Inr () else Inl e)"

lemma bindE_Inr_iff: "bindE m f = Inr y \<longleftrightarrow> (\<exists>x. m = Inr x \<and> f x = Inr y)"
  by (cases m) auto

lemma bindE_Inl_iff: "bindE m f = Inl e \<longleftrightarrow> m = Inl e \<or> (\<exists>x. m = Inr x \<and> f x = Inl e)"
  by (cases m) auto

lemma guardE_Inr_iff [simp]: "guardE b e = Inr u \<longleftrightarrow> b"
  by (simp add: guardE_def)

lemma guardE_Inl_iff [simp]: "guardE b e = Inl e' \<longleftrightarrow> \<not> b \<and> e' = e"
  by (auto simp: guardE_def)

lemma guardE_simps [simp]: "guardE True e = Inr ()" "guardE False e = Inl e"
  by (simp_all add: guardE_def)

lemma bindE_guardE [simp]: "bindE (guardE b e) f = (if b then f () else Inl e)"
  by (simp add: guardE_def)

lemma bindE_cong [fundef_cong]:
  "m = m' \<Longrightarrow> (\<And>x. m' = Inr x \<Longrightarrow> f x = g x) \<Longrightarrow> bindE m f = bindE m' g"
  by (cases m') auto

fun mapE :: "('a \<Rightarrow> 'e + 'b) \<Rightarrow> 'a list \<Rightarrow> 'e + 'b list" where
  "mapE f [] = Inr []"
| "mapE f (x # xs) = bindE (f x) (\<lambda>y. bindE (mapE f xs) (\<lambda>ys. Inr (y # ys)))"

lemma mapE_Inr_length: "mapE f xs = Inr ys \<Longrightarrow> length ys = length xs"
  by (induction xs arbitrary: ys) (auto simp: bindE_Inr_iff)

lemma mapE_map_Inr: "(\<And>x. x \<in> set xs \<Longrightarrow> f (g x) = Inr (h x)) \<Longrightarrow> mapE f (map g xs) = Inr (map h xs)"
  by (induction xs) auto

lemma mapE_Inr_mem: "mapE f xs = Inr ys \<Longrightarrow> y \<in> set ys \<Longrightarrow> \<exists>x \<in> set xs. f x = Inr y"
  by (induction xs arbitrary: ys) (auto simp: bindE_Inr_iff)

section \<open>SQL tables as lists of rows\<close>

definition update_where :: "('r \<Rightarrow> bool) \<Rightarrow> ('r \<Rightarrow> 'r) \<Rightarrow> 'r list \<Rightarrow> 'r list" where
  "update_where P f t = map (\<lambda>r. if P r then f r else r) t"

definition count_where :: "('r \<Rightarrow> bool) \<Rightarrow> 'r list \<Rightarrow> nat" where
  "count_where P t = length (filter P t)"

definition exists_where :: "('r \<Rightarrow> bool) \<Rightarrow> 'r list \<Rightarrow> bool" where
  "exists_where P t = list_ex P t"

lemma exists_where_iff: "exists_where P t \<longleftrightarrow> (\<exists>r \<in> set t. P r)"
  by (simp add: exists_where_def list_ex_iff)

lemma update_where_Nil [simp]: "update_where P f [] = []"
  by (simp add: update_where_def)

lemma update_where_Cons [simp]:
  "update_where P f (r # t) = (if P r then f r else r) # update_where P f t"
  by (simp add: update_where_def)

lemma length_update_where [simp]: "length (update_where P f t) = length t"
  by (simp add: update_where_def)

lemma set_update_where [table_simps]:
  "r' \<in> set (update_where P f t) \<longleftrightarrow> (\<exists>r \<in> set t. r' = (if P r then f r else r))"
  by (auto simp: update_where_def)

lemma update_where_id: "\<not> exists_where P t \<Longrightarrow> update_where P f t = t"
  by (auto simp: update_where_def exists_where_iff intro: map_idI)

text \<open>A column that an update does not write keeps its values, in order.\<close>

lemma map_update_where_frame:
  "(\<And>r. P r \<Longrightarrow> g (f r) = g r) \<Longrightarrow> map g (update_where P f t) = map g t"
  by (simp add: update_where_def)

lemma filter_update_where_frame:
  "(\<And>r. Q r \<Longrightarrow> \<not> P r) \<Longrightarrow> (\<And>r. P r \<Longrightarrow> \<not> Q (f r)) \<Longrightarrow>
   filter Q (update_where P f t) = filter Q t"
  by (induction t) auto

lemma list_all_update_where:
  "list_all I t \<Longrightarrow> (\<And>r. r \<in> set t \<Longrightarrow> P r \<Longrightarrow> I r \<Longrightarrow> I (f r)) \<Longrightarrow> list_all I (update_where P f t)"
  by (auto simp: list_all_iff set_update_where)

lemma count_where_0_iff: "count_where P t = 0 \<longleftrightarrow> \<not> exists_where P t"
  by (auto simp: count_where_def exists_where_iff filter_empty_conv)

lemma count_where_1: "count_where P t = Suc 0 \<Longrightarrow> exists_where P t"
  using count_where_0_iff [of P t] by auto

text \<open>At most one row matches a predicate that fixes a unique key.\<close>

lemma count_where_key_le_1:
  assumes "distinct (map k t)" and "\<And>r. P r \<Longrightarrow> k r = v"
  shows "count_where P t \<le> 1"
  using assms(1)
proof (induction t)
  case Nil
  then show ?case by (simp add: count_where_def)
next
  case (Cons r t)
  show ?case
  proof (cases "P r")
    case True
    then have "k r = v" by (rule assms(2))
    have "\<not> P r'" if "r' \<in> set t" for r'
    proof
      assume "P r'"
      then have "k r' = k r" using assms(2) \<open>k r = v\<close> by simp
      then have "k r \<in> k ` set t" using that by (metis image_eqI)
      with Cons.prems show False by simp
    qed
    then have "filter P t = []" by (simp add: filter_empty_conv)
    with True show ?thesis by (simp add: count_where_def)
  next
    case False
    with Cons show ?thesis by (simp add: count_where_def)
  qed
qed

lemma count_where_key_1:
  assumes "distinct (map k t)" and "\<And>r. P r \<Longrightarrow> k r = v" and "exists_where P t"
  shows "count_where P t = 1"
  using count_where_key_le_1 [OF assms(1,2)] assms(3) count_where_0_iff [of P t]
  by (metis One_nat_def le_Suc_eq le_zero_eq)

lemma count_where_mono: "(\<And>r. r \<in> set t \<Longrightarrow> P r \<Longrightarrow> Q r) \<Longrightarrow> count_where P t \<le> count_where Q t"
proof (induction t)
  case (Cons r t)
  then have "count_where P t \<le> count_where Q t" by auto
  moreover have "P r \<Longrightarrow> Q r" using Cons.prems by auto
  ultimately show ?case by (auto simp: count_where_def)
qed (simp add: count_where_def)

lemma count_where_update_le:
  "(\<And>r. P r \<Longrightarrow> Q (f r) \<Longrightarrow> Q r) \<Longrightarrow> count_where Q (update_where P f t) \<le> count_where Q t"
proof (induction t)
  case (Cons r t)
  then have "count_where Q (update_where P f t) \<le> count_where Q t" by auto
  moreover have "P r \<Longrightarrow> Q (f r) \<Longrightarrow> Q r" using Cons.prems by auto
  ultimately show ?case by (auto simp: count_where_def)
qed (simp add: count_where_def)

text \<open>An update that makes each of its rows match a predicate it did not match adds them to the count.\<close>

lemma count_where_update_add:
  "(\<And>r. P r \<Longrightarrow> \<not> Q r \<and> Q (f r)) \<Longrightarrow>
    count_where Q (update_where P f t) = count_where Q t + count_where P t"
proof (induction t)
  case (Cons r t)
  then have "count_where Q (update_where P f t) = count_where Q t + count_where P t" by auto
  moreover have "P r \<Longrightarrow> \<not> Q r \<and> Q (f r)" using Cons.prems by auto
  ultimately show ?case by (auto simp: count_where_def)
qed (simp add: count_where_def)

lemma count_where_update_frame:
  "(\<And>r. P r \<Longrightarrow> Q (f r) = Q r) \<Longrightarrow> count_where Q (update_where P f t) = count_where Q t"
proof (induction t)
  case (Cons r t)
  then have "count_where Q (update_where P f t) = count_where Q t" by auto
  moreover have "P r \<Longrightarrow> Q (f r) = Q r" using Cons.prems by auto
  ultimately show ?case by (auto simp: count_where_def)
qed (simp add: count_where_def)

section \<open>Nullable text columns\<close>

definition after :: "string option \<Rightarrow> string \<Rightarrow> bool" where
  "after c now = (case c of None \<Rightarrow> False | Some e \<Rightarrow> now < e)"

definition not_after :: "string option \<Rightarrow> string \<Rightarrow> bool" where
  "not_after c now = (case c of None \<Rightarrow> False | Some e \<Rightarrow> e \<le> now)"

lemma after_simps [simp]: "after None now = False" "after (Some e) now = (now < e)"
  by (simp_all add: after_def)

lemma not_after_simps [simp]: "not_after None now = False" "not_after (Some e) now = (e \<le> now)"
  by (simp_all add: not_after_def)

lemma not_after_not_after: "not_after c now \<Longrightarrow> \<not> after c now"
  by (cases c) auto

lemma after_mono: "after c now \<Longrightarrow> now' \<le> now \<Longrightarrow> after c now'"
  by (cases c) auto

section \<open>Lexicographic order of strings\<close>

lemma lex_append_less:
  fixes xs ys us vs :: "'a::linorder list"
  assumes "length xs = length ys"
  shows "xs @ us < ys @ vs \<longleftrightarrow> xs < ys \<or> (xs = ys \<and> us < vs)"
  using assms
  by (induction xs ys rule: list_induct2) auto

section \<open>Text helpers\<close>

text \<open>\<open>str.startswith\<close>\<close>

definition startswith :: "string \<Rightarrow> string \<Rightarrow> bool" where
  "startswith s p = prefix p s"

text \<open>\<open>str.replace\<close> for one character, and \<open>str.split\<close> on one character.\<close>

definition replace_char :: "char \<Rightarrow> char \<Rightarrow> string \<Rightarrow> string" where
  "replace_char a b s = map (\<lambda>c. if c = a then b else c) s"

fun split_on :: "char \<Rightarrow> string \<Rightarrow> string list" where
  "split_on d [] = [[]]"
| "split_on d (c # s) =
     (if c = d then [] # split_on d s
      else case split_on d s of [] \<Rightarrow> [[c]] | w # ws \<Rightarrow> (c # w) # ws)"

lemma split_on_nonempty: "split_on d s \<noteq> []"
  by (cases s) (auto split: list.splits)

lemma split_on_no_sep: "d \<notin> set s \<Longrightarrow> split_on d s = [s]"
  by (induction s) auto

lemma split_on_append: "d \<notin> set w \<Longrightarrow> split_on d (w @ d # s) = w # split_on d s"
  by (induction w) auto

text \<open>\<open>max(.., default=None)\<close> over the present values of a list.\<close>

fun max_present :: "'a::linorder option list \<Rightarrow> 'a option" where
  "max_present [] = None"
| "max_present (None # xs) = max_present xs"
| "max_present (Some x # xs) =
     (case max_present xs of None \<Rightarrow> Some x | Some y \<Rightarrow> Some (max x y))"

lemma max_present_ge: "Some x \<in> set xs \<Longrightarrow> \<exists>y. max_present xs = Some y \<and> x \<le> y"
  by (induction xs rule: max_present.induct) (auto split: option.splits simp: le_max_iff_disj)

lemma max_present_mem: "max_present xs = Some y \<Longrightarrow> Some y \<in> set xs"
  by (induction xs arbitrary: y rule: max_present.induct)
    (auto split: option.splits simp: max_def)

lemma max_present_None_iff: "max_present xs = None \<longleftrightarrow> (\<forall>x \<in> set xs. x = None)"
  by (induction xs rule: max_present.induct) (auto split: option.splits)

section \<open>Machines\<close>

text \<open>
  A component that is driven by a sequence of operations is a machine: a step relation labelled with
  operations. \<open>machine\<close> is the contract of its invariant and \<open>monitored\<close> that of a preorder its steps
  respect; what holds along every run of the machine follows once, here.
\<close>

inductive reaches :: "('s \<Rightarrow> 'o \<Rightarrow> 's \<Rightarrow> bool) \<Rightarrow> 's \<Rightarrow> 's \<Rightarrow> bool" for step where
  here: "reaches step s s"
| further: "reaches step s t \<Longrightarrow> step t op u \<Longrightarrow> reaches step s u"

locale machine =
  fixes step :: "'s \<Rightarrow> 'o \<Rightarrow> 's \<Rightarrow> bool" and inv :: "'s \<Rightarrow> bool"
  assumes step_inv: "inv s \<Longrightarrow> step s op s' \<Longrightarrow> inv s'"
begin

lemma reaches_inv: "reaches step s s' \<Longrightarrow> inv s \<Longrightarrow> inv s'"
  by (induction rule: reaches.induct) (auto intro: step_inv)

end

locale monitored = machine +
  fixes grows :: "'s \<Rightarrow> 's \<Rightarrow> bool"
  assumes grows_refl: "grows s s"
    and grows_trans: "grows s t \<Longrightarrow> grows t u \<Longrightarrow> grows s u"
    and step_grows: "inv s \<Longrightarrow> step s op s' \<Longrightarrow> grows s s'"
begin

lemma reaches_grows: "reaches step s s' \<Longrightarrow> inv s \<Longrightarrow> grows s s'"
proof (induction rule: reaches.induct)
  case (further s t op u)
  then show ?case using reaches_inv grows_trans step_grows by blast
qed (rule grows_refl)

end

end
