(* ===== verification/Calendar.thy ===== *)
theory Calendar
  imports Prelude
begin

text \<open>
  The part of Python's \<open>datetime\<close> and \<open>calendar\<close> modules the program relies on: proleptic
  Gregorian dates with day ordinals, \<open>date + timedelta(days=..)\<close>, aware and naive datetimes,
  \<open>astimezone(utc)\<close>, and the ISO text forms. Years run from 1 to 9999, as in Python; leaving
  that range is \<open>OverflowError\<close>, an invalid field is \<open>ValueError\<close>.

  \<open>fromisoformat\<close> is modelled on the extended calendar form (\<open>YYYY-MM-DD\<close>, then any separator,
  \<open>HH[:MM[:SS[.f..]]]\<close> and \<open>+HH[:MM[:SS]]\<close>), the form \<open>isoformat\<close> prints and the program
  stores; Python's compact and week-date forms are not accepted by the model.
\<close>

datatype py_error = ValueError | OverflowError | TypeError | KeyError | IndexError | ZeroDivisionError | RuntimeError

section \<open>Dates\<close>

datatype date = Date (year: int) (month: int) (day: int)

instantiation date :: linorder
begin

definition less_date :: "date \<Rightarrow> date \<Rightarrow> bool" where
  "less_date d e \<longleftrightarrow> year d < year e \<or>
     year d = year e \<and> (month d < month e \<or> month d = month e \<and> day d < day e)"

definition less_eq_date :: "date \<Rightarrow> date \<Rightarrow> bool" where
  "less_eq_date d e \<longleftrightarrow> d < e \<or> d = (e :: date)"

instance
  by standard (auto simp: less_date_def less_eq_date_def intro: date.expand)

end

definition is_leap :: "int \<Rightarrow> bool" where
  "is_leap y \<longleftrightarrow> y mod 4 = 0 \<and> (y mod 100 \<noteq> 0 \<or> y mod 400 = 0)"

definition leap_day :: "bool \<Rightarrow> int" where
  "leap_day l = (if l then 1 else 0)"

text \<open>\<open>calendar.monthrange(y, m)[1]\<close>, and the days of a year before a month.\<close>

definition month_length :: "bool \<Rightarrow> int \<Rightarrow> int" where
  "month_length l m =
     (if m = 2 then 28 + leap_day l else if m \<in> {4, 6, 9, 11} then 30 else 31)"

definition days_before_month :: "bool \<Rightarrow> int \<Rightarrow> int" where
  "days_before_month l m =
     (if m \<le> 1 then 0 else if m = 2 then 31
      else leap_day l +
        (if m = 3 then 59 else if m = 4 then 90 else if m = 5 then 120 else if m = 6 then 151
         else if m = 7 then 181 else if m = 8 then 212 else if m = 9 then 243
         else if m = 10 then 273 else if m = 11 then 304 else if m = 12 then 334 else 365))"

definition days_before_year :: "int \<Rightarrow> int" where
  "days_before_year y = (y - 1) * 365 + (y - 1) div 4 - (y - 1) div 100 + (y - 1) div 400"

definition valid_date :: "date \<Rightarrow> bool" where
  "valid_date d \<longleftrightarrow> 1 \<le> year d \<and> year d \<le> 9999 \<and> 1 \<le> month d \<and> month d \<le> 12 \<and>
     1 \<le> day d \<and> day d \<le> month_length (is_leap (year d)) (month d)"

text \<open>The constructor \<open>date(y, m, d)\<close>.\<close>

definition mk_date :: "int \<Rightarrow> int \<Rightarrow> int \<Rightarrow> py_error + date" where
  "mk_date y m d = (if valid_date (Date y m d) then Inr (Date y m d) else Inl ValueError)"

definition ordinal :: "date \<Rightarrow> int" where
  "ordinal d = days_before_year (year d) + days_before_month (is_leap (year d)) (month d) + day d"

text \<open>Years are found from cycles of 400, 100, 4 and 1 years.\<close>

definition year_of :: "int \<Rightarrow> int" where
  "year_of n =
     (let k = n - 1; a = k div 146097; r = k mod 146097; b = r div 36524; s = r mod 36524;
          c = s div 1461; t = s mod 1461; e = t div 365;
          y = 400 * a + 100 * b + 4 * c + e + 1
      in if e = 4 \<or> b = 4 then y - 1 else y)"

definition month_of :: "bool \<Rightarrow> int \<Rightarrow> int" where
  "month_of l k =
     (if k \<le> 31 then 1 else if k \<le> 59 + leap_day l then 2 else if k \<le> 90 + leap_day l then 3
      else if k \<le> 120 + leap_day l then 4 else if k \<le> 151 + leap_day l then 5
      else if k \<le> 181 + leap_day l then 6 else if k \<le> 212 + leap_day l then 7
      else if k \<le> 243 + leap_day l then 8 else if k \<le> 273 + leap_day l then 9
      else if k \<le> 304 + leap_day l then 10 else if k \<le> 334 + leap_day l then 11 else 12)"

definition from_ordinal :: "int \<Rightarrow> date" where
  "from_ordinal n =
     (let y = year_of n; k = n - days_before_year y; m = month_of (is_leap y) k
      in Date y m (k - days_before_month (is_leap y) m))"

definition max_ordinal :: int where
  "max_ordinal = 3652059"

text \<open>\<open>d + timedelta(days=k)\<close> and \<open>(a - b).days\<close>.\<close>

definition add_days :: "date \<Rightarrow> int \<Rightarrow> py_error + date" where
  "add_days d k =
     (let n = ordinal d + k
      in if 1 \<le> n \<and> n \<le> max_ordinal then Inr (from_ordinal n) else Inl OverflowError)"

definition days_between :: "date \<Rightarrow> date \<Rightarrow> int" where
  "days_between a b = ordinal a - ordinal b"

subsection \<open>Ordinals are a bijection\<close>

lemma leap_day_bounds: "0 \<le> leap_day l" "leap_day l \<le> 1"
  by (simp_all add: leap_day_def)

lemma div_pred:
  fixes y k :: int
  assumes "0 < k"
  shows "y div k = (y - 1) div k + (if y mod k = 0 then 1 else 0)"
proof (cases "y mod k = 0")
  case True
  then have "y - 1 = k * (y div k - 1) + (k - 1)"
    by (simp add: algebra_simps) (metis add.right_neutral div_mult_mod_eq mult.commute)
  then have "(y - 1) div k = y div k - 1"
    by (rule int_div_pos_eq) (use assms in auto)
  with True show ?thesis by simp
next
  case False
  have "0 \<le> y mod k" "y mod k < k" using assms by simp_all
  moreover have "y - 1 = k * (y div k) + (y mod k - 1)"
    by simp
  ultimately have "(y - 1) div k = y div k"
    using False by (intro int_div_pos_eq [of _ _ _ "y mod k - 1"]) auto
  with False show ?thesis by simp
qed

lemma days_before_year_step:
  "days_before_year (y + 1) = days_before_year y + 365 + leap_day (is_leap y)"
proof -
  have "y mod 400 mod 100 = y mod 100" "y mod 100 mod 4 = y mod 4"
    by (simp_all add: mod_mod_cancel)
  then have m: "y mod 400 = 0 \<Longrightarrow> y mod 100 = 0" "y mod 100 = 0 \<Longrightarrow> y mod 4 = 0"
    by auto
  have "days_before_year (y + 1) - days_before_year y = 365 + (y div 4 - (y - 1) div 4)
      - (y div 100 - (y - 1) div 100) + (y div 400 - (y - 1) div 400)"
    by (simp add: days_before_year_def)
  also have "y div 4 - (y - 1) div 4 = (if y mod 4 = 0 then 1 else 0)"
    using div_pred [of 4 y] by linarith
  also have "y div 100 - (y - 1) div 100 = (if y mod 100 = 0 then 1 else 0)"
    using div_pred [of 100 y] by linarith
  also have "y div 400 - (y - 1) div 400 = (if y mod 400 = 0 then 1 else 0)"
    using div_pred [of 400 y] by linarith
  finally show ?thesis
    using m by (simp add: is_leap_def leap_day_def split: if_splits)
qed

lemma days_before_year_mono_less: "y < z \<Longrightarrow> days_before_year y + 365 \<le> days_before_year z"
proof (induction z rule: int_gr_induct [of y])
  case base
  then show ?case using days_before_year_step [of y] leap_day_bounds [of "is_leap y"] by simp
next
  case (step z)
  then show ?case using days_before_year_step [of z] leap_day_bounds [of "is_leap z"] by simp
qed

text \<open>The days before a year, in the cycles \<open>year_of\<close> uses.\<close>

lemma days_before_year_cycles:
  fixes a b c e :: int
  assumes "0 \<le> e" "e \<le> 3" "0 \<le> c" "c \<le> 24" "0 \<le> b" "b \<le> 3"
  shows "days_before_year (400 * a + 100 * b + 4 * c + e + 1)
    = 146097 * a + 36524 * b + 1461 * c + 365 * e"
proof -
  have "(400 * a + 100 * b + 4 * c + e) div 4 = 100 * a + 25 * b + c"
    by (rule int_div_pos_eq [where r = e]) (use assms in auto)
  moreover have "(400 * a + 100 * b + 4 * c + e) div 100 = 4 * a + b"
    by (rule int_div_pos_eq [where r = "4 * c + e"]) (use assms in auto)
  moreover have "(400 * a + 100 * b + 4 * c + e) div 400 = a"
    by (rule int_div_pos_eq [where r = "100 * b + 4 * c + e"]) (use assms in auto)
  ultimately show ?thesis
    by (simp add: days_before_year_def)
qed

lemma year_of_bounds:
  "days_before_year (year_of n) < n \<and> n \<le> days_before_year (year_of n + 1)"
proof -
  define a r where "a = (n - 1) div 146097" and "r = (n - 1) mod 146097"
  define b s where "b = r div 36524" and "s = r mod 36524"
  define c t where "c = s div 1461" and "t = s mod 1461"
  define e u where "e = t div 365" and "u = t mod 365"
  define y where "y = 400 * a + 100 * b + 4 * c + e + 1"
  have n: "n - 1 = 146097 * a + r" "r = 36524 * b + s" "s = 1461 * c + t" "t = 365 * e + u"
    by (simp_all add: a_def r_def b_def s_def c_def t_def e_def u_def)
  have bs: "0 \<le> r" "r < 146097" "0 \<le> s" "s < 36524" "0 \<le> t" "t < 1461" "0 \<le> u" "u < 365"
    by (simp_all add: r_def s_def t_def u_def)
  have q: "0 \<le> b" "b \<le> 4" "0 \<le> c" "c \<le> 24" "0 \<le> e" "e \<le> 4"
    using n bs by auto
  have yo: "year_of n = (if e = 4 \<or> b = 4 then y - 1 else y)"
    by (simp add: year_of_def Let_def a_def r_def b_def s_def c_def t_def e_def y_def)
  have leap: "days_before_year z < n \<and> n \<le> days_before_year (z + 1)"
    if "n - 1 = days_before_year z + 365" "is_leap z" for z
    using that days_before_year_step [of z] by (simp add: leap_day_def)
  show ?thesis
  proof (cases "b = 4")
    case True
    then have "r = 146096" "s = 0" using n bs q by auto
    then have z: "c = 0" "e = 0" "u = 0" using n bs q by auto
    have "year_of n = 400 * a + 100 * 3 + 4 * 24 + 3 + 1"
      using yo True z by (simp add: y_def)
    moreover have "n - 1 = days_before_year (400 * a + 100 * 3 + 4 * 24 + 3 + 1) + 365"
      using n(1) \<open>r = 146096\<close> days_before_year_cycles [of 3 24 3 a] by simp
    moreover have "is_leap (400 * a + 100 * 3 + 4 * 24 + 3 + 1)"
      by (simp add: is_leap_def)
    ultimately show ?thesis using leap by metis
  next
    case b4: False
    show ?thesis
    proof (cases "e = 4")
      case True
      then have "u = 0" "t = 1460" "c \<le> 23" using n bs q by auto
      have y1: "y - 1 = 400 * a + 100 * b + 4 * c + 3 + 1" using True by (simp add: y_def)
      have n365: "n - 1 = days_before_year (y - 1) + 365"
        using n \<open>t = 1460\<close> q b4 days_before_year_cycles [of 3 c b a]
        unfolding y1 by simp
      have "(y - 1) mod 100 = 4 * c + 4"
        by (rule int_mod_pos_eq [where q = "4 * a + b"]) (use y1 q \<open>c \<le> 23\<close> in auto)
      moreover have "(y - 1) mod 4 = 0" unfolding y1 by presburger
      ultimately have "is_leap (y - 1)" using q by (simp add: is_leap_def)
      with n365 show ?thesis using yo True leap [of "y - 1"] by simp
    next
      case False
      then have "days_before_year y = n - 1 - u"
        using n q b4 days_before_year_cycles [of e c b a] by (simp add: y_def)
      moreover have "year_of n = y" using yo False b4 by simp
      ultimately show ?thesis
        using bs days_before_year_step [of y] leap_day_bounds [of "is_leap y"] by auto
    qed
  qed
qed

lemma year_of_unique:
  assumes "days_before_year y < n" "n \<le> days_before_year (y + 1)"
  shows "year_of n = y"
proof (rule ccontr)
  assume "year_of n \<noteq> y"
  then consider "year_of n + 1 \<le> y" | "y + 1 \<le> year_of n" by linarith
  then show False
  proof cases
    case 1
    then have "days_before_year (year_of n + 1) \<le> days_before_year y"
      using days_before_year_mono_less [of "year_of n + 1" y] by (cases "year_of n + 1 = y") auto
    with year_of_bounds [of n] assms show False by linarith
  next
    case 2
    then have "days_before_year (y + 1) \<le> days_before_year (year_of n)"
      using days_before_year_mono_less [of "y + 1" "year_of n"] by (cases "y + 1 = year_of n") auto
    with year_of_bounds [of n] assms show False by linarith
  qed
qed

text \<open>Months: the twelve cases, once.\<close>

lemma month_cases:
  fixes m :: int
  assumes "1 \<le> m" "m \<le> 12"
  obtains "m = 1" | "m = 2" | "m = 3" | "m = 4" | "m = 5" | "m = 6" | "m = 7" | "m = 8"
    | "m = 9" | "m = 10" | "m = 11" | "m = 12"
proof -
  have "m = 1 \<or> m = 2 \<or> m = 3 \<or> m = 4 \<or> m = 5 \<or> m = 6 \<or> m = 7 \<or> m = 8 \<or> m = 9 \<or> m = 10
    \<or> m = 11 \<or> m = 12"
    using assms by presburger
  with that show ?thesis by blast
qed

lemma month_of_days:
  assumes "1 \<le> m" "m \<le> 12" "1 \<le> d" "d \<le> month_length l m"
  shows "month_of l (days_before_month l m + d) = m"
    and "0 < days_before_month l m + d" and "days_before_month l m + d \<le> 365 + leap_day l"
  using assms leap_day_bounds [of l]
  by (auto simp: month_of_def days_before_month_def month_length_def elim!: month_cases [of m])

lemma month_of_bounds:
  assumes "1 \<le> k" "k \<le> 365 + leap_day l"
  shows "1 \<le> month_of l k \<and> month_of l k \<le> 12 \<and>
    1 \<le> k - days_before_month l (month_of l k) \<and>
    k - days_before_month l (month_of l k) \<le> month_length l (month_of l k)"
  using assms leap_day_bounds [of l]
  by (simp add: month_of_def days_before_month_def month_length_def)

lemma days_before_month_step:
  "1 \<le> m \<Longrightarrow> m \<le> 11 \<Longrightarrow> days_before_month l (m + 1) = days_before_month l m + month_length l m"
  by (erule month_cases [of m], simp) (simp_all add: days_before_month_def month_length_def)

lemma days_before_month_less:
  "m < m' \<Longrightarrow> 1 \<le> m \<Longrightarrow> m' \<le> 12 \<Longrightarrow>
    days_before_month l m + month_length l m \<le> days_before_month l m'"
proof (induction m' rule: int_gr_induct [of m])
  case base
  then show ?case using days_before_month_step [of m l] by simp
next
  case (step k)
  moreover have "0 \<le> month_length l k" using leap_day_bounds [of l] by (simp add: month_length_def)
  ultimately show ?case using days_before_month_step [of k l] by simp
qed

lemma days_before_month_day_le:
  "1 \<le> m \<Longrightarrow> m \<le> 12 \<Longrightarrow> 1 \<le> d \<Longrightarrow> d \<le> month_length l m \<Longrightarrow>
    1 \<le> days_before_month l m + d \<and> days_before_month l m + d \<le> 365 + leap_day l"
  using month_of_days(2,3) [of m d l] by linarith

lemma days_before_year_ends:
  "days_before_year 1 = 0" "days_before_year 10000 = max_ordinal"
  by (simp_all add: days_before_year_def max_ordinal_def)

lemma days_before_year_range:
  assumes "1 \<le> y" "y \<le> 9999"
  shows "0 \<le> days_before_year y" "days_before_year (y + 1) \<le> max_ordinal"
  using assms days_before_year_ends
    days_before_year_mono_less [of 1 y] days_before_year_mono_less [of "y + 1" 10000]
  by (cases "y = 1"; cases "y = 9999"; simp)+

lemma valid_date_fields:
  assumes "valid_date d"
  shows "1 \<le> year d" "year d \<le> 9999" "1 \<le> month d" "month d \<le> 12" "1 \<le> day d"
    "day d \<le> month_length (is_leap (year d)) (month d)"
  using assms by (simp_all add: valid_date_def)

lemma ordinal_in_year:
  assumes "valid_date d"
  shows "days_before_year (year d) < ordinal d" "ordinal d \<le> days_before_year (year d + 1)"
  using valid_date_fields [OF assms] days_before_year_step [of "year d"]
    days_before_month_day_le [of "month d" "day d" "is_leap (year d)"]
  by (simp_all add: ordinal_def)

lemma ordinal_range: "valid_date d \<Longrightarrow> 1 \<le> ordinal d \<and> ordinal d \<le> max_ordinal"
  using ordinal_in_year [of d] valid_date_fields [of d] days_before_year_range [of "year d"]
  by auto

lemma from_ordinal_ordinal:
  assumes "valid_date d"
  shows "from_ordinal (ordinal d) = d"
proof -
  have y: "year_of (ordinal d) = year d"
    by (rule year_of_unique) (use ordinal_in_year [OF assms] in auto)
  have m: "month_of (is_leap (year d)) (ordinal d - days_before_year (year d)) = month d"
    using month_of_days(1) [of "month d" "day d" "is_leap (year d)"] valid_date_fields [OF assms]
    by (simp add: ordinal_def)
  show ?thesis
    by (simp add: from_ordinal_def y m Let_def) (simp add: ordinal_def)
qed

lemma ordinal_from_ordinal:
  assumes "1 \<le> n" "n \<le> max_ordinal"
  shows "valid_date (from_ordinal n)" and "ordinal (from_ordinal n) = n"
proof -
  define y where "y = year_of n"
  have yb: "days_before_year y < n" "n \<le> days_before_year (y + 1)"
    using year_of_bounds [of n] by (simp_all add: y_def)
  have "1 \<le> y"
  proof (rule ccontr)
    assume "\<not> 1 \<le> y"
    then have "days_before_year (y + 1) \<le> days_before_year 1"
      using days_before_year_mono_less [of "y + 1" 1] by (cases "y = 0") auto
    with yb assms show False using days_before_year_ends by linarith
  qed
  have "y \<le> 9999"
  proof (rule ccontr)
    assume "\<not> y \<le> 9999"
    then have "days_before_year 10000 \<le> days_before_year y"
      using days_before_year_mono_less [of 10000 y] by (cases "y = 10000") auto
    with yb assms show False using days_before_year_ends by linarith
  qed
  have "1 \<le> n - days_before_year y" "n - days_before_year y \<le> 365 + leap_day (is_leap y)"
    using yb days_before_year_step [of y] by linarith+
  note mb = month_of_bounds [OF this]
  have "year (from_ordinal n) = y"
    and "month (from_ordinal n) = month_of (is_leap y) (n - days_before_year y)"
    and "day (from_ordinal n) = n - days_before_year y
      - days_before_month (is_leap y) (month_of (is_leap y) (n - days_before_year y))"
    by (simp_all add: from_ordinal_def Let_def y_def)
  with mb \<open>1 \<le> y\<close> \<open>y \<le> 9999\<close> show "valid_date (from_ordinal n)"
    by (simp only: valid_date_def)
  show "ordinal (from_ordinal n) = n"
    by (simp add: from_ordinal_def ordinal_def Let_def)
qed

text \<open>Dates are ordered as their ordinals.\<close>

lemma ordinal_strict_mono:
  assumes "valid_date d" "valid_date e" "d < e"
  shows "ordinal d < ordinal e"
proof (cases "year d < year e")
  case True
  then have "days_before_year (year d + 1) \<le> days_before_year (year e)"
    using days_before_year_mono_less [of "year d + 1" "year e"]
    by (cases "year d + 1 = year e") auto
  with ordinal_in_year [OF assms(1)] ordinal_in_year [OF assms(2)] show ?thesis by linarith
next
  case False
  with assms(3) have y: "year d = year e"
    and md: "month d < month e \<or> month d = month e \<and> day d < day e"
    by (auto simp: less_date_def)
  have "days_before_month (is_leap (year d)) (month d) + day d
      < days_before_month (is_leap (year d)) (month e) + day e"
  proof (cases "month d < month e")
    case True
    then show ?thesis
      using days_before_month_less [of "month d" "month e" "is_leap (year d)"]
        valid_date_fields [OF assms(1)] valid_date_fields [OF assms(2)]
      by simp
  next
    case False
    with md show ?thesis by simp
  qed
  with y show ?thesis by (simp add: ordinal_def)
qed

lemma ordinal_less_iff:
  "valid_date d \<Longrightarrow> valid_date e \<Longrightarrow> ordinal d < ordinal e \<longleftrightarrow> d < e"
  using ordinal_strict_mono [of d e] ordinal_strict_mono [of e d]
  by (cases d e rule: linorder_cases) auto

lemma ordinal_le_iff:
  "valid_date d \<Longrightarrow> valid_date e \<Longrightarrow> ordinal d \<le> ordinal e \<longleftrightarrow> d \<le> e"
  using ordinal_less_iff [of e d] by (simp add: not_less flip: not_le)

lemma add_days_Inr:
  assumes "add_days d k = Inr e"
  shows "valid_date e" "ordinal e = ordinal d + k"
  using assms ordinal_from_ordinal [of "ordinal d + k"]
  by (auto simp: add_days_def Let_def split: if_splits)

lemma mk_date_Inr: "mk_date y m d = Inr e \<longleftrightarrow> e = Date y m d \<and> valid_date e"
  by (auto simp: mk_date_def)

end
