(* ===== verification/Timestamps.thy ===== *)
theory Timestamps
  imports Calendar
begin

text \<open>
  Datetimes and their text. A datetime carries an optional UTC offset in seconds; without one it
  is naive. \<open>instant\<close> counts microseconds, \<open>astimezone_utc\<close> rebuilds the UTC wall clock from it.
  The main results: parsing what \<open>isoformat\<close> prints gives the datetime back, and the
  lexicographic order of UTC texts is the order of the instants they denote. The second is what
  lets the program compare persisted timestamps as text.
\<close>

section \<open>Decimal text\<close>

definition digit_char :: "int \<Rightarrow> char" where
  "digit_char n = char_of (48 + n)"

definition digit_val :: "char \<Rightarrow> int option" where
  "digit_val c = (let v = of_char c - 48 in if 0 \<le> v \<and> v \<le> 9 then Some v else None)"

fun pad :: "nat \<Rightarrow> int \<Rightarrow> string" where
  "pad 0 n = []"
| "pad (Suc k) n = pad k (n div 10) @ [digit_char (n mod 10)]"

fun parse_digits :: "int \<Rightarrow> string \<Rightarrow> int option" where
  "parse_digits acc [] = Some acc"
| "parse_digits acc (c # s) =
     (case digit_val c of None \<Rightarrow> None | Some v \<Rightarrow> parse_digits (10 * acc + v) s)"

definition parse_num :: "string \<Rightarrow> int option" where
  "parse_num s = (if s = [] then None else parse_digits 0 s)"

lemma digit_val_digit_char: "0 \<le> n \<Longrightarrow> n \<le> 9 \<Longrightarrow> digit_val (digit_char n) = Some n"
  by (simp add: digit_val_def digit_char_def of_char_of)

lemma digit_char_less:
  "0 \<le> m \<Longrightarrow> m \<le> 9 \<Longrightarrow> 0 \<le> n \<Longrightarrow> n \<le> 9 \<Longrightarrow> digit_char m < digit_char n \<longleftrightarrow> m < n"
proof -
  assume b: "0 \<le> m" "m \<le> 9" "0 \<le> n" "n \<le> 9"
  have "of_char (digit_char k) = (48 + k :: int)" if "0 \<le> k" "k \<le> 9" for k
    using that by (simp add: digit_char_def of_char_of)
  then have "int (of_char (digit_char m) :: nat) = 48 + m" "int (of_char (digit_char n) :: nat) = 48 + n"
    using b by (metis of_nat_of_char)+
  then show ?thesis unfolding less_char_def by linarith
qed

lemma length_pad [simp]: "length (pad k n) = k"
  by (induction k n rule: pad.induct) auto

lemma parse_digits_append:
  "parse_digits a (s @ t) = (case parse_digits a s of None \<Rightarrow> None | Some b \<Rightarrow> parse_digits b t)"
  by (induction a s rule: parse_digits.induct) (auto split: option.splits)

lemma pow10_div: "0 \<le> n \<Longrightarrow> n < 10 ^ Suc k \<Longrightarrow> 0 \<le> n div 10 \<and> n div 10 < (10::int) ^ k"
  by simp linarith

lemma parse_digits_pad:
  "0 \<le> n \<Longrightarrow> n < 10 ^ k \<Longrightarrow> parse_digits a (pad k n) = Some (a * 10 ^ k + n)"
proof (induction k arbitrary: n)
  case 0
  then show ?case by simp
next
  case (Suc k)
  then show ?case
    using pow10_div [of n k]
    by (simp add: parse_digits_append digit_val_digit_char algebra_simps)
qed

lemma parse_num_pad: "0 < k \<Longrightarrow> 0 \<le> n \<Longrightarrow> n < 10 ^ k \<Longrightarrow> parse_num (pad k n) = Some n"
  using parse_digits_pad [of n k 0] by (cases k) (auto simp: parse_num_def)

lemma div_mod_less:
  "(a :: int) div 10 < b div 10 \<or> a div 10 = b div 10 \<and> a mod 10 < b mod 10 \<longleftrightarrow> a < b"
proof -
  have "a = 10 * (a div 10) + a mod 10" "b = 10 * (b div 10) + b mod 10" by simp_all
  moreover have "0 \<le> a mod 10" "a mod 10 < 10" "0 \<le> b mod 10" "b mod 10 < 10" by simp_all
  ultimately show ?thesis by linarith
qed

lemma pad_less:
  "0 \<le> a \<Longrightarrow> a < 10 ^ k \<Longrightarrow> 0 \<le> b \<Longrightarrow> b < 10 ^ k \<Longrightarrow> pad k a < pad k b \<longleftrightarrow> a < b"
proof (induction k arbitrary: a b)
  case 0
  then show ?case by simp
next
  case (Suc k)
  have inj: "pad k (a div 10) = pad k (b div 10) \<longleftrightarrow> a div 10 = b div 10"
    using Suc.IH [of "a div 10" "b div 10"] Suc.IH [of "b div 10" "a div 10"]
      pow10_div [of a k] pow10_div [of b k] Suc.prems
    by (metis less_irrefl linorder_neq_iff)
  have lt: "pad k (a div 10) < pad k (b div 10) \<longleftrightarrow> a div 10 < b div 10"
    using Suc.IH pow10_div [of a k] pow10_div [of b k] Suc.prems by blast
  have "digit_char (a mod 10) < digit_char (b mod 10) \<longleftrightarrow> a mod 10 < b mod 10"
    by (rule digit_char_less) auto
  then have "pad (Suc k) a < pad (Suc k) b \<longleftrightarrow>
      a div 10 < b div 10 \<or> a div 10 = b div 10 \<and> a mod 10 < b mod 10"
    unfolding pad.simps by (subst lex_append_less) (simp_all only: length_pad lt inj, simp)
  also have "\<dots> \<longleftrightarrow> a < b" by (rule div_mod_less)
  finally show ?case .
qed

lemma pad_eq_iff:
  "0 \<le> a \<Longrightarrow> a < 10 ^ k \<Longrightarrow> 0 \<le> b \<Longrightarrow> b < 10 ^ k \<Longrightarrow> pad k a = pad k b \<longleftrightarrow> a = b"
  using pad_less [of a k b] pad_less [of b k a] by (metis less_irrefl linorder_neq_iff)

text \<open>A digit is not a separator.\<close>

lemma digit_char_neq: "0 \<le> n \<Longrightarrow> n \<le> 9 \<Longrightarrow> digit_val c = None \<Longrightarrow> digit_char n \<noteq> c"
  using digit_val_digit_char by force

lemma set_pad: "c \<in> set (pad k n) \<Longrightarrow> digit_val c \<noteq> None"
  by (induction k n rule: pad.induct) (auto simp: digit_val_digit_char)

section \<open>ISO text of dates\<close>

definition date_isoformat :: "date \<Rightarrow> string" where
  "date_isoformat d = pad 4 (year d) @ ''-'' @ pad 2 (month d) @ ''-'' @ pad 2 (day d)"

definition date_fromisoformat :: "string \<Rightarrow> py_error + date" where
  "date_fromisoformat s =
     (if length s = 10 \<and> s ! 4 = CHR ''-'' \<and> s ! 7 = CHR ''-'' then
        (case (parse_num (take 4 s), parse_num (take 2 (drop 5 s)), parse_num (drop 8 s)) of
           (Some y, Some m, Some d) \<Rightarrow> mk_date y m d
         | _ \<Rightarrow> Inl ValueError)
      else Inl ValueError)"

lemma valid_date_widths:
  assumes "valid_date d"
  shows "0 \<le> year d \<and> year d < 10 ^ 4" "0 \<le> month d \<and> month d < 10 ^ 2"
    "0 \<le> day d \<and> day d < 10 ^ 2"
  using valid_date_fields [OF assms] leap_day_bounds [of "is_leap (year d)"]
  by (auto simp: month_length_def split: if_splits)

lemma length_date_isoformat [simp]: "length (date_isoformat d) = 10"
  by (simp add: date_isoformat_def)

lemma date_roundtrip:
  assumes "valid_date d"
  shows "date_fromisoformat (date_isoformat d) = Inr d"
proof -
  note w = valid_date_widths [OF assms]
  have "parse_num (pad 4 (year d)) = Some (year d)"
    "parse_num (pad 2 (month d)) = Some (month d)" "parse_num (pad 2 (day d)) = Some (day d)"
    using w by (simp_all add: parse_num_pad)
  then show ?thesis
    using assms
    by (simp add: date_fromisoformat_def date_isoformat_def nth_append mk_date_def)
qed

lemma date_isoformat_less:
  assumes "valid_date d" "valid_date e"
  shows "date_isoformat d < date_isoformat e \<longleftrightarrow> d < e"
proof -
  note w = valid_date_widths [OF assms(1)] valid_date_widths [OF assms(2)]
  have lt: "pad 4 (year d) < pad 4 (year e) \<longleftrightarrow> year d < year e"
    "pad 2 (month d) < pad 2 (month e) \<longleftrightarrow> month d < month e"
    "pad 2 (day d) < pad 2 (day e) \<longleftrightarrow> day d < day e"
    using w by (simp_all only: pad_less)
  have eq: "pad 4 (year d) = pad 4 (year e) \<longleftrightarrow> year d = year e"
    "pad 2 (month d) = pad 2 (month e) \<longleftrightarrow> month d = month e"
    using w by (simp_all only: pad_eq_iff)
  have "date_isoformat d < date_isoformat e \<longleftrightarrow>
      pad 4 (year d) < pad 4 (year e) \<or> pad 4 (year d) = pad 4 (year e) \<and>
      (pad 2 (month d) < pad 2 (month e) \<or> pad 2 (month d) = pad 2 (month e) \<and>
       pad 2 (day d) < pad 2 (day e))"
    unfolding date_isoformat_def
    by (subst lex_append_less, simp only: length_pad, subst lex_append_less, simp only:,
        subst lex_append_less, simp only: length_pad, subst lex_append_less) auto
  then show ?thesis
    unfolding lt eq less_date_def by blast
qed

lemma date_isoformat_inj:
  "valid_date d \<Longrightarrow> valid_date e \<Longrightarrow> date_isoformat d = date_isoformat e \<Longrightarrow> d = e"
  by (metis date_roundtrip sum.inject(2))

lemma date_fromisoformat_valid: "date_fromisoformat s = Inr d \<Longrightarrow> valid_date d"
  by (auto simp: date_fromisoformat_def mk_date_Inr split: if_splits option.splits)

section \<open>Datetimes\<close>

datatype datetime =
  DateTime (ddate: date) (hour: int) (minute: int) (second: int) (micro: int) (offset: "int option")

definition valid_datetime :: "datetime \<Rightarrow> bool" where
  "valid_datetime d \<longleftrightarrow> valid_date (ddate d) \<and> 0 \<le> hour d \<and> hour d < 24 \<and>
     0 \<le> minute d \<and> minute d < 60 \<and> 0 \<le> second d \<and> second d < 60 \<and>
     0 \<le> micro d \<and> micro d < 1000000 \<and>
     (case offset d of None \<Rightarrow> True | Some z \<Rightarrow> -86400 < z \<and> z < 86400)"

definition clock :: "datetime \<Rightarrow> int" where
  "clock d = (hour d * 60 + minute d) * 60 + second d"

definition instant :: "datetime \<Rightarrow> int" where
  "instant d = (ordinal (ddate d) * 86400 + clock d
     - (case offset d of None \<Rightarrow> 0 | Some z \<Rightarrow> z)) * 1000000 + micro d"

definition from_instant :: "int \<Rightarrow> py_error + datetime" where
  "from_instant i =
     (let t = i div 1000000; n = t div 86400; c = t mod 86400
      in if 1 \<le> n \<and> n \<le> max_ordinal
         then Inr (DateTime (from_ordinal n) (c div 3600) (c div 60 mod 60) (c mod 60)
                     (i mod 1000000) (Some 0))
         else Inl OverflowError)"

text \<open>\<open>d.astimezone(timezone.utc)\<close> for an aware datetime, and \<open>d + timedelta(seconds=k)\<close> of a UTC one.\<close>

definition astimezone_utc :: "datetime \<Rightarrow> py_error + datetime" where
  "astimezone_utc d = from_instant (instant d)"

definition add_seconds :: "datetime \<Rightarrow> int \<Rightarrow> py_error + datetime" where
  "add_seconds d k = from_instant (instant d + k * 1000000)"

definition is_utc :: "datetime \<Rightarrow> bool" where
  "is_utc d \<longleftrightarrow> valid_datetime d \<and> offset d = Some 0"

lemma from_instant_Inr:
  assumes "from_instant i = Inr d"
  shows "is_utc d" "instant d = i"
proof -
  define t n c where "t = i div 1000000" and "n = t div 86400" and "c = t mod 86400"
  have n: "1 \<le> n" "n \<le> max_ordinal"
    and d: "d = DateTime (from_ordinal n) (c div 3600) (c div 60 mod 60) (c mod 60)
      (i mod 1000000) (Some 0)"
    using assms by (auto simp: from_instant_def Let_def t_def n_def c_def split: if_splits)
  have c: "0 \<le> c" "c < 86400" by (simp_all add: c_def)
  have "((c div 3600) * 60 + c div 60 mod 60) * 60 + c mod 60 = c"
  proof -
    have "c div 3600 = c div 60 div 60"
      using zdiv_zmult2_eq [of 60 c 60] by simp
    then have "c div 3600 * 60 + c div 60 mod 60 = c div 60"
      by (simp only: div_mult_mod_eq)
    then show ?thesis by (simp only: div_mult_mod_eq)
  qed
  moreover have "t = 86400 * n + c" "i = 1000000 * t + i mod 1000000"
    by (simp_all add: n_def c_def t_def)
  ultimately show "instant d = i"
    by (simp add: instant_def clock_def d ordinal_from_ordinal [OF n])
  show "is_utc d"
    using c n by (auto simp: is_utc_def valid_datetime_def d ordinal_from_ordinal)
qed

text \<open>A UTC datetime is determined by its instant.\<close>

lemma instant_utc_parts:
  assumes "is_utc d"
  shows "instant d div 1000000 div 86400 = ordinal (ddate d)"
    "instant d div 1000000 mod 86400 = clock d" "instant d mod 1000000 = micro d"
proof -
  have b: "0 \<le> micro d" "micro d < 1000000" "0 \<le> clock d" "clock d < 86400"
    using assms by (auto simp: is_utc_def valid_datetime_def clock_def)
  have i: "instant d = (ordinal (ddate d) * 86400 + clock d) * 1000000 + micro d"
    using assms by (simp add: instant_def is_utc_def)
  have t: "instant d div 1000000 = ordinal (ddate d) * 86400 + clock d"
    by (rule int_div_pos_eq [where r = "micro d"]) (use b i in auto)
  show "instant d mod 1000000 = micro d"
    by (rule int_mod_pos_eq [where q = "ordinal (ddate d) * 86400 + clock d"]) (use b i in auto)
  show "instant d div 1000000 div 86400 = ordinal (ddate d)"
    unfolding t by (rule int_div_pos_eq [where r = "clock d"]) (use b in auto)
  show "instant d div 1000000 mod 86400 = clock d"
    unfolding t by (rule int_mod_pos_eq [where q = "ordinal (ddate d)"]) (use b in auto)
qed

lemma clock_parts:
  assumes "valid_datetime d"
  shows "clock d div 3600 = hour d" "clock d div 60 mod 60 = minute d" "clock d mod 60 = second d"
proof -
  have b: "0 \<le> minute d" "minute d < 60" "0 \<le> second d" "second d < 60"
    using assms by (auto simp: valid_datetime_def)
  show "clock d mod 60 = second d"
    unfolding clock_def by (rule int_mod_pos_eq [where q = "hour d * 60 + minute d"]) (use b in auto)
  have "clock d div 60 = hour d * 60 + minute d"
    unfolding clock_def by (rule int_div_pos_eq [where r = "second d"]) (use b in auto)
  then show "clock d div 60 mod 60 = minute d"
    using int_mod_pos_eq [of "hour d * 60 + minute d" 60 "hour d" "minute d"] b by simp
  show "clock d div 3600 = hour d"
    unfolding clock_def
    by (rule int_div_pos_eq [where r = "minute d * 60 + second d"]) (use b in auto)
qed

lemma from_instant_instant:
  assumes "is_utc d"
  shows "from_instant (instant d) = Inr d"
proof -
  have v: "valid_datetime d" "valid_date (ddate d)" "offset d = Some 0"
    using assms by (auto simp: is_utc_def valid_datetime_def)
  have "from_instant (instant d) =
      Inr (DateTime (ddate d) (hour d) (minute d) (second d) (micro d) (Some 0))"
    unfolding from_instant_def Let_def instant_utc_parts [OF assms] clock_parts [OF v(1)]
      from_ordinal_ordinal [OF v(2)]
    using ordinal_range [OF v(2)] by simp
  also have "DateTime (ddate d) (hour d) (minute d) (second d) (micro d) (Some 0) = d"
    using v(3) by (cases d) simp
  finally show ?thesis .
qed

lemma instant_utc_inj: "is_utc d \<Longrightarrow> is_utc e \<Longrightarrow> instant d = instant e \<Longrightarrow> d = e"
  by (metis from_instant_instant sum.inject(2))

end
