(* ===== verification/IsoText.thy ===== *)
theory IsoText
  imports Timestamps
begin

text \<open>
  The ISO text of datetimes: \<open>isoformat\<close> omits the microseconds when they are zero, and
  \<open>fromisoformat\<close> reads the extended form back. \<open>isoformat_less\<close> is the reason the program may
  compare persisted UTC timestamps as text: the plus sign that follows a whole second sorts before
  the dot that starts a fraction.
\<close>

section \<open>Printing\<close>

definition clock_text :: "int \<Rightarrow> int \<Rightarrow> int \<Rightarrow> string" where
  "clock_text h m s = pad 2 h @ '':'' @ pad 2 m @ '':'' @ pad 2 s"

definition micro_text :: "int \<Rightarrow> string" where
  "micro_text u = (if u = 0 then [] else ''.'' @ pad 6 u)"

definition offset_text :: "int option \<Rightarrow> string" where
  "offset_text z =
     (case z of None \<Rightarrow> []
      | Some k \<Rightarrow>
          (if k < 0 then ''-'' else ''+'') @ pad 2 (\<bar>k\<bar> div 3600) @ '':'' @ pad 2 (\<bar>k\<bar> div 60 mod 60)
          @ (if \<bar>k\<bar> mod 60 = 0 then [] else '':'' @ pad 2 (\<bar>k\<bar> mod 60)))"

definition isoformat :: "datetime \<Rightarrow> string" where
  "isoformat d = date_isoformat (ddate d) @ ''T'' @ clock_text (hour d) (minute d) (second d)
     @ micro_text (micro d) @ offset_text (offset d)"

section \<open>Parsing\<close>

definition parse_two :: "string \<Rightarrow> int option" where
  "parse_two s = (if length s = 2 then parse_num s else None)"

definition parse_seconds :: "string \<Rightarrow> (int \<times> int) option" where
  "parse_seconds s =
     (if length s = 2 then map_option (\<lambda>v. (v, 0)) (parse_num s)
      else if 3 < length s \<and> (s ! 2 = CHR ''.'' \<or> s ! 2 = CHR '','') \<and> parse_num (drop 3 s) \<noteq> None
      then (case (parse_num (take 2 s), parse_num (take 6 (drop 3 s @ ''000000''))) of
              (Some v, Some u) \<Rightarrow> Some (v, u)
            | _ \<Rightarrow> None)
      else None)"

fun parse_clock :: "string list \<Rightarrow> (int \<times> int \<times> int \<times> int) option" where
  "parse_clock [h] = map_option (\<lambda>h. (h, 0, 0, 0)) (parse_two h)"
| "parse_clock [h, m] =
     (case (parse_two h, parse_two m) of (Some h, Some m) \<Rightarrow> Some (h, m, 0, 0) | _ \<Rightarrow> None)"
| "parse_clock [h, m, s] =
     (case (parse_two h, parse_two m, parse_seconds s) of
        (Some h, Some m, Some (s, u)) \<Rightarrow> Some (h, m, s, u) | _ \<Rightarrow> None)"
| "parse_clock _ = None"

definition parse_offset :: "string \<Rightarrow> int option option" where
  "parse_offset s =
     (case s of [] \<Rightarrow> Some None
      | c # r \<Rightarrow>
          if s = ''Z'' then Some (Some 0)
          else if c = CHR ''+'' \<or> c = CHR ''-'' then
            (case parse_clock (split_on (CHR '':'') r) of
               Some (h, m, s, u) \<Rightarrow>
                 (let k = (h * 60 + m) * 60 + s
                  in if h < 24 \<and> m < 60 \<and> s < 60 \<and> u = 0
                     then Some (Some (if c = CHR ''-'' then - k else k)) else None)
             | _ \<Rightarrow> None)
          else None)"

definition zone_mark :: "char \<Rightarrow> bool" where
  "zone_mark c \<longleftrightarrow> c = CHR ''+'' \<or> c = CHR ''-'' \<or> c = CHR ''Z''"

definition mk_datetime :: "date \<Rightarrow> int \<times> int \<times> int \<times> int \<Rightarrow> int option \<Rightarrow> py_error + datetime" where
  "mk_datetime d t z = (case t of (h, m, s, u) \<Rightarrow>
     if valid_datetime (DateTime d h m s u z) then Inr (DateTime d h m s u z) else Inl ValueError)"

definition fromisoformat :: "string \<Rightarrow> py_error + datetime" where
  "fromisoformat s = bindE (date_fromisoformat (take 10 s)) (\<lambda>d.
     if length s = 10 then Inr (DateTime d 0 0 0 0 None)
     else (let r = drop 11 s; t = takeWhile (\<lambda>c. \<not> zone_mark c) r; z = dropWhile (\<lambda>c. \<not> zone_mark c) r
           in case (parse_clock (split_on (CHR '':'') t), parse_offset z) of
                (Some t, Some z) \<Rightarrow> mk_datetime d t z
              | _ \<Rightarrow> Inl ValueError))"

lemma fromisoformat_valid: "fromisoformat s = Inr d \<Longrightarrow> valid_datetime d"
  by (auto simp: fromisoformat_def mk_datetime_def bindE_Inr_iff Let_def valid_datetime_def
      dest: date_fromisoformat_valid split: if_splits option.splits prod.splits)

section \<open>Round trip\<close>

lemma two_digits: "(0::int) \<le> n \<Longrightarrow> n < 100 \<Longrightarrow> parse_two (pad 2 n) = Some n"
  using parse_num_pad [of 2 n] by (simp add: parse_two_def)

lemma colon_notin_pad: "CHR '':'' \<notin> set (pad k n)"
  using set_pad [of "CHR '':''" k n] by (auto simp: digit_val_def)

lemma split_clock:
  "CHR '':'' \<notin> set t \<Longrightarrow>
    split_on (CHR '':'') (pad 2 h @ '':'' @ pad 2 m @ '':'' @ t) = [pad 2 h, pad 2 m, t]"
  by (simp add: split_on_append split_on_no_sep colon_notin_pad del: pad.simps)

lemma parse_seconds_text:
  assumes "0 \<le> s" "s < 60" "0 \<le> u" "u < 1000000"
  shows "parse_seconds (pad 2 s @ micro_text u) = Some (s, u)"
proof -
  have "parse_num (pad 2 s) = Some s" "parse_num (pad 6 u) = Some u"
    using assms parse_num_pad [of 2 s] parse_num_pad [of 6 u] by simp_all
  then show ?thesis
    by (simp add: parse_seconds_def micro_text_def nth_append del: pad.simps)
qed

lemma parse_clock_text:
  assumes "valid_datetime d"
  shows "parse_clock (split_on (CHR '':'')
      (clock_text (hour d) (minute d) (second d) @ micro_text (micro d)))
    = Some (hour d, minute d, second d, micro d)"
proof -
  have "CHR '':'' \<notin> set (pad 2 (second d) @ micro_text (micro d))"
    by (simp add: micro_text_def colon_notin_pad del: pad.simps)
  then have "split_on (CHR '':'')
      (clock_text (hour d) (minute d) (second d) @ micro_text (micro d))
    = [pad 2 (hour d), pad 2 (minute d), pad 2 (second d) @ micro_text (micro d)]"
    using split_clock [of "pad 2 (second d) @ micro_text (micro d)"]
    by (simp add: clock_text_def del: pad.simps)
  then show ?thesis
    using assms parse_seconds_text [of "second d" "micro d"]
    by (simp add: two_digits valid_datetime_def del: pad.simps)
qed

lemma parse_offset_text:
  assumes "case z of None \<Rightarrow> True | Some k \<Rightarrow> -86400 < k \<and> k < 86400"
  shows "parse_offset (offset_text z) = Some z"
proof (cases z)
  case None
  then show ?thesis by (simp add: offset_text_def parse_offset_def)
next
  case (Some k)
  define a h m s where "a = \<bar>k\<bar>" and "h = a div 3600" and "m = a div 60 mod 60" and "s = a mod 60"
  have a: "0 \<le> a" "a < 86400" using assms Some by (auto simp: a_def)
  have b: "0 \<le> h" "h < 24" "0 \<le> m" "m < 60" "0 \<le> s" "s < 60"
    using a by (auto simp: h_def m_def s_def)
  have "h = a div 60 div 60" using zdiv_zmult2_eq [of 60 a 60] by (simp add: h_def)
  then have "h * 60 + m = a div 60" by (simp only: m_def div_mult_mod_eq)
  then have k: "(h * 60 + m) * 60 + s = a" by (simp only: s_def div_mult_mod_eq)
  have "parse_clock (split_on (CHR '':'')
      (pad 2 h @ '':'' @ pad 2 m @ (if s = 0 then [] else '':'' @ pad 2 s))) = Some (h, m, s, 0)"
  proof (cases "s = 0")
    case True
    then show ?thesis
      using b by (simp add: split_on_append split_on_no_sep colon_notin_pad two_digits del: pad.simps)
  next
    case False
    have "parse_num (pad 2 s) = Some s" using b parse_num_pad [of 2 s] by simp
    with False show ?thesis
      using b by (simp add: split_on_append split_on_no_sep colon_notin_pad two_digits
          parse_seconds_def del: pad.simps)
  qed
  then show ?thesis
    using b k by (simp add: Some offset_text_def parse_offset_def a_def [symmetric] h_def [symmetric]
        m_def [symmetric] s_def [symmetric] del: pad.simps)
      (auto simp: a_def)
qed

lemma takeWhile_pass:
  "(\<And>c. c \<in> set xs \<Longrightarrow> P c) \<Longrightarrow> (case ys of [] \<Rightarrow> True | y # _ \<Rightarrow> \<not> P y) \<Longrightarrow>
    takeWhile P (xs @ ys) = xs \<and> dropWhile P (xs @ ys) = ys"
  by (induction xs) (auto split: list.splits)

lemma clock_no_zone_mark:
  "c \<in> set (clock_text h m s @ micro_text u) \<Longrightarrow> \<not> zone_mark c"
  by (auto simp: clock_text_def micro_text_def zone_mark_def digit_val_def
      dest!: set_pad split: if_splits simp del: pad.simps)

theorem isoformat_roundtrip:
  assumes "valid_datetime d"
  shows "fromisoformat (isoformat d) = Inr d"
proof -
  let ?t = "clock_text (hour d) (minute d) (second d) @ micro_text (micro d)"
  have "valid_date (ddate d)" using assms by (simp add: valid_datetime_def)
  have iso: "isoformat d = date_isoformat (ddate d) @ CHR ''T'' # ?t @ offset_text (offset d)"
    by (simp add: isoformat_def)
  have "case offset_text (offset d) of [] \<Rightarrow> True | y # _ \<Rightarrow> \<not> \<not> zone_mark y"
    by (simp add: offset_text_def zone_mark_def split: option.splits)
  then have tw: "takeWhile (\<lambda>c. \<not> zone_mark c) (?t @ offset_text (offset d)) = ?t"
    "dropWhile (\<lambda>c. \<not> zone_mark c) (?t @ offset_text (offset d)) = offset_text (offset d)"
    using takeWhile_pass [of ?t "\<lambda>c. \<not> zone_mark c" "offset_text (offset d)"] clock_no_zone_mark
    by blast+
  have z: "parse_offset (offset_text (offset d)) = Some (offset d)"
    by (rule parse_offset_text) (use assms in \<open>simp add: valid_datetime_def\<close>)
  have "drop 11 (isoformat d) = ?t @ offset_text (offset d)" "take 10 (isoformat d) = date_isoformat (ddate d)"
    "length (isoformat d) \<noteq> 10"
    by (simp_all add: iso del: append_assoc)
  then show ?thesis
    using date_roundtrip [OF \<open>valid_date (ddate d)\<close>] tw z parse_clock_text [OF assms] assms
    by (simp add: fromisoformat_def mk_datetime_def Let_def del: append_assoc)
qed

section \<open>Text order is time order\<close>

lemma offset_text_utc: "offset_text (Some 0) = ''+00:00''"
  by (simp add: offset_text_def eval_nat_numeral digit_char_def char_of_def)

lemma micro_tail_less:
  assumes "0 \<le> u" "u < 1000000" "0 \<le> v" "v < 1000000"
  shows "micro_text u @ ''+00:00'' < micro_text v @ ''+00:00'' \<longleftrightarrow> u < v"
proof -
  have "pad 6 u < pad 6 v \<longleftrightarrow> u < v" "pad 6 u = pad 6 v \<longleftrightarrow> u = v"
    by (rule pad_less pad_eq_iff; use assms in simp)+
  moreover have "CHR ''+'' < CHR ''.''" by (simp add: less_char_def)
  moreover have "pad 6 u @ ''+00:00'' < pad 6 v @ ''+00:00'' \<longleftrightarrow> pad 6 u < pad 6 v"
    by (subst lex_append_less) (simp_all del: pad.simps)
  ultimately show ?thesis
    using assms by (auto simp: micro_text_def simp del: pad.simps)
qed

lemma clock_text_less:
  assumes "valid_datetime d" "valid_datetime e"
  shows "clock_text (hour d) (minute d) (second d) < clock_text (hour e) (minute e) (second e)
    \<longleftrightarrow> clock d < clock e"
    and "clock_text (hour d) (minute d) (second d) = clock_text (hour e) (minute e) (second e)
    \<longleftrightarrow> clock d = clock e"
proof -
  have b: "0 \<le> hour x" "hour x < 10 ^ 2" "0 \<le> minute x" "minute x < 60" "minute x < 10 ^ 2"
    "0 \<le> second x" "second x < 60" "second x < 10 ^ 2" if "valid_datetime x" for x
    using that by (simp_all add: valid_datetime_def)
  note bd = b [OF assms(1)] and be = b [OF assms(2)]
  have p: "pad 2 (hour d) < pad 2 (hour e) \<longleftrightarrow> hour d < hour e"
    "pad 2 (minute d) < pad 2 (minute e) \<longleftrightarrow> minute d < minute e"
    "pad 2 (second d) < pad 2 (second e) \<longleftrightarrow> second d < second e"
    "pad 2 (hour d) = pad 2 (hour e) \<longleftrightarrow> hour d = hour e"
    "pad 2 (minute d) = pad 2 (minute e) \<longleftrightarrow> minute d = minute e"
    "pad 2 (second d) = pad 2 (second e) \<longleftrightarrow> second d = second e"
    using bd be by (simp_all only: pad_less pad_eq_iff)
  have "clock_text (hour d) (minute d) (second d) < clock_text (hour e) (minute e) (second e) \<longleftrightarrow>
      pad 2 (hour d) < pad 2 (hour e) \<or> pad 2 (hour d) = pad 2 (hour e) \<and>
      (pad 2 (minute d) < pad 2 (minute e) \<or> pad 2 (minute d) = pad 2 (minute e) \<and>
       pad 2 (second d) < pad 2 (second e))"
    unfolding clock_text_def
    by (subst lex_append_less, simp only: length_pad, subst lex_append_less, simp only:,
        subst lex_append_less, simp only: length_pad, subst lex_append_less) auto
  then show "clock_text (hour d) (minute d) (second d) < clock_text (hour e) (minute e) (second e)
    \<longleftrightarrow> clock d < clock e"
    unfolding p clock_def using bd be
    by (cases "hour d" "hour e" rule: linorder_cases;
        cases "minute d" "minute e" rule: linorder_cases) auto
  have "clock_text (hour d) (minute d) (second d) = clock_text (hour e) (minute e) (second e)
      \<longleftrightarrow> hour d = hour e \<and> minute d = minute e \<and> second d = second e"
    unfolding clock_text_def by (simp add: p del: pad.simps)
  then show "clock_text (hour d) (minute d) (second d) = clock_text (hour e) (minute e) (second e)
    \<longleftrightarrow> clock d = clock e"
    unfolding clock_def using bd be
    by (cases "hour d" "hour e" rule: linorder_cases;
        cases "minute d" "minute e" rule: linorder_cases) auto
qed

theorem isoformat_less:
  assumes "is_utc d" "is_utc e"
  shows "isoformat d < isoformat e \<longleftrightarrow> instant d < instant e"
proof -
  have v: "valid_datetime d" "valid_datetime e" "valid_date (ddate d)" "valid_date (ddate e)"
    "offset d = Some 0" "offset e = Some 0"
    using assms by (auto simp: is_utc_def valid_datetime_def)
  have mb: "0 \<le> micro x \<and> micro x < 1000000 \<and> 0 \<le> clock x \<and> clock x < 86400" if "valid_datetime x" for x
    using that by (auto simp: valid_datetime_def clock_def)
  note bd = mb [OF v(1)] and be = mb [OF v(2)]
  have deq: "date_isoformat (ddate d) = date_isoformat (ddate e) \<longleftrightarrow> ddate d = ddate e"
    using date_isoformat_inj [OF v(3,4)] by auto
  have tail: "micro_text (micro d) @ ''+00:00'' < micro_text (micro e) @ ''+00:00'' \<longleftrightarrow> micro d < micro e"
    by (rule micro_tail_less) (use bd be in auto)
  have clock_len: "length (clock_text h m s) = 8" for h m s
    by (simp add: clock_text_def)
  have "isoformat d < isoformat e \<longleftrightarrow>
      date_isoformat (ddate d) < date_isoformat (ddate e) \<or>
      date_isoformat (ddate d) = date_isoformat (ddate e) \<and>
      clock_text (hour d) (minute d) (second d) @ micro_text (micro d) @ ''+00:00''
      < clock_text (hour e) (minute e) (second e) @ micro_text (micro e) @ ''+00:00''"
    unfolding isoformat_def v(5,6) offset_text_utc
    by (subst lex_append_less) simp_all
  also have "\<dots> \<longleftrightarrow>
      ddate d < ddate e \<or> ddate d = ddate e \<and> (clock d < clock e \<or> clock d = clock e \<and> micro d < micro e)"
    by (subst lex_append_less, simp only: clock_len)
      (simp only: date_isoformat_less [OF v(3,4)] deq clock_text_less [OF v(1,2)] tail)
  also have "\<dots> \<longleftrightarrow> ordinal (ddate d) < ordinal (ddate e) \<or> ordinal (ddate d) = ordinal (ddate e) \<and>
      (clock d < clock e \<or> clock d = clock e \<and> micro d < micro e)"
    using ordinal_less_iff [OF v(3,4)] from_ordinal_ordinal [OF v(3)] from_ordinal_ordinal [OF v(4)]
    by metis
  also have "\<dots> \<longleftrightarrow> instant d < instant e"
    using bd be by (simp add: instant_def v(5,6)) linarith
  finally show ?thesis .
qed

corollary isoformat_le:
  "is_utc d \<Longrightarrow> is_utc e \<Longrightarrow> isoformat d \<le> isoformat e \<longleftrightarrow> instant d \<le> instant e"
  using isoformat_less [of e d] by (simp add: not_less flip: not_le)

end
