(* ===== verification/RunModels.thy ===== *)
theory RunModels
  imports IsoText
begin

text \<open>
  Data of a resumable refresh run (\<open>db/refresh_run_models.py\<close>), the manifest versions
  (\<open>refresh_manifest.py\<close>) and the pure policies over it: retry classification
  (\<open>refresh_retry_policy.py\<close>) and provider eligibility (\<open>refresh_run_scheduler.py\<close>).
  Identifiers, categories and persisted timestamps are text, as in the source.
\<close>

type_synonym run_id = string
type_synonym cycle_id = string
type_synonym item_key = string
type_synonym claim_token = string
type_synonym timestamp = string

definition MAX_WORK_ITEM_ATTEMPTS :: nat where
  "MAX_WORK_ITEM_ATTEMPTS = 2"

datatype run_state = RunRunning | RunSucceeded | RunPartial | RunFailed

datatype final_state = FinalSucceeded | FinalPartial | FinalFailed

datatype cutoff_phase = PhaseDerived | PhaseMacroScore

datatype item_status = Pending | Claimed | Succeeded | Partial | Failed | Skipped

datatype item_outcome = OutSucceeded | OutPartial | OutFailed | OutSkipped

fun final_run_state :: "final_state \<Rightarrow> run_state" where
  "final_run_state FinalSucceeded = RunSucceeded"
| "final_run_state FinalPartial = RunPartial"
| "final_run_state FinalFailed = RunFailed"

fun outcome_status :: "item_outcome \<Rightarrow> item_status" where
  "outcome_status OutSucceeded = Succeeded"
| "outcome_status OutPartial = Partial"
| "outcome_status OutFailed = Failed"
| "outcome_status OutSkipped = Skipped"

record work_item_spec =
  spec_key :: item_key
  spec_task :: string
  spec_order :: int

record run_record =
  rr_id :: run_id
  rr_cycle :: cycle_id
  rr_state :: run_state
  rr_force :: bool
  rr_version :: string
  rr_derived_cutoff :: "timestamp option"
  rr_macro_cutoff :: "timestamp option"
  rr_created :: timestamp
  rr_updated :: timestamp
  rr_finished :: "timestamp option"
  rr_final_result :: "string option"

record work_item =
  wi_run :: run_id
  wi_key :: item_key
  wi_task :: string
  wi_order :: int
  wi_status :: item_status
  wi_attempt :: nat
  wi_token :: "claim_token option"
  wi_expires :: "timestamp option"
  wi_claimed :: "timestamp option"
  wi_created :: timestamp
  wi_updated :: timestamp
  wi_finished :: "timestamp option"
  wi_series :: int
  wi_records :: int
  wi_error :: "string option"
  wi_generation :: nat
  wi_acquisitions :: nat
  wi_next_at :: "timestamp option"
  wi_deferral :: "string option"
  wi_last_category :: "string option"
  wi_last_code :: "string option"

record run_snapshot =
  snap_run :: run_record
  snap_items :: "work_item list"
  snap_lease :: "timestamp option"

record claim_request =
  cr_run :: run_id
  cr_now :: string
  cr_expires :: string
  cr_expected :: "item_key option"

record completion =
  co_run :: run_id
  co_key :: item_key
  co_token :: claim_token
  co_status :: item_outcome
  co_finished :: string
  co_series :: int
  co_records :: int
  co_error :: "string option"
  co_category :: "string option"

record deferral =
  de_run :: run_id
  de_key :: item_key
  de_token :: claim_token
  de_next_at :: string
  de_reason :: string
  de_now :: string
  de_category :: "string option"
  de_code :: "string option"

record finalization =
  fi_run :: run_id
  fi_state :: final_state
  fi_result :: string
  fi_finished :: string
  fi_last_success :: "string option"

record cutoff_update =
  cu_run :: run_id
  cu_phase :: cutoff_phase
  cu_cutoff :: string
  cu_now :: string
  cu_lease :: string

datatype run_error =
    LeaseConflict run_id run_id
  | Idempotency run_id
  | CutoffOrder run_id
  | InputError string string
  | Persistence run_id
  | Integrity
  | NotFound run_id
  | PyError py_error

section \<open>Timestamps at the boundary\<close>

text \<open>
  \<open>utc_iso\<close> normalises an input timestamp to UTC text; a malformed or naive one is rejected.
\<close>

fun zulu_to_offset :: "string \<Rightarrow> string" where
  "zulu_to_offset [] = []"
| "zulu_to_offset (c # s) = (if c = CHR ''Z'' then ''+00:00'' @ zulu_to_offset s else c # zulu_to_offset s)"

definition utc_iso :: "string \<Rightarrow> string \<Rightarrow> run_error + timestamp" where
  "utc_iso v field =
     (case fromisoformat (zulu_to_offset v) of
        Inl e \<Rightarrow> Inl (InputError field v)
      | Inr d \<Rightarrow>
          (if offset d = None then Inl (InputError field v)
           else case astimezone_utc d of Inl e \<Rightarrow> Inl (PyError e) | Inr u \<Rightarrow> Inr (isoformat u)))"

lemma utc_iso_Inr:
  assumes "utc_iso v field = Inr t"
  obtains d u where "fromisoformat (zulu_to_offset v) = Inr d" "is_utc u"
    "instant u = instant d" "t = isoformat u"
  using assms from_instant_Inr
  by (force simp: utc_iso_def astimezone_utc_def split: sum.splits if_splits)

text \<open>Normalised timestamps are ordered as the instants of the inputs.\<close>

lemma utc_iso_less_iff:
  assumes "utc_iso v f = Inr t" "utc_iso w g = Inr s"
    and "fromisoformat (zulu_to_offset v) = Inr d" "fromisoformat (zulu_to_offset w) = Inr e"
  shows "t < s \<longleftrightarrow> instant d < instant e"
proof -
  obtain u where u: "is_utc u" "instant u = instant d" "t = isoformat u"
    using utc_iso_Inr [OF assms(1)] assms(3) by (metis sum.inject(2))
  obtain x where x: "is_utc x" "instant x = instant e" "s = isoformat x"
    using utc_iso_Inr [OF assms(2)] assms(4) by (metis sum.inject(2))
  show ?thesis using isoformat_less [OF u(1) x(1)] u x by simp
qed

lemma zulu_to_offset_id: "CHR ''Z'' \<notin> set s \<Longrightarrow> zulu_to_offset s = s"
  by (induction s) auto

lemma isoformat_no_zulu: "CHR ''Z'' \<notin> set (isoformat d)"
  by (auto simp: isoformat_def date_isoformat_def clock_text_def micro_text_def offset_text_def
      digit_val_def dest!: set_pad simp del: pad.simps split: option.splits if_splits)

lemma utc_iso_isoformat: "is_utc d \<Longrightarrow> utc_iso (isoformat d) f = Inr (isoformat d)"
  by (simp add: utc_iso_def zulu_to_offset_id isoformat_no_zulu isoformat_roundtrip is_utc_def
      astimezone_utc_def from_instant_instant)

section \<open>Manifest versions\<close>

definition CURRENT_REFRESH_MANIFEST_VERSION :: string where
  "CURRENT_REFRESH_MANIFEST_VERSION = ''daily-refresh-v6''"

definition LEGACY_REFRESH_MANIFEST_VERSIONS :: "string list" where
  "LEGACY_REFRESH_MANIFEST_VERSIONS =
     [''daily-refresh-v4'', ''daily-refresh-v5'', ''daily-refresh-v3'', ''daily-refresh-v2'',
      ''daily-refresh-v1'']"

definition SUPPORTED_REFRESH_MANIFEST_VERSIONS :: "string list" where
  "SUPPORTED_REFRESH_MANIFEST_VERSIONS =
     CURRENT_REFRESH_MANIFEST_VERSION # LEGACY_REFRESH_MANIFEST_VERSIONS"

definition is_v6 :: "string \<Rightarrow> bool" where
  "is_v6 v \<longleftrightarrow> v = CURRENT_REFRESH_MANIFEST_VERSION"

section \<open>Which provider a task acquires from\<close>

definition source_scope_prefixes :: "(string \<times> string) list" where
  "source_scope_prefixes =
     [(''tesouro'', ''tesouro''), (''focus'', ''focus''), (''anbima'', ''anbima''), (''b3'', ''b3''),
      (''ibge_sidra'', ''ibge_sidra'')]"

definition source_scope_for_task :: "string \<Rightarrow> string option" where
  "source_scope_for_task t =
     (if startswith t ''sgs_'' \<or> startswith t ''ipca_grupos'' then Some ''bcb_sgs:primary:primary''
      else map_option (\<lambda>(p, q). q @ '':primary:primary'')
             (find (\<lambda>(p, q). t = p \<or> startswith t (p @ ''_'')) source_scope_prefixes))"

section \<open>Retry policy\<close>

definition RETRYABLE_FAILED_CATEGORIES :: "string list" where
  "RETRYABLE_FAILED_CATEGORIES = [''network_timeout'', ''network_reset'', ''temporary_server_error'']"

definition PERMANENT_FAILED_CATEGORIES :: "string list" where
  "PERMANENT_FAILED_CATEGORIES =
     [''invalid_schema'', ''semantic_conflict'', ''incomplete_coverage'', ''authentication_error'',
      ''configuration_error'', ''forbidden_host'', ''envelope_error'']"

definition failed_item_is_retryable :: "string option \<Rightarrow> nat \<Rightarrow> nat \<Rightarrow> bool" where
  "failed_item_is_retryable c acq mx \<longleftrightarrow>
     (case c of None \<Rightarrow> False | Some k \<Rightarrow> k \<in> set RETRYABLE_FAILED_CATEGORIES) \<and> acq < mx"

definition failed_item_is_resolved :: "string option \<Rightarrow> nat \<Rightarrow> nat \<Rightarrow> bool" where
  "failed_item_is_resolved c acq mx \<longleftrightarrow> \<not> failed_item_is_retryable c acq mx"

definition failed_work_item_is_retryable ::
    "string option \<Rightarrow> string option \<Rightarrow> nat \<Rightarrow> nat \<Rightarrow> nat \<Rightarrow> bool" where
  "failed_work_item_is_retryable task c acq att mx \<longleftrightarrow>
     (case task of
        Some t \<Rightarrow> if source_scope_for_task t = None then att < mx else failed_item_is_retryable c acq mx
      | None \<Rightarrow> failed_item_is_retryable c acq mx)"

definition failed_work_item_is_resolved ::
    "string option \<Rightarrow> string option \<Rightarrow> nat \<Rightarrow> nat \<Rightarrow> nat \<Rightarrow> bool" where
  "failed_work_item_is_resolved task c acq att mx \<longleftrightarrow>
     \<not> failed_work_item_is_retryable task c acq att mx"

end
