(* ===== verification/SgsModels.thy ===== *)
theory SgsModels
  imports RunModels
begin

text \<open>
  Data of a frozen SGS plan and its persisted form (\<open>db/sgs_refresh_plan.py\<close>): units, plans, the JSON
  object a plan is stored as, its digest and the task name of a unit. JSON text and SHA-256 are the
  arguments \<open>dumps\<close>, \<open>loads\<close> and \<open>sha256\<close> of a \<open>codec\<close>; everything above the JSON value is modelled.
  A float in a JSON value is its fraction in lowest terms.
\<close>

datatype json =
    JNull
  | JBool bool
  | JNum int
  | JFloat "int \<times> int"
  | JStr string
  | JArr "json list"
  | JObj "(string \<times> json) list"

record codec =
  dumps :: "json \<Rightarrow> string"
  loads :: "string \<Rightarrow> py_error + json"
  sha256 :: "string \<Rightarrow> string"

datatype role = Recent | ArchiveBackfill | ArchiveReconcile

fun role_text :: "role \<Rightarrow> string" where
  "role_text Recent = ''recent''"
| "role_text ArchiveBackfill = ''archive_backfill''"
| "role_text ArchiveReconcile = ''archive_reconcile''"

definition PLAN_VERSION :: string where
  "PLAN_VERSION = ''sgs-incremental-plan-v1''"

definition POLICY_VERSION :: string where
  "POLICY_VERSION = ''sgs-coverage-policy-v3''"

definition V2_POLICY_VERSION :: string where
  "V2_POLICY_VERSION = ''sgs-coverage-policy-v2''"

definition LEGACY_POLICY_VERSION :: string where
  "LEGACY_POLICY_VERSION = ''sgs-coverage-policy-v1''"

definition SUPPORTED_POLICY_VERSIONS :: "string list" where
  "SUPPORTED_POLICY_VERSIONS = [LEGACY_POLICY_VERSION, V2_POLICY_VERSION, POLICY_VERSION]"

definition MAX_ARCHIVE_UNITS_PER_RUN :: nat where
  "MAX_ARCHIVE_UNITS_PER_RUN = 4"

definition ARCHIVE_REVERIFY_DAYS :: int where
  "ARCHIVE_REVERIFY_DAYS = 365"

record sgs_unit =
  u_id :: string
  u_ordinal :: int
  u_role :: role
  u_code :: int
  u_key :: string
  u_group :: string
  u_freshness :: int
  u_policy :: string
  u_contract_version :: string
  u_contract_id :: string
  u_identity :: string
  u_unit :: string
  u_method :: string
  u_frequency :: string
  u_start :: date
  u_end :: date
  u_avail_start :: "date option"
  u_avail_documented :: "date option"
  u_registry_version :: "string option"
  u_observed_on :: "date option"
  u_basis :: "string option"
  u_source_url :: "string option"
  u_detail_url :: "string option"
  u_registry_sha :: "string option"
  u_approved_start :: "date option"

record sgs_plan =
  p_version :: string
  p_policy :: string
  p_as_of :: date
  p_units :: "sgs_unit list"

text \<open>
  Evidence: the receipt written with the observations of a unit, and the coverage receipt promoted from
  it. Their dates are stored as ISO text; the model keeps the dates, since the text is faithful
  (theory \<open>TextOrder\<close>).
\<close>

record unit_commit =
  uc_operation :: string
  uc_extraction :: string
  uc_run :: run_id
  uc_unit :: string
  uc_plan :: string
  uc_code :: int
  uc_contract_id :: string
  uc_contract_version :: string
  uc_identity :: string
  uc_role :: role
  uc_policy :: string
  uc_start :: date
  uc_end :: date
  uc_payload :: string
  uc_canonical :: string
  uc_count :: int
  uc_ref_start :: date
  uc_ref_end :: date
  uc_captured :: datetime

record coverage_receipt =
  cv_operation :: string
  cv_run :: run_id
  cv_unit :: string
  cv_source :: string
  cv_code :: int
  cv_contract_id :: string
  cv_contract_version :: string
  cv_identity :: string
  cv_role :: role
  cv_policy :: string
  cv_start :: date
  cv_end :: date
  cv_payload :: string
  cv_count :: int
  cv_captured :: datetime
  cv_ref_start :: "date option"
  cv_ref_end :: "date option"
  cv_business :: string

section \<open>The persisted form\<close>

text \<open>
  JSON objects are kept with their keys in order, which is what \<open>sort_keys=True\<close> writes and what reading
  gives back.
\<close>

definition json_obj :: "(string \<times> json) list \<Rightarrow> json" where
  "json_obj kvs = JObj (sort_key fst kvs)"

definition json_opt :: "string option \<Rightarrow> json" where
  "json_opt s = (case s of None \<Rightarrow> JNull | Some x \<Rightarrow> JStr x)"

definition json_date_opt :: "date option \<Rightarrow> json" where
  "json_date_opt d = json_opt (map_option date_isoformat d)"

definition unit_base_json :: "sgs_unit \<Rightarrow> (string \<times> json) list" where
  "unit_base_json u =
     [(''unit_id'', JStr (u_id u)), (''ordinal'', JNum (u_ordinal u)),
      (''role'', JStr (role_text (u_role u))), (''series_code'', JNum (u_code u)),
      (''indicator_key'', JStr (u_key u)), (''group_name'', JStr (u_group u)),
      (''freshness_days'', JNum (u_freshness u)), (''policy_version'', JStr (u_policy u)),
      (''contract_version'', JStr (u_contract_version u)), (''contract_id'', JStr (u_contract_id u)),
      (''identity_kind'', JStr (u_identity u)), (''unit'', JStr (u_unit u)),
      (''method'', JStr (u_method u)), (''frequency'', JStr (u_frequency u)),
      (''start_date'', JStr (date_isoformat (u_start u))), (''end_date'', JStr (date_isoformat (u_end u)))]"

definition unit_availability_json :: "sgs_unit \<Rightarrow> (string \<times> json) list" where
  "unit_availability_json u =
     [(''availability_start'', json_date_opt (u_avail_start u)),
      (''availability_documented_start'', json_date_opt (u_avail_documented u)),
      (''availability_registry_version'', json_opt (u_registry_version u)),
      (''availability_observed_on'', json_date_opt (u_observed_on u)),
      (''availability_basis'', json_opt (u_basis u)),
      (''availability_source_url'', json_opt (u_source_url u)),
      (''availability_detail_url'', json_opt (u_detail_url u)),
      (''availability_registry_sha256'', json_opt (u_registry_sha u)),
      (''approved_history_start'', json_date_opt (u_approved_start u))]"

definition unit_json :: "string \<Rightarrow> sgs_unit \<Rightarrow> json" where
  "unit_json policy u =
     json_obj (unit_base_json u @
       (if policy = LEGACY_POLICY_VERSION \<or> policy = V2_POLICY_VERSION then []
        else unit_availability_json u))"

definition plan_json :: "sgs_plan \<Rightarrow> json" where
  "plan_json p =
     json_obj [(''plan_version'', JStr (p_version p)), (''policy_version'', JStr (p_policy p)),
           (''as_of'', JStr (date_isoformat (p_as_of p))),
           (''units'', JArr (map (unit_json (p_policy p)) (p_units p)))]"

definition plan_text :: "codec \<Rightarrow> sgs_plan \<Rightarrow> string" where
  "plan_text c p = dumps c (plan_json p)"

definition plan_digest :: "codec \<Rightarrow> sgs_plan \<Rightarrow> string" where
  "plan_digest c p = sha256 c (plan_text c p)"

definition plan_item_task_name :: "sgs_unit \<Rightarrow> string" where
  "plan_item_task_name u = ''sgs_plan_'' @ replace_char (CHR '':'') (CHR ''_'') (u_id u)"

lemma plan_item_task_name_scope:
  "source_scope_for_task (plan_item_task_name u) = Some ''bcb_sgs:primary:primary''"
  by (simp add: source_scope_for_task_def plan_item_task_name_def startswith_def)

end
