(* ===== verification/Scheduler.thy ===== *)
theory Scheduler
  imports RunModels
begin

text \<open>
  Read-only eligibility of a provider (\<open>refresh_run_scheduler.py\<close>). A breaker row reaches this code
  as a mapping of untyped column values: SQLite delivers timestamps as text, PostgreSQL delivers
  the \<open>TIMESTAMPTZ\<close> columns as datetime objects. \<open>db_value\<close> keeps the two apart, because the code
  does: only text is read as a timestamp.
\<close>

datatype db_value = VNull | VText string | VTime datetime

record access_view =
  av_state :: string
  av_retry :: db_value
  av_opened :: db_value
  av_probe :: db_value

type_synonym eligibility = "bool \<times> string option \<times> string option"

definition parse_timestamp :: "db_value \<Rightarrow> py_error + datetime option" where
  "parse_timestamp v =
     (case v of
        VText s \<Rightarrow>
          (case fromisoformat (zulu_to_offset s) of
             Inl e \<Rightarrow> Inr None
           | Inr d \<Rightarrow> if offset d = None then Inr None else bindE (astimezone_utc d) (\<lambda>u. Inr (Some u)))
      | _ \<Rightarrow> Inr None)"

definition later :: "datetime \<Rightarrow> datetime \<Rightarrow> datetime" where
  "later a b = (if instant a < instant b then b else a)"

fun latest :: "datetime option list \<Rightarrow> datetime option" where
  "latest [] = None"
| "latest (None # xs) = latest xs"
| "latest (Some x # xs) = (case latest xs of None \<Rightarrow> Some x | Some y \<Rightarrow> Some (later x y))"

definition in_future :: "datetime option \<Rightarrow> datetime \<Rightarrow> bool" where
  "in_future d now = (case d of None \<Rightarrow> False | Some x \<Rightarrow> instant now < instant x)"

definition provider_eligibility :: "access_view option \<Rightarrow> datetime \<Rightarrow> py_error + eligibility" where
  "provider_eligibility state now =
     (case state of None \<Rightarrow> Inr (True, None, None)
      | Some s \<Rightarrow>
          bindE (parse_timestamp (av_retry s)) (\<lambda>retry_at.
          bindE (parse_timestamp (av_opened s)) (\<lambda>opened_until.
          bindE (parse_timestamp (av_probe s)) (\<lambda>lease_until.
            let next_at = latest [retry_at, opened_until]
            in if av_state s = ''closed'' then Inr (True, None, None)
               else if in_future lease_until now
               then Inr (False, map_option isoformat lease_until, Some ''probe_lease_active'')
               else if in_future next_at now
               then Inr (False, map_option isoformat next_at, Some ''publisher_cooldown'')
               else Inr (True, None, None)))))"

definition item_eligibility ::
    "string \<Rightarrow> (string \<rightharpoonup> access_view) \<Rightarrow> datetime \<Rightarrow> py_error + eligibility" where
  "item_eligibility task states now =
     provider_eligibility
       (case source_scope_for_task task of None \<Rightarrow> None | Some scope \<Rightarrow> states scope) now"

section \<open>What an answer means\<close>

lemma parse_timestamp_utc: "parse_timestamp v = Inr (Some d) \<Longrightarrow> is_utc d"
  using from_instant_Inr(1)
  by (force simp: parse_timestamp_def astimezone_utc_def bindE_Inr_iff
      split: db_value.splits sum.splits if_splits)

lemma parse_timestamp_isoformat: "is_utc d \<Longrightarrow> parse_timestamp (VText (isoformat d)) = Inr (Some d)"
  by (simp add: parse_timestamp_def zulu_to_offset_id isoformat_no_zulu isoformat_roundtrip
      is_utc_def astimezone_utc_def from_instant_instant)

lemma latest_mem: "latest xs = Some d \<Longrightarrow> Some d \<in> set xs"
  by (induction xs arbitrary: d rule: latest.induct) (auto simp: later_def split: option.splits if_splits)

lemma latest_ge: "Some x \<in> set xs \<Longrightarrow> \<exists>d. latest xs = Some d \<and> instant x \<le> instant d"
proof (induction xs rule: latest.induct)
  case (3 y xs)
  then show ?case by (cases "latest xs") (force simp: later_def)+
qed auto

lemma in_future_latest_iff:
  "in_future (latest xs) now \<longleftrightarrow> (\<exists>x. Some x \<in> set xs \<and> instant now < instant x)"
  using latest_ge latest_mem
  by (fastforce simp: in_future_def split: option.splits)

lemma in_future_NoneD [simp]: "in_future None now = False"
  by (simp add: in_future_def)

lemma in_future_Some [simp]: "in_future (Some x) now = (instant now < instant x)"
  by (simp add: in_future_def)

lemma provider_eligibility_closed:
  "provider_eligibility (Some s) now = Inr r \<Longrightarrow> av_state s = ''closed'' \<Longrightarrow> r = (True, None, None)"
  by (auto simp: provider_eligibility_def bindE_Inr_iff)

text \<open>A refusal names the future instant at which to ask again.\<close>

lemma provider_refusal:
  assumes "provider_eligibility state now = Inr (False, at, reason)"
  shows "\<exists>d. at = Some (isoformat d) \<and> is_utc d \<and> instant now < instant d
    \<and> reason \<in> {Some ''probe_lease_active'', Some ''publisher_cooldown''}"
proof -
  from assms obtain s ra oa la where s: "state = Some s"
    and p: "parse_timestamp (av_retry s) = Inr ra" "parse_timestamp (av_opened s) = Inr oa"
      "parse_timestamp (av_probe s) = Inr la"
    and b: "in_future la now \<and> at = map_option isoformat la \<and> reason = Some ''probe_lease_active'' \<or>
      in_future (latest [ra, oa]) now \<and> at = map_option isoformat (latest [ra, oa])
        \<and> reason = Some ''publisher_cooldown''"
    by (auto simp: provider_eligibility_def bindE_Inr_iff Let_def split: option.splits if_splits)
  from b show ?thesis
  proof
    assume "in_future la now \<and> at = map_option isoformat la \<and> reason = Some ''probe_lease_active''"
    then show ?thesis
      using p(3) parse_timestamp_utc by (cases la) auto
  next
    assume l: "in_future (latest [ra, oa]) now \<and> at = map_option isoformat (latest [ra, oa])
      \<and> reason = Some ''publisher_cooldown''"
    then obtain d where d: "latest [ra, oa] = Some d" by (cases "latest [ra, oa]") auto
    then have "Some d \<in> set [ra, oa]" by (rule latest_mem)
    then have "is_utc d" using p parse_timestamp_utc by auto
    with l d show ?thesis by auto
  qed
qed

text \<open>Values that are not text never hold a provider back.\<close>

definition not_text :: "db_value \<Rightarrow> bool" where
  "not_text v = (case v of VText _ \<Rightarrow> False | _ \<Rightarrow> True)"

lemma parse_timestamp_not_text: "not_text v \<Longrightarrow> parse_timestamp v = Inr None"
  by (cases v) (simp_all add: not_text_def parse_timestamp_def)

lemma provider_eligibility_not_text:
  "not_text (av_retry s) \<Longrightarrow> not_text (av_opened s) \<Longrightarrow> not_text (av_probe s) \<Longrightarrow>
    provider_eligibility (Some s) now = Inr (True, None, None)"
  by (simp add: provider_eligibility_def parse_timestamp_not_text Let_def)

end
