(* ===== verification/Breaker.thy ===== *)
theory Breaker
  imports Scheduler
begin

text \<open>
  The persistent circuit breaker of a provider scope (\<open>source_access_state\<close> in \<open>db/store.py\<close>): the
  admission upsert, the failure and success upserts and the probe release. Rows are keyed by scope.
  The time column is a parameter of the row, since the SQL compares text on SQLite and
  \<open>timestamptz\<close> on PostgreSQL: any linear order will do.
\<close>

datatype breaker_state = Closed | Open | HalfOpen

fun breaker_text :: "breaker_state \<Rightarrow> string" where
  "breaker_text Closed = ''closed''"
| "breaker_text Open = ''open''"
| "breaker_text HalfOpen = ''half_open''"

record 't access_row =
  ar_failures :: nat
  ar_state :: breaker_state
  ar_opened :: "'t option"
  ar_retry :: "'t option"
  ar_probe :: "'t option"
  ar_updated :: 't
  ar_generation :: nat

type_synonym 't access_table = "string \<rightharpoonup> 't access_row"

definition passed :: "'t::linorder option \<Rightarrow> 't \<Rightarrow> bool" where
  "passed c now = (case c of None \<Rightarrow> True | Some e \<Rightarrow> e \<le> now)"

lemma passed_simps [simp]: "passed None now" "passed (Some e) now = (e \<le> now)"
  by (simp_all add: passed_def)

section \<open>Admission\<close>

definition may_admit :: "'t::linorder \<Rightarrow> 't access_row \<Rightarrow> bool" where
  "may_admit now r \<longleftrightarrow> ar_state r = Closed
     \<or> (ar_state r = Open \<and> passed (ar_opened r) now \<and> passed (ar_retry r) now \<and> passed (ar_probe r) now)
     \<or> (ar_state r = HalfOpen \<and> passed (ar_probe r) now)"

definition admit_row :: "'t \<Rightarrow> 't \<Rightarrow> 't access_row \<Rightarrow> 't access_row" where
  "admit_row now lease r = r\<lparr>
     ar_state := (if ar_state r = Closed then Closed else HalfOpen),
     ar_probe := (if ar_state r = Closed then ar_probe r else Some lease),
     ar_updated := now, ar_generation := ar_generation r + 1\<rparr>"

definition new_row :: "nat \<Rightarrow> breaker_state \<Rightarrow> 't option \<Rightarrow> 't option \<Rightarrow> 't \<Rightarrow> 't access_row" where
  "new_row failures st opened retry now =
     \<lparr>ar_failures = failures, ar_state = st, ar_opened = opened, ar_retry = retry,
      ar_probe = None, ar_updated = now, ar_generation = 0\<rparr>"

type_synonym 't admission = "bool \<times> 't option \<times> bool \<times> nat option"

definition claim_source_access_probe ::
    "string \<Rightarrow> 't::linorder \<Rightarrow> 't \<Rightarrow> 't access_table \<Rightarrow> 't admission \<times> 't access_table" where
  "claim_source_access_probe scope now lease t =
     (case t scope of
        None \<Rightarrow>
          (let r = new_row 0 Closed None None now
           in ((True, ar_retry r, ar_state r = HalfOpen, Some (ar_generation r)), t(scope \<mapsto> r)))
      | Some r \<Rightarrow>
          if may_admit now r then
            (let r' = admit_row now lease r
             in ((True, ar_retry r', ar_state r' = HalfOpen, Some (ar_generation r')), t(scope \<mapsto> r')))
          else ((False, ar_retry r, False, None), t))"

section \<open>Outcomes\<close>

definition record_source_access_failure ::
    "string \<Rightarrow> 't \<Rightarrow> 't \<Rightarrow> 't option \<Rightarrow> bool \<Rightarrow> int \<Rightarrow> 't access_table \<Rightarrow> 't access_table" where
  "record_source_access_failure scope now opened_until retry rate_limited failure_count t =
     (let failures = (if rate_limited then 0 else nat (max 1 (min failure_count 3)));
          cooldown = (retry \<noteq> None)
      in case t scope of
           None \<Rightarrow>
             (let st = (if rate_limited \<or> cooldown \<or> 3 \<le> failures then Open else Closed)
              in t(scope \<mapsto> new_row failures st (if st = Open then Some opened_until else None) retry now))
         | Some r \<Rightarrow>
             (let opens = (rate_limited \<or> cooldown \<or> (\<not> rate_limited \<and> 3 \<le> ar_failures r + failures))
              in t(scope \<mapsto> r\<lparr>
                   ar_failures := (if rate_limited then ar_failures r else ar_failures r + failures),
                   ar_state := (if opens then Open else Closed),
                   ar_opened := (if opens then Some opened_until else None),
                   ar_retry := (if cooldown then retry else ar_retry r),
                   ar_probe := None, ar_updated := now,
                   ar_generation := ar_generation r + 1\<rparr>)))"

definition record_source_access_success ::
    "string \<Rightarrow> 't::linorder \<Rightarrow> nat option \<Rightarrow> 't access_table \<Rightarrow> bool \<times> 't access_table" where
  "record_source_access_success scope now generation t =
     (case generation of
        None \<Rightarrow> (False, t)
      | Some g \<Rightarrow>
          (case t scope of
             None \<Rightarrow> (True, t(scope \<mapsto> new_row 0 Closed None None now))
           | Some r \<Rightarrow>
               if ar_generation r = g then
                 (let cooling = (case ar_retry r of None \<Rightarrow> False | Some x \<Rightarrow> now < x)
                  in (True, t(scope \<mapsto> r\<lparr>
                        ar_failures := 0, ar_state := (if cooling then Open else Closed),
                        ar_opened := (if cooling then ar_opened r else None),
                        ar_retry := (if cooling then ar_retry r else None),
                        ar_probe := None, ar_updated := max (ar_updated r) now\<rparr>)))
               else (False, t)))"

definition release_source_access_probe ::
    "string \<Rightarrow> 't \<Rightarrow> 't \<Rightarrow> 't access_table \<Rightarrow> 't access_table" where
  "release_source_access_probe scope now opened_until t =
     (case t scope of
        Some r \<Rightarrow>
          if ar_state r = HalfOpen
          then t(scope \<mapsto> r\<lparr>ar_state := Open, ar_opened := Some opened_until, ar_probe := None,
                               ar_updated := now\<rparr>)
          else t
      | None \<Rightarrow> t)"

lemmas breaker_defs =
  claim_source_access_probe_def record_source_access_failure_def record_source_access_success_def
  release_source_access_probe_def may_admit_def admit_row_def new_row_def Let_def

section \<open>Operations as one step function\<close>

datatype 't breaker_op =
    Admit 't 't
  | Failure 't 't "'t option" bool int
  | Success 't "nat option"
  | Release 't 't

fun breaker_step :: "string \<Rightarrow> 't::linorder breaker_op \<Rightarrow> 't access_table \<Rightarrow> 't access_table" where
  "breaker_step scope (Admit now lease) t = snd (claim_source_access_probe scope now lease t)"
| "breaker_step scope (Failure now until retry limited n) t =
     record_source_access_failure scope now until retry limited n t"
| "breaker_step scope (Success now g) t = snd (record_source_access_success scope now g t)"
| "breaker_step scope (Release now until) t = release_source_access_probe scope now until t"

text \<open>Other scopes are untouched.\<close>

lemma breaker_step_frame: "other \<noteq> scope \<Longrightarrow> breaker_step scope op t other = t other"
  by (cases op) (auto simp: breaker_defs split: option.splits)

definition row_inv :: "'t access_row \<Rightarrow> bool" where
  "row_inv r \<longleftrightarrow>
     (ar_state r = Closed \<longrightarrow> ar_failures r < 3 \<and> ar_opened r = None \<and> ar_probe r = None) \<and>
     (ar_state r = HalfOpen \<longrightarrow> ar_probe r \<noteq> None)"

definition table_inv :: "'t access_table \<Rightarrow> bool" where
  "table_inv t \<longleftrightarrow> (\<forall>s r. t s = Some r \<longrightarrow> row_inv r)"

lemma row_inv_new: "row_inv (new_row f st o' r' n) \<longleftrightarrow>
    (st = Closed \<longrightarrow> f < 3 \<and> o' = None) \<and> st \<noteq> HalfOpen"
  by (auto simp: row_inv_def new_row_def)

lemma row_inv_admit: "row_inv r \<Longrightarrow> row_inv (admit_row now lease r)"
  by (auto simp: row_inv_def admit_row_def)

lemma table_inv_upd: "table_inv t \<Longrightarrow> row_inv r \<Longrightarrow> table_inv (t(s \<mapsto> r))"
  by (auto simp: table_inv_def)

lemma table_inv_get: "table_inv t \<Longrightarrow> t s = Some r \<Longrightarrow> row_inv r"
  by (auto simp: table_inv_def)

lemma claim_inv: "table_inv t \<Longrightarrow> table_inv (snd (claim_source_access_probe scope now lease t))"
  by (auto simp: claim_source_access_probe_def Let_def row_inv_new
      intro!: table_inv_upd row_inv_admit dest: table_inv_get split: option.splits)

lemma failure_inv:
  "table_inv t \<Longrightarrow> table_inv (record_source_access_failure scope now until retry limited n t)"
  by (cases "t scope")
    (auto simp: record_source_access_failure_def Let_def new_row_def row_inv_def intro!: table_inv_upd)

lemma success_inv: "table_inv t \<Longrightarrow> table_inv (snd (record_source_access_success scope now g t))"
  by (auto simp: record_source_access_success_def Let_def new_row_def row_inv_def
      intro!: table_inv_upd split: option.splits)

lemma release_inv: "table_inv t \<Longrightarrow> table_inv (release_source_access_probe scope now until t)"
  by (auto simp: release_source_access_probe_def row_inv_def intro!: table_inv_upd split: option.splits)

lemma breaker_step_inv: "table_inv t \<Longrightarrow> table_inv (breaker_step scope op t)"
  by (cases op) (auto intro: claim_inv failure_inv success_inv release_inv)

end
