(* ===== verification/RunStore.thy ===== *)
theory RunStore
  imports SgsModels Breaker
begin

text \<open>
  The database of the refresh engine: one field per table the engine writes. Tables with a text
  primary key that the code only looks up are maps; tables it scans are lists of rows. A write
  transaction is a function to \<open>run_error + 'a \<times> db\<close>: \<open>Inl\<close> is an exception, which rolls back, so no
  database is returned; SQLite opens it with \<open>BEGIN IMMEDIATE\<close>, so operations are atomic steps.
  Column types are the schema's, hence the type checks of \<open>refresh_run_sql.py\<close> never fire.
\<close>

record lease =
  le_owner :: string
  le_expires :: timestamp

record task_row =
  ts_provider :: string
  ts_started :: "timestamp option"
  ts_finished :: "timestamp option"
  ts_last_attempt :: "timestamp option"
  ts_last_success :: "timestamp option"
  ts_status :: string
  ts_expected :: int
  ts_series :: int
  ts_records :: int
  ts_duration :: int
  ts_error :: "string option"

record plan_row =
  pr_version :: string
  pr_as_of :: string
  pr_json :: string
  pr_sha :: string
  pr_created :: timestamp

record unit_row =
  ur_run :: run_id
  ur_unit :: sgs_unit
  ur_status :: string
  ur_error :: "string option"
  ur_updated :: timestamp

record attempt_row =
  at_id :: string
  at_run :: run_id
  at_item :: item_key
  at_number :: nat
  at_generation :: nat
  at_token :: claim_token
  at_expires :: timestamp
  at_started :: timestamp
  at_stage :: string
  at_outcome :: "string option"
  at_terminal :: "timestamp option"
  at_error :: "string option"
  at_committed :: "int option"
  at_source_date :: "string option"
  at_outbound :: "timestamp option"

record milestone_row =
  ml_attempt :: string
  ml_stage :: string
  ml_at :: timestamp
  ml_outcome :: string
  ml_detail :: "string option"

record reconciliation_row =
  rc_attempt :: string
  rc_at :: timestamp
  rc_outcome :: string
  rc_count :: "int option"
  rc_source_date :: "string option"
  rc_evidence :: string

text \<open>What a source acquisition leaves: its extraction row, and the receipt of its business commit.\<close>

record extraction_row =
  et_id :: string
  et_attempt :: "string option"
  et_run :: "string option"
  et_task :: "string option"
  et_source_date :: "string option"

record source_commit =
  sc_route :: string
  sc_candidate :: "string option"
  sc_count :: int
  sc_payload :: string
  sc_committed :: timestamp

record treasury_commit =
  ty_extraction :: string
  ty_count :: int
  ty_reference_max :: string

record canary_binding =
  cb_operation :: string
  cb_candidate :: string
  cb_as_of :: string
  cb_plan :: string
  cb_proof :: string
  cb_contract_version :: string
  cb_profile :: string
  cb_parser :: string
  cb_period :: "string option"
  cb_captured :: string
  cb_requests :: int
  cb_inserted :: int
  cb_updated :: int
  cb_bound :: string

record db =
  db_runs :: "run_record list"
  db_items :: "work_item list"
  db_leases :: "string \<rightharpoonup> lease"
  db_tasks :: "string \<rightharpoonup> task_row"
  db_meta :: "string \<rightharpoonup> string"
  db_plans :: "run_id \<rightharpoonup> plan_row"
  db_units :: "unit_row list"
  db_access :: "string access_table"
  db_attempts :: "attempt_row list"
  db_milestones :: "milestone_row list"
  db_reconciliations :: "reconciliation_row list"
  db_unit_commits :: "unit_commit list"
  db_coverage :: "coverage_receipt list"
  db_cursor :: "int option"
  db_extractions :: "extraction_row list"
  db_source_commits :: "string \<rightharpoonup> source_commit"
  db_treasury_commits :: "treasury_commit list"
  db_bindings :: "string \<rightharpoonup> canary_binding"

definition empty_db :: db where
  "empty_db = \<lparr>db_runs = [], db_items = [], db_leases = Map.empty, db_tasks = Map.empty,
     db_meta = Map.empty, db_plans = Map.empty, db_units = [], db_access = Map.empty,
     db_attempts = [], db_milestones = [], db_reconciliations = [],
     db_unit_commits = [], db_coverage = [], db_cursor = None, db_extractions = [],
     db_source_commits = Map.empty, db_treasury_commits = [], db_bindings = Map.empty\<rparr>"

definition DAILY_REFRESH_LEASE :: string where
  "DAILY_REFRESH_LEASE = ''daily_refresh''"

section \<open>Reading\<close>

definition find_run :: "db \<Rightarrow> run_id \<Rightarrow> run_record option" where
  "find_run d r = find (\<lambda>x. rr_id x = r) (db_runs d)"

definition run_items :: "db \<Rightarrow> run_id \<Rightarrow> work_item list" where
  "run_items d r = sort_key wi_order (filter (\<lambda>i. wi_run i = r) (db_items d))"

definition find_item :: "db \<Rightarrow> run_id \<Rightarrow> item_key \<Rightarrow> work_item option" where
  "find_item d r k = find (\<lambda>i. wi_run i = r \<and> wi_key i = k) (db_items d)"

definition owned_lease :: "db \<Rightarrow> run_id \<Rightarrow> timestamp option" where
  "owned_lease d r =
     (case db_leases d DAILY_REFRESH_LEASE of
        None \<Rightarrow> None
      | Some l \<Rightarrow> if le_owner l = r then Some (le_expires l) else None)"

definition read_snapshot :: "db \<Rightarrow> run_id \<Rightarrow> run_snapshot option" where
  "read_snapshot d r =
     (case find_run d r of
        None \<Rightarrow> None
      | Some run \<Rightarrow> Some \<lparr>snap_run = run, snap_items = run_items d r, snap_lease = owned_lease d r\<rparr>)"

lemma find_run_SomeD: "find_run d r = Some x \<Longrightarrow> x \<in> set (db_runs d) \<and> rr_id x = r"
  by (auto simp: find_run_def find_Some_iff)

lemma find_run_NoneD: "find_run d r = None \<Longrightarrow> x \<in> set (db_runs d) \<Longrightarrow> rr_id x \<noteq> r"
  by (auto simp: find_run_def find_None_iff)

lemma find_item_SomeD:
  "find_item d r k = Some x \<Longrightarrow> x \<in> set (db_items d) \<and> wi_run x = r \<and> wi_key x = k"
  by (auto simp: find_item_def find_Some_iff)

lemma set_run_items [simp]: "set (run_items d r) = {i \<in> set (db_items d). wi_run i = r}"
  by (auto simp: run_items_def)

lemma read_snapshot_SomeD:
  "read_snapshot d r = Some s \<Longrightarrow>
    find_run d r = Some (snap_run s) \<and> snap_items s = run_items d r \<and> snap_lease s = owned_lease d r"
  by (auto simp: read_snapshot_def split: option.splits)

section \<open>Writing\<close>

definition set_runs :: "(run_record \<Rightarrow> bool) \<Rightarrow> (run_record \<Rightarrow> run_record) \<Rightarrow> db \<Rightarrow> db" where
  "set_runs P f d = d\<lparr>db_runs := update_where P f (db_runs d)\<rparr>"

definition set_items :: "(work_item \<Rightarrow> bool) \<Rightarrow> (work_item \<Rightarrow> work_item) \<Rightarrow> db \<Rightarrow> db" where
  "set_items P f d = d\<lparr>db_items := update_where P f (db_items d)\<rparr>"

definition set_lease :: "string \<Rightarrow> lease option \<Rightarrow> db \<Rightarrow> db" where
  "set_lease k l d = d\<lparr>db_leases := (db_leases d)(k := l)\<rparr>"

definition put_meta :: "string \<Rightarrow> string \<Rightarrow> db \<Rightarrow> db" where
  "put_meta k v d = d\<lparr>db_meta := (db_meta d)(k \<mapsto> v)\<rparr>"

text \<open>\<open>UPDATE refresh_task_status SET status = 'error' .. WHERE task = ? AND status = 'running'\<close>\<close>

definition fail_running_task :: "timestamp option \<Rightarrow> string option \<Rightarrow> string \<Rightarrow> db \<Rightarrow> db" where
  "fail_running_task finished err task d =
     (case db_tasks d task of
        Some r \<Rightarrow>
          if ts_status r = ''running'' then
            d\<lparr>db_tasks := (db_tasks d)(task \<mapsto>
                r\<lparr>ts_status := ''error'', ts_finished := finished, ts_error := err\<rparr>)\<rparr>
          else d
      | None \<Rightarrow> d)"

definition fail_running_tasks :: "timestamp option \<Rightarrow> string option \<Rightarrow> string list \<Rightarrow> db \<Rightarrow> db" where
  "fail_running_tasks finished err ts d = fold (fail_running_task finished err) ts d"

lemmas write_defs = set_runs_def set_items_def set_lease_def put_meta_def

lemma set_runs_sel [simp]:
  "db_runs (set_runs P f d) = update_where P f (db_runs d)"
  "db_items (set_runs P f d) = db_items d"
  "db_leases (set_runs P f d) = db_leases d"
  "db_tasks (set_runs P f d) = db_tasks d"
  "db_meta (set_runs P f d) = db_meta d"
  "db_plans (set_runs P f d) = db_plans d"
  "db_units (set_runs P f d) = db_units d"
  "db_access (set_runs P f d) = db_access d"
  "db_attempts (set_runs P f d) = db_attempts d"
  by (simp_all add: set_runs_def)

lemma set_items_sel [simp]:
  "db_runs (set_items Q g d) = db_runs d"
  "db_items (set_items Q g d) = update_where Q g (db_items d)"
  "db_leases (set_items Q g d) = db_leases d"
  "db_tasks (set_items Q g d) = db_tasks d"
  "db_meta (set_items Q g d) = db_meta d"
  "db_plans (set_items Q g d) = db_plans d"
  "db_units (set_items Q g d) = db_units d"
  "db_access (set_items Q g d) = db_access d"
  "db_attempts (set_items Q g d) = db_attempts d"
  by (simp_all add: set_items_def)

lemma set_lease_sel [simp]:
  "db_runs (set_lease k l d) = db_runs d"
  "db_items (set_lease k l d) = db_items d"
  "db_leases (set_lease k l d) = (db_leases d)(k := l)"
  "db_tasks (set_lease k l d) = db_tasks d"
  "db_meta (set_lease k l d) = db_meta d"
  "db_plans (set_lease k l d) = db_plans d"
  "db_units (set_lease k l d) = db_units d"
  "db_access (set_lease k l d) = db_access d"
  "db_attempts (set_lease k l d) = db_attempts d"
  by (simp_all add: set_lease_def)

lemma put_meta_sel [simp]:
  "db_runs (put_meta k v d) = db_runs d"
  "db_items (put_meta k v d) = db_items d"
  "db_leases (put_meta k v d) = db_leases d"
  "db_tasks (put_meta k v d) = db_tasks d"
  "db_meta (put_meta k v d) = (db_meta d)(k \<mapsto> v)"
  "db_plans (put_meta k v d) = db_plans d"
  "db_units (put_meta k v d) = db_units d"
  "db_access (put_meta k v d) = db_access d"
  "db_attempts (put_meta k v d) = db_attempts d"
  by (simp_all add: put_meta_def)

lemma fail_running_task_sel [simp]:
  "db_runs (fail_running_task fin err t d) = db_runs d"
  "db_items (fail_running_task fin err t d) = db_items d"
  "db_leases (fail_running_task fin err t d) = db_leases d"
  "db_meta (fail_running_task fin err t d) = db_meta d"
  "db_plans (fail_running_task fin err t d) = db_plans d"
  "db_units (fail_running_task fin err t d) = db_units d"
  "db_access (fail_running_task fin err t d) = db_access d"
  "db_attempts (fail_running_task fin err t d) = db_attempts d"
  by (auto simp: fail_running_task_def split: option.splits)

lemma fail_running_tasks_sel [simp]:
  "db_runs (fail_running_tasks fin err ts d) = db_runs d"
  "db_items (fail_running_tasks fin err ts d) = db_items d"
  "db_leases (fail_running_tasks fin err ts d) = db_leases d"
  "db_meta (fail_running_tasks fin err ts d) = db_meta d"
  "db_plans (fail_running_tasks fin err ts d) = db_plans d"
  "db_units (fail_running_tasks fin err ts d) = db_units d"
  "db_access (fail_running_tasks fin err ts d) = db_access d"
  "db_attempts (fail_running_tasks fin err ts d) = db_attempts d"
  by (induction ts arbitrary: d) (simp_all add: fail_running_tasks_def)

end
