(* ===== verification/RunLifecycle.thy ===== *)
theory RunLifecycle
  imports RunStore
begin

text \<open>
  Starting and resuming a run (\<open>db/refresh_run_lifecycle.py\<close>), with the insertion of its frozen plan
  (\<open>insert_sgs_plan_rows\<close>). \<open>create_or_resume_run\<close> is the whole transaction: lease takeover, abandonment
  of an expired owner, manifest comparison and insertion.
\<close>

record run_start =
  st_run :: run_id
  st_cycle :: cycle_id
  st_force :: bool
  st_version :: string
  st_derived :: "string option"
  st_macro :: "string option"
  st_items :: "work_item_spec list"
  st_now :: string
  st_expires :: string
  st_plan :: "sgs_plan option"

definition ordered_specs :: "work_item_spec list \<Rightarrow> work_item_spec list" where
  "ordered_specs items = sort_key spec_order items"

definition spec_of_item :: "work_item \<Rightarrow> work_item_spec" where
  "spec_of_item i = \<lparr>spec_key = wi_key i, spec_task = wi_task i, spec_order = wi_order i\<rparr>"

definition same_manifest :: "codec \<Rightarrow> db \<Rightarrow> run_snapshot \<Rightarrow> run_start \<Rightarrow> bool" where
  "same_manifest c d snap st \<longleftrightarrow>
     (case (st_plan st, db_plans d (st_run st)) of
        (None, None) \<Rightarrow> True
      | (Some p, Some row) \<Rightarrow> pr_sha row = plan_digest c p
      | _ \<Rightarrow> False) \<and>
     rr_cycle (snap_run snap) = st_cycle st \<and>
     rr_force (snap_run snap) = st_force st \<and>
     rr_version (snap_run snap) = st_version st \<and>
     (st_derived st = None \<or> rr_derived_cutoff (snap_run snap) = st_derived st) \<and>
     (st_macro st = None \<or> rr_macro_cutoff (snap_run snap) = st_macro st) \<and>
     map spec_of_item (snap_items snap) = ordered_specs (st_items st)"

definition lease_admits :: "lease option \<Rightarrow> string \<Rightarrow> timestamp \<Rightarrow> bool" where
  "lease_admits l owner now =
     (case l of None \<Rightarrow> True | Some x \<Rightarrow> le_owner x = owner \<or> le_expires x \<le> now)"

definition acquire_lease :: "run_start \<Rightarrow> db \<Rightarrow> bool \<times> db" where
  "acquire_lease st d =
     (let l = db_leases d DAILY_REFRESH_LEASE in
      if lease_admits l (st_run st) (st_now st) then
        (True, set_lease DAILY_REFRESH_LEASE
           (Some \<lparr>le_owner = st_run st,
                  le_expires = (case l of None \<Rightarrow> st_expires st
                                | Some x \<Rightarrow> if le_expires x < st_expires st then st_expires st
                                            else le_expires x)\<rparr>) d)
      else (False, d))"

definition lease_owner :: "run_id \<Rightarrow> db \<Rightarrow> run_error + run_id" where
  "lease_owner r d =
     (case db_leases d DAILY_REFRESH_LEASE of None \<Rightarrow> Inl (Persistence r) | Some l \<Rightarrow> Inr (le_owner l))"

definition new_run :: "run_start \<Rightarrow> run_record" where
  "new_run st =
     \<lparr>rr_id = st_run st, rr_cycle = st_cycle st, rr_state = RunRunning, rr_force = st_force st,
      rr_version = st_version st, rr_derived_cutoff = st_derived st, rr_macro_cutoff = st_macro st,
      rr_created = st_now st, rr_updated = st_now st, rr_finished = None, rr_final_result = None\<rparr>"

definition new_item :: "run_start \<Rightarrow> work_item_spec \<Rightarrow> work_item" where
  "new_item st s =
     \<lparr>wi_run = st_run st, wi_key = spec_key s, wi_task = spec_task s, wi_order = spec_order s,
      wi_status = Pending, wi_attempt = 0, wi_token = None, wi_expires = None, wi_claimed = None,
      wi_created = st_now st, wi_updated = st_now st, wi_finished = None, wi_series = 0, wi_records = 0,
      wi_error = None, wi_generation = 0, wi_acquisitions = 0, wi_next_at = None, wi_deferral = None,
      wi_last_category = None, wi_last_code = None\<rparr>"

text \<open>\<open>PRIMARY KEY (run_id, item_key)\<close> and \<open>UNIQUE (run_id, task_order)\<close> are checked per row.\<close>

definition item_clash :: "work_item \<Rightarrow> work_item \<Rightarrow> bool" where
  "item_clash a b \<longleftrightarrow> wi_run a = wi_run b \<and> (wi_key a = wi_key b \<or> wi_order a = wi_order b)"

fun insert_items :: "work_item list \<Rightarrow> db \<Rightarrow> run_error + db" where
  "insert_items [] d = Inr d"
| "insert_items (i # is) d =
     (if exists_where (item_clash i) (db_items d) then Inl Integrity
      else insert_items is (d\<lparr>db_items := db_items d @ [i]\<rparr>))"

definition new_unit_row :: "run_id \<Rightarrow> timestamp \<Rightarrow> sgs_unit \<Rightarrow> unit_row" where
  "new_unit_row r now u =
     \<lparr>ur_run = r, ur_unit = u, ur_status = ''reserved'', ur_error = None, ur_updated = now\<rparr>"

fun insert_unit_rows :: "unit_row list \<Rightarrow> db \<Rightarrow> run_error + db" where
  "insert_unit_rows [] d = Inr d"
| "insert_unit_rows (u # us) d =
     (if exists_where (\<lambda>x. ur_run x = ur_run u \<and> u_id (ur_unit x) = u_id (ur_unit u)) (db_units d)
      then Inl Integrity
      else insert_unit_rows us (d\<lparr>db_units := db_units d @ [u]\<rparr>))"

definition insert_sgs_plan_rows :: "codec \<Rightarrow> run_id \<Rightarrow> sgs_plan \<Rightarrow> timestamp \<Rightarrow> db \<Rightarrow> run_error + db" where
  "insert_sgs_plan_rows c r p now d =
     (if db_plans d r \<noteq> None then Inl Integrity
      else insert_unit_rows (map (new_unit_row r now) (p_units p))
        (d\<lparr>db_plans := (db_plans d)(r \<mapsto>
             \<lparr>pr_version = p_version p, pr_as_of = date_isoformat (p_as_of p), pr_json = plan_text c p,
              pr_sha = plan_digest c p, pr_created = now\<rparr>)\<rparr>))"

definition insert_run :: "codec \<Rightarrow> run_start \<Rightarrow> db \<Rightarrow> run_error + db" where
  "insert_run c st d =
     (if find_run d (st_run st) \<noteq> None then Inl Integrity
      else bindE (insert_items (map (new_item st) (ordered_specs (st_items st)))
                    (d\<lparr>db_runs := db_runs d @ [new_run st]\<rparr>)) (\<lambda>d1.
             case st_plan st of
               None \<Rightarrow> Inr d1
             | Some p \<Rightarrow> insert_sgs_plan_rows c (st_run st) p (st_now st) d1))"

definition unclosed :: "run_id \<Rightarrow> work_item \<Rightarrow> bool" where
  "unclosed r i \<longleftrightarrow> wi_run i = r \<and> wi_status i \<in> {Pending, Claimed}"

definition active_claim :: "run_id \<Rightarrow> timestamp \<Rightarrow> work_item \<Rightarrow> bool" where
  "active_claim r now i \<longleftrightarrow> wi_run i = r \<and> wi_status i = Claimed \<and> after (wi_expires i) now"

definition abandoned_item :: "timestamp \<Rightarrow> work_item \<Rightarrow> work_item" where
  "abandoned_item now i = i\<lparr>wi_status := Failed, wi_token := None, wi_expires := None,
     wi_updated := now, wi_finished := Some now, wi_error := Some ''RefreshLeaseExpired''\<rparr>"

definition lease_expired_result :: string where
  "lease_expired_result = ''{\"status\":\"error\",\"error_code\":\"RefreshLeaseExpired\"}''"

definition abandoned_run :: "timestamp \<Rightarrow> run_record \<Rightarrow> run_record" where
  "abandoned_run now r = r\<lparr>rr_state := RunFailed, rr_updated := now, rr_finished := Some now,
     rr_final_result := Some lease_expired_result\<rparr>"

definition abandon_expired_run :: "run_id \<Rightarrow> timestamp \<Rightarrow> run_id \<Rightarrow> db \<Rightarrow> run_error + db" where
  "abandon_expired_run owner now new_owner d =
     (case find_run d owner of
        None \<Rightarrow> Inr d
      | Some run \<Rightarrow>
          if rr_state run \<noteq> RunRunning then Inr d
          else if exists_where (active_claim owner now) (db_items d)
          then Inl (LeaseConflict new_owner owner)
          else
            (let tasks = remdups (map wi_task (filter (unclosed owner) (db_items d)));
                 d1 = set_items (unclosed owner) (abandoned_item now) d;
                 d2 = fail_running_tasks (Some now) (Some ''RefreshLeaseExpired'') tasks d1
             in Inr (set_runs (\<lambda>x. rr_id x = owner \<and> rr_state x = RunRunning) (abandoned_run now) d2)))"

section \<open>The transaction\<close>

definition utc_iso_opt :: "string option \<Rightarrow> string \<Rightarrow> run_error + timestamp option" where
  "utc_iso_opt v field =
     (case v of None \<Rightarrow> Inr None
      | Some s \<Rightarrow> if s = [] then Inr None else bindE (utc_iso s field) (\<lambda>t. Inr (Some t)))"

definition normalize_start :: "run_start \<Rightarrow> run_error + run_start" where
  "normalize_start st =
     bindE (utc_iso (st_now st) ''now'') (\<lambda>now.
     bindE (utc_iso (st_expires st) ''lease_expires_at'') (\<lambda>expires.
     bindE (utc_iso_opt (st_derived st) ''derived_cutoff'') (\<lambda>derived.
     bindE (utc_iso_opt (st_macro st) ''macro_cutoff'') (\<lambda>macro.
       if expires \<le> now then Inl (InputError ''lease_expires_at'' (st_expires st))
       else Inr (st\<lparr>st_now := now, st_expires := expires, st_derived := derived, st_macro := macro\<rparr>)))))"

definition displace_expired_owner :: "run_start \<Rightarrow> db \<Rightarrow> run_error + db" where
  "displace_expired_owner st d =
     (case db_leases d DAILY_REFRESH_LEASE of
        None \<Rightarrow> Inr d
      | Some l \<Rightarrow>
          if le_owner l \<noteq> st_run st \<and> le_expires l \<le> st_now st
          then abandon_expired_run (le_owner l) (st_now st) (st_run st) d
          else Inr d)"

definition take_lease :: "run_start \<Rightarrow> db \<Rightarrow> run_error + db" where
  "take_lease st d =
     bindE (displace_expired_owner st d) (\<lambda>d1.
     case acquire_lease st d1 of
       (True, d2) \<Rightarrow> Inr d2
     | (False, d2) \<Rightarrow> bindE (lease_owner (st_run st) d2) (\<lambda>w. Inl (LeaseConflict (st_run st) w)))"

definition release_owned_lease :: "run_id \<Rightarrow> db \<Rightarrow> db" where
  "release_owned_lease r d =
     (case db_leases d DAILY_REFRESH_LEASE of
        Some l \<Rightarrow> if le_owner l = r then set_lease DAILY_REFRESH_LEASE None d else d
      | None \<Rightarrow> d)"

definition resume_or_insert :: "codec \<Rightarrow> run_start \<Rightarrow> db \<Rightarrow> run_error + run_snapshot \<times> db" where
  "resume_or_insert c st d =
     (case read_snapshot d (st_run st) of
        Some existing \<Rightarrow>
          if \<not> same_manifest c d existing st then Inl (Idempotency (st_run st))
          else if rr_state (snap_run existing) \<noteq> RunRunning
          then Inr (existing, release_owned_lease (st_run st) d)
          else Inr (existing, d)
      | None \<Rightarrow>
          bindE (insert_run c st d) (\<lambda>d1.
          case read_snapshot d1 (st_run st) of
            None \<Rightarrow> Inl (Persistence (st_run st))
          | Some snap \<Rightarrow> Inr (snap, d1)))"

definition create_or_resume_run :: "codec \<Rightarrow> run_start \<Rightarrow> db \<Rightarrow> run_error + run_snapshot \<times> db" where
  "create_or_resume_run c start d =
     bindE (normalize_start start) (\<lambda>st.
     case read_snapshot d (st_run st) of
       Some existing \<Rightarrow>
         if rr_state (snap_run existing) \<noteq> RunRunning then
           (if same_manifest c d existing st then Inr (existing, d) else Inl (Idempotency (st_run st)))
         else bindE (take_lease st d) (resume_or_insert c st)
     | None \<Rightarrow> bindE (take_lease st d) (resume_or_insert c st))"

text \<open>\<open>ORDER BY created_at DESC, run_id DESC LIMIT 1\<close>\<close>

definition newer :: "run_record \<Rightarrow> run_record \<Rightarrow> bool" where
  "newer a b \<longleftrightarrow> rr_created b < rr_created a \<or> (rr_created b = rr_created a \<and> rr_id b < rr_id a)"

fun newest_run :: "run_record list \<Rightarrow> run_record option" where
  "newest_run [] = None"
| "newest_run (r # rs) =
     (case newest_run rs of None \<Rightarrow> Some r | Some b \<Rightarrow> Some (if newer b r then b else r))"

definition read_latest_run :: "db \<Rightarrow> run_snapshot option" where
  "read_latest_run d =
     (case newest_run (db_runs d) of None \<Rightarrow> None | Some r \<Rightarrow> read_snapshot d (rr_id r))"

end
