(* ===== verification/RunItems.thy ===== *)
theory RunItems
  imports RunLifecycle
begin

text \<open>
  Work items of a run (\<open>db/refresh_run_items.py\<close>): claiming under a rotating token, deferring and
  completing a claim. The new claim token (\<open>uuid4\<close>) is the argument \<open>token\<close>. A scan that writes while
  it reads (\<open>_claim_v6_item\<close>) reads the rows fetched before its first write, as the cursor does.
\<close>

definition has_live_lease :: "db \<Rightarrow> run_id \<Rightarrow> timestamp \<Rightarrow> bool" where
  "has_live_lease d r now =
     (case db_leases d DAILY_REFRESH_LEASE of
        None \<Rightarrow> False | Some l \<Rightarrow> le_owner l = r \<and> now < le_expires l)"

definition run_is_running :: "db \<Rightarrow> run_id \<Rightarrow> bool" where
  "run_is_running d r = exists_where (\<lambda>x. rr_id x = r \<and> rr_state x = RunRunning) (db_runs d)"

definition exhausted_claim :: "run_id \<Rightarrow> timestamp \<Rightarrow> work_item \<Rightarrow> bool" where
  "exhausted_claim r now i \<longleftrightarrow> wi_run i = r \<and> wi_status i = Claimed
     \<and> MAX_WORK_ITEM_ATTEMPTS \<le> wi_attempt i \<and> not_after (wi_expires i) now"

definition exhaust_item :: "timestamp \<Rightarrow> work_item \<Rightarrow> work_item" where
  "exhaust_item now i = i\<lparr>wi_status := Failed, wi_token := None, wi_expires := None,
     wi_updated := now, wi_finished := None, wi_error := Some ''AttemptLimitExceeded''\<rparr>"

definition fail_exhausted :: "run_id \<Rightarrow> timestamp \<Rightarrow> db \<Rightarrow> db" where
  "fail_exhausted r now d =
     (let tasks = remdups (map wi_task (filter (exhausted_claim r now) (db_items d)))
      in if tasks = [] then d
         else fail_running_tasks None None tasks (set_items (exhausted_claim r now) (exhaust_item now) d))"

definition claim_item :: "claim_token \<Rightarrow> timestamp \<Rightarrow> timestamp \<Rightarrow> work_item \<Rightarrow> work_item" where
  "claim_item token now expires i = i\<lparr>wi_status := Claimed, wi_attempt := wi_attempt i + 1,
     wi_generation := wi_generation i + 1, wi_token := Some token, wi_expires := Some expires,
     wi_claimed := Some now, wi_updated := now, wi_finished := None, wi_series := 0, wi_records := 0,
     wi_error := None\<rparr>"

section \<open>Claims of the earlier manifests\<close>

definition legacy_eligible :: "run_id \<Rightarrow> timestamp \<Rightarrow> work_item \<Rightarrow> bool" where
  "legacy_eligible r now i \<longleftrightarrow> wi_run i = r \<and>
     (wi_status i = Pending
      \<or> (wi_status i = Failed \<and> wi_attempt i < MAX_WORK_ITEM_ATTEMPTS)
      \<or> (wi_status i = Claimed \<and> wi_attempt i < MAX_WORK_ITEM_ATTEMPTS \<and> not_after (wi_expires i) now))"

text \<open>\<open>SELECT .. ORDER BY task_order LIMIT 1\<close>\<close>

definition first_by_order :: "(work_item \<Rightarrow> bool) \<Rightarrow> work_item list \<Rightarrow> work_item option" where
  "first_by_order P t = (case sort_key wi_order (filter P t) of [] \<Rightarrow> None | i # _ \<Rightarrow> Some i)"

definition claim_row ::
    "run_id \<Rightarrow> item_key \<Rightarrow> (work_item \<Rightarrow> bool) \<Rightarrow> (work_item \<Rightarrow> work_item) \<Rightarrow> db \<Rightarrow> work_item option \<times> db" where
  "claim_row r k guard f d =
     (let P = (\<lambda>i. wi_run i = r \<and> wi_key i = k \<and> guard i);
          d1 = set_items P f d
      in if count_where P (db_items d) \<noteq> 1 then (None, d1) else (find_item d1 r k, d1))"

definition claim_legacy_item ::
    "claim_request \<Rightarrow> timestamp \<Rightarrow> timestamp \<Rightarrow> claim_token \<Rightarrow> db \<Rightarrow> work_item option \<times> db" where
  "claim_legacy_item req now expires token d =
     (let r = cr_run req;
          blocked = (case cr_expected req of
                       None \<Rightarrow> False
                     | Some k \<Rightarrow>
                         (case find_item d r k of
                            None \<Rightarrow> True
                          | Some i \<Rightarrow> exists_where (\<lambda>e. wi_order e < wi_order i \<and> legacy_eligible r now e)
                                       (db_items d)))
      in if blocked then (None, d)
         else case first_by_order (\<lambda>i. legacy_eligible r now i \<and>
                                      (case cr_expected req of None \<Rightarrow> True | Some k \<Rightarrow> wi_key i = k))
                     (db_items d) of
                None \<Rightarrow> (None, d)
              | Some i \<Rightarrow> claim_row r (wi_key i) (\<lambda>_. True) (claim_item token now expires) d)"

section \<open>Claims of the current manifest\<close>

definition view_text :: "string option \<Rightarrow> db_value" where
  "view_text v = (case v of None \<Rightarrow> VNull | Some s \<Rightarrow> VText s)"

definition access_view_of :: "string access_row \<Rightarrow> access_view" where
  "access_view_of r = \<lparr>av_state = breaker_text (ar_state r), av_retry = view_text (ar_retry r),
     av_opened = view_text (ar_opened r), av_probe = view_text (ar_probe r)\<rparr>"

definition access_views :: "db \<Rightarrow> string \<rightharpoonup> access_view" where
  "access_views d = (\<lambda>s. map_option access_view_of (db_access d s))"

definition dependent_tasks :: "string list" where
  "dependent_tasks = [''derived_snapshots'', ''macro_score'', ''inflation_target_rules'']"

definition item_retryable :: "work_item \<Rightarrow> bool" where
  "item_retryable i = failed_work_item_is_retryable (Some (wi_task i)) (wi_last_category i)
     (wi_acquisitions i) (wi_attempt i) MAX_WORK_ITEM_ATTEMPTS"

datatype verdict = Skip | Cooldown timestamp | Wait | WaitFor timestamp | Choose

text \<open>The earlier rows of the manifest, in order: does one of them go first?\<close>

definition item_ready :: "db \<Rightarrow> datetime \<Rightarrow> work_item \<Rightarrow> py_error + bool" where
  "item_ready d now_dt i =
     bindE (item_eligibility (wi_task i) (access_views d) now_dt) (\<lambda>(ok, _, _). Inr ok)"

fun earlier_verdict ::
    "db \<Rightarrow> timestamp \<Rightarrow> datetime \<Rightarrow> string \<Rightarrow> work_item list \<Rightarrow> py_error + verdict" where
  "earlier_verdict d now now_dt task [] = Inr Choose"
| "earlier_verdict d now now_dt task (e # es) =
     (if wi_status e \<in> {Succeeded, Partial, Skipped} then earlier_verdict d now now_dt task es
      else if wi_status e = Failed \<and> \<not> item_retryable e then earlier_verdict d now now_dt task es
      else case wi_next_at e of
             Some retry \<Rightarrow>
               if now < retry then
                 (if task \<in> set dependent_tasks then Inr (WaitFor retry)
                  else earlier_verdict d now now_dt task es)
               else bindE (item_ready d now_dt e) (\<lambda>ok.
                      if ok then Inr Wait else earlier_verdict d now now_dt task es)
           | None \<Rightarrow> bindE (item_ready d now_dt e) (\<lambda>ok.
                      if ok then Inr Wait else earlier_verdict d now now_dt task es))"

definition passes_over :: "item_key option \<Rightarrow> timestamp \<Rightarrow> work_item \<Rightarrow> bool" where
  "passes_over expected now i \<longleftrightarrow>
     (case expected of None \<Rightarrow> False | Some k \<Rightarrow> wi_key i \<noteq> k)
     \<or> MAX_WORK_ITEM_ATTEMPTS \<le> wi_acquisitions i
     \<or> (wi_status i = Failed \<and> \<not> item_retryable i)
     \<or> after (wi_next_at i) now
     \<or> (wi_status i = Claimed \<and> after (wi_expires i) now)
     \<or> wi_status i \<notin> {Pending, Failed, Claimed}"

text \<open>\<open>max((retry_not_before, opened_until, probe_lease_until), default=None)\<close>\<close>

definition cooldown_until :: "db \<Rightarrow> string \<Rightarrow> timestamp option" where
  "cooldown_until d task =
     (case source_scope_for_task task of
        None \<Rightarrow> None
      | Some scope \<Rightarrow>
          (case db_access d scope of
             None \<Rightarrow> None
           | Some s \<Rightarrow> max_present [ar_retry s, ar_opened s, ar_probe s]))"

definition row_verdict ::
    "db \<Rightarrow> item_key option \<Rightarrow> timestamp \<Rightarrow> datetime \<Rightarrow> work_item list \<Rightarrow> work_item \<Rightarrow> py_error + verdict" where
  "row_verdict d expected now now_dt rows i =
     (if passes_over expected now i then Inr Skip
      else bindE (item_ready d now_dt i) (\<lambda>ok.
        if \<not> ok then Inr (case cooldown_until d (wi_task i) of None \<Rightarrow> Skip | Some t \<Rightarrow> Cooldown t)
        else earlier_verdict d now now_dt (wi_task i)
               (takeWhile (\<lambda>e. wi_order e < wi_order i) rows)))"

definition note_cooldown :: "timestamp \<Rightarrow> timestamp \<Rightarrow> work_item \<Rightarrow> db \<Rightarrow> db" where
  "note_cooldown at now i d =
     set_items (\<lambda>x. wi_run x = wi_run i \<and> wi_key x = wi_key i \<and> wi_status x \<in> {Pending, Failed})
       (\<lambda>x. x\<lparr>wi_next_at := Some at, wi_deferral := Some ''publisher_cooldown'',
              wi_error := Some ''Deferred'', wi_updated := now\<rparr>) d"

definition note_dependency :: "timestamp \<Rightarrow> timestamp \<Rightarrow> work_item \<Rightarrow> db \<Rightarrow> db" where
  "note_dependency at now i d =
     set_items (\<lambda>x. wi_run x = wi_run i \<and> wi_key x = wi_key i \<and> wi_status x = Pending \<and> wi_deferral x = None)
       (\<lambda>x. x\<lparr>wi_next_at := Some at, wi_deferral := Some ''source_dependency_deferred'',
              wi_error := Some ''Deferred'', wi_updated := now\<rparr>) d"

text \<open>The scan: \<open>d0\<close> is the database the rows and breaker states were read from.\<close>

fun scan_v6 ::
    "db \<Rightarrow> item_key option \<Rightarrow> timestamp \<Rightarrow> datetime \<Rightarrow> work_item list \<Rightarrow> work_item list \<Rightarrow> db \<Rightarrow>
     py_error + work_item option \<times> db" where
  "scan_v6 d0 expected now now_dt rows [] d = Inr (None, d)"
| "scan_v6 d0 expected now now_dt rows (i # is) d =
     bindE (row_verdict d0 expected now now_dt rows i) (\<lambda>v.
     case v of
       Choose \<Rightarrow> Inr (Some i, d)
     | Cooldown at \<Rightarrow> scan_v6 d0 expected now now_dt rows is (note_cooldown at now i d)
     | WaitFor at \<Rightarrow> scan_v6 d0 expected now now_dt rows is (note_dependency at now i d)
     | Wait \<Rightarrow> scan_v6 d0 expected now now_dt rows is d
     | Skip \<Rightarrow> scan_v6 d0 expected now now_dt rows is d)"

definition claimable_v6 :: "timestamp \<Rightarrow> work_item \<Rightarrow> bool" where
  "claimable_v6 now i \<longleftrightarrow> wi_status i \<in> {Pending, Failed, Claimed}
     \<and> wi_acquisitions i < MAX_WORK_ITEM_ATTEMPTS \<and> (wi_next_at i = None \<or> not_after (wi_next_at i) now)"

definition claim_item_v6 :: "claim_token \<Rightarrow> timestamp \<Rightarrow> timestamp \<Rightarrow> work_item \<Rightarrow> work_item" where
  "claim_item_v6 token now expires i =
     (claim_item token now expires i)\<lparr>wi_next_at := None, wi_deferral := None\<rparr>"

definition claim_v6_item ::
    "claim_request \<Rightarrow> timestamp \<Rightarrow> timestamp \<Rightarrow> claim_token \<Rightarrow> db \<Rightarrow> py_error + work_item option \<times> db" where
  "claim_v6_item req now expires token d =
     bindE (fromisoformat now) (\<lambda>now_dt.
     let rows = run_items d (cr_run req) in
     bindE (scan_v6 d (cr_expected req) now now_dt rows rows d) (\<lambda>(chosen, d1).
     case chosen of
       None \<Rightarrow> Inr (None, d1)
     | Some i \<Rightarrow> Inr (claim_row (cr_run req) (wi_key i) (claimable_v6 now)
                        (claim_item_v6 token now expires) d1)))"

definition claim_next_work_item ::
    "claim_request \<Rightarrow> claim_token \<Rightarrow> db \<Rightarrow> run_error + work_item option \<times> db" where
  "claim_next_work_item req token d =
     bindE (utc_iso (cr_now req) ''now'') (\<lambda>now.
     bindE (utc_iso (cr_expires req) ''claim_expires_at'') (\<lambda>expires.
     if expires \<le> now then Inl (InputError ''claim_expires_at'' (cr_expires req))
     else case find_run d (cr_run req) of
       None \<Rightarrow> Inr (None, d)
     | Some run \<Rightarrow>
         if rr_state run \<noteq> RunRunning then Inr (None, d)
         else if \<not> has_live_lease d (cr_run req) now then Inr (None, d)
         else
           (let d1 = fail_exhausted (cr_run req) now d in
            if exists_where (active_claim (cr_run req) now) (db_items d1) then Inr (None, d1)
            else if rr_version run = ''daily-refresh-v6''
            then (case claim_v6_item req now expires token d1 of Inl e \<Rightarrow> Inl (PyError e) | Inr x \<Rightarrow> Inr x)
            else Inr (claim_legacy_item req now expires token d1))))"

section \<open>Leaving a claim\<close>

definition holds_claim :: "db \<Rightarrow> run_id \<Rightarrow> item_key \<Rightarrow> claim_token \<Rightarrow> timestamp \<Rightarrow> work_item \<Rightarrow> bool" where
  "holds_claim d r k token now i \<longleftrightarrow> wi_run i = r \<and> wi_key i = k \<and> wi_status i = Claimed
     \<and> wi_token i = Some token \<and> after (wi_expires i) now \<and> run_is_running d r \<and> has_live_lease d r now"

definition defer_item :: "deferral \<Rightarrow> timestamp \<Rightarrow> timestamp \<Rightarrow> work_item \<Rightarrow> work_item" where
  "defer_item req now retry_at i = i\<lparr>wi_status := Pending, wi_token := None, wi_expires := None,
     wi_claimed := None, wi_updated := now, wi_finished := None, wi_next_at := Some retry_at,
     wi_deferral := Some (take 80 (de_reason req)), wi_error := Some ''Deferred'',
     wi_last_category := de_category req, wi_last_code := de_code req\<rparr>"

definition defer_work_item_claim :: "deferral \<Rightarrow> db \<Rightarrow> run_error + bool \<times> db" where
  "defer_work_item_claim req d =
     bindE (utc_iso (de_now req) ''now'') (\<lambda>now.
     bindE (utc_iso (de_next_at req) ''next_attempt_at'') (\<lambda>retry_at.
     if retry_at \<le> now \<or> de_reason req = [] then Inl (InputError ''next_attempt_at'' (de_next_at req))
     else
       (let P = holds_claim d (de_run req) (de_key req) (de_token req) now
        in Inr (count_where P (db_items d) = 1, set_items P (defer_item req now retry_at) d))))"

definition complete_item :: "completion \<Rightarrow> timestamp \<Rightarrow> work_item \<Rightarrow> work_item" where
  "complete_item req now i = i\<lparr>wi_status := outcome_status (co_status req),
     wi_last_category := co_category req, wi_last_code := co_error req, wi_updated := now,
     wi_finished := Some now, wi_series := co_series req, wi_records := co_records req,
     wi_error := co_error req\<rparr>"

text \<open>\<open>CHECK (series_updated >= 0)\<close> and \<open>CHECK (record_count >= 0)\<close> apply to the rows written.\<close>

definition complete_work_item_claim :: "completion \<Rightarrow> db \<Rightarrow> run_error + bool \<times> db" where
  "complete_work_item_claim req d =
     bindE (utc_iso (co_finished req) ''finished_at'') (\<lambda>now.
     let P = holds_claim d (co_run req) (co_key req) (co_token req) now
     in if exists_where P (db_items d) \<and> (co_series req < 0 \<or> co_records req < 0) then Inl Integrity
        else Inr (count_where P (db_items d) = 1, set_items P (complete_item req now) d))"

text \<open>
  Cutoffs and finalization of a run (\<open>db/refresh_run_finalize.py\<close>).
\<close>

definition phase_text :: "cutoff_phase \<Rightarrow> string" where
  "phase_text p = (case p of PhaseDerived \<Rightarrow> ''derived'' | PhaseMacroScore \<Rightarrow> ''macro_score'')"

definition cutoff_of :: "cutoff_phase \<Rightarrow> run_record \<Rightarrow> timestamp option" where
  "cutoff_of p r = (case p of PhaseDerived \<Rightarrow> rr_derived_cutoff r | PhaseMacroScore \<Rightarrow> rr_macro_cutoff r)"

definition set_cutoff :: "cutoff_phase \<Rightarrow> timestamp \<Rightarrow> timestamp \<Rightarrow> run_record \<Rightarrow> run_record" where
  "set_cutoff p t now r =
     (case p of
        PhaseDerived \<Rightarrow> r\<lparr>rr_derived_cutoff := Some t, rr_updated := now\<rparr>
      | PhaseMacroScore \<Rightarrow> r\<lparr>rr_macro_cutoff := Some t, rr_updated := now\<rparr>)"

definition cutoff_allowed :: "cutoff_update \<Rightarrow> timestamp \<Rightarrow> run_record \<Rightarrow> run_error + unit" where
  "cutoff_allowed req cutoff r =
     (case cu_phase req of
        PhaseDerived \<Rightarrow> Inr ()
      | PhaseMacroScore \<Rightarrow>
          (case rr_derived_cutoff r of
             None \<Rightarrow> Inl (CutoffOrder (cu_run req))
           | Some derived \<Rightarrow> guardE (\<not> cutoff < derived) (Persistence (cu_run req))))"

definition extend_lease :: "run_id \<Rightarrow> timestamp \<Rightarrow> timestamp \<Rightarrow> db \<Rightarrow> db" where
  "extend_lease r now expires d =
     (case db_leases d DAILY_REFRESH_LEASE of
        Some l \<Rightarrow>
          if le_owner l = r \<and> now < le_expires l
          then set_lease DAILY_REFRESH_LEASE
                 (Some (l\<lparr>le_expires := (if le_expires l < expires then expires else le_expires l)\<rparr>)) d
          else d
      | None \<Rightarrow> d)"

definition persist_run_cutoff :: "cutoff_update \<Rightarrow> db \<Rightarrow> run_error + timestamp \<times> db" where
  "persist_run_cutoff req d =
     bindE (utc_iso (cu_cutoff req) (phase_text (cu_phase req) @ ''_cutoff'')) (\<lambda>cutoff.
     bindE (utc_iso (cu_now req) ''now'') (\<lambda>now.
     bindE (utc_iso (cu_lease req) ''lease_expires_at'') (\<lambda>expires.
     if expires \<le> now then Inl (Persistence (cu_run req))
     else case db_leases d DAILY_REFRESH_LEASE of
       None \<Rightarrow> Inl (Persistence (cu_run req))
     | Some l \<Rightarrow>
         if le_owner l \<noteq> cu_run req \<or> le_expires l \<le> now
         then Inl (LeaseConflict (cu_run req) (le_owner l))
         else case find_run d (cu_run req) of
           None \<Rightarrow> Inl (Persistence (cu_run req))
         | Some run \<Rightarrow>
             if rr_state run \<noteq> RunRunning then Inl (Persistence (cu_run req))
             else bindE (cutoff_allowed req cutoff run) (\<lambda>_.
               case cutoff_of (cu_phase req) run of
                 Some persisted \<Rightarrow> Inr (persisted, extend_lease (cu_run req) now expires d)
               | None \<Rightarrow>
                   Inr (cutoff, extend_lease (cu_run req) now expires
                     (set_runs (\<lambda>r. rr_id r = cu_run req \<and> rr_state r = RunRunning
                                    \<and> cutoff_of (cu_phase req) r = None)
                        (set_cutoff (cu_phase req) cutoff now) d))))))"

section \<open>Finalization\<close>

definition unfinished_item :: "bool \<Rightarrow> run_id \<Rightarrow> work_item \<Rightarrow> bool" where
  "unfinished_item v6 r i \<longleftrightarrow> wi_run i = r \<and>
     (wi_status i = Claimed \<or> (wi_status i = Pending \<and> (v6 \<longrightarrow> wi_deferral i = None)))"

definition retryable_failure :: "bool \<Rightarrow> run_id \<Rightarrow> work_item \<Rightarrow> bool" where
  "retryable_failure v6 r i \<longleftrightarrow> wi_run i = r \<and> wi_status i = Failed \<and>
     (if v6 then item_retryable i else wi_attempt i < MAX_WORK_ITEM_ATTEMPTS)"

definition blocks_success :: "finalization \<Rightarrow> work_item \<Rightarrow> bool" where
  "blocks_success req i \<longleftrightarrow> fi_state req = FinalSucceeded \<and> wi_run i = fi_run req \<and> wi_status i \<noteq> Succeeded"

definition finalized_run :: "finalization \<Rightarrow> timestamp \<Rightarrow> run_record \<Rightarrow> run_record" where
  "finalized_run req now r = r\<lparr>rr_state := final_run_state (fi_state req), rr_updated := now,
     rr_finished := Some now, rr_final_result := Some (fi_result req)\<rparr>"

definition finalize_run_row :: "finalization \<Rightarrow> timestamp \<Rightarrow> db \<Rightarrow> db" where
  "finalize_run_row req now d =
     set_runs (\<lambda>r. rr_id r = fi_run req \<and> rr_state r = RunRunning) (finalized_run req now) d"

definition stamp_success :: "timestamp option \<Rightarrow> db \<Rightarrow> db" where
  "stamp_success success d =
     (case success of None \<Rightarrow> d | Some t \<Rightarrow> put_meta ''last_successful_update'' t d)"

definition finalize_and_release_run :: "finalization \<Rightarrow> db \<Rightarrow> run_error + bool \<times> db" where
  "finalize_and_release_run req d =
     bindE (utc_iso (fi_finished req) ''finished_at'') (\<lambda>now.
     bindE (case fi_last_success req of
              None \<Rightarrow> Inr None
            | Some t \<Rightarrow> bindE (utc_iso t ''last_successful_update'') (\<lambda>u. Inr (Some u))) (\<lambda>success.
     if \<not> has_live_lease d (fi_run req) now then Inr (False, d)
     else case find_run d (fi_run req) of
       None \<Rightarrow> Inr (False, d)
     | Some run \<Rightarrow>
         if rr_state run \<noteq> RunRunning then Inr (False, d)
         else
           (let v6 = is_v6 (rr_version run);
                P = (\<lambda>r. rr_id r = fi_run req \<and> rr_state r = RunRunning);
                d1 = finalize_run_row req now d;
                d2 = stamp_success success d1
            in if exists_where (unfinished_item v6 (fi_run req)) (db_items d) then Inr (False, d)
               else if exists_where (retryable_failure v6 (fi_run req)) (db_items d) then Inr (False, d)
               else if exists_where (blocks_success req) (db_items d) then Inr (False, d)
               else if count_where P (db_runs d) \<noteq> 1 then Inr (False, d1)
               else case db_leases d2 DAILY_REFRESH_LEASE of
                      Some l \<Rightarrow>
                        if le_owner l = fi_run req
                        then Inr (True, set_lease DAILY_REFRESH_LEASE None d2)
                        else Inl (Persistence (fi_run req))
                    | None \<Rightarrow> Inl (Persistence (fi_run req)))))"

lemma finalize_run_row_sel [simp]:
  "db_runs (finalize_run_row req now d) =
     update_where (\<lambda>r. rr_id r = fi_run req \<and> rr_state r = RunRunning) (finalized_run req now) (db_runs d)"
  "db_items (finalize_run_row req now d) = db_items d"
  "db_leases (finalize_run_row req now d) = db_leases d"
  "db_meta (finalize_run_row req now d) = db_meta d"
  "db_attempts (finalize_run_row req now d) = db_attempts d"
  by (simp_all add: finalize_run_row_def)

lemma stamp_success_sel [simp]:
  "db_runs (stamp_success t d) = db_runs d"
  "db_items (stamp_success t d) = db_items d"
  "db_leases (stamp_success t d) = db_leases d"
  "db_attempts (stamp_success t d) = db_attempts d"
  by (simp_all add: stamp_success_def split: option.splits)

end
