(* ===== verification/Attempts.thy ===== *)
theory Attempts
  imports RunItems
begin

text \<open>
  The durable lifecycle of one claim (\<open>db/refresh_attempt.py\<close> and the attempt operations of
  \<open>db/store.py\<close>, SQLite branch): an attempt row per claim, the single acquisition it may count, its
  milestones, and the fence every business write passes. \<open>now\<close> is the clock reading of the call.
\<close>

record attempt_ctx =
  ac_id :: string
  ac_run :: run_id
  ac_item :: item_key
  ac_number :: nat
  ac_generation :: nat
  ac_token :: claim_token
  ac_expires :: string

text \<open>\<open>str(x)\<close> of a nullable text column.\<close>

definition str_opt :: "string option \<Rightarrow> string" where
  "str_opt v = (case v of None \<Rightarrow> ''None'' | Some s \<Rightarrow> s)"

definition new_refresh_attempt :: "string \<Rightarrow> work_item \<Rightarrow> attempt_ctx" where
  "new_refresh_attempt uuid claim =
     \<lparr>ac_id = uuid, ac_run = wi_run claim, ac_item = wi_key claim, ac_number = wi_attempt claim,
      ac_generation = (if wi_generation claim = 0 then wi_attempt claim else wi_generation claim),
      ac_token = str_opt (wi_token claim), ac_expires = str_opt (wi_expires claim)\<rparr>"

definition new_attempt_row :: "attempt_ctx \<Rightarrow> timestamp \<Rightarrow> attempt_row" where
  "new_attempt_row ctx now =
     \<lparr>at_id = ac_id ctx, at_run = ac_run ctx, at_item = ac_item ctx, at_number = ac_number ctx,
      at_generation = ac_generation ctx, at_token = ac_token ctx, at_expires = ac_expires ctx,
      at_started = now, at_stage = ''claimed'', at_outcome = None, at_terminal = None, at_error = None,
      at_committed = None, at_source_date = None, at_outbound = None\<rparr>"

text \<open>
  \<open>PRIMARY KEY (attempt_id)\<close>, \<open>UNIQUE (run_id, item_key, attempt_number)\<close> and the \<open>CHECK\<close>s on the
  counters.
\<close>

definition attempt_clash :: "attempt_ctx \<Rightarrow> attempt_row \<Rightarrow> bool" where
  "attempt_clash ctx a \<longleftrightarrow> at_id a = ac_id ctx
     \<or> (at_run a = ac_run ctx \<and> at_item a = ac_item ctx \<and> at_number a = ac_number ctx)"

definition record_refresh_attempt_started :: "attempt_ctx \<Rightarrow> timestamp \<Rightarrow> db \<Rightarrow> run_error + db" where
  "record_refresh_attempt_started ctx now d =
     (if ac_number ctx = 0 \<or> ac_generation ctx = 0 \<or> exists_where (attempt_clash ctx) (db_attempts d)
      then Inl Integrity
      else Inr (d\<lparr>db_attempts := db_attempts d @ [new_attempt_row ctx now],
                  db_milestones := db_milestones d @
                    [\<lparr>ml_attempt = ac_id ctx, ml_stage = ''claimed'', ml_at = now,
                      ml_outcome = ''observed'', ml_detail = None\<rparr>]\<rparr>))"

definition set_attempts :: "(attempt_row \<Rightarrow> bool) \<Rightarrow> (attempt_row \<Rightarrow> attempt_row) \<Rightarrow> db \<Rightarrow> db" where
  "set_attempts P f d = d\<lparr>db_attempts := update_where P f (db_attempts d)\<rparr>"

definition opens_outbound :: "attempt_ctx \<Rightarrow> attempt_row \<Rightarrow> bool" where
  "opens_outbound ctx a \<longleftrightarrow> at_id a = ac_id ctx \<and> at_run a = ac_run ctx \<and> at_item a = ac_item ctx
     \<and> at_generation a = ac_generation ctx \<and> at_token a = ac_token ctx
     \<and> at_outbound a = None \<and> at_terminal a = None"

definition counts_acquisition :: "attempt_ctx \<Rightarrow> timestamp \<Rightarrow> work_item \<Rightarrow> bool" where
  "counts_acquisition ctx now i \<longleftrightarrow> wi_run i = ac_run ctx \<and> wi_key i = ac_item ctx \<and> wi_status i = Claimed
     \<and> wi_generation i = ac_generation ctx \<and> wi_token i = Some (ac_token ctx) \<and> after (wi_expires i) now"

definition outbound_counted :: "attempt_ctx \<Rightarrow> timestamp \<Rightarrow> db \<Rightarrow> bool" where
  "outbound_counted ctx now d \<longleftrightarrow>
     exists_where (\<lambda>a. at_id a = ac_id ctx \<and> at_token a = ac_token ctx \<and> at_outbound a \<noteq> None \<and>
        exists_where (\<lambda>i. wi_run i = at_run a \<and> wi_key i = at_item a \<and> wi_status i = Claimed
            \<and> wi_generation i = at_generation a \<and> wi_token i = Some (at_token a)
            \<and> after (wi_expires i) now) (db_items d))
       (db_attempts d)"

definition mark_refresh_acquisition_started :: "attempt_ctx \<Rightarrow> timestamp \<Rightarrow> db \<Rightarrow> run_error + db" where
  "mark_refresh_acquisition_started ctx now d =
     (if exists_where (opens_outbound ctx) (db_attempts d) then
        (if count_where (counts_acquisition ctx now) (db_items d) \<noteq> 1 then Inl (PyError RuntimeError)
         else Inr (set_items (counts_acquisition ctx now)
                     (\<lambda>i. i\<lparr>wi_acquisitions := wi_acquisitions i + 1, wi_updated := now\<rparr>)
                     (set_attempts (opens_outbound ctx) (\<lambda>a. a\<lparr>at_outbound := Some now\<rparr>) d)))
      else if outbound_counted ctx now d then Inr d
      else Inl (PyError RuntimeError))"

definition record_refresh_attempt_milestone ::
    "string \<Rightarrow> string \<Rightarrow> string \<Rightarrow> string option \<Rightarrow> timestamp \<Rightarrow> db \<Rightarrow> db" where
  "record_refresh_attempt_milestone attempt stage outcome detail now d =
     set_attempts (\<lambda>a. at_id a = attempt \<and> at_terminal a = None)
       (\<lambda>a. a\<lparr>at_stage := stage,
              at_error := (if outcome \<noteq> ''observed'' then detail else at_error a)\<rparr>)
       (d\<lparr>db_milestones := db_milestones d @
            [\<lparr>ml_attempt = attempt, ml_stage = stage, ml_at = now, ml_outcome = outcome,
              ml_detail = detail\<rparr>]\<rparr>)"

definition finish_refresh_attempt ::
    "string \<Rightarrow> string \<Rightarrow> string option \<Rightarrow> int option \<Rightarrow> string option \<Rightarrow> timestamp \<Rightarrow> db \<Rightarrow> db" where
  "finish_refresh_attempt attempt outcome err committed source_date now d =
     set_attempts (\<lambda>a. at_id a = attempt \<and> at_terminal a = None)
       (\<lambda>a. a\<lparr>at_outcome := Some outcome, at_terminal := Some now, at_error := err,
              at_committed := committed, at_source_date := source_date\<rparr>) d"

section \<open>The write fence\<close>

definition assert_current_refresh_attempt :: "attempt_ctx \<Rightarrow> timestamp \<Rightarrow> db \<Rightarrow> run_error + unit" where
  "assert_current_refresh_attempt ctx now d =
     (case (find_item d (ac_run ctx) (ac_item ctx), find_run d (ac_run ctx),
            db_leases d DAILY_REFRESH_LEASE) of
        (Some i, Some r, Some l) \<Rightarrow>
          guardE (str_opt (wi_token i) = ac_token ctx \<and> wi_generation i = ac_generation ctx
                  \<and> \<not> str_opt (wi_expires i) \<le> now \<and> rr_state r = RunRunning
                  \<and> le_owner l = ac_run ctx \<and> \<not> le_expires l \<le> now)
            (PyError RuntimeError)
      | _ \<Rightarrow> Inl (PyError RuntimeError))"

text \<open>
  \<open>set_meta\<close> is one fenced write: with an active attempt the fence runs inside the transaction.
\<close>

definition fenced :: "attempt_ctx option \<Rightarrow> timestamp \<Rightarrow> (db \<Rightarrow> db) \<Rightarrow> db \<Rightarrow> run_error + db" where
  "fenced active now write d =
     (case active of
        None \<Rightarrow> Inr (write d)
      | Some ctx \<Rightarrow> bindE (assert_current_refresh_attempt ctx now d) (\<lambda>_. Inr (write d)))"

definition set_meta :: "attempt_ctx option \<Rightarrow> timestamp \<Rightarrow> string \<Rightarrow> string \<Rightarrow> db \<Rightarrow> run_error + db" where
  "set_meta active now k v d = fenced active now (put_meta k v) d"

definition record_refresh_task_start ::
    "string \<Rightarrow> string \<Rightarrow> int \<Rightarrow> timestamp \<Rightarrow> db \<Rightarrow> db" where
  "record_refresh_task_start task provider expected started d =
     d\<lparr>db_tasks := (db_tasks d)(task \<mapsto>
        (case db_tasks d task of
           None \<Rightarrow> \<lparr>ts_provider = provider, ts_started = Some started, ts_finished = None,
                    ts_last_attempt = Some started, ts_last_success = None, ts_status = ''running'',
                    ts_expected = expected, ts_series = 0, ts_records = 0, ts_duration = 0,
                    ts_error = None\<rparr>
         | Some r \<Rightarrow> r\<lparr>ts_provider := provider, ts_started := Some started,
                       ts_last_attempt := Some started, ts_status := ''running'', ts_expected := expected,
                       ts_series := 0, ts_records := 0, ts_duration := 0, ts_error := None\<rparr>))\<rparr>"

record task_finish =
  tf_task :: string
  tf_status :: string
  tf_series :: int
  tf_records :: int
  tf_duration :: int
  tf_error :: "string option"
  tf_finished :: timestamp
  tf_stamp_success :: bool

definition finish_task_row :: "task_finish \<Rightarrow> db \<Rightarrow> db" where
  "finish_task_row f d =
     (case db_tasks d (tf_task f) of
        None \<Rightarrow> d
      | Some r \<Rightarrow> d\<lparr>db_tasks := (db_tasks d)(tf_task f \<mapsto>
          r\<lparr>ts_finished := Some (tf_finished f),
            ts_last_success :=
              (if tf_stamp_success f \<and> 0 < tf_series f \<and> tf_status f \<in> {''ok'', ''partial''} \<and> tf_finished f \<noteq> []
               then Some (tf_finished f) else ts_last_success r),
            ts_status := tf_status f, ts_series := tf_series f, ts_records := tf_records f,
            ts_duration := tf_duration f, ts_error := tf_error f\<rparr>)\<rparr>)"

definition record_refresh_task_finish ::
    "attempt_ctx option \<Rightarrow> timestamp \<Rightarrow> task_finish \<Rightarrow> db \<Rightarrow> run_error + db" where
  "record_refresh_task_finish active now f d = fenced active now (finish_task_row f) d"

section \<open>Fence facts\<close>

lemma assert_currentD:
  assumes "assert_current_refresh_attempt ctx now d = Inr u"
  shows "\<exists>i r l. find_item d (ac_run ctx) (ac_item ctx) = Some i
    \<and> find_run d (ac_run ctx) = Some r \<and> db_leases d DAILY_REFRESH_LEASE = Some l
    \<and> str_opt (wi_token i) = ac_token ctx \<and> wi_generation i = ac_generation ctx
    \<and> rr_state r = RunRunning \<and> le_owner l = ac_run ctx \<and> now < le_expires l"
  using assms by (auto simp: assert_current_refresh_attempt_def split: option.splits)

lemma fenced_Inl_iff:
  "fenced active now w d = Inl e \<longleftrightarrow>
    (\<exists>ctx. active = Some ctx \<and> assert_current_refresh_attempt ctx now d = Inl e)"
  by (auto simp: fenced_def bindE_Inl_iff split: option.splits)

lemma set_attempts_sel [simp]:
  "db_runs (set_attempts P f d) = db_runs d"
  "db_items (set_attempts P f d) = db_items d"
  "db_leases (set_attempts P f d) = db_leases d"
  "db_attempts (set_attempts P f d) = update_where P f (db_attempts d)"
  by (simp_all add: set_attempts_def)

text \<open>
  Recovery of attempts whose claim expired without a terminal outcome (\<open>reconcile_expired_refresh_attempts\<close>
  in \<open>db/store.py\<close>). The evidence of a commit is looked for in the three receipt tables, in the order of the
  query's \<open>UNION ALL\<close>; \<open>LIMIT 1\<close> takes the first row in table order.
\<close>

record commit_evidence =
  ce_count :: int
  ce_date :: "string option"
  ce_extraction :: string

definition expired_attempt :: "run_id \<Rightarrow> timestamp \<Rightarrow> db \<Rightarrow> attempt_row \<Rightarrow> bool" where
  "expired_attempt r now d a \<longleftrightarrow> at_run a = r \<and> at_terminal a = None \<and> at_expires a \<le> now
     \<and> exists_where (\<lambda>i. wi_run i = at_run a \<and> wi_key i = at_item a \<and> wi_status i = Claimed
          \<and> wi_attempt i = at_generation a \<and> wi_token i = Some (at_token a) \<and> not_after (wi_expires i) now)
         (db_items d)"

definition of_attempt :: "string \<Rightarrow> string \<Rightarrow> extraction_row \<Rightarrow> bool" where
  "of_attempt attempt extraction e \<longleftrightarrow> et_id e = extraction \<and> et_attempt e = Some attempt"

text \<open>The first pair of a commit row and its extraction row that satisfies the join condition.\<close>

definition joined :: "('c \<Rightarrow> extraction_row \<Rightarrow> bool) \<Rightarrow> 'c list \<Rightarrow> extraction_row list \<Rightarrow> ('c \<times> extraction_row) option" where
  "joined P cs es = find (\<lambda>(k, e). P k e) (List.product cs es)"

definition treasury_evidence :: "string \<Rightarrow> db \<Rightarrow> commit_evidence option" where
  "treasury_evidence attempt d =
     map_option (\<lambda>(t, e). \<lparr>ce_count = ty_count t, ce_date = Some (ty_reference_max t), ce_extraction = ty_extraction t\<rparr>)
       (joined (\<lambda>t. of_attempt attempt (ty_extraction t)) (db_treasury_commits d) (db_extractions d))"

definition source_evidence :: "string \<Rightarrow> db \<Rightarrow> commit_evidence option" where
  "source_evidence attempt d =
     (case find (\<lambda>e. et_attempt e = Some attempt \<and> db_source_commits d (et_id e) \<noteq> None) (db_extractions d) of
        None \<Rightarrow> None
      | Some e \<Rightarrow> map_option (\<lambda>k. \<lparr>ce_count = sc_count k, ce_date = et_source_date e, ce_extraction = et_id e\<rparr>)
                    (db_source_commits d (et_id e)))"

definition unit_commit_of_attempt :: "string \<Rightarrow> db \<Rightarrow> unit_commit \<Rightarrow> extraction_row \<Rightarrow> bool" where
  "unit_commit_of_attempt attempt d k e \<longleftrightarrow>
     of_attempt attempt (uc_extraction k) e \<and> et_run e = Some (uc_run k)
     \<and> (case db_plans d (uc_run k) of None \<Rightarrow> False | Some p \<Rightarrow> uc_plan k = pr_sha p)
     \<and> exists_where (\<lambda>u. ur_run u = uc_run k \<and> u_id (ur_unit u) = uc_unit k \<and> u_code (ur_unit u) = uc_code k
          \<and> u_role (ur_unit u) = uc_role k \<and> et_task e = Some (plan_item_task_name (ur_unit u))) (db_units d)"

definition unit_evidence_of :: "string \<Rightarrow> db \<Rightarrow> commit_evidence option" where
  "unit_evidence_of attempt d =
     map_option (\<lambda>(k, e). \<lparr>ce_count = uc_count k, ce_date = Some (date_isoformat (uc_ref_end k)),
                           ce_extraction = uc_extraction k\<rparr>)
       (joined (unit_commit_of_attempt attempt d) (db_unit_commits d) (db_extractions d))"

definition durable_receipt :: "string \<Rightarrow> db \<Rightarrow> commit_evidence option" where
  "durable_receipt attempt d =
     (case treasury_evidence attempt d of
        Some e \<Rightarrow> Some e
      | None \<Rightarrow> (case source_evidence attempt d of Some e \<Rightarrow> Some e | None \<Rightarrow> unit_evidence_of attempt d))"

definition reconciliation_of :: "timestamp \<Rightarrow> string \<Rightarrow> commit_evidence option \<Rightarrow> reconciliation_row" where
  "reconciliation_of now attempt ev =
     (case ev of
        None \<Rightarrow> \<lparr>rc_attempt = attempt, rc_at = now, rc_outcome = ''outcome_unknown'', rc_count = None,
                 rc_source_date = None, rc_evidence = ''claim_expired_without_terminal_receipt''\<rparr>
      | Some e \<Rightarrow> \<lparr>rc_attempt = attempt, rc_at = now, rc_outcome = ''committed'', rc_count = Some (ce_count e),
                   rc_source_date = ce_date e, rc_evidence = ''durable_receipt:'' @ ce_extraction e\<rparr>)"

text \<open>One transaction per candidate; \<open>ON CONFLICT (attempt_id, outcome) DO NOTHING\<close>.\<close>

definition reconcile_attempt :: "timestamp \<Rightarrow> string \<Rightarrow> db \<Rightarrow> bool \<times> db" where
  "reconcile_attempt now attempt d =
     (let r = reconciliation_of now attempt (durable_receipt attempt d)
      in if exists_where (\<lambda>x. rc_attempt x = attempt \<and> rc_outcome x = rc_outcome r) (db_reconciliations d)
         then (False, d)
         else (True, set_attempts (\<lambda>a. at_id a = attempt \<and> at_terminal a = None)
                 (\<lambda>a. a\<lparr>at_outcome := Some (rc_outcome r), at_terminal := Some now, at_committed := rc_count r,
                        at_source_date := rc_source_date r\<rparr>)
                 (d\<lparr>db_reconciliations := db_reconciliations d @ [r],
                    db_milestones := db_milestones d @
                      [\<lparr>ml_attempt = attempt, ml_stage = ''reconciled'', ml_at = now, ml_outcome = rc_outcome r,
                        ml_detail = Some (rc_evidence r)\<rparr>]\<rparr>)))"

fun reconcile_attempts :: "timestamp \<Rightarrow> string list \<Rightarrow> db \<Rightarrow> nat \<times> db" where
  "reconcile_attempts now [] d = (0, d)"
| "reconcile_attempts now (a # as) d =
     (let (inserted, d1) = reconcile_attempt now a d; (n, d2) = reconcile_attempts now as d1
      in (n + (if inserted then 1 else 0), d2))"

definition reconcile_expired_refresh_attempts :: "run_id \<Rightarrow> timestamp \<Rightarrow> db \<Rightarrow> nat \<times> db" where
  "reconcile_expired_refresh_attempts r now d =
     reconcile_attempts now (map at_id (filter (expired_attempt r now d) (db_attempts d))) d"

section \<open>What recovery leaves alone\<close>

lemma reconcile_attempt_sel:
  "db_runs (snd (reconcile_attempt now a d)) = db_runs d"
  "db_items (snd (reconcile_attempt now a d)) = db_items d"
  "db_leases (snd (reconcile_attempt now a d)) = db_leases d"
  "db_plans (snd (reconcile_attempt now a d)) = db_plans d"
  "db_units (snd (reconcile_attempt now a d)) = db_units d"
  by (simp_all add: reconcile_attempt_def Let_def set_attempts_def)

lemma reconcile_attempts_sel [simp]:
  "db_runs (snd (reconcile_attempts now as d)) = db_runs d"
  "db_items (snd (reconcile_attempts now as d)) = db_items d"
  "db_leases (snd (reconcile_attempts now as d)) = db_leases d"
  "db_plans (snd (reconcile_attempts now as d)) = db_plans d"
  "db_units (snd (reconcile_attempts now as d)) = db_units d"
  by (induction as arbitrary: d) (simp_all add: Let_def case_prod_beta reconcile_attempt_sel)

lemma reconcile_sel [simp]:
  "db_runs (snd (reconcile_expired_refresh_attempts r now d)) = db_runs d"
  "db_items (snd (reconcile_expired_refresh_attempts r now d)) = db_items d"
  "db_leases (snd (reconcile_expired_refresh_attempts r now d)) = db_leases d"
  "db_plans (snd (reconcile_expired_refresh_attempts r now d)) = db_plans d"
  "db_units (snd (reconcile_expired_refresh_attempts r now d)) = db_units d"
  by (simp_all add: reconcile_expired_refresh_attempts_def)

text \<open>Recovery never rewrites an attempt that is already terminal.\<close>

lemma reconcile_attempt_keeps:
  "\<exists>P f. (\<forall>a. P a \<longrightarrow> at_terminal a = None) \<and>
     (\<forall>a. at_id (f a) = at_id a \<and> at_run (f a) = at_run a \<and> at_item (f a) = at_item a
        \<and> at_number (f a) = at_number a \<and> at_generation (f a) = at_generation a \<and> at_outbound (f a) = at_outbound a) \<and>
     db_attempts (snd (reconcile_attempt now attempt d)) = update_where P f (db_attempts d)"
proof -
  let ?r = "reconciliation_of now attempt (durable_receipt attempt d)"
  let ?P = "\<lambda>a :: attempt_row. at_id a = attempt \<and> at_terminal a = None"
  let ?f = "\<lambda>a. a\<lparr>at_outcome := Some (rc_outcome ?r), at_terminal := Some now, at_committed := rc_count ?r,
                        at_source_date := rc_source_date ?r\<rparr>"
  show ?thesis
  proof (cases "exists_where (\<lambda>x. rc_attempt x = attempt \<and> rc_outcome x = rc_outcome ?r) (db_reconciliations d)")
    case True
    then have "db_attempts (snd (reconcile_attempt now attempt d)) = update_where (\<lambda>_. False) id (db_attempts d)"
      by (simp add: reconcile_attempt_def Let_def update_where_def)
    then show ?thesis by (intro exI [of _ "\<lambda>_. False"] exI [of _ id]) simp
  next
    case False
    then show ?thesis
      by (intro exI [of _ ?P] exI [of _ ?f]) (simp add: reconcile_attempt_def Let_def)
  qed
qed

end
