(* ===== verification/RunInvariant.thy ===== *)
theory RunInvariant
  imports Attempts
begin

text \<open>
  The invariant of the refresh tables and its preservation by every operation.

  A row update is an \<open>item_update\<close>: it keeps the identity columns of the rows it matches and their
  well-formedness. The locale states this contract once, and every update the engine performs is
  interpreted in it.
\<close>

section \<open>Well-formed rows\<close>

definition item_ok :: "work_item \<Rightarrow> bool" where
  "item_ok i \<longleftrightarrow> (wi_token i = None) = (wi_expires i = None)
     \<and> (wi_status i = Claimed \<longrightarrow> wi_token i \<noteq> None \<and> wi_attempt i \<noteq> 0)
     \<and> (wi_status i = Pending \<longrightarrow> wi_token i = None)
     \<and> wi_generation i = wi_attempt i
     \<and> 0 \<le> wi_series i \<and> 0 \<le> wi_records i
     \<and> (wi_deferral i \<noteq> None \<longrightarrow> wi_next_at i \<noteq> None)"

definition item_key_of :: "work_item \<Rightarrow> run_id \<times> item_key" where
  "item_key_of i = (wi_run i, wi_key i)"

definition item_slot :: "work_item \<Rightarrow> run_id \<times> int" where
  "item_slot i = (wi_run i, wi_order i)"

definition run_ok :: "run_record \<Rightarrow> bool" where
  "run_ok r \<longleftrightarrow> (rr_state r = RunRunning) = (rr_finished r = None)
     \<and> (rr_state r = RunRunning) = (rr_final_result r = None)
     \<and> (case rr_macro_cutoff r of None \<Rightarrow> True
        | Some m \<Rightarrow> (\<exists>t. rr_derived_cutoff r = Some t \<and> t \<le> m))"

definition settled :: "db \<Rightarrow> bool" where
  "settled d \<longleftrightarrow> (\<forall>i \<in> set (db_items d). wi_status i = Claimed \<longrightarrow>
     (\<exists>r \<in> set (db_runs d). rr_id r = wi_run i \<and> rr_state r = RunRunning))"

definition items_ok :: "db \<Rightarrow> bool" where
  "items_ok d \<longleftrightarrow> list_all item_ok (db_items d)
     \<and> distinct (map item_key_of (db_items d)) \<and> distinct (map item_slot (db_items d))
     \<and> (\<forall>i \<in> set (db_items d). \<exists>r \<in> set (db_runs d). rr_id r = wi_run i)"

definition runs_ok :: "db \<Rightarrow> bool" where
  "runs_ok d \<longleftrightarrow> distinct (map rr_id (db_runs d)) \<and> list_all run_ok (db_runs d)"

definition active_at :: "timestamp \<Rightarrow> work_item \<Rightarrow> bool" where
  "active_at t i \<longleftrightarrow> wi_status i = Claimed \<and> after (wi_expires i) t"

text \<open>From instant \<open>t\<close> on at most one claim is active, and its run owns the daily lease.\<close>

definition exclusive :: "timestamp \<Rightarrow> db \<Rightarrow> bool" where
  "exclusive t d \<longleftrightarrow> count_where (active_at t) (db_items d) \<le> 1
     \<and> (\<forall>i \<in> set (db_items d). active_at t i \<longrightarrow>
          (\<exists>l. db_leases d DAILY_REFRESH_LEASE = Some l \<and> le_owner l = wi_run i))"

definition tables_ok :: "db \<Rightarrow> bool" where
  "tables_ok d \<longleftrightarrow> runs_ok d \<and> items_ok d \<and> settled d"

lemma active_at_mono: "active_at t i \<Longrightarrow> s \<le> t \<Longrightarrow> active_at s i"
  by (auto simp: active_at_def elim: after_mono)

lemma exclusive_later: "exclusive s d \<Longrightarrow> s \<le> t \<Longrightarrow> exclusive t d"
proof -
  assume e: "exclusive s d" and le: "s \<le> t"
  have "count_where (active_at t) (db_items d) \<le> count_where (active_at s) (db_items d)"
    using le by (intro count_where_mono) (rule active_at_mono)
  with e le show ?thesis unfolding exclusive_def by (auto dest: active_at_mono)
qed

lemma exclusive_none:
  "(\<And>i. i \<in> set (db_items d) \<Longrightarrow> \<not> active_at t i) \<Longrightarrow> exclusive t d"
  by (auto simp: exclusive_def count_where_def filter_empty_conv)

section \<open>Item updates\<close>

locale item_update =
  fixes f :: "work_item \<Rightarrow> work_item" and P :: "work_item \<Rightarrow> bool"
  assumes keeps_key: "item_key_of (f i) = item_key_of i"
    and keeps_slot: "item_slot (f i) = item_slot i"
    and keeps_ok: "P i \<Longrightarrow> item_ok i \<Longrightarrow> item_ok (f i)"
begin

lemma keeps_run: "wi_run (f i) = wi_run i"
  using keeps_key [of i] by (simp add: item_key_of_def)

lemma update_items_ok: "items_ok d \<Longrightarrow> items_ok (set_items P f d)"
  using keeps_run keeps_ok
  by (auto simp: items_ok_def map_update_where_frame keeps_key keeps_slot set_update_where
      intro: list_all_update_where)

lemma update_settled:
  assumes "settled d"
    and "\<And>i. i \<in> set (db_items d) \<Longrightarrow> P i \<Longrightarrow> wi_status (f i) = Claimed \<Longrightarrow>
        \<exists>r \<in> set (db_runs d). rr_id r = wi_run i \<and> rr_state r = RunRunning"
  shows "settled (set_items P f d)"
  using assms keeps_run by (force simp: settled_def set_update_where)

lemma update_tables_ok:
  assumes "tables_ok d"
    and "\<And>i. i \<in> set (db_items d) \<Longrightarrow> P i \<Longrightarrow> wi_status (f i) = Claimed \<Longrightarrow>
        \<exists>r \<in> set (db_runs d). rr_id r = wi_run i \<and> rr_state r = RunRunning"
  shows "tables_ok (set_items P f d)"
  using assms update_items_ok update_settled
  by (simp add: tables_ok_def runs_ok_def)

text \<open>An update that activates nothing leaves exclusivity alone.\<close>

lemma update_exclusive:
  assumes "exclusive t d" and "\<And>i. P i \<Longrightarrow> active_at t (f i) \<Longrightarrow> active_at t i"
  shows "exclusive t (set_items P f d)"
proof -
  have "count_where (active_at t) (update_where P f (db_items d)) \<le> count_where (active_at t) (db_items d)"
    using assms(2) by (intro count_where_update_le)
  then show ?thesis
    using assms keeps_run by (fastforce simp: exclusive_def set_update_where)
qed

end

text \<open>
  Most updates also leave the acquisition counter alone and never lower the attempt counter. \<open>extends\<close>
  is what a whole operation made of such updates (and of inserted rows) does to the item table.
\<close>

definition keeps_counters :: "(work_item \<Rightarrow> work_item) \<Rightarrow> bool" where
  "keeps_counters g \<longleftrightarrow> (\<forall>i. item_key_of (g i) = item_key_of i \<and> wi_acquisitions (g i) = wi_acquisitions i
     \<and> wi_attempt i \<le> wi_attempt (g i))"

definition extends :: "db \<Rightarrow> db \<Rightarrow> bool" where
  "extends d e \<longleftrightarrow> db_attempts e = db_attempts d \<and>
     (\<exists>g new. db_items e = map g (db_items d) @ new \<and> keeps_counters g \<and> (\<forall>n \<in> set new. wi_acquisitions n = 0))"

lemma extends_same_items:
  "db_items e = db_items d \<Longrightarrow> db_attempts e = db_attempts d \<Longrightarrow> extends d e"
  unfolding extends_def by (intro conjI exI [of _ id] exI [of _ "[]"]) (simp_all add: keeps_counters_def)

lemma extends_trans: "extends d e \<Longrightarrow> extends e h \<Longrightarrow> extends d h"
proof -
  assume "extends d e" "extends e h"
  then obtain g new g' new' where e: "db_items e = map g (db_items d) @ new" "keeps_counters g"
      "\<forall>n \<in> set new. wi_acquisitions n = 0" "db_attempts e = db_attempts d"
    and h: "db_items h = map g' (db_items e) @ new'" "keeps_counters g'"
      "\<forall>n \<in> set new'. wi_acquisitions n = 0" "db_attempts h = db_attempts e"
    unfolding extends_def by blast
  have "keeps_counters (g' \<circ> g)" using e(2) h(2) by (auto simp: keeps_counters_def intro: order_trans)
  moreover have "db_items h = map (g' \<circ> g) (db_items d) @ (map g' new @ new')" using e(1) h(1) by simp
  moreover have "\<forall>n \<in> set (map g' new @ new'). wi_acquisitions n = 0"
    using e(3) h(2,3) by (auto simp: keeps_counters_def)
  ultimately show "extends d h" unfolding extends_def using e(4) h(4) by metis
qed

locale monotone_update = item_update +
  assumes keeps_acquisitions: "wi_acquisitions (f i) = wi_acquisitions i"
    and keeps_attempt: "wi_attempt i \<le> wi_attempt (f i)"
begin

lemma update_extends: "extends d (set_items P f d)"
  unfolding extends_def
  by (intro conjI exI [of _ "\<lambda>i. if P i then f i else i"] exI [of _ "[]"])
    (simp_all add: update_where_def keeps_counters_def keeps_key keeps_acquisitions keeps_attempt)

end

lemmas item_update_defs = item_ok_def item_key_of_def item_slot_def

interpretation abandoning: monotone_update "abandoned_item now" P
  by unfold_locales (auto simp: item_update_defs abandoned_item_def)

interpretation exhausting: monotone_update "exhaust_item now" P
  by unfold_locales (auto simp: item_update_defs exhaust_item_def)

interpretation claiming: monotone_update "claim_item token now expires" P
  by unfold_locales (auto simp: item_update_defs claim_item_def)

interpretation claiming_v6: monotone_update "claim_item_v6 token now expires" P
  by unfold_locales (auto simp: item_update_defs claim_item_def claim_item_v6_def)

interpretation deferring: monotone_update "defer_item req now retry_at" P
  by unfold_locales (auto simp: item_update_defs defer_item_def)

interpretation completing: monotone_update "complete_item req now"
  "\<lambda>i. wi_status i = Claimed \<and> 0 \<le> co_series req \<and> 0 \<le> co_records req \<and> Q i"
  by unfold_locales
    (auto simp: item_update_defs complete_item_def split: option.splits item_outcome.splits,
      (cases "co_status req"; simp)+)

interpretation cooling: monotone_update
  "\<lambda>x. x\<lparr>wi_next_at := Some at, wi_deferral := Some why, wi_error := err, wi_updated := now\<rparr>" P
  by unfold_locales (auto simp: item_update_defs)

interpretation acquiring: item_update
  "\<lambda>i. i\<lparr>wi_acquisitions := wi_acquisitions i + 1, wi_updated := now\<rparr>" P
  by unfold_locales (auto simp: item_update_defs)

section \<open>Run updates\<close>

locale run_update =
  fixes f :: "run_record \<Rightarrow> run_record" and P :: "run_record \<Rightarrow> bool"
  assumes keeps_id: "rr_id (f r) = rr_id r"
    and keeps_run_ok: "P r \<Longrightarrow> run_ok r \<Longrightarrow> run_ok (f r)"
begin

lemma update_runs_ok: "runs_ok d \<Longrightarrow> runs_ok (set_runs P f d)"
  using keeps_run_ok by (auto simp: runs_ok_def map_update_where_frame keeps_id intro: list_all_update_where)

lemma update_run_items_ok: "items_ok d \<Longrightarrow> items_ok (set_runs P f d)"
proof -
  have ids: "(\<exists>r \<in> set t. rr_id r = k) \<longleftrightarrow> k \<in> set (map rr_id t)" for t :: "run_record list" and k
    by auto
  have "map rr_id (update_where P f (db_runs d)) = map rr_id (db_runs d)"
    by (rule map_update_where_frame) (rule keeps_id)
  then show "items_ok d \<Longrightarrow> items_ok (set_runs P f d)" by (simp add: items_ok_def ids)
qed

text \<open>A run may stop running once none of its items is claimed.\<close>

lemma update_run_tables_ok:
  assumes "tables_ok d"
    and "\<And>r i. r \<in> set (db_runs d) \<Longrightarrow> P r \<Longrightarrow> rr_state r = RunRunning \<Longrightarrow> rr_state (f r) \<noteq> RunRunning \<Longrightarrow>
        i \<in> set (db_items d) \<Longrightarrow> wi_run i = rr_id r \<Longrightarrow> wi_status i \<noteq> Claimed"
  shows "tables_ok (set_runs P f d)"
proof -
  have "settled (set_runs P f d)"
    unfolding settled_def
  proof (intro ballI impI)
    fix i assume i: "i \<in> set (db_items (set_runs P f d))" "wi_status i = Claimed"
    then obtain r where r: "r \<in> set (db_runs d)" "rr_id r = wi_run i" "rr_state r = RunRunning"
      using assms(1) by (auto simp: tables_ok_def settled_def)
    with i assms(2) [of r i] have "P r \<Longrightarrow> rr_state (f r) = RunRunning" by auto
    with r keeps_id show "\<exists>r \<in> set (db_runs (set_runs P f d)). rr_id r = wi_run i \<and> rr_state r = RunRunning"
      by (intro bexI [of _ "if P r then f r else r"]) (auto simp: set_update_where)
  qed
  with assms(1) show ?thesis
    by (simp add: tables_ok_def update_runs_ok update_run_items_ok)
qed

end

lemma final_run_state_neq [simp]: "final_run_state s \<noteq> RunRunning"
  by (cases s) simp_all

interpretation abandoning_run: run_update "abandoned_run now" P
  by unfold_locales (auto simp: run_ok_def abandoned_run_def split: option.splits)

interpretation finalizing_run: run_update "finalized_run req now" P
  by unfold_locales (auto simp: run_ok_def finalized_run_def final_run_state_neq split: option.splits)

interpretation deriving_cutoff: run_update "set_cutoff PhaseDerived t now"
    "\<lambda>r. rr_derived_cutoff r = None"
  by unfold_locales (auto simp: run_ok_def set_cutoff_def split: option.splits)

interpretation scoring_cutoff: run_update "set_cutoff PhaseMacroScore t now"
    "\<lambda>r. \<exists>s. rr_derived_cutoff r = Some s \<and> s \<le> t"
  by unfold_locales (auto simp: run_ok_def set_cutoff_def)

text \<open>Writes to other tables are invisible to the invariant.\<close>

definition same_core :: "db \<Rightarrow> db \<Rightarrow> bool" where
  "same_core d e \<longleftrightarrow> db_runs d = db_runs e \<and> db_items d = db_items e \<and> db_leases d = db_leases e"

lemma same_core_tables: "same_core d e \<Longrightarrow> tables_ok d = tables_ok e"
  by (simp add: same_core_def tables_ok_def runs_ok_def items_ok_def settled_def)

lemma same_core_exclusive: "same_core d e \<Longrightarrow> exclusive t d = exclusive t e"
  by (simp add: same_core_def exclusive_def)

end
