(* ===== verification/RunPreserve.thy ===== *)
theory RunPreserve
  imports RunInvariant
begin

text \<open>
  Every operation of the engine keeps \<open>tables_ok\<close> and \<open>exclusive\<close>. The proofs go through the updates
  interpreted in \<open>RunInvariant\<close>; only what an operation adds to its updates is argued here.
\<close>

definition quiet :: "timestamp \<Rightarrow> db \<Rightarrow> bool" where
  "quiet t d \<longleftrightarrow> (\<forall>i \<in> set (db_items d). \<not> active_at t i)"

lemma quiet_exclusive: "quiet t d \<Longrightarrow> exclusive t d"
  by (auto simp: quiet_def intro: exclusive_none)

lemma same_core_quiet: "same_core d e \<Longrightarrow> quiet t d = quiet t e"
  by (simp add: same_core_def quiet_def)

lemma same_core_fail_tasks [simp]: "same_core (fail_running_tasks fin err ts d) d"
  by (simp add: same_core_def)

lemma quiet_set_items:
  "quiet t d \<Longrightarrow> (\<And>i. i \<in> set (db_items d) \<Longrightarrow> P i \<Longrightarrow> active_at t (f i) \<Longrightarrow> active_at t i) \<Longrightarrow>
    quiet t (set_items P f d)"
  by (auto simp: quiet_def set_update_where split: if_splits)

lemma not_active_statuses [simp]:
  "\<not> active_at t (abandoned_item now i)"
  "\<not> active_at t (exhaust_item now i)"
  "\<not> active_at t (defer_item req now retry_at i)"
  "\<not> active_at t (complete_item creq now i)"
  by (cases "co_status creq";
      simp add: active_at_def abandoned_item_def exhaust_item_def defer_item_def complete_item_def)+

lemma find_run_unique:
  assumes "runs_ok d" "find_run d r = Some x" "y \<in> set (db_runs d)" "rr_id y = r"
  shows "y = x"
  using assms find_run_SomeD [OF assms(2)] by (auto simp: runs_ok_def distinct_map inj_on_def)

text \<open>Under exclusivity, only the run that owns the lease can hold an active claim.\<close>

lemma quiet_if_no_active_claim:
  assumes "exclusive t d" "db_leases d DAILY_REFRESH_LEASE = Some l"
    and "\<not> exists_where (active_claim (le_owner l) t) (db_items d)"
  shows "quiet t d"
  using assms by (auto simp: exclusive_def quiet_def exists_where_iff active_claim_def active_at_def)

lemma quiet_if_no_lease: "exclusive t d \<Longrightarrow> db_leases d DAILY_REFRESH_LEASE = None \<Longrightarrow> quiet t d"
  by (auto simp: exclusive_def quiet_def)

lemma quiet_if_owner_not_running:
  assumes "exclusive t d" "tables_ok d" "db_leases d DAILY_REFRESH_LEASE = Some l"
    and "\<And>x. x \<in> set (db_runs d) \<Longrightarrow> rr_id x = le_owner l \<Longrightarrow> rr_state x \<noteq> RunRunning"
  shows "quiet t d"
  unfolding quiet_def
proof (intro ballI notI)
  fix i assume i: "i \<in> set (db_items d)" "active_at t i"
  with assms(1,3) have "le_owner l = wi_run i" by (auto simp: exclusive_def)
  moreover from i assms(2) obtain x where "x \<in> set (db_runs d)" "rr_id x = wi_run i" "rr_state x = RunRunning"
    by (auto simp: tables_ok_def settled_def active_at_def)
  ultimately show False using assms(4) by auto
qed

lemma has_live_leaseD:
  "has_live_lease d r now \<Longrightarrow> \<exists>l. db_leases d DAILY_REFRESH_LEASE = Some l \<and> le_owner l = r \<and> now < le_expires l"
  by (auto simp: has_live_lease_def split: option.splits)

section \<open>Claims\<close>

lemma fail_exhausted_core:
  "same_core (fail_exhausted r now d) (set_items (exhausted_claim r now) (exhaust_item now) d)"
proof (cases "filter (exhausted_claim r now) (db_items d) = []")
  case True
  then have "\<not> exists_where (exhausted_claim r now) (db_items d)"
    by (auto simp: exists_where_iff filter_empty_conv)
  with True show ?thesis by (simp add: fail_exhausted_def same_core_def update_where_id)
next
  case False
  then show ?thesis by (simp add: fail_exhausted_def same_core_def)
qed

lemma fail_exhausted_sel [simp]:
  "db_runs (fail_exhausted r now d) = db_runs d"
  "db_leases (fail_exhausted r now d) = db_leases d"
  "db_access (fail_exhausted r now d) = db_access d"
  "db_attempts (fail_exhausted r now d) = db_attempts d"
  "db_items (fail_exhausted r now d) =
     update_where (exhausted_claim r now) (exhaust_item now) (db_items d)"
  using fail_exhausted_core [of r now d]
  by (simp_all add: same_core_def) (simp_all add: fail_exhausted_def Let_def)

lemma fail_exhausted_tables: "tables_ok d \<Longrightarrow> tables_ok (fail_exhausted r now d)"
  using same_core_tables [OF fail_exhausted_core] exhausting.update_tables_ok
  by (simp add: exhaust_item_def)

lemma fail_exhausted_exclusive: "exclusive t d \<Longrightarrow> exclusive t (fail_exhausted r now d)"
  using same_core_exclusive [OF fail_exhausted_core] exhausting.update_exclusive by simp

text \<open>Claiming one row of a quiet database makes it the only active one.\<close>

lemma claim_update_exclusive:
  assumes "item_update f P" "quiet t d" "items_ok d" "db_leases d DAILY_REFRESH_LEASE = Some l"
    and "\<And>i. P i \<Longrightarrow> item_key_of i = (le_owner l, k)"
  shows "exclusive t (set_items P f d)"
proof -
  let ?v = "(le_owner l, k)"
  have active: "item_key_of i = ?v" if i: "i \<in> set (update_where P f (db_items d))" "active_at t i" for i
  proof -
    from i(1) obtain j where j: "j \<in> set (db_items d)" "i = (if P j then f j else j)"
      by (auto simp: set_update_where)
    with i(2) assms(2) have "P j" by (auto simp: quiet_def split: if_splits)
    with j assms(5) show ?thesis by (simp add: item_update.keeps_key [OF assms(1)])
  qed
  have "count_where (active_at t) (update_where P f (db_items d))
      \<le> count_where (\<lambda>i. item_key_of i = ?v) (update_where P f (db_items d))"
    by (rule count_where_mono) (rule active)
  also have "\<dots> \<le> 1"
    using assms(3) by (intro count_where_key_le_1 [where k = item_key_of and v = ?v])
      (simp_all add: items_ok_def map_update_where_frame item_update.keeps_key [OF assms(1)])
  finally show ?thesis
    using active assms(4) by (auto simp: exclusive_def item_key_of_def)
qed

lemma claim_row_ok:
  assumes "\<And>P. item_update f P" "tables_ok d" "quiet t d"
    and "db_leases d DAILY_REFRESH_LEASE = Some l"
    and "\<exists>x \<in> set (db_runs d). rr_id x = le_owner l \<and> rr_state x = RunRunning"
    and "claim_row (le_owner l) k g f d = (res, d')"
  shows "tables_ok d' \<and> exclusive t d'"
proof -
  let ?P = "\<lambda>i. wi_run i = le_owner l \<and> wi_key i = k \<and> g i"
  have d': "d' = set_items ?P f d"
    using assms(6) by (auto simp: claim_row_def Let_def split: if_splits)
  have "tables_ok (set_items ?P f d)"
    using assms(5) by (intro item_update.update_tables_ok [OF assms(1) assms(2)]) auto
  moreover have "exclusive t (set_items ?P f d)"
    using assms(2) by (intro claim_update_exclusive [OF assms(1) assms(3) _ assms(4), where k = k])
      (auto simp: tables_ok_def item_key_of_def)
  ultimately show ?thesis by (simp add: d')
qed

text \<open>The scan of the current manifest only notes cooldowns: it changes no status and no claim.\<close>

lemma note_step_ok:
  assumes "tables_ok d"
  shows "tables_ok (note_cooldown at now i d)" "tables_ok (note_dependency at now i d)"
    "quiet t d \<Longrightarrow> quiet t (note_cooldown at now i d)" "quiet t d \<Longrightarrow> quiet t (note_dependency at now i d)"
  using assms unfolding note_cooldown_def note_dependency_def
  by (auto intro!: cooling.update_tables_ok quiet_set_items simp: active_at_def)

lemma note_step_sel [simp]:
  "db_runs (note_cooldown at now i d) = db_runs d" "db_leases (note_cooldown at now i d) = db_leases d"
  "db_runs (note_dependency at now i d) = db_runs d" "db_leases (note_dependency at now i d) = db_leases d"
  by (simp_all add: note_cooldown_def note_dependency_def)

lemma scan_v6_ok:
  "scan_v6 d0 ex now ndt rows xs d = Inr (c, d') \<Longrightarrow> tables_ok d \<Longrightarrow> quiet t d \<Longrightarrow>
    tables_ok d' \<and> quiet t d' \<and> db_runs d' = db_runs d \<and> db_leases d' = db_leases d"
proof (induction d0 ex now ndt rows xs d rule: scan_v6.induct)
  case (2 d0 ex now ndt rows i xs d)
  from "2.prems"(1) obtain v where v: "row_verdict d0 ex now ndt rows i = Inr v" by (auto simp: bindE_Inr_iff)
  with 2 note_step_ok show ?case by (cases v) (fastforce simp: note_step_ok)+
qed auto

lemma legacy_claim_ok:
  assumes "tables_ok d" "quiet t d" "db_leases d DAILY_REFRESH_LEASE = Some l" "le_owner l = cr_run req"
    and "\<exists>x \<in> set (db_runs d). rr_id x = cr_run req \<and> rr_state x = RunRunning"
    and "claim_legacy_item req now ex token d = (res, d')"
  shows "tables_ok d' \<and> exclusive t d'"
proof (cases "d' = d")
  case True
  with assms(1,2) quiet_exclusive show ?thesis by simp
next
  case False
  with assms(6) have "\<exists>i::work_item. claim_row (cr_run req) (wi_key i) (\<lambda>_. True) (claim_item token now ex) d = (res, d')"
    by (auto simp: claim_legacy_item_def Let_def split: if_splits option.splits)
  then obtain i :: work_item where "claim_row (le_owner l) (wi_key i) (\<lambda>_. True) (claim_item token now ex) d = (res, d')"
    using assms(4) by auto
  then show ?thesis
    using assms claiming.item_update_axioms by (intro claim_row_ok [of "claim_item token now ex"]) auto
qed

lemma v6_claim_ok:
  assumes "tables_ok d" "quiet t d" "db_leases d DAILY_REFRESH_LEASE = Some l" "le_owner l = cr_run req"
    and "\<exists>x \<in> set (db_runs d). rr_id x = cr_run req \<and> rr_state x = RunRunning"
    and "claim_v6_item req now ex token d = Inr (res, d')"
  shows "tables_ok d' \<and> exclusive t d'"
proof -
  from assms(6) obtain ndt chosen d1 where
    scan: "scan_v6 d (cr_expected req) now ndt (run_items d (cr_run req)) (run_items d (cr_run req)) d
        = Inr (chosen, d1)"
    and rest: "case chosen of None \<Rightarrow> (None, d1) = (res, d')
       | Some i \<Rightarrow> claim_row (cr_run req) (wi_key i) (claimable_v6 now) (claim_item_v6 token now ex) d1 = (res, d')"
    by (fastforce simp: claim_v6_item_def bindE_Inr_iff Let_def split: option.splits)
  note s = scan_v6_ok [OF scan assms(1,2)]
  show ?thesis
  proof (cases chosen)
    case None
    with s rest quiet_exclusive show ?thesis by simp
  next
    case (Some i)
    with rest s assms claiming_v6.item_update_axioms show ?thesis
      by (intro claim_row_ok [of "claim_item_v6 token now ex" d1 t l "wi_key i" "claimable_v6 now" res]) auto
  qed
qed

text \<open>A call either stops before its first write, or goes on from the database without exhausted claims.\<close>

lemma claim_next_cases:
  assumes "claim_next_work_item req token d = Inr (res, d')"
  obtains "d' = d" "res = None"
  | now where "d' = fail_exhausted (cr_run req) now d" "res = None" "utc_iso (cr_now req) ''now'' = Inr now"
  | now ex run where "utc_iso (cr_now req) ''now'' = Inr now" "utc_iso (cr_expires req) ''claim_expires_at'' = Inr ex"
      "now < ex" "find_run d (cr_run req) = Some run" "rr_state run = RunRunning"
      "has_live_lease d (cr_run req) now"
      "\<not> exists_where (active_claim (cr_run req) now) (db_items (fail_exhausted (cr_run req) now d))"
      "if is_v6 (rr_version run) then claim_v6_item req now ex token (fail_exhausted (cr_run req) now d) = Inr (res, d')
       else claim_legacy_item req now ex token (fail_exhausted (cr_run req) now d) = (res, d')"
  using assms
  unfolding claim_next_work_item_def bindE_Inr_iff Let_def is_v6_def CURRENT_REFRESH_MANIFEST_VERSION_def
  by (auto split: if_splits option.splits sum.splits simp: not_le)

lemma claim_next_ok:
  assumes "claim_next_work_item req token d = Inr (res, d')" "tables_ok d"
    and "utc_iso (cr_now req) ''now'' = Inr now" "exclusive now d"
  shows "tables_ok d' \<and> exclusive now d'"
proof -
  let ?d = "fail_exhausted (cr_run req) now d"
  have e: "exclusive now ?d" "tables_ok ?d" using assms fail_exhausted_exclusive fail_exhausted_tables by auto
  show ?thesis
    using assms(1)
  proof (cases rule: claim_next_cases)
    case (3 now' ex run)
    then have [simp]: "now' = now" using assms(3) by simp
    obtain l where l: "db_leases ?d DAILY_REFRESH_LEASE = Some l" "le_owner l = cr_run req"
      using has_live_leaseD [OF 3(6)] by auto
    have q: "quiet now ?d" using quiet_if_no_active_claim [OF e(1) l(1)] 3(7) l(2) by simp
    have r: "\<exists>x \<in> set (db_runs ?d). rr_id x = cr_run req \<and> rr_state x = RunRunning"
      using 3(4,5) find_run_SomeD by fastforce
    from 3(8) show ?thesis
      using v6_claim_ok [OF e(2) q l r] legacy_claim_ok [OF e(2) q l r] by (simp split: if_splits)
  qed (use e assms in auto)
qed

section \<open>Leaving a claim\<close>

lemma defer_ok:
  assumes "defer_work_item_claim req d = Inr (ok, d')" "tables_ok d"
  shows "tables_ok d'" and "exclusive t d \<Longrightarrow> exclusive t d'"
proof -
  obtain now retry P where d': "d' = set_items P (defer_item req now retry) d"
    using assms(1) by (auto simp: defer_work_item_claim_def bindE_Inr_iff Let_def split: if_splits)
  show "tables_ok d'" unfolding d'
    by (rule deferring.update_tables_ok [OF assms(2)]) (simp add: defer_item_def)
  show "exclusive t d \<Longrightarrow> exclusive t d'" unfolding d' by (rule deferring.update_exclusive) simp_all
qed

lemma outcome_status_neq [simp]: "outcome_status s \<noteq> Claimed"
  by (cases s) simp_all

lemma complete_ok:
  assumes "complete_work_item_claim req d = Inr (ok, d')" "tables_ok d"
  shows "tables_ok d'" and "exclusive t d \<Longrightarrow> exclusive t d'"
proof -
  obtain now where d': "d' = set_items (holds_claim d (co_run req) (co_key req) (co_token req) now) (complete_item req now) d"
    and nn: "exists_where (holds_claim d (co_run req) (co_key req) (co_token req) now) (db_items d) \<longrightarrow>
       0 \<le> co_series req \<and> 0 \<le> co_records req"
    using assms(1) by (auto simp: complete_work_item_claim_def bindE_Inr_iff Let_def split: if_splits)
  let ?Q = "holds_claim d (co_run req) (co_key req) (co_token req) now"
  have eq: "d' = d \<or> d' = set_items (\<lambda>i. wi_status i = Claimed \<and> 0 \<le> co_series req \<and> 0 \<le> co_records req \<and> ?Q i)
      (complete_item req now) d"
  proof (cases "exists_where ?Q (db_items d)")
    case True
    with nn have "?Q = (\<lambda>i. wi_status i = Claimed \<and> 0 \<le> co_series req \<and> 0 \<le> co_records req \<and> ?Q i)"
      by (auto simp: fun_eq_iff holds_claim_def)
    with d' show ?thesis by simp
  qed (simp add: d' set_items_def update_where_id)
  then show "tables_ok d'"
    using completing.update_tables_ok [OF assms(2)] assms(2) by (auto simp: complete_item_def)
  from eq show "exclusive t d \<Longrightarrow> exclusive t d'"
    using completing.update_exclusive [of t d creq for creq] by (metis not_active_statuses(4))
qed

section \<open>Cutoffs and finalization\<close>

definition owners_agree :: "db \<Rightarrow> db \<Rightarrow> bool" where
  "owners_agree d e \<longleftrightarrow> map_option le_owner (db_leases d DAILY_REFRESH_LEASE)
     = map_option le_owner (db_leases e DAILY_REFRESH_LEASE)"

lemma exclusive_owners:
  "owners_agree d e \<Longrightarrow> db_items d = db_items e \<Longrightarrow> exclusive t d = exclusive t e"
  by (cases "db_leases d DAILY_REFRESH_LEASE"; cases "db_leases e DAILY_REFRESH_LEASE")
    (auto simp: exclusive_def owners_agree_def)

lemma extend_lease_sel [simp]:
  "db_runs (extend_lease r now ex d) = db_runs d"
  "db_items (extend_lease r now ex d) = db_items d"
  "db_attempts (extend_lease r now ex d) = db_attempts d"
  "owners_agree (extend_lease r now ex d) d"
  by (auto simp: extend_lease_def owners_agree_def split: option.splits)

lemma same_rows_tables:
  "db_runs d = db_runs e \<Longrightarrow> db_items d = db_items e \<Longrightarrow> tables_ok d = tables_ok e"
  by (simp add: tables_ok_def runs_ok_def items_ok_def settled_def)

lemma set_cutoff_sel [simp]: "rr_state (set_cutoff p t now r) = rr_state r" "rr_id (set_cutoff p t now r) = rr_id r"
  by (simp_all add: set_cutoff_def split: cutoff_phase.splits)

text \<open>Under unique run ids the update of a found run only touches that run.\<close>

lemma set_runs_found:
  assumes "runs_ok d" "find_run d r = Some x"
  shows "set_runs (\<lambda>y. rr_id y = r \<and> Q y) f d = set_runs (\<lambda>y. y = x \<and> Q x) f d"
proof -
  have "(rr_id y = r \<and> Q y) = (y = x \<and> Q x)" if "y \<in> set (db_runs d)" for y
    using find_run_unique [OF assms that] find_run_SomeD [OF assms(2)] by blast
  then have "update_where (\<lambda>y. rr_id y = r \<and> Q y) f (db_runs d) = update_where (\<lambda>y. y = x \<and> Q x) f (db_runs d)"
    unfolding update_where_def by (intro map_cong refl) simp
  then show ?thesis by (simp only: set_runs_def)
qed

lemma cutoff_ok:
  assumes "persist_run_cutoff req d = Inr (v, d')" "tables_ok d"
  shows "tables_ok d'" and "exclusive t d \<Longrightarrow> exclusive t d'"
proof -
  from assms(1) obtain cutoff now ex run where run: "find_run d (cu_run req) = Some run"
    and allowed: "cutoff_allowed req cutoff run = Inr ()"
    and d': "d' = extend_lease (cu_run req) now ex d \<or>
       cutoff_of (cu_phase req) run = None \<and>
       d' = extend_lease (cu_run req) now ex (set_runs (\<lambda>r. rr_id r = cu_run req \<and> rr_state r = RunRunning
          \<and> cutoff_of (cu_phase req) r = None) (set_cutoff (cu_phase req) cutoff now) d)"
    by (auto simp: persist_run_cutoff_def bindE_Inr_iff split: if_splits option.splits)
  let ?P = "\<lambda>r. rr_id r = cu_run req \<and> rr_state r = RunRunning \<and> cutoff_of (cu_phase req) r = None"
  let ?e = "set_runs ?P (set_cutoff (cu_phase req) cutoff now) d"
  have ok: "tables_ok ?e" if none: "cutoff_of (cu_phase req) run = None"
  proof -
    have "run_update (set_cutoff (cu_phase req) cutoff now) (\<lambda>y. y = run \<and> rr_state run = RunRunning \<and> cutoff_of (cu_phase req) run = None)"
      using allowed none
      by unfold_locales
        (auto simp: run_ok_def set_cutoff_def cutoff_allowed_def cutoff_of_def
          split: cutoff_phase.splits option.splits if_splits)
    note run_update.update_run_tables_ok [OF this assms(2)]
    moreover have "runs_ok d" using assms(2) by (simp add: tables_ok_def)
    ultimately show ?thesis by (simp add: set_runs_found [OF _ run])
  qed
  show "tables_ok d'"
    using d'
  proof
    assume "d' = extend_lease (cu_run req) now ex d"
    then show ?thesis using same_rows_tables [of d' d] assms(2) by simp
  next
    assume "cutoff_of (cu_phase req) run = None \<and> d' = extend_lease (cu_run req) now ex ?e"
    then show ?thesis using same_rows_tables [of d' ?e] ok by simp
  qed
  have "owners_agree d' d \<and> db_items d' = db_items d"
    using d' extend_lease_sel(4) [of "cu_run req" now ex d] extend_lease_sel(4) [of "cu_run req" now ex ?e]
    by (auto simp: owners_agree_def)
  then show "exclusive t d \<Longrightarrow> exclusive t d'" using exclusive_owners by blast
qed

lemma finalize_True:
  assumes "finalize_and_release_run req d = Inr (True, d')"
  obtains run now success where "find_run d (fi_run req) = Some run" "rr_state run = RunRunning"
    "utc_iso (fi_finished req) ''finished_at'' = Inr now" "has_live_lease d (fi_run req) now"
    "\<not> exists_where (unfinished_item (is_v6 (rr_version run)) (fi_run req)) (db_items d)"
    "\<not> exists_where (retryable_failure (is_v6 (rr_version run)) (fi_run req)) (db_items d)"
    "\<not> exists_where (blocks_success req) (db_items d)"
    "d' = set_lease DAILY_REFRESH_LEASE None (stamp_success success (finalize_run_row req now d))"
proof -
  from assms obtain now success run where
    "utc_iso (fi_finished req) ''finished_at'' = Inr now" "has_live_lease d (fi_run req) now"
    "find_run d (fi_run req) = Some run" "rr_state run = RunRunning"
    "\<not> exists_where (unfinished_item (is_v6 (rr_version run)) (fi_run req)) (db_items d)"
    "\<not> exists_where (retryable_failure (is_v6 (rr_version run)) (fi_run req)) (db_items d)"
    "\<not> exists_where (blocks_success req) (db_items d)"
    "d' = set_lease DAILY_REFRESH_LEASE None (stamp_success success (finalize_run_row req now d))"
    unfolding finalize_and_release_run_def bindE_Inr_iff Let_def
    by (auto split: if_splits option.splits)
  then show ?thesis using that by blast
qed

lemma finalize_False:
  assumes "finalize_and_release_run req d = Inr (False, d')" "tables_ok d"
  shows "d' = d"
proof -
  have "count_where (\<lambda>r. rr_id r = fi_run req \<and> rr_state r = RunRunning) (db_runs d) = 1"
    if "find_run d (fi_run req) = Some run" "rr_state run = RunRunning" for run
    using that assms(2) find_run_SomeD
    by (intro count_where_key_1 [where k = rr_id and v = "fi_run req"])
      (fastforce simp: tables_ok_def runs_ok_def exists_where_iff)+
  then show ?thesis using assms(1)
    by (auto simp: finalize_and_release_run_def bindE_Inr_iff Let_def split: if_splits option.splits)
qed

lemma finalized_run_sel [simp]:
  "rr_state (finalized_run req now r) = final_run_state (fi_state req)" "rr_id (finalized_run req now r) = rr_id r"
  by (simp_all add: finalized_run_def)

lemma finalize_ok:
  assumes "finalize_and_release_run req d = Inr (ok, d')" "tables_ok d"
  shows "tables_ok d'" and "exclusive t d \<Longrightarrow> exclusive t d'"
proof -
  consider "d' = d" | "ok = True" using finalize_False assms by (cases ok) auto
  then have "tables_ok d' \<and> (exclusive t d \<longrightarrow> exclusive t d')"
  proof cases
    case 2
    with assms(1) have fin: "finalize_and_release_run req d = Inr (True, d')" by simp
    obtain run :: run_record and now success where f: "has_live_lease d (fi_run req) now"
        "\<not> exists_where (unfinished_item (is_v6 (rr_version run)) (fi_run req)) (db_items d)"
      and d': "d' = set_lease DAILY_REFRESH_LEASE None (stamp_success success (finalize_run_row req now d))"
      by (rule finalize_True [OF fin]) blast
    let ?e = "finalize_run_row req now d"
    have rows: "db_runs d' = db_runs ?e" "db_items d' = db_items d"
      unfolding d' by simp_all
    have none: "wi_status i \<noteq> Claimed" if "i \<in> set (db_items d)" "wi_run i = fi_run req" for i
      using f(2) that by (auto simp: exists_where_iff unfinished_item_def)
    have "tables_ok ?e" using none unfolding finalize_run_row_def
      by (intro finalizing_run.update_run_tables_ok [OF assms(2)]) auto
    then have "tables_ok d'" using same_rows_tables [of d' ?e] rows by simp
    moreover have "exclusive t d'" if x: "exclusive t d"
    proof -
      from has_live_leaseD [OF f(1)] x none have "quiet t d"
        by (auto simp: exclusive_def quiet_def active_at_def)
      then have "quiet t d'" using rows by (simp add: quiet_def)
      then show ?thesis by (rule quiet_exclusive)
    qed
    ultimately show ?thesis by simp
  qed (use assms(2) in simp)
  then show "tables_ok d'" and "exclusive t d \<Longrightarrow> exclusive t d'" by simp_all
qed

end
