(* ===== verification/RunProtocol.thy ===== *)
theory RunProtocol
  imports RunPreserve
begin

text \<open>
  The engine as a state machine. A state is the database with the largest clock reading seen so far;
  a step is one committed or rolled-back operation of any worker, whose own clock has not gone back.
  Every state reachable from the empty database satisfies \<open>tables_ok\<close> and \<open>exclusive\<close>.
\<close>

section \<open>Starting a run keeps the invariant\<close>

lemma insert_items_ok:
  assumes "insert_items xs d = Inr d'" "tables_ok d"
    and "\<And>x. x \<in> set xs \<Longrightarrow> item_ok x \<and> wi_status x = Pending \<and> (\<exists>r \<in> set (db_runs d). rr_id r = wi_run x)"
  shows "tables_ok d' \<and> db_runs d' = db_runs d \<and> db_leases d' = db_leases d
    \<and> db_items d' = db_items d @ xs \<and> db_plans d' = db_plans d \<and> db_attempts d' = db_attempts d"
  using assms
proof (induction xs d rule: insert_items.induct)
  case (2 i xs d)
  let ?e = "d\<lparr>db_items := db_items d @ [i]\<rparr>"
  from "2.prems"(1) have no: "\<not> exists_where (item_clash i) (db_items d)" and rest: "insert_items xs ?e = Inr d'"
    by (auto split: if_splits)
  have "tables_ok ?e"
    using "2.prems"(2) "2.prems"(3) [of i] no
    by (auto simp: tables_ok_def runs_ok_def items_ok_def settled_def exists_where_iff item_clash_def
        item_key_of_def item_slot_def)
  with 2 no rest show ?case by auto
qed simp

lemma insert_unit_rows_core:
  "insert_unit_rows us d = Inr d' \<Longrightarrow> same_core d' d \<and> db_plans d' = db_plans d \<and> db_attempts d' = db_attempts d"
proof (induction us d rule: insert_unit_rows.induct)
  case (2 u us d)
  then have "same_core d' (d\<lparr>db_units := db_units d @ [u]\<rparr>) \<and> db_plans d' = db_plans d \<and> db_attempts d' = db_attempts d"
    by (auto split: if_splits)
  then show ?case by (simp add: same_core_def)
qed (simp add: same_core_def)

lemma insert_sgs_plan_rows_core:
  assumes "insert_sgs_plan_rows c r p now d = Inr d'"
  shows "same_core d' d" "db_attempts d' = db_attempts d" "\<exists>row. db_plans d' = (db_plans d)(r \<mapsto> row) \<and> pr_sha row = plan_digest c p"
  using assms insert_unit_rows_core
  by (fastforce simp: insert_sgs_plan_rows_def same_core_def split: if_splits)+

lemma new_item_sel [simp]:
  "wi_run (new_item st s) = st_run st" "wi_status (new_item st s) = Pending" "item_ok (new_item st s)"
  "\<not> active_at t (new_item st s)" "wi_acquisitions (new_item st s) = 0"
  by (simp_all add: new_item_def item_ok_def active_at_def)

lemma tables_ok_add_run:
  assumes "tables_ok d" "run_ok r" "find_run d (rr_id r) = None"
  shows "tables_ok (d\<lparr>db_runs := db_runs d @ [r]\<rparr>)"
proof -
  have "rr_id r \<notin> rr_id ` set (db_runs d)" using find_run_NoneD [OF assms(3)] by fastforce
  with assms(1,2) show ?thesis by (auto simp: tables_ok_def runs_ok_def items_ok_def settled_def)
qed

lemma insert_run_ok:
  assumes "insert_run c st d = Inr d'" "tables_ok d" "run_ok (new_run st)"
  shows "tables_ok d' \<and> db_runs d' = db_runs d @ [new_run st] \<and> db_leases d' = db_leases d
    \<and> db_items d' = db_items d @ map (new_item st) (ordered_specs (st_items st))
    \<and> db_attempts d' = db_attempts d"
proof -
  let ?e = "d\<lparr>db_runs := db_runs d @ [new_run st]\<rparr>"
  from assms(1) obtain d1 where none: "find_run d (st_run st) = None"
    and ins: "insert_items (map (new_item st) (ordered_specs (st_items st))) ?e = Inr d1"
    and plan: "case st_plan st of None \<Rightarrow> d' = d1
       | Some p \<Rightarrow> insert_sgs_plan_rows c (st_run st) p (st_now st) d1 = Inr d'"
    by (auto simp: insert_run_def bindE_Inr_iff split: if_splits option.splits)
  have "tables_ok ?e" using assms none by (intro tables_ok_add_run) (auto simp: new_run_def)
  then have d1: "tables_ok d1 \<and> db_runs d1 = db_runs ?e \<and> db_leases d1 = db_leases d
    \<and> db_items d1 = db_items d @ map (new_item st) (ordered_specs (st_items st)) \<and> db_attempts d1 = db_attempts d"
    using insert_items_ok [OF ins] by (force simp: new_run_def)
  have "same_core d' d1 \<and> db_attempts d' = db_attempts d1"
    using plan insert_sgs_plan_rows_core by (auto simp: same_core_def split: option.splits)
  with d1 show ?thesis using same_core_tables [of d' d1] by (simp add: same_core_def)
qed

text \<open>Taking over from an expired owner leaves nothing active.\<close>

lemma abandoned_item_sel [simp]: "wi_status (abandoned_item now i) = Failed" "wi_run (abandoned_item now i) = wi_run i"
  by (simp_all add: abandoned_item_def)

lemma abandon_ok:
  assumes "abandon_expired_run (le_owner l) now new_owner d = Inr d'"
    and "tables_ok d" "exclusive now d" "db_leases d DAILY_REFRESH_LEASE = Some l"
  shows "tables_ok d' \<and> quiet now d' \<and> db_leases d' = db_leases d \<and> map rr_id (db_runs d') = map rr_id (db_runs d)"
proof (cases "\<exists>run. find_run d (le_owner l) = Some run \<and> rr_state run = RunRunning")
  case True
  then obtain run where run: "find_run d (le_owner l) = Some run" "rr_state run = RunRunning" by blast
  define ts where "ts = remdups (map wi_task (filter (unclosed (le_owner l)) (db_items d)))"
  let ?d1 = "set_items (unclosed (le_owner l)) (abandoned_item now) d"
  let ?d2 = "fail_running_tasks (Some now) (Some ''RefreshLeaseExpired'') ts ?d1"
  from assms(1) run have free: "\<not> exists_where (active_claim (le_owner l) now) (db_items d)"
    and d': "d' = set_runs (\<lambda>x. rr_id x = le_owner l \<and> rr_state x = RunRunning) (abandoned_run now) ?d2"
    by (auto simp: abandon_expired_run_def Let_def ts_def split: if_splits)
  have "tables_ok ?d1" by (rule abandoning.update_tables_ok [OF assms(2)]) simp
  then have "tables_ok ?d2" using same_core_tables [OF same_core_fail_tasks] by blast
  moreover have "wi_status i \<noteq> Claimed" if i: "i \<in> set (db_items ?d1)" "wi_run i = le_owner l" for i
  proof -
    from i(1) obtain j where "j \<in> set (db_items d)"
      "i = (if unclosed (le_owner l) j then abandoned_item now j else j)"
      by (auto simp: set_update_where)
    with i(2) show ?thesis by (cases "unclosed (le_owner l) j") (auto simp: unclosed_def)
  qed
  ultimately have "tables_ok d'" unfolding d'
    by (intro abandoning_run.update_run_tables_ok) (auto simp del: set_items_sel)
  moreover have "quiet now d" by (rule quiet_if_no_active_claim [OF assms(3,4) free])
  then have "quiet now ?d1" by (rule quiet_set_items) simp
  then have "quiet now d'" unfolding d' by (simp add: quiet_def)
  ultimately show ?thesis unfolding d' by (simp add: map_update_where_frame abandoned_run_def)
next
  case False
  then have "d' = d" using assms(1) by (auto simp: abandon_expired_run_def split: option.splits if_splits)
  moreover have "quiet now d"
  proof (rule quiet_if_owner_not_running [OF assms(3,2,4)])
    fix x assume x: "x \<in> set (db_runs d)" "rr_id x = le_owner l"
    have ok: "runs_ok d" using assms(2) by (simp add: tables_ok_def)
    obtain y where y: "find_run d (le_owner l) = Some y" using x find_run_NoneD by fastforce
    then have "x = y" using find_run_unique [OF ok y x] by simp
    with y False show "rr_state x \<noteq> RunRunning" by auto
  qed
  ultimately show ?thesis using assms(2) by simp
qed

lemma acquire_lease_sel [simp]:
  "db_runs (snd (acquire_lease st d)) = db_runs d" "db_items (snd (acquire_lease st d)) = db_items d"
  "db_attempts (snd (acquire_lease st d)) = db_attempts d"
  by (simp_all add: acquire_lease_def Let_def)

lemma acquire_lease_True:
  "acquire_lease st d = (True, d') \<Longrightarrow> \<exists>l. db_leases d' DAILY_REFRESH_LEASE = Some l \<and> le_owner l = st_run st
    \<and> st_expires st \<le> le_expires l"
  by (auto simp: acquire_lease_def Let_def split: if_splits option.splits)

lemma quiet_cong: "db_items d = db_items e \<Longrightarrow> quiet t d = quiet t e"
  by (simp add: quiet_def)

lemma take_lease_Inr:
  assumes "take_lease st d = Inr d'"
  obtains d1 where "displace_expired_owner st d = Inr d1" "acquire_lease st d1 = (True, d')"
proof -
  from assms obtain d1 where d1: "displace_expired_owner st d = Inr d1"
    and a: "(case acquire_lease st d1 of
       (True, d2) \<Rightarrow> Inr d2
     | (False, d2) \<Rightarrow> bindE (lease_owner (st_run st) d2) (\<lambda>w. Inl (LeaseConflict (st_run st) w))) = Inr d'"
    unfolding take_lease_def bindE_Inr_iff by blast
  show ?thesis
  proof (cases "acquire_lease st d1")
    case (Pair b e)
    with a have "b \<and> e = d'" by (cases b) (simp_all add: bindE_Inr_iff)
    with Pair d1 that show ?thesis by simp
  qed
qed

lemma take_lease_ok:
  assumes "take_lease st d = Inr d'" "tables_ok d" "exclusive (st_now st) d"
  shows "tables_ok d' \<and> exclusive (st_now st) d' \<and> map rr_id (db_runs d') = map rr_id (db_runs d)
    \<and> (\<exists>l. db_leases d' DAILY_REFRESH_LEASE = Some l \<and> le_owner l = st_run st \<and> st_expires st \<le> le_expires l)"
proof -
  from take_lease_Inr [OF assms(1)] obtain d1 where d1: "displace_expired_owner st d = Inr d1"
    and acq: "acquire_lease st d1 = (True, d')" .
  have rows: "db_runs d' = db_runs d1" "db_items d' = db_items d1"
    using acq acquire_lease_sel [of st d1] by auto
  have l': "\<exists>l. db_leases d' DAILY_REFRESH_LEASE = Some l \<and> le_owner l = st_run st \<and> st_expires st \<le> le_expires l"
    using acquire_lease_True [OF acq] .
  have "tables_ok d1 \<and> map rr_id (db_runs d1) = map rr_id (db_runs d) \<and>
      (quiet (st_now st) d1 \<or> d1 = d \<and> (\<exists>l. db_leases d DAILY_REFRESH_LEASE = Some l \<and> le_owner l = st_run st))"
  proof (cases "db_leases d DAILY_REFRESH_LEASE")
    case None
    then show ?thesis using d1 assms quiet_if_no_lease by (auto simp: displace_expired_owner_def)
  next
    case (Some l)
    show ?thesis
    proof (cases "le_owner l \<noteq> st_run st \<and> le_expires l \<le> st_now st")
      case True
      with d1 Some abandon_ok [OF _ assms(2,3) Some] show ?thesis by (simp add: displace_expired_owner_def)
    next
      case False
      with d1 Some have "d1 = d" by (auto simp: displace_expired_owner_def)
      moreover have "le_owner l = st_run st"
        using acq False Some \<open>d1 = d\<close> by (auto simp: acquire_lease_def Let_def lease_admits_def split: if_splits)
      ultimately show ?thesis using assms(2) Some by auto
    qed
  qed
  then show ?thesis
  proof (elim conjE disjE)
    assume "tables_ok d1" "quiet (st_now st) d1" "map rr_id (db_runs d1) = map rr_id (db_runs d)"
    then show ?thesis using rows l' same_rows_tables [of d' d1] quiet_cong [of d' d1] quiet_exclusive by auto
  next
    assume t: "tables_ok d1" "map rr_id (db_runs d1) = map rr_id (db_runs d)"
      and "d1 = d" "\<exists>l. db_leases d DAILY_REFRESH_LEASE = Some l \<and> le_owner l = st_run st"
    then have "owners_agree d' d" using l' by (auto simp: owners_agree_def)
    then show ?thesis using t rows l' \<open>d1 = d\<close> assms(3) same_rows_tables [of d' d1] exclusive_owners [of d' d] by auto
  qed
qed

lemma resume_or_insert_ok:
  assumes "resume_or_insert c st d = Inr (snap, d')" "tables_ok d" "exclusive t d"
    and "st_macro st = None \<or> find_run d (st_run st) \<noteq> None"
  shows "tables_ok d' \<and> exclusive t d'"
proof (cases "read_snapshot d (st_run st)")
  case None
  with assms(1) have ins: "insert_run c st d = Inr d'"
    by (auto simp: resume_or_insert_def bindE_Inr_iff split: option.splits)
  from None assms(4) have "run_ok (new_run st)"
    by (auto simp: read_snapshot_def new_run_def run_ok_def split: option.splits)
  from insert_run_ok [OF ins assms(2) this] assms(3) show ?thesis
    by (auto simp: exclusive_def count_where_def filter_empty_conv)
next
  case (Some existing)
  with assms(1) have "d' = d \<or> d' = release_owned_lease (st_run st) d \<and> rr_state (snap_run existing) \<noteq> RunRunning"
    by (auto simp: resume_or_insert_def split: if_splits)
  then show ?thesis
  proof
    assume d': "d' = release_owned_lease (st_run st) d \<and> rr_state (snap_run existing) \<noteq> RunRunning"
    have rows: "db_runs d' = db_runs d" "db_items d' = db_items d"
      using d' by (auto simp: release_owned_lease_def split: option.splits)
    have "exclusive t d'"
    proof (cases "\<exists>l. db_leases d DAILY_REFRESH_LEASE = Some l \<and> le_owner l = st_run st")
      case True
      then obtain l where l: "db_leases d DAILY_REFRESH_LEASE = Some l" "le_owner l = st_run st" by blast
      have found: "find_run d (st_run st) = Some (snap_run existing)" using read_snapshot_SomeD [OF Some] by simp
      have "runs_ok d" using assms(2) by (simp add: tables_ok_def)
      from find_run_unique [OF this found] d' have "quiet t d"
        by (intro quiet_if_owner_not_running [OF assms(3,2) l(1)]) (auto simp: l(2))
      then show ?thesis using rows quiet_cong [of d' d] quiet_exclusive by blast
    next
      case False
      then have "d' = d" using d' by (auto simp: release_owned_lease_def split: option.splits)
      then show ?thesis using assms(3) by simp
    qed
    then show ?thesis using same_rows_tables [OF rows] assms(2) by simp
  qed (use assms in simp)
qed

lemma normalize_start_Inr:
  assumes "normalize_start start = Inr st"
  shows "utc_iso (st_now start) ''now'' = Inr (st_now st)" "st_run st = st_run start"
    "st_macro start = None \<Longrightarrow> st_macro st = None" "st_now st < st_expires st"
    "st_items st = st_items start" "st_plan st = st_plan start" "st_cycle st = st_cycle start"
    "st_force st = st_force start" "st_version st = st_version start"
  using assms by (auto simp: normalize_start_def bindE_Inr_iff utc_iso_opt_def split: if_splits)

lemma find_run_ids:
  "map rr_id (db_runs d) = map rr_id (db_runs e) \<Longrightarrow> (find_run d r = None) = (find_run e r = None)"
proof -
  have "(find_run x r = None) = (r \<notin> set (map rr_id (db_runs x)))" for x
    by (auto simp: find_run_def find_None_iff)
  then show "map rr_id (db_runs d) = map rr_id (db_runs e) \<Longrightarrow> (find_run d r = None) = (find_run e r = None)"
    by presburger
qed

lemma create_cases:
  assumes "create_or_resume_run c start d = Inr (snap, d')"
  obtains st where "normalize_start start = Inr st" "d' = d" "read_snapshot d (st_run start) = Some snap"
      "rr_state (snap_run snap) \<noteq> RunRunning" "same_manifest c d snap st"
  | st d1 where "normalize_start start = Inr st" "take_lease st d = Inr d1"
      "resume_or_insert c st d1 = Inr (snap, d')"
proof -
  from assms obtain st where st: "normalize_start start = Inr st"
    by (auto simp: create_or_resume_run_def bindE_Inr_iff)
  have "(d' = d \<and> read_snapshot d (st_run start) = Some snap \<and> rr_state (snap_run snap) \<noteq> RunRunning
      \<and> same_manifest c d snap st) \<or> (\<exists>d1. take_lease st d = Inr d1 \<and> resume_or_insert c st d1 = Inr (snap, d'))"
    using assms normalize_start_Inr(2) [OF st]
    by (auto simp: create_or_resume_run_def st bindE_Inr_iff split: option.splits if_splits)
  with st that show ?thesis by blast
qed

lemma create_ok:
  assumes "create_or_resume_run c start d = Inr (snap, d')" "tables_ok d"
    and "utc_iso (st_now start) ''now'' = Inr now" "exclusive now d"
    and "st_macro start = None \<or> find_run d (st_run start) \<noteq> None"
  shows "tables_ok d' \<and> exclusive now d'"
  using assms(1)
proof (cases rule: create_cases)
  case (1 st)
  then show ?thesis using assms by simp
next
  case (2 st d1)
  have now: "st_now st = now" using normalize_start_Inr(1) [OF 2(1)] assms(3) by simp
  from take_lease_ok [OF 2(2) assms(2)] assms(4) now
  have d1: "tables_ok d1" "exclusive now d1" "map rr_id (db_runs d1) = map rr_id (db_runs d)" by auto
  have "st_macro st = None \<or> find_run d1 (st_run st) \<noteq> None"
    using assms(5) normalize_start_Inr(2,3) [OF 2(1)] find_run_ids [OF d1(3)] by auto
  then show ?thesis by (rule resume_or_insert_ok [OF 2(3) d1(1,2)])
qed

end
