(* ===== verification/RunReach.thy ===== *)
theory RunReach
  imports RunProtocol
begin

text \<open>
  The acquisition counter and the step relation. \<open>attempts_ok\<close> ties a work item's counter to its
  attempt rows; the reachable states of the engine satisfy all the invariants.
\<close>

section \<open>Operations only extend the item table\<close>

lemma fail_exhausted_extends: "extends d (fail_exhausted r now d)"
  using exhausting.update_extends [where d = d and P = "exhausted_claim r now"]
  by (simp add: extends_def)

lemma note_step_extends: "extends d (note_cooldown at now i d)" "extends d (note_dependency at now i d)"
  unfolding note_cooldown_def note_dependency_def by (rule cooling.update_extends)+

lemma claim_row_extends:
  "(\<And>P. monotone_update f P) \<Longrightarrow> claim_row r k g f d = (res, d') \<Longrightarrow> extends d d'"
  using monotone_update.update_extends by (fastforce simp: claim_row_def Let_def split: if_splits)

lemma extends_refl: "extends d d"
  by (rule extends_same_items) simp_all

lemma scan_v6_extends: "scan_v6 d0 ex now ndt rows xs d = Inr (c, d') \<Longrightarrow> extends d d'"
proof (induction d0 ex now ndt rows xs d rule: scan_v6.induct)
  case (2 d0 ex now ndt rows i xs d)
  from "2.prems" obtain v where v: "row_verdict d0 ex now ndt rows i = Inr v" by (auto simp: bindE_Inr_iff)
  show ?case
  proof (cases v)
    case (Cooldown at)
    with v 2 have "extends (note_cooldown at now i d) d'" by simp
    then show ?thesis using extends_trans note_step_extends by blast
  next
    case (WaitFor at)
    with v 2 have "extends (note_dependency at now i d) d'" by simp
    then show ?thesis using extends_trans note_step_extends by blast
  qed (use v 2 extends_refl in auto)
qed (simp add: extends_refl)

lemma claim_next_extends:
  assumes "claim_next_work_item req token d = Inr (res, d')"
  shows "extends d d'"
proof -
  have v6: "extends e e'" if "claim_v6_item req now ex token e = Inr (res, e')" for now ex e e'
  proof -
    from that obtain ndt chosen d1 where
      scan: "scan_v6 e (cr_expected req) now ndt (run_items e (cr_run req)) (run_items e (cr_run req)) e
          = Inr (chosen, d1)"
      and rest: "case chosen of None \<Rightarrow> (None, d1) = (res, e')
         | Some i \<Rightarrow> claim_row (cr_run req) (wi_key i) (claimable_v6 now) (claim_item_v6 token now ex) d1 = (res, e')"
      by (fastforce simp: claim_v6_item_def bindE_Inr_iff Let_def split: option.splits)
    have "extends d1 e'"
      using rest claim_row_extends [OF claiming_v6.monotone_update_axioms] extends_refl
      by (auto split: option.splits)
    with scan_v6_extends [OF scan] show ?thesis by (rule extends_trans)
  qed
  have legacy: "extends e e'" if "claim_legacy_item req now ex token e = (res, e')" for now ex e e'
    using that claim_row_extends [OF claiming.monotone_update_axioms] extends_refl
    by (auto simp: claim_legacy_item_def Let_def split: if_splits option.splits)
  from assms show ?thesis
  proof (cases rule: claim_next_cases)
    case (3 now ex run)
    then have "extends (fail_exhausted (cr_run req) now d) d'" using v6 legacy by (auto split: if_splits)
    then show ?thesis using fail_exhausted_extends extends_trans by blast
  qed (use extends_refl fail_exhausted_extends in auto)
qed

lemma defer_extends: "defer_work_item_claim req d = Inr (ok, d') \<Longrightarrow> extends d d'"
  using deferring.update_extends
  by (auto simp: defer_work_item_claim_def bindE_Inr_iff Let_def split: if_splits)

lemma complete_extends:
  assumes "complete_work_item_claim req d = Inr (ok, d')"
  shows "extends d d'"
proof -
  obtain now P where "d' = set_items P (complete_item req now) d"
    using assms by (auto simp: complete_work_item_claim_def bindE_Inr_iff Let_def split: if_splits)
  then show ?thesis unfolding extends_def
    by (intro conjI exI [of _ "\<lambda>i. if P i then complete_item req now i else i"] exI [of _ "[]"])
      (auto simp: update_where_def keeps_counters_def complete_item_def item_key_of_def)
qed

lemma cutoff_extends: "persist_run_cutoff req d = Inr (v, d') \<Longrightarrow> extends d d'"
  by (rule extends_same_items)
    (auto simp: persist_run_cutoff_def bindE_Inr_iff split: if_splits option.splits)

lemma finalize_extends:
  "finalize_and_release_run req d = Inr (ok, d') \<Longrightarrow> extends d d'"
  by (rule extends_same_items)
    (auto simp: finalize_and_release_run_def bindE_Inr_iff Let_def split: if_splits option.splits)

lemma abandon_extends: "abandon_expired_run owner now new d = Inr d' \<Longrightarrow> extends d d'"
  using abandoning.update_extends [where d = d and P = "unclosed owner"] extends_refl
  by (auto simp: abandon_expired_run_def Let_def extends_def split: if_splits option.splits)

lemma displace_extends: "displace_expired_owner st d = Inr d' \<Longrightarrow> extends d d'"
  using abandon_extends extends_refl
  by (auto simp: displace_expired_owner_def split: option.splits if_splits)

lemma take_lease_extends:
  assumes "take_lease st d = Inr d'"
  shows "extends d d'"
proof -
  from take_lease_Inr [OF assms] obtain d1 where d1: "displace_expired_owner st d = Inr d1"
    and a: "acquire_lease st d1 = (True, d')" .
  have "extends d1 d'" using a acquire_lease_sel [of st d1] by (intro extends_same_items) auto
  with displace_extends [OF d1] show ?thesis by (rule extends_trans)
qed

lemma insert_run_extends:
  assumes "insert_run c st d = Inr d'" "tables_ok d" "run_ok (new_run st)"
  shows "extends d d'"
  using insert_run_ok [OF assms] unfolding extends_def
  by (intro conjI exI [of _ id] exI [of _ "map (new_item st) (ordered_specs (st_items st))"])
    (auto simp: keeps_counters_def)

lemma resume_or_insert_extends:
  assumes "resume_or_insert c st d = Inr (snap, d')" "tables_ok d"
    and "st_macro st = None \<or> find_run d (st_run st) \<noteq> None"
  shows "extends d d'"
proof (cases "read_snapshot d (st_run st)")
  case None
  with assms(1) have ins: "insert_run c st d = Inr d'"
    by (auto simp: resume_or_insert_def bindE_Inr_iff split: option.splits)
  from None assms(3) have "run_ok (new_run st)"
    by (auto simp: read_snapshot_def new_run_def run_ok_def split: option.splits)
  from insert_run_extends [OF ins assms(2) this] show ?thesis .
next
  case (Some existing)
  with assms(1) show ?thesis
    by (intro extends_same_items)
      (auto simp: resume_or_insert_def release_owned_lease_def split: if_splits option.splits)
qed

lemma create_extends:
  assumes "create_or_resume_run c start d = Inr (snap, d')" "tables_ok d"
    and "utc_iso (st_now start) ''now'' = Inr now" "exclusive now d"
    and "st_macro start = None \<or> find_run d (st_run start) \<noteq> None"
  shows "extends d d'"
  using assms(1)
proof (cases rule: create_cases)
  case (1 st)
  then show ?thesis by (simp add: extends_refl)
next
  case (2 st d1)
  have now: "st_now st = now" using normalize_start_Inr(1) [OF 2(1)] assms(3) by simp
  from take_lease_ok [OF 2(2) assms(2)] assms(4) now
  have d1: "tables_ok d1" "map rr_id (db_runs d1) = map rr_id (db_runs d)" by auto
  have "st_macro st = None \<or> find_run d1 (st_run st) \<noteq> None"
    using assms(5) normalize_start_Inr(2,3) [OF 2(1)] find_run_ids [OF d1(2)] by auto
  from take_lease_extends [OF 2(2)] resume_or_insert_extends [OF 2(3) d1(1) this] show ?thesis
    by (rule extends_trans)
qed

section \<open>The acquisition counter\<close>

definition attempt_slot :: "attempt_row \<Rightarrow> (run_id \<times> item_key) \<times> nat" where
  "attempt_slot a = ((at_run a, at_item a), at_number a)"

definition outbound_of :: "run_id \<times> item_key \<Rightarrow> attempt_row \<Rightarrow> bool" where
  "outbound_of k a \<longleftrightarrow> (at_run a, at_item a) = k \<and> at_outbound a \<noteq> None"

definition attempts_ok :: "db \<Rightarrow> bool" where
  "attempts_ok d \<longleftrightarrow> distinct (map at_id (db_attempts d)) \<and> distinct (map attempt_slot (db_attempts d))
     \<and> (\<forall>a \<in> set (db_attempts d). at_generation a = at_number a \<and> at_number a \<noteq> 0
          \<and> (\<exists>i \<in> set (db_items d). item_key_of i = (at_run a, at_item a) \<and> at_number a \<le> wi_attempt i))
     \<and> (\<forall>i \<in> set (db_items d). wi_acquisitions i = count_where (outbound_of (item_key_of i)) (db_attempts d))"

text \<open>Each claim counts at most one acquisition, so a work item never counts more than its claims.\<close>

lemma acquisitions_le_attempt:
  assumes "attempts_ok d" "items_ok d" "i \<in> set (db_items d)"
  shows "wi_acquisitions i \<le> wi_attempt i"
proof -
  let ?S = "filter (outbound_of (item_key_of i)) (db_attempts d)"
  have "at_number a \<in> {1..wi_attempt i}" if "a \<in> set ?S" for a
  proof -
    from that assms(1) obtain j where j: "j \<in> set (db_items d)" "item_key_of j = (at_run a, at_item a)"
      "at_number a \<le> wi_attempt j" "at_number a \<noteq> 0" by (auto simp: attempts_ok_def)
    with that have "item_key_of j = item_key_of i" by (auto simp: outbound_of_def)
    with j(1) assms(2,3) have "j = i" by (auto simp: items_ok_def distinct_map inj_on_def)
    with j show ?thesis by auto
  qed
  then have "at_number ` set ?S \<subseteq> {1..wi_attempt i}" by auto
  moreover have "inj_on at_number (set ?S)"
  proof (rule inj_onI)
    fix a b assume ab: "a \<in> set ?S" "b \<in> set ?S" "at_number a = at_number b"
    then have "attempt_slot a = attempt_slot b" by (simp add: outbound_of_def attempt_slot_def)
    moreover have "inj_on attempt_slot (set (db_attempts d))"
      using assms(1) by (simp add: attempts_ok_def distinct_map)
    ultimately show "a = b" using ab(1,2) by (auto dest: inj_onD)
  qed
  ultimately have "card (set ?S) \<le> card {1..wi_attempt i}"
    by (intro card_inj_on_le [of at_number]) simp_all
  moreover have "distinct (db_attempts d)" using assms(1) by (simp add: attempts_ok_def distinct_map)
  then have "card (set ?S) = length ?S" by (intro distinct_card distinct_filter)
  moreover have "wi_acquisitions i = length ?S"
    using assms(1,3) by (simp add: attempts_ok_def count_where_def)
  ultimately show ?thesis by simp
qed

lemma attempts_ok_extends:
  assumes "extends d e" "attempts_ok d" "items_ok e"
  shows "attempts_ok e"
proof -
  from assms(1) obtain g new where at: "db_attempts e = db_attempts d"
    and it: "db_items e = map g (db_items d) @ new" and g: "keeps_counters g"
    and new: "\<forall>n \<in> set new. wi_acquisitions n = 0" by (auto simp: extends_def)
  have keys: "item_key_of (g i) = item_key_of i" "wi_acquisitions (g i) = wi_acquisitions i"
    "wi_attempt i \<le> wi_attempt (g i)" for i using g by (auto simp: keeps_counters_def)
  have old: "\<exists>i \<in> set (db_items e). item_key_of i = (at_run a, at_item a) \<and> at_number a \<le> wi_attempt i"
    if "a \<in> set (db_attempts d)" for a
  proof -
    from that assms(2) obtain i where "i \<in> set (db_items d)" "item_key_of i = (at_run a, at_item a)"
      "at_number a \<le> wi_attempt i" by (auto simp: attempts_ok_def)
    then show ?thesis using keys by (intro bexI [of _ "g i"]) (auto simp: it intro: order_trans)
  qed
  have fresh: "\<not> outbound_of (item_key_of n) a" if "n \<in> set new" "a \<in> set (db_attempts d)" for n a
  proof
    assume "outbound_of (item_key_of n) a"
    moreover from that(2) assms(2) obtain i where "i \<in> set (db_items d)" "item_key_of i = (at_run a, at_item a)"
      by (auto simp: attempts_ok_def)
    ultimately have "item_key_of n \<in> (item_key_of \<circ> g) ` set (db_items d)"
      using keys by (intro image_eqI [of _ _ i]) (auto simp: outbound_of_def)
    with that(1) assms(3) show False by (auto simp: items_ok_def it)
  qed
  have "wi_acquisitions i = count_where (outbound_of (item_key_of i)) (db_attempts e)"
    if "i \<in> set (db_items e)" for i
  proof -
    from that it consider j where "j \<in> set (db_items d)" "i = g j" | "i \<in> set new" by auto
    then show ?thesis
    proof cases
      case 1
      then show ?thesis using assms(2) keys by (simp add: attempts_ok_def at)
    next
      case 2
      then show ?thesis using fresh new by (auto simp: at count_where_def filter_empty_conv)
    qed
  qed
  with old assms(2) show ?thesis by (auto simp: attempts_ok_def at)
qed

section \<open>Attempt operations\<close>

lemma begin_ok:
  assumes "record_refresh_attempt_started ctx now d = Inr d'" "attempts_ok d"
    and "ac_generation ctx = ac_number ctx"
    and "\<exists>i \<in> set (db_items d). item_key_of i = (ac_run ctx, ac_item ctx) \<and> ac_number ctx \<le> wi_attempt i"
  shows "attempts_ok d' \<and> same_core d' d"
proof -
  from assms(1) have no: "\<not> exists_where (attempt_clash ctx) (db_attempts d)" "ac_number ctx \<noteq> 0"
    and d': "db_attempts d' = db_attempts d @ [new_attempt_row ctx now]" "same_core d' d"
    by (auto simp: record_refresh_attempt_started_def same_core_def split: if_splits)
  have "count_where (outbound_of k) (db_attempts d') = count_where (outbound_of k) (db_attempts d)" for k
    by (simp add: d' count_where_def outbound_of_def new_attempt_row_def)
  with assms no d' show ?thesis
    by (auto simp: attempts_ok_def attempt_slot_def new_attempt_row_def same_core_def exists_where_iff
        attempt_clash_def)
qed

lemma set_attempts_frame:
  assumes "attempts_ok d"
    and "\<And>a. at_id (f a) = at_id a \<and> at_run (f a) = at_run a \<and> at_item (f a) = at_item a
      \<and> at_number (f a) = at_number a \<and> at_generation (f a) = at_generation a \<and> at_outbound (f a) = at_outbound a"
  shows "attempts_ok (set_attempts P f d)"
proof -
  have "map at_id (update_where P f (db_attempts d)) = map at_id (db_attempts d)"
    "map attempt_slot (update_where P f (db_attempts d)) = map attempt_slot (db_attempts d)"
    using assms(2) by (auto intro!: map_update_where_frame simp: attempt_slot_def)
  moreover have "count_where (outbound_of k) (update_where P f (db_attempts d)) = count_where (outbound_of k) (db_attempts d)" for k
    using assms(2) by (intro count_where_update_frame) (simp add: outbound_of_def)
  ultimately show ?thesis
    using assms by (auto simp: attempts_ok_def set_update_where split: if_splits)
qed

lemma mark_ok:
  assumes "mark_refresh_acquisition_started ctx now d = Inr d'" "attempts_ok d" "items_ok d"
  shows "attempts_ok d' \<and> (d' = d \<or> (\<exists>P. same_core d' (set_items P
     (\<lambda>i. i\<lparr>wi_acquisitions := wi_acquisitions i + 1, wi_updated := now\<rparr>) d)))"
proof (cases "exists_where (opens_outbound ctx) (db_attempts d)")
  case False
  with assms show ?thesis by (auto simp: mark_refresh_acquisition_started_def split: if_splits)
next
  case True
  let ?k = "(ac_run ctx, ac_item ctx)"
  let ?f = "\<lambda>i. i\<lparr>wi_acquisitions := wi_acquisitions i + 1, wi_updated := now\<rparr>"
  let ?h = "\<lambda>a. a\<lparr>at_outbound := Some now\<rparr>"
  let ?C = "counts_acquisition ctx now"
  from True assms(1) have one: "count_where ?C (db_items d) = 1"
    and d': "d' = set_items ?C ?f (set_attempts (opens_outbound ctx) ?h d)"
    by (auto simp: mark_refresh_acquisition_started_def split: if_splits)
  have single: "count_where (opens_outbound ctx) (db_attempts d) = 1"
    using assms(2) True by (intro count_where_key_1 [where k = at_id and v = "ac_id ctx"])
      (auto simp: attempts_ok_def opens_outbound_def)
  have cnt: "count_where (outbound_of k) (update_where (opens_outbound ctx) ?h (db_attempts d))
      = count_where (outbound_of k) (db_attempts d) + (if k = ?k then 1 else 0)" for k
  proof (cases "k = ?k")
    case True
    then have "count_where (outbound_of k) (update_where (opens_outbound ctx) ?h (db_attempts d))
      = count_where (outbound_of k) (db_attempts d) + count_where (opens_outbound ctx) (db_attempts d)"
      by (intro count_where_update_add) (simp add: opens_outbound_def outbound_of_def)
    with True single show ?thesis by simp
  next
    case False
    then show ?thesis
      by (auto intro!: count_where_update_frame simp: opens_outbound_def outbound_of_def)
  qed
  from one obtain j where j: "j \<in> set (db_items d)" "?C j"
    using count_where_1 [of ?C "db_items d"] by (auto simp: exists_where_iff)
  have C_iff: "?C i \<longleftrightarrow> item_key_of i = ?k" if "i \<in> set (db_items d)" for i
  proof
    assume "item_key_of i = ?k"
    with j have "item_key_of i = item_key_of j" by (simp add: counts_acquisition_def item_key_of_def)
    with that j(1) assms(3) have "i = j" by (auto simp: items_ok_def distinct_map inj_on_def)
    with j show "?C i" by simp
  qed (simp add: counts_acquisition_def item_key_of_def)
  have ids: "map at_id (update_where (opens_outbound ctx) ?h (db_attempts d)) = map at_id (db_attempts d)"
    "map attempt_slot (update_where (opens_outbound ctx) ?h (db_attempts d)) = map attempt_slot (db_attempts d)"
    by (auto intro!: map_update_where_frame simp: attempt_slot_def)
  have rows: "at_generation a = at_number a \<and> at_number a \<noteq> 0 \<and>
      (\<exists>i \<in> set (update_where ?C ?f (db_items d)). item_key_of i = (at_run a, at_item a) \<and> at_number a \<le> wi_attempt i)"
    if "a \<in> set (update_where (opens_outbound ctx) ?h (db_attempts d))" for a
  proof -
    from that obtain b where b: "b \<in> set (db_attempts d)" "at_generation a = at_generation b"
      "at_number a = at_number b" "at_run a = at_run b" "at_item a = at_item b"
      by (auto simp: set_update_where split: if_splits)
    with assms(2) obtain i where "i \<in> set (db_items d)" "item_key_of i = (at_run b, at_item b)"
      "at_number b \<le> wi_attempt i" by (auto simp: attempts_ok_def)
    then have "\<exists>i \<in> set (update_where ?C ?f (db_items d)). item_key_of i = (at_run b, at_item b) \<and> at_number b \<le> wi_attempt i"
      by (intro bexI [of _ "if ?C i then ?f i else i"]) (auto simp: set_update_where item_key_of_def)
    with b assms(2) show ?thesis by (auto simp: attempts_ok_def)
  qed
  have counts: "wi_acquisitions i = count_where (outbound_of (item_key_of i)) (update_where (opens_outbound ctx) ?h (db_attempts d))"
    if "i \<in> set (update_where ?C ?f (db_items d))" for i
  proof -
    from that obtain m where m: "m \<in> set (db_items d)" "i = (if ?C m then ?f m else m)"
      by (auto simp: set_update_where)
    then have "item_key_of i = item_key_of m" "wi_acquisitions i = wi_acquisitions m + (if ?C m then 1 else 0)"
      by (simp_all add: item_key_of_def)
    with m(1) assms(2) show ?thesis by (simp add: cnt C_iff attempts_ok_def)
  qed
  have "attempts_ok d'"
    unfolding attempts_ok_def d' using assms(2) rows counts by (simp add: ids attempts_ok_def)
  moreover have "same_core d' (set_items ?C ?f d)" by (simp add: d' same_core_def)
  ultimately show ?thesis by blast
qed

end
