(* ===== verification/Engine.thy ===== *)
theory Engine
  imports RunReach Attempts
begin

text \<open>
  The engine as a machine: its operations, the step relation, and the interpretation of \<open>machine\<close> and
  \<open>monitored\<close> on it. \<open>allowed\<close> is what the callers in \<open>refresh_run_execution.py\<close> and
  \<open>refresh_run_state.py\<close> guarantee: a new run starts without cutoffs, and an attempt is begun for a claim
  of its item. \<open>Outside\<close> stands for a write to the tables the engine only reads (series, extractions,
  receipts, breaker, plan units): of what it computes only those tables are written.
\<close>

datatype engine_op =
    Start run_start
  | Claim claim_request claim_token
  | Defer deferral
  | Complete completion
  | Cutoff cutoff_update
  | Finalize finalization
  | Begin attempt_ctx timestamp
  | Acquire attempt_ctx timestamp
  | Milestone string string string "string option" timestamp
  | Finish string string "string option" "int option" "string option" timestamp
  | TaskStart string string int timestamp
  | TaskFinish "attempt_ctx option" timestamp task_finish
  | SetMeta "attempt_ctx option" timestamp string string
  | Reconcile run_id timestamp
  | Outside timestamp "db \<Rightarrow> db"

fun op_now :: "engine_op \<Rightarrow> run_error + timestamp" where
  "op_now (Start st) = utc_iso (st_now st) ''now''"
| "op_now (Claim req _) = utc_iso (cr_now req) ''now''"
| "op_now (Defer req) = utc_iso (de_now req) ''now''"
| "op_now (Complete req) = utc_iso (co_finished req) ''finished_at''"
| "op_now (Cutoff req) = utc_iso (cu_now req) ''now''"
| "op_now (Finalize req) = utc_iso (fi_finished req) ''finished_at''"
| "op_now (Begin _ now) = Inr now"
| "op_now (Acquire _ now) = Inr now"
| "op_now (Milestone _ _ _ _ now) = Inr now"
| "op_now (Finish _ _ _ _ _ now) = Inr now"
| "op_now (TaskStart _ _ _ now) = Inr now"
| "op_now (TaskFinish _ now _) = Inr now"
| "op_now (SetMeta _ now _ _) = Inr now"
| "op_now (Reconcile _ now) = Inr now"
| "op_now (Outside now _) = Inr now"

definition committed :: "run_error + 'a \<times> db \<Rightarrow> run_error + db" where
  "committed r = bindE r (\<lambda>p. Inr (snd p))"

definition outside_write :: "(db \<Rightarrow> db) \<Rightarrow> db \<Rightarrow> db" where
  "outside_write f d = (f d)\<lparr>db_runs := db_runs d, db_items := db_items d, db_leases := db_leases d,
     db_attempts := db_attempts d\<rparr>"

fun run_op :: "codec \<Rightarrow> engine_op \<Rightarrow> db \<Rightarrow> run_error + db" where
  "run_op c (Start st) d = committed (create_or_resume_run c st d)"
| "run_op c (Claim req token) d = committed (claim_next_work_item req token d)"
| "run_op c (Defer req) d = committed (defer_work_item_claim req d)"
| "run_op c (Complete req) d = committed (complete_work_item_claim req d)"
| "run_op c (Cutoff req) d = committed (persist_run_cutoff req d)"
| "run_op c (Finalize req) d = committed (finalize_and_release_run req d)"
| "run_op c (Begin ctx now) d = record_refresh_attempt_started ctx now d"
| "run_op c (Acquire ctx now) d = mark_refresh_acquisition_started ctx now d"
| "run_op c (Milestone a s o' det now) d = Inr (record_refresh_attempt_milestone a s o' det now d)"
| "run_op c (Finish a o' e n sd now) d = Inr (finish_refresh_attempt a o' e n sd now d)"
| "run_op c (TaskStart t p n now) d = Inr (record_refresh_task_start t p n now d)"
| "run_op c (TaskFinish active now f) d = record_refresh_task_finish active now f d"
| "run_op c (SetMeta active now k v) d = set_meta active now k v d"
| "run_op c (Reconcile r now) d = Inr (snd (reconcile_expired_refresh_attempts r now d))"
| "run_op c (Outside now f) d = Inr (outside_write f d)"

fun allowed :: "engine_op \<Rightarrow> db \<Rightarrow> bool" where
  "allowed (Start st) d \<longleftrightarrow> st_macro st = None \<or> find_run d (st_run st) \<noteq> None"
| "allowed (Begin ctx now) d \<longleftrightarrow> ac_generation ctx = ac_number ctx \<and>
     exists_where (\<lambda>i. item_key_of i = (ac_run ctx, ac_item ctx) \<and> ac_number ctx \<le> wi_attempt i) (db_items d)"
| "allowed _ d \<longleftrightarrow> True"

text \<open>
  Starting and claiming judge leases and claims by the clock, so they must not use an older reading than an
  operation before them. Any other operation may: a handler reads the clock once and passes that reading to
  later transactions.
\<close>

fun timed :: "engine_op \<Rightarrow> bool" where
  "timed (Start _) \<longleftrightarrow> True"
| "timed (Claim _ _) \<longleftrightarrow> True"
| "timed _ \<longleftrightarrow> False"

type_synonym engine_state = "timestamp \<times> db"

inductive engine_step :: "codec \<Rightarrow> engine_state \<Rightarrow> engine_op \<Rightarrow> engine_state \<Rightarrow> bool" for c where
  commit: "op_now op = Inr t \<Longrightarrow> seen \<le> t \<Longrightarrow> allowed op d \<Longrightarrow> run_op c op d = Inr d' \<Longrightarrow>
    engine_step c (seen, d) op (t, d')"
| rollback: "op_now op = Inr t \<Longrightarrow> seen \<le> t \<Longrightarrow> run_op c op d = Inl e \<Longrightarrow>
    engine_step c (seen, d) op (t, d)"
| late: "\<not> timed op \<Longrightarrow> allowed op d \<Longrightarrow> run_op c op d = Inr d' \<Longrightarrow> engine_step c (seen, d) op (seen, d')"
| reject: "op_now op = Inl e \<Longrightarrow> engine_step c (seen, d) op (seen, d)"

inductive_cases engine_stepE: "engine_step c s op s'"

definition engine_start :: engine_state where
  "engine_start = ([], empty_db)"

definition engine_reachable :: "codec \<Rightarrow> engine_state \<Rightarrow> bool" where
  "engine_reachable c s \<longleftrightarrow> reaches (engine_step c) engine_start s"

definition engine_inv :: "engine_state \<Rightarrow> bool" where
  "engine_inv s \<longleftrightarrow> tables_ok (snd s) \<and> exclusive (fst s) (snd s) \<and> attempts_ok (snd s)"

lemma engine_start_inv: "engine_inv engine_start"
  by (simp add: engine_inv_def engine_start_def empty_db_def tables_ok_def runs_ok_def items_ok_def
      settled_def exclusive_def attempts_ok_def count_where_def)

lemma committed_Inr_iff: "committed r = Inr d' \<longleftrightarrow> (\<exists>x. r = Inr (x, d'))"
  by (auto simp: committed_def bindE_Inr_iff)

lemma attempts_ok_same: "same_core e d \<Longrightarrow> db_attempts e = db_attempts d \<Longrightarrow> attempts_ok e = attempts_ok d"
  by (simp add: attempts_ok_def same_core_def)

text \<open>Bookkeeping writes touch neither the core tables nor the identity of an attempt.\<close>

lemma bookkeeping_core:
  "same_core (record_refresh_attempt_milestone a s o' det now d) d"
  "same_core (finish_refresh_attempt a o' e n sd now d) d"
  "same_core (record_refresh_task_start t p m now d) d"
  by (simp_all add: same_core_def record_refresh_attempt_milestone_def finish_refresh_attempt_def
      record_refresh_task_start_def)

lemma fenced_Inr: "fenced active now w d = Inr d' \<Longrightarrow> d' = w d"
  by (auto simp: fenced_def bindE_Inr_iff split: option.splits)

lemma finish_task_row_core: "same_core (finish_task_row f d) d \<and> db_attempts (finish_task_row f d) = db_attempts d"
  by (cases "db_tasks d (tf_task f)") (simp_all add: same_core_def finish_task_row_def)

lemma task_finish_core:
  assumes "record_refresh_task_finish active now f d = Inr d'"
  shows "same_core d' d \<and> db_attempts d' = db_attempts d"
proof -
  have "d' = finish_task_row f d"
    using assms unfolding record_refresh_task_finish_def by (rule fenced_Inr)
  then show ?thesis using finish_task_row_core by blast
qed

lemma set_meta_core:
  assumes "set_meta active now k v d = Inr d'"
  shows "same_core d' d \<and> db_attempts d' = db_attempts d"
proof -
  have "d' = put_meta k v d" using assms unfolding set_meta_def by (rule fenced_Inr)
  then show ?thesis by (simp add: same_core_def)
qed

lemma bookkeeping_attempts:
  assumes "attempts_ok d"
  shows "attempts_ok (record_refresh_attempt_milestone a s o' det now d)"
    "attempts_ok (finish_refresh_attempt a o' e n sd now d)"
    "attempts_ok (record_refresh_task_start t p m now d)"
proof -
  have "attempts_ok (d\<lparr>db_milestones := ms\<rparr>)" for ms
    using assms by (simp add: attempts_ok_def)
  then show "attempts_ok (record_refresh_attempt_milestone a s o' det now d)"
    unfolding record_refresh_attempt_milestone_def by (rule set_attempts_frame) simp
  show "attempts_ok (finish_refresh_attempt a o' e n sd now d)"
    unfolding finish_refresh_attempt_def using assms by (rule set_attempts_frame) simp
  show "attempts_ok (record_refresh_task_start t p m now d)"
    using assms by (simp add: attempts_ok_def record_refresh_task_start_def)
qed

lemma reconcile_core: "same_core (snd (reconcile_expired_refresh_attempts r now d)) d"
  by (simp add: same_core_def)

lemma reconcile_attempts_ok: "attempts_ok d \<Longrightarrow> attempts_ok (snd (reconcile_attempts now as d))"
proof (induction as arbitrary: d)
  case (Cons a as)
  obtain P f where f: "\<And>x. at_id (f x) = at_id x \<and> at_run (f x) = at_run x \<and> at_item (f x) = at_item x
        \<and> at_number (f x) = at_number x \<and> at_generation (f x) = at_generation x \<and> at_outbound (f x) = at_outbound x"
    and e: "db_attempts (snd (reconcile_attempt now a d)) = update_where P f (db_attempts d)"
    using reconcile_attempt_keeps [of now a d] by blast
  from set_attempts_frame [OF Cons.prems f, of P] have "attempts_ok (snd (reconcile_attempt now a d))"
    by (simp add: attempts_ok_def e reconcile_attempt_sel)
  from Cons.IH [OF this] show ?case by (simp add: Let_def case_prod_beta)
qed simp

lemma inv_extends:
  "tables_ok d' \<and> exclusive t d' \<Longrightarrow> extends d d' \<Longrightarrow> attempts_ok d \<Longrightarrow> engine_inv (t, d')"
  using attempts_ok_extends by (auto simp: engine_inv_def tables_ok_def)

lemma inv_core:
  "tables_ok d \<Longrightarrow> exclusive t d \<Longrightarrow> same_core d' d \<Longrightarrow> attempts_ok d' \<Longrightarrow> engine_inv (t, d')"
  using same_core_tables same_core_exclusive by (auto simp: engine_inv_def)

lemma mark_inv:
  assumes "mark_refresh_acquisition_started ctx now d = Inr d'" "tables_ok d" "exclusive t d" "attempts_ok d"
  shows "engine_inv (t, d')"
proof -
  have "items_ok d" using assms(2) by (simp add: tables_ok_def)
  note m = mark_ok [OF assms(1,4) this]
  then consider "d' = d" | P where "same_core d' (set_items P
     (\<lambda>i. i\<lparr>wi_acquisitions := wi_acquisitions i + 1, wi_updated := now\<rparr>) d)" by blast
  then show ?thesis
  proof cases
    case 2
    have "tables_ok (set_items P (\<lambda>i. i\<lparr>wi_acquisitions := wi_acquisitions i + 1, wi_updated := now\<rparr>) d)"
      using assms(2) by (intro acquiring.update_tables_ok) (auto simp: tables_ok_def settled_def)
    moreover have "exclusive t (set_items P (\<lambda>i. i\<lparr>wi_acquisitions := wi_acquisitions i + 1, wi_updated := now\<rparr>) d)"
      using assms(3) by (intro acquiring.update_exclusive) (auto simp: active_at_def)
    ultimately show ?thesis using 2 m inv_core by blast
  qed (use assms in \<open>simp add: engine_inv_def\<close>)
qed

lemma engine_op_inv:
  assumes "engine_inv (t, d)" "timed op \<Longrightarrow> op_now op = Inr t" "allowed op d" "run_op c op d = Inr d'"
  shows "engine_inv (t, d')"
proof -
  from assms(1) have i: "tables_ok d" "exclusive t d" "attempts_ok d" by (simp_all add: engine_inv_def)
  show ?thesis
  proof (cases op)
    case (Start st)
    with assms obtain s where s: "create_or_resume_run c st d = Inr (s, d')" "utc_iso (st_now st) ''now'' = Inr t"
      "st_macro st = None \<or> find_run d (st_run st) \<noteq> None" by (auto simp: committed_Inr_iff)
    show ?thesis
      using create_ok [OF s(1) i(1) s(2) i(2) s(3)] create_extends [OF s(1) i(1) s(2) i(2) s(3)] i(3)
      by (rule inv_extends)
  next
    case (Claim req token)
    with assms obtain s where s: "claim_next_work_item req token d = Inr (s, d')" "utc_iso (cr_now req) ''now'' = Inr t"
      by (auto simp: committed_Inr_iff)
    show ?thesis using claim_next_ok [OF s(1) i(1) s(2) i(2)] claim_next_extends [OF s(1)] i(3) by (rule inv_extends)
  next
    case (Defer req)
    with assms obtain s where s: "defer_work_item_claim req d = Inr (s, d')" by (auto simp: committed_Inr_iff)
    show ?thesis using defer_ok [OF s i(1)] i(2) defer_extends [OF s] i(3) by (intro inv_extends) auto
  next
    case (Complete req)
    with assms obtain s where s: "complete_work_item_claim req d = Inr (s, d')" by (auto simp: committed_Inr_iff)
    show ?thesis using complete_ok [OF s i(1)] i(2) complete_extends [OF s] i(3) by (intro inv_extends) auto
  next
    case (Cutoff req)
    with assms obtain s where s: "persist_run_cutoff req d = Inr (s, d')" by (auto simp: committed_Inr_iff)
    show ?thesis using cutoff_ok [OF s i(1)] i(2) cutoff_extends [OF s] i(3) by (intro inv_extends) auto
  next
    case (Finalize req)
    with assms obtain s where s: "finalize_and_release_run req d = Inr (s, d')" by (auto simp: committed_Inr_iff)
    show ?thesis using finalize_ok [OF s i(1)] i(2) finalize_extends [OF s] i(3) by (intro inv_extends) auto
  next
    case (Begin ctx now)
    with assms begin_ok [OF _ i(3)] have "attempts_ok d' \<and> same_core d' d"
      by (auto simp: exists_where_iff)
    then show ?thesis using i inv_core by blast
  next
    case (Acquire ctx now)
    with assms have "mark_refresh_acquisition_started ctx now d = Inr d'" by simp
    then show ?thesis using i by (rule mark_inv)
  next
    case (TaskFinish active now f)
    with assms task_finish_core [of active now f d d'] show ?thesis
      using i inv_core attempts_ok_same by auto
  next
    case (SetMeta active now k v)
    with assms set_meta_core [of active now k v d d'] show ?thesis
      using i inv_core attempts_ok_same by auto
  next
    case (Reconcile r now)
    with assms have "d' = snd (reconcile_expired_refresh_attempts r now d)" by simp
    with reconcile_core [of r now d] i reconcile_attempts_ok show ?thesis
      by (auto simp: reconcile_expired_refresh_attempts_def intro: inv_core)
  next
    case (Outside now f)
    with assms have "same_core d' d" "db_attempts d' = db_attempts d"
      by (auto simp: same_core_def outside_write_def)
    with i show ?thesis using inv_core attempts_ok_same by blast
  qed (use assms i in \<open>auto intro!: inv_core bookkeeping_core bookkeeping_attempts\<close>)
qed

interpretation engine: machine "engine_step c" engine_inv for c
proof
  fix s op s'
  assume inv: "engine_inv s" and step: "engine_step c s op s'"
  have later: "engine_inv (seen, d) \<Longrightarrow> seen \<le> t \<Longrightarrow> engine_inv (t, d)" for seen t d
    using exclusive_later by (auto simp: engine_inv_def)
  from step inv show "engine_inv s'"
    by (cases rule: engine_step.cases) (auto intro: later engine_op_inv)
qed

lemma reachable_inv: "engine_reachable c s \<Longrightarrow> engine_inv s"
  unfolding engine_reachable_def using engine.reaches_inv engine_start_inv by blast

end
