(* ===== verification/EngineGrowth.thy ===== *)
theory EngineGrowth
  imports Engine
begin

text \<open>
  What the engine never undoes: \<open>grows\<close> relates an earlier to a later state, and the engine is
  interpreted as a \<open>monitored\<close> machine. A finished run is frozen, a cutoff once written stays, the
  identity of a run stays, and the counters of a work item never go down.
\<close>

definition run_grows :: "run_record \<Rightarrow> run_record \<Rightarrow> bool" where
  "run_grows x y \<longleftrightarrow> rr_id y = rr_id x \<and> rr_cycle y = rr_cycle x \<and> rr_force y = rr_force x
     \<and> rr_version y = rr_version x \<and> rr_created y = rr_created x
     \<and> (rr_derived_cutoff x \<noteq> None \<longrightarrow> rr_derived_cutoff y = rr_derived_cutoff x)
     \<and> (rr_macro_cutoff x \<noteq> None \<longrightarrow> rr_macro_cutoff y = rr_macro_cutoff x)
     \<and> (rr_state x \<noteq> RunRunning \<longrightarrow> y = x)"

definition runs_grow :: "db \<Rightarrow> db \<Rightarrow> bool" where
  "runs_grow d e \<longleftrightarrow> (\<forall>r x. find_run d r = Some x \<longrightarrow> (\<exists>y. find_run e r = Some y \<and> run_grows x y))"

definition items_grow :: "db \<Rightarrow> db \<Rightarrow> bool" where
  "items_grow d e \<longleftrightarrow> (\<forall>i \<in> set (db_items d). \<exists>j \<in> set (db_items e).
     item_key_of j = item_key_of i \<and> wi_attempt i \<le> wi_attempt j \<and> wi_acquisitions i \<le> wi_acquisitions j)"

definition engine_grows :: "engine_state \<Rightarrow> engine_state \<Rightarrow> bool" where
  "engine_grows s t \<longleftrightarrow> fst s \<le> fst t \<and> runs_grow (snd s) (snd t) \<and> items_grow (snd s) (snd t)"

lemma run_grows_refl [simp]: "run_grows x x"
  by (simp add: run_grows_def)

lemma run_grows_trans: "run_grows x y \<Longrightarrow> run_grows y z \<Longrightarrow> run_grows x z"
  unfolding run_grows_def by (intro conjI impI) auto

lemma runs_grow_refl [simp]: "runs_grow d d"
  by (auto simp: runs_grow_def)

lemma runs_grow_trans: "runs_grow d e \<Longrightarrow> runs_grow e h \<Longrightarrow> runs_grow d h"
  unfolding runs_grow_def using run_grows_trans by blast

lemma runs_grow_same: "db_runs e = db_runs d \<Longrightarrow> runs_grow d e"
  by (simp add: runs_grow_def find_run_def)

lemma items_grow_refl [simp]: "items_grow d d"
  by (auto simp: items_grow_def)

lemma items_grow_trans: "items_grow d e \<Longrightarrow> items_grow e h \<Longrightarrow> items_grow d h"
  unfolding items_grow_def using order_trans by (metis (no_types, lifting))

lemma items_grow_same: "db_items e = db_items d \<Longrightarrow> items_grow d e"
  by (auto simp: items_grow_def)

lemma items_grow_extends: "extends d e \<Longrightarrow> items_grow d e"
proof -
  assume "extends d e"
  then obtain g new where e: "db_items e = map g (db_items d) @ new" and g: "keeps_counters g"
    by (auto simp: extends_def)
  show ?thesis unfolding items_grow_def
  proof
    fix i assume "i \<in> set (db_items d)"
    then show "\<exists>j \<in> set (db_items e). item_key_of j = item_key_of i \<and> wi_attempt i \<le> wi_attempt j
        \<and> wi_acquisitions i \<le> wi_acquisitions j"
      using e g by (intro bexI [of _ "g i"]) (auto simp: keeps_counters_def)
  qed
qed

lemma find_update:
  "(\<And>x. rr_id (f x) = rr_id x) \<Longrightarrow> find (\<lambda>x. rr_id x = r) (update_where P f t)
     = map_option (\<lambda>x. if P x then f x else x) (find (\<lambda>x. rr_id x = r) t)"
  by (induction t) auto

text \<open>An update of running runs that keeps what a run may not lose.\<close>

lemma runs_grow_set_runs:
  assumes "\<And>x. rr_id (f x) = rr_id x" and "\<And>x. P x \<Longrightarrow> run_grows x (f x)"
  shows "runs_grow d (set_runs P f d)"
  using assms by (auto simp: runs_grow_def find_run_def find_update)

section \<open>Every operation grows\<close>

lemma finalized_run_grows: "rr_state x = RunRunning \<Longrightarrow> run_grows x (finalized_run req now x)"
  by (simp add: run_grows_def finalized_run_def)

lemma abandoned_run_grows: "rr_state x = RunRunning \<Longrightarrow> run_grows x (abandoned_run now x)"
  by (simp add: run_grows_def abandoned_run_def)

lemma set_cutoff_grows: "rr_state x = RunRunning \<Longrightarrow> cutoff_of p x = None \<Longrightarrow> run_grows x (set_cutoff p t now x)"
  by (cases p) (simp_all add: run_grows_def set_cutoff_def cutoff_of_def)

lemma abandoned_run_id [simp]: "rr_id (abandoned_run now x) = rr_id x"
  by (simp add: abandoned_run_def)

lemma abandon_grows: "abandon_expired_run owner now new d = Inr d' \<Longrightarrow> runs_grow d d'"
proof -
  assume a: "abandon_expired_run owner now new d = Inr d'"
  show ?thesis
  proof (cases "d' = d")
    case False
    define ts where "ts = remdups (map wi_task (filter (unclosed owner) (db_items d)))"
    define e where "e = fail_running_tasks (Some now) (Some ''RefreshLeaseExpired'') ts
      (set_items (unclosed owner) (abandoned_item now) d)"
    have d': "d' = set_runs (\<lambda>x. rr_id x = owner \<and> rr_state x = RunRunning) (abandoned_run now) e"
      using a False by (auto simp: abandon_expired_run_def Let_def e_def ts_def split: option.splits if_splits)
    have "runs_grow e d'" unfolding d' by (rule runs_grow_set_runs) (auto intro: abandoned_run_grows)
    moreover have "runs_grow d e" by (rule runs_grow_same) (simp add: e_def)
    ultimately show ?thesis using runs_grow_trans by blast
  qed simp
qed

lemma displace_grows: "displace_expired_owner st d = Inr d' \<Longrightarrow> runs_grow d d'"
  using abandon_grows by (auto simp: displace_expired_owner_def split: option.splits if_splits)

lemma take_lease_grows: "take_lease st d = Inr d' \<Longrightarrow> runs_grow d d'"
proof (erule take_lease_Inr)
  fix d1 assume "displace_expired_owner st d = Inr d1" "acquire_lease st d1 = (True, d')"
  then show ?thesis
    using acquire_lease_sel(1) [of st d1] runs_grow_same displace_grows runs_grow_trans by (metis snd_conv)
qed

lemma find_run_append: "find_run d r = Some x \<Longrightarrow> db_runs e = db_runs d @ rs \<Longrightarrow> find_run e r = Some x"
proof -
  have "find P (xs @ ys) = (case find P xs of None \<Rightarrow> find P ys | Some y \<Rightarrow> Some y)" for P :: "run_record \<Rightarrow> bool" and xs ys
    by (induction xs) auto
  then show "find_run d r = Some x \<Longrightarrow> db_runs e = db_runs d @ rs \<Longrightarrow> find_run e r = Some x"
    by (simp add: find_run_def)
qed

lemma release_owned_lease_sel [simp]: "db_runs (release_owned_lease r d) = db_runs d"
  by (simp add: release_owned_lease_def split: option.splits)

lemma resume_or_insert_grows:
  assumes "resume_or_insert c st d = Inr (snap, d')" "tables_ok d"
    and "st_macro st = None \<or> find_run d (st_run st) \<noteq> None"
  shows "runs_grow d d'"
proof (cases "read_snapshot d (st_run st)")
  case None
  with assms(1) have ins: "insert_run c st d = Inr d'"
    by (auto simp: resume_or_insert_def bindE_Inr_iff split: option.splits)
  from None assms(3) have "run_ok (new_run st)"
    by (auto simp: read_snapshot_def new_run_def run_ok_def split: option.splits)
  from insert_run_ok [OF ins assms(2) this] have "db_runs d' = db_runs d @ [new_run st]" by simp
  then show ?thesis unfolding runs_grow_def using find_run_append run_grows_refl by blast
next
  case (Some existing)
  with assms(1) have "d' = release_owned_lease (st_run st) d \<or> d' = d"
    by (simp add: resume_or_insert_def split: if_splits)
  then have "db_runs d' = db_runs d" by auto
  then show ?thesis by (rule runs_grow_same)
qed

lemma create_grows:
  assumes "create_or_resume_run c start d = Inr (snap, d')" "tables_ok d"
    and "utc_iso (st_now start) ''now'' = Inr now" "exclusive now d"
    and "st_macro start = None \<or> find_run d (st_run start) \<noteq> None"
  shows "runs_grow d d'"
  using assms(1)
proof (cases rule: create_cases)
  case (2 st d1)
  have now: "st_now st = now" using normalize_start_Inr(1) [OF 2(1)] assms(3) by simp
  from take_lease_ok [OF 2(2) assms(2)] assms(4) now
  have d1: "tables_ok d1" "map rr_id (db_runs d1) = map rr_id (db_runs d)" by auto
  have "st_macro st = None \<or> find_run d1 (st_run st) \<noteq> None"
    using assms(5) normalize_start_Inr(2,3) [OF 2(1)] find_run_ids [OF d1(2)] by auto
  from take_lease_grows [OF 2(2)] resume_or_insert_grows [OF 2(3) d1(1) this] show ?thesis
    by (rule runs_grow_trans)
qed simp

lemma claim_row_runs: "claim_row r k g f d = (res, d') \<Longrightarrow> db_runs d' = db_runs d"
  by (auto simp: claim_row_def Let_def split: if_splits)

lemma scan_v6_runs: "scan_v6 d0 ex now ndt rows xs d = Inr (c, d') \<Longrightarrow> db_runs d' = db_runs d"
proof (induction d0 ex now ndt rows xs d rule: scan_v6.induct)
  case (2 d0 ex now ndt rows i xs d)
  from "2.prems" obtain v where v: "row_verdict d0 ex now ndt rows i = Inr v" by (auto simp: bindE_Inr_iff)
  with 2 show ?case by (cases v) auto
qed simp

lemma claim_next_runs:
  assumes "claim_next_work_item req token d = Inr (res, d')"
  shows "db_runs d' = db_runs d"
  using assms
proof (cases rule: claim_next_cases)
  case (3 now ex run)
  show ?thesis
  proof (cases "is_v6 (rr_version run)")
    case True
    with 3(8) show ?thesis
      by (auto simp: claim_v6_item_def bindE_Inr_iff Let_def split: option.splits
          dest!: scan_v6_runs claim_row_runs)
  next
    case False
    with 3(8) show ?thesis
      by (auto simp: claim_legacy_item_def Let_def dest!: claim_row_runs split: if_splits option.splits)
  qed
qed simp_all

lemma cutoff_grows:
  assumes "persist_run_cutoff req d = Inr (v, d')"
  shows "runs_grow d d'"
proof -
  from assms obtain now ex t where "d' = extend_lease (cu_run req) now ex d \<or>
     d' = extend_lease (cu_run req) now ex (set_runs (\<lambda>r. rr_id r = cu_run req \<and> rr_state r = RunRunning
          \<and> cutoff_of (cu_phase req) r = None) (set_cutoff (cu_phase req) t now) d)"
    by (auto simp: persist_run_cutoff_def bindE_Inr_iff split: if_splits option.splits)
  then show ?thesis
  proof
    let ?e = "set_runs (\<lambda>r. rr_id r = cu_run req \<and> rr_state r = RunRunning
          \<and> cutoff_of (cu_phase req) r = None) (set_cutoff (cu_phase req) t now) d"
    assume "d' = extend_lease (cu_run req) now ex ?e"
    then have "runs_grow ?e d'" by (intro runs_grow_same) simp
    moreover have "runs_grow d ?e" by (rule runs_grow_set_runs) (auto intro: set_cutoff_grows)
    ultimately show ?thesis using runs_grow_trans by blast
  qed (simp add: runs_grow_same)
qed

lemma finalize_grows:
  assumes "finalize_and_release_run req d = Inr (ok, d')" "tables_ok d"
  shows "runs_grow d d'"
proof (cases ok)
  case False
  then have "d' = d" using finalize_False assms by simp
  then show ?thesis by simp
next
  case True
  with assms(1) have fin: "finalize_and_release_run req d = Inr (True, d')" by simp
  show ?thesis
  proof (rule finalize_True [OF fin])
    fix run now success
    let ?e = "finalize_run_row req now d"
    assume "d' = set_lease DAILY_REFRESH_LEASE None (stamp_success success ?e)"
    then have "runs_grow ?e d'" by (intro runs_grow_same) simp
    moreover have "runs_grow d ?e" unfolding finalize_run_row_def
      by (rule runs_grow_set_runs) (auto intro: finalized_run_grows)
    ultimately show ?thesis using runs_grow_trans by blast
  qed
qed

lemma same_core_grows: "same_core d' d \<Longrightarrow> runs_grow d d' \<and> items_grow d d'"
  by (simp add: same_core_def runs_grow_same items_grow_same)

lemma acquire_grows:
  assumes "mark_refresh_acquisition_started ctx now d = Inr d'" "attempts_ok d" "items_ok d"
  shows "runs_grow d d' \<and> items_grow d d'"
proof -
  let ?f = "\<lambda>i. i\<lparr>wi_acquisitions := wi_acquisitions i + 1, wi_updated := now\<rparr>"
  consider "d' = d" | P where "same_core d' (set_items P ?f d)" using mark_ok [OF assms] by blast
  then show ?thesis
  proof cases
    case 2
    have "items_grow d (set_items P ?f d)"
      unfolding items_grow_def
      by (intro ballI bexI [of _ "if P i then ?f i else i" for i]) (auto simp: set_update_where item_key_of_def)
    moreover have "runs_grow d (set_items P ?f d)" by (intro runs_grow_same) simp
    ultimately show ?thesis
      using same_core_grows [OF 2] runs_grow_trans items_grow_trans by blast
  qed simp
qed

lemma engine_op_grows:
  assumes "engine_inv (t, d)" "timed op \<Longrightarrow> op_now op = Inr t" "allowed op d" "run_op c op d = Inr d'"
  shows "runs_grow d d' \<and> items_grow d d'"
proof -
  from assms(1) have i: "tables_ok d" "exclusive t d" "attempts_ok d" by (simp_all add: engine_inv_def)
  show ?thesis
  proof (cases op)
    case (Start st)
    with assms obtain s where s: "create_or_resume_run c st d = Inr (s, d')" "utc_iso (st_now st) ''now'' = Inr t"
      "st_macro st = None \<or> find_run d (st_run st) \<noteq> None" by (auto simp: committed_Inr_iff)
    show ?thesis
      using create_grows [OF s(1) i(1) s(2) i(2) s(3)] create_extends [OF s(1) i(1) s(2) i(2) s(3)]
        items_grow_extends by blast
  next
    case (Claim req token)
    with assms obtain s where s: "claim_next_work_item req token d = Inr (s, d')" by (auto simp: committed_Inr_iff)
    show ?thesis using claim_next_runs [OF s] claim_next_extends [OF s] runs_grow_same items_grow_extends by blast
  next
    case (Defer req)
    with assms obtain s where s: "defer_work_item_claim req d = Inr (s, d')" by (auto simp: committed_Inr_iff)
    then have "db_runs d' = db_runs d"
      by (auto simp: defer_work_item_claim_def bindE_Inr_iff Let_def split: if_splits)
    then show ?thesis using defer_extends [OF s] runs_grow_same items_grow_extends by blast
  next
    case (Complete req)
    with assms obtain s where s: "complete_work_item_claim req d = Inr (s, d')" by (auto simp: committed_Inr_iff)
    then have "db_runs d' = db_runs d"
      by (auto simp: complete_work_item_claim_def bindE_Inr_iff Let_def split: if_splits)
    then show ?thesis using complete_extends [OF s] runs_grow_same items_grow_extends by blast
  next
    case (Cutoff req)
    with assms obtain s where s: "persist_run_cutoff req d = Inr (s, d')" by (auto simp: committed_Inr_iff)
    show ?thesis using cutoff_grows [OF s] cutoff_extends [OF s] items_grow_extends by blast
  next
    case (Finalize req)
    with assms obtain s where s: "finalize_and_release_run req d = Inr (s, d')" by (auto simp: committed_Inr_iff)
    show ?thesis using finalize_grows [OF s i(1)] finalize_extends [OF s] items_grow_extends by blast
  next
    case (Begin ctx now)
    with assms begin_ok [OF _ i(3)] have "same_core d' d" by (auto simp: exists_where_iff)
    then show ?thesis by (rule same_core_grows)
  next
    case (Acquire ctx now)
    with assms have "mark_refresh_acquisition_started ctx now d = Inr d'" by simp
    then show ?thesis using i acquire_grows by (simp add: tables_ok_def)
  next
    case (TaskFinish active now f)
    with assms task_finish_core [of active now f d d'] show ?thesis using same_core_grows by simp
  next
    case (SetMeta active now k v)
    with assms set_meta_core [of active now k v d d'] show ?thesis using same_core_grows by simp
  next
    case (Reconcile r now)
    with assms reconcile_core [of r now d] show ?thesis using same_core_grows by simp
  next
    case (Outside now f)
    with assms have "same_core d' d" by (auto simp: same_core_def outside_write_def)
    then show ?thesis by (rule same_core_grows)
  qed (use assms in \<open>auto intro!: same_core_grows [THEN conjunct1] same_core_grows [THEN conjunct2] bookkeeping_core\<close>)
qed

interpretation engine_history: monitored "engine_step c" engine_inv engine_grows for c
proof
  show "engine_grows s s" for s by (simp add: engine_grows_def)
  show "engine_grows s t \<Longrightarrow> engine_grows t u \<Longrightarrow> engine_grows s u" for s t u
    unfolding engine_grows_def using runs_grow_trans items_grow_trans order_trans by blast
  fix s op s'
  assume inv: "engine_inv s" and step: "engine_step c s op s'"
  from step inv show "engine_grows s s'"
  proof (cases rule: engine_step.cases)
    case (commit t seen d d')
    have "engine_inv (t, d)" using inv commit exclusive_later by (auto simp: engine_inv_def)
    from engine_op_grows [OF this] commit show ?thesis by (simp add: engine_grows_def)
  next
    case (late d d' seen)
    with inv engine_op_grows [of seen d op c d'] show ?thesis by (simp add: engine_grows_def)
  qed (auto simp: engine_grows_def)
qed

lemma reachable_step:
  "engine_reachable c s \<Longrightarrow> reaches (engine_step c) s s' \<Longrightarrow> engine_inv s' \<and> engine_grows s s'"
  using engine_history.reaches_grows engine.reaches_inv reachable_inv by blast

end
