(* ===== verification/EngineFacts.thy ===== *)
theory EngineFacts
  imports EngineGrowth
begin

text \<open>
  Facts about single operations that the properties of the engine rest on: what a started run looks
  like, why starting is idempotent, and which row a claim picks.
\<close>

lemma find_item_unique:
  assumes "items_ok d" "i \<in> set (db_items d)" "wi_run i = r" "wi_key i = k"
  shows "find_item d r k = Some i"
proof -
  have "find_item d r k \<noteq> None" using assms by (auto simp: find_item_def find_None_iff)
  then obtain j where j: "find_item d r k = Some j" by blast
  with find_item_SomeD assms have "item_key_of j = item_key_of i" "j \<in> set (db_items d)"
    by (auto simp: item_key_of_def)
  with assms(1,2) have "j = i" by (auto simp: items_ok_def distinct_map inj_on_def)
  with j show ?thesis by simp
qed

section \<open>Starting twice\<close>

lemma find_run_set_runs:
  "(\<And>x. rr_id (f x) = rr_id x) \<Longrightarrow> find_run (set_runs P f d) r = map_option (\<lambda>x. if P x then f x else x) (find_run d r)"
  by (simp add: find_run_def find_update)

lemma take_lease_keeps_run:
  assumes "take_lease st d = Inr d'"
  shows "find_run d' (st_run st) = find_run d (st_run st)"
proof -
  from take_lease_Inr [OF assms] obtain d1 where d1: "displace_expired_owner st d = Inr d1"
    and a: "acquire_lease st d1 = (True, d')" .
  have "find_run d1 (st_run st) = find_run d (st_run st)"
  proof (cases "d1 = d")
    case False
    with d1 obtain owner now where o: "owner \<noteq> st_run st" "abandon_expired_run owner now (st_run st) d = Inr d1"
      by (auto simp: displace_expired_owner_def split: option.splits if_splits)
    define ts where "ts = remdups (map wi_task (filter (unclosed owner) (db_items d)))"
    define e where "e = fail_running_tasks (Some now) (Some ''RefreshLeaseExpired'') ts
      (set_items (unclosed owner) (abandoned_item now) d)"
    from o(2) False have "d1 = set_runs (\<lambda>x. rr_id x = owner \<and> rr_state x = RunRunning) (abandoned_run now) e"
      by (auto simp: abandon_expired_run_def Let_def e_def ts_def split: option.splits if_splits)
    moreover have "find_run e (st_run st) = find_run d (st_run st)" by (simp add: e_def find_run_def)
    ultimately show ?thesis
      using o(1) find_run_SomeD by (cases "find_run d (st_run st)") (fastforce simp: find_run_set_runs)+
  qed simp
  moreover have "db_runs d' = db_runs d1" using a acquire_lease_sel(1) [of st d1] by simp
  ultimately show ?thesis by (simp add: find_run_def)
qed

lemma acquire_lease_again:
  assumes "db_leases d DAILY_REFRESH_LEASE = Some l" "le_owner l = st_run st" "st_expires st \<le> le_expires l"
  shows "take_lease st d = Inr d"
proof -
  have l: "\<lparr>le_owner = st_run st, le_expires = le_expires l\<rparr> = l" using assms(2) by simp
  have "acquire_lease st d = (True, set_lease DAILY_REFRESH_LEASE
      (Some \<lparr>le_owner = st_run st, le_expires = le_expires l\<rparr>) d)"
    using assms by (auto simp: acquire_lease_def lease_admits_def Let_def)
  also have "\<dots> = (True, d)"
    unfolding l using assms(1) by (simp add: set_lease_def fun_upd_idem)
  finally show ?thesis using assms by (simp add: take_lease_def displace_expired_owner_def)
qed

lemma take_lease_keeps_plans:
  assumes "take_lease st d = Inr d'"
  shows "db_plans d' = db_plans d"
proof -
  from take_lease_Inr [OF assms] obtain d1 where d1: "displace_expired_owner st d = Inr d1"
    and a: "acquire_lease st d1 = (True, d')" .
  have "db_plans d1 = db_plans d"
    using d1 by (auto simp: displace_expired_owner_def abandon_expired_run_def Let_def
        split: option.splits if_splits)
  moreover have "db_plans d' = db_plans d1" using a by (auto simp: acquire_lease_def Let_def split: if_splits)
  ultimately show ?thesis by simp
qed

lemma spec_of_new_item [simp]: "spec_of_item (new_item st s) = s"
  by (simp add: spec_of_item_def new_item_def)

lemma run_items_new:
  assumes "db_items e = db_items d @ map (new_item st) (ordered_specs (st_items st))"
    and "\<And>i. i \<in> set (db_items d) \<Longrightarrow> wi_run i \<noteq> st_run st"
  shows "run_items e (st_run st) = map (new_item st) (ordered_specs (st_items st))"
proof -
  let ?new = "map (new_item st) (ordered_specs (st_items st))"
  have "filter (\<lambda>i. wi_run i = st_run st) (db_items e) = ?new"
    using assms by (simp add: filter_empty_conv filter_id_conv)
  moreover have "sorted (map wi_order ?new)"
    by (simp add: ordered_specs_def new_item_def o_def)
  ultimately show ?thesis by (simp add: run_items_def sorted_sort_id sort_key_id_if_sorted)
qed

lemma insert_run_plan:
  assumes "insert_run c st d = Inr d'"
  shows "case st_plan st of None \<Rightarrow> db_plans d' = db_plans d
    | Some p \<Rightarrow> (\<exists>row. db_plans d' (st_run st) = Some row \<and> pr_sha row = plan_digest c p)"
proof -
  from assms obtain d1 where
    ins: "insert_items (map (new_item st) (ordered_specs (st_items st))) (d\<lparr>db_runs := db_runs d @ [new_run st]\<rparr>) = Inr d1"
    and plan: "case st_plan st of None \<Rightarrow> d' = d1
       | Some p \<Rightarrow> insert_sgs_plan_rows c (st_run st) p (st_now st) d1 = Inr d'"
    by (auto simp: insert_run_def bindE_Inr_iff split: if_splits option.splits)
  have "insert_items xs e = Inr e' \<Longrightarrow> db_plans e' = db_plans e" for xs e e'
    by (induction xs e rule: insert_items.induct) (auto split: if_splits)
  from this [OF ins] plan show ?thesis
    using insert_sgs_plan_rows_core(3) by (fastforce split: option.splits)
qed

lemma new_run_sel [simp]:
  "rr_id (new_run st) = st_run st" "rr_cycle (new_run st) = st_cycle st" "rr_force (new_run st) = st_force st"
  "rr_version (new_run st) = st_version st" "rr_derived_cutoff (new_run st) = st_derived st"
  "rr_macro_cutoff (new_run st) = st_macro st" "rr_state (new_run st) = RunRunning"
  by (simp_all add: new_run_def)

lemma resume_or_insert_again:
  assumes "resume_or_insert c st d = Inr (snap, d')" "tables_ok d"
    and "st_macro st = None \<or> find_run d (st_run st) \<noteq> None"
    and "find_run d (st_run st) = None \<Longrightarrow> db_plans d (st_run st) = None"
    and "\<And>x. find_run d (st_run st) = Some x \<Longrightarrow> rr_state x = RunRunning"
    and "db_leases d DAILY_REFRESH_LEASE = Some l" "le_owner l = st_run st"
  shows "db_leases d' = db_leases d \<and> read_snapshot d' (st_run st) = Some snap \<and> same_manifest c d' snap st
    \<and> rr_state (snap_run snap) = RunRunning"
proof (cases "find_run d (st_run st)")
  case None
  then have "read_snapshot d (st_run st) = None" by (simp add: read_snapshot_def)
  with assms(1) have ins: "insert_run c st d = Inr d'" and snap: "read_snapshot d' (st_run st) = Some snap"
    by (auto simp: resume_or_insert_def bindE_Inr_iff split: option.splits)
  from None assms(3) have "run_ok (new_run st)" by (auto simp: new_run_def run_ok_def)
  note d' = insert_run_ok [OF ins assms(2) this]
  have "wi_run i \<noteq> st_run st" if "i \<in> set (db_items d)" for i
    using that assms(2) find_run_NoneD [OF None] by (auto simp: tables_ok_def items_ok_def)
  then have items: "run_items d' (st_run st) = map (new_item st) (ordered_specs (st_items st))"
    using d' by (intro run_items_new) auto
  have "find_run d' (st_run st) = Some (new_run st)"
  proof -
    have "find P (xs @ ys) = (case find P xs of None \<Rightarrow> find P ys | Some y \<Rightarrow> Some y)" for P :: "run_record \<Rightarrow> bool" and xs ys
      by (induction xs) auto
    then show ?thesis using None d' by (simp add: find_run_def)
  qed
  with snap items have s: "snap_run snap = new_run st" "snap_items snap = map (new_item st) (ordered_specs (st_items st))"
    using read_snapshot_SomeD [OF snap] by auto
  moreover have "case (st_plan st, db_plans d' (st_run st)) of (None, None) \<Rightarrow> True
      | (Some p, Some row) \<Rightarrow> pr_sha row = plan_digest c p | _ \<Rightarrow> False"
    using insert_run_plan [OF ins] assms(4) [OF None] by (auto split: option.splits)
  ultimately have "same_manifest c d' snap st" by (simp add: same_manifest_def comp_def)
  with snap s d' show ?thesis by simp
next
  case (Some x)
  then have r: "read_snapshot d (st_run st) = Some \<lparr>snap_run = x, snap_items = run_items d (st_run st),
      snap_lease = owned_lease d (st_run st)\<rparr>" by (simp add: read_snapshot_def)
  with assms(1) assms(5) [OF Some] show ?thesis by (auto simp: resume_or_insert_def split: if_splits)
qed

lemma create_again:
  assumes "create_or_resume_run c start d = Inr (snap, d')" "tables_ok d"
    and "utc_iso (st_now start) ''now'' = Inr now" "exclusive now d"
    and "st_macro start = None \<or> find_run d (st_run start) \<noteq> None"
    and "find_run d (st_run start) = None \<Longrightarrow> db_plans d (st_run start) = None"
  shows "create_or_resume_run c start d' = Inr (snap, d')"
  using assms(1)
proof (cases rule: create_cases)
  case (1 st)
  with assms(1) show ?thesis by simp
next
  case (2 st d1)
  have n: "st_now st = now" "st_run st = st_run start"
    using normalize_start_Inr(1,2) [OF 2(1)] assms(3) by simp_all
  have t: "tables_ok d1" and l: "\<exists>l. db_leases d1 DAILY_REFRESH_LEASE = Some l \<and> le_owner l = st_run st
      \<and> st_expires st \<le> le_expires l"
    using take_lease_ok [OF 2(2) assms(2)] assms(4) n by auto
  then obtain l where l: "db_leases d1 DAILY_REFRESH_LEASE = Some l" "le_owner l = st_run st"
      "st_expires st \<le> le_expires l" by blast
  have f: "find_run d1 (st_run st) = find_run d (st_run start)" "db_plans d1 = db_plans d"
    using take_lease_keeps_run [OF 2(2)] take_lease_keeps_plans [OF 2(2)] n by simp_all
  show ?thesis
  proof (cases "\<exists>x. find_run d (st_run start) = Some x \<and> rr_state x \<noteq> RunRunning")
    case True
    then obtain x where x: "find_run d (st_run start) = Some x" "rr_state x \<noteq> RunRunning" by blast
    with assms(1) 2(1) n have "d' = d"
      by (auto simp: create_or_resume_run_def read_snapshot_def split: if_splits)
    with assms(1) show ?thesis by simp
  next
    case False
    have "db_leases d' = db_leases d1 \<and> read_snapshot d' (st_run st) = Some snap \<and> same_manifest c d' snap st
      \<and> rr_state (snap_run snap) = RunRunning"
      using 2(3) t l f False assms(5,6) normalize_start_Inr(3) [OF 2(1)] n
      by (intro resume_or_insert_again [where l = l]) auto
    moreover from this l have "take_lease st d' = Inr d'" by (intro acquire_lease_again) auto
    ultimately show ?thesis
      using 2(1) by (auto simp: create_or_resume_run_def resume_or_insert_def)
  qed
qed

section \<open>Which row a claim picks\<close>

text \<open>The rows of the manifest that do not hold back a later item.\<close>

definition out_of_the_way :: "db \<Rightarrow> timestamp \<Rightarrow> datetime \<Rightarrow> string \<Rightarrow> work_item \<Rightarrow> bool" where
  "out_of_the_way d now ndt task e \<longleftrightarrow> wi_status e \<in> {Succeeded, Partial, Skipped}
     \<or> (wi_status e = Failed \<and> \<not> item_retryable e)
     \<or> (after (wi_next_at e) now \<and> task \<notin> set dependent_tasks)
     \<or> (\<not> after (wi_next_at e) now \<and> item_ready d ndt e = Inr False)"

lemma earlier_verdict_Choose:
  "earlier_verdict d now ndt task es = Inr Choose \<longleftrightarrow> (\<forall>e \<in> set es. out_of_the_way d now ndt task e)"
proof (induction es)
  case (Cons e es)
  show ?case
  proof (cases "wi_next_at e")
    case None
    then show ?thesis
      by (auto simp: Cons.IH out_of_the_way_def [where e = e] bindE_Inr_iff split: if_splits)
  next
    case (Some t)
    then show ?thesis
      by (auto simp: Cons.IH out_of_the_way_def [where e = e] bindE_Inr_iff split: if_splits)
  qed
qed simp

lemma row_verdict_Choose:
  "row_verdict d ex now ndt rows i = Inr Choose \<longleftrightarrow> \<not> passes_over ex now i \<and> item_ready d ndt i = Inr True
     \<and> (\<forall>e \<in> set (takeWhile (\<lambda>e. wi_order e < wi_order i) rows). out_of_the_way d now ndt (wi_task i) e)"
  by (auto simp: row_verdict_def bindE_Inr_iff earlier_verdict_Choose split: option.splits if_splits)

lemma scan_v6_Some:
  "scan_v6 d0 ex now ndt rows xs d = Inr (Some i, d') \<Longrightarrow> i \<in> set xs \<and> row_verdict d0 ex now ndt rows i = Inr Choose"
proof (induction d0 ex now ndt rows xs d rule: scan_v6.induct)
  case (2 d0 ex now ndt rows j xs d)
  from "2.prems" obtain v where v: "row_verdict d0 ex now ndt rows j = Inr v" by (auto simp: bindE_Inr_iff)
  with 2 show ?case by (cases v) auto
qed simp

text \<open>Noting a cooldown only writes columns that a claim overwrites.\<close>

definition unnoted :: "work_item \<Rightarrow> work_item" where
  "unnoted i = i\<lparr>wi_next_at := None, wi_deferral := None, wi_error := None, wi_updated := []\<rparr>"

lemma unnoted_note [simp]:
  "map unnoted (db_items (note_cooldown at now i d)) = map unnoted (db_items d)"
  "map unnoted (db_items (note_dependency at now i d)) = map unnoted (db_items d)"
  by (auto simp: note_cooldown_def note_dependency_def unnoted_def intro!: map_update_where_frame)

lemma scan_v6_unnoted: "scan_v6 d0 ex now ndt rows xs d = Inr (c, d') \<Longrightarrow> map unnoted (db_items d') = map unnoted (db_items d)"
proof (induction d0 ex now ndt rows xs d rule: scan_v6.induct)
  case (2 d0 ex now ndt rows i xs d)
  from "2.prems" obtain v where v: "row_verdict d0 ex now ndt rows i = Inr v" by (auto simp: bindE_Inr_iff)
  with 2 show ?case by (cases v) auto
qed simp

lemma scan_extends_items_ok:
  "scan_v6 d0 ex now ndt rows xs d = Inr (c, d') \<Longrightarrow> items_ok d \<Longrightarrow> items_ok d'"
proof (induction d0 ex now ndt rows xs d rule: scan_v6.induct)
  case (2 d0 ex now ndt rows i xs d)
  from "2.prems"(1) obtain v where v: "row_verdict d0 ex now ndt rows i = Inr v" by (auto simp: bindE_Inr_iff)
  have "items_ok (note_cooldown at now i d)" "items_ok (note_dependency at now i d)" for at
    unfolding note_cooldown_def note_dependency_def using "2.prems"(2) by (rule cooling.update_items_ok)+
  with v 2 show ?case by (cases v) auto
qed simp

lemma claim_item_v6_unnoted: "unnoted x = unnoted y \<Longrightarrow> claim_item_v6 token now ex x = claim_item_v6 token now ex y"
  unfolding unnoted_def claim_item_v6_def claim_item_def by (cases x; cases y) simp

lemma unnoted_key: "unnoted x = unnoted y \<Longrightarrow> item_key_of x = item_key_of y"
  unfolding unnoted_def item_key_of_def by (cases x; cases y) simp

lemma claim_item_v6_key: "item_key_of (claim_item_v6 token now ex x) = item_key_of x"
  by (rule claiming_v6.keeps_key)

lemma run_items_sorted: "sorted (map wi_order (run_items d r))"
  by (simp add: run_items_def)

lemma sorted_takeWhile_less:
  assumes "sorted (map f xs)" "e \<in> set xs" "f e < (v :: int)"
  shows "e \<in> set (takeWhile (\<lambda>x. f x < v) xs)"
  using assms
proof (induction xs)
  case (Cons x xs)
  then show ?case by (cases "f x < v") (auto dest: bspec)
qed simp

lemma claim_row_Some:
  assumes "claim_row r k g (claim_item_v6 token now ex) d = (Some i, d')" "items_ok d"
  shows "\<exists>x \<in> set (db_items d). wi_run x = r \<and> wi_key x = k \<and> g x \<and> i = claim_item_v6 token now ex x
    \<and> find_item d' r k = Some i"
proof -
  let ?P = "\<lambda>i. wi_run i = r \<and> wi_key i = k \<and> g i"
  let ?f = "claim_item_v6 token now ex"
  from assms(1) have one: "count_where ?P (db_items d) = 1" and d': "d' = set_items ?P ?f d"
    and fi: "find_item d' r k = Some i" by (auto simp: claim_row_def Let_def split: if_splits)
  obtain x where x: "x \<in> set (db_items d)" "?P x" using count_where_1 [of ?P] one by (auto simp: exists_where_iff)
  have "?f x \<in> set (db_items d')" using x by (auto simp: d' set_update_where)
  moreover have "items_ok d'" unfolding d' by (rule claiming_v6.update_items_ok [OF assms(2)])
  moreover have "wi_run (?f x) = r \<and> wi_key (?f x) = k"
    using claim_item_v6_key [of token now ex x] x(2) by (simp add: item_key_of_def)
  ultimately have "find_item d' r k = Some (?f x)" by (auto intro: find_item_unique)
  with fi x show ?thesis by auto
qed

text \<open>
  A claim of the current manifest takes a row \<open>j\<close> as read after the exhausted claims were failed; the
  row is admissible, its provider is eligible and no earlier row is in its way.
\<close>

lemma claim_v6_pick:
  assumes "claim_next_work_item req token d = Inr (Some i, d')" "tables_ok d"
    and "find_run d (cr_run req) = Some run" "is_v6 (rr_version run)"
  obtains now ex ndt j where "utc_iso (cr_now req) ''now'' = Inr now" "fromisoformat now = Inr ndt"
    "utc_iso (cr_expires req) ''claim_expires_at'' = Inr ex"
    "j \<in> set (run_items (fail_exhausted (cr_run req) now d) (cr_run req))"
    "i = claim_item_v6 token now ex j" "find_item d' (cr_run req) (wi_key j) = Some i"
    "\<not> passes_over (cr_expected req) now j"
    "item_ready (fail_exhausted (cr_run req) now d) ndt j = Inr True"
    "\<And>e. e \<in> set (run_items (fail_exhausted (cr_run req) now d) (cr_run req)) \<Longrightarrow> wi_order e < wi_order j \<Longrightarrow>
      out_of_the_way (fail_exhausted (cr_run req) now d) now ndt (wi_task j) e"
  using assms(1)
proof (cases rule: claim_next_cases)
  case (3 now ex run')
  let ?d = "fail_exhausted (cr_run req) now d"
  let ?rows = "run_items ?d (cr_run req)"
  from 3(4,8) assms(3,4) have "claim_v6_item req now ex token ?d = Inr (Some i, d')" by simp
  then obtain ndt j d1 where ndt: "fromisoformat now = Inr ndt"
    and scan: "scan_v6 ?d (cr_expected req) now ndt ?rows ?rows ?d = Inr (Some j, d1)"
    and row: "claim_row (cr_run req) (wi_key j) (claimable_v6 now) (claim_item_v6 token now ex) d1 = (Some i, d')"
    by (auto simp: claim_v6_item_def bindE_Inr_iff Let_def split: option.splits)
  from scan_v6_Some [OF scan] have j: "j \<in> set ?rows" and ch: "row_verdict ?d (cr_expected req) now ndt ?rows j = Inr Choose"
    by auto
  have ok: "tables_ok ?d" using assms(2) by (rule fail_exhausted_tables)
  have keys: "map item_key_of (db_items d1) = map item_key_of (db_items ?d)"
    and unn: "map unnoted (db_items d1) = map unnoted (db_items ?d)"
  proof -
    show unn: "map unnoted (db_items d1) = map unnoted (db_items ?d)" by (rule scan_v6_unnoted [OF scan])
    have "item_key_of \<circ> unnoted = item_key_of" by (simp add: fun_eq_iff unnoted_def item_key_of_def)
    then show "map item_key_of (db_items d1) = map item_key_of (db_items ?d)"
      using arg_cong [OF unn, of "map item_key_of"] by (simp add: map_map)
  qed
  have ok1: "items_ok d1"
    using scan_extends_items_ok [OF scan] ok by (simp add: tables_ok_def)
  from claim_row_Some [OF row ok1] obtain x where x: "x \<in> set (db_items d1)" "wi_run x = cr_run req"
    "wi_key x = wi_key j" "i = claim_item_v6 token now ex x" "find_item d' (cr_run req) (wi_key j) = Some i" by blast
  from x(1) unn have "unnoted x \<in> set (map unnoted (db_items ?d))" by (metis image_eqI list.set_map)
  then obtain y where y: "y \<in> set (db_items ?d)" "unnoted x = unnoted y" by auto
  have "item_key_of y = item_key_of j" using unnoted_key [OF y(2)] x j by (simp add: item_key_of_def)
  with y(1) j ok have "y = j" by (auto simp: tables_ok_def items_ok_def distinct_map inj_on_def)
  with y x claim_item_v6_unnoted have i: "i = claim_item_v6 token now ex j" by metis
  show ?thesis
  proof (rule that [OF 3(1) ndt 3(2) j i x(5)])
    show "\<not> passes_over (cr_expected req) now j" "item_ready ?d ndt j = Inr True"
      using ch by (simp_all add: row_verdict_Choose)
    fix e assume "e \<in> set ?rows" "wi_order e < wi_order j"
    then have "e \<in> set (takeWhile (\<lambda>e. wi_order e < wi_order j) ?rows)"
      by (intro sorted_takeWhile_less run_items_sorted)
    with ch show "out_of_the_way ?d now ndt (wi_task j) e" by (simp add: row_verdict_Choose)
  qed
qed auto

end
