(* ===== verification/EngineLiveness.thy ===== *)
theory EngineLiveness
  imports EngineFacts
begin

text \<open>
  When a claim must succeed, and the one situation in which the scan of the current manifest can never
  pass a row: an item deferred after its last permitted acquisition.
\<close>

definition closed_item :: "work_item \<Rightarrow> bool" where
  "closed_item i \<longleftrightarrow> wi_status i \<in> {Succeeded, Partial, Skipped} \<or> (wi_status i = Failed \<and> \<not> item_retryable i)"

lemma closed_out_of_the_way: "closed_item e \<Longrightarrow> out_of_the_way d now ndt task e"
  by (auto simp: closed_item_def out_of_the_way_def)

lemma scan_v6_first:
  assumes "rows = pre @ xs" "sorted (map wi_order rows)" "\<And>x. x \<in> set pre \<Longrightarrow> closed_item x"
    and "\<And>x. x \<in> set xs \<Longrightarrow> item_ready d0 ndt x = Inr True \<and> (passes_over ex now x \<longrightarrow> closed_item x)"
    and "\<exists>x \<in> set xs. \<not> passes_over ex now x"
  shows "\<exists>i. scan_v6 d0 ex now ndt rows xs d = Inr (Some i, d) \<and> i \<in> set xs \<and> \<not> passes_over ex now i"
  using assms
proof (induction xs arbitrary: pre)
  case (Cons i xs)
  show ?case
  proof (cases "passes_over ex now i")
    case True
    then have "row_verdict d0 ex now ndt rows i = Inr Skip" by (simp add: row_verdict_def)
    moreover have "\<exists>j. scan_v6 d0 ex now ndt rows xs d = Inr (Some j, d) \<and> j \<in> set xs \<and> \<not> passes_over ex now j"
      using Cons.prems True by (intro Cons.IH [of "pre @ [i]"]) auto
    ultimately show ?thesis by auto
  next
    case False
    have "closed_item e" if e: "e \<in> set (takeWhile (\<lambda>e. wi_order e < wi_order i) rows)" for e
    proof -
      from e have "e \<in> set rows" "wi_order e < wi_order i" by (auto dest: set_takeWhileD)
      moreover have "\<forall>y \<in> set xs. wi_order i \<le> wi_order y"
        using Cons.prems(1,2) by (simp add: sorted_append)
      ultimately have "e \<in> set pre" using Cons.prems(1) by auto
      then show ?thesis by (rule Cons.prems(3))
    qed
    then have "row_verdict d0 ex now ndt rows i = Inr Choose"
      using False Cons.prems(4) [of i] closed_out_of_the_way by (simp add: row_verdict_Choose)
    with False show ?thesis by auto
  qed
qed simp

lemma item_ready_cong: "db_access d = db_access e \<Longrightarrow> item_ready d ndt i = item_ready e ndt i"
  by (simp add: item_ready_def access_views_def)

lemma item_ready_task: "wi_task i = wi_task j \<Longrightarrow> item_ready d ndt i = item_ready d ndt j"
  by (simp add: item_ready_def)

lemma retryable_acquisitions:
  "item_retryable i \<Longrightarrow> wi_acquisitions i \<le> wi_attempt i \<Longrightarrow> wi_acquisitions i < MAX_WORK_ITEM_ATTEMPTS"
  by (auto simp: item_retryable_def failed_work_item_is_retryable_def failed_item_is_retryable_def
      split: if_splits option.splits)

lemma claim_row_succeeds:
  assumes "items_ok d" "i \<in> set (db_items d)" "g i"
  shows "\<exists>w d'. claim_row (wi_run i) (wi_key i) g (claim_item_v6 token now ex) d = (Some w, d')"
proof -
  let ?P = "\<lambda>x. wi_run x = wi_run i \<and> wi_key x = wi_key i \<and> g x"
  let ?f = "claim_item_v6 token now ex"
  have "count_where ?P (db_items d) = 1"
    using assms by (intro count_where_key_1 [where k = item_key_of and v = "item_key_of i"])
      (auto simp: items_ok_def item_key_of_def exists_where_iff)
  moreover have "?f i \<in> set (db_items (set_items ?P ?f d))" using assms by (auto simp: set_update_where)
  then have "find_item (set_items ?P ?f d) (wi_run i) (wi_key i) \<noteq> None"
    using claim_item_v6_key [of token now ex i] by (auto simp: find_item_def find_None_iff item_key_of_def)
  ultimately show ?thesis by (auto simp: claim_row_def Let_def)
qed

text \<open>
  With a live lease, no active claim, every provider eligible and no item held back by a deferral,
  an open item lets some claim through.
\<close>

definition open_item :: "work_item \<Rightarrow> bool" where
  "open_item i \<longleftrightarrow> wi_status i = Pending \<or> (wi_status i = Failed \<and> item_retryable i)
     \<or> (wi_status i = Claimed \<and> wi_attempt i < MAX_WORK_ITEM_ATTEMPTS)"

definition unhindered :: "db \<Rightarrow> timestamp \<Rightarrow> datetime \<Rightarrow> work_item \<Rightarrow> bool" where
  "unhindered d now ndt i \<longleftrightarrow> item_ready d ndt i = Inr True \<and> \<not> after (wi_next_at i) now
     \<and> (wi_status i = Claimed \<longrightarrow> \<not> after (wi_expires i) now)
     \<and> (wi_status i = Pending \<longrightarrow> wi_acquisitions i < MAX_WORK_ITEM_ATTEMPTS)"

lemma fail_exhausted_row:
  assumes "x \<in> set (db_items (fail_exhausted r now d))"
  obtains y where "y \<in> set (db_items d)" "x = (if exhausted_claim r now y then exhaust_item now y else y)"
  using assms by (auto simp: set_update_where)

lemma exhaust_item_sel [simp]:
  "wi_status (exhaust_item now i) = Failed" "wi_run (exhaust_item now i) = wi_run i"
  "wi_task (exhaust_item now i) = wi_task i" "wi_next_at (exhaust_item now i) = wi_next_at i"
  "wi_acquisitions (exhaust_item now i) = wi_acquisitions i" "wi_attempt (exhaust_item now i) = wi_attempt i"
  "wi_order (exhaust_item now i) = wi_order i" "wi_key (exhaust_item now i) = wi_key i"
  by (simp_all add: exhaust_item_def)

lemma unhindered_row:
  assumes "x \<in> set (run_items (fail_exhausted r now d) r)" "engine_inv (t, d)"
    and "\<And>y. y \<in> set (run_items d r) \<Longrightarrow> unhindered d now ndt y"
  shows "item_ready (fail_exhausted r now d) ndt x = Inr True \<and> (passes_over None now x \<longrightarrow> closed_item x)"
proof -
  from assms(1) have x: "x \<in> set (db_items (fail_exhausted r now d))" "wi_run x = r" by auto
  from x(1) obtain y where y: "y \<in> set (db_items d)" "x = (if exhausted_claim r now y then exhaust_item now y else y)"
    by (rule fail_exhausted_row)
  with x(2) have yr: "y \<in> set (run_items d r)" by (auto split: if_splits)
  note u = assms(3) [OF yr]
  have acq: "wi_acquisitions y \<le> wi_attempt y"
    using assms(2) y(1) by (intro acquisitions_le_attempt [of d]) (auto simp: engine_inv_def tables_ok_def)
  have tok: "wi_status y = Claimed \<Longrightarrow> wi_expires y \<noteq> None"
    using assms(2) y(1) by (auto simp: engine_inv_def tables_ok_def items_ok_def item_ok_def list_all_iff)
  have "wi_task x = wi_task y" using y(2) by simp
  then have "item_ready (fail_exhausted r now d) ndt x = item_ready d ndt y"
    using item_ready_cong [of "fail_exhausted r now d" d ndt x] item_ready_task [of x y d ndt] by simp
  moreover have "closed_item x" if p: "passes_over None now x"
  proof (cases "exhausted_claim r now y")
    case True
    with y(2) have "x = exhaust_item now y" by simp
    moreover have "\<not> item_retryable x"
      using True calculation retryable_acquisitions [of x] p u acq
      by (auto simp: passes_over_def unhindered_def)
    ultimately show ?thesis by (simp add: closed_item_def)
  next
    case False
    with y(2) have xy: "x = y" by simp
    have "wi_status y = Claimed \<Longrightarrow> wi_acquisitions y < MAX_WORK_ITEM_ATTEMPTS"
      using False x(2) xy u acq tok
      by (cases "wi_expires y") (auto simp: exhausted_claim_def unhindered_def not_le)
    with p u xy retryable_acquisitions [of y] acq show ?thesis
      by (cases "wi_status y") (auto simp: passes_over_def closed_item_def unhindered_def)
  qed
  ultimately show ?thesis using u by (simp add: unhindered_def)
qed

lemma utc_iso_parses:
  assumes "utc_iso v f = Inr t"
  shows "\<exists>u. fromisoformat t = Inr u \<and> is_utc u \<and> t = isoformat u"
proof -
  from utc_iso_Inr [OF assms] obtain d u where u: "is_utc u" "t = isoformat u" .
  then have "fromisoformat t = Inr u" by (simp add: isoformat_roundtrip is_utc_def)
  with u show ?thesis by blast
qed

lemma claim_progress:
  assumes "engine_inv (t, d)" "find_run d (cr_run req) = Some run" "rr_state run = RunRunning"
    "is_v6 (rr_version run)" "utc_iso (cr_now req) ''now'' = Inr now"
    "utc_iso (cr_expires req) ''claim_expires_at'' = Inr ex" "now < ex" "cr_expected req = None"
    "has_live_lease d (cr_run req) now" "fromisoformat now = Inr ndt"
    and all: "\<And>y. y \<in> set (run_items d (cr_run req)) \<Longrightarrow> unhindered d now ndt y"
    and j: "j \<in> set (run_items d (cr_run req))" "open_item j"
  shows "\<exists>i d'. claim_next_work_item req token d = Inr (Some i, d')"
proof -
  let ?d = "fail_exhausted (cr_run req) now d"
  let ?rows = "run_items ?d (cr_run req)"
  have ok: "tables_ok ?d" using assms(1) by (intro fail_exhausted_tables) (simp add: engine_inv_def)
  have rows: "x \<in> set ?rows \<Longrightarrow> item_ready ?d ndt x = Inr True \<and> (passes_over None now x \<longrightarrow> closed_item x)" for x
    by (rule unhindered_row [OF _ assms(1) all])
  have acq: "wi_acquisitions j \<le> wi_attempt j"
    using assms(1) j(1) by (intro acquisitions_le_attempt [of d]) (auto simp: engine_inv_def tables_ok_def)
  have "\<not> exhausted_claim (cr_run req) now j"
    using j(2) by (auto simp: open_item_def exhausted_claim_def)
  then have "j \<in> set ?rows"
    using j(1) by (auto simp: set_update_where intro!: bexI [of _ j])
  moreover have "\<not> passes_over None now j"
    using j all [OF j(1)] acq retryable_acquisitions [of j] by (auto simp: open_item_def passes_over_def unhindered_def)
  ultimately have "\<exists>i. scan_v6 ?d None now ndt ?rows ?rows ?d = Inr (Some i, ?d) \<and> i \<in> set ?rows \<and> \<not> passes_over None now i"
    using rows by (intro scan_v6_first [of ?rows "[]"] run_items_sorted) auto
  then obtain i where i: "scan_v6 ?d None now ndt ?rows ?rows ?d = Inr (Some i, ?d)" "i \<in> set ?rows"
    "\<not> passes_over None now i" by blast
  have "claimable_v6 now i"
    using i(3) by (cases "wi_next_at i") (auto simp: passes_over_def claimable_v6_def not_less not_le)
  with i(2) ok obtain w d' where "claim_row (wi_run i) (wi_key i) (claimable_v6 now) (claim_item_v6 token now ex) ?d = (Some w, d')"
    using claim_row_succeeds [of ?d i "claimable_v6 now" token now ex] by (auto simp: tables_ok_def)
  with i assms(8,10) have claim: "claim_v6_item req now ex token ?d = Inr (Some w, d')"
    by (simp add: claim_v6_item_def)
  have "\<not> exists_where (active_claim (cr_run req) now) (db_items ?d)"
  proof
    assume "exists_where (active_claim (cr_run req) now) (db_items ?d)"
    then obtain x where x: "x \<in> set (db_items ?d)" "active_claim (cr_run req) now x"
      by (auto simp: exists_where_iff)
    from x(1) obtain y where y: "y \<in> set (db_items d)"
      "x = (if exhausted_claim (cr_run req) now y then exhaust_item now y else y)"
      by (rule fail_exhausted_row)
    with x(2) have "x = y" by (auto simp: active_claim_def split: if_splits)
    with x(2) y(1) all [of y] show False by (auto simp: active_claim_def unhindered_def)
  qed
  with claim assms show ?thesis
    by (auto simp: claim_next_work_item_def Let_def is_v6_def CURRENT_REFRESH_MANIFEST_VERSION_def not_le)
qed

section \<open>An item that can never be passed\<close>

text \<open>
  A pending item whose two acquisitions are spent is passed over as a candidate, but the scan of the
  earlier rows does not look at the acquisition count: once its deferral has run out it still goes first.
\<close>

definition spent_item :: "db \<Rightarrow> timestamp \<Rightarrow> datetime \<Rightarrow> work_item \<Rightarrow> bool" where
  "spent_item d now ndt e \<longleftrightarrow> wi_status e = Pending \<and> MAX_WORK_ITEM_ATTEMPTS \<le> wi_acquisitions e
     \<and> \<not> after (wi_next_at e) now \<and> item_ready d ndt e = Inr True"

lemma spent_item_blocks:
  assumes "claim_next_work_item req token d = Inr (Some i, d')" "tables_ok d"
    and "find_run d (cr_run req) = Some run" "is_v6 (rr_version run)"
    and "utc_iso (cr_now req) ''now'' = Inr now" "fromisoformat now = Inr ndt"
    and "e \<in> set (run_items d (cr_run req))" "spent_item d now ndt e"
  shows "wi_order i < wi_order e"
proof (rule ccontr)
  let ?d = "fail_exhausted (cr_run req) now d"
  assume not: "\<not> wi_order i < wi_order e"
  obtain now' ndt' ex j where p: "utc_iso (cr_now req) ''now'' = Inr now'" "fromisoformat now' = Inr ndt'"
    and j': "j \<in> set (run_items (fail_exhausted (cr_run req) now' d) (cr_run req))"
      "i = claim_item_v6 token now' ex j" "\<not> passes_over (cr_expected req) now' j"
    and out': "\<And>e. e \<in> set (run_items (fail_exhausted (cr_run req) now' d) (cr_run req)) \<Longrightarrow> wi_order e < wi_order j \<Longrightarrow>
      out_of_the_way (fail_exhausted (cr_run req) now' d) now' ndt' (wi_task j) e"
    by (rule claim_v6_pick [OF assms(1-4)]) blast
  have eq: "now' = now" "ndt' = ndt" using p assms(5,6) by simp_all
  note j = j' [unfolded eq] and out = out' [unfolded eq]
  have e: "e \<in> set (run_items ?d (cr_run req))"
    using assms(7,8) by (auto simp: set_update_where exhausted_claim_def spent_item_def intro!: bexI [of _ e])
  have "wi_order i = wi_order j" using claiming_v6.keeps_slot [of token now ex j] j(2) by (simp add: item_slot_def)
  with not consider "wi_order e < wi_order j" | "wi_order e = wi_order j" by linarith
  then show False
  proof cases
    case 1
    from out [OF e 1] assms(8) show False
      using item_ready_cong [of ?d d ndt e] by (auto simp: out_of_the_way_def spent_item_def)
  next
    case 2
    have "tables_ok ?d" using assms(2) by (rule fail_exhausted_tables)
    moreover from 2 e j(1) have "item_slot e = item_slot j" by (simp add: item_slot_def)
    ultimately have "e = j" using e j(1) by (auto simp: tables_ok_def items_ok_def distinct_map inj_on_def)
    with j(3) assms(8) show False by (auto simp: passes_over_def spent_item_def)
  qed
qed

text \<open>
  Executable traces of the engine, and one worked scenario the witnesses of the engine properties use:
  a run of the current manifest with a source item, a second source item and a derived item.
\<close>

fun run_trace :: "codec \<Rightarrow> engine_op list \<Rightarrow> engine_state \<Rightarrow> engine_state option" where
  "run_trace c [] s = Some s"
| "run_trace c (op # ops) s =
     (case op_now op of
        Inl e \<Rightarrow> None
      | Inr t \<Rightarrow>
          if fst s \<le> t \<and> allowed op (snd s) then
            (case run_op c op (snd s) of Inl e \<Rightarrow> None | Inr d \<Rightarrow> run_trace c ops (t, d))
          else None)"

lemma run_trace_app:
  "run_trace c ops s = Some s' \<Longrightarrow> reaches (engine_step c) r s \<Longrightarrow> reaches (engine_step c) r s'"
proof (induction c ops s rule: run_trace.induct)
  case (2 c op ops s)
  then obtain t d where t: "op_now op = Inr t" "fst s \<le> t" "allowed op (snd s)" "run_op c op (snd s) = Inr d"
    "run_trace c ops (t, d) = Some s'" by (auto split: sum.splits if_splits)
  have "engine_step c (fst s, snd s) op (t, d)" using t(1-4) by (rule engine_step.commit)
  with 2 t show ?case using reaches.further by (metis prod.collapse)
qed simp

lemma run_trace_reaches: "run_trace c ops s = Some s' \<Longrightarrow> reaches (engine_step c) s s'"
  using run_trace_app reaches.here by metis

definition ex_codec :: codec where
  "ex_codec = \<lparr>dumps = (\<lambda>_. ''plan''), loads = (\<lambda>_. Inl ValueError), sha256 = (\<lambda>s. s)\<rparr>"

definition ex_plan :: sgs_plan where
  "ex_plan = \<lparr>p_version = PLAN_VERSION, p_policy = POLICY_VERSION, p_as_of = Date 2025 1 2, p_units = []\<rparr>"

definition ex_time :: "string \<Rightarrow> string" where
  "ex_time hm = ''2025-01-02T'' @ hm @ '':00+00:00''"

definition ex_spec :: "string \<Rightarrow> int \<Rightarrow> work_item_spec" where
  "ex_spec t n = \<lparr>spec_key = t, spec_task = t, spec_order = n\<rparr>"

definition ex_start :: run_start where
  "ex_start = \<lparr>st_run = ''run1'', st_cycle = ''cycle1'', st_force = False, st_version = ''daily-refresh-v6'',
     st_derived = None, st_macro = None,
     st_items = [ex_spec ''focus'' 0, ex_spec ''anbima'' 1, ex_spec ''derived_snapshots'' 2],
     st_now = ex_time ''03:00'', st_expires = ex_time ''05:30'', st_plan = Some ex_plan\<rparr>"

definition ex_claim :: "string \<Rightarrow> string \<Rightarrow> item_key option \<Rightarrow> claim_request" where
  "ex_claim at until k = \<lparr>cr_run = ''run1'', cr_now = ex_time at, cr_expires = ex_time until, cr_expected = k\<rparr>"

definition ex_ctx :: "nat \<Rightarrow> claim_token \<Rightarrow> attempt_ctx" where
  "ex_ctx n token = \<lparr>ac_id = token, ac_run = ''run1'', ac_item = ''focus'', ac_number = n, ac_generation = n,
     ac_token = token, ac_expires = ex_time ''04:00''\<rparr>"

definition ex_defer :: "claim_token \<Rightarrow> string \<Rightarrow> string \<Rightarrow> deferral" where
  "ex_defer token at until = \<lparr>de_run = ''run1'', de_key = ''focus'', de_token = token, de_next_at = ex_time until,
     de_reason = ''retry_after'', de_now = ex_time at, de_category = None, de_code = None\<rparr>"

definition ex_done :: "item_key \<Rightarrow> claim_token \<Rightarrow> string \<Rightarrow> item_outcome \<Rightarrow> completion" where
  "ex_done k token at out = \<lparr>co_run = ''run1'', co_key = k, co_token = token, co_status = out,
     co_finished = ex_time at, co_series = 1, co_records = 5, co_error = None, co_category = None\<rparr>"

definition ex_final :: "final_state \<Rightarrow> string \<Rightarrow> finalization" where
  "ex_final st at = \<lparr>fi_run = ''run1'', fi_state = st, fi_result = ''ok'', fi_finished = ex_time at,
     fi_last_success = Some (ex_time at)\<rparr>"

text \<open>The first item is claimed.\<close>

definition ops_claimed :: "engine_op list" where
  "ops_claimed = [Start ex_start, Claim (ex_claim ''03:01'' ''03:11'' (Some ''focus'')) ''t1'',
     Begin (ex_ctx 1 ''t1'') (ex_time ''03:01''), Acquire (ex_ctx 1 ''t1'') (ex_time ''03:02'')]"

text \<open>The first item is deferred twice, each time after an acquisition.\<close>

definition ops_spent :: "engine_op list" where
  "ops_spent = ops_claimed @
     [Defer (ex_defer ''t1'' ''03:03'' ''03:10''),
      Claim (ex_claim ''03:11'' ''03:21'' (Some ''focus'')) ''t2'',
      Begin (ex_ctx 2 ''t2'') (ex_time ''03:11''), Acquire (ex_ctx 2 ''t2'') (ex_time ''03:12''),
      Defer (ex_defer ''t2'' ''03:13'' ''03:20'')]"

text \<open>Every item succeeds and the run is finalized.\<close>

definition ops_completed :: "engine_op list" where
  "ops_completed = ops_claimed @
     [Complete (ex_done ''focus'' ''t1'' ''03:03'' OutSucceeded),
      Claim (ex_claim ''03:04'' ''03:14'' (Some ''anbima'')) ''t2'',
      Complete (ex_done ''anbima'' ''t2'' ''03:05'' OutSucceeded),
      Claim (ex_claim ''03:06'' ''03:16'' (Some ''derived_snapshots'')) ''t3'',
      Cutoff \<lparr>cu_run = ''run1'', cu_phase = PhaseDerived, cu_cutoff = ex_time ''03:06'',
        cu_now = ex_time ''03:06'', cu_lease = ex_time ''05:36''\<rparr>,
      Complete (ex_done ''derived_snapshots'' ''t3'' ''03:07'' OutSucceeded)]"

definition ops_finished :: "engine_op list" where
  "ops_finished = ops_completed @ [Finalize (ex_final FinalSucceeded ''03:08'')]"

definition ex_state :: "engine_op list \<Rightarrow> engine_state" where
  "ex_state ops = the (run_trace ex_codec ops engine_start)"

lemma ex_trace:
  "run_trace ex_codec ops_claimed engine_start \<noteq> None"
  "run_trace ex_codec ops_spent engine_start \<noteq> None"
  "run_trace ex_codec ops_completed engine_start \<noteq> None"
  "run_trace ex_codec ops_finished engine_start \<noteq> None"
  "run_trace ex_codec [Start ex_start] engine_start \<noteq> None"
  by code_simp+

lemma ex_reach: "run_trace ex_codec ops engine_start \<noteq> None \<Longrightarrow> engine_reachable ex_codec (ex_state ops)"
  by (auto simp: engine_reachable_def ex_state_def intro: run_trace_reaches)

lemmas ex_reachable = ex_trace [THEN ex_reach]

end
