(* ===== verification/EngineProperties.thy ===== *)
theory EngineProperties
  imports EngineLiveness
begin

text \<open>
  The properties of the refresh engine, each over every state its operations can reach, with a witness
  on the scenario. They follow from the invariant and the history relation of \<open>Engine\<close> and
  \<open>EngineGrowth\<close> and from the facts on single operations.
\<close>

text \<open>C1: At every instant from the last operation on, at most one claim is live in the whole database;
  its run is still running and owns the daily lease.\<close>

theorem one_live_claim:
  assumes "engine_reachable c (t, d)" and "t \<le> s"
  shows "count_where (active_at s) (db_items d) \<le> 1 \<and>
    (\<forall>i \<in> set (db_items d). active_at s i \<longrightarrow>
      (\<exists>l r. db_leases d DAILY_REFRESH_LEASE = Some l \<and> le_owner l = wi_run i
         \<and> find_run d (wi_run i) = Some r \<and> rr_state r = RunRunning))"
proof -
  have inv: "tables_ok d" "exclusive s d"
    using reachable_inv [OF assms(1)] exclusive_later assms(2) by (auto simp: engine_inv_def)
  have "\<exists>r. find_run d (wi_run i) = Some r \<and> rr_state r = RunRunning"
    if i: "i \<in> set (db_items d)" "active_at s i" for i
  proof -
    from i inv(1) obtain x where x: "x \<in> set (db_runs d)" "rr_id x = wi_run i" "rr_state x = RunRunning"
      by (auto simp: tables_ok_def settled_def active_at_def)
    obtain y where y: "find_run d (wi_run i) = Some y" using x find_run_NoneD by fastforce
    have "runs_ok d" using inv(1) by (simp add: tables_ok_def)
    with x y show ?thesis using find_run_unique by blast
  qed
  with inv(2) show ?thesis by (auto simp: exclusive_def)
qed

theorem one_live_claim_witness:
  "count_where (active_at (ex_time ''03:05'')) (db_items (snd (ex_state ops_claimed))) \<le> 1
   \<and> count_where (active_at (ex_time ''03:05'')) (db_items (snd (ex_state ops_claimed))) = 1"
proof -
  have "fst (ex_state ops_claimed) \<le> ex_time ''03:05''" by code_simp
  moreover have "count_where (active_at (ex_time ''03:05'')) (db_items (snd (ex_state ops_claimed))) = 1" by code_simp
  ultimately show ?thesis
    using one_live_claim [of ex_codec "fst (ex_state ops_claimed)" "snd (ex_state ops_claimed)" "ex_time ''03:05''"]
      ex_reachable(1) by simp
qed

text \<open>C2: A run that has left the running state is never written again, whatever operations follow.\<close>

theorem finished_run_frozen:
  assumes "engine_reachable c s" and "reaches (engine_step c) s s'"
    and "find_run (snd s) r = Some x" and "rr_state x \<noteq> RunRunning"
  shows "find_run (snd s') r = Some x"
  using reachable_step [OF assms(1,2)] assms(3,4)
  by (auto simp: engine_grows_def runs_grow_def run_grows_def)

theorem finished_run_frozen_witness:
  "\<exists>x. find_run (snd (ex_state ops_finished)) ''run1'' = Some x \<and> rr_state x = RunSucceeded"
proof -
  have "map_option rr_state (find_run (snd (ex_state ops_finished)) ''run1'') = Some RunSucceeded" by code_simp
  then obtain x where x: "find_run (snd (ex_state ops_finished)) ''run1'' = Some x" "rr_state x = RunSucceeded"
    by auto
  with finished_run_frozen [OF ex_reachable(4) reaches.here x(1)] show ?thesis by simp
qed

text \<open>C3: Once an item has been claimed again, every business write under the older claim is refused, in
  every later state: the fence fails, so neither a metadata write nor a task result goes through.\<close>

theorem superseded_claim_is_fenced:
  assumes "engine_reachable c s" and "reaches (engine_step c) s s'"
    and "i \<in> set (db_items (snd s))" and "wi_run i = ac_run ctx" and "wi_key i = ac_item ctx"
    and "ac_generation ctx < wi_generation i"
  shows "set_meta (Some ctx) now k v (snd s') = Inl (PyError RuntimeError)
    \<and> record_refresh_task_finish (Some ctx) now f (snd s') = Inl (PyError RuntimeError)"
proof -
  from reachable_step [OF assms(1,2)] assms(3) obtain j where
    j: "j \<in> set (db_items (snd s'))" "item_key_of j = item_key_of i" "wi_attempt i \<le> wi_attempt j"
    by (auto simp: engine_grows_def items_grow_def)
  have ok: "items_ok (snd s)" "items_ok (snd s')"
    using reachable_inv [OF assms(1)] reachable_step [OF assms(1,2)] by (auto simp: engine_inv_def tables_ok_def)
  with assms(3) j(1) have "wi_generation i = wi_attempt i" "wi_generation j = wi_attempt j"
    by (auto simp: items_ok_def list_all_iff item_ok_def)
  with assms(6) j(3) have "ac_generation ctx < wi_generation j" by simp
  moreover have "find_item (snd s') (ac_run ctx) (ac_item ctx) = Some j"
    using j(2) assms(4,5) by (intro find_item_unique [OF ok(2) j(1)]) (auto simp: item_key_of_def)
  ultimately have "assert_current_refresh_attempt ctx now (snd s') = Inl (PyError RuntimeError)"
    by (auto simp: assert_current_refresh_attempt_def split: option.splits)
  then show ?thesis by (simp add: set_meta_def record_refresh_task_finish_def fenced_def)
qed

theorem superseded_claim_is_fenced_witness:
  "set_meta (Some (ex_ctx 1 ''t1'')) (ex_time ''03:14'') ''k'' ''v'' (snd (ex_state ops_spent)) = Inl (PyError RuntimeError)"
proof -
  have "list_ex (\<lambda>i. wi_run i = ''run1'' \<and> wi_key i = ''focus'' \<and> 1 < wi_generation i)
      (db_items (snd (ex_state ops_spent)))" by code_simp
  then obtain i where i: "i \<in> set (db_items (snd (ex_state ops_spent)))" "wi_run i = ''run1''"
    "wi_key i = ''focus''" "1 < wi_generation i" by (auto simp: list_ex_iff)
  from superseded_claim_is_fenced [OF ex_reachable(2) reaches.here i(1), of "ex_ctx 1 ''t1''"] i show ?thesis
    by (simp add: ex_ctx_def)
qed

text \<open>C4: A work item never counts more outbound acquisitions than it was claimed, its generation is its
  number of claims, and the column constraints of the schema hold for it.\<close>

theorem acquisitions_bounded:
  assumes "engine_reachable c (t, d)" and "i \<in> set (db_items d)"
  shows "wi_acquisitions i \<le> wi_attempt i \<and> wi_generation i = wi_attempt i
    \<and> (wi_token i = None) = (wi_expires i = None) \<and> (wi_status i = Claimed \<longrightarrow> wi_token i \<noteq> None)
    \<and> 0 \<le> wi_series i \<and> 0 \<le> wi_records i"
proof -
  have inv: "attempts_ok d" "items_ok d"
    using reachable_inv [OF assms(1)] by (simp_all add: engine_inv_def tables_ok_def)
  have "item_ok i" using inv(2) assms(2) by (simp add: items_ok_def list_all_iff)
  with acquisitions_le_attempt [OF inv assms(2)] show ?thesis by (auto simp: item_ok_def)
qed

theorem acquisitions_bounded_witness:
  "\<exists>i :: work_item. wi_key i = ''focus'' \<and> wi_acquisitions i = 2 \<and> wi_acquisitions i \<le> wi_attempt i"
proof -
  have "list_ex (\<lambda>i. wi_key i = ''focus'' \<and> wi_acquisitions i = 2) (db_items (snd (ex_state ops_spent)))" by code_simp
  then obtain i where i: "i \<in> set (db_items (snd (ex_state ops_spent)))" "wi_key i = ''focus''" "wi_acquisitions i = 2"
    by (auto simp: list_ex_iff)
  from acquisitions_bounded [of ex_codec "fst (ex_state ops_spent)" "snd (ex_state ops_spent)", OF _ i(1)] ex_reachable(2) i
  show ?thesis by auto
qed

text \<open>C5: A macro-score cutoff is only ever recorded after a derived cutoff and not before it, and a
  recorded cutoff never changes again.\<close>

theorem cutoffs_ordered_and_final:
  assumes "engine_reachable c s" and "reaches (engine_step c) s s'" and "find_run (snd s) r = Some x"
  shows "\<exists>y. find_run (snd s') r = Some y
    \<and> (\<forall>m. rr_macro_cutoff y = Some m \<longrightarrow> (\<exists>v. rr_derived_cutoff y = Some v \<and> v \<le> m))
    \<and> (rr_derived_cutoff x \<noteq> None \<longrightarrow> rr_derived_cutoff y = rr_derived_cutoff x)
    \<and> (rr_macro_cutoff x \<noteq> None \<longrightarrow> rr_macro_cutoff y = rr_macro_cutoff x)"
proof -
  from reachable_step [OF assms(1,2)] assms(3) obtain y where y: "find_run (snd s') r = Some y" "run_grows x y"
    by (auto simp: engine_grows_def runs_grow_def)
  have "run_ok y"
    using reachable_step [OF assms(1,2)] find_run_SomeD [OF y(1)]
    by (auto simp: engine_inv_def tables_ok_def runs_ok_def list_all_iff)
  with y show ?thesis by (auto simp: run_ok_def run_grows_def)
qed

theorem cutoffs_ordered_and_final_witness:
  "\<exists>y. find_run (snd (ex_state ops_completed)) ''run1'' = Some y \<and> rr_derived_cutoff y = Some (ex_time ''03:06'')"
proof -
  have "map_option rr_derived_cutoff (find_run (snd (ex_state ops_completed)) ''run1'') = Some (Some (ex_time ''03:06''))"
    by code_simp
  then obtain x where x: "find_run (snd (ex_state ops_completed)) ''run1'' = Some x"
    "rr_derived_cutoff x = Some (ex_time ''03:06'')" by auto
  from cutoffs_ordered_and_final [OF ex_reachable(3) reaches.here x(1)] x(2) show ?thesis by auto
qed

text \<open>C6: A run is finalized only under its live lease and only when it is resolved: no item is claimed,
  every failure is out of retries and a pending item is one the current manifest deferred; success means
  every item succeeded. Finalizing records the outcome and frees the lease in the same transaction, and a
  refused finalization writes nothing.\<close>

theorem finalization_is_sound:
  assumes "engine_reachable c (t, d)" and "finalize_and_release_run req d = Inr (ok, d')"
  shows "if ok then
      \<exists>now run run'. find_run d (fi_run req) = Some run \<and> rr_state run = RunRunning
        \<and> has_live_lease d (fi_run req) now
        \<and> (\<forall>i \<in> set (run_items d (fi_run req)).
             wi_status i \<in> {Succeeded, Partial, Skipped}
             \<or> wi_status i = Failed \<and> \<not> (if is_v6 (rr_version run) then item_retryable i
                                           else wi_attempt i < MAX_WORK_ITEM_ATTEMPTS)
             \<or> wi_status i = Pending \<and> is_v6 (rr_version run) \<and> wi_deferral i \<noteq> None)
        \<and> (fi_state req = FinalSucceeded \<longrightarrow> (\<forall>i \<in> set (run_items d (fi_run req)). wi_status i = Succeeded))
        \<and> find_run d' (fi_run req) = Some run' \<and> rr_state run' = final_run_state (fi_state req)
        \<and> rr_finished run' = Some now \<and> rr_final_result run' = Some (fi_result req)
        \<and> db_leases d' DAILY_REFRESH_LEASE = None \<and> db_items d' = db_items d
    else d' = d"
proof (cases ok)
  case False
  have "tables_ok d" using reachable_inv [OF assms(1)] by (simp add: engine_inv_def)
  with False assms(2) show ?thesis using finalize_False by simp
next
  case True
  with assms(2) have "finalize_and_release_run req d = Inr (True, d')" by simp
  then show ?thesis
  proof (cases rule: finalize_True)
    case (1 run now success)
    have items: "wi_status i \<in> {Succeeded, Partial, Skipped}
             \<or> wi_status i = Failed \<and> \<not> (if is_v6 (rr_version run) then item_retryable i
                                           else wi_attempt i < MAX_WORK_ITEM_ATTEMPTS)
             \<or> wi_status i = Pending \<and> is_v6 (rr_version run) \<and> wi_deferral i \<noteq> None"
      if "i \<in> set (run_items d (fi_run req))" for i
      using that 1(5,6)
      by (cases "wi_status i") (auto simp: exists_where_iff unfinished_item_def retryable_failure_def)
    have succ: "fi_state req = FinalSucceeded \<longrightarrow> (\<forall>i \<in> set (run_items d (fi_run req)). wi_status i = Succeeded)"
      using 1(7) by (auto simp: exists_where_iff blocks_success_def)
    have "find_run d' (fi_run req) = Some (finalized_run req now run)"
      using 1(1,2) find_run_SomeD [OF 1(1)]
        find_run_set_runs [of "finalized_run req now" "\<lambda>r. rr_id r = fi_run req \<and> rr_state r = RunRunning" d "fi_run req"]
      by (simp add: 1(8) find_run_def finalize_run_row_def)
    moreover have "db_leases d' DAILY_REFRESH_LEASE = None" "db_items d' = db_items d" by (simp_all add: 1(8))
    ultimately show ?thesis
      using True 1(1,2,4) items succ
      by (intro iffD2 [OF if_P [OF True]] exI [of _ now] exI [of _ run] exI [of _ "finalized_run req now run"])
        (simp add: finalized_run_def)
  qed
qed

theorem finalization_is_sound_witness:
  "\<exists>d'. finalize_and_release_run (ex_final FinalSucceeded ''03:08'') (snd (ex_state ops_completed)) = Inr (True, d')
     \<and> db_leases d' DAILY_REFRESH_LEASE = None"
proof -
  let ?r = "finalize_and_release_run (ex_final FinalSucceeded ''03:08'') (snd (ex_state ops_completed))"
  have "(case ?r of Inl e \<Rightarrow> False | Inr (ok, d') \<Rightarrow> ok)" by code_simp
  then obtain d' where "?r = Inr (True, d')" by (auto split: sum.splits)
  with finalization_is_sound [of ex_codec "fst (ex_state ops_completed)" "snd (ex_state ops_completed)", OF _ this]
    ex_reachable(3) show ?thesis by auto
qed

text \<open>C7: Starting is idempotent: a second, identical start request changes nothing and returns the same
  snapshot, whether the first created the run, resumed it or found it finished.\<close>

theorem start_is_idempotent:
  assumes "engine_reachable c (t, d)" and "utc_iso (st_now start) ''now'' = Inr now" and "t \<le> now"
    and "allowed (Start start) d"
    and "find_run d (st_run start) = None \<Longrightarrow> db_plans d (st_run start) = None"
    and "create_or_resume_run c start d = Inr (snap, d')"
  shows "create_or_resume_run c start d' = Inr (snap, d')"
proof -
  have "tables_ok d" "exclusive now d"
    using reachable_inv [OF assms(1)] exclusive_later assms(3) by (auto simp: engine_inv_def)
  with assms show ?thesis by (intro create_again) auto
qed

theorem start_is_idempotent_witness:
  "\<exists>snap d'. create_or_resume_run ex_codec ex_start empty_db = Inr (snap, d')
     \<and> create_or_resume_run ex_codec ex_start d' = Inr (snap, d')"
proof -
  have "\<not> isl (create_or_resume_run ex_codec ex_start empty_db)" by code_simp
  then obtain snap d' where c: "create_or_resume_run ex_codec ex_start empty_db = Inr (snap, d')"
    by (cases "create_or_resume_run ex_codec ex_start empty_db") auto
  have "(case utc_iso (st_now ex_start) ''now'' of Inl _ \<Rightarrow> False | Inr n \<Rightarrow> True)" by code_simp
  then obtain now where now: "utc_iso (st_now ex_start) ''now'' = Inr now" by (auto split: sum.splits)
  have "engine_reachable ex_codec ([], empty_db)"
    using reaches.here by (auto simp: engine_reachable_def engine_start_def)
  from start_is_idempotent [OF this now _ _ _ c] c show ?thesis by (auto simp: ex_start_def empty_db_def)
qed


definition ex_other :: "string \<Rightarrow> run_start" where
  "ex_other at = ex_start\<lparr>st_run := ''run2'', st_now := ex_time at, st_expires := ex_time ''23:59''\<rparr>"


end
