(* ===== verification/EngineClaims.thy ===== *)
theory EngineClaims
  imports EngineLiveness
begin

text \<open>
  Properties of claims: which item a claim takes, when one must be handed out, what leaves a claim and
  how often a claim counts an acquisition.
\<close>

text \<open>C9: A claim of the current manifest takes one row of its run, under the new token and with both
  counters of claims raised by one; the row has an acquisition left, is not deferred into the future, is
  not a permanent failure, its provider is eligible, and every earlier row is resolved, deferred (unless
  the task depends on all sources) or waiting for its provider.\<close>

theorem claim_takes_the_first_ready_item:
  assumes "engine_reachable c (t, d)" and "find_run d (cr_run req) = Some run" and "is_v6 (rr_version run)"
    and "claim_next_work_item req token d = Inr (Some i, d')"
    and "utc_iso (cr_now req) ''now'' = Inr now" and "fromisoformat now = Inr ndt"
  shows "let d1 = fail_exhausted (cr_run req) now d in
    \<exists>j \<in> set (run_items d1 (cr_run req)).
      wi_key i = wi_key j \<and> wi_task i = wi_task j \<and> wi_order i = wi_order j
      \<and> wi_status i = Claimed \<and> wi_token i = Some token
      \<and> wi_attempt i = wi_attempt j + 1 \<and> wi_generation i = wi_generation j + 1
      \<and> wi_next_at i = None \<and> find_item d' (cr_run req) (wi_key i) = Some i
      \<and> wi_acquisitions j < MAX_WORK_ITEM_ATTEMPTS \<and> \<not> after (wi_next_at j) now
      \<and> (wi_status j = Failed \<longrightarrow> item_retryable j) \<and> item_ready d1 ndt j = Inr True
      \<and> (\<forall>e \<in> set (run_items d1 (cr_run req)). wi_order e < wi_order j \<longrightarrow>
           out_of_the_way d1 now ndt (wi_task j) e)"
proof -
  have ok: "tables_ok d" using reachable_inv [OF assms(1)] by (simp add: engine_inv_def)
  obtain now' ndt' ex j where p: "utc_iso (cr_now req) ''now'' = Inr now'" "fromisoformat now' = Inr ndt'"
    and j': "j \<in> set (run_items (fail_exhausted (cr_run req) now' d) (cr_run req))"
      "i = claim_item_v6 token now' ex j" "find_item d' (cr_run req) (wi_key j) = Some i"
      "\<not> passes_over (cr_expected req) now' j"
      "item_ready (fail_exhausted (cr_run req) now' d) ndt' j = Inr True"
    and out': "\<And>e. e \<in> set (run_items (fail_exhausted (cr_run req) now' d) (cr_run req)) \<Longrightarrow> wi_order e < wi_order j \<Longrightarrow>
      out_of_the_way (fail_exhausted (cr_run req) now' d) now' ndt' (wi_task j) e"
    by (rule claim_v6_pick [OF assms(4) ok assms(2,3)]) blast
  have eq: "now' = now" "ndt' = ndt" using p assms(5,6) by simp_all
  show ?thesis
    unfolding Let_def
    using j' out' unfolding eq
    by (intro bexI [of _ j]) (auto simp: claim_item_v6_def claim_item_def passes_over_def)
qed

theorem claim_takes_the_first_ready_item_witness:
  "\<exists>i d'. claim_next_work_item (ex_claim ''03:01'' ''03:11'' None) ''t1'' (snd (ex_state [Start ex_start])) = Inr (Some i, d')
     \<and> wi_status i = Claimed \<and> wi_key i = ''focus''"
proof -
  let ?d = "snd (ex_state [Start ex_start])" and ?req = "ex_claim ''03:01'' ''03:11'' None"
  have "(case claim_next_work_item ?req ''t1'' ?d of Inr (Some i, _) \<Rightarrow> wi_key i = ''focus'' | _ \<Rightarrow> False)" by code_simp
  then obtain i d' where c: "claim_next_work_item ?req ''t1'' ?d = Inr (Some i, d')" "wi_key i = ''focus''"
    by (auto split: sum.splits option.splits)
  have "(case find_run ?d (cr_run ?req) of Some r \<Rightarrow> is_v6 (rr_version r) | None \<Rightarrow> False)" by code_simp
  then obtain r where r: "find_run ?d (cr_run ?req) = Some r" "is_v6 (rr_version r)" by (auto split: option.splits)
  have "(case utc_iso (cr_now ?req) ''now'' of Inl _ \<Rightarrow> False | Inr n \<Rightarrow>
      (case fromisoformat n of Inl _ \<Rightarrow> False | Inr _ \<Rightarrow> True))" by code_simp
  then obtain n nd where n: "utc_iso (cr_now ?req) ''now'' = Inr n" "fromisoformat n = Inr nd"
    by (auto split: sum.splits)
  from claim_takes_the_first_ready_item [of ex_codec "fst (ex_state [Start ex_start])" ?d, OF _ r c(1) n]
    ex_reachable(5) c show ?thesis by (auto simp: Let_def)
qed



text \<open>C11: A pending item that was deferred after its second acquisition is never claimed again, yet once
  its deferral has run out it shuts every later item out: no claim of the run can return it or an item
  behind it, and while a later item is pending without a deferral the run cannot be finalized either.\<close>

theorem spent_item_shuts_out_later_items:
  assumes "engine_reachable c (t, d)" and "find_run d r = Some run" and "is_v6 (rr_version run)"
    and "e \<in> set (run_items d r)" and "fromisoformat now = Inr ndt" and "spent_item d now ndt e"
    and "cr_run req = r" and "utc_iso (cr_now req) ''now'' = Inr now"
    and "w \<in> set (run_items d r)" and "wi_status w = Pending" and "wi_deferral w = None" and "fi_run fin = r"
  shows "(\<forall>token i d'. claim_next_work_item req token d = Inr (Some i, d') \<longrightarrow> wi_order i < wi_order e)
    \<and> (\<forall>ok d'. finalize_and_release_run fin d = Inr (ok, d') \<longrightarrow> \<not> ok)"
proof -
  have ok: "tables_ok d" using reachable_inv [OF assms(1)] by (simp add: engine_inv_def)
  have "wi_order i < wi_order e" if "claim_next_work_item req token d = Inr (Some i, d')" for token i d'
    using spent_item_blocks [OF that ok _ assms(3,8,5) _ assms(6)] assms(2,4,7) by simp
  moreover have "\<not> b" if "finalize_and_release_run fin d = Inr (b, d')" for b d'
  proof
    assume b
    with that have "finalize_and_release_run fin d = Inr (True, d')" by simp
    then show False
    proof (cases rule: finalize_True)
      case (1 x now success)
      then show False
        using assms(9-12) by (auto simp: exists_where_iff unfinished_item_def)
    qed
  qed
  ultimately show ?thesis by blast
qed

theorem spent_item_shuts_out_later_items_witness:
  "(\<nexists>token i d'. claim_next_work_item (ex_claim ''03:21'' ''03:31'' (Some ''anbima'')) token (snd (ex_state ops_spent))
       = Inr (Some i, d') \<and> 0 \<le> wi_order i)
    \<and> (\<nexists>d'. finalize_and_release_run (ex_final FinalPartial ''03:22'') (snd (ex_state ops_spent)) = Inr (True, d'))"
proof -
  let ?d = "snd (ex_state ops_spent)" and ?req = "ex_claim ''03:21'' ''03:31'' (Some ''anbima'')"
  have "(case find_run ?d ''run1'' of Some r \<Rightarrow> is_v6 (rr_version r) | None \<Rightarrow> False)" by code_simp
  then obtain r where r: "find_run ?d ''run1'' = Some r" "is_v6 (rr_version r)" by (auto split: option.splits)
  have "(case utc_iso (cr_now ?req) ''now'' of Inl _ \<Rightarrow> False | Inr n \<Rightarrow> (case fromisoformat n of Inl _ \<Rightarrow> False
      | Inr nd \<Rightarrow> list_ex (\<lambda>e. wi_order e = 0 \<and> spent_item ?d n nd e) (run_items ?d ''run1'')))" by code_simp
  then obtain n nd e where n: "utc_iso (cr_now ?req) ''now'' = Inr n" "fromisoformat n = Inr nd"
    and e: "e \<in> set (run_items ?d ''run1'')" "wi_order e = 0" "spent_item ?d n nd e"
    by (auto split: sum.splits simp: list_ex_iff)
  have "list_ex (\<lambda>w. wi_status w = Pending \<and> wi_deferral w = None) (run_items ?d ''run1'')" by code_simp
  then obtain w where w: "w \<in> set (run_items ?d ''run1'')" "wi_status w = Pending" "wi_deferral w = None"
    by (auto simp: list_ex_iff)
  have q: "cr_run ?req = ''run1''" "fi_run (ex_final FinalPartial ''03:22'') = ''run1''"
    by (simp_all add: ex_claim_def ex_final_def)
  from spent_item_shuts_out_later_items [of ex_codec "fst (ex_state ops_spent)" ?d, OF _ r e(1) n(2) e(3) q(1) n(1) w q(2)]
    ex_reachable(2) e(2) show ?thesis by (simp add: not_le) blast
qed

text \<open>C12: A result is recorded only for the claim it belongs to: the call succeeds exactly when the item
  is still claimed under that token, before the claim and the lease expire, by a running run; then only that
  row changes, and otherwise nothing does.\<close>

theorem completion_is_fenced:
  assumes "engine_reachable c (t, d)" and "utc_iso (co_finished req) ''finished_at'' = Inr now"
    and "0 \<le> co_series req" and "0 \<le> co_records req"
  shows "\<exists>ok d'. complete_work_item_claim req d = Inr (ok, d')
    \<and> (ok \<longleftrightarrow> (\<exists>i \<in> set (db_items d). holds_claim d (co_run req) (co_key req) (co_token req) now i))
    \<and> (\<not> ok \<longrightarrow> d' = d)
    \<and> (\<forall>i \<in> set (db_items d). item_key_of i \<noteq> (co_run req, co_key req) \<longrightarrow> i \<in> set (db_items d'))
    \<and> (ok \<longrightarrow> (\<exists>i. find_item d' (co_run req) (co_key req) = Some i
          \<and> wi_status i = outcome_status (co_status req) \<and> wi_finished i = Some now
          \<and> wi_error i = co_error req \<and> wi_last_category i = co_category req))"
proof -
  let ?P = "holds_claim d (co_run req) (co_key req) (co_token req) now"
  let ?d' = "set_items ?P (complete_item req now) d"
  have inv: "items_ok d" using reachable_inv [OF assms(1)] by (simp add: engine_inv_def tables_ok_def)
  have res: "complete_work_item_claim req d = Inr (count_where ?P (db_items d) = 1, ?d')"
    using assms(2-4) by (simp add: complete_work_item_claim_def Let_def)
  have one: "count_where ?P (db_items d) = 1 \<longleftrightarrow> exists_where ?P (db_items d)"
    using inv count_where_key_1 [where P = ?P and k = item_key_of and v = "(co_run req, co_key req)" and t = "db_items d"]
      count_where_1 [of ?P "db_items d"]
    by (auto simp: items_ok_def holds_claim_def item_key_of_def)
  have ok': "items_ok ?d'" if "exists_where ?P (db_items d)"
  proof -
    let ?Q = "\<lambda>i. wi_status i = Claimed \<and> 0 \<le> co_series req \<and> 0 \<le> co_records req \<and> ?P i"
    have "?P = ?Q" using assms(3,4) by (auto simp: fun_eq_iff holds_claim_def)
    moreover have "items_ok (set_items ?Q (complete_item req now) d)"
      by (rule completing.update_items_ok [OF inv])
    ultimately show ?thesis by simp
  qed
  have found: "\<exists>i. find_item ?d' (co_run req) (co_key req) = Some i
          \<and> wi_status i = outcome_status (co_status req) \<and> wi_finished i = Some now
          \<and> wi_error i = co_error req \<and> wi_last_category i = co_category req"
    if ex: "exists_where ?P (db_items d)"
  proof -
    from ex obtain j where j: "j \<in> set (db_items d)" "?P j" by (auto simp: exists_where_iff)
    then have "complete_item req now j \<in> set (db_items ?d')" by (auto simp: set_update_where)
    then have "find_item ?d' (co_run req) (co_key req) = Some (complete_item req now j)"
      using j(2) by (intro find_item_unique [OF ok' [OF ex]]) (auto simp: complete_item_def holds_claim_def)
    then show ?thesis by (simp add: complete_item_def)
  qed
  have none: "?d' = d" if "\<not> exists_where ?P (db_items d)"
    using that by (simp add: set_items_def update_where_id)
  have frame: "\<forall>i \<in> set (db_items d). item_key_of i \<noteq> (co_run req, co_key req) \<longrightarrow> i \<in> set (db_items ?d')"
    by (auto simp: set_update_where holds_claim_def item_key_of_def)
  show ?thesis
    using res one found none frame by (auto simp: exists_where_iff)
qed

theorem completion_is_fenced_witness:
  "\<exists>d'. complete_work_item_claim (ex_done ''focus'' ''t1'' ''03:03'' OutSucceeded) (snd (ex_state ops_claimed)) = Inr (True, d')"
proof -
  let ?d = "snd (ex_state ops_claimed)" and ?req = "ex_done ''focus'' ''t1'' ''03:03'' OutSucceeded"
  have "(case utc_iso (co_finished ?req) ''finished_at'' of Inl _ \<Rightarrow> False | Inr n \<Rightarrow>
     list_ex (holds_claim ?d (co_run ?req) (co_key ?req) (co_token ?req) n) (db_items ?d))" by code_simp
  then obtain n where n: "utc_iso (co_finished ?req) ''finished_at'' = Inr n"
    "\<exists>i \<in> set (db_items ?d). holds_claim ?d (co_run ?req) (co_key ?req) (co_token ?req) n i"
    by (auto split: sum.splits simp: list_ex_iff)
  have "0 \<le> co_series ?req" "0 \<le> co_records ?req" by (simp_all add: ex_done_def)
  from completion_is_fenced [of ex_codec "fst (ex_state ops_claimed)" ?d, OF _ n(1) this] ex_reachable(1) n(2)
  show ?thesis by auto
qed

text \<open>An acquisition is counted once per claim. A call that counts raises the counter of the claimed
  item by exactly one; repeating it under the same claim either changes nothing or is refused because the
  claim is gone.\<close>

theorem acquisition_is_counted_once:
  assumes "engine_reachable c (t, d)" and "mark_refresh_acquisition_started ctx now d = Inr d1" and "d1 \<noteq> d"
  shows "(\<exists>i. find_item d (ac_run ctx) (ac_item ctx) = Some i \<and> wi_token i = Some (ac_token ctx)
      \<and> find_item d1 (ac_run ctx) (ac_item ctx) = Some (i\<lparr>wi_acquisitions := wi_acquisitions i + 1, wi_updated := now\<rparr>))
    \<and> (\<forall>now2. mark_refresh_acquisition_started ctx now2 d1 \<in> {Inr d1, Inl (PyError RuntimeError)})"
proof -
  let ?C = "counts_acquisition ctx now"
  let ?f = "\<lambda>i. i\<lparr>wi_acquisitions := wi_acquisitions i + 1, wi_updated := now\<rparr>"
  have ok: "items_ok d" using reachable_inv [OF assms(1)] by (simp add: engine_inv_def tables_ok_def)
  from assms(2,3) have one: "count_where ?C (db_items d) = 1"
    and d1: "d1 = set_items ?C ?f (set_attempts (opens_outbound ctx) (\<lambda>a. a\<lparr>at_outbound := Some now\<rparr>) d)"
    by (auto simp: mark_refresh_acquisition_started_def split: if_splits)
  obtain i where i: "i \<in> set (db_items d)" "?C i" using one count_where_1 [of ?C] by (auto simp: exists_where_iff)
  have "items_ok (set_items ?C ?f d)" by (rule acquiring.update_items_ok [OF ok])
  then have ok1: "items_ok d1" by (simp add: items_ok_def d1)
  have "?f i \<in> set (db_items d1)" using i by (auto simp: d1 set_update_where)
  then have "find_item d1 (ac_run ctx) (ac_item ctx) = Some (?f i)"
    using i(2) by (intro find_item_unique [OF ok1]) (auto simp: counts_acquisition_def)
  moreover have "find_item d (ac_run ctx) (ac_item ctx) = Some i"
    using i(2) by (intro find_item_unique [OF ok i(1)]) (auto simp: counts_acquisition_def)
  moreover have "\<not> exists_where (opens_outbound ctx) (db_attempts d1)"
    by (auto simp: d1 exists_where_iff set_update_where opens_outbound_def)
  then have "mark_refresh_acquisition_started ctx now2 d1 \<in> {Inr d1, Inl (PyError RuntimeError)}" for now2
    by (auto simp: mark_refresh_acquisition_started_def)
  ultimately show ?thesis using i(2) by (auto simp: counts_acquisition_def)
qed

definition ops_begun :: "engine_op list" where
  "ops_begun = butlast ops_claimed"

theorem acquisition_is_counted_once_witness:
  "\<exists>d1 i. mark_refresh_acquisition_started (ex_ctx 1 ''t1'') (ex_time ''03:02'') (snd (ex_state ops_begun)) = Inr d1
     \<and> find_item d1 ''run1'' ''focus'' = Some i \<and> wi_acquisitions i = 1"
proof -
  let ?d = "snd (ex_state ops_begun)" and ?m = "mark_refresh_acquisition_started (ex_ctx 1 ''t1'') (ex_time ''03:02'')"
  have "run_trace ex_codec ops_begun engine_start \<noteq> None" by code_simp
  then have r: "engine_reachable ex_codec (fst (ex_state ops_begun), ?d)" using ex_reach by simp
  have ev: "(case ?m ?d of Inl _ \<Rightarrow> False | Inr d1 \<Rightarrow> map wi_acquisitions (db_items d1) \<noteq> map wi_acquisitions (db_items ?d)
      \<and> map_option wi_acquisitions (find_item ?d ''run1'' ''focus'') = Some 0)" by code_simp
  then obtain d1 where d1: "?m ?d = Inr d1" "d1 \<noteq> ?d" "map_option wi_acquisitions (find_item ?d ''run1'' ''focus'') = Some 0"
    by (auto split: sum.splits)
  have k: "ac_run (ex_ctx 1 ''t1'') = ''run1''" "ac_item (ex_ctx 1 ''t1'') = ''focus''" by (simp_all add: ex_ctx_def)
  from acquisition_is_counted_once [OF r d1(1,2)] d1(1,3) k show ?thesis by auto
qed

end
