(* ===== verification/TextOrder.thy ===== *)
theory TextOrder
  imports Scheduler
begin

text \<open>
  Persisted dates and timestamps are text, and SQL compares them as text. \<open>ordered_text\<close> is what the
  code relies on: the text reads back to the value, and text order is the order of the values. It is
  interpreted on ISO dates and on UTC timestamps; its lemmas carry comparisons of columns over to
  comparisons of values.
\<close>

locale ordered_text =
  fixes enc :: "'a \<Rightarrow> string" and dec :: "string \<Rightarrow> 'e + 'a" and good :: "'a \<Rightarrow> bool"
    and rank :: "'a \<Rightarrow> int"
  assumes dec_enc: "good x \<Longrightarrow> dec (enc x) = Inr x"
    and enc_less: "good x \<Longrightarrow> good y \<Longrightarrow> enc x < enc y \<longleftrightarrow> rank x < rank y"
begin

lemma enc_inj: "good x \<Longrightarrow> good y \<Longrightarrow> enc x = enc y \<Longrightarrow> x = y"
  by (metis dec_enc sum.inject(2))

lemma enc_eq_iff: "good x \<Longrightarrow> good y \<Longrightarrow> enc x = enc y \<longleftrightarrow> x = y"
  using enc_inj by blast

lemma enc_le: "good x \<Longrightarrow> good y \<Longrightarrow> enc x \<le> enc y \<longleftrightarrow> rank x \<le> rank y"
  using enc_less [of y x] by (simp flip: not_less)

lemma rank_inj: "good x \<Longrightarrow> good y \<Longrightarrow> rank x = rank y \<Longrightarrow> x = y"
  by (rule enc_inj) (auto intro: order.antisym simp: enc_le)

lemma not_after_enc: "good x \<Longrightarrow> good y \<Longrightarrow> not_after (Some (enc x)) (enc y) \<longleftrightarrow> rank x \<le> rank y"
  by (simp add: enc_le)

lemma max_enc: "good x \<Longrightarrow> good y \<Longrightarrow> max (enc x) (enc y) = enc (if rank x \<le> rank y then y else x)"
  by (simp add: max_def enc_le)

end

interpretation dates: ordered_text date_isoformat date_fromisoformat valid_date ordinal
  by unfold_locales (simp_all add: date_roundtrip date_isoformat_less ordinal_less_iff)

interpretation times: ordered_text isoformat fromisoformat is_utc instant
  by unfold_locales (simp_all add: is_utc_def isoformat_roundtrip isoformat_less)

text \<open>A timestamp written by one caller and normalised at the boundary of another is the same text.\<close>

lemma utc_iso_isoformat_eq:
  assumes "valid_datetime d" "utc_iso (isoformat d) f = Inr t"
  shows "\<exists>u. is_utc u \<and> instant u = instant d \<and> t = isoformat u"
  using utc_iso_Inr [OF assms(2)] assms(1)
  by (metis isoformat_no_zulu isoformat_roundtrip sum.inject(2) zulu_to_offset_id)

end
