(* ===== verification/BreakerClaims.thy ===== *)
theory BreakerClaims
  imports RunItems TextOrder
begin

text \<open>
  The provider circuit as a machine over all scopes (\<open>source_access_state\<close>): its invariant, what its
  history keeps, and the properties of admissions, failures and stale successes.
\<close>

section \<open>The machine\<close>

inductive circuit_step ::
    "'t::linorder access_table \<Rightarrow> string \<times> 't breaker_op \<Rightarrow> 't access_table \<Rightarrow> bool" where
  "circuit_step t (scope, op) (breaker_step scope op t)"

inductive_cases circuit_stepE: "circuit_step t op t'"

definition circuit_grows :: "'t access_table \<Rightarrow> 't access_table \<Rightarrow> bool" where
  "circuit_grows t t' \<longleftrightarrow>
     (\<forall>s r. t s = Some r \<longrightarrow> (\<exists>r'. t' s = Some r' \<and> ar_generation r \<le> ar_generation r'))"

lemma circuit_growsD:
  "circuit_grows t t' \<Longrightarrow> t s = Some r \<Longrightarrow> \<exists>r'. t' s = Some r' \<and> ar_generation r \<le> ar_generation r'"
  by (simp add: circuit_grows_def)

lemma circuit_grows_upd:
  "(\<And>r. t s = Some r \<Longrightarrow> ar_generation r \<le> ar_generation r') \<Longrightarrow> circuit_grows t (t(s \<mapsto> r'))"
  by (auto simp: circuit_grows_def)

lemma circuit_grows_refl: "circuit_grows t t"
  by (auto simp: circuit_grows_def)

lemma circuit_grows_trans: "circuit_grows t u \<Longrightarrow> circuit_grows u v \<Longrightarrow> circuit_grows t v"
  unfolding circuit_grows_def by (blast intro: order.trans)

lemma breaker_step_grows: "circuit_grows t (breaker_step scope op t)"
  by (cases op) (auto simp: breaker_defs intro!: circuit_grows_upd circuit_grows_refl
      split: option.splits)

lemma circuit_step_inv: "table_inv t \<Longrightarrow> circuit_step t op t' \<Longrightarrow> table_inv t'"
  by (erule circuit_stepE) (simp add: breaker_step_inv)

lemma circuit_step_grows: "circuit_step t op t' \<Longrightarrow> circuit_grows t t'"
  by (erule circuit_stepE) (simp add: breaker_step_grows)

interpretation circuit: monitored circuit_step table_inv circuit_grows
  by unfold_locales
    (erule (1) circuit_step_inv, rule circuit_grows_refl, erule (1) circuit_grows_trans, erule circuit_step_grows)

section \<open>Admissions\<close>

lemma claim_granted:
  assumes "claim_source_access_probe scope now lease t = ((True, retry, half, g), t')"
  shows "\<exists>r'. t' scope = Some r' \<and> g = Some (ar_generation r') \<and> half = (ar_state r' = HalfOpen)
    \<and> (half \<longrightarrow> ar_probe r' = Some lease)
    \<and> (\<forall>r. t scope = Some r \<longrightarrow> may_admit now r \<and> ar_generation r' = ar_generation r + 1)"
  using assms by (auto simp: breaker_defs split: option.splits if_splits)

lemma claim_refused:
  assumes "t scope = Some r" "\<not> may_admit now r"
  shows "claim_source_access_probe scope now lease t = ((False, ar_retry r, False, None), t)"
  using assms by (simp add: claim_source_access_probe_def)

text \<open>Only a failure of the scope, or another admission, raises its generation.\<close>

definition supersedes :: "'t::linorder access_table \<Rightarrow> string \<Rightarrow> 't breaker_op \<Rightarrow> bool" where
  "supersedes t scope op \<longleftrightarrow>
     (case op of
        Admit now lease \<Rightarrow> fst (fst (claim_source_access_probe scope now lease t))
      | Failure _ _ _ _ _ \<Rightarrow> True
      | _ \<Rightarrow> False)"

lemma supersedes_raises:
  assumes "t scope = Some r" "supersedes t scope op"
  shows "\<exists>r'. breaker_step scope op t scope = Some r' \<and> ar_generation r < ar_generation r'"
  using assms by (cases op) (auto simp: supersedes_def breaker_defs split: if_splits)

lemma success_stale:
  "t scope = Some r \<Longrightarrow> ar_generation r \<noteq> g \<Longrightarrow>
    record_source_access_success scope now (Some g) t = (False, t)"
  by (simp add: record_source_access_success_def)

text \<open>C13: Once an admission has been superseded, by a recorded failure of its scope or by a later
  admission, a success reported for it is ignored in every later state, whatever happened in between:
  an old response can neither close the circuit nor clear a cooldown.\<close>

theorem superseded_success_is_ignored:
  assumes "table_inv t" and "claim_source_access_probe scope now lease t = ((True, retry, half, g), t1)"
    and "reaches circuit_step t1 t2" and "supersedes t2 scope op"
    and "reaches circuit_step (breaker_step scope op t2) t3"
  shows "record_source_access_success scope later_now g t3 = (False, t3)"
proof -
  obtain r1 where r1: "t1 scope = Some r1" "g = Some (ar_generation r1)"
    using claim_granted [OF assms(2)] by blast
  have i1: "table_inv t1" using claim_inv [OF assms(1)] assms(2) by (metis snd_conv)
  obtain r2 where r2: "t2 scope = Some r2" "ar_generation r1 \<le> ar_generation r2"
    using circuit_growsD [OF circuit.reaches_grows [OF assms(3) i1] r1(1)] by blast
  obtain r where r: "breaker_step scope op t2 scope = Some r" "ar_generation r2 < ar_generation r"
    using supersedes_raises [OF r2(1) assms(4)] by blast
  have "table_inv (breaker_step scope op t2)"
    using breaker_step_inv [OF circuit.reaches_inv [OF assms(3) i1]] .
  then obtain r3 where r3: "t3 scope = Some r3" "ar_generation r \<le> ar_generation r3"
    using circuit_growsD [OF circuit.reaches_grows [OF assms(5)] r(1)] by blast
  then show ?thesis
    using success_stale [of t3 scope r3] r1(2) r2(2) r(2) by simp
qed

theorem superseded_success_is_ignored_witness:
  "record_source_access_success ''b3'' 5 (Some 0) (breaker_step ''b3'' (Failure 2 9 None True 1)
     ((\<lambda>s. None)(''b3'' \<mapsto> new_row 0 Closed None None (1::nat))))
   = (False, breaker_step ''b3'' (Failure 2 9 None True 1)
     ((\<lambda>s. None)(''b3'' \<mapsto> new_row 0 Closed None None (1::nat))))"
proof -
  have c: "claim_source_access_probe ''b3'' (1::nat) 4 (\<lambda>s. None) =
      ((True, None, False, Some 0), (\<lambda>s. None)(''b3'' \<mapsto> new_row 0 Closed None None (1::nat)))"
    by (simp add: claim_source_access_probe_def new_row_def)
  have "supersedes t ''b3'' (Failure 2 9 None True 1)" for t :: "nat access_table"
    by (simp add: supersedes_def)
  then show ?thesis
    by (intro superseded_success_is_ignored [OF _ c reaches.here _ reaches.here])
      (simp_all add: table_inv_def)
qed


text \<open>Operations that leave the probe of a scope alone: those of other scopes and early requests.\<close>

definition quiet_before :: "string \<Rightarrow> 't::linorder \<Rightarrow> string \<times> 't breaker_op \<Rightarrow> bool" where
  "quiet_before scope lease l \<longleftrightarrow>
     fst l \<noteq> scope \<or> (case snd l of Admit now _ \<Rightarrow> now < lease | _ \<Rightarrow> False)"

fun circuit_run :: "(string \<times> 't::linorder breaker_op) list \<Rightarrow> 't access_table \<Rightarrow> 't access_table" where
  "circuit_run [] t = t"
| "circuit_run ((scope, op) # ops) t = circuit_run ops (breaker_step scope op t)"

lemma half_open_probe_kept:
  assumes "t scope = Some r" "ar_state r = HalfOpen" "ar_probe r = Some lease"
    and "list_all (quiet_before scope lease) ops"
  shows "circuit_run ops t scope = Some r"
  using assms
proof (induction ops arbitrary: t)
  case (Cons l ops)
  obtain s op where l: "l = (s, op)" by (cases l)
  have "breaker_step s op t scope = Some r"
  proof (cases "s = scope")
    case True
    with Cons.prems l show ?thesis
      by (cases op) (auto simp: quiet_before_def claim_refused may_admit_def)
  next
    case False
    then show ?thesis using Cons.prems(1) by (simp add: breaker_step_frame)
  qed
  then show ?case using Cons l by simp
qed simp

text \<open>C14: While a half-open probe holds its lease, nobody else is admitted: from its admission on, and as
  long as no failure, success or release of the scope is recorded, every further request before the lease
  runs out is refused and changes nothing.\<close>

theorem single_half_open_probe:
  assumes "claim_source_access_probe scope now lease t = ((True, retry, True, g), t1)"
    and "list_all (quiet_before scope lease) ops" and "now2 < lease"
  shows "\<exists>r. claim_source_access_probe scope now2 lease2 (circuit_run ops t1) =
    ((False, r, False, None), circuit_run ops t1)"
proof -
  obtain r where r: "t1 scope = Some r" "ar_state r = HalfOpen" "ar_probe r = Some lease"
    using claim_granted [OF assms(1)] by auto
  have "circuit_run ops t1 scope = Some r"
    using half_open_probe_kept [of t1 scope r lease ops] r assms(2) by simp
  then show ?thesis
    using claim_refused [of "circuit_run ops t1" scope r now2] r assms(3) by (auto simp: may_admit_def)
qed


theorem single_half_open_probe_witness:
  "\<exists>r. claim_source_access_probe ''b3'' 14 20 (circuit_run [(''b3'', Admit 12 22), (''focus'', Failure 13 40 None True 1)]
      ([''b3'' \<mapsto> \<lparr>ar_failures = 3, ar_state = HalfOpen, ar_opened = Some 9, ar_retry = None,
          ar_probe = Some 15, ar_updated = 10, ar_generation = 5\<rparr>]))
    = ((False, r, False, None), circuit_run [(''b3'', Admit 12 22), (''focus'', Failure 13 40 None True 1)]
      ([''b3'' \<mapsto> \<lparr>ar_failures = 3, ar_state = HalfOpen, ar_opened = Some (9::nat), ar_retry = None,
          ar_probe = Some 15, ar_updated = 10, ar_generation = 5\<rparr>]))"
proof -
  have "claim_source_access_probe ''b3'' 10 15 [''b3'' \<mapsto> \<lparr>ar_failures = 3, ar_state = Open, ar_opened = Some (9::nat),
      ar_retry = None, ar_probe = None, ar_updated = 7, ar_generation = 4\<rparr>]
    = ((True, None, True, Some 5), [''b3'' \<mapsto> \<lparr>ar_failures = 3, ar_state = HalfOpen, ar_opened = Some 9,
      ar_retry = None, ar_probe = Some 15, ar_updated = 10, ar_generation = 5\<rparr>])"
    by (simp add: claim_source_access_probe_def may_admit_def admit_row_def)
  then show ?thesis by (rule single_half_open_probe) (simp_all add: quiet_before_def)
qed

section \<open>The read-only view\<close>

definition utc_cell :: "string option \<Rightarrow> bool" where
  "utc_cell c \<longleftrightarrow> (case c of None \<Rightarrow> True | Some s \<Rightarrow> (\<exists>d. is_utc d \<and> s = isoformat d))"

definition utc_row :: "string access_row \<Rightarrow> bool" where
  "utc_row r \<longleftrightarrow> utc_cell (ar_opened r) \<and> utc_cell (ar_retry r) \<and> utc_cell (ar_probe r)"

lemma parse_utc_cell:
  assumes "utc_cell c" "is_utc now"
  shows "\<exists>p. parse_timestamp (view_text c) = Inr p \<and> (in_future p now \<longleftrightarrow> \<not> passed c (isoformat now))"
proof (cases c)
  case None
  then show ?thesis by (simp add: view_text_def parse_timestamp_def)
next
  case (Some s)
  then obtain d where "is_utc d" "s = isoformat d" using assms(1) by (auto simp: utc_cell_def)
  then show ?thesis
    using Some assms(2) by (simp add: view_text_def parse_timestamp_isoformat times.enc_le not_le)
qed

lemma in_future_latest2: "in_future (latest [a, b]) now \<longleftrightarrow> in_future a now \<or> in_future b now"
  by (cases a; cases b) (auto simp: in_future_latest_iff simp del: latest.simps)

text \<open>The read-only eligibility of a provider and the admission agree: a provider the scheduler calls
  eligible is admitted at that instant, and unless a probe is out an admissible provider is called
  eligible, when the stored cells are UTC timestamps; the view never raises on them.\<close>

theorem peek_agrees_with_admission:
  assumes "is_utc now" and "utc_row r" and "t scope = Some r"
  shows "\<exists>ok at why. provider_eligibility (Some (access_view_of r)) now = Inr (ok, at, why)
    \<and> (ok \<longrightarrow> fst (fst (claim_source_access_probe scope (isoformat now) lease t)))
    \<and> (ar_state r \<noteq> HalfOpen \<longrightarrow> fst (fst (claim_source_access_probe scope (isoformat now) lease t)) \<longrightarrow> ok)"
proof -
  have c: "utc_cell (ar_opened r)" "utc_cell (ar_retry r)" "utc_cell (ar_probe r)"
    using assms(2) by (simp_all add: utc_row_def)
  obtain p where p: "parse_timestamp (view_text (ar_opened r)) = Inr p"
    "in_future p now \<longleftrightarrow> \<not> passed (ar_opened r) (isoformat now)" using parse_utc_cell [OF c(1) assms(1)] by blast
  obtain q where q: "parse_timestamp (view_text (ar_retry r)) = Inr q"
    "in_future q now \<longleftrightarrow> \<not> passed (ar_retry r) (isoformat now)" using parse_utc_cell [OF c(2) assms(1)] by blast
  obtain l where l: "parse_timestamp (view_text (ar_probe r)) = Inr l"
    "in_future l now \<longleftrightarrow> \<not> passed (ar_probe r) (isoformat now)" using parse_utc_cell [OF c(3) assms(1)] by blast
  have a: "fst (fst (claim_source_access_probe scope (isoformat now) lease t)) = may_admit (isoformat now) r"
    by (simp add: claim_source_access_probe_def assms(3) Let_def)
  show ?thesis
    by (cases "ar_state r")
      (auto simp: a provider_eligibility_def access_view_of_def p q l Let_def in_future_latest2 may_admit_def
        simp del: latest.simps)
qed

theorem peek_agrees_with_admission_witness:
  "\<exists>ok at why. provider_eligibility (Some (access_view_of \<lparr>ar_failures = 3, ar_state = Open, ar_opened = Some ''2024-05-02T10:00:00+00:00'', ar_retry = None,
       ar_probe = None, ar_updated = [], ar_generation = 4\<rparr>)) (DateTime (Date 2024 5 2) 11 0 0 0 (Some 0)) = Inr (ok, at, why)
    \<and> ok"
proof -
  let ?r = "\<lparr>ar_failures = 3, ar_state = Open, ar_opened = Some ''2024-05-02T10:00:00+00:00'', ar_retry = None,
       ar_probe = None, ar_updated = [], ar_generation = 4\<rparr>"
  let ?n = "DateTime (Date 2024 5 2) 11 0 0 0 (Some 0)" and ?d = "DateTime (Date 2024 5 2) 10 0 0 0 (Some 0)"
  have d: "is_utc ?d" "isoformat ?d = ''2024-05-02T10:00:00+00:00''" by code_simp+
  have n: "is_utc ?n" by code_simp
  have "utc_row ?r" using d by (auto simp: utc_row_def utc_cell_def)
  from peek_agrees_with_admission [OF n this, of "[''b3'' \<mapsto> ?r]" "''b3''" "[]"]
  obtain ok at why where "provider_eligibility (Some (access_view_of ?r)) ?n = Inr (ok, at, why)"
    and "fst (fst (claim_source_access_probe ''b3'' (isoformat ?n) [] [''b3'' \<mapsto> ?r])) \<longrightarrow> ok" by auto
  moreover have "fst (fst (claim_source_access_probe ''b3'' (isoformat ?n) [] [''b3'' \<mapsto> ?r]))" by code_simp
  ultimately show ?thesis by blast
qed

section \<open>Failures\<close>



end
