(* ===== verification/PyValues.thy ===== *)
theory PyValues
  imports SgsModels TextOrder Complex_Main
begin

text \<open>
  Python values the later components share: dictionaries with text keys (association lists in insertion
  order), truth of a value, text classification, and floats as rationals with the three special values.
  JSON numbers are integers in this model.
\<close>

section \<open>Dictionaries\<close>

type_synonym dict = "(string \<times> json) list"

fun dict_set :: "string \<Rightarrow> 'v \<Rightarrow> (string \<times> 'v) list \<Rightarrow> (string \<times> 'v) list" where
  "dict_set k v [] = [(k, v)]"
| "dict_set k v ((k', v') # d) = (if k' = k then (k, v) # d else (k', v') # dict_set k v d)"

lemma map_of_dict_set [simp]: "map_of (dict_set k v d) = (map_of d)(k \<mapsto> v)"
  by (induction k v d rule: dict_set.induct) auto

lemma dict_set_keys: "fst ` set (dict_set k v d) = insert k (fst ` set d)"
  by (induction k v d rule: dict_set.induct) auto

lemma distinct_dict_set: "distinct (map fst d) \<Longrightarrow> distinct (map fst (dict_set k v d))"
  by (induction k v d rule: dict_set.induct) (auto simp add: dict_set_keys)

fun truthy :: "json \<Rightarrow> bool" where
  "truthy JNull = False"
| "truthy (JBool b) = b"
| "truthy (JNum n) = (n \<noteq> 0)"
| "truthy (JFloat x) = (fst x \<noteq> 0)"
| "truthy (JStr s) = (s \<noteq> [])"
| "truthy (JArr xs) = (xs \<noteq> [])"
| "truthy (JObj d) = (d \<noteq> [])"

definition truthy_opt :: "json option \<Rightarrow> bool" where
  "truthy_opt v = (case v of None \<Rightarrow> False | Some x \<Rightarrow> truthy x)"

lemma truthy_opt_simps [simp]: "truthy_opt None = False" "truthy_opt (Some v) = truthy v"
  by (simp_all add: truthy_opt_def)

fun text_of :: "json option \<Rightarrow> string option" where
  "text_of (Some (JStr s)) = Some s"
| "text_of _ = None"

fun int_of_json :: "json option \<Rightarrow> int option" where
  "int_of_json (Some (JNum n)) = Some n"
| "int_of_json _ = None"

section \<open>Characters\<close>

definition code_in :: "nat \<Rightarrow> nat \<Rightarrow> char \<Rightarrow> bool" where
  "code_in a b c \<longleftrightarrow> a \<le> of_char c \<and> (of_char c :: nat) \<le> b"

definition is_ascii :: "char \<Rightarrow> bool" where
  "is_ascii c \<longleftrightarrow> (of_char c :: nat) < 128"

definition is_digit_char :: "char \<Rightarrow> bool" where
  "is_digit_char c \<longleftrightarrow> code_in 48 57 c"

definition is_alnum_char :: "char \<Rightarrow> bool" where
  "is_alnum_char c \<longleftrightarrow> code_in 48 57 c \<or> code_in 65 90 c \<or> code_in 97 122 c"

definition is_space_char :: "char \<Rightarrow> bool" where
  "is_space_char c \<longleftrightarrow> code_in 9 13 c \<or> code_in 28 32 c"

definition lower_char :: "char \<Rightarrow> char" where
  "lower_char c = (if code_in 65 90 c then char_of ((of_char c :: nat) + 32) else c)"

definition lower :: "string \<Rightarrow> string" where
  "lower s = map lower_char s"

definition strip :: "string \<Rightarrow> string" where
  "strip s = rev (dropWhile is_space_char (rev (dropWhile is_space_char s)))"

text \<open>\<open>str.isascii() and str.isalnum()\<close>\<close>

definition ascii_alnum :: "string \<Rightarrow> bool" where
  "ascii_alnum s \<longleftrightarrow> s \<noteq> [] \<and> list_all is_alnum_char s"

section \<open>Printing integers\<close>

function show_nat :: "nat \<Rightarrow> string" where
  "show_nat n = (if n < 10 then [digit_char (int n)] else show_nat (n div 10) @ [digit_char (int (n mod 10))])"
  by pat_completeness auto

termination
  by (relation "measure id") auto

definition show_int :: "int \<Rightarrow> string" where
  "show_int n = (if n < 0 then CHR ''-'' # show_nat (nat (- n)) else show_nat (nat n))"

section \<open>Floats\<close>

datatype pyfloat = Fin rat | PosInf | NegInf | NaN

text \<open>The first magnitude that rounds to infinity in binary64.\<close>

definition double_overflow :: rat where
  "double_overflow = 2 ^ 1024 - 2 ^ 970"

definition finite_float :: "rat \<Rightarrow> pyfloat" where
  "finite_float x =
     (if double_overflow \<le> x then PosInf else if x \<le> - double_overflow then NegInf else Fin x)"

definition pow10 :: "int \<Rightarrow> rat" where
  "pow10 e = (if 0 \<le> e then 10 ^ nat e else 1 / 10 ^ nat (- e))"

text \<open>\<open>[+-]digits\<close>, at least one digit\<close>

definition parse_signed :: "string \<Rightarrow> int option" where
  "parse_signed s =
     (case s of
        [] \<Rightarrow> None
      | c # r \<Rightarrow> if c = CHR ''-'' then map_option uminus (parse_num r)
                 else if c = CHR ''+'' then parse_num r else parse_num s)"

definition parse_mantissa :: "string \<Rightarrow> rat option" where
  "parse_mantissa s =
     (let whole = takeWhile is_digit_char s; rest = dropWhile is_digit_char s
      in case rest of
           [] \<Rightarrow> map_option rat_of_int (parse_num whole)
         | c # decimals \<Rightarrow>
             if c = CHR ''.'' \<and> list_all is_digit_char decimals \<and> (whole \<noteq> [] \<or> decimals \<noteq> [])
             then map_option (\<lambda>n. rat_of_int n * pow10 (- int (length decimals))) (parse_num (whole @ decimals))
             else None)"

definition parse_unsigned_float :: "string \<Rightarrow> pyfloat option" where
  "parse_unsigned_float s =
     (if lower s \<in> {''inf'', ''infinity''} then Some PosInf
      else if lower s = ''nan'' then Some NaN
      else (let m = takeWhile (\<lambda>c. lower_char c \<noteq> CHR ''e'') s; rest = dropWhile (\<lambda>c. lower_char c \<noteq> CHR ''e'') s
            in case rest of
                 [] \<Rightarrow> map_option finite_float (parse_mantissa m)
               | _ # e \<Rightarrow>
                   (case (parse_mantissa m, parse_signed e) of
                      (Some x, Some k) \<Rightarrow> Some (finite_float (x * pow10 k)) | _ \<Rightarrow> None)))"

fun negate_float :: "pyfloat \<Rightarrow> pyfloat" where
  "negate_float (Fin x) = Fin (- x)"
| "negate_float PosInf = NegInf"
| "negate_float NegInf = PosInf"
| "negate_float NaN = NaN"

text \<open>\<open>float(text)\<close>, without digit grouping by underscores.\<close>

definition parse_float :: "string \<Rightarrow> pyfloat option" where
  "parse_float t =
     (case strip t of
        [] \<Rightarrow> None
      | c # r \<Rightarrow> if c = CHR ''-'' then map_option negate_float (parse_unsigned_float r)
                 else if c = CHR ''+'' then parse_unsigned_float r
                 else parse_unsigned_float (c # r))"

text \<open>Rounding to the nearest integer, ties to even, as \<open>round\<close> and \<open>timedelta\<close> do.\<close>

definition round_even :: "rat \<Rightarrow> int" where
  "round_even x =
     (let f = \<lfloor>x\<rfloor>; d = x - rat_of_int f
      in if d < 1 / 2 then f else if 1 / 2 < d then f + 1 else if even f then f else f + 1)"

lemma round_even_floor: "\<lfloor>x\<rfloor> \<le> round_even x"
  by (simp add: round_even_def Let_def)

lemma round_even_ge: "rat_of_int n \<le> x \<Longrightarrow> n \<le> round_even x"
  using round_even_floor [of x] by (simp add: le_floor_iff [symmetric])

lemma round_even_near: "\<bar>rat_of_int (round_even x) - x\<bar> \<le> 1 / 2"
  unfolding round_even_def Let_def using floor_correct [of x] by (auto simp: abs_le_iff)

end
