(* ===== verification/IngestionPolicy.thy ===== *)
theory IngestionPolicy
  imports PyValues "HOL-Library.Multiset"
begin

text \<open>
  Failure classification and the bounded retry budget of a source acquisition
  (\<open>ingestion_policy.py\<close>, \<open>provider_hosts.py\<close>). Seconds of the monotonic clock are rationals: the
  rounding of binary floats is not modelled. A method call under the budget's lock is one atomic
  function; each reading of the clock is an argument.
\<close>

datatype error_category =
    NETWORK_TIMEOUT | NETWORK_RESET | TEMPORARY_SERVER_ERROR | RATE_LIMITED | ENVELOPE_ERROR
  | INVALID_SCHEMA | SEMANTIC_CONFLICT | INCOMPLETE_COVERAGE | PERSISTENCE_FAILURE
  | FRESHNESS_FAILURE | LOGGING_FAILURE | CONFIGURATION_ERROR | AUTHENTICATION_ERROR
  | FORBIDDEN_HOST | INTERNAL_ERROR | DEFERRED | CIRCUIT_OPEN

fun category_text :: "error_category \<Rightarrow> string" where
  "category_text NETWORK_TIMEOUT = ''network_timeout''"
| "category_text NETWORK_RESET = ''network_reset''"
| "category_text TEMPORARY_SERVER_ERROR = ''temporary_server_error''"
| "category_text RATE_LIMITED = ''rate_limited''"
| "category_text ENVELOPE_ERROR = ''envelope_error''"
| "category_text INVALID_SCHEMA = ''invalid_schema''"
| "category_text SEMANTIC_CONFLICT = ''semantic_conflict''"
| "category_text INCOMPLETE_COVERAGE = ''incomplete_coverage''"
| "category_text PERSISTENCE_FAILURE = ''persistence_failure''"
| "category_text FRESHNESS_FAILURE = ''freshness_failure''"
| "category_text LOGGING_FAILURE = ''logging_failure''"
| "category_text CONFIGURATION_ERROR = ''configuration_error''"
| "category_text AUTHENTICATION_ERROR = ''authentication_error''"
| "category_text FORBIDDEN_HOST = ''forbidden_host''"
| "category_text INTERNAL_ERROR = ''internal_error''"
| "category_text DEFERRED = ''deferred''"
| "category_text CIRCUIT_OPEN = ''circuit_open''"

section \<open>Exceptions and their category\<close>

text \<open>
  What \<open>classify_exception\<close> inspects of an exception: its type name, the first of the tested classes it
  is an instance of, \<open>stage\<close>, \<open>__cause__\<close>, \<open>error_category\<close> and \<open>category\<close>; and what the task boundary
  reads of it: \<open>committed_count\<close>, \<open>retry_not_before\<close> and the code of an invalid SGS payload.
\<close>

datatype exn_class =
    IsRetryPolicy | IsHostRejected | IsDecoding | IsHttpStatus int | IsTimeout | IsNetwork | IsOther

datatype exn =
  Exn (exn_type: string) (exn_class: exn_class) (exn_stage: "string option") (exn_cause: "exn option")
      (exn_explicit: "error_category option") (exn_category: "error_category option")
      (exn_committed: "int option") (exn_retry: "datetime option") (exn_sgs_code: "string option")

text \<open>The classes of the module, as raised by it.\<close>

definition RetryBudgetExceeded :: exn where
  "RetryBudgetExceeded = Exn ''RetryBudgetExceeded'' IsRetryPolicy None None None (Some DEFERRED) None None None"

definition RetryDeferred :: "datetime \<Rightarrow> error_category \<Rightarrow> exn" where
  "RetryDeferred t cause =
     Exn ''RetryDeferred'' IsRetryPolicy None None (Some cause) (Some DEFERRED) None (Some t) None"

definition CircuitOpen :: "datetime \<Rightarrow> exn" where
  "CircuitOpen t = Exn ''CircuitOpen'' IsRetryPolicy None None None (Some CIRCUIT_OPEN) None (Some t) None"

definition ValueErr :: exn where
  "ValueErr = Exn ''ValueError'' IsOther None None None None None None None"

definition RuntimeErr :: exn where
  "RuntimeErr = Exn ''RuntimeError'' IsOther None None None None None None None"

definition http_status_category :: "int \<Rightarrow> error_category" where
  "http_status_category status =
     (if status = 429 then RATE_LIMITED
      else if status \<in> {500, 502, 503, 504} then TEMPORARY_SERVER_ERROR
      else if status = 401 then AUTHENTICATION_ERROR
      else CONFIGURATION_ERROR)"

definition stage_category :: "string option \<Rightarrow> error_category" where
  "stage_category stage =
     (if stage = Some ''validation'' then INVALID_SCHEMA
      else if stage = Some ''persistence'' then PERSISTENCE_FAILURE
      else if stage = Some ''freshness'' then FRESHNESS_FAILURE
      else if stage = Some ''logging'' then LOGGING_FAILURE
      else if stage = Some ''network'' then NETWORK_RESET
      else INTERNAL_ERROR)"

definition own_category :: "exn \<Rightarrow> error_category" where
  "own_category e =
     (case exn_explicit e of Some c \<Rightarrow> c
      | None \<Rightarrow> (case exn_category e of Some c \<Rightarrow> c
        | None \<Rightarrow> (case exn_class e of
              IsRetryPolicy \<Rightarrow> INTERNAL_ERROR
            | IsHostRejected \<Rightarrow> FORBIDDEN_HOST
            | IsDecoding \<Rightarrow> ENVELOPE_ERROR
            | IsHttpStatus status \<Rightarrow> http_status_category status
            | IsTimeout \<Rightarrow> NETWORK_TIMEOUT
            | IsNetwork \<Rightarrow> NETWORK_RESET
            | IsOther \<Rightarrow> stage_category (exn_stage e))))"

fun classify_exception :: "exn \<Rightarrow> error_category" where
  "classify_exception (Exn ty cl st (Some cause) ex ca co re sg) =
     (if st = Some ''network'' \<and> classify_exception cause \<noteq> INTERNAL_ERROR
      then classify_exception cause
      else own_category (Exn ty cl st (Some cause) ex ca co re sg))"
| "classify_exception (Exn ty cl st None ex ca co re sg) = own_category (Exn ty cl st None ex ca co re sg)"

section \<open>Provider hosts\<close>

definition ALLOWED_PROVIDER_HOSTS :: "string list" where
  "ALLOWED_PROVIDER_HOSTS =
     [''api.bcb.gov.br'', ''olinda.bcb.gov.br'', ''s3-data-prd-use1-precos.s3.us-east-1.amazonaws.com'',
      ''www.b3.com.br'', ''www.tesourotransparente.gov.br'', ''apisidra.ibge.gov.br'',
      ''servicodados.ibge.gov.br'']"

text \<open>\<open>urlparse\<close> is the argument: the scheme and the host name of a URL.\<close>

definition require_allowed_provider_url ::
    "(string \<Rightarrow> string \<times> string option) \<Rightarrow> string \<Rightarrow> exn + string" where
  "require_allowed_provider_url urlparse url =
     (let (scheme, host) = urlparse url; hostname = (case host of None \<Rightarrow> [] | Some h \<Rightarrow> h)
      in if scheme \<noteq> ''https'' \<or> hostname \<notin> set ALLOWED_PROVIDER_HOSTS
         then Inl (Exn ''ProviderHostRejectedError'' IsHostRejected None None None None None None None)
         else Inr url)"

section \<open>Profiles\<close>

record request_profile =
  rp_source :: string
  rp_max_requests :: int
  rp_deadline :: rat
  rp_timeout :: rat

definition profile :: "string \<Rightarrow> int \<Rightarrow> rat \<Rightarrow> rat \<Rightarrow> request_profile" where
  "profile s m d t = \<lparr>rp_source = s, rp_max_requests = m, rp_deadline = d, rp_timeout = t\<rparr>"

definition RETRY_PROFILES :: "(string \<times> request_profile) list" where
  "RETRY_PROFILES =
     [(''bcb_sgs'', profile ''bcb_sgs'' 3 20 20), (''focus'', profile ''focus'' 3 45 30),
      (''ibge_sidra'', profile ''ibge_sidra'' 3 90 30), (''b3'', profile ''b3'' 64 240 30),
      (''anbima'', profile ''anbima'' 3 120 120), (''tesouro'', profile ''tesouro'' 2 90 90)]"

text \<open>A qualifier that is an \<open>int\<close> and not a \<open>bool\<close>, else the default.\<close>

datatype qualifier = QText string | QInt int | QOther

definition int_qualifier :: "qualifier option \<Rightarrow> int \<Rightarrow> int" where
  "int_qualifier q dflt = (case q of Some (QInt n) \<Rightarrow> n | _ \<Rightarrow> dflt)"

definition retry_profile :: "string \<Rightarrow> (string \<rightharpoonup> qualifier) \<Rightarrow> py_error + request_profile" where
  "retry_profile source qs =
     (case map_of RETRY_PROFILES source of
        None \<Rightarrow> Inl KeyError
      | Some p \<Rightarrow>
          if source = ''bcb_sgs'' then
            (let annual = (qs ''window_policy'' = Some (QText ''calendar-year-v1''));
                 count = int_qualifier (qs ''window_count'') 1
             in Inr (profile source (count * 3) (if annual \<and> count = 1 then 90 else 220) (if annual then 20 else 30)))
          else if source = ''b3'' then
            (let days = int_qualifier (qs ''days'') 30
             in Inr (profile source (max 2 ((days + 2) * 2)) 240 30))
          else Inr p)"

section \<open>The retry budget\<close>

text \<open>
  One budget object of \<open>RetryBudget\<close>. The dictionaries of counts are multisets, and the two context
  variables hold the unit and the request group of the current context.
\<close>

record trace_entry =
  tr_sequence :: int
  tr_attempt :: int
  tr_hop :: int
  tr_route :: string
  tr_host :: string
  tr_status :: "int option"
  tr_started :: string
  tr_finished :: string
  tr_bytes :: "int option"
  tr_kind :: string
  tr_retry_after :: "string option"
  tr_deferred :: "string option"
  tr_diagnostics :: "dict option"

record budget =
  bu_profile :: request_profile
  bu_started :: rat
  bu_requests :: nat
  bu_retries :: nat
  bu_retry_at :: "datetime option"
  bu_limit :: int
  bu_gate_checked :: bool
  bu_half_open :: bool
  bu_unit_limits :: "string \<rightharpoonup> int"
  bu_unit_deadlines :: "string \<rightharpoonup> rat option"
  bu_unit_started :: "string \<rightharpoonup> rat"
  bu_unit_requests :: "string multiset"
  bu_group_requests :: "string multiset"
  bu_group :: "string option"
  bu_unit :: "string option"
  bu_trace :: "trace_entry list"
  bu_trace_sequence :: int

definition new_budget :: "request_profile \<Rightarrow> rat \<Rightarrow> budget" where
  "new_budget p now =
     \<lparr>bu_profile = p, bu_started = now, bu_requests = 0, bu_retries = 0, bu_retry_at = None,
      bu_limit = rp_max_requests p, bu_gate_checked = False, bu_half_open = False,
      bu_unit_limits = Map.empty, bu_unit_deadlines = Map.empty, bu_unit_started = Map.empty,
      bu_unit_requests = {#}, bu_group_requests = {#}, bu_group = None, bu_unit = None,
      bu_trace = [], bu_trace_sequence = 0\<rparr>"

definition deadline_at :: "budget \<Rightarrow> rat" where
  "deadline_at b = bu_started b + rp_deadline (bu_profile b)"

definition remaining_seconds :: "budget \<Rightarrow> rat \<Rightarrow> rat" where
  "remaining_seconds b now = max 0 (deadline_at b - now)"

definition restrict_to_probe :: "budget \<Rightarrow> budget" where
  "restrict_to_probe b = b\<lparr>bu_half_open := True\<rparr>"

text \<open>The checks of a unit: \<open>now\<close> is the second clock reading, taken for a unit with a deadline.\<close>

definition unit_remaining :: "budget \<Rightarrow> string \<Rightarrow> rat \<Rightarrow> rat \<Rightarrow> exn + rat" where
  "unit_remaining b u remaining now =
     (case bu_unit_limits b u of
        None \<Rightarrow> Inl RetryBudgetExceeded
      | Some limit \<Rightarrow>
          if limit \<le> int (count (bu_unit_requests b) u) then Inl RetryBudgetExceeded
          else (case bu_unit_deadlines b u of
                  Some (Some seconds) \<Rightarrow>
                    (case bu_unit_started b u of
                       None \<Rightarrow> Inl (Exn ''KeyError'' IsOther None None None None None None None)
                     | Some started \<Rightarrow>
                         (let r = min remaining (started + seconds - now)
                          in if r \<le> 0 then Inl RetryBudgetExceeded else Inr r))
                | _ \<Rightarrow> Inr remaining))"

text \<open>\<open>x or y\<close> on a text that may be absent.\<close>

definition or_text :: "string option \<Rightarrow> string \<Rightarrow> string" where
  "or_text x y = (case x of None \<Rightarrow> y | Some s \<Rightarrow> if s = [] then y else s)"

definition counted_request :: "bool \<Rightarrow> bool \<Rightarrow> budget \<Rightarrow> budget" where
  "counted_request retry redirect b =
     (let group = or_text (bu_group b) (or_text (bu_unit b) ''root'')
      in b\<lparr>bu_requests := bu_requests b + 1,
           bu_group_requests := add_mset group (bu_group_requests b),
           bu_retries := bu_retries b + (if retry then 1 else 0),
           bu_unit_requests := (case bu_unit b of
              Some u \<Rightarrow> if redirect then bu_unit_requests b else add_mset u (bu_unit_requests b)
            | None \<Rightarrow> bu_unit_requests b)\<rparr>)"

text \<open>\<open>gate\<close> is the request gate: absent, or its outcome if it is called.\<close>

definition pass_gate :: "(exn + unit) option \<Rightarrow> budget \<Rightarrow> exn + budget" where
  "pass_gate gate b =
     (case gate of
        Some outcome \<Rightarrow>
          if bu_gate_checked b then Inr b
          else bindE outcome (\<lambda>_. Inr (b\<lparr>bu_gate_checked := True\<rparr>))
      | None \<Rightarrow> Inr b)"

definition reserve_request ::
    "(exn + unit) option \<Rightarrow> rat \<Rightarrow> rat \<Rightarrow> bool \<Rightarrow> bool \<Rightarrow> budget \<Rightarrow> exn + rat \<times> budget" where
  "reserve_request gate now now2 retry redirect b =
     (let remaining = remaining_seconds b now
      in if remaining \<le> 0 then Inl RetryBudgetExceeded
         else if bu_limit b \<le> int (bu_requests b) then Inl RetryBudgetExceeded
         else bindE (case bu_unit b of
                       Some u \<Rightarrow> if redirect then Inr remaining else unit_remaining b u remaining now2
                     | None \<Rightarrow> Inr remaining) (\<lambda>r.
              bindE (pass_gate gate b) (\<lambda>b1. Inr (r, counted_request retry redirect b1))))"

text \<open>A context variable's token is the value it replaces.\<close>

definition enter_request_group :: "string \<Rightarrow> budget \<Rightarrow> exn + string option \<times> budget" where
  "enter_request_group g b = (if g = [] then Inl ValueErr else Inr (bu_group b, b\<lparr>bu_group := Some g\<rparr>))"

definition leave_request_group :: "string option \<Rightarrow> budget \<Rightarrow> budget" where
  "leave_request_group token b = b\<lparr>bu_group := token\<rparr>"

definition set_request_limit :: "int \<Rightarrow> budget \<Rightarrow> exn + budget" where
  "set_request_limit planned b =
     (if bu_requests b \<noteq> 0 then Inl RuntimeErr
      else if \<not> (0 \<le> planned \<and> planned \<le> rp_max_requests (bu_profile b)) then Inl ValueErr
      else Inr (b\<lparr>bu_limit := planned\<rparr>))"

definition set_unit_limit :: "string \<Rightarrow> int \<Rightarrow> rat option \<Rightarrow> budget \<Rightarrow> exn + budget" where
  "set_unit_limit u planned seconds b =
     (if u = [] \<or> planned < 1 then Inl ValueErr
      else if (case seconds of None \<Rightarrow> False | Some s \<Rightarrow> s \<le> 0) then Inl ValueErr
      else case bu_unit_limits b u of
             Some limit \<Rightarrow>
               if limit \<noteq> planned \<or> bu_unit_deadlines b u \<noteq> Some seconds then Inl ValueErr else Inr b
           | None \<Rightarrow> Inr (b\<lparr>bu_unit_limits := (bu_unit_limits b)(u \<mapsto> planned),
                              bu_unit_deadlines := (bu_unit_deadlines b)(u \<mapsto> seconds)\<rparr>))"

definition enter_unit :: "string \<Rightarrow> rat \<Rightarrow> budget \<Rightarrow> string option \<times> budget" where
  "enter_unit u now b =
     (bu_unit b,
      b\<lparr>bu_unit_started := (case bu_unit_started b u of
           None \<Rightarrow> (bu_unit_started b)(u \<mapsto> now) | Some _ \<Rightarrow> bu_unit_started b),
        bu_unit := Some u\<rparr>)"

definition leave_unit :: "string option \<Rightarrow> budget \<Rightarrow> budget" where
  "leave_unit token b = b\<lparr>bu_unit := token\<rparr>"

definition budget_defer :: "datetime \<Rightarrow> budget \<Rightarrow> exn + exn \<times> budget" where
  "budget_defer retry_at b =
     (case astimezone_utc retry_at of
        Inl _ \<Rightarrow> Inl (Exn ''OverflowError'' IsOther None None None None None None None)
      | Inr t \<Rightarrow>
          (let u = (case bu_retry_at b of None \<Rightarrow> t | Some old \<Rightarrow> later t old)
           in Inr (RetryDeferred u DEFERRED, b\<lparr>bu_retry_at := Some u\<rparr>)))"

section \<open>The HTTP trace\<close>

text \<open>
  \<open>timestamp\<close>: \<open>zone\<close> is the offset of the host, which \<open>astimezone\<close> assumes for a naive datetime. The
  sanitizer of \<open>source_diagnostics\<close> is the argument \<open>bounded\<close>.
\<close>

definition trace_timestamp :: "int \<Rightarrow> string \<Rightarrow> string" where
  "trace_timestamp zone v =
     (case fromisoformat v of
        Inl _ \<Rightarrow> []
      | Inr d \<Rightarrow>
          (case from_instant (instant d - (if offset d = None then zone * 1000000 else 0)) of
             Inl _ \<Rightarrow> [] | Inr u \<Rightarrow> take 40 (isoformat u)))"

definition safe_route :: "string \<Rightarrow> string" where
  "safe_route r = (if ascii_alnum (filter (\<lambda>c. c \<noteq> CHR ''_'') r) \<and> list_all is_ascii r then take 64 r else ''unknown_route'')"

definition safe_host :: "string \<Rightarrow> string" where
  "safe_host h = (if list_all (\<lambda>c. is_alnum_char c \<or> c \<in> set ''.-'') h then take 253 (lower h) else ''unknown_host'')"

definition MAX_TRACE :: nat where
  "MAX_TRACE = 256"

text \<open>The arguments of one call; integers that may be absent are options.\<close>

record trace_call =
  tc_route :: string
  tc_host :: string
  tc_attempt :: int
  tc_hop :: int
  tc_status :: "int option"
  tc_started :: string
  tc_finished :: string
  tc_bytes :: "int option"
  tc_kind :: string
  tc_retry_after :: "string option"
  tc_deferred :: "string option"
  tc_diagnostic :: "dict option"

definition keep_if :: "('a \<Rightarrow> bool) \<Rightarrow> 'a option \<Rightarrow> 'a option" where
  "keep_if P x = (case x of None \<Rightarrow> None | Some v \<Rightarrow> if P v then Some v else None)"

definition trace_entry_of :: "int \<Rightarrow> (dict \<Rightarrow> dict) \<Rightarrow> trace_call \<Rightarrow> int \<Rightarrow> trace_entry" where
  "trace_entry_of zone bounded c n =
     \<lparr>tr_sequence = n, tr_attempt = max 1 (tc_attempt c), tr_hop = max 1 (tc_hop c),
      tr_route = safe_route (tc_route c), tr_host = safe_host (tc_host c),
      tr_status = keep_if (\<lambda>s. 100 \<le> s \<and> s \<le> 599) (tc_status c),
      tr_started = trace_timestamp zone (tc_started c), tr_finished = trace_timestamp zone (tc_finished c),
      tr_bytes = keep_if (\<lambda>n. 0 \<le> n) (tc_bytes c),
      tr_kind = (if tc_kind c \<in> {''initial'', ''redirect'', ''retry_initial'', ''failed'', ''retry_initial_redirect''}
                 then tc_kind c else ''unknown''),
      tr_retry_after = (case tc_retry_after c of
          None \<Rightarrow> None
        | Some v \<Rightarrow> if v = [] then None else keep_if (\<lambda>t. t \<noteq> []) (Some (trace_timestamp zone v))),
      tr_deferred = keep_if (\<lambda>r. r \<in> {''retry_after'', ''retry_budget'', ''deadline''}) (tc_deferred c),
      tr_diagnostics = map_option bounded (tc_diagnostic c)\<rparr>"

definition record_http_trace ::
    "int \<Rightarrow> (dict \<Rightarrow> dict) \<Rightarrow> trace_call \<Rightarrow> budget \<Rightarrow> int option \<times> budget" where
  "record_http_trace zone bounded c b =
     (if length (bu_trace b) < MAX_TRACE then
        (let n = bu_trace_sequence b + 1
         in (Some n, b\<lparr>bu_trace_sequence := n, bu_trace := bu_trace b @ [trace_entry_of zone bounded c n]\<rparr>))
      else (None, b))"

definition merged_diagnostics :: "dict option \<Rightarrow> dict \<Rightarrow> dict" where
  "merged_diagnostics previous safe =
     (case previous of
        None \<Rightarrow> safe
      | Some p \<Rightarrow>
          (let s1 = (case (map_of safe ''duration_ms'', map_of p ''duration_ms'') of
                       (None, Some (JNum n)) \<Rightarrow> dict_set ''duration_ms'' (JNum n) safe | _ \<Rightarrow> safe)
           in (case map_of p ''request_context'' of
                 Some (JObj c) \<Rightarrow> dict_set ''request_context'' (JObj c) s1 | _ \<Rightarrow> s1)))"

fun annotate_first :: "int \<Rightarrow> dict \<Rightarrow> trace_entry list \<Rightarrow> trace_entry list" where
  "annotate_first n safe [] = []"
| "annotate_first n safe (e # es) =
     (if tr_sequence e = n then e\<lparr>tr_diagnostics := Some (merged_diagnostics (tr_diagnostics e) safe)\<rparr> # es
      else e # annotate_first n safe es)"

definition annotate_http_trace :: "(dict \<Rightarrow> dict) \<Rightarrow> int option \<Rightarrow> dict \<Rightarrow> budget \<Rightarrow> budget" where
  "annotate_http_trace bounded n diagnostic b =
     (case n of None \<Rightarrow> b
      | Some k \<Rightarrow> b\<lparr>bu_trace := annotate_first k (bounded diagnostic) (bu_trace b)\<rparr>)"

section \<open>Provider advice\<close>

definition datetime_max :: datetime where
  "datetime_max = DateTime (Date 9999 12 31) 23 59 59 999999 (Some 0)"

text \<open>
  \<open>current + timedelta(seconds=x)\<close>, saturating: both overflows are caught by the code. A NaN is not
  caught: \<open>timedelta\<close> raises a \<open>ValueError\<close>. \<open>current\<close> is a UTC datetime.
\<close>

definition after_seconds :: "datetime \<Rightarrow> pyfloat \<Rightarrow> exn + datetime" where
  "after_seconds current x =
     (case x of
        NaN \<Rightarrow> Inl ValueErr
      | Fin s \<Rightarrow> (case from_instant (instant current + round_even (s * 1000000)) of
                    Inl _ \<Rightarrow> Inr datetime_max | Inr d \<Rightarrow> Inr d)
      | _ \<Rightarrow> Inr datetime_max)"

fun float_le_zero :: "pyfloat \<Rightarrow> bool" where
  "float_le_zero (Fin x) = (x \<le> 0)"
| "float_le_zero NegInf = True"
| "float_le_zero _ = False"

text \<open>\<open>http_date\<close> is \<open>parsedate_to_datetime\<close>, None where it raises one of the caught errors.\<close>

definition retry_after ::
    "(string \<Rightarrow> datetime option) \<Rightarrow> string option \<Rightarrow> datetime \<Rightarrow> exn + datetime option" where
  "retry_after http_date raw current =
     (case raw of
        None \<Rightarrow> Inr None
      | Some text \<Rightarrow>
          if text = [] then Inr None
          else case parse_float text of
                 None \<Rightarrow>
                   (case http_date text of
                      None \<Rightarrow> Inr None
                    | Some d \<Rightarrow>
                        (let target = (if offset d = None then DateTime (ddate d) (hour d) (minute d) (second d) (micro d) (Some 0) else d)
                         in if instant current < instant target
                            then (case astimezone_utc target of
                                    Inl _ \<Rightarrow> Inl (Exn ''OverflowError'' IsOther None None None None None None None)
                                  | Inr u \<Rightarrow> Inr (Some u))
                            else Inr None))
               | Some x \<Rightarrow>
                   if float_le_zero x then Inr None
                   else bindE (after_seconds current x) (\<lambda>d. Inr (Some d)))"

end
