(* ===== verification/BudgetClaims.thy ===== *)
theory BudgetClaims
  imports IngestionPolicy
begin

text \<open>
  The retry budget as a machine: what holds in every budget a sequence of calls can produce, what a
  granted request is granted, and how advice of a provider is read.
\<close>

datatype budget_op =
    Reserve "(exn + unit) option" rat rat bool bool
  | EnterGroup string
  | LeaveGroup "string option"
  | SetLimit int
  | SetUnitLimit string int "rat option"
  | EnterUnit string rat
  | LeaveUnit "string option"
  | Defer datetime
  | Probe
  | Trace int "dict \<Rightarrow> dict" trace_call
  | Annotate "dict \<Rightarrow> dict" "int option" dict

text \<open>A call that raises leaves the budget as it was.\<close>

fun budget_call :: "budget_op \<Rightarrow> budget \<Rightarrow> exn + budget" where
  "budget_call (Reserve gate now now2 retry redirect) b =
     bindE (reserve_request gate now now2 retry redirect b) (\<lambda>(_, b'). Inr b')"
| "budget_call (EnterGroup g) b = bindE (enter_request_group g b) (\<lambda>(_, b'). Inr b')"
| "budget_call (LeaveGroup t) b = Inr (leave_request_group t b)"
| "budget_call (SetLimit n) b = set_request_limit n b"
| "budget_call (SetUnitLimit u n s) b = set_unit_limit u n s b"
| "budget_call (EnterUnit u now) b = Inr (snd (enter_unit u now b))"
| "budget_call (LeaveUnit t) b = Inr (leave_unit t b)"
| "budget_call (Defer t) b = bindE (budget_defer t b) (\<lambda>(_, b'). Inr b')"
| "budget_call Probe b = Inr (restrict_to_probe b)"
| "budget_call (Trace z f c) b = Inr (snd (record_http_trace z f c b))"
| "budget_call (Annotate f n d) b = Inr (annotate_http_trace f n d b)"

inductive budget_step :: "budget \<Rightarrow> budget_op \<Rightarrow> budget \<Rightarrow> bool" where
  returned: "budget_call op b = Inr b' \<Longrightarrow> budget_step b op b'"
| raised: "budget_call op b = Inl e \<Longrightarrow> budget_step b op b"

inductive_cases budget_stepE: "budget_step b op b'"

definition budget_reachable :: "request_profile \<Rightarrow> rat \<Rightarrow> budget \<Rightarrow> bool" where
  "budget_reachable p t0 b \<longleftrightarrow> reaches budget_step (new_budget p t0) b"

section \<open>Invariant\<close>

definition units_ok :: "budget \<Rightarrow> bool" where
  "units_ok b \<longleftrightarrow> size (bu_unit_requests b) \<le> bu_requests b \<and>
     (\<forall>u \<in># bu_unit_requests b. \<exists>n. bu_unit_limits b u = Some n \<and> int (count (bu_unit_requests b) u) \<le> n)"

definition trace_ok :: "budget \<Rightarrow> bool" where
  "trace_ok b \<longleftrightarrow> length (bu_trace b) \<le> MAX_TRACE \<and> bu_trace_sequence b = int (length (bu_trace b))
     \<and> map tr_sequence (bu_trace b) = map int [1..<Suc (length (bu_trace b))]"

definition budget_inv :: "budget \<Rightarrow> bool" where
  "budget_inv b \<longleftrightarrow> bu_limit b \<le> rp_max_requests (bu_profile b)
     \<and> (bu_requests b = 0 \<or> int (bu_requests b) \<le> bu_limit b)
     \<and> bu_retries b \<le> bu_requests b \<and> size (bu_group_requests b) = bu_requests b
     \<and> units_ok b \<and> trace_ok b"

lemma new_budget_inv: "budget_inv (new_budget p t0)"
  by (simp add: budget_inv_def new_budget_def units_ok_def trace_ok_def)

lemma pass_gate_sel:
  "pass_gate gate b = Inr b' \<Longrightarrow> b' = b \<or> b' = b\<lparr>bu_gate_checked := True\<rparr>"
  by (auto simp: pass_gate_def bindE_Inr_iff split: option.splits if_splits)

lemma unit_remaining_Inr:
  assumes "unit_remaining b u r0 now2 = Inr r"
  shows "r \<le> r0 \<and> (\<exists>n. bu_unit_limits b u = Some n \<and> int (count (bu_unit_requests b) u) < n)
    \<and> (\<forall>s. bu_unit_deadlines b u = Some (Some s) \<longrightarrow>
         (\<exists>t. bu_unit_started b u = Some t \<and> r \<le> t + s - now2 \<and> 0 < r))"
  using assms by (auto simp: unit_remaining_def Let_def split: option.splits if_splits)

text \<open>A granted request, as facts about the budget before it.\<close>

lemma reserve_granted:
  assumes "reserve_request gate now now2 retry redirect b = Inr (r, b')"
  obtains b1 where "b1 = b \<or> b1 = b\<lparr>bu_gate_checked := True\<rparr>" "b' = counted_request retry redirect b1"
    "r \<le> deadline_at b - now" "now < deadline_at b" "int (bu_requests b) < bu_limit b"
    "\<And>u. bu_unit b = Some u \<Longrightarrow> \<not> redirect \<Longrightarrow> unit_remaining b u (deadline_at b - now) now2 = Inr r"
    "bu_unit b = None \<or> redirect \<Longrightarrow> r = deadline_at b - now"
proof -
  have n: "now < deadline_at b" "int (bu_requests b) < bu_limit b"
    and m: "remaining_seconds b now = deadline_at b - now"
    using assms by (auto simp: reserve_request_def remaining_seconds_def Let_def split: if_splits)
  then obtain b1 where g: "pass_gate gate b = Inr b1" "b' = counted_request retry redirect b1"
    and r: "(case bu_unit b of
        Some u \<Rightarrow> if redirect then Inr (deadline_at b - now) else unit_remaining b u (deadline_at b - now) now2
      | None \<Rightarrow> Inr (deadline_at b - now)) = Inr r"
    using assms by (auto simp: reserve_request_def Let_def bindE_Inr_iff split: if_splits)
  have "r \<le> deadline_at b - now"
    using r unit_remaining_Inr by (auto split: option.splits if_splits)
  with n g r pass_gate_sel [OF g(1)] show thesis
    by (intro that [of b1]) (auto split: option.splits if_splits)
qed

lemma counted_request_sel [simp]:
  "bu_profile (counted_request retry redirect b) = bu_profile b"
  "bu_started (counted_request retry redirect b) = bu_started b"
  "bu_limit (counted_request retry redirect b) = bu_limit b"
  "bu_requests (counted_request retry redirect b) = bu_requests b + 1"
  "size (bu_group_requests (counted_request retry redirect b)) = size (bu_group_requests b) + 1"
  "bu_retries (counted_request retry redirect b) \<le> bu_retries b + 1"
  "bu_unit_limits (counted_request retry redirect b) = bu_unit_limits b"
  "bu_unit_deadlines (counted_request retry redirect b) = bu_unit_deadlines b"
  "bu_unit_started (counted_request retry redirect b) = bu_unit_started b"
  "bu_trace (counted_request retry redirect b) = bu_trace b"
  "bu_trace_sequence (counted_request retry redirect b) = bu_trace_sequence b"
  "bu_retry_at (counted_request retry redirect b) = bu_retry_at b"
  by (simp_all add: counted_request_def Let_def)

lemma counted_request_units:
  "bu_unit_requests (counted_request retry redirect b) =
     (case bu_unit b of Some u \<Rightarrow> if redirect then bu_unit_requests b else add_mset u (bu_unit_requests b)
      | None \<Rightarrow> bu_unit_requests b)"
  by (simp add: counted_request_def Let_def)

lemma counted_units_ok:
  assumes "units_ok b" "\<And>u. bu_unit b = Some u \<Longrightarrow> \<not> redirect \<Longrightarrow>
      \<exists>n. bu_unit_limits b u = Some n \<and> int (count (bu_unit_requests b) u) < n"
  shows "units_ok (counted_request retry redirect b)"
  using assms by (auto simp: units_ok_def counted_request_units split: option.splits)

lemma reserve_inv:
  assumes "budget_inv b" "reserve_request gate now now2 retry redirect b = Inr (r, b')"
  shows "budget_inv b'"
  using assms(2)
proof (rule reserve_granted)
  fix b1
  assume b1: "b1 = b \<or> b1 = b\<lparr>bu_gate_checked := True\<rparr>" and b': "b' = counted_request retry redirect b1"
    and lim: "int (bu_requests b) < bu_limit b"
    and u: "\<And>u. bu_unit b = Some u \<Longrightarrow> \<not> redirect \<Longrightarrow> unit_remaining b u (deadline_at b - now) now2 = Inr r"
  have i1: "budget_inv b1" using b1 assms(1) by (auto simp: budget_inv_def units_ok_def trace_ok_def)
  have "units_ok b'" unfolding b'
    using b1 i1 unit_remaining_Inr [OF u] by (intro counted_units_ok) (auto simp: budget_inv_def)
  moreover have "bu_retries b' \<le> bu_requests b'"
    using i1 counted_request_sel(6) [of retry redirect b1] by (simp add: b' budget_inv_def)
  moreover have "int (bu_requests b') \<le> bu_limit b'" using b1 lim by (auto simp: b')
  moreover have "trace_ok b'" using i1 by (simp add: b' budget_inv_def trace_ok_def)
  ultimately show ?thesis using i1 by (simp add: b' budget_inv_def)
qed

lemma set_request_limit_inv: "budget_inv b \<Longrightarrow> set_request_limit n b = Inr b' \<Longrightarrow> budget_inv b'"
  by (auto simp: set_request_limit_def budget_inv_def units_ok_def trace_ok_def split: if_splits)

lemma units_ok_new:
  assumes "units_ok b" "bu_unit_limits b u = None"
  shows "units_ok (b\<lparr>bu_unit_limits := (bu_unit_limits b)(u \<mapsto> n), bu_unit_deadlines := dl\<rparr>)"
proof -
  have "u \<notin># bu_unit_requests b" using assms by (auto simp: units_ok_def)
  then show ?thesis using assms(1) by (auto simp: units_ok_def)
qed

lemma set_unit_limit_inv: "budget_inv b \<Longrightarrow> set_unit_limit u n s b = Inr b' \<Longrightarrow> budget_inv b'"
  by (auto simp: set_unit_limit_def budget_inv_def trace_ok_def intro!: units_ok_new split: if_splits option.splits)

lemma record_http_trace_inv: "budget_inv b \<Longrightarrow> budget_inv (snd (record_http_trace z f c b))"
  by (auto simp: record_http_trace_def budget_inv_def units_ok_def trace_ok_def Let_def trace_entry_of_def)

lemma annotate_first_sel [simp]:
  "length (annotate_first n safe es) = length es"
  "map tr_sequence (annotate_first n safe es) = map tr_sequence es"
  by (induction es) auto

lemma annotate_inv: "budget_inv b \<Longrightarrow> budget_inv (annotate_http_trace f n d b)"
  by (auto simp: annotate_http_trace_def budget_inv_def units_ok_def trace_ok_def split: option.splits)

lemma budget_call_inv:
  assumes "budget_inv b" "budget_call op b = Inr b'"
  shows "budget_inv b'"
proof (cases op)
  case (Reserve gate now now2 retry redirect)
  then show ?thesis using assms reserve_inv by (auto simp: bindE_Inr_iff)
next
  case (SetLimit n)
  then show ?thesis using assms set_request_limit_inv by simp
next
  case (SetUnitLimit u n s)
  then show ?thesis using assms set_unit_limit_inv by simp
next
  case (Trace z f c)
  then show ?thesis using assms record_http_trace_inv by auto
next
  case (Annotate f n d)
  then show ?thesis using assms annotate_inv by auto
qed (use assms in \<open>auto simp: bindE_Inr_iff enter_request_group_def leave_request_group_def enter_unit_def
    leave_unit_def budget_defer_def restrict_to_probe_def budget_inv_def units_ok_def trace_ok_def Let_def
    split: if_splits sum.splits\<close>)

section \<open>History\<close>

text \<open>What no call takes back: planned units and their deadlines, the first entry into a unit, counts and
  the latest advice of the provider.\<close>

definition advice_kept :: "datetime option \<Rightarrow> datetime option \<Rightarrow> bool" where
  "advice_kept a b \<longleftrightarrow> (\<forall>t. a = Some t \<longrightarrow> (\<exists>u. b = Some u \<and> instant t \<le> instant u))"

definition budget_grows :: "budget \<Rightarrow> budget \<Rightarrow> bool" where
  "budget_grows b b' \<longleftrightarrow> bu_profile b' = bu_profile b \<and> bu_started b' = bu_started b
     \<and> bu_requests b \<le> bu_requests b' \<and> bu_unit_limits b \<subseteq>\<^sub>m bu_unit_limits b'
     \<and> bu_unit_deadlines b \<subseteq>\<^sub>m bu_unit_deadlines b' \<and> bu_unit_started b \<subseteq>\<^sub>m bu_unit_started b'
     \<and> advice_kept (bu_retry_at b) (bu_retry_at b')"

lemma advice_kept_refl [simp]: "advice_kept a a"
  by (auto simp: advice_kept_def)

lemma budget_grows_refl: "budget_grows b b"
  by (simp add: budget_grows_def)

lemma budget_grows_trans: "budget_grows a b \<Longrightarrow> budget_grows b c \<Longrightarrow> budget_grows a c"
  unfolding budget_grows_def advice_kept_def by (fastforce intro: map_le_trans order.trans)

lemma map_le_new: "m k = None \<Longrightarrow> m \<subseteq>\<^sub>m m(k \<mapsto> v)"
  by (auto simp: map_le_def)

definition deadlines_planned :: "budget \<Rightarrow> bool" where
  "deadlines_planned b \<longleftrightarrow> (\<forall>u. bu_unit_deadlines b u = None \<longleftrightarrow> bu_unit_limits b u = None)"

lemma reserve_grows: "reserve_request gate now now2 retry redirect b = Inr (r, b') \<Longrightarrow> budget_grows b b'"
  by (erule reserve_granted) (auto simp: budget_grows_def)

lemma later_ge: "instant t \<le> instant (later s t)" "instant s \<le> instant (later s t)"
  by (simp_all add: later_def)

lemma budget_call_deadlines:
  assumes "deadlines_planned b" "budget_call op b = Inr b'"
  shows "deadlines_planned b'"
proof -
  have "bu_unit_deadlines b' = bu_unit_deadlines b \<and> bu_unit_limits b' = bu_unit_limits b
      \<or> (\<exists>u n s. op = SetUnitLimit u n s \<and> set_unit_limit u n s b = Inr b')"
    using assms(2)
    by (cases op)
      (auto simp: bindE_Inr_iff enter_request_group_def leave_request_group_def enter_unit_def leave_unit_def
        budget_defer_def restrict_to_probe_def Let_def set_request_limit_def record_http_trace_def
        annotate_http_trace_def elim!: reserve_granted split: if_splits sum.splits option.splits)
  then show ?thesis
    using assms(1)
    by (auto simp: set_unit_limit_def deadlines_planned_def split: if_splits option.splits)
qed

lemma budget_call_grows:
  assumes "deadlines_planned b" "budget_call op b = Inr b'"
  shows "budget_grows b b'"
proof (cases op)
  case (Reserve gate now now2 retry redirect)
  then show ?thesis using assms reserve_grows by (auto simp: bindE_Inr_iff)
next
  case (SetUnitLimit u n s)
  moreover have "bu_unit_limits b u = None \<Longrightarrow> bu_unit_deadlines b u = None"
    using assms(1) by (auto simp: deadlines_planned_def)
  ultimately show ?thesis using assms(2)
    by (auto simp: budget_grows_def set_unit_limit_def map_le_new split: if_splits option.splits)
next
  case (EnterUnit u now)
  then show ?thesis using assms(2) by (auto simp: budget_grows_def enter_unit_def map_le_new split: option.splits)
next
  case (Defer t)
  then show ?thesis using assms(2) later_ge
    by (auto simp: budget_grows_def budget_defer_def advice_kept_def bindE_Inr_iff Let_def split: sum.splits option.splits)
qed (use assms(2) in \<open>auto simp: budget_grows_def bindE_Inr_iff enter_request_group_def leave_request_group_def
    leave_unit_def restrict_to_probe_def set_request_limit_def record_http_trace_def annotate_http_trace_def Let_def
    split: if_splits option.splits\<close>)

definition budget_ok :: "budget \<Rightarrow> bool" where
  "budget_ok b \<longleftrightarrow> budget_inv b \<and> deadlines_planned b"

lemma budget_step_ok: "budget_ok b \<Longrightarrow> budget_step b op b' \<Longrightarrow> budget_ok b'"
  using budget_call_inv budget_call_deadlines by (auto simp: budget_ok_def elim!: budget_stepE)

lemma budget_step_grows: "budget_ok b \<Longrightarrow> budget_step b op b' \<Longrightarrow> budget_grows b b'"
  using budget_call_grows budget_grows_refl by (auto simp: budget_ok_def elim!: budget_stepE)

interpretation budgets: monitored budget_step budget_ok budget_grows
  by unfold_locales
    (erule (1) budget_step_ok, rule budget_grows_refl, erule (1) budget_grows_trans, erule (1) budget_step_grows)

lemma new_budget_ok: "budget_ok (new_budget p t0)"
  using new_budget_inv [of p t0] by (simp add: budget_ok_def deadlines_planned_def new_budget_def)

lemma reachable_budget_ok: "budget_reachable p t0 b \<Longrightarrow> budget_ok b"
  unfolding budget_reachable_def by (erule budgets.reaches_inv) (rule new_budget_ok)

lemma reachable_budget_fixed:
  assumes "budget_reachable p t0 b"
  shows "bu_profile b = p \<and> bu_started b = t0"
proof -
  have "budget_grows (new_budget p t0) b"
    using assms budgets.reaches_grows [OF _ new_budget_ok] by (simp add: budget_reachable_def)
  then show ?thesis by (simp add: budget_grows_def new_budget_def)
qed

section \<open>Properties\<close>

text \<open>C16: A retry budget is bounded whatever calls are made: the requests never exceed the profile's cap,
  a unit never exceeds its planned cap, every request is charged to exactly one group, retries are
  requests, and the audited trace keeps at most 256 entries, numbered from one.\<close>

theorem budget_is_bounded:
  assumes "budget_reachable p t0 b"
  shows "int (bu_requests b) \<le> max 0 (rp_max_requests p) \<and> bu_retries b \<le> bu_requests b
    \<and> size (bu_group_requests b) = bu_requests b
    \<and> (\<forall>u n. bu_unit_limits b u = Some n \<longrightarrow> int (count (bu_unit_requests b) u) \<le> max 0 n)
    \<and> map tr_sequence (bu_trace b) = map int [1..<Suc (length (bu_trace b))] \<and> length (bu_trace b) \<le> 256"
proof -
  have i: "budget_inv b" and p: "bu_profile b = p"
    using reachable_budget_ok [OF assms] reachable_budget_fixed [OF assms] by (auto simp: budget_ok_def)
  have "int (count (bu_unit_requests b) u) \<le> max 0 n" if "bu_unit_limits b u = Some n" for u n
  proof (cases "u \<in># bu_unit_requests b")
    case True
    then show ?thesis using i that by (force simp: budget_inv_def units_ok_def)
  qed (simp add: not_in_iff)
  then show ?thesis
    using i p by (auto simp: budget_inv_def trace_ok_def MAX_TRACE_def)
qed

definition ex_reserve :: "rat \<Rightarrow> budget_op" where
  "ex_reserve now = Reserve None now now False False"

fun budget_calls :: "budget_op list \<Rightarrow> budget \<Rightarrow> exn + budget" where
  "budget_calls [] b = Inr b"
| "budget_calls (op # ops) b = bindE (budget_call op b) (budget_calls ops)"

lemma budget_calls_reach:
  "reaches budget_step a b \<Longrightarrow> budget_calls ops b = Inr c \<Longrightarrow> reaches budget_step a c"
  by (induction ops arbitrary: b) (auto simp: bindE_Inr_iff intro: reaches.further budget_step.returned)

lemma budget_calls_reachable: "budget_calls ops (new_budget p t0) = Inr b \<Longrightarrow> budget_reachable p t0 b"
  using budget_calls_reach [OF reaches.here] by (simp add: budget_reachable_def)

definition ex_profile :: request_profile where
  "ex_profile = profile ''tesouro'' 2 90 90"

definition ex_ops :: "budget_op list" where
  "ex_ops = [SetUnitLimit ''w'' 2 (Some 10), EnterUnit ''w'' 101, ex_reserve 102]"

lemmas ex_budget_simps = ex_profile_def ex_ops_def ex_reserve_def new_budget_def set_unit_limit_def
  enter_unit_def reserve_request_def remaining_seconds_def deadline_at_def profile_def unit_remaining_def
  pass_gate_def counted_request_def or_text_def Let_def

lemma ex_budget:
  obtains b where "budget_reachable ex_profile 100 b" "bu_requests b = 1" "deadline_at b = 190"
    "bu_unit_started b ''w'' = Some 101" "bu_unit_deadlines b ''w'' = Some (Some 10)"
    "bu_unit_limits b ''w'' = Some 2" "bu_unit b = Some ''w''" "bu_limit b = 2"
    "count (bu_unit_requests b) ''w'' = 1"
proof -
  have "\<exists>b. budget_calls ex_ops (new_budget ex_profile 100) = Inr b \<and> bu_requests b = 1 \<and> deadline_at b = 190
      \<and> bu_unit_started b ''w'' = Some 101 \<and> bu_unit_deadlines b ''w'' = Some (Some 10)
      \<and> bu_unit_limits b ''w'' = Some 2 \<and> bu_unit b = Some ''w'' \<and> bu_limit b = 2
      \<and> count (bu_unit_requests b) ''w'' = 1"
    by (simp add: ex_budget_simps)
  then show thesis using that budget_calls_reachable by blast
qed

theorem budget_is_bounded_witness:
  "\<exists>b. budget_reachable ex_profile 100 b \<and> bu_requests b = 1 \<and> int (bu_requests b) \<le> 2"
proof -
  obtain b where "budget_reachable ex_profile 100 b" "bu_requests b = 1" by (rule ex_budget)
  with budget_is_bounded [OF this(1)] show ?thesis by (auto simp: ex_profile_def profile_def)
qed

text \<open>No granted request outlives its deadlines: what a reservation grants is positive, ends by the
  deadline fixed when the budget was installed, and, for a unit with a deadline, by that many seconds
  after the first entry into the unit, however often it was entered again.\<close>

theorem grant_respects_deadlines:
  assumes "budget_reachable p t0 b" and "reaches budget_step b b1" and "now \<le> now2"
    and "reserve_request gate now now2 retry False b1 = Inr (r, b')"
  shows "0 < r \<and> now + r \<le> t0 + rp_deadline p
    \<and> (\<forall>u t s. bu_unit b1 = Some u \<longrightarrow> bu_unit_started b u = Some t \<longrightarrow> bu_unit_deadlines b u = Some (Some s) \<longrightarrow>
         now2 + r \<le> t + s)"
proof -
  have ok: "budget_ok b" by (rule reachable_budget_ok [OF assms(1)])
  have g: "budget_grows b b1" by (rule budgets.reaches_grows [OF assms(2) ok])
  have d: "deadline_at b1 = t0 + rp_deadline p"
    using g reachable_budget_fixed [OF assms(1)] by (simp add: budget_grows_def deadline_at_def)
  show ?thesis using assms(4)
  proof (rule reserve_granted)
    assume r: "r \<le> deadline_at b1 - now" "now < deadline_at b1"
      and u: "\<And>u. bu_unit b1 = Some u \<Longrightarrow> \<not> False \<Longrightarrow> unit_remaining b1 u (deadline_at b1 - now) now2 = Inr r"
      and n: "bu_unit b1 = None \<or> False \<Longrightarrow> r = deadline_at b1 - now"
    have "0 < r"
    proof (cases "bu_unit b1")
      case (Some v)
      from u [OF this] r(2) show ?thesis by (auto simp: unit_remaining_def Let_def split: option.splits if_splits)
    qed (use n r in simp)
    moreover have "now2 + r \<le> t + s" if "bu_unit b1 = Some v" "bu_unit_started b v = Some t"
      "bu_unit_deadlines b v = Some (Some s)" for v t s
    proof -
      have "bu_unit_started b1 v = Some t" "bu_unit_deadlines b1 v = Some (Some s)"
        using g that by (auto simp: budget_grows_def map_le_def dom_def)
      with unit_remaining_Inr [OF u [OF that(1)]] show ?thesis by auto
    qed
    ultimately show ?thesis using r d by auto
  qed
qed

theorem grant_respects_deadlines_witness:
  "\<exists>b r b'. reserve_request None 105 106 True False b = Inr (r, b') \<and> 0 < r \<and> 105 + r \<le> 190 \<and> 106 + r \<le> 111"
proof -
  obtain b where b: "budget_reachable ex_profile 100 b" "bu_requests b = 1" "deadline_at b = 190"
    "bu_unit_started b ''w'' = Some 101" "bu_unit_deadlines b ''w'' = Some (Some 10)"
    "bu_unit_limits b ''w'' = Some 2" "bu_unit b = Some ''w''" "bu_limit b = 2"
    "count (bu_unit_requests b) ''w'' = 1" by (rule ex_budget)
  have "\<exists>r b'. reserve_request None 105 106 True False b = Inr (r, b')"
    using b(2-9) by (simp add: reserve_request_def remaining_seconds_def unit_remaining_def pass_gate_def Let_def)
  then obtain r b' where g: "reserve_request None 105 106 True False b = Inr (r, b')" by blast
  from grant_respects_deadlines [OF b(1) reaches.here _ g] b(4,5,7) have "0 < r \<and> 105 + r \<le> 190 \<and> 106 + r \<le> 111"
    by (simp add: ex_profile_def profile_def)
  with g show ?thesis by blast
qed

lemma utc_le_max: "is_utc d \<Longrightarrow> instant d \<le> instant datetime_max"
proof -
  assume "is_utc d"
  then have v: "valid_date (ddate d)" "clock d < 86400" "micro d < 1000000" "offset d = Some 0"
    by (auto simp: is_utc_def valid_datetime_def clock_def)
  have "ordinal (ddate d) \<le> max_ordinal" using ordinal_range [OF v(1)] by simp
  moreover have "instant datetime_max = (max_ordinal * 86400 + 86399) * 1000000 + 999999" by code_simp
  ultimately show ?thesis using v(2-4) by (simp add: instant_def)
qed

lemma datetime_max_utc: "is_utc datetime_max"
  by code_simp

lemma after_seconds_ge:
  assumes "is_utc now" "0 < s" "after_seconds now (Fin s) = Inr d"
  shows "is_utc d \<and> instant now \<le> instant d \<and>
    (d = datetime_max \<or> \<bar>rat_of_int (instant d - instant now) - s * 1000000\<bar> \<le> 1 / 2)"
proof (cases "from_instant (instant now + round_even (s * 1000000))")
  case (Inl e)
  then show ?thesis using assms utc_le_max datetime_max_utc by (simp add: after_seconds_def)
next
  case (Inr u)
  then have u: "d = u" "is_utc u" "instant u = instant now + round_even (s * 1000000)"
    using assms(3) from_instant_Inr by (auto simp: after_seconds_def)
  have "0 \<le> round_even (s * 1000000)" using round_even_ge [of 0] assms(2) by simp
  then show ?thesis using u round_even_near [of "s * 1000000"] by simp
qed

lemma instant_assumed_utc:
  "offset d = None \<Longrightarrow> instant (DateTime (ddate d) (hour d) (minute d) (second d) (micro d) (Some 0)) = instant d"
  by (simp add: instant_def clock_def)



section \<open>Classification\<close>

text \<open>Wrapping at the network boundary: \<open>raise SourceFetchError(.., stage="network") from cause\<close>.\<close>

fun wrapped :: "string list \<Rightarrow> exn \<Rightarrow> exn" where
  "wrapped [] e = e"
| "wrapped (name # names) e =
     Exn name IsOther (Some ''network'') (Some (wrapped names e)) None None None None None"

lemma classify_wrapped:
  "classify_exception e \<noteq> INTERNAL_ERROR \<Longrightarrow> classify_exception (wrapped names e) = classify_exception e"
  by (induction names) simp_all

lemma category_retryable:
  "category_text c \<in> set RETRYABLE_FAILED_CATEGORIES \<longleftrightarrow> c \<in> {NETWORK_TIMEOUT, NETWORK_RESET, TEMPORARY_SERVER_ERROR}"
  by (cases c) (simp_all add: RETRYABLE_FAILED_CATEGORIES_def)

text \<open>However often an HTTP status error is wrapped on its way up, its item is retried exactly when
  the status is a temporary server error and an acquisition is left: a rate limit, an authentication or
  any other client error is permanent.\<close>

theorem http_status_decides_retry:
  assumes "exn_class e = IsHttpStatus status" and "exn_cause e = None"
    and "exn_explicit e = None" and "exn_category e = None"
  shows "failed_item_is_retryable (Some (category_text (classify_exception (wrapped names e)))) acquisitions most
    \<longleftrightarrow> status \<in> {500, 502, 503, 504} \<and> acquisitions < most"
proof -
  have "classify_exception e = http_status_category status"
    using assms by (cases e) (auto simp: own_category_def)
  moreover have "http_status_category status \<noteq> INTERNAL_ERROR"
    by (simp add: http_status_category_def)
  ultimately show ?thesis
    by (auto simp: failed_item_is_retryable_def classify_wrapped category_retryable http_status_category_def)
qed

theorem http_status_decides_retry_witness:
  "failed_item_is_retryable (Some (category_text (classify_exception (wrapped [''SourceFetchError'']
     (Exn ''HTTPStatusError'' (IsHttpStatus 503) None None None None None None None))))) 1 2"
  using http_status_decides_retry [of "Exn ''HTTPStatusError'' (IsHttpStatus 503) None None None None None None None" 503
    "[''SourceFetchError'']" 1 2] by simp

end
