(* ===== verification/Catalog.thy ===== *)
theory Catalog
  imports PyValues
begin

text \<open>
  The indicator catalogue (\<open>indicator_catalog.py\<close>) and the code groups of \<open>config.py\<close> derived from it.
  Labels are left out: they are display text. The only provider is \<open>bcb_sgs\<close>.
\<close>

datatype catalog_group =
    IPCA_GROUPS | IPCA_NATURE | IPCA_CORE | IPCA_PRICES | INTEREST_RATES | INFLATION | ACTIVITY
  | ACTIVITY_SECTORAL | FISCAL | CREDIT | EXCHANGE | EXTERNAL | COMPLEMENTARY

datatype unit_kind =
    U_PCT | U_PCT_GDP | U_PCT_ANNUAL | U_INDEX | U_BRL | U_BRL_MILLION | U_USD_MILLION | U_RATIO

datatype frequency = F_DAILY | F_MARKET | F_MONTHLY | F_MOVING_QUARTER | F_QUARTERLY | F_ANNUAL

fun frequency_text :: "frequency \<Rightarrow> string" where
  "frequency_text F_DAILY = ''daily''"
| "frequency_text F_MARKET = ''market''"
| "frequency_text F_MONTHLY = ''monthly''"
| "frequency_text F_MOVING_QUARTER = ''moving_quarter''"
| "frequency_text F_QUARTERLY = ''quarterly''"
| "frequency_text F_ANNUAL = ''annual''"

datatype polarity = P_HIGHER_IS_BETTER | P_LOWER_IS_BETTER | P_NEUTRAL

datatype transformation = T_ANNUALIZE_12 | T_ANNUALIZE_252 | T_INVERT_SIGN

record indicator_spec =
  is_key :: string
  is_group :: catalog_group
  is_code :: int
  is_unit :: unit_kind
  is_frequency :: frequency
  is_start :: string
  is_freshness :: int
  is_polarity :: polarity
  is_transformation :: "transformation option"

datatype catalog_error = InvalidIndicatorSpec string | DuplicateIndicator string string

text \<open>\<open>__post_init__\<close>, for the fields the model keeps.\<close>

definition checked_spec :: "indicator_spec \<Rightarrow> catalog_error + indicator_spec" where
  "checked_spec s =
     (if is_key s = [] then Inl (InvalidIndicatorSpec ''key'')
      else if is_start s = [] then Inl (InvalidIndicatorSpec ''start_date'')
      else if is_code s \<le> 0 then Inl (InvalidIndicatorSpec ''provider_code'')
      else if is_freshness s \<le> 0 then Inl (InvalidIndicatorSpec ''freshness_days'')
      else Inr s)"

fun default_freshness_days :: "frequency \<Rightarrow> int" where
  "default_freshness_days F_DAILY = 7"
| "default_freshness_days F_MARKET = 7"
| "default_freshness_days F_MONTHLY = 75"
| "default_freshness_days F_MOVING_QUARTER = 120"
| "default_freshness_days F_QUARTERLY = 120"
| "default_freshness_days F_ANNUAL = 400"

text \<open>The catalogue keeps insertion order; \<open>seen\<close> is what the loop has added so far.\<close>

fun build_catalog_from :: "indicator_spec list \<Rightarrow> indicator_spec list \<Rightarrow> catalog_error + indicator_spec list" where
  "build_catalog_from seen [] = Inr seen"
| "build_catalog_from seen (s # ss) =
     (if is_key s \<in> set (map is_key seen) then Inl (DuplicateIndicator ''key'' (is_key s))
      else if is_code s \<in> set (map is_code seen) then Inl (DuplicateIndicator ''provider_code'' (is_key s))
      else build_catalog_from (seen @ [s]) ss)"

definition build_catalog :: "indicator_spec list \<Rightarrow> catalog_error + indicator_spec list" where
  "build_catalog ss = build_catalog_from [] ss"

definition indicator ::
    "string \<Rightarrow> catalog_group \<Rightarrow> int \<Rightarrow> unit_kind \<Rightarrow> frequency \<Rightarrow> string \<Rightarrow> int \<Rightarrow> polarity
     \<Rightarrow> transformation option \<Rightarrow> indicator_spec" where
  "indicator k g c u f d n p t =
     \<lparr>is_key = k, is_group = g, is_code = c, is_unit = u, is_frequency = f, is_start = d,
      is_freshness = n, is_polarity = p, is_transformation = t\<rparr>"

definition SPECS :: "indicator_spec list" where
  "SPECS =
     [indicator ''alimentacao_bebidas'' IPCA_GROUPS 1635 U_PCT F_MONTHLY ''01/01/1990'' 75 P_LOWER_IS_BETTER None,
      indicator ''habitacao'' IPCA_GROUPS 1636 U_PCT F_MONTHLY ''01/01/1990'' 75 P_LOWER_IS_BETTER None,
      indicator ''artigos_residencia'' IPCA_GROUPS 1637 U_PCT F_MONTHLY ''01/01/1990'' 75 P_LOWER_IS_BETTER None,
      indicator ''vestuario'' IPCA_GROUPS 1638 U_PCT F_MONTHLY ''01/01/1990'' 75 P_LOWER_IS_BETTER None,
      indicator ''transportes'' IPCA_GROUPS 1639 U_PCT F_MONTHLY ''01/01/1990'' 75 P_LOWER_IS_BETTER None,
      indicator ''comunicacao'' IPCA_GROUPS 1640 U_PCT F_MONTHLY ''01/01/1990'' 75 P_LOWER_IS_BETTER None,
      indicator ''saude_cuidados'' IPCA_GROUPS 1641 U_PCT F_MONTHLY ''01/01/1990'' 75 P_LOWER_IS_BETTER None,
      indicator ''despesas_pessoais'' IPCA_GROUPS 1642 U_PCT F_MONTHLY ''01/01/1990'' 75 P_LOWER_IS_BETTER None,
      indicator ''educacao'' IPCA_GROUPS 1643 U_PCT F_MONTHLY ''01/01/1990'' 75 P_LOWER_IS_BETTER None,
      indicator ''bens_duraveis'' IPCA_NATURE 10843 U_PCT F_MONTHLY ''01/01/1990'' 75 P_LOWER_IS_BETTER None,
      indicator ''bens_semi_duraveis'' IPCA_NATURE 10842 U_PCT F_MONTHLY ''01/01/1990'' 75 P_LOWER_IS_BETTER None,
      indicator ''bens_nao_duraveis'' IPCA_NATURE 10841 U_PCT F_MONTHLY ''01/01/1990'' 75 P_LOWER_IS_BETTER None,
      indicator ''servicos'' IPCA_NATURE 10844 U_PCT F_MONTHLY ''01/01/1990'' 75 P_LOWER_IS_BETTER None,
      indicator ''core_medias_aparadas'' IPCA_CORE 4466 U_PCT F_MONTHLY ''01/01/1990'' 75 P_LOWER_IS_BETTER None,
      indicator ''core_dp'' IPCA_CORE 16122 U_PCT F_MONTHLY ''01/01/1990'' 75 P_LOWER_IS_BETTER None,
      indicator ''itens_livres'' IPCA_PRICES 11428 U_PCT F_MONTHLY ''01/01/1990'' 75 P_LOWER_IS_BETTER None,
      indicator ''transacionaveis'' IPCA_PRICES 4447 U_PCT F_MONTHLY ''01/01/1990'' 75 P_LOWER_IS_BETTER None,
      indicator ''nao_transacionaveis'' IPCA_PRICES 4448 U_PCT F_MONTHLY ''01/01/1990'' 75 P_LOWER_IS_BETTER None,
      indicator ''administrados'' IPCA_PRICES 4449 U_PCT F_MONTHLY ''01/01/1990'' 75 P_LOWER_IS_BETTER None,
      indicator ''selic_meta'' INTEREST_RATES 432 U_PCT_ANNUAL F_DAILY ''01/01/2015'' 7 P_NEUTRAL None,
      indicator ''selic_efetiva'' INTEREST_RATES 11 U_PCT_ANNUAL F_DAILY ''01/01/2015'' 7 P_NEUTRAL (Some T_ANNUALIZE_252),
      indicator ''cdi'' INTEREST_RATES 12 U_PCT_ANNUAL F_DAILY ''01/01/2015'' 7 P_NEUTRAL (Some T_ANNUALIZE_252),
      indicator ''tr'' INTEREST_RATES 226 U_PCT_ANNUAL F_MONTHLY ''01/01/1991'' 75 P_NEUTRAL (Some T_ANNUALIZE_12),
      indicator ''ipca'' INFLATION 433 U_PCT F_MONTHLY ''01/01/2015'' 75 P_LOWER_IS_BETTER None,
      indicator ''ipca_12m'' INFLATION 13522 U_PCT F_MONTHLY ''01/01/2015'' 75 P_LOWER_IS_BETTER None,
      indicator ''ipca_15'' INFLATION 7478 U_PCT F_MONTHLY ''01/01/2015'' 75 P_LOWER_IS_BETTER None,
      indicator ''inpc'' INFLATION 188 U_PCT F_MONTHLY ''01/01/2015'' 75 P_LOWER_IS_BETTER None,
      indicator ''igpm'' INFLATION 189 U_PCT F_MONTHLY ''01/01/2015'' 75 P_LOWER_IS_BETTER None,
      indicator ''igpdi'' INFLATION 190 U_PCT F_MONTHLY ''01/01/2015'' 75 P_LOWER_IS_BETTER None,
      indicator ''incc_di'' INFLATION 192 U_PCT F_MONTHLY ''01/01/2015'' 75 P_LOWER_IS_BETTER None,
      indicator ''pib'' ACTIVITY 1207 U_BRL F_ANNUAL ''01/01/2015'' 400 P_HIGHER_IS_BETTER None,
      indicator ''ibc_br'' ACTIVITY 24363 U_INDEX F_MONTHLY ''01/01/2015'' 75 P_HIGHER_IS_BETTER None,
      indicator ''desemprego'' ACTIVITY 24369 U_PCT F_MOVING_QUARTER ''01/01/2015'' 120 P_LOWER_IS_BETTER None,
      indicator ''resultado_primario'' ACTIVITY 4639 U_BRL_MILLION F_MONTHLY ''01/01/2015'' 75 P_HIGHER_IS_BETTER None,
      indicator ''ibc_br_sa'' ACTIVITY_SECTORAL 24364 U_INDEX F_MONTHLY ''01/01/2015'' 75 P_HIGHER_IS_BETTER None,
      indicator ''ibc_agro_sa'' ACTIVITY_SECTORAL 29602 U_INDEX F_MONTHLY ''01/01/2015'' 75 P_HIGHER_IS_BETTER None,
      indicator ''ibc_industria_sa'' ACTIVITY_SECTORAL 29604 U_INDEX F_MONTHLY ''01/01/2015'' 75 P_HIGHER_IS_BETTER None,
      indicator ''ibc_servicos_sa'' ACTIVITY_SECTORAL 29606 U_INDEX F_MONTHLY ''01/01/2015'' 75 P_HIGHER_IS_BETTER None,
      indicator ''ibc_ex_agro_sa'' ACTIVITY_SECTORAL 29608 U_INDEX F_MONTHLY ''01/01/2015'' 75 P_HIGHER_IS_BETTER None,
      indicator ''rendimento_medio_real'' ACTIVITY_SECTORAL 24382 U_BRL F_MONTHLY ''01/01/2015'' 75 P_HIGHER_IS_BETTER None,
      indicator ''dbgg_pib'' FISCAL 13762 U_PCT_GDP F_MONTHLY ''01/12/2006'' 75 P_LOWER_IS_BETTER None,
      indicator ''dlsp_pib'' FISCAL 4513 U_PCT_GDP F_MONTHLY ''01/01/2001'' 75 P_LOWER_IS_BETTER None,
      indicator ''saldo_primario_12m_pib'' FISCAL 5793 U_PCT_GDP F_MONTHLY ''01/12/2001'' 75 P_HIGHER_IS_BETTER (Some T_INVERT_SIGN),
      indicator ''juros_nominais_12m_pib'' FISCAL 5760 U_PCT_GDP F_MONTHLY ''01/12/2001'' 75 P_LOWER_IS_BETTER None,
      indicator ''saldo_nominal_12m_pib'' FISCAL 5727 U_PCT_GDP F_MONTHLY ''01/12/2001'' 75 P_HIGHER_IS_BETTER (Some T_INVERT_SIGN),
      indicator ''inadimplencia_pf'' CREDIT 21084 U_PCT F_MONTHLY ''01/01/2011'' 45 P_LOWER_IS_BETTER None,
      indicator ''endividamento_familias'' CREDIT 29037 U_PCT F_MONTHLY ''01/01/2011'' 75 P_LOWER_IS_BETTER None,
      indicator ''comprometimento_renda'' CREDIT 29034 U_PCT F_MONTHLY ''01/01/2011'' 75 P_LOWER_IS_BETTER None,
      indicator ''icc_pf'' CREDIT 25353 U_PCT_ANNUAL F_MONTHLY ''01/01/2011'' 45 P_LOWER_IS_BETTER None,
      indicator ''taxa_media_credito_pf'' CREDIT 20716 U_PCT_ANNUAL F_MONTHLY ''01/01/2011'' 45 P_LOWER_IS_BETTER None,
      indicator ''carteira_pf_cheque_especial'' CREDIT 20573 U_BRL_MILLION F_MONTHLY ''01/01/2011'' 45 P_NEUTRAL None,
      indicator ''carteira_pf_credito_pessoal_nao_consignado'' CREDIT 20574 U_BRL_MILLION F_MONTHLY ''01/01/2011'' 45 P_NEUTRAL None,
      indicator ''carteira_pf_cartao_rotativo'' CREDIT 20587 U_BRL_MILLION F_MONTHLY ''01/01/2011'' 45 P_NEUTRAL None,
      indicator ''carteira_pf_cartao_parcelado'' CREDIT 20588 U_BRL_MILLION F_MONTHLY ''01/01/2011'' 45 P_NEUTRAL None,
      indicator ''ptax_compra_usd'' EXCHANGE 1 U_RATIO F_MARKET ''01/01/2015'' 7 P_NEUTRAL None,
      indicator ''ptax_venda_usd'' EXCHANGE 10813 U_RATIO F_MARKET ''01/01/2015'' 7 P_NEUTRAL None,
      indicator ''eur_brl'' EXCHANGE 21619 U_RATIO F_MARKET ''01/01/2015'' 7 P_NEUTRAL None,
      indicator ''conta_corrente_12m_pib'' EXTERNAL 23079 U_PCT_GDP F_MONTHLY ''01/01/2015'' 75 P_HIGHER_IS_BETTER None,
      indicator ''idp_12m_pib'' EXTERNAL 23080 U_PCT_GDP F_MONTHLY ''01/01/2015'' 75 P_HIGHER_IS_BETTER None,
      indicator ''idp_mensal_usd'' EXTERNAL 22885 U_USD_MILLION F_MONTHLY ''01/01/2015'' 75 P_NEUTRAL None,
      indicator ''balanca_comercial_usd'' EXTERNAL 22707 U_USD_MILLION F_MONTHLY ''01/01/2015'' 75 P_NEUTRAL None,
      indicator ''investimento_carteira_usd'' EXTERNAL 22905 U_USD_MILLION F_MONTHLY ''01/01/2015'' 75 P_NEUTRAL None,
      indicator ''reservas_internacionais'' EXTERNAL 3546 U_USD_MILLION F_MONTHLY ''01/01/2015'' 75 P_HIGHER_IS_BETTER None,
      indicator ''base_monetaria'' COMPLEMENTARY 1835 U_BRL_MILLION F_MONTHLY ''01/01/2015'' 75 P_NEUTRAL None,
      indicator ''m0'' COMPLEMENTARY 1788 U_BRL_MILLION F_MONTHLY ''01/01/2015'' 75 P_NEUTRAL None,
      indicator ''m1'' COMPLEMENTARY 27788 U_BRL_MILLION F_MONTHLY ''01/01/2015'' 75 P_NEUTRAL None,
      indicator ''m2'' COMPLEMENTARY 27810 U_BRL_MILLION F_MONTHLY ''01/01/2015'' 75 P_NEUTRAL None,
      indicator ''ic_commodities'' COMPLEMENTARY 27574 U_INDEX F_MONTHLY ''01/01/2015'' 75 P_NEUTRAL None]"

definition legacy_codes :: "indicator_spec list \<Rightarrow> catalog_group \<Rightarrow> (string \<times> int) list" where
  "legacy_codes catalog g = map (\<lambda>s. (is_key s, is_code s)) (filter (\<lambda>s. is_group s = g) catalog)"

end
