(* ===== verification/Windows.thy ===== *)
theory Windows
  imports Catalog
begin

text \<open>
  The date windows of an SGS refresh (\<open>sgs_annual_windows\<close>, \<open>sgs_refresh_windows\<close> and their helpers in
  \<open>datafetchers/bcb_sgs.py\<close>). The two loops run with fuel; \<open>None\<close> means the fuel ran out. Dates printed
  as \<open>dd/mm/yyyy\<close> have four-digit years.
\<close>

definition format_date :: "date \<Rightarrow> string" where
  "format_date d = pad 2 (day d) @ ''/'' @ pad 2 (month d) @ ''/'' @ pad 4 (year d)"

text \<open>\<open>day, month, year = (int(part) for part in value.split("/"))\<close>, for parts of plain digits.\<close>

definition parse_slash_date :: "string \<Rightarrow> py_error + date" where
  "parse_slash_date s =
     (case map parse_num (split_on CHR ''/'' s) of
        [Some d, Some m, Some y] \<Rightarrow> mk_date y m d | _ \<Rightarrow> Inl ValueError)"

definition parse_window_date :: "string \<Rightarrow> py_error + date" where
  "parse_window_date s =
     (case date_fromisoformat s of Inr d \<Rightarrow> Inr d | Inl _ \<Rightarrow> parse_slash_date s)"

type_synonym window = "date \<times> date"

section \<open>Calendar-year windows\<close>

fun annual_loop :: "nat \<Rightarrow> date \<Rightarrow> date \<Rightarrow> (py_error + window list) option" where
  "annual_loop 0 c e = None"
| "annual_loop (Suc n) c e =
     (if c \<le> e then
        (let w = min (Date (year c) 12 31) e
         in case add_days w 1 of
              Inl err \<Rightarrow> Some (Inl err)
            | Inr c' \<Rightarrow> map_option (\<lambda>r. bindE r (\<lambda>ws. Inr ((c, w) # ws))) (annual_loop n c' e))
      else Some (Inr []))"

definition annual_fuel :: "date \<Rightarrow> date \<Rightarrow> nat" where
  "annual_fuel s e = nat (year e - year s) + 2"

definition annual_windows :: "date \<Rightarrow> date \<Rightarrow> (py_error + window list) option" where
  "annual_windows s e =
     (if e < s then Some (Inl ValueError) else annual_loop (annual_fuel s e) s e)"

definition sgs_annual_windows :: "string \<Rightarrow> string \<Rightarrow> (py_error + (string \<times> string) list) option" where
  "sgs_annual_windows start_date end_date =
     (case parse_window_date start_date of
        Inl err \<Rightarrow> Some (Inl err)
      | Inr s \<Rightarrow> (case parse_window_date end_date of
          Inl err \<Rightarrow> Some (Inl err)
        | Inr e \<Rightarrow> map_option (\<lambda>r. bindE r (\<lambda>ws. Inr (map (\<lambda>(a, b). (format_date a, format_date b)) ws)))
                     (annual_windows s e)))"

text \<open>The reference: one window per calendar year, clipped to the range.\<close>

definition year_window :: "date \<Rightarrow> date \<Rightarrow> int \<Rightarrow> window" where
  "year_window s e y = (max s (Date y 1 1), min e (Date y 12 31))"

section \<open>Ten-year windows\<close>

definition MAX_RANGE_YEARS :: int where
  "MAX_RANGE_YEARS = 10"

text \<open>\<open>cursor.replace(year=..)\<close> raises on 29 February of a common year.\<close>

fun range_loop :: "nat \<Rightarrow> date \<Rightarrow> date \<Rightarrow> (py_error + window list) option" where
  "range_loop 0 c e = None"
| "range_loop (Suc n) c e =
     (if c < e then
        (case mk_date (year c + MAX_RANGE_YEARS) (month c) (day c) of
           Inl err \<Rightarrow> Some (Inl err)
         | Inr next \<Rightarrow>
             (let w = min next e
              in map_option (\<lambda>r. bindE r (\<lambda>ws. Inr ((c, w) # ws))) (range_loop n w e)))
      else Some (Inr []))"

definition range_windows :: "date \<Rightarrow> date \<Rightarrow> (py_error + window list) option" where
  "range_windows s e = range_loop (nat (year e - year s) + 2) s e"

text \<open>\<open>date(int(parts[2]), int(parts[1]), int(parts[0]))\<close>: further parts are ignored, missing ones raise.\<close>

definition parse_date :: "string \<Rightarrow> py_error + date" where
  "parse_date s =
     (case map parse_num (split_on CHR ''/'' s) of
        a # b # c # _ \<Rightarrow>
          (case (c, b, a) of (Some y, Some m, Some d) \<Rightarrow> mk_date y m d | _ \<Rightarrow> Inl ValueError)
      | _ \<Rightarrow> Inl IndexError)"

definition make_windows ::
    "date \<Rightarrow> string option \<Rightarrow> string option \<Rightarrow> (py_error + (string option \<times> string option) list) option" where
  "make_windows today start end_date =
     (case start of
        None \<Rightarrow> Some (Inr [(None, end_date)])
      | Some st \<Rightarrow>
          if st = [] then Some (Inr [(None, end_date)])
          else
            (case bindE (parse_date st) (\<lambda>s.
                bindE (case end_date of Some en \<Rightarrow> if en = [] then Inr today else parse_date en
                       | None \<Rightarrow> Inr today) (\<lambda>e. Inr (s, e))) of
               Inl err \<Rightarrow> Some (Inl err)
             | Inr (s, e) \<Rightarrow>
                 map_option (\<lambda>r. bindE r (\<lambda>ws. Inr
                   (if ws = [] then [(start, end_date)]
                    else map (\<lambda>(a, b). (Some (format_date a), Some (format_date b))) ws)))
                   (range_windows s e)))"

definition sgs_refresh_windows ::
    "date \<Rightarrow> string option \<Rightarrow> string option \<Rightarrow> (py_error + (string option \<times> string option) list) option" where
  "sgs_refresh_windows today start end_date =
     make_windows today
       (Some (case start of Some st \<Rightarrow> if st = [] then ''01/01/1990'' else st | None \<Rightarrow> ''01/01/1990'')) end_date"

section \<open>Days around a year's end\<close>

lemma date_le_alt: "d \<le> e \<longleftrightarrow> \<not> e < (d :: date)"
  by (simp add: not_less)

lemma within_year:
  assumes "valid_date d"
  shows "Date (year d) 1 1 \<le> d" "d \<le> Date (year d) 12 31"
proof -
  have "day d \<le> 31" "1 \<le> day d" "1 \<le> month d" "month d \<le> 12"
    using assms by (auto simp: valid_date_def month_length_def leap_day_def split: if_splits)
  then show "Date (year d) 1 1 \<le> d" "d \<le> Date (year d) 12 31"
    by (auto simp: date_le_alt less_date_def)
qed

lemma year_less: "year d < year e \<Longrightarrow> d < (e :: date)"
  by (simp add: less_date_def)

lemma year_le: "d \<le> (e :: date) \<Longrightarrow> year d \<le> year e"
  by (rule ccontr) (use year_less [of e d] in \<open>simp add: not_le\<close>)

lemma year_ends: "1 \<le> y \<Longrightarrow> y \<le> 9999 \<Longrightarrow> valid_date (Date y 1 1) \<and> valid_date (Date y 12 31)"
  by (simp add: valid_date_def month_length_def)

lemma ordinal_year_ends:
  "ordinal (Date y 1 1) = days_before_year y + 1" "ordinal (Date y 12 31) = days_before_year (y + 1)"
  using days_before_year_step [of y]
  by (simp_all add: ordinal_def days_before_month_def leap_day_def split: if_splits)

lemma next_year:
  assumes "1 \<le> y" "y < 9999"
  shows "add_days (Date y 12 31) 1 = Inr (Date (y + 1) 1 1)"
proof -
  have n: "ordinal (Date y 12 31) + 1 = ordinal (Date (y + 1) 1 1)"
    by (simp add: ordinal_year_ends)
  have v: "valid_date (Date (y + 1) 1 1)" using year_ends [of "y + 1"] assms by simp
  show ?thesis
    using ordinal_range [OF v] from_ordinal_ordinal [OF v] by (simp add: add_days_def Let_def n)
qed

lemma next_day:
  assumes "valid_date e" "e < Date 9999 12 31"
  obtains c where "add_days e 1 = Inr c" "valid_date c" "e < c"
proof -
  have m: "valid_date (Date 9999 12 31)" by code_simp
  have "ordinal e < ordinal (Date 9999 12 31)" using ordinal_strict_mono [OF assms(1) m assms(2)] .
  moreover have "ordinal (Date 9999 12 31) = max_ordinal" by code_simp
  ultimately obtain c where c: "add_days e 1 = Inr c"
    using ordinal_range [OF assms(1)] by (auto simp: add_days_def Let_def)
  with add_days_Inr [OF c] ordinal_less_iff [OF assms(1), of c] that show thesis by simp
qed

text \<open>
  The annual windows of a series are one window per calendar year, and they partition the range.
\<close>

lemma year_window_first:
  assumes "valid_date c" "valid_date e" "c \<le> e"
  shows "year_window c e (year c) = (c, min (Date (year c) 12 31) e)"
  using within_year [OF assms(1)] by (simp add: year_window_def max_def min.commute)

lemma year_window_later:
  "year c < y \<Longrightarrow> year_window c e y = (Date y 1 1, min e (Date y 12 31))"
  using year_less [of c "Date y 1 1"] by (simp add: year_window_def max.absorb2 less_imp_le)

lemma year_window_from:
  assumes "y < z" "z \<in> set [y + 1..k]"
  shows "year_window (Date (y + 1) 1 1) e z = (Date z 1 1, min e (Date z 12 31))"
  using assms year_window_later [of "Date (y + 1) 1 1" z e]
  by (cases "z = y + 1") (auto simp: year_window_def)

lemma annual_loop_windows:
  assumes "valid_date c" "valid_date e" "e < Date 9999 12 31" "c \<le> e" "nat (year e - year c) + 2 \<le> n"
  shows "annual_loop n c e = Some (Inr (map (year_window c e) [year c..year e]))"
  using assms
proof (induction n arbitrary: c)
  case (Suc n)
  show ?case
  proof (cases "year c = year e")
    case True
    then have w: "min (Date (year c) 12 31) e = e" using within_year(2) [OF Suc.prems(2)] by (simp add: min_def)
    obtain c' where c': "add_days e 1 = Inr c'" "e < c'" using next_day [OF Suc.prems(2,3)] by metis
    obtain k where "n = Suc k" using Suc.prems(5) by (cases n) auto
    moreover have "\<not> c' \<le> e" using c'(2) by (simp add: not_le)
    ultimately have "annual_loop n c' e = Some (Inr [])" by simp
    then show ?thesis
      using c' w True year_window_first [OF Suc.prems(1,2,4)] Suc.prems(4) by simp
  next
    case False
    with year_le [OF Suc.prems(4)] have lt: "year c < year e" by simp
    let ?y = "year c" and ?c = "Date (year c + 1) 1 1"
    have y: "1 \<le> ?y" "year e \<le> 9999" using Suc.prems(1,2) by (simp_all add: valid_date_def)
    have w: "min (Date ?y 12 31) e = Date ?y 12 31"
      using year_less [of "Date ?y 12 31" e] lt by (simp add: min.absorb1 less_imp_le)
    have step: "add_days (Date ?y 12 31) 1 = Inr ?c" using next_year y lt by simp
    have le: "?c \<le> e"
      using within_year(1) [OF Suc.prems(2)] year_less [of ?c e] lt by (cases "?y + 1 = year e") auto
    have "annual_loop n ?c e = Some (Inr (map (year_window ?c e) [?y + 1..year e]))"
      using Suc.IH [of ?c] Suc.prems(2,3,5) le lt year_ends [of "?y + 1"] y by simp
    also have "map (year_window ?c e) [?y + 1..year e] = map (year_window c e) [?y + 1..year e]"
      using year_window_from [of ?y _ "year e" e] year_window_later [of c _ e] by simp
    finally show ?thesis
      using step w Suc.prems(4) lt year_window_first [OF Suc.prems(1,2,4)]
      by (simp add: upto_rec1 [of ?y])
  qed
qed simp

lemma annual_windows_eq:
  assumes "valid_date s" "valid_date e" "e < Date 9999 12 31" "s \<le> e"
  shows "annual_windows s e = Some (Inr (map (year_window s e) [year s..year e]))"
  using assms annual_loop_windows [of s e "annual_fuel s e"]
  by (simp add: annual_windows_def annual_fuel_def not_less)

lemma in_year_window:
  assumes "valid_date d"
  shows "(s \<le> d \<and> d \<le> e \<and> year d = y) \<longleftrightarrow>
    (fst (year_window s e y) \<le> d \<and> d \<le> snd (year_window s e y))"
proof -
  have "year d = y \<longleftrightarrow> Date y 1 1 \<le> d \<and> d \<le> Date y 12 31"
    using within_year [OF assms] year_le [of "Date y 1 1" d] year_le [of d "Date y 12 31"] by auto
  then show ?thesis by (auto simp: year_window_def)
qed

text \<open>C18: The loop that freezes the annual windows of a series terminates with exactly one window per
  calendar year of the range, each the part of the range in that year; so every day of the range lies in
  one and only one window, and no other day in any.\<close>

theorem annual_windows_partition:
  assumes "valid_date s" and "valid_date e" and "e < Date 9999 12 31" and "s \<le> e"
  shows "\<exists>ws. annual_windows s e = Some (Inr ws) \<and> ws = map (year_window s e) [year s..year e]
    \<and> (\<forall>d. valid_date d \<longrightarrow> (\<exists>!w. w \<in> set ws \<and> fst w \<le> d \<and> d \<le> snd w) = (s \<le> d \<and> d \<le> e))
    \<and> (\<forall>d. valid_date d \<longrightarrow> (\<exists>w \<in> set ws. fst w \<le> d \<and> d \<le> snd w) = (s \<le> d \<and> d \<le> e))"
proof -
  let ?ws = "map (year_window s e) [year s..year e]"
  have year: "w \<in> set ?ws \<and> fst w \<le> d \<and> d \<le> snd w \<longleftrightarrow> w = year_window s e (year d) \<and> s \<le> d \<and> d \<le> e"
    if d: "valid_date d" for d w
  proof
    assume "w \<in> set ?ws \<and> fst w \<le> d \<and> d \<le> snd w"
    then obtain y where "w = year_window s e y" "fst (year_window s e y) \<le> d" "d \<le> snd (year_window s e y)" by auto
    with in_year_window [OF d, of s e y] show "w = year_window s e (year d) \<and> s \<le> d \<and> d \<le> e" by auto
  next
    assume "w = year_window s e (year d) \<and> s \<le> d \<and> d \<le> e"
    with in_year_window [OF d, of s e "year d"] year_le [of s d] year_le [of d e]
    show "w \<in> set ?ws \<and> fst w \<le> d \<and> d \<le> snd w" by auto
  qed
  have one: "(\<exists>!w. w \<in> set ?ws \<and> fst w \<le> d \<and> d \<le> snd w) = (s \<le> d \<and> d \<le> e)" if d: "valid_date d" for d
    unfolding year [OF d] by blast
  have any: "(\<exists>w \<in> set ?ws. fst w \<le> d \<and> d \<le> snd w) = (s \<le> d \<and> d \<le> e)" if d: "valid_date d" for d
    using year [OF d] unfolding Bex_def by blast
  show ?thesis
    by (rule exI [of _ ?ws]) (use annual_windows_eq [OF assms] one any in blast)
qed

theorem annual_windows_partition_witness:
  "annual_windows (Date 2022 3 1) (Date 2024 2 10) =
    Some (Inr [(Date 2022 3 1, Date 2022 12 31), (Date 2023 1 1, Date 2023 12 31), (Date 2024 1 1, Date 2024 2 10)])"
proof -
  have v: "valid_date (Date 2022 3 1)" "valid_date (Date 2024 2 10)" "Date 2024 2 10 < Date 9999 12 31"
    "Date 2022 3 1 \<le> Date 2024 2 10" by code_simp+
  have "map (year_window (Date 2022 3 1) (Date 2024 2 10)) [2022..2024] =
    [(Date 2022 3 1, Date 2022 12 31), (Date 2023 1 1, Date 2023 12 31), (Date 2024 1 1, Date 2024 2 10)]" by code_simp
  with annual_windows_partition [OF v] show ?thesis by auto
qed

section \<open>Windows of ten years\<close>

definition on_29_february :: "date \<Rightarrow> bool" where
  "on_29_february d \<longleftrightarrow> month d = 2 \<and> day d = 29"

definition ten_years_on :: "date \<Rightarrow> date" where
  "ten_years_on d = Date (year d + 10) (month d) (day d)"

fun chained :: "date \<Rightarrow> window list \<Rightarrow> date \<Rightarrow> bool" where
  "chained c [] e \<longleftrightarrow> \<not> c < e"
| "chained c ((a, b) # ws) e \<longleftrightarrow> a = c \<and> c < b \<and> b = min (ten_years_on c) e \<and> chained b ws e"

lemma ten_years_on_valid:
  assumes "valid_date c" "year c \<le> 9989" "\<not> on_29_february c"
  shows "mk_date (year c + MAX_RANGE_YEARS) (month c) (day c) = Inr (ten_years_on c)"
    "valid_date (ten_years_on c)" "\<not> on_29_february (ten_years_on c)" "c < ten_years_on c"
proof -
  show v: "valid_date (ten_years_on c)" using assms
    by (auto simp: ten_years_on_def valid_date_def on_29_february_def month_length_def leap_day_def split: if_splits)
  show "mk_date (year c + MAX_RANGE_YEARS) (month c) (day c) = Inr (ten_years_on c)"
    using v by (simp add: mk_date_def MAX_RANGE_YEARS_def ten_years_on_def Let_def)
  show "\<not> on_29_february (ten_years_on c)" using assms(3) by (simp add: on_29_february_def ten_years_on_def)
  show "c < ten_years_on c" by (cases c) (simp add: ten_years_on_def less_date_def)
qed

lemma no_29_february_ten_years_on:
  assumes "valid_date c" "on_29_february c"
  shows "mk_date (year c + MAX_RANGE_YEARS) (month c) (day c) = Inl ValueError"
proof -
  have "year c mod 4 = 0" using assms
    by (auto simp: on_29_february_def valid_date_def month_length_def leap_day_def is_leap_def split: if_splits)
  then have "(year c + 10) mod 4 \<noteq> 0" by presburger
  then show ?thesis using assms(2)
    by (auto simp: mk_date_def valid_date_def MAX_RANGE_YEARS_def on_29_february_def month_length_def leap_day_def is_leap_def)
qed

lemma range_loop_chained:
  assumes "valid_date c" "\<not> on_29_february c" "year e \<le> 9989" "nat (year e - year c) + 2 \<le> n"
  shows "\<exists>ws. range_loop n c e = Some (Inr ws) \<and> chained c ws e"
  using assms
proof (induction n arbitrary: c)
  case (Suc n)
  show ?case
  proof (cases "c < e")
    case True
    have y: "year c \<le> year e" using True year_le by simp
    note t = ten_years_on_valid [OF Suc.prems(1) _ Suc.prems(2)]
    have "\<exists>ws. range_loop n (min (ten_years_on c) e) e = Some (Inr ws) \<and> chained (min (ten_years_on c) e) ws e"
    proof (cases "ten_years_on c \<le> e")
      case True
      have "year (ten_years_on c) = year c + 10" by (simp add: ten_years_on_def)
      then show ?thesis
        using True y Suc.prems(3,4) t year_le [OF True] by (simp add: min_def) (rule Suc.IH, auto)
    next
      case False
      obtain m where "n = Suc m" using Suc.prems(4) y by (cases n) auto
      then show ?thesis using False by (simp add: min_def)
    qed
    then show ?thesis using True t y Suc.prems(3) by (auto simp: min_def)
  qed simp
qed simp

lemma chained_covers: "chained c ws e \<Longrightarrow> c \<le> d \<Longrightarrow> d < e \<Longrightarrow> \<exists>w \<in> set ws. fst w \<le> d \<and> d < snd w"
proof (induction c ws e rule: chained.induct)
  case (2 c a b ws e)
  then show ?case by (cases "d < b") (auto simp: not_less)
qed simp

text \<open>C29: The loop that splits a range into windows of ten years terminates. A range that starts on a
  29 February raises a \<open>ValueError\<close>, since ten years on that day does not exist; any other range is split
  into windows that follow each other without a gap from its start to its end, each of ten years except the
  last, which ends with the range.\<close>

theorem ten_year_windows_terminate:
  assumes "valid_date s" and "year e \<le> 9989"
  shows "if s < e \<and> on_29_february s then range_windows s e = Some (Inl ValueError)
    else \<exists>ws. range_windows s e = Some (Inr ws) \<and> chained s ws e
      \<and> (\<forall>d. s \<le> d \<and> d < e \<longrightarrow> (\<exists>w \<in> set ws. fst w \<le> d \<and> d < snd w))"
proof (cases "on_29_february s")
  case False
  with range_loop_chained [OF assms(1) False assms(2) order_refl] show ?thesis
    using chained_covers by (fastforce simp: range_windows_def simp del: range_loop.simps)
next
  case True
  have "range_windows s e = (if s < e then Some (Inl ValueError) else Some (Inr []))"
    using no_29_february_ten_years_on [OF assms(1) True] by (simp add: range_windows_def add_2_eq_Suc')
  then show ?thesis using True by auto
qed

theorem ten_year_windows_terminate_witness:
  "range_windows (Date 2012 2 29) (Date 2024 1 1) = Some (Inl ValueError)
   \<and> (\<exists>ws. range_windows (Date 2012 3 1) (Date 2024 1 1) = Some (Inr ws) \<and> chained (Date 2012 3 1) ws (Date 2024 1 1)
        \<and> ws = [(Date 2012 3 1, Date 2022 3 1), (Date 2022 3 1, Date 2024 1 1)])"
proof -
  have d: "valid_date (Date 2012 2 29)" "valid_date (Date 2012 3 1)" "year (Date 2024 1 1) \<le> 9989"
    "Date 2012 2 29 < Date 2024 1 1" "on_29_february (Date 2012 2 29)" "\<not> on_29_february (Date 2012 3 1)" by code_simp+
  have "range_windows (Date 2012 3 1) (Date 2024 1 1) =
    Some (Inr [(Date 2012 3 1, Date 2022 3 1), (Date 2022 3 1, Date 2024 1 1)])" by code_simp
  with ten_year_windows_terminate [OF d(1,3)] ten_year_windows_terminate [OF d(2,3)] d(4-6) show ?thesis by auto
qed

end
