(* ===== verification/TaskPayloads.thy ===== *)
theory TaskPayloads
  imports IngestionPolicy Attempts
begin

text \<open>
  Running one source task (\<open>refresh.py\<close>: \<open>_payload_counts\<close>, \<open>_payload_error_code\<close>, \<open>_error_code\<close>,
  \<open>run_refresh_task_detailed\<close>). A payload is a dictionary; \<open>str_of\<close> is \<open>str\<close> of a value that is not
  text. What a task does to the database while it runs is its own function on the database.
\<close>

type_synonym 'a action = "db \<Rightarrow> (exn + 'a) \<times> db"

record refresh_task =
  rt_name :: string
  rt_provider :: string
  rt_hostname :: string
  rt_expected :: int
  rt_run :: "dict action"

record execution =
  te_result :: dict
  te_series :: int
  te_records :: int
  te_duration :: int

section \<open>Counting what a payload committed\<close>

type_synonym counts = "int \<times> int \<times> bool"

definition count_value :: "string \<Rightarrow> json \<Rightarrow> counts \<Rightarrow> counts" where
  "count_value key v c =
     (let (populated, records, gap) = c
      in case v of
           JObj o' \<Rightarrow>
             if truthy_opt (map_of o' ''error'') then
               (case map_of o' ''committed_count'' of
                  Some (JNum n) \<Rightarrow> if 0 < n then (populated + 1, records + n, True) else (populated, records, True)
                | _ \<Rightarrow> (populated, records, True))
             else if o' \<noteq> [] then (populated + 1, records + int (length o'), gap)
             else (populated, records, True)
         | JArr xs \<Rightarrow>
             if xs \<noteq> [] then (populated + 1, records + int (length xs), gap) else (populated, records, True)
         | JNum n \<Rightarrow>
             if key = ''rows'' \<and> 0 < n then (populated + 1, records + n, gap) else c
         | _ \<Rightarrow> c)"

definition payload_counts :: "dict \<Rightarrow> counts" where
  "payload_counts p =
     (if truthy_opt (map_of p ''error'') then (0, 0, True)
      else if map_of p ''receipt_replay'' = Some (JBool True) then (1, 0, False)
      else fold (\<lambda>(k, v). count_value k v) p (0, 0, False))"

definition reported_error :: "json \<Rightarrow> bool" where
  "reported_error v = (case v of JObj o' \<Rightarrow> truthy_opt (map_of o' ''error'') | _ \<Rightarrow> False)"

definition json_str :: "(json \<Rightarrow> string) \<Rightarrow> json \<Rightarrow> string" where
  "json_str str_of v = (case v of JStr s \<Rightarrow> s | _ \<Rightarrow> str_of v)"

definition payload_error_code :: "(json \<Rightarrow> string) \<Rightarrow> dict \<Rightarrow> string option" where
  "payload_error_code str_of p =
     (if truthy_opt (map_of p ''error'') then
        Some (take 80 (case map_of p ''error_code'' of
           Some v \<Rightarrow> if truthy v then json_str str_of v else ''ProviderReportedError''
         | None \<Rightarrow> ''ProviderReportedError''))
      else if list_ex (\<lambda>(k, v). reported_error v) p then Some ''PartialSourceFailures''
      else None)"

definition exn_error_code :: "exn \<Rightarrow> string" where
  "exn_error_code e =
     (case exn_sgs_code e of Some c \<Rightarrow> c
      | None \<Rightarrow> (case exn_class e of
            IsHttpStatus status \<Rightarrow> ''HTTPStatusError:'' @ show_int status
          | _ \<Rightarrow> take 80 (exn_type e)))"

section \<open>The task boundary\<close>

text \<open>What the \<open>try\<close> block and its handler leave in the local variables.\<close>

record outcome =
  oc_status :: string
  oc_series :: int
  oc_records :: int
  oc_code :: "string option"
  oc_category :: "string option"
  oc_retry :: "string option"
  oc_payload :: dict

definition payload_outcome :: "(json \<Rightarrow> string) \<Rightarrow> dict \<Rightarrow> outcome" where
  "payload_outcome str_of p =
     (let (series, records, gap) = payload_counts p;
          code = payload_error_code str_of p;
          result = (\<lambda>status code category. \<lparr>oc_status = status, oc_series = series, oc_records = records,
             oc_code = code, oc_category = category, oc_retry = None, oc_payload = p\<rparr>)
      in if map_of p ''receipt_replay'' = Some (JBool True) then result ''ok'' None None
         else if truthy_opt (map_of p ''error'') then
           result ''error'' (Some (or_text code ''ProviderReportedError'')) (text_of (map_of p ''error_category''))
         else if series = 0 \<or> records = 0 then
           result ''error'' (Some (or_text code ''NoCommittedObservations'')) None
         else if gap then result ''partial'' code None
         else result ''ok'' None None)"

definition exn_outcome :: "exn \<Rightarrow> outcome" where
  "exn_outcome e =
     (let code = exn_error_code e;
          retry = map_option isoformat (exn_retry e);
          category = (case exn_explicit e of
              Some c \<Rightarrow> Some (category_text c)
            | None \<Rightarrow> (case exn_class e of
                  IsHttpStatus _ \<Rightarrow> Some (category_text (classify_exception e)) | _ \<Rightarrow> None))
      in \<lparr>oc_status = ''error'',
          oc_series = (case exn_committed e of Some n \<Rightarrow> (if 0 < n then 1 else 0) | None \<Rightarrow> 0),
          oc_records = (case exn_committed e of Some n \<Rightarrow> n | None \<Rightarrow> 0),
          oc_code = Some (if code = ''RetryBudgetExceeded'' \<and> retry \<noteq> None then ''RetryDeferred'' else code),
          oc_category = category, oc_retry = retry, oc_payload = []\<rparr>)"

definition outcome_of :: "(json \<Rightarrow> string) \<Rightarrow> exn + dict \<Rightarrow> outcome" where
  "outcome_of str_of r = (case r of Inl e \<Rightarrow> exn_outcome e | Inr p \<Rightarrow> payload_outcome str_of p)"

definition deferral_codes :: "string list" where
  "deferral_codes = [''CircuitOpen'', ''RetryDeferred'']"

definition task_result_base :: "string \<Rightarrow> string \<Rightarrow> string option \<Rightarrow> dict" where
  "task_result_base name status code =
     [(''name'', JStr name), (''status'', JStr status), (''error_code'', json_opt code)]"

definition result_of :: "string \<Rightarrow> outcome \<Rightarrow> dict" where
  "result_of name o' =
     (let told = text_of (map_of (oc_payload o') ''retry_not_before'');
          code = (if oc_code o' = Some ''RetryBudgetExceeded'' \<and> told \<noteq> None then Some ''RetryDeferred'' else oc_code o');
          base = task_result_base name (oc_status o') code;
          deferred = (case code of Some c \<Rightarrow> c \<in> set deferral_codes | None \<Rightarrow> False);
          retry = (if \<not> deferred then None else case told of Some t \<Rightarrow> Some t | None \<Rightarrow> oc_retry o')
      in base @ (case retry of Some t \<Rightarrow> [(''retry_not_before'', JStr t)] | None \<Rightarrow> [])
              @ (case oc_category o' of Some c \<Rightarrow> [(''error_category'', JStr c)] | None \<Rightarrow> []))"

text \<open>The clock readings of one execution: its start, its end and the duration in milliseconds.\<close>

record run_clock =
  ck_started :: timestamp
  ck_finished :: timestamp
  ck_duration :: int

definition finish_of :: "string \<Rightarrow> outcome \<Rightarrow> run_clock \<Rightarrow> task_finish" where
  "finish_of name o' ck =
     \<lparr>tf_task = name, tf_status = oc_status o', tf_series = oc_series o', tf_records = oc_records o',
      tf_duration = ck_duration ck, tf_error = oc_code o', tf_finished = ck_finished ck,
      tf_stamp_success = (map_of (oc_payload o') ''receipt_replay'' \<noteq> Some (JBool True))\<rparr>"

definition run_refresh_task_detailed ::
    "(json \<Rightarrow> string) \<Rightarrow> attempt_ctx option \<Rightarrow> run_clock \<Rightarrow> refresh_task \<Rightarrow> db \<Rightarrow> (run_error + execution) \<times> db" where
  "run_refresh_task_detailed str_of active ck task d =
     (let d1 = record_refresh_task_start (rt_name task) (rt_provider task) (rt_expected task) (ck_started ck) d;
          (r, d2) = rt_run task d1;
          o' = outcome_of str_of r
      in case record_refresh_task_finish active (ck_finished ck) (finish_of (rt_name task) o' ck) d2 of
           Inl e \<Rightarrow> (Inl e, d2)
         | Inr d3 \<Rightarrow>
             (Inr \<lparr>te_result = result_of (rt_name task) o', te_series = oc_series o',
                   te_records = oc_records o', te_duration = ck_duration ck\<rparr>, d3))"

text \<open>What a task may report: nothing is called a success that committed nothing.\<close>

lemma count_value_nonneg:
  assumes "count_value k v (a, b, g) = (a', b', g')" "0 \<le> a" "0 \<le> b"
  shows "a \<le> a' \<and> b \<le> b' \<and> (g \<longrightarrow> g')"
  using assms by (auto simp: count_value_def split: json.splits if_splits option.splits)

lemma fold_counts_nonneg:
  "fold (\<lambda>(k, v). count_value k v) p (a, b, g) = (a', b', g') \<Longrightarrow> 0 \<le> a \<Longrightarrow> 0 \<le> b \<Longrightarrow> 0 \<le> a' \<and> 0 \<le> b'"
proof (induction p arbitrary: a b g)
  case (Cons kv p)
  obtain x y z where s: "count_value (fst kv) (snd kv) (a, b, g) = (x, y, z)" by (metis prod_cases3)
  from count_value_nonneg [OF this] Cons s show ?case by (force simp: case_prod_beta)
qed simp

lemma payload_counts_nonneg: "payload_counts p = (a, b, g) \<Longrightarrow> 0 \<le> a \<and> 0 \<le> b"
proof -
  assume c: "payload_counts p = (a, b, g)"
  consider "a = 0 \<and> b = 0" | "a = 1 \<and> b = 0" | "fold (\<lambda>(k, v). count_value k v) p (0, 0, False) = (a, b, g)"
    using c unfolding payload_counts_def by (metis prod.inject)
  then show ?thesis
  proof cases
    case 3
    from fold_counts_nonneg [OF this] show ?thesis by simp
  qed simp_all
qed

definition replayed :: "dict \<Rightarrow> bool" where
  "replayed p \<longleftrightarrow> map_of p ''receipt_replay'' = Some (JBool True)"

lemma payload_outcome_cases:
  fixes str_of p
  defines "o' \<equiv> payload_outcome str_of p"
  shows "oc_payload o' = p \<and> oc_retry o' = None \<and>
    (oc_status o' = ''ok'' \<and> oc_code o' = None \<and> (replayed p \<or> 0 < oc_series o' \<and> 0 < oc_records o')
     \<or> oc_status o' = ''partial'' \<and> \<not> replayed p \<and> 0 < oc_series o' \<and> 0 < oc_records o'
     \<or> oc_status o' = ''error'' \<and> oc_code o' \<noteq> None \<and> \<not> replayed p)"
proof -
  obtain a b g where c: "payload_counts p = (a, b, g)" by (metis prod_cases3)
  have n: "0 \<le> a" "0 \<le> b" using payload_counts_nonneg [OF c] by simp_all
  consider "replayed p" | "\<not> replayed p" "truthy_opt (map_of p ''error'')"
    | "\<not> replayed p" "\<not> truthy_opt (map_of p ''error'')" "a = 0 \<or> b = 0"
    | "\<not> replayed p" "\<not> truthy_opt (map_of p ''error'')" "0 < a" "0 < b"
    using n by fastforce
  then show ?thesis
    by cases (simp_all add: o'_def payload_outcome_def c replayed_def [symmetric])
qed

lemma exn_outcome_sel:
  "oc_status (exn_outcome e) = ''error''" "oc_code (exn_outcome e) \<noteq> None" "oc_payload (exn_outcome e) = []"
  by (simp_all add: exn_outcome_def Let_def)

lemma result_of_sel:
  "map_of (result_of name o') ''status'' = Some (JStr (oc_status o'))"
  "oc_code o' = None \<Longrightarrow> map_of (result_of name o') ''error_code'' = Some JNull"
  by (auto simp: result_of_def task_result_base_def Let_def json_opt_def)

lemma result_of_retry:
  assumes "map_of (result_of name o') ''retry_not_before'' \<noteq> None"
  shows "\<exists>c \<in> set deferral_codes. map_of (result_of name o') ''error_code'' = Some (JStr c)"
proof -
  let ?c = "if oc_code o' = Some ''RetryBudgetExceeded'' \<and> text_of (map_of (oc_payload o') ''retry_not_before'') \<noteq> None
    then Some ''RetryDeferred'' else oc_code o'"
  have "map_of (result_of name o') ''error_code'' = Some (json_opt ?c)"
    by (simp add: result_of_def task_result_base_def Let_def)
  moreover have "\<exists>c. ?c = Some c \<and> c \<in> set deferral_codes"
    using assms by (auto simp: result_of_def task_result_base_def Let_def split: if_splits option.splits)
  ultimately show ?thesis by (auto simp: json_opt_def)
qed

lemma finish_task_row_success:
  assumes "db_tasks (finish_task_row f d) (tf_task f) = Some row'" "db_tasks d (tf_task f) = Some row"
    and "ts_last_success row' \<noteq> ts_last_success row"
  shows "tf_stamp_success f \<and> 0 < tf_series f \<and> tf_status f \<in> {''ok'', ''partial''}
    \<and> ts_last_success row' = Some (tf_finished f)"
  using assms by (auto simp: finish_task_row_def split: if_splits)


definition ex_payload_task :: refresh_task where
  "ex_payload_task = \<lparr>rt_name = ''focus'', rt_provider = ''focus'', rt_hostname = ''olinda.bcb.gov.br'', rt_expected = 5,
     rt_run = (\<lambda>d. (Inr [(''IPCA'', JArr [JNum 1, JNum 2]), (''Selic'', JArr [])], d))\<rparr>"


end
