(* ===== verification/SgsRegistry.thy ===== *)
theory SgsRegistry
  imports Windows
begin

text \<open>
  What the planner looks up: the acquisition contracts of the SGS series (\<open>source_contracts.py\<close>) and the
  registry of documented start periods (\<open>db/sgs_availability.py\<close>). The hash of a registry snapshot goes
  through the codec of the plan.
\<close>

section \<open>Acquisition contracts\<close>

fun unit_text :: "unit_kind \<Rightarrow> string" where
  "unit_text U_PCT = ''pct''"
| "unit_text U_PCT_GDP = ''pct_gdp''"
| "unit_text U_PCT_ANNUAL = ''pct_annual''"
| "unit_text U_INDEX = ''index''"
| "unit_text U_BRL = ''brl''"
| "unit_text U_BRL_MILLION = ''brl_million''"
| "unit_text U_USD_MILLION = ''usd_million''"
| "unit_text U_RATIO = ''ratio''"

fun group_text :: "catalog_group \<Rightarrow> string" where
  "group_text IPCA_GROUPS = ''IPCA_GROUPS''"
| "group_text IPCA_NATURE = ''IPCA_NATURE''"
| "group_text IPCA_CORE = ''IPCA_CORE''"
| "group_text IPCA_PRICES = ''IPCA_PRICES''"
| "group_text INTEREST_RATES = ''INTEREST_RATES''"
| "group_text INFLATION = ''INFLATION''"
| "group_text ACTIVITY = ''ACTIVITY''"
| "group_text ACTIVITY_SECTORAL = ''ACTIVITY_SECTORAL''"
| "group_text FISCAL = ''FISCAL''"
| "group_text CREDIT = ''CREDIT''"
| "group_text EXCHANGE = ''EXCHANGE''"
| "group_text EXTERNAL = ''EXTERNAL''"
| "group_text COMPLEMENTARY = ''COMPLEMENTARY''"

definition SCHEMA_VERSION :: string where
  "SCHEMA_VERSION = ''acquisition-contract-v1''"

definition SGS_PIB_SCHEMA_VERSION :: string where
  "SGS_PIB_SCHEMA_VERSION = ''acquisition-contract-v2''"

text \<open>The fields of a contract the SGS code reads; the identity is one of the two tuples in use.\<close>

datatype identity = PointIdentity | PeriodIdentity

record contract =
  ct_version :: string
  ct_id :: string
  ct_identity :: identity
  ct_unit :: string
  ct_frequency :: string

definition sgs_contract_id :: "int \<Rightarrow> string" where
  "sgs_contract_id code = ''sgs:'' @ show_int code"

definition spec_contract :: "indicator_spec \<Rightarrow> contract" where
  "spec_contract s =
     \<lparr>ct_version = SCHEMA_VERSION, ct_id = sgs_contract_id (is_code s),
      ct_identity = (if is_code s = 226 then PeriodIdentity else PointIdentity),
      ct_unit = (if is_code s = 226 then ''pct_period'' else unit_text (is_unit s)),
      ct_frequency = (if is_code s = 226 then ''monthly_period'' else frequency_text (is_frequency s))\<rparr>"

definition pib_contract :: contract where
  "pib_contract = \<lparr>ct_version = SGS_PIB_SCHEMA_VERSION, ct_id = ''sgs:1207'', ct_identity = PointIdentity,
     ct_unit = ''brl'', ct_frequency = ''annual''\<rparr>"

definition SGS_CONTRACTS :: "contract list" where
  "SGS_CONTRACTS = map spec_contract (filter (\<lambda>s. is_code s \<noteq> 1207) SPECS) @ [pib_contract]"

definition LEGACY_SGS_PIB_CONTRACT :: contract where
  "LEGACY_SGS_PIB_CONTRACT = \<lparr>ct_version = SCHEMA_VERSION, ct_id = ''sgs:1207'', ct_identity = PointIdentity,
     ct_unit = ''brl_million'', ct_frequency = ''quarterly''\<rparr>"

definition contract_is :: "int \<Rightarrow> string \<Rightarrow> contract \<Rightarrow> bool" where
  "contract_is code version ct \<longleftrightarrow> ct_id ct = sgs_contract_id code \<and> ct_version ct = version"

definition resolve_sgs_contract :: "int \<Rightarrow> string \<Rightarrow> contract option" where
  "resolve_sgs_contract code version =
     (if code = 1207 \<and> version = SCHEMA_VERSION then Some LEGACY_SGS_PIB_CONTRACT
      else find (contract_is code version) SGS_CONTRACTS)"

definition is_current_sgs_contract :: "int \<Rightarrow> string \<Rightarrow> bool" where
  "is_current_sgs_contract code version \<longleftrightarrow> list_ex (contract_is code version) SGS_CONTRACTS"

definition sgs_contract_semantics_match :: "int \<Rightarrow> string \<Rightarrow> string \<Rightarrow> string \<Rightarrow> bool" where
  "sgs_contract_semantics_match code version un freq =
     (case resolve_sgs_contract code version of
        None \<Rightarrow> False
      | Some ct \<Rightarrow> ct_unit ct = un
          \<and> freq = (if code = 226 \<and> ct_frequency ct = ''monthly_period'' then ''monthly'' else ct_frequency ct))"

definition SGS_POINT_IDENTITY_KIND :: string where
  "SGS_POINT_IDENTITY_KIND = ''point''"

definition SGS_FULL_PERIOD_IDENTITY_KIND :: string where
  "SGS_FULL_PERIOD_IDENTITY_KIND = ''full_period''"

fun identity_kind :: "identity \<Rightarrow> string" where
  "identity_kind PointIdentity = SGS_POINT_IDENTITY_KIND"
| "identity_kind PeriodIdentity = SGS_FULL_PERIOD_IDENTITY_KIND"

definition current_sgs_unit_metadata_matches ::
    "int \<Rightarrow> string \<Rightarrow> string \<Rightarrow> string \<Rightarrow> string \<Rightarrow> string \<Rightarrow> string \<Rightarrow> bool" where
  "current_sgs_unit_metadata_matches code cid version un freq ident meth \<longleftrightarrow>
     is_current_sgs_contract code version \<and> cid = sgs_contract_id code \<and>
     (case resolve_sgs_contract code version of
        None \<Rightarrow> False
      | Some ct \<Rightarrow> sgs_contract_semantics_match code version un freq
          \<and> ident = (if ct_identity ct = PeriodIdentity then ''full_period'' else ''point'')
          \<and> meth = (if ct_identity ct = PeriodIdentity then ''full_period'' else ''date_range''))"

definition sgs_window_contract_metadata :: "int \<Rightarrow> string \<Rightarrow> string \<Rightarrow> py_error + dict" where
  "sgs_window_contract_metadata code start_date end_date =
     (case find (\<lambda>ct. ct_id ct = sgs_contract_id code) SGS_CONTRACTS of
        None \<Rightarrow> Inl ValueError
      | Some ct \<Rightarrow> Inr
          [(''series_code'', JNum code), (''start_date'', JStr start_date), (''end_date'', JStr end_date),
           (''contract_version'', JStr (ct_version ct)),
           (''identity_kind'', JStr (identity_kind (ct_identity ct))), (''unit'', JStr (ct_unit ct))])"

section \<open>Documented start periods\<close>

definition REGISTRY_VERSION :: string where
  "REGISTRY_VERSION = ''bcb-sgs-start-periods-v2''"

definition V1_REGISTRY_VERSION :: string where
  "V1_REGISTRY_VERSION = ''bcb-sgs-start-periods-v1''"

definition SUPPORTED_REGISTRY_VERSIONS :: "string list" where
  "SUPPORTED_REGISTRY_VERSIONS = [V1_REGISTRY_VERSION, REGISTRY_VERSION]"

definition OBSERVED_ON :: date where
  "OBSERVED_ON = Date 2026 10 29"

definition V1_OBSERVED_ON :: date where
  "V1_OBSERVED_ON = Date 2026 10 28"

definition url_head :: string where
  "url_head = ''https://www3.bcb.gov.br/sgspub/consultarmetadados/consultarMetadadosSeries.do?hdOidSerieSelecionada=''"

definition url_tail :: string where
  "url_tail = ''&method=consultarMetadadosSeriesInternet''"

definition SOURCE_URL_TEMPLATE :: string where
  "SOURCE_URL_TEMPLATE = url_head @ ''{code}'' @ url_tail"

definition source_url :: "int \<Rightarrow> string" where
  "source_url code = url_head @ show_int code @ url_tail"

definition DETAIL_URL :: string where
  "DETAIL_URL = ''https://www3.bcb.gov.br/sgspub/JSP/consultarmetadados/cmiDadosBasicos.jsp''"

record availability =
  av_code :: int
  av_documented :: date
  av_first :: date
  av_source_url :: string
  av_detail_url :: string
  av_observed_on :: date
  av_basis :: string
  av_registry_version :: string
  av_registry_sha :: string

definition V1_STARTS :: "(int \<times> string) list" where
  "V1_STARTS =
     [(1, ''28/11/1984''), (11, ''04/06/1986''), (12, ''06/03/1986''), (188, ''01/04/1979''),
      (189, ''01/06/1989''), (190, ''01/02/1944''), (192, ''01/02/1944''), (226, ''01/02/1991''),
      (432, ''05/03/1999''), (433, ''01/01/1980''), (1207, ''31/12/1962''), (1635, ''01/01/1991''),
      (1636, ''01/01/1991''), (1637, ''01/01/1991''), (1638, ''01/01/1991''), (1639, ''01/08/1999''),
      (1640, ''01/08/1999''), (1641, ''01/01/1991''), (1642, ''01/01/1991''), (1643, ''01/08/1999''),
      (1788, ''31/01/1946''), (1835, ''31/07/1988''), (3546, ''31/12/1970''), (4447, ''01/01/1991''),
      (4448, ''01/01/1991''), (4449, ''01/01/1991''), (4466, ''01/12/1991''), (4513, ''01/12/2001''),
      (4639, ''31/01/1991''), (5727, ''01/11/2002''), (5760, ''01/11/2002''), (5793, ''01/11/2002''),
      (7478, ''01/05/2000''), (10813, ''28/11/1984''), (10841, ''01/01/1991''),
      (10842, ''01/01/1991''), (10843, ''01/01/1991''), (10844, ''01/01/1991''),
      (11428, ''01/01/1991''), (13522, ''01/12/1980''), (13762, ''01/12/2006''),
      (16122, ''01/01/1995''), (20716, ''01/03/2011''), (21084, ''01/03/2011''),
      (21619, ''31/12/1998''), (22707, ''01/01/1995''), (22885, ''01/01/1995''),
      (22905, ''01/01/1995''), (23079, ''01/01/1995''), (23080, ''01/01/1995''),
      (24363, ''01/01/2003''), (24364, ''01/01/2003''), (24369, ''01/03/2012''),
      (24382, ''01/03/2012''), (25353, ''01/01/2013''), (27574, ''01/01/1998''),
      (27788, ''03/12/2001''), (27810, ''31/07/2001''), (29034, ''01/03/2005''),
      (29037, ''01/01/2005''), (29602, ''01/01/2003''), (29604, ''01/01/2003''),
      (29606, ''01/01/2003''), (29608, ''01/01/2003'')]"

definition RAW_STARTS :: "(int \<times> string) list" where
  "RAW_STARTS = V1_STARTS @ [(20573, ''01/03/2007''), (20574, ''01/03/2007''), (20587, ''01/03/2007''),
      (20588, ''01/03/2007'')]"

definition registry_hash :: "codec \<Rightarrow> string \<Rightarrow> date \<Rightarrow> (int \<times> string) list \<Rightarrow> string" where
  "registry_hash c version observed starts =
     sha256 c (dumps c (JObj (sort_key fst
       [(''version'', JStr version), (''observed_on'', JStr (date_isoformat observed)),
        (''selection_url'', JStr SOURCE_URL_TEMPLATE), (''detail_url'', JStr DETAIL_URL),
        (''starts'', JObj (map (\<lambda>(k, v). (show_int k, JStr v)) (sort_key fst starts)))])))"

definition V1_HASH :: "codec \<Rightarrow> string" where
  "V1_HASH c = registry_hash c V1_REGISTRY_VERSION V1_OBSERVED_ON V1_STARTS"

definition REGISTRY_SHA256 :: "codec \<Rightarrow> string" where
  "REGISTRY_SHA256 c = registry_hash c REGISTRY_VERSION OBSERVED_ON RAW_STARTS"

definition SUPPORTED_REGISTRY_SHA256 :: "codec \<Rightarrow> string list" where
  "SUPPORTED_REGISTRY_SHA256 c = [V1_HASH c, REGISTRY_SHA256 c]"

definition registry_of :: "codec \<Rightarrow> string \<Rightarrow> ((int \<times> string) list \<times> string) option" where
  "registry_of c version =
     (if version = V1_REGISTRY_VERSION then Some (V1_STARTS, V1_HASH c)
      else if version = REGISTRY_VERSION then Some (RAW_STARTS, REGISTRY_SHA256 c)
      else None)"

definition first_period :: "int \<Rightarrow> string \<Rightarrow> date \<Rightarrow> date" where
  "first_period code freq documented =
     (if code = 1207 then Date (year documented) 1 1
      else if code = 226 \<or> freq \<in> {''daily'', ''market'', ''full_period''} then documented
      else Date (year documented) (month documented) 1)"

definition availability_for_version ::
    "codec \<Rightarrow> string \<Rightarrow> int \<Rightarrow> string \<Rightarrow> py_error + availability option" where
  "availability_for_version c version code freq =
     (case registry_of c version of
        None \<Rightarrow> Inr None
      | Some (starts, sha) \<Rightarrow>
          (case map_of starts code of
             None \<Rightarrow> Inr None
           | Some raw \<Rightarrow>
               bindE (parse_slash_date raw) (\<lambda>documented. Inr (Some
                 \<lparr>av_code = code, av_documented = documented, av_first = first_period code freq documented,
                  av_source_url = source_url code, av_detail_url = DETAIL_URL,
                  av_observed_on = (if version = V1_REGISTRY_VERSION then V1_OBSERVED_ON else OBSERVED_ON),
                  av_basis = ''documented_start'', av_registry_version = version, av_registry_sha = sha\<rparr>))))"

definition availability_for :: "codec \<Rightarrow> int \<Rightarrow> string \<Rightarrow> py_error + availability option" where
  "availability_for c code freq = availability_for_version c REGISTRY_VERSION code freq"

definition registered_series_codes :: "int list" where
  "registered_series_codes = sort (map fst RAW_STARTS)"

end
