(* ===== verification/SgsPlan.thy ===== *)
theory SgsPlan
  imports SgsRegistry "HOL-Library.Product_Lexorder"
begin

text \<open>
  Building an SGS plan (\<open>build_sgs_plan\<close> and its helpers in \<open>db/sgs_refresh_plan.py\<close>). The capture times
  of receipts are the UTC times the receipts table stores, so two of them compare by their instants.
\<close>

datatype plan_error = Unsupported | PyFail py_error | Rejected run_error

definition lift :: "py_error + 'a \<Rightarrow> plan_error + 'a" where
  "lift r = (case r of Inl e \<Rightarrow> Inl (PyFail e) | Inr x \<Rightarrow> Inr x)"

lemma lift_Inr_iff [simp]: "lift r = Inr x \<longleftrightarrow> r = Inr x"
  by (simp add: lift_def split: sum.splits)

lemma lift_Inr [simp]: "lift (Inr x) = Inr x"
  by (simp add: lift_def)

section \<open>Policy tables\<close>

datatype lookback = Days int | Months int | Years int

fun LOOKBACK :: "frequency \<Rightarrow> lookback" where
  "LOOKBACK F_DAILY = Days 90"
| "LOOKBACK F_MARKET = Days 90"
| "LOOKBACK F_MONTHLY = Months 24"
| "LOOKBACK F_MOVING_QUARTER = Months 24"
| "LOOKBACK F_QUARTERLY = Months 24"
| "LOOKBACK F_ANNUAL = Years 6"

fun APPROVED_GROUP_START :: "catalog_group \<Rightarrow> date" where
  "APPROVED_GROUP_START INTEREST_RATES = Date 2015 1 1"
| "APPROVED_GROUP_START INFLATION = Date 2015 1 1"
| "APPROVED_GROUP_START ACTIVITY = Date 2015 1 1"
| "APPROVED_GROUP_START ACTIVITY_SECTORAL = Date 2015 1 1"
| "APPROVED_GROUP_START FISCAL = Date 2001 1 1"
| "APPROVED_GROUP_START CREDIT = Date 2011 1 1"
| "APPROVED_GROUP_START EXCHANGE = Date 2015 1 1"
| "APPROVED_GROUP_START EXTERNAL = Date 2015 1 1"
| "APPROVED_GROUP_START COMPLEMENTARY = Date 2015 1 1"
| "APPROVED_GROUP_START IPCA_GROUPS = Date 1990 1 1"
| "APPROVED_GROUP_START IPCA_NATURE = Date 1990 1 1"
| "APPROVED_GROUP_START IPCA_CORE = Date 1990 1 1"
| "APPROVED_GROUP_START IPCA_PRICES = Date 1990 1 1"

section \<open>Dates of a scope\<close>

definition days_in_month :: "int \<Rightarrow> int \<Rightarrow> py_error + int" where
  "days_in_month y m =
     (if m = 12 then Inr 31
      else bindE (mk_date y (m + 1) 1) (\<lambda>a. bindE (mk_date y m 1) (\<lambda>b. Inr (days_between a b))))"

definition month_shift :: "date \<Rightarrow> int \<Rightarrow> py_error + date" where
  "month_shift d months =
     (let ix = year d * 12 + month d - 1 - months; y = ix div 12; m = ix mod 12 + 1
      in bindE (days_in_month y m) (\<lambda>n. mk_date y m (min (day d) n)))"

definition lookback_start :: "int \<Rightarrow> frequency \<Rightarrow> date \<Rightarrow> py_error + date" where
  "lookback_start code f as_of =
     (if code = 226 then add_days as_of (- 90)
      else case LOOKBACK f of
        Days n \<Rightarrow> add_days as_of (- n)
      | Months n \<Rightarrow> bindE (month_shift as_of n) (\<lambda>s.
          if f = F_MONTHLY \<or> f = F_MOVING_QUARTER then mk_date (year s) (month s) 1
          else mk_date (year s) ((month s - 1) div 3 * 3 + 1) 1)
      | Years n \<Rightarrow> mk_date (year as_of - n) 1 1)"

definition known_availability :: "codec \<Rightarrow> indicator_spec \<Rightarrow> plan_error + availability" where
  "known_availability c s =
     bindE (lift (availability_for c (is_code s) (frequency_text (is_frequency s)))) (\<lambda>a.
       case a of None \<Rightarrow> Inl Unsupported | Some x \<Rightarrow> Inr x)"

definition recent_start :: "codec \<Rightarrow> indicator_spec \<Rightarrow> date \<Rightarrow> plan_error + date" where
  "recent_start c s as_of =
     bindE (lift (lookback_start (is_code s) (is_frequency s) as_of)) (\<lambda>l.
     bindE (known_availability c s) (\<lambda>a.
       Inr (max (max (APPROVED_GROUP_START (is_group s)) l) (av_first a))))"

definition effective_history_start :: "codec \<Rightarrow> indicator_spec \<Rightarrow> plan_error + date" where
  "effective_history_start c s =
     bindE (known_availability c s) (\<lambda>a. Inr (max (APPROVED_GROUP_START (is_group s)) (av_first a)))"

section \<open>The active catalogue\<close>

definition INDICATOR_CATALOG :: "indicator_spec list" where
  "INDICATOR_CATALOG = (case build_catalog SPECS of Inr specs \<Rightarrow> specs | Inl _ \<Rightarrow> [])"

text \<open>\<open>int(contract.contract_id.split(":")[1])\<close>\<close>

definition contract_code :: "contract \<Rightarrow> int option" where
  "contract_code ct = (case split_on CHR '':'' (ct_id ct) of _ # t # _ \<Rightarrow> parse_num t | _ \<Rightarrow> None)"

fun active_specs :: "int option set \<Rightarrow> (int \<times> indicator_spec) list \<Rightarrow> indicator_spec list
    \<Rightarrow> plan_error + (int \<times> indicator_spec) list" where
  "active_specs codes seen [] = Inr seen"
| "active_specs codes seen (s # ss) =
     (if Some (is_code s) \<notin> codes then active_specs codes seen ss
      else case map_of seen (is_code s) of
        Some prior \<Rightarrow>
          if is_key prior \<noteq> is_key s then Inl Unsupported
          else active_specs codes (map (\<lambda>(k, v). if k = is_code s then (k, s) else (k, v)) seen) ss
      | None \<Rightarrow> active_specs codes (seen @ [(is_code s, s)]) ss)"

definition active_catalog :: "plan_error + indicator_spec list" where
  "active_catalog =
     bindE (active_specs (set (map contract_code SGS_CONTRACTS)) [] INDICATOR_CATALOG) (\<lambda>seen.
       Inr (map snd (sort_key fst seen)))"

definition active_sgs_series_codes :: "plan_error + int list" where
  "active_sgs_series_codes = bindE active_catalog (\<lambda>specs. Inr (map is_code specs))"

section \<open>Units\<close>

definition unit_identifier :: "int \<Rightarrow> role \<Rightarrow> date \<Rightarrow> date \<Rightarrow> string" where
  "unit_identifier code r s e =
     show_int code @ '':'' @ role_text r @ '':'' @ date_isoformat s @ '':'' @ date_isoformat e"

definition make_unit :: "codec \<Rightarrow> indicator_spec \<Rightarrow> role \<Rightarrow> date \<Rightarrow> date \<Rightarrow> int \<Rightarrow> plan_error + sgs_unit" where
  "make_unit c s r start stop pos =
     (case find (\<lambda>ct. ct_id ct = sgs_contract_id (is_code s)) SGS_CONTRACTS of
        None \<Rightarrow> Inl Unsupported
      | Some ct \<Rightarrow>
          bindE (known_availability c s) (\<lambda>a. Inr
            \<lparr>u_id = unit_identifier (is_code s) r start stop, u_ordinal = pos, u_role = r,
             u_code = is_code s, u_key = is_key s, u_group = group_text (is_group s),
             u_freshness = is_freshness s, u_policy = POLICY_VERSION,
             u_contract_version = ct_version ct, u_contract_id = ct_id ct,
             u_identity = (if is_code s = 226 then SGS_FULL_PERIOD_IDENTITY_KIND else SGS_POINT_IDENTITY_KIND),
             u_unit = ct_unit ct,
             u_method = (if is_code s = 226 then ''full_period'' else ''date_range''),
             u_frequency = frequency_text (is_frequency s), u_start = start, u_end = stop,
             u_avail_start = Some (av_first a), u_avail_documented = Some (av_documented a),
             u_registry_version = Some (av_registry_version a), u_observed_on = Some (av_observed_on a),
             u_basis = Some (av_basis a), u_source_url = Some (av_source_url a),
             u_detail_url = Some (av_detail_url a), u_registry_sha = Some (av_registry_sha a),
             u_approved_start = Some (APPROVED_GROUP_START (is_group s))\<rparr>))"

section \<open>Archive windows\<close>

lemma year_after_december:
  assumes "add_days (Date y 12 31) 1 = Inr c"
  shows "year c = y + 1"
proof -
  note v = add_days_Inr [OF assms]
  have o: "ordinal c = days_before_year (y + 1) + 1" using v(2) by (simp add: ordinal_year_ends)
  have "days_before_year (year c) < ordinal c" "ordinal c \<le> days_before_year (year c + 1)"
    using ordinal_in_year [OF v(1)] by simp_all
  then show ?thesis
    using o days_before_year_mono_less [of "y + 1" "year c"] days_before_year_mono_less [of "year c + 1" "y + 2"]
      days_before_year_mono_less [of "year c + 1" "y + 1"] days_before_year_step [of "y + 1"]
    by (cases "year c" "y + 1" rule: linorder_cases; cases "year c + 1 = y + 1") auto
qed

function archive_windows :: "date \<Rightarrow> date \<Rightarrow> py_error + window list" where
  "archive_windows c e =
     (if c < e then
        (let stop = Date (year c) 12 31
         in if e \<le> stop then Inr []
            else case add_days stop 1 of
              Inl err \<Rightarrow> Inl err
            | Inr c' \<Rightarrow> bindE (archive_windows c' e) (\<lambda>ws. Inr ((c, stop) # ws)))
      else Inr [])"
  by pat_completeness auto

termination
proof (relation "measure (\<lambda>(c, e). nat (year e + 1 - year c))")
  fix c e stop c'
  assume "c < (e :: date)" "stop = Date (year c) 12 31" "\<not> e \<le> stop" "add_days stop 1 = Inr c'"
  then have "year c' = year c + 1" "year c \<le> year e"
    using year_after_december [of "year c" c'] by (auto simp: less_date_def)
  then show "((c', e), c, e) \<in> measure (\<lambda>(c, e). nat (year e + 1 - year c))" by simp
qed simp

declare archive_windows.simps [simp del]

section \<open>Receipts and candidates\<close>

definition archive_role :: "role \<Rightarrow> bool" where
  "archive_role r \<longleftrightarrow> r = ArchiveBackfill \<or> r = ArchiveReconcile"

definition usable_receipt :: "coverage_receipt \<Rightarrow> bool" where
  "usable_receipt v \<longleftrightarrow>
     cv_source v = ''bcb_sgs'' \<and> is_current_sgs_contract (cv_code v) (cv_contract_version v)
     \<and> cv_contract_id v = sgs_contract_id (cv_code v) \<and> cv_policy v \<in> set SUPPORTED_POLICY_VERSIONS
     \<and> archive_role (cv_role v)"

type_synonym scope = "int \<times> date \<times> date"

definition receipt_scope :: "coverage_receipt \<Rightarrow> scope" where
  "receipt_scope v = (cv_code v, cv_start v, cv_end v)"

definition note_receipt :: "coverage_receipt \<Rightarrow> (scope \<rightharpoonup> coverage_receipt) \<Rightarrow> scope \<rightharpoonup> coverage_receipt" where
  "note_receipt v m =
     (if \<not> usable_receipt v then m
      else case m (receipt_scope v) of
        None \<Rightarrow> m(receipt_scope v \<mapsto> v)
      | Some prior \<Rightarrow>
          if instant (cv_captured prior) < instant (cv_captured v) then m(receipt_scope v \<mapsto> v) else m)"

definition receipt_scopes :: "coverage_receipt list \<Rightarrow> scope \<rightharpoonup> coverage_receipt" where
  "receipt_scopes vs = fold note_receipt vs Map.empty"

record candidate =
  cd_missing :: bool
  cd_due :: int
  cd_code :: int
  cd_start :: date
  cd_stop :: date
  cd_spec :: indicator_spec

text \<open>The due time of a missing scope is \<open>datetime.min\<close> in UTC.\<close>

definition min_instant :: int where
  "min_instant = instant (DateTime (Date 1 1 1) 0 0 0 0 (Some 0))"

definition scope_candidate ::
    "(scope \<rightharpoonup> coverage_receipt) \<Rightarrow> date \<Rightarrow> indicator_spec \<Rightarrow> window \<Rightarrow> plan_error + candidate list" where
  "scope_candidate m as_of s w =
     (case m (is_code s, fst w, snd w) of
        None \<Rightarrow> Inr [\<lparr>cd_missing = True, cd_due = min_instant, cd_code = is_code s,
                     cd_start = fst w, cd_stop = snd w, cd_spec = s\<rparr>]
      | Some v \<Rightarrow>
          bindE (lift (add_seconds (cv_captured v) (ARCHIVE_REVERIFY_DAYS * 86400))) (\<lambda>due.
            Inr (if ddate due \<le> as_of
                 then [\<lparr>cd_missing = False, cd_due = instant due, cd_code = is_code s,
                        cd_start = fst w, cd_stop = snd w, cd_spec = s\<rparr>]
                 else [])))"

text \<open>One round of the loop over the catalogue: the recent unit of a series and its archive candidates.\<close>

definition plan_spec ::
    "codec \<Rightarrow> date \<Rightarrow> (scope \<rightharpoonup> coverage_receipt) \<Rightarrow> nat \<times> indicator_spec
     \<Rightarrow> plan_error + sgs_unit \<times> candidate list" where
  "plan_spec c as_of m p =
     bindE (recent_start c (snd p) as_of) (\<lambda>start.
     bindE (make_unit c (snd p) Recent start as_of (int (fst p))) (\<lambda>u.
     bindE (effective_history_start c (snd p)) (\<lambda>approved.
     bindE (lift (archive_windows approved start)) (\<lambda>ws.
     bindE (mapE (scope_candidate m as_of (snd p)) ws) (\<lambda>cs.
       Inr (u, concat cs))))))"

definition candidate_key :: "int option \<Rightarrow> candidate \<Rightarrow> bool \<times> int \<times> bool \<times> int \<times> date" where
  "candidate_key cursor cd =
     (\<not> cd_missing cd, cd_due cd,
      cd_code cd \<le> (case cursor of None \<Rightarrow> - 1 | Some n \<Rightarrow> if n = 0 then - 1 else n), cd_code cd, cd_start cd)"

section \<open>Carried and selected archive units\<close>

definition carry_admissible :: "(int \<Rightarrow> indicator_spec option) \<Rightarrow> int set \<Rightarrow> sgs_unit \<Rightarrow> bool" where
  "carry_admissible by_code chosen u \<longleftrightarrow>
     archive_role (u_role u) \<and> by_code (u_code u) \<noteq> None \<and> u_policy u \<in> set SUPPORTED_POLICY_VERSIONS
     \<and> current_sgs_unit_metadata_matches (u_code u) (u_contract_id u) (u_contract_version u) (u_unit u)
          (u_frequency u) (u_identity u) (u_method u)
     \<and> u_code u \<notin> chosen \<and> u_start u \<le> u_end u"

fun carry_loop ::
    "codec \<Rightarrow> date \<Rightarrow> (int \<Rightarrow> indicator_spec option) \<Rightarrow> nat \<Rightarrow> sgs_unit list \<Rightarrow> int set \<Rightarrow> sgs_unit list
     \<Rightarrow> plan_error + sgs_unit list \<times> int set" where
  "carry_loop c as_of by_code cap carried chosen [] = Inr (carried, chosen)"
| "carry_loop c as_of by_code cap carried chosen (u # us) =
     (if cap \<le> length carried then Inr (carried, chosen)
      else if \<not> carry_admissible by_code chosen u then carry_loop c as_of by_code cap carried chosen us
      else case by_code (u_code u) of
        None \<Rightarrow> Inl (PyFail KeyError)
      | Some s \<Rightarrow>
          bindE (effective_history_start c s) (\<lambda>floor.
          bindE (if u_end u < floor then Inr True
                 else bindE (recent_start c s as_of) (\<lambda>r. Inr (r \<le> u_end u))) (\<lambda>outside.
            if outside then carry_loop c as_of by_code cap carried chosen us
            else bindE (make_unit c s (u_role u) (max floor (u_start u)) (u_end u) (int (length carried))) (\<lambda>n.
              carry_loop c as_of by_code cap (carried @ [n]) (insert (u_code u) chosen) us))))"

fun select_loop :: "nat \<Rightarrow> nat \<Rightarrow> candidate list \<Rightarrow> int set \<Rightarrow> candidate list \<Rightarrow> candidate list" where
  "select_loop cap carried selected chosen [] = selected"
| "select_loop cap carried selected chosen (cd # cds) =
     (if cap \<le> carried + length selected then selected
      else if cd_code cd \<in> chosen then select_loop cap carried selected chosen cds
      else if cap \<le> length selected + 1 then selected @ [cd]
      else select_loop cap carried (selected @ [cd]) (insert (cd_code cd) chosen) cds)"

definition selected_unit :: "codec \<Rightarrow> nat \<Rightarrow> nat \<times> candidate \<Rightarrow> plan_error + sgs_unit" where
  "selected_unit c base p =
     make_unit c (cd_spec (snd p)) (if cd_missing (snd p) then ArchiveBackfill else ArchiveReconcile)
       (cd_start (snd p)) (cd_stop (snd p)) (int (base + fst p))"

definition specs_by_code :: "indicator_spec list \<Rightarrow> int \<Rightarrow> indicator_spec option" where
  "specs_by_code specs = map_of (map (\<lambda>s. (is_code s, s)) (rev specs))"

definition build_sgs_plan ::
    "codec \<Rightarrow> date \<Rightarrow> coverage_receipt list \<Rightarrow> int option \<Rightarrow> int \<Rightarrow> sgs_unit list \<Rightarrow> plan_error + sgs_plan" where
  "build_sgs_plan c as_of receipts cursor cap carryover =
     (if cap < 0 \<or> int MAX_ARCHIVE_UNITS_PER_RUN < cap then Inl (PyFail ValueError)
      else
        bindE active_catalog (\<lambda>specs.
        bindE (mapE (plan_spec c as_of (receipt_scopes receipts)) (enumerate 0 specs)) (\<lambda>planned.
        let recent = map (\<lambda>(i, u). u\<lparr>u_ordinal := int i\<rparr>) (enumerate 0 (map fst planned));
            candidates = sort_key (candidate_key cursor) (concat (map snd planned))
        in bindE (carry_loop c as_of (specs_by_code specs) (nat cap) [] {}
                    (sort_key (\<lambda>u. (u_code u, u_start u)) carryover)) (\<lambda>(carried, chosen).
           bindE (mapE (selected_unit c (length recent + length carried))
                    (enumerate 0 (select_loop (nat cap) (length carried) [] chosen candidates))) (\<lambda>archives.
             Inr \<lparr>p_version = PLAN_VERSION, p_policy = POLICY_VERSION, p_as_of = as_of,
                  p_units = recent
                    @ map (\<lambda>(i, u). u\<lparr>u_ordinal := int (length recent + i)\<rparr>) (enumerate 0 carried)
                    @ archives\<rparr>)))))"

end
