(* ===== verification/SgsPlanFacts.thy ===== *)
theory SgsPlanFacts
  imports SgsPlan
begin

text \<open>
  Facts about planning: what the catalogue, the contracts and the registry hold for every active series,
  when the dates of a scope are defined, and the shape of the plan that \<open>build_sgs_plan\<close> returns.
\<close>

section \<open>The active catalogue\<close>

lemma build_catalog_from_distinct:
  "distinct (map is_key (seen @ ss)) \<Longrightarrow> distinct (map is_code (seen @ ss)) \<Longrightarrow>
   build_catalog_from seen ss = Inr (seen @ ss)"
  by (induction ss arbitrary: seen) auto

lemma active_specs_distinct:
  assumes "\<And>s. s \<in> set ss \<Longrightarrow> Some (is_code s) \<in> codes"
    and "distinct (map fst seen @ map is_code ss)"
  shows "active_specs codes seen ss = Inr (seen @ map (\<lambda>s. (is_code s, s)) ss)"
  using assms
proof (induction ss arbitrary: seen)
  case (Cons s ss)
  have "map_of seen (is_code s) = None" using Cons.prems(2) by (auto simp: map_of_eq_None_iff)
  moreover have "active_specs codes (seen @ [(is_code s, s)]) ss
      = Inr ((seen @ [(is_code s, s)]) @ map (\<lambda>s. (is_code s, s)) ss)"
    using Cons.prems by (intro Cons.IH) auto
  ultimately show ?case using Cons.prems(1) [of s] by simp
qed simp

lemma specs_distinct: "distinct (map is_key SPECS)" "distinct (map is_code SPECS)"
  by code_simp+

lemma indicator_catalog: "INDICATOR_CATALOG = SPECS"
  using build_catalog_from_distinct [of "[]" SPECS] specs_distinct
  by (simp add: INDICATOR_CATALOG_def build_catalog_def)

section \<open>Series codes as text\<close>

declare show_nat.simps [simp del]

lemma show_nat_small [simp]: "n < 10 \<Longrightarrow> show_nat n = [digit_char (int n)]"
  by (subst show_nat.simps) simp

lemma show_nat_digits: "ch \<in> set (show_nat n) \<Longrightarrow> digit_val ch \<noteq> None"
  by (induction n rule: show_nat.induct) (subst (asm) (2) show_nat.simps; auto simp: digit_val_digit_char split: if_splits)

lemma show_nat_neq_Nil: "show_nat n \<noteq> []"
  by (subst show_nat.simps) simp

lemma parse_show_nat: "parse_num (show_nat n) = Some (int n)"
proof -
  have "parse_digits 0 (show_nat n) = Some (int n)"
  proof (induction n rule: show_nat.induct)
    case (1 n)
    then show ?case
      using mult_div_mod_eq [of 10 "int n"]
      by (subst show_nat.simps) (auto simp: digit_val_digit_char parse_digits_append zdiv_int zmod_int)
  qed
  then show ?thesis by (simp add: parse_num_def show_nat_neq_Nil)
qed

lemma parse_show_int: "0 \<le> n \<Longrightarrow> parse_num (show_int n) = Some n"
  by (simp add: show_int_def parse_show_nat)

lemma show_int_inject: "0 \<le> m \<Longrightarrow> 0 \<le> n \<Longrightarrow> show_int m = show_int n \<longleftrightarrow> m = n"
  by (metis option.inject parse_show_int)

lemma show_int_digits: "0 \<le> n \<Longrightarrow> ch \<in> set (show_int n) \<Longrightarrow> digit_val ch \<noteq> None"
  by (simp add: show_int_def show_nat_digits)

lemma sgs_contract_id_inject: "0 \<le> m \<Longrightarrow> 0 \<le> n \<Longrightarrow> sgs_contract_id m = sgs_contract_id n \<longleftrightarrow> m = n"
  by (simp add: sgs_contract_id_def show_int_inject)

lemma contract_code_id: "0 \<le> n \<Longrightarrow> ct_id ct = sgs_contract_id n \<Longrightarrow> contract_code ct = Some n"
proof -
  assume n: "0 \<le> n" "ct_id ct = sgs_contract_id n"
  have "CHR '':'' \<notin> set (show_int n)"
    using show_int_digits [OF n(1), of "CHR '':''"] by (auto simp: digit_val_def)
  then show ?thesis using n by (simp add: contract_code_def sgs_contract_id_def split_on_no_sep parse_show_int)
qed

section \<open>Every active series has a contract and a documented start\<close>

lemma specs_positive: "s \<in> set SPECS \<Longrightarrow> 0 < is_code s"
proof -
  have "list_all (\<lambda>s. 0 < is_code s) SPECS" by code_simp
  then show "s \<in> set SPECS \<Longrightarrow> 0 < is_code s" by (simp add: list_all_iff)
qed

definition contract_of :: "indicator_spec \<Rightarrow> contract" where
  "contract_of s = (if is_code s = 1207 then pib_contract else spec_contract s)"

lemma contract_of_id: "ct_id (contract_of s) = sgs_contract_id (is_code s)"
proof -
  have "show_int 1207 = ''1207''" by code_simp
  then show ?thesis by (simp add: contract_of_def pib_contract_def spec_contract_def sgs_contract_id_def)
qed

lemma SGS_CONTRACTS_alt:
  "set SGS_CONTRACTS = contract_of ` set SPECS"
proof -
  have "list_ex (\<lambda>s. is_code s = 1207) SPECS" by code_simp
  then obtain s where "s \<in> set SPECS" "is_code s = 1207" by (auto simp: list_ex_iff)
  then show ?thesis by (force simp: SGS_CONTRACTS_def contract_of_def image_iff)
qed

lemma contract_of_unique:
  assumes "ct \<in> set SGS_CONTRACTS" "s \<in> set SPECS" "ct_id ct = sgs_contract_id (is_code s)"
  shows "ct = contract_of s"
proof -
  obtain t where t: "t \<in> set SPECS" "ct = contract_of t" using assms(1) by (auto simp: SGS_CONTRACTS_alt)
  then have "is_code t = is_code s"
    using assms sgs_contract_id_inject [of "is_code t" "is_code s"] specs_positive [of t] specs_positive [of s]
    by (simp add: contract_of_id less_imp_le)
  then have "t = s" using specs_distinct(2) t(1) assms(2) by (auto simp: distinct_map inj_on_def)
  then show ?thesis using t by simp
qed

lemma find_contract:
  assumes "s \<in> set SPECS"
  shows "find (\<lambda>ct. ct_id ct = sgs_contract_id (is_code s)) SGS_CONTRACTS = Some (contract_of s)"
proof (cases "find (\<lambda>ct. ct_id ct = sgs_contract_id (is_code s)) SGS_CONTRACTS")
  case None
  then show ?thesis using assms by (auto simp: find_None_iff SGS_CONTRACTS_alt contract_of_id)
next
  case (Some ct)
  then have "ct \<in> set SGS_CONTRACTS \<and> ct_id ct = sgs_contract_id (is_code s)"
    by (auto simp: find_Some_iff)
  with Some show ?thesis using contract_of_unique [OF _ assms] by auto
qed

lemma current_contract_of: "s \<in> set SPECS \<Longrightarrow> is_current_sgs_contract (is_code s) (ct_version (contract_of s))"
  by (force simp: is_current_sgs_contract_def list_ex_iff contract_is_def SGS_CONTRACTS_alt contract_of_id)

lemma insort_key_map: "insort_key f (g x) (map g xs) = map g (insort_key (f \<circ> g) x xs)"
  by (induction xs) auto

lemma sort_key_map: "sort_key f (map g xs) = map g (sort_key (f \<circ> g) xs)"
  by (induction xs) (auto simp: insort_key_map o_def)

lemma active_catalog_eq: "active_catalog = Inr (sort_key is_code SPECS)"
proof -
  let ?codes = "set (map contract_code SGS_CONTRACTS)"
  have "Some (is_code s) \<in> ?codes" if "s \<in> set SPECS" for s
    using that contract_code_id [OF _ contract_of_id, of s] specs_positive [OF that]
    by (force simp: SGS_CONTRACTS_alt image_iff)
  then have "active_specs ?codes [] SPECS = Inr (map (\<lambda>s. (is_code s, s)) SPECS)"
    using active_specs_distinct [of SPECS ?codes "[]"] specs_distinct(2) by simp
  moreover have "map snd (sort_key fst (map (\<lambda>s. (is_code s, s)) SPECS)) = sort_key is_code SPECS"
    by (simp add: sort_key_map o_def)
  ultimately show ?thesis by (simp add: active_catalog_def indicator_catalog)
qed

text \<open>The documented start of a series, as the current registry tells it.\<close>

definition documented_start :: "int \<Rightarrow> date" where
  "documented_start code =
     (case map_of RAW_STARTS code of
        Some raw \<Rightarrow> (case parse_slash_date raw of Inr d \<Rightarrow> d | Inl _ \<Rightarrow> Date 1 1 1) | None \<Rightarrow> Date 1 1 1)"

lemma registry_parses:
  "list_all (\<lambda>s. case map_of RAW_STARTS (is_code s) of
       Some raw \<Rightarrow> (case parse_slash_date raw of Inr d \<Rightarrow> year d < 2016 | Inl _ \<Rightarrow> False) | None \<Rightarrow> False) SPECS"
  by code_simp

definition first_reference :: "indicator_spec \<Rightarrow> date" where
  "first_reference s = first_period (is_code s) (frequency_text (is_frequency s)) (documented_start (is_code s))"

definition facts_of :: "codec \<Rightarrow> indicator_spec \<Rightarrow> availability" where
  "facts_of c s =
     \<lparr>av_code = is_code s, av_documented = documented_start (is_code s), av_first = first_reference s,
      av_source_url = source_url (is_code s), av_detail_url = DETAIL_URL, av_observed_on = OBSERVED_ON,
      av_basis = ''documented_start'', av_registry_version = REGISTRY_VERSION,
      av_registry_sha = REGISTRY_SHA256 c\<rparr>"

lemma registry_versions_differ [simp]: "REGISTRY_VERSION \<noteq> V1_REGISTRY_VERSION"
  by code_simp

lemma registry_of_current [simp]: "registry_of c REGISTRY_VERSION = Some (RAW_STARTS, REGISTRY_SHA256 c)"
  by (simp add: registry_of_def)

lemma registered:
  assumes "s \<in> set SPECS"
  obtains raw where "map_of RAW_STARTS (is_code s) = Some raw"
    "parse_slash_date raw = Inr (documented_start (is_code s))"
    "valid_date (documented_start (is_code s))" "year (documented_start (is_code s)) < 2016"
proof -
  have "case map_of RAW_STARTS (is_code s) of
      Some raw \<Rightarrow> (case parse_slash_date raw of Inr d \<Rightarrow> year d < 2016 | Inl _ \<Rightarrow> False) | None \<Rightarrow> False"
    using assms registry_parses by (simp only: list_all_iff)
  then obtain raw d where r: "map_of RAW_STARTS (is_code s) = Some raw"
    "parse_slash_date raw = Inr d" "year d < 2016"
    by (cases "map_of RAW_STARTS (is_code s)"; cases "parse_slash_date (the (map_of RAW_STARTS (is_code s)))") auto
  then have d: "documented_start (is_code s) = d" by (simp add: documented_start_def)
  have "valid_date d"
    using r(2) by (auto simp: parse_slash_date_def mk_date_Inr split: list.splits option.splits)
  with r d that show thesis by simp
qed

lemma availability_for_spec:
  assumes "s \<in> set SPECS"
  shows "availability_for c (is_code s) (frequency_text (is_frequency s)) = Inr (Some (facts_of c s))"
proof -
  from registered [OF assms] obtain raw where r: "map_of RAW_STARTS (is_code s) = Some raw"
    "parse_slash_date raw = Inr (documented_start (is_code s))" by blast
  show ?thesis
    unfolding availability_for_def availability_for_version_def registry_of_current option.case prod.case r
    by (simp add: facts_of_def first_reference_def)
qed

lemma known_availability_spec: "s \<in> set SPECS \<Longrightarrow> known_availability c s = Inr (facts_of c s)"
  by (simp add: known_availability_def availability_for_spec)

lemma first_reference_valid:
  assumes "s \<in> set SPECS"
  shows "valid_date (first_reference s)" "year (first_reference s) < 2016"
proof -
  from registered [OF assms] obtain d where d: "documented_start (is_code s) = d" "valid_date d" "year d < 2016"
    by blast
  have "1 \<le> month_length l m" if "1 \<le> m" "m \<le> 12" for l m
    by (simp add: month_length_def leap_day_def)
  then show "valid_date (first_reference s)" "year (first_reference s) < 2016"
    using d by (auto simp: first_reference_def first_period_def valid_date_def)
qed

end
