(* ===== verification/SgsPlanDates.thy ===== *)
theory SgsPlanDates
  imports SgsPlanFacts
begin

text \<open>
  The dates of a plan: shifting by months stays inside the calendar, the recent scope of every active
  series is defined and starts on or before the planning day, and the archive windows of a range are its
  complete calendar years.
\<close>

section \<open>Shifting by months\<close>

lemma first_of_month: "1 \<le> y \<Longrightarrow> y \<le> 9999 \<Longrightarrow> 1 \<le> m \<Longrightarrow> m \<le> 12 \<Longrightarrow> valid_date (Date y m 1)"
  by (simp add: valid_date_def month_length_def leap_day_def)

lemma days_in_month_eq:
  assumes "1 \<le> y" "y \<le> 9999" "1 \<le> m" "m \<le> 12"
  shows "days_in_month y m = Inr (month_length (is_leap y) m)"
  using assms first_of_month [of y m] first_of_month [of y "m + 1"] days_before_month_step [of m "is_leap y"]
  by (auto simp: days_in_month_def mk_date_def days_between_def ordinal_def month_length_def)

lemma month_length_pos: "28 \<le> month_length l m"
  by (simp add: month_length_def leap_day_def)

lemma month_shift_back:
  assumes "valid_date d" "0 < k" "k \<le> 24" "3 \<le> year d"
  obtains e where "month_shift d k = Inr e" "valid_date e" "e < d" "1 \<le> year e"
proof -
  define ix where "ix = year d * 12 + month d - 1 - k"
  note f = valid_date_fields [OF assms(1)]
  have y: "1 \<le> ix div 12" "ix div 12 \<le> year d" and m: "0 \<le> ix mod 12" "ix mod 12 < 12"
    using f assms by (auto simp: ix_def)
  let ?e = "Date (ix div 12) (ix mod 12 + 1) (min (day d) (month_length (is_leap (ix div 12)) (ix mod 12 + 1)))"
  have v: "valid_date ?e"
    using y m f month_length_pos [of "is_leap (ix div 12)" "ix mod 12 + 1"] by (auto simp: valid_date_def)
  have "ix div 12 < year d \<or> ix div 12 = year d \<and> ix mod 12 + 1 < month d"
  proof (cases "ix div 12 = year d")
    case True
    have "12 * year d + ix mod 12 = year d * 12 + month d - 1 - k"
      using mult_div_mod_eq [of 12 ix] True by (simp only: ix_def [symmetric])
    then have "ix mod 12 + 1 < month d" using assms(2) by linarith
    then show ?thesis using True by simp
  qed (use y in simp)
  then have "?e < d" by (auto simp: less_date_def)
  moreover have "month_shift d k = Inr ?e"
    using v y m f days_in_month_eq [of "ix div 12" "ix mod 12 + 1"]
    by (simp add: month_shift_def Let_def ix_def [symmetric] mk_date_def)
  ultimately show thesis using that v y by auto
qed

lemma add_days_back:
  assumes "valid_date d" "0 < k" "k < ordinal d"
  obtains e where "add_days d (- k) = Inr e" "valid_date e" "e < d"
proof -
  have "add_days d (- k) = Inr (from_ordinal (ordinal d - k))"
    using assms ordinal_range [OF assms(1)] by (simp add: add_days_def Let_def)
  with add_days_Inr [OF this] assms ordinal_less_iff [of "from_ordinal (ordinal d - k)" d] that
  show thesis by simp
qed

lemma month_start_le: "valid_date d \<Longrightarrow> 1 \<le> m \<Longrightarrow> m \<le> month d \<Longrightarrow> Date (year d) m 1 \<le> d"
  using valid_date_fields [of d] by (auto simp: not_less [symmetric] less_date_def)

lemma lookback_start_total:
  assumes v: "valid_date as_of" and y: "2016 \<le> year as_of"
  obtains l where "lookback_start code f as_of = Inr l" "valid_date l" "l \<le> as_of"
proof -
  have o: "365 * 2000 \<le> ordinal as_of"
    using ordinal_in_year(1) [OF v] y by (simp add: days_before_year_def)
  obtain d90 where d90: "add_days as_of (- 90) = Inr d90" "valid_date d90" "d90 < as_of"
    using add_days_back [OF v, of 90] o by auto
  obtain s where s: "month_shift as_of 24 = Inr s" "valid_date s" "s < as_of" "1 \<le> year s"
    using month_shift_back [OF v, of 24] y by auto
  note sf = valid_date_fields [OF s(2)]
  let ?q = "(month s - 1) div 3 * 3 + 1"
  have q: "1 \<le> ?q" "?q \<le> month s" using sf(3) by presburger+
  have m1: "valid_date (Date (year s) (month s) 1)" "Date (year s) (month s) 1 \<le> as_of"
    using sf first_of_month month_start_le [OF s(2), of "month s"] s(3) by auto
  have q1: "valid_date (Date (year s) ?q 1)" "Date (year s) ?q 1 \<le> as_of"
    using sf q first_of_month [of "year s" ?q] month_start_le [OF s(2) q] s(3) by auto
  have y1: "valid_date (Date (year as_of - 6) 1 1)" "Date (year as_of - 6) 1 1 \<le> as_of"
    using y valid_date_fields [OF v] year_less [of "Date (year as_of - 6) 1 1" as_of]
    by (auto simp: first_of_month less_imp_le)
  have "\<exists>l. lookback_start code f as_of = Inr l \<and> valid_date l \<and> l \<le> as_of"
  proof (cases "code = 226")
    case True
    then show ?thesis using d90 by (auto simp: lookback_start_def)
  next
    case False
    then show ?thesis using d90 s(1) m1 q1 y1 by (cases f) (auto simp: lookback_start_def mk_date_def)
  qed
  then show thesis using that by blast
qed

section \<open>The recent scope of a series\<close>

definition history_floor :: "indicator_spec \<Rightarrow> date" where
  "history_floor s = max (APPROVED_GROUP_START (is_group s)) (first_reference s)"

lemma group_start_valid: "valid_date (APPROVED_GROUP_START g) \<and> year (APPROVED_GROUP_START g) \<le> 2015"
  by (cases g) (simp_all add: valid_date_def month_length_def leap_day_def)

lemma history_floor_valid:
  assumes "s \<in> set SPECS"
  shows "valid_date (history_floor s)" "year (history_floor s) < 2016"
  using first_reference_valid [OF assms] group_start_valid [of "is_group s"]
  by (auto simp: history_floor_def max_def)

lemma effective_history_start_spec:
  "s \<in> set SPECS \<Longrightarrow> effective_history_start c s = Inr (history_floor s)"
  by (simp add: effective_history_start_def known_availability_spec history_floor_def facts_of_def)

definition recent_from :: "indicator_spec \<Rightarrow> date \<Rightarrow> date" where
  "recent_from s as_of =
     (case lookback_start (is_code s) (is_frequency s) as_of of
        Inr l \<Rightarrow> max (max (APPROVED_GROUP_START (is_group s)) l) (first_reference s)
      | Inl _ \<Rightarrow> as_of)"

lemma recent_start_spec:
  assumes "s \<in> set SPECS" "valid_date as_of" "2016 \<le> year as_of"
  shows "recent_start c s as_of = Inr (recent_from s as_of)"
    and "valid_date (recent_from s as_of)" "history_floor s \<le> recent_from s as_of" "recent_from s as_of \<le> as_of"
proof -
  obtain l where l: "lookback_start (is_code s) (is_frequency s) as_of = Inr l" "valid_date l" "l \<le> as_of"
    using lookback_start_total [OF assms(2,3)] by metis
  have fr: "valid_date (first_reference s)" "first_reference s \<le> as_of"
    using first_reference_valid [OF assms(1)] assms(3) year_less [of "first_reference s" as_of] by auto
  have g: "valid_date (APPROVED_GROUP_START (is_group s))" "APPROVED_GROUP_START (is_group s) \<le> as_of"
    using group_start_valid [of "is_group s"] assms(3) year_less [of "APPROVED_GROUP_START (is_group s)" as_of]
    by auto
  show "recent_start c s as_of = Inr (recent_from s as_of)"
    by (simp add: recent_start_def recent_from_def l known_availability_spec [OF assms(1)] facts_of_def)
  show "valid_date (recent_from s as_of)" "history_floor s \<le> recent_from s as_of" "recent_from s as_of \<le> as_of"
    using l fr g by (auto simp: recent_from_def history_floor_def max_def)
qed

section \<open>Archive windows are complete calendar years\<close>

definition year_scope :: "date \<Rightarrow> int \<Rightarrow> window" where
  "year_scope fl y = (max fl (Date y 1 1), Date y 12 31)"

lemma archive_windows_years:
  assumes "valid_date c" "valid_date e"
  shows "archive_windows c e = Inr (map (year_scope c) [year c..year e - 1])"
  using assms
proof (induction c e rule: archive_windows.induct)
  case (1 c e)
  note w = within_year [OF "1.prems"(1)] within_year [OF "1.prems"(2)]
  show ?case
  proof (cases "year c < year e")
    case False
    then have "c < e \<Longrightarrow> e \<le> Date (year c) 12 31"
      using year_le [of c e] w by (auto simp: less_imp_le)
    then show ?thesis using False by (subst archive_windows.simps) (simp add: Let_def)
  next
    case True
    have bounds: "1 \<le> year c" "year c < 9999"
      using True valid_date_fields [OF "1.prems"(1)] valid_date_fields [OF "1.prems"(2)] by auto
    let ?c = "Date (year c + 1) 1 1"
    have less: "c < e" "\<not> e \<le> Date (year c) 12 31"
      using True by (simp_all add: less_date_def not_le)
    have n: "add_days (Date (year c) 12 31) 1 = Inr ?c" using next_year [OF bounds] .
    have IH: "archive_windows ?c e = Inr (map (year_scope ?c) [year c + 1..year e - 1])"
      using "1.IH" [OF less(1) refl less(2) n] first_of_month bounds "1.prems"(2) by simp
    have "map (year_scope ?c) [year c + 1..year e - 1] = map (year_scope c) [year c + 1..year e - 1]"
    proof (rule map_cong [OF refl])
      fix y assume "y \<in> set [year c + 1..year e - 1]"
      then show "year_scope ?c y = year_scope c y"
        using year_less [of c "Date y 1 1"] by (auto simp: year_scope_def max_def less_eq_date_def less_date_def)
    qed
    moreover have "year_scope c (year c) = (c, Date (year c) 12 31)"
      using w(1) by (simp add: year_scope_def max_absorb1)
    ultimately show ?thesis
      using less True by (subst archive_windows.simps) (simp add: Let_def n IH upto_rec1)
  qed
qed

lemma year_scope_bounds:
  assumes "valid_date fl" "y \<in> set [year fl..year e - 1]" "valid_date e"
  shows "fl \<le> fst (year_scope fl y)" "fst (year_scope fl y) \<le> snd (year_scope fl y)"
    "snd (year_scope fl y) < e" "valid_date (fst (year_scope fl y))" "valid_date (snd (year_scope fl y))"
  using assms within_year(2) [OF assms(1)] valid_date_fields [OF assms(1)] valid_date_fields [OF assms(3)]
    year_ends [of y] year_less [of fl "Date y 12 31"] year_less [of "Date y 12 31" e]
  by (auto simp: year_scope_def max_def less_imp_le less_eq_date_def less_date_def)

end
