(* ===== verification/SgsPlanShape.thy ===== *)
theory SgsPlanShape
  imports SgsPlanDates
begin

text \<open>
  The shape of a plan: what the loop over the catalogue, the carry-over loop and the selection loop of
  \<open>build_sgs_plan\<close> produce, and that building succeeds.
\<close>

section \<open>Units\<close>

definition made_unit :: "codec \<Rightarrow> indicator_spec \<Rightarrow> role \<Rightarrow> date \<Rightarrow> date \<Rightarrow> int \<Rightarrow> sgs_unit" where
  "made_unit c s r a b i =
     \<lparr>u_id = unit_identifier (is_code s) r a b, u_ordinal = i, u_role = r,
      u_code = is_code s, u_key = is_key s, u_group = group_text (is_group s),
      u_freshness = is_freshness s, u_policy = POLICY_VERSION,
      u_contract_version = ct_version (contract_of s), u_contract_id = sgs_contract_id (is_code s),
      u_identity = (if is_code s = 226 then SGS_FULL_PERIOD_IDENTITY_KIND else SGS_POINT_IDENTITY_KIND),
      u_unit = ct_unit (contract_of s), u_method = (if is_code s = 226 then ''full_period'' else ''date_range''),
      u_frequency = frequency_text (is_frequency s), u_start = a, u_end = b,
      u_avail_start = Some (first_reference s), u_avail_documented = Some (documented_start (is_code s)),
      u_registry_version = Some REGISTRY_VERSION, u_observed_on = Some OBSERVED_ON,
      u_basis = Some ''documented_start'', u_source_url = Some (source_url (is_code s)),
      u_detail_url = Some DETAIL_URL, u_registry_sha = Some (REGISTRY_SHA256 c),
      u_approved_start = Some (APPROVED_GROUP_START (is_group s))\<rparr>"

lemma make_unit_spec: "s \<in> set SPECS \<Longrightarrow> make_unit c s r a b i = Inr (made_unit c s r a b i)"
  by (simp add: make_unit_def find_contract known_availability_spec facts_of_def made_unit_def contract_of_id)

lemma made_unit_sel [simp]:
  "u_role (made_unit c s r a b i) = r" "u_code (made_unit c s r a b i) = is_code s"
  "u_start (made_unit c s r a b i) = a" "u_end (made_unit c s r a b i) = b"
  "u_ordinal (made_unit c s r a b i) = i" "u_id (made_unit c s r a b i) = unit_identifier (is_code s) r a b"
  "(made_unit c s r a b i)\<lparr>u_ordinal := j\<rparr> = made_unit c s r a b j"
  by (simp_all add: made_unit_def)

text \<open>An archive unit of a plan for the day \<open>as_of\<close>.\<close>

definition archive_unit :: "codec \<Rightarrow> date \<Rightarrow> sgs_unit \<Rightarrow> bool" where
  "archive_unit c as_of u \<longleftrightarrow>
     (\<exists>s \<in> set SPECS. \<exists>r a b i. u = made_unit c s r a b i \<and> archive_role r
        \<and> history_floor s \<le> a \<and> a \<le> b \<and> b < recent_from s as_of)"

lemma archive_unit_ordinal: "archive_unit c as_of u \<Longrightarrow> archive_unit c as_of (u\<lparr>u_ordinal := j\<rparr>)"
  by (force simp: archive_unit_def)

section \<open>The loop over the catalogue\<close>

text \<open>Receipts whose review date is inside the calendar; the store writes nothing else before the year 9999.\<close>

definition receipts_dated :: "coverage_receipt list \<Rightarrow> bool" where
  "receipts_dated vs \<longleftrightarrow>
     (\<forall>v \<in> set vs. \<exists>due. add_seconds (cv_captured v) (ARCHIVE_REVERIFY_DAYS * 86400) = Inr due)"

lemma receipt_scopes_mem:
  "receipt_scopes vs k = Some v \<Longrightarrow> v \<in> set vs \<and> usable_receipt v \<and> receipt_scope v = k"
proof -
  have "(\<And>k v. m k = Some v \<Longrightarrow> v \<in> S \<and> usable_receipt v \<and> receipt_scope v = k) \<Longrightarrow>
      fold note_receipt vs m k = Some v \<Longrightarrow> v \<in> S \<union> set vs \<and> usable_receipt v \<and> receipt_scope v = k" for m S
  proof (induction vs arbitrary: m S)
    case (Cons w ws)
    have "note_receipt w m k = Some v \<Longrightarrow> v \<in> insert w S \<and> usable_receipt v \<and> receipt_scope v = k" for k v
      using Cons.prems(1) [of k v] by (auto simp: note_receipt_def split: if_splits option.splits)
    from Cons.IH [OF this] Cons.prems(2) show ?case by auto
  qed auto
  from this [of Map.empty "{}"] show "receipt_scopes vs k = Some v \<Longrightarrow> ?thesis"
    by (simp add: receipt_scopes_def)
qed

definition candidate_for :: "indicator_spec \<Rightarrow> date \<Rightarrow> candidate \<Rightarrow> bool" where
  "candidate_for s as_of cd \<longleftrightarrow> cd_spec cd = s \<and> cd_code cd = is_code s
     \<and> (\<exists>y \<in> set [year (history_floor s)..year (recent_from s as_of) - 1].
          (cd_start cd, cd_stop cd) = year_scope (history_floor s) y)"

text \<open>What the receipts say of one scope, without the error branch.\<close>

definition scope_offer :: "(scope \<rightharpoonup> coverage_receipt) \<Rightarrow> date \<Rightarrow> indicator_spec \<Rightarrow> window \<Rightarrow> candidate list" where
  "scope_offer m as_of s w =
     (let offer = (\<lambda>missing due. \<lparr>cd_missing = missing, cd_due = due, cd_code = is_code s,
                     cd_start = fst w, cd_stop = snd w, cd_spec = s\<rparr>)
      in case m (is_code s, fst w, snd w) of
           None \<Rightarrow> [offer True min_instant]
         | Some v \<Rightarrow> (case add_seconds (cv_captured v) (ARCHIVE_REVERIFY_DAYS * 86400) of
               Inr due \<Rightarrow> if ddate due \<le> as_of then [offer False (instant due)] else []
             | Inl _ \<Rightarrow> []))"

lemma scope_candidate_offer:
  assumes "receipts_dated vs"
  shows "scope_candidate (receipt_scopes vs) as_of s w = Inr (scope_offer (receipt_scopes vs) as_of s w)"
proof (cases "receipt_scopes vs (is_code s, fst w, snd w)")
  case None
  then show ?thesis by (simp add: scope_candidate_def scope_offer_def)
next
  case (Some v)
  then have "v \<in> set vs" using receipt_scopes_mem by blast
  then obtain due where "add_seconds (cv_captured v) (ARCHIVE_REVERIFY_DAYS * 86400) = Inr due"
    using assms unfolding receipts_dated_def by blast
  then show ?thesis using Some by (simp add: scope_candidate_def scope_offer_def)
qed

lemma scope_offer_shape:
  assumes "cd \<in> set (scope_offer m as_of s w)"
  shows "cd_spec cd = s" "cd_code cd = is_code s" "cd_start cd = fst w" "cd_stop cd = snd w"
  using assms by (auto simp: scope_offer_def Let_def split: option.splits sum.splits if_splits)

definition archive_scopes :: "indicator_spec \<Rightarrow> date \<Rightarrow> window list" where
  "archive_scopes s as_of =
     map (year_scope (history_floor s)) [year (history_floor s)..year (recent_from s as_of) - 1]"

definition offers :: "coverage_receipt list \<Rightarrow> date \<Rightarrow> indicator_spec \<Rightarrow> candidate list" where
  "offers vs as_of s = concat (map (scope_offer (receipt_scopes vs) as_of s) (archive_scopes s as_of))"

lemma plan_spec_total:
  assumes "s \<in> set SPECS" "valid_date as_of" "2016 \<le> year as_of" "receipts_dated vs"
  shows "plan_spec c as_of (receipt_scopes vs) (i, s) =
    Inr (made_unit c s Recent (recent_from s as_of) as_of (int i), offers vs as_of s)"
proof -
  note r = recent_start_spec [OF assms(1-3)]
  have "mapE (scope_candidate (receipt_scopes vs) as_of s) (map id (archive_scopes s as_of))
      = Inr (map (scope_offer (receipt_scopes vs) as_of s) (archive_scopes s as_of))"
    by (rule mapE_map_Inr) (simp add: scope_candidate_offer [OF assms(4)])
  then show ?thesis
    using r history_floor_valid [OF assms(1)]
    by (simp add: plan_spec_def make_unit_spec [OF assms(1)] effective_history_start_spec [OF assms(1)]
        archive_windows_years archive_scopes_def [symmetric] offers_def)
qed

lemma offers_shape:
  assumes "cd \<in> set (offers vs as_of s)"
  shows "candidate_for s as_of cd"
proof -
  from assms obtain w where "w \<in> set (archive_scopes s as_of)" "cd \<in> set (scope_offer (receipt_scopes vs) as_of s w)"
    by (auto simp: offers_def)
  then show ?thesis using scope_offer_shape [of cd "receipt_scopes vs" as_of s w]
    by (auto simp: candidate_for_def archive_scopes_def)
qed

section \<open>The carry-over loop\<close>

lemma specs_by_code_SPECS:
  "specs_by_code (sort_key is_code SPECS) k = Some s \<longleftrightarrow> s \<in> set SPECS \<and> is_code s = k"
proof -
  have "distinct (map fst (map (\<lambda>s. (is_code s, s)) (rev (sort_key is_code SPECS))))"
    using specs_distinct(2) by (simp add: distinct_map o_def)
  then have "specs_by_code (sort_key is_code SPECS) k = Some s
      \<longleftrightarrow> (k, s) \<in> set (map (\<lambda>s. (is_code s, s)) (rev (sort_key is_code SPECS)))"
    unfolding specs_by_code_def by (rule map_of_eq_Some_iff)
  then show ?thesis by auto
qed

text \<open>The unit a pending one is reissued as: clipped at the documented floor of its series.\<close>

definition reissued :: "codec \<Rightarrow> date \<Rightarrow> sgs_unit \<Rightarrow> sgs_unit \<Rightarrow> bool" where
  "reissued c as_of p u \<longleftrightarrow>
     (\<exists>s \<in> set SPECS. \<exists>i. u = made_unit c s (u_role p) (max (history_floor s) (u_start p)) (u_end p) i
        \<and> is_code s = u_code p \<and> archive_role (u_role p) \<and> u_start p \<le> u_end p
        \<and> history_floor s \<le> u_end p \<and> u_end p < recent_from s as_of)"

lemma reissued_archive: "reissued c as_of p u \<Longrightarrow> archive_unit c as_of u"
  unfolding reissued_def archive_unit_def
  by (elim bexE exE conjE, rule bexI, intro exI conjI, assumption) simp_all

lemma reissued_code: "reissued c as_of p u \<Longrightarrow> u_code u = u_code p"
  by (auto simp: reissued_def)

definition carry_state :: "codec \<Rightarrow> date \<Rightarrow> nat \<Rightarrow> sgs_unit set \<Rightarrow> sgs_unit list \<Rightarrow> int set \<Rightarrow> bool" where
  "carry_state c as_of cap P us chosen \<longleftrightarrow>
     length us \<le> cap \<and> (\<forall>u \<in> set us. \<exists>p \<in> P. reissued c as_of p u)
     \<and> distinct (map u_code us) \<and> chosen = set (map u_code us)"

lemma carry_loop_total:
  assumes "valid_date as_of" "2016 \<le> year as_of" "carry_state c as_of cap P us chosen" "set ps \<subseteq> P"
  shows "\<exists>us' chosen'. carry_loop c as_of (specs_by_code (sort_key is_code SPECS)) cap us chosen ps
     = Inr (us', chosen') \<and> carry_state c as_of cap P us' chosen'"
  using assms(3,4)
proof (induction ps arbitrary: us chosen)
  case (Cons p ps)
  let ?by = "specs_by_code (sort_key is_code SPECS)"
  have rest: "set ps \<subseteq> P" using Cons.prems(2) by simp
  show ?case
  proof (cases "cap \<le> length us \<or> \<not> carry_admissible ?by chosen p")
    case True
    then show ?thesis using Cons.IH [OF Cons.prems(1) rest] Cons.prems(1) by (cases "cap \<le> length us") auto
  next
    case False
    then obtain s where s: "?by (u_code p) = Some s" by (auto simp: carry_admissible_def)
    then have sp: "s \<in> set SPECS" "is_code s = u_code p" by (simp_all add: specs_by_code_SPECS)
    let ?new = "made_unit c s (u_role p) (max (history_floor s) (u_start p)) (u_end p) (int (length us))"
    show ?thesis
    proof (cases "u_end p < history_floor s \<or> recent_from s as_of \<le> u_end p")
      case True
      then show ?thesis
        using False s Cons.IH [OF Cons.prems(1) rest] recent_start_spec(1) [OF sp(1) assms(1,2)]
          effective_history_start_spec [OF sp(1)]
        by auto
    next
      case inside: False
      have "reissued c as_of p ?new"
        unfolding reissued_def
        using sp inside False by (intro bexI [of _ s] exI conjI; (rule refl)?) (auto simp: carry_admissible_def)
      then have "carry_state c as_of cap P (us @ [?new]) (insert (u_code p) chosen)"
        using Cons.prems False sp by (auto simp: carry_state_def carry_admissible_def)
      from Cons.IH [OF this rest] show ?thesis
        using False inside s recent_start_spec(1) [OF sp(1) assms(1,2)] effective_history_start_spec [OF sp(1)]
        by (simp add: make_unit_spec [OF sp(1)])
    qed
  qed
qed simp

section \<open>The selection loop\<close>

lemma select_loop_shape:
  assumes "distinct (map cd_code sel)" "set (map cd_code sel) \<subseteq> chosen" "k + length sel \<le> max cap k"
  shows "distinct (map cd_code (select_loop cap k sel chosen cds))
    \<and> set (select_loop cap k sel chosen cds) \<subseteq> set sel \<union> set cds
    \<and> k + length (select_loop cap k sel chosen cds) \<le> max cap k
    \<and> (\<forall>cd \<in> set (select_loop cap k sel chosen cds). cd \<in> set sel \<or> cd_code cd \<notin> chosen)"
  using assms
proof (induction cds arbitrary: sel chosen)
  case (Cons cd cds)
  have step: "distinct (map cd_code (sel @ [cd]))" "set (map cd_code (sel @ [cd])) \<subseteq> insert (cd_code cd) chosen"
    "k + length (sel @ [cd]) \<le> max cap k"
    if "cd_code cd \<notin> chosen" "\<not> cap \<le> k + length sel"
    using Cons.prems that by auto
  consider "cap \<le> k + length sel" | "\<not> cap \<le> k + length sel" "cd_code cd \<in> chosen"
    | "\<not> cap \<le> k + length sel" "cd_code cd \<notin> chosen" "cap \<le> length sel + 1"
    | "\<not> cap \<le> k + length sel" "cd_code cd \<notin> chosen" "\<not> cap \<le> length sel + 1" by blast
  then show ?case
  proof cases
    case 1 then show ?thesis using Cons.prems by auto
  next
    case 2 then show ?thesis using Cons.IH [OF Cons.prems] by auto
  next
    case 3 then show ?thesis using step by auto
  next
    case 4 then show ?thesis using Cons.IH [OF step] by auto
  qed
qed simp

section \<open>The whole plan\<close>

definition recent_units :: "codec \<Rightarrow> date \<Rightarrow> sgs_unit list" where
  "recent_units c as_of =
     map (\<lambda>(i, s). made_unit c s Recent (recent_from s as_of) as_of (int i)) (enumerate 0 (sort_key is_code SPECS))"

definition all_offers :: "coverage_receipt list \<Rightarrow> date \<Rightarrow> int option \<Rightarrow> candidate list" where
  "all_offers vs as_of cursor =
     sort_key (candidate_key cursor) (concat (map (offers vs as_of) (sort_key is_code SPECS)))"

definition renumber :: "nat \<Rightarrow> sgs_unit list \<Rightarrow> sgs_unit list" where
  "renumber k us = map (\<lambda>(i, u). u\<lparr>u_ordinal := int (k + i)\<rparr>) (enumerate 0 us)"

definition offered_unit :: "codec \<Rightarrow> nat \<Rightarrow> nat \<times> candidate \<Rightarrow> sgs_unit" where
  "offered_unit c base p =
     made_unit c (cd_spec (snd p)) (if cd_missing (snd p) then ArchiveBackfill else ArchiveReconcile)
       (cd_start (snd p)) (cd_stop (snd p)) (int (base + fst p))"

lemma all_offers_shape:
  "cd \<in> set (all_offers vs as_of cursor) \<Longrightarrow> \<exists>s \<in> set SPECS. candidate_for s as_of cd"
  using offers_shape by (fastforce simp: all_offers_def)

lemma mapE_enumerate: "(\<And>i x. x \<in> set xs \<Longrightarrow> f (i, x) = Inr (g (i, x))) \<Longrightarrow>
    mapE f (enumerate k xs) = Inr (map g (enumerate k xs))"
  by (induction xs arbitrary: k) auto

lemma build_sgs_plan_eq:
  assumes "valid_date as_of" "2016 \<le> year as_of" "receipts_dated vs" "0 \<le> cap" "cap \<le> 4"
  shows "\<exists>carried selected.
     build_sgs_plan c as_of vs cursor cap ps = Inr
       \<lparr>p_version = PLAN_VERSION, p_policy = POLICY_VERSION, p_as_of = as_of,
        p_units = recent_units c as_of @ renumber (length SPECS) carried
          @ map (offered_unit c (length SPECS + length carried)) (enumerate 0 selected)\<rparr>
     \<and> carry_loop c as_of (specs_by_code (sort_key is_code SPECS)) (nat cap) [] {}
          (sort_key (\<lambda>u. (u_code u, u_start u)) ps) = Inr (carried, set (map u_code carried))
     \<and> carry_state c as_of (nat cap) (set ps) carried (set (map u_code carried))
     \<and> selected = select_loop (nat cap) (length carried) [] (set (map u_code carried)) (all_offers vs as_of cursor)"
proof -
  let ?specs = "sort_key is_code SPECS"
  let ?plan = "\<lambda>(i, s). (made_unit c s Recent (recent_from s as_of) as_of (int i), offers vs as_of s)"
  have planned: "mapE (plan_spec c as_of (receipt_scopes vs)) (enumerate 0 ?specs)
      = Inr (map ?plan (enumerate 0 ?specs))"
    by (rule mapE_enumerate) (simp add: plan_spec_total [OF _ assms(1-3)])
  have recents: "map (\<lambda>(i, u). u\<lparr>u_ordinal := int i\<rparr>) (enumerate 0 (map fst (map ?plan (enumerate 0 ?specs))))
      = recent_units c as_of"
    by (rule nth_equalityI) (simp_all add: recent_units_def nth_enumerate_eq)
  have offered: "concat (map snd (map ?plan (enumerate 0 ?specs))) = concat (map (offers vs as_of) ?specs)"
    by (rule arg_cong [of _ _ concat], rule nth_equalityI) (simp_all add: nth_enumerate_eq)
  have n: "length (recent_units c as_of) = length SPECS" by (simp add: recent_units_def)
  have "carry_state c as_of (nat cap) (set ps) [] {}" by (simp add: carry_state_def)
  from carry_loop_total [OF assms(1,2) this, of "sort_key (\<lambda>u. (u_code u, u_start u)) ps"] obtain carried chosen where
    carry: "carry_loop c as_of (specs_by_code ?specs) (nat cap) [] {} (sort_key (\<lambda>u. (u_code u, u_start u)) ps)
        = Inr (carried, chosen)" "carry_state c as_of (nat cap) (set ps) carried chosen" by auto
  then have ch: "chosen = set (map u_code carried)" by (simp add: carry_state_def)
  let ?sel = "select_loop (nat cap) (length carried) [] chosen (all_offers vs as_of cursor)"
  have sub: "set ?sel \<subseteq> set (all_offers vs as_of cursor)"
    using select_loop_shape [of "[]" chosen "length carried" "nat cap"] carry(2) by (auto simp: carry_state_def)
  have sel: "mapE (selected_unit c (length SPECS + length carried)) (enumerate 0 ?sel)
      = Inr (map (offered_unit c (length SPECS + length carried)) (enumerate 0 ?sel))"
  proof (rule mapE_enumerate)
    fix i cd assume "cd \<in> set ?sel"
    then obtain s where "s \<in> set SPECS" "candidate_for s as_of cd" using sub all_offers_shape by blast
    then show "selected_unit c (length SPECS + length carried) (i, cd)
        = Inr (offered_unit c (length SPECS + length carried) (i, cd))"
      by (simp add: selected_unit_def offered_unit_def candidate_for_def make_unit_spec)
  qed
  have ok: "\<not> (cap < 0 \<or> int MAX_ARCHIVE_UNITS_PER_RUN < cap)"
    using assms(4,5) by (simp add: MAX_ARCHIVE_UNITS_PER_RUN_def)
  have "build_sgs_plan c as_of vs cursor cap ps = Inr
       \<lparr>p_version = PLAN_VERSION, p_policy = POLICY_VERSION, p_as_of = as_of,
        p_units = recent_units c as_of @ renumber (length SPECS) carried
          @ map (offered_unit c (length SPECS + length carried)) (enumerate 0 ?sel)\<rparr>"
    unfolding build_sgs_plan_def active_catalog_eq bindE.simps planned Let_def recents offered n carry(1) prod.case
      all_offers_def [symmetric] sel
    using ok by (simp add: renumber_def)
  then show ?thesis using carry ch by blast
qed

end
