(* ===== verification/SgsPlanJson.thy ===== *)
theory SgsPlanJson
  imports SgsPlan RunLifecycle
begin

text \<open>
  Reading a frozen plan back (\<open>_json_unit\<close>, \<open>_plan_from_json\<close>, \<open>_validate_v3_plan_scopes\<close>,
  \<open>read_sgs_plan\<close>) and freezing one (\<open>freeze_sgs_plan\<close>) in \<open>db/sgs_refresh_plan.py\<close>.
\<close>

section \<open>Fields\<close>

definition json_object :: "json \<Rightarrow> plan_error + (string \<times> json) list" where
  "json_object v = (case v of JObj kvs \<Rightarrow> Inr kvs | _ \<Rightarrow> Inl Unsupported)"

definition json_text :: "(string \<times> json) list \<Rightarrow> string \<Rightarrow> plan_error + string" where
  "json_text kvs k = (case map_of kvs k of Some (JStr s) \<Rightarrow> Inr s | _ \<Rightarrow> Inl Unsupported)"

definition json_int :: "(string \<times> json) list \<Rightarrow> string \<Rightarrow> plan_error + int" where
  "json_int kvs k = (case map_of kvs k of Some (JNum n) \<Rightarrow> Inr n | _ \<Rightarrow> Inl Unsupported)"

text \<open>A date field: malformed text is reported as an unsupported plan.\<close>

definition json_date :: "(string \<times> json) list \<Rightarrow> string \<Rightarrow> plan_error + date" where
  "json_date kvs k =
     bindE (json_text kvs k) (\<lambda>s. case date_fromisoformat s of Inr d \<Rightarrow> Inr d | Inl _ \<Rightarrow> Inl Unsupported)"

definition role_of_text :: "string \<Rightarrow> role option" where
  "role_of_text s = find (\<lambda>r. role_text r = s) [Recent, ArchiveBackfill, ArchiveReconcile]"

definition frequency_of_text :: "string \<Rightarrow> frequency option" where
  "frequency_of_text s =
     find (\<lambda>f. frequency_text f = s) [F_DAILY, F_MARKET, F_MONTHLY, F_MOVING_QUARTER, F_QUARTERLY, F_ANNUAL]"

definition CATALOG_GROUPS :: "catalog_group list" where
  "CATALOG_GROUPS = [INTEREST_RATES, INFLATION, ACTIVITY, ACTIVITY_SECTORAL, FISCAL, CREDIT, EXCHANGE,
     EXTERNAL, COMPLEMENTARY, IPCA_GROUPS, IPCA_NATURE, IPCA_CORE, IPCA_PRICES]"

definition APPROVED_START_BY_NAME :: "string \<Rightarrow> date option" where
  "APPROVED_START_BY_NAME = map_of (map (\<lambda>g. (group_text g, APPROVED_GROUP_START g)) CATALOG_GROUPS)"

section \<open>One unit\<close>

record unit_evidence =
  ev_start :: date
  ev_documented :: date
  ev_observed :: date
  ev_approved :: date
  ev_version :: string
  ev_basis :: string
  ev_source_url :: string
  ev_detail_url :: string
  ev_sha :: string

definition json_evidence :: "(string \<times> json) list \<Rightarrow> plan_error + unit_evidence" where
  "json_evidence kvs =
     bindE (json_date kvs ''availability_start'') (\<lambda>st.
     bindE (json_date kvs ''availability_documented_start'') (\<lambda>dc.
     bindE (json_date kvs ''availability_observed_on'') (\<lambda>ob.
     bindE (json_date kvs ''approved_history_start'') (\<lambda>ap.
     bindE (json_text kvs ''availability_registry_version'') (\<lambda>rv.
     bindE (json_text kvs ''availability_basis'') (\<lambda>ba.
     bindE (json_text kvs ''availability_source_url'') (\<lambda>su.
     bindE (json_text kvs ''availability_detail_url'') (\<lambda>du.
     bindE (json_text kvs ''availability_registry_sha256'') (\<lambda>sh.
       Inr \<lparr>ev_start = st, ev_documented = dc, ev_observed = ob, ev_approved = ap, ev_version = rv,
            ev_basis = ba, ev_source_url = su, ev_detail_url = du, ev_sha = sh\<rparr>)))))))))"

definition evidence_agrees :: "codec \<Rightarrow> unit_evidence \<Rightarrow> int \<Rightarrow> string \<Rightarrow> string \<Rightarrow> date \<Rightarrow> plan_error + unit" where
  "evidence_agrees c ev code freq grp start =
     bindE (lift (availability_for_version c (ev_version ev) code freq)) (\<lambda>known.
       case (known, APPROVED_START_BY_NAME grp) of
         (Some a, Some approved) \<Rightarrow>
           guardE (av_registry_sha a = ev_sha ev \<and> av_documented a = ev_documented ev
             \<and> av_first a = ev_start ev \<and> av_observed_on a = ev_observed ev \<and> av_basis a = ev_basis ev
             \<and> av_source_url a = ev_source_url ev \<and> av_detail_url a = ev_detail_url ev
             \<and> approved = ev_approved ev \<and> max (av_first a) approved \<le> start) Unsupported
       | _ \<Rightarrow> Inl Unsupported)"

definition json_unit :: "codec \<Rightarrow> json \<Rightarrow> plan_error + sgs_unit" where
  "json_unit c v =
     bindE (json_object v) (\<lambda>kvs.
     bindE (json_text kvs ''role'') (\<lambda>rt.
     case role_of_text rt of None \<Rightarrow> Inl Unsupported | Some r \<Rightarrow>
     bindE (json_date kvs ''start_date'') (\<lambda>start.
     bindE (json_date kvs ''end_date'') (\<lambda>stop.
     bindE (json_text kvs ''policy_version'') (\<lambda>policy.
     if policy \<notin> set SUPPORTED_POLICY_VERSIONS then Inl Unsupported else
     bindE (if policy \<noteq> POLICY_VERSION then Inr None
            else bindE (json_evidence kvs) (\<lambda>ev.
                 bindE (json_int kvs ''series_code'') (\<lambda>code.
                 bindE (json_text kvs ''frequency'') (\<lambda>freq.
                 bindE (json_text kvs ''group_name'') (\<lambda>grp.
                 bindE (evidence_agrees c ev code freq grp start) (\<lambda>_. Inr (Some ev))))))) (\<lambda>ev.
     bindE (json_text kvs ''unit_id'') (\<lambda>uid.
     bindE (json_int kvs ''ordinal'') (\<lambda>pos.
     bindE (json_int kvs ''series_code'') (\<lambda>code.
     bindE (json_text kvs ''indicator_key'') (\<lambda>ik.
     bindE (json_text kvs ''group_name'') (\<lambda>grp.
     bindE (json_int kvs ''freshness_days'') (\<lambda>fresh.
     bindE (json_text kvs ''contract_version'') (\<lambda>cv.
     bindE (json_text kvs ''contract_id'') (\<lambda>cid.
     bindE (json_text kvs ''identity_kind'') (\<lambda>ident.
     bindE (json_text kvs ''unit'') (\<lambda>un.
     bindE (json_text kvs ''method'') (\<lambda>meth.
     bindE (json_text kvs ''frequency'') (\<lambda>freq.
       Inr \<lparr>u_id = uid, u_ordinal = pos, u_role = r, u_code = code, u_key = ik, u_group = grp,
            u_freshness = fresh, u_policy = policy, u_contract_version = cv, u_contract_id = cid,
            u_identity = ident, u_unit = un, u_method = meth, u_frequency = freq, u_start = start, u_end = stop,
            u_avail_start = map_option ev_start ev, u_avail_documented = map_option ev_documented ev,
            u_registry_version = map_option ev_version ev, u_observed_on = map_option ev_observed ev,
            u_basis = map_option ev_basis ev, u_source_url = map_option ev_source_url ev,
            u_detail_url = map_option ev_detail_url ev, u_registry_sha = map_option ev_sha ev,
            u_approved_start = map_option ev_approved ev\<rparr>))))))))))))))))))"

section \<open>The scopes of a current plan\<close>

text \<open>The dictionary of the recent units: the first position of a code, its last unit.\<close>

fun recents_by_code :: "(int \<times> sgs_unit) list \<Rightarrow> sgs_unit list \<Rightarrow> (int \<times> sgs_unit) list" where
  "recents_by_code seen [] = seen"
| "recents_by_code seen (u # us) =
     (if u_role u \<noteq> Recent then recents_by_code seen us
      else if u_code u \<in> set (map fst seen)
      then recents_by_code (map (\<lambda>(k, v). if k = u_code u then (k, u) else (k, v)) seen) us
      else recents_by_code (seen @ [(u_code u, u)]) us)"

definition check_recent :: "date \<Rightarrow> int \<times> sgs_unit \<Rightarrow> plan_error + unit" where
  "check_recent as_of p =
     (let u = snd p
      in if u_end u \<noteq> as_of then Inl Unsupported
         else case (u_avail_start u, u_approved_start u, frequency_of_text (u_frequency u)) of
           (Some avail, Some approved, Some f) \<Rightarrow>
             bindE (lift (lookback_start (fst p) f as_of)) (\<lambda>l.
               guardE (u_start u = max (max avail approved) l) Unsupported)
         | _ \<Rightarrow> Inl Unsupported)"

fun check_archives :: "(int \<times> sgs_unit) list \<Rightarrow> int set \<Rightarrow> sgs_unit list \<Rightarrow> plan_error + unit" where
  "check_archives recents seen [] = Inr ()"
| "check_archives recents seen (u # us) =
     (case map_of recents (u_code u) of
        None \<Rightarrow> Inl Unsupported
      | Some r \<Rightarrow>
          if u_code u \<in> seen then Inl Unsupported
          else case (u_avail_start u, u_approved_start u) of
            (Some avail, Some approved) \<Rightarrow>
              bindE (lift (archive_windows (max avail approved) (u_start r))) (\<lambda>ws.
                if (u_start u, u_end u) \<notin> set ws then Inl Unsupported
                else check_archives recents (insert (u_code u) seen) us)
          | _ \<Rightarrow> Inl Unsupported)"

definition validate_v3_plan_scopes :: "sgs_unit list \<Rightarrow> date \<Rightarrow> plan_error + unit" where
  "validate_v3_plan_scopes units as_of =
     (let recents = recents_by_code [] units; archives = filter (\<lambda>u. u_role u \<noteq> Recent) units
      in if MAX_ARCHIVE_UNITS_PER_RUN < length archives then Inl Unsupported
         else bindE (mapE (check_recent as_of) recents) (\<lambda>_. check_archives recents {} archives))"

section \<open>The whole plan\<close>

definition v3_unit_ok :: "codec \<Rightarrow> sgs_unit \<Rightarrow> bool" where
  "v3_unit_ok c u \<longleftrightarrow>
     u_policy u = POLICY_VERSION
     \<and> (case u_registry_version u of Some v \<Rightarrow> v \<in> set SUPPORTED_REGISTRY_VERSIONS | None \<Rightarrow> False)
     \<and> (case u_registry_sha u of Some h \<Rightarrow> h \<in> set (SUPPORTED_REGISTRY_SHA256 c) | None \<Rightarrow> False)
     \<and> u_approved_start u = APPROVED_START_BY_NAME (u_group u)
     \<and> u_basis u = Some ''documented_start''
     \<and> (case (u_avail_start u, u_approved_start u) of
          (Some avail, Some approved) \<Rightarrow> max avail approved \<le> u_start u | _ \<Rightarrow> False)
     \<and> startswith (case u_source_url u of Some s \<Rightarrow> s | None \<Rightarrow> []) ''https://www3.bcb.gov.br/sgspub/''"

definition plan_from_json :: "codec \<Rightarrow> json \<Rightarrow> plan_error + sgs_plan" where
  "plan_from_json c v =
     bindE (json_object v) (\<lambda>kvs.
     case (map_of kvs ''plan_version'', map_of kvs ''policy_version'', map_of kvs ''units'') of
       (Some (JStr pv), Some (JStr policy), raw) \<Rightarrow>
         if pv \<noteq> PLAN_VERSION \<or> policy \<notin> set SUPPORTED_POLICY_VERSIONS then Inl Unsupported
         else (case raw of
           Some (JArr items) \<Rightarrow>
             bindE (mapE (json_unit c) items) (\<lambda>units.
             bindE (json_date kvs ''as_of'') (\<lambda>as_of.
             if policy = LEGACY_POLICY_VERSION \<and> list_ex (\<lambda>u. u_policy u \<noteq> LEGACY_POLICY_VERSION) units
               then Inl Unsupported
             else if policy = V2_POLICY_VERSION
                 \<and> list_ex (\<lambda>u. u_role u = Recent \<and> u_policy u \<noteq> V2_POLICY_VERSION) units
               then Inl Unsupported
             else if policy = POLICY_VERSION \<and> list_ex (\<lambda>u. \<not> v3_unit_ok c u) units
               then Inl Unsupported
             else bindE (if policy = POLICY_VERSION then validate_v3_plan_scopes units as_of else Inr ()) (\<lambda>_.
               Inr \<lparr>p_version = PLAN_VERSION, p_policy = policy, p_as_of = as_of, p_units = units\<rparr>)))
         | _ \<Rightarrow> Inl Unsupported)
     | _ \<Rightarrow> Inl Unsupported)"

section \<open>Stored plans\<close>

text \<open>\<open>except (KeyError, TypeError, ValueError)\<close>; an unsupported plan is itself a \<open>ValueError\<close>.\<close>

definition as_malformed :: "plan_error \<Rightarrow> plan_error" where
  "as_malformed e = (if e \<in> {PyFail ValueError, PyFail TypeError, PyFail KeyError} then Unsupported else e)"

definition parse_plan_text :: "codec \<Rightarrow> string \<Rightarrow> plan_error + sgs_plan" where
  "parse_plan_text c raw = bindE (lift (loads c raw)) (plan_from_json c)"

definition read_sgs_plan :: "codec \<Rightarrow> run_id \<Rightarrow> db \<Rightarrow> plan_error + sgs_plan option" where
  "read_sgs_plan c r d =
     (case db_plans d r of
        None \<Rightarrow> Inr None
      | Some row \<Rightarrow>
          if sha256 c (pr_json row) \<noteq> pr_sha row then Inl Unsupported
          else case parse_plan_text c (pr_json row) of
            Inl e \<Rightarrow> Inl (as_malformed e)
          | Inr p \<Rightarrow> if pr_version row \<noteq> p_version p then Inl Unsupported else Inr (Some p))"

definition sgs_plan_unit_for_task :: "codec \<Rightarrow> run_id \<Rightarrow> string \<Rightarrow> db \<Rightarrow> plan_error + sgs_unit option" where
  "sgs_plan_unit_for_task c r task d =
     bindE (read_sgs_plan c r d) (\<lambda>p. Inr (case p of
        None \<Rightarrow> None
      | Some q \<Rightarrow> find (\<lambda>u. plan_item_task_name u = task) (p_units q)))"

definition freeze_sgs_plan :: "codec \<Rightarrow> run_id \<Rightarrow> sgs_plan \<Rightarrow> timestamp \<Rightarrow> db \<Rightarrow> plan_error + sgs_plan \<times> db" where
  "freeze_sgs_plan c r p now d =
     (case db_plans d r of
        Some row \<Rightarrow>
          if sha256 c (pr_json row) \<noteq> pr_sha row then Inl (PyFail ValueError)
          else bindE (parse_plan_text c (pr_json row)) (\<lambda>q. Inr (q, d))
      | None \<Rightarrow>
          (case insert_sgs_plan_rows c r p now d of
             Inl e \<Rightarrow> Inl (Rejected e) | Inr d' \<Rightarrow> Inr (p, d')))"

end
