(* ===== verification/SgsPlanParts.thy ===== *)
theory SgsPlanParts
  imports SgsPlanShape SgsPlanJson
begin

text \<open>
  A built plan in its three parts, the recent units, the carried archive units and the selected ones, with
  what every unit of a part satisfies.
\<close>

definition recents :: "sgs_plan \<Rightarrow> sgs_unit list" where
  "recents p = filter (\<lambda>u. u_role u = Recent) (p_units p)"

definition archives :: "sgs_plan \<Rightarrow> sgs_unit list" where
  "archives p = filter (\<lambda>u. u_role u \<noteq> Recent) (p_units p)"

section \<open>The parts of a built plan\<close>

lemma map_enumerate_snd: "map (\<lambda>p. f (snd p)) (enumerate k xs) = map f xs"
  by (induction xs arbitrary: k) auto

lemma map_enumerate_fst: "map (\<lambda>p. f (fst p)) (enumerate k xs) = map f [k..<k + length xs]"
  by (induction xs arbitrary: k) (auto simp: upt_rec)

lemma recent_units_proj:
  "map u_code (recent_units c as_of) = sort (map is_code SPECS)"
  "map u_ordinal (recent_units c as_of) = map int [0..<length SPECS]"
  "u \<in> set (recent_units c as_of) \<Longrightarrow> \<exists>s \<in> set SPECS. \<exists>i. u = made_unit c s Recent (recent_from s as_of) as_of i"
proof -
  have "map u_code (recent_units c as_of) = map is_code (sort_key is_code SPECS)"
    by (simp add: recent_units_def case_prod_beta o_def map_enumerate_snd)
  also have "\<dots> = sort (map is_code SPECS)" using sort_key_map [of "\<lambda>x. x" is_code SPECS] by (simp add: o_def)
  finally show "map u_code (recent_units c as_of) = sort (map is_code SPECS)" .
  show "map u_ordinal (recent_units c as_of) = map int [0..<length SPECS]"
    by (simp add: recent_units_def case_prod_beta o_def map_enumerate_fst)
  show "u \<in> set (recent_units c as_of) \<Longrightarrow> \<exists>s \<in> set SPECS. \<exists>i. u = made_unit c s Recent (recent_from s as_of) as_of i"
    by (auto simp: recent_units_def in_set_enumerate_eq) (metis nth_mem length_sort set_sort)
qed

lemma renumber_proj:
  "map u_code (renumber k us) = map u_code us" "map u_ordinal (renumber k us) = map int [k..<k + length us]"
  "length (renumber k us) = length us"
  "v \<in> set (renumber k us) \<Longrightarrow> \<exists>u \<in> set us. \<exists>j. v = u\<lparr>u_ordinal := j\<rparr>"
proof -
  show "map u_code (renumber k us) = map u_code us"
    by (simp add: renumber_def case_prod_beta o_def map_enumerate_snd)
  show "map u_ordinal (renumber k us) = map int [k..<k + length us]"
    by (rule nth_equalityI) (simp_all add: renumber_def nth_enumerate_eq)
  show "length (renumber k us) = length us" by (simp add: renumber_def)
  show "v \<in> set (renumber k us) \<Longrightarrow> \<exists>u \<in> set us. \<exists>j. v = u\<lparr>u_ordinal := j\<rparr>"
    by (auto simp: renumber_def in_set_enumerate_eq intro: nth_mem)
qed

definition offered_units :: "codec \<Rightarrow> nat \<Rightarrow> candidate list \<Rightarrow> sgs_unit list" where
  "offered_units c base cds = map (offered_unit c base) (enumerate 0 cds)"

lemma offered_units_proj:
  assumes "\<And>cd. cd \<in> set cds \<Longrightarrow> \<exists>s \<in> set SPECS. candidate_for s as_of cd"
  shows "map u_code (offered_units c k cds) = map cd_code cds"
    "map u_ordinal (offered_units c k cds) = map int [k..<k + length cds]"
    "length (offered_units c k cds) = length cds"
    "v \<in> set (offered_units c k cds) \<Longrightarrow> \<exists>i. \<exists>cd \<in> set cds. v = offered_unit c k (i, cd)"
proof -
  show "map u_code (offered_units c k cds) = map cd_code cds"
    by (rule nth_equalityI)
      (use assms in \<open>auto simp: offered_units_def offered_unit_def nth_enumerate_eq candidate_for_def dest!: nth_mem\<close>)
  show "map u_ordinal (offered_units c k cds) = map int [k..<k + length cds]"
    by (rule nth_equalityI) (simp_all add: offered_units_def offered_unit_def nth_enumerate_eq)
  show "length (offered_units c k cds) = length cds" by (simp add: offered_units_def)
  show "v \<in> set (offered_units c k cds) \<Longrightarrow> \<exists>i. \<exists>cd \<in> set cds. v = offered_unit c k (i, cd)"
    by (auto simp: offered_units_def in_set_enumerate_eq) (metis nth_mem)
qed

lemma offered_unit_archive:
  assumes "s \<in> set SPECS" "candidate_for s as_of cd" "valid_date as_of" "2016 \<le> year as_of"
  shows "archive_unit c as_of (offered_unit c k (i, cd))"
proof -
  let ?f = "history_floor s" and ?e = "recent_from s as_of"
  from assms(2) obtain y where y: "y \<in> set [year ?f..year ?e - 1]" "cd_start cd = fst (year_scope ?f y)"
    "cd_stop cd = snd (year_scope ?f y)" "cd_spec cd = s"
    by (auto simp: candidate_for_def prod_eq_iff)
  note b = year_scope_bounds [OF history_floor_valid(1) [OF assms(1)] y(1) recent_start_spec(2) [OF assms(1,3,4)]]
  show ?thesis
    unfolding archive_unit_def offered_unit_def snd_conv fst_conv y(2-4)
    by (rule bexI [OF _ assms(1)], intro exI conjI, rule refl) (simp_all add: b archive_role_def)
qed

text \<open>The plan in three parts, with what each part satisfies.\<close>

lemma build_sgs_plan_parts:
  assumes "valid_date as_of" "2016 \<le> year as_of" "receipts_dated vs" "0 \<le> cap" "cap \<le> 4"
  obtains p carried selected where
    "build_sgs_plan c as_of vs cursor cap ps = Inr p"
    "p_version p = PLAN_VERSION" "p_policy p = POLICY_VERSION" "p_as_of p = as_of"
    "p_units p = recent_units c as_of @ renumber (length SPECS) carried
       @ offered_units c (length SPECS + length carried) selected"
    "recents p = recent_units c as_of"
    "archives p = renumber (length SPECS) carried @ offered_units c (length SPECS + length carried) selected"
    "\<forall>u \<in> set carried. \<exists>q \<in> set ps. reissued c as_of q u"
    "\<forall>cd \<in> set selected. cd \<in> set (all_offers vs as_of cursor)"
    "distinct (map u_code carried @ map cd_code selected)" "int (length carried + length selected) \<le> cap"
    "selected = select_loop (nat cap) (length carried) [] (set (map u_code carried)) (all_offers vs as_of cursor)"
proof -
  obtain carried selected where b: "build_sgs_plan c as_of vs cursor cap ps = Inr
       \<lparr>p_version = PLAN_VERSION, p_policy = POLICY_VERSION, p_as_of = as_of,
        p_units = recent_units c as_of @ renumber (length SPECS) carried
          @ map (offered_unit c (length SPECS + length carried)) (enumerate 0 selected)\<rparr>"
    and c: "carry_state c as_of (nat cap) (set ps) carried (set (map u_code carried))"
    and s: "selected = select_loop (nat cap) (length carried) [] (set (map u_code carried)) (all_offers vs as_of cursor)"
    using build_sgs_plan_eq [OF assms, of c cursor ps] by auto
  let ?p = "\<lparr>p_version = PLAN_VERSION, p_policy = POLICY_VERSION, p_as_of = as_of,
        p_units = recent_units c as_of @ renumber (length SPECS) carried
          @ map (offered_unit c (length SPECS + length carried)) (enumerate 0 selected)\<rparr>"
  have sel: "distinct (map cd_code selected)" "set selected \<subseteq> set (all_offers vs as_of cursor)"
    "length carried + length selected \<le> nat cap" "\<forall>cd \<in> set selected. cd_code cd \<notin> set (map u_code carried)"
    using select_loop_shape [of "[]" "set (map u_code carried)" "length carried" "nat cap" "all_offers vs as_of cursor"]
      c by (simp_all add: s carry_state_def)
  have r1: "u_role u = Recent" if "u \<in> set (recent_units c as_of)" for u
    using recent_units_proj(3) [OF that] by auto
  have r2: "u_role u \<noteq> Recent" if u: "u \<in> set (renumber (length SPECS) carried)" for u
  proof -
    obtain v q j where "reissued c as_of q v" "u = v\<lparr>u_ordinal := j\<rparr>"
      using renumber_proj(4) [OF u] c by (auto simp: carry_state_def)
    then show ?thesis by (auto simp: reissued_def archive_role_def)
  qed
  have r3: "u_role u \<noteq> Recent" if "u \<in> set (offered_units c k selected)" for u k
    using that by (auto simp: offered_units_def offered_unit_def split: if_splits)
  have "recents ?p = recent_units c as_of"
    "archives ?p = renumber (length SPECS) carried @ offered_units c (length SPECS + length carried) selected"
    using r1 r2 r3 by (auto simp: recents_def archives_def offered_units_def [symmetric] filter_empty_conv
        filter_id_conv)
  moreover have "distinct (map u_code carried @ map cd_code selected)"
  proof -
    have "\<forall>k \<in> set (map cd_code selected). k \<notin> set (map u_code carried)" using sel(4) by simp
    then have "set (map u_code carried) \<inter> set (map cd_code selected) = {}" by blast
    then show ?thesis using sel(1) c by (simp add: carry_state_def)
  qed
  moreover have "int (length carried + length selected) \<le> cap" using sel(3) assms(4) by simp
  moreover have "\<forall>u \<in> set carried. \<exists>q \<in> set ps. reissued c as_of q u" using c by (simp add: carry_state_def)
  moreover have "\<forall>cd \<in> set selected. cd \<in> set (all_offers vs as_of cursor)" using sel(2) by blast
  moreover note b s
  ultimately show thesis by (intro that [of ?p carried selected]) (simp_all only: offered_units_def sgs_plan.simps)
qed

section \<open>Task names\<close>

lemma replace_char_append [simp]: "replace_char a b (s @ t) = replace_char a b s @ replace_char a b t"
  by (simp add: replace_char_def)

lemma replace_char_absent: "a \<notin> set s \<Longrightarrow> replace_char a b s = s"
  by (induction s) (auto simp: replace_char_def)

lemma task_name_made:
  assumes "0 \<le> is_code s"
  shows "plan_item_task_name (made_unit c s r a b i) = ''sgs_plan_'' @ show_int (is_code s) @ CHR ''_'' #
      role_text r @ CHR ''_'' # replace_char CHR '':'' CHR ''_'' (date_isoformat a @ '':'' @ date_isoformat b)"
proof -
  have "CHR '':'' \<notin> set (show_int (is_code s))"
    using show_int_digits [OF assms, of "CHR '':''"] by (auto simp: digit_val_def)
  moreover have "replace_char CHR '':'' CHR ''_'' (role_text r) = role_text r"
    by (cases r) (simp_all add: replace_char_def)
  ultimately show ?thesis
    by (simp add: plan_item_task_name_def unit_identifier_def replace_char_absent) (simp add: replace_char_def)
qed

lemma task_name_inject:
  assumes "s \<in> set SPECS" "t \<in> set SPECS"
    and "plan_item_task_name (made_unit c s r a b i) = plan_item_task_name (made_unit c' t r' a' b' i')"
  shows "is_code s = is_code t \<and> (r = Recent \<longleftrightarrow> r' = Recent)"
proof -
  have pos: "0 \<le> is_code s" "0 \<le> is_code t" using specs_positive assms(1,2) by (simp_all add: less_imp_le)
  have u: "CHR ''_'' \<notin> set (show_int n)" if "0 \<le> n" for n
    using show_int_digits [OF that, of "CHR ''_''"] by (auto simp: digit_val_def)
  obtain x y where xy: "show_int (is_code s) @ CHR ''_'' # role_text r @ x
      = show_int (is_code t) @ CHR ''_'' # role_text r' @ y"
    using assms(3) unfolding task_name_made [OF pos(1)] task_name_made [OF pos(2)] append_Cons [symmetric] append.assoc
    by (simp only: append_Cons append_Nil same_append_eq list.inject simp_thms)
  then have "split_on CHR ''_'' (show_int (is_code s) @ CHR ''_'' # role_text r @ x)
      = split_on CHR ''_'' (show_int (is_code t) @ CHR ''_'' # role_text r' @ y)" by simp
  then have e: "show_int (is_code s) = show_int (is_code t)"
    using u [OF pos(1)] u [OF pos(2)] by (simp add: split_on_append)
  then have "role_text r @ x = role_text r' @ y" using xy by simp
  then have "r = Recent \<longleftrightarrow> r' = Recent" by (cases r; cases r') auto
  then show ?thesis using e show_int_inject pos by auto
qed

section \<open>A plan respects its policy\<close>

lemma distinct_map_via:
  "distinct (map g xs) \<Longrightarrow> (\<And>x y. x \<in> set xs \<Longrightarrow> y \<in> set xs \<Longrightarrow> f x = f y \<Longrightarrow> g x = g y) \<Longrightarrow> distinct (map f xs)"
  unfolding distinct_map inj_on_def by blast

lemma archive_unit_spec:
  assumes "archive_unit c as_of u"
  obtains s r a b i where "s \<in> set SPECS" "u = made_unit c s r a b i" "r \<noteq> Recent" "a \<le> b"
    "history_floor s \<le> a" "b < recent_from s as_of"
  using assms by (auto simp: archive_unit_def archive_role_def)

lemma built_plan_shape:
  assumes "valid_date as_of" "2016 \<le> year as_of" "receipts_dated vs" "0 \<le> cap" "cap \<le> 4"
    and built: "build_sgs_plan c as_of vs cursor cap ps = Inr p"
  shows "map u_code (recents p) = sort (map is_code SPECS)"
    and "\<forall>u \<in> set (recents p). \<exists>s \<in> set SPECS. \<exists>i. u = made_unit c s Recent (recent_from s as_of) as_of i"
    and "\<forall>u \<in> set (archives p). archive_unit c as_of u"
    and "int (length (archives p)) \<le> cap" "distinct (map u_code (archives p))"
    and "\<forall>u \<in> set (archives p). \<exists>r \<in> set (recents p). u_code r = u_code u \<and> u_end u < u_start r"
    and "map u_ordinal (p_units p) = map int [0..<length (p_units p)]"
    and "distinct (map plan_item_task_name (p_units p))" "p_units p = recents p @ archives p"
proof -
  obtain carried selected where units: "p_units p = recent_units c as_of @ renumber (length SPECS) carried
       @ offered_units c (length SPECS + length carried) selected"
    and rec: "recents p = recent_units c as_of"
    and arc: "archives p = renumber (length SPECS) carried @ offered_units c (length SPECS + length carried) selected"
    and car: "\<forall>u \<in> set carried. \<exists>q \<in> set ps. reissued c as_of q u"
    and sel: "\<forall>cd \<in> set selected. cd \<in> set (all_offers vs as_of cursor)"
    and dis: "distinct (map u_code carried @ map cd_code selected)"
    and len: "int (length carried + length selected) \<le> cap"
    by (rule build_sgs_plan_parts [OF assms(1-5), of c cursor ps]) (use built in simp)
  note off = offered_units_proj [OF all_offers_shape [OF sel [rule_format]]]
  have arch: "archive_unit c as_of u" if u: "u \<in> set (archives p)" for u
  proof -
    consider "u \<in> set (renumber (length SPECS) carried)" | "u \<in> set (offered_units c (length SPECS + length carried) selected)"
      using u arc by auto
    then show ?thesis
    proof cases
      case 1
      then obtain v q j where "reissued c as_of q v" "u = v\<lparr>u_ordinal := j\<rparr>" using renumber_proj(4) car by blast
      then show ?thesis using reissued_archive archive_unit_ordinal by blast
    next
      case 2
      then obtain i cd where cd: "cd \<in> set selected" "u = offered_unit c (length SPECS + length carried) (i, cd)"
        using off(4) by blast
      then obtain s where "s \<in> set SPECS" "candidate_for s as_of cd" using sel all_offers_shape by blast
      then show ?thesis using offered_unit_archive [OF _ _ assms(1,2)] cd(2) by blast
    qed
  qed
  have ac: "map u_code (archives p) = map u_code carried @ map cd_code selected"
    by (simp add: arc renumber_proj(1) off(1))
  have rc: "map u_code (recents p) = sort (map is_code SPECS)" by (simp add: rec recent_units_proj(1))
  have rdis: "distinct (map u_code (recents p))" using rc specs_distinct(2) by simp
  have units': "p_units p = recents p @ archives p" by (simp add: units rec arc)
  have rmade: "\<exists>s \<in> set SPECS. \<exists>i. u = made_unit c s Recent (recent_from s as_of) as_of i" if "u \<in> set (recents p)" for u
    using that recent_units_proj(3) by (simp add: rec)
  have names: "distinct (map plan_item_task_name (p_units p))"
  proof -
    have key: "u_code u = u_code v \<and> (u \<in> set (recents p) \<longleftrightarrow> v \<in> set (recents p))"
      if k: "u \<in> set (p_units p)" "v \<in> set (p_units p)" "plan_item_task_name u = plan_item_task_name v" for u v
    proof -
      have made: "\<exists>s r a b i. s \<in> set SPECS \<and> w = made_unit c s r a b i \<and> (w \<in> set (recents p) \<longleftrightarrow> r = Recent)"
        if w: "w \<in> set (p_units p)" for w
      proof (cases "w \<in> set (recents p)")
        case True
        then show ?thesis using rmade by blast
      next
        case False
        then have "archive_unit c as_of w" using w units' arch by simp
        then show ?thesis using False by (elim archive_unit_spec) blast
      qed
      obtain s r a b i where u: "s \<in> set SPECS" "u = made_unit c s r a b i" "u \<in> set (recents p) \<longleftrightarrow> r = Recent"
        using made [OF k(1)] by blast
      obtain t r' a' b' i' where v: "t \<in> set SPECS" "v = made_unit c t r' a' b' i'"
        "v \<in> set (recents p) \<longleftrightarrow> r' = Recent" using made [OF k(2)] by blast
      from task_name_inject [OF u(1) v(1)] k(3) have "is_code s = is_code t \<and> (r = Recent \<longleftrightarrow> r' = Recent)"
        unfolding u(2) v(2) by blast
      with u(3) v(3) show ?thesis by (simp add: u(2) v(2))
    qed
    have "distinct (map plan_item_task_name (recents p))"
      by (rule distinct_map_via [OF rdis]) (use key units' in simp)
    moreover have "distinct (map plan_item_task_name (archives p))"
      by (rule distinct_map_via [where g = u_code]) (use key units' dis ac in simp_all)
    moreover have "plan_item_task_name u \<noteq> plan_item_task_name v"
      if uv: "u \<in> set (recents p)" "v \<in> set (archives p)" for u v
    proof
      assume "plan_item_task_name u = plan_item_task_name v"
      then have "v \<in> set (recents p)" using key [of u v] uv units' by simp
      then show False using uv(2) by (simp add: recents_def archives_def)
    qed
    ultimately show ?thesis by (auto simp: units')
  qed
  have before: "\<exists>r \<in> set (recents p). u_code r = u_code u \<and> u_end u < u_start r" if u: "u \<in> set (archives p)" for u
  proof -
    from arch [OF u] obtain s where s: "s \<in> set SPECS" "u_code u = is_code s" "u_end u < recent_from s as_of"
      by (auto elim!: archive_unit_spec)
    then have "u_code u \<in> set (map u_code (recents p))" by (simp add: rc)
    then obtain r where r: "r \<in> set (recents p)" "u_code r = u_code u" by auto
    moreover obtain t i where "t \<in> set SPECS" "r = made_unit c t Recent (recent_from t as_of) as_of i"
      using rmade [OF r(1)] by blast
    moreover from calculation s(2) have "t = s" using specs_distinct(2) s(1) by (auto simp: distinct_map inj_on_def)
    ultimately show ?thesis using s(3) by (intro bexI [of _ r]) simp_all
  qed
  show "map u_ordinal (p_units p) = map int [0..<length (p_units p)]"
  proof -
    let ?n = "length SPECS" and ?k = "length SPECS + length carried"
    have "map u_ordinal (p_units p) = map int ([0..<?n] @ [?n..<?k] @ [?k..<?k + length selected])"
      by (simp add: units recent_units_proj(2) renumber_proj(2) off(2))
    moreover have "[0..<?n] @ [?n..<?k] @ [?k..<?k + length selected] = [0..<?k + length selected]"
      using upt_add_eq_append [of 0 ?n "length carried"] upt_add_eq_append [of 0 ?k "length selected"] by simp
    moreover have "length (p_units p) = ?k + length selected"
      by (simp add: units recent_units_def renumber_proj(3) off(3))
    ultimately show ?thesis by simp
  qed
  show "map u_code (recents p) = sort (map is_code SPECS)" by (rule rc)
  show "\<forall>u \<in> set (recents p). \<exists>s \<in> set SPECS. \<exists>i. u = made_unit c s Recent (recent_from s as_of) as_of i"
    using rmade by blast
  show "\<forall>u \<in> set (archives p). archive_unit c as_of u" using arch by blast
  show "int (length (archives p)) \<le> cap" using len by (simp add: arc renumber_proj(3) off(3))
  show "distinct (map u_code (archives p))" using dis ac by simp
  show "\<forall>u \<in> set (archives p). \<exists>r \<in> set (recents p). u_code r = u_code u \<and> u_end u < u_start r"
    using before by blast
  show "distinct (map plan_item_task_name (p_units p))" by (rule names)
  show "p_units p = recents p @ archives p" by (rule units')
qed

end
