(* ===== verification/SgsPlanClaims.thy ===== *)
theory SgsPlanClaims
  imports SgsPlanParts
begin

text \<open>
  What a plan promises: it can always be built, it respects the caps and the calendar, and archive scopes
  are chosen missing first and due only.
\<close>

text \<open>C20: For any planning day from 2016 on, any stored receipts, cursor and pending units, a plan is
  built; it has exactly one recent unit per catalogue series, in the order of the codes, each ending on the
  planning day; at most the requested number of archive units, at most one per series, each ending before
  the recent unit of its series starts; ordinals count from zero and all task names are distinct.\<close>

theorem plan_respects_policy:
  assumes "valid_date as_of" "2016 \<le> year as_of" "receipts_dated vs" "0 \<le> cap" "cap \<le> 4"
  shows "\<exists>p. build_sgs_plan c as_of vs cursor cap ps = Inr p
    \<and> map u_code (recents p) = sort (map is_code SPECS)
    \<and> (\<forall>u \<in> set (recents p). u_start u \<le> as_of \<and> u_end u = as_of)
    \<and> int (length (archives p)) \<le> cap \<and> distinct (map u_code (archives p))
    \<and> (\<forall>u \<in> set (archives p). u_start u \<le> u_end u
         \<and> (\<exists>r \<in> set (recents p). u_code r = u_code u \<and> u_end u < u_start r))
    \<and> map u_ordinal (p_units p) = map int [0..<length (p_units p)]
    \<and> distinct (map plan_item_task_name (p_units p))"
proof -
  obtain p where p: "build_sgs_plan c as_of vs cursor cap ps = Inr p"
    by (rule build_sgs_plan_parts [OF assms, of c cursor ps])
  note shape = built_plan_shape [OF assms p]
  have "\<forall>u \<in> set (recents p). u_start u \<le> as_of \<and> u_end u = as_of"
    using shape(2) recent_start_spec(4) [OF _ assms(1,2)] by fastforce
  moreover have "\<forall>u \<in> set (archives p). u_start u \<le> u_end u"
    using shape(3) by (fastforce elim: archive_unit_spec)
  ultimately show ?thesis using p shape(1,4-8) by (intro exI [of _ p]) simp
qed

definition ex_codec :: codec where
  "ex_codec = \<lparr>dumps = (\<lambda>j. ''{}''), loads = (\<lambda>t. Inl ValueError), sha256 = (\<lambda>t. ''00'')\<rparr>"

definition ex_receipt :: coverage_receipt where
  "ex_receipt = \<lparr>cv_operation = ''x1'', cv_run = ''r1'', cv_unit = ''u1'', cv_source = ''bcb_sgs'', cv_code = 433,
     cv_contract_id = ''sgs:433'', cv_contract_version = SCHEMA_VERSION, cv_identity = ''point'',
     cv_role = ArchiveBackfill, cv_policy = POLICY_VERSION, cv_start = Date 2015 1 1, cv_end = Date 2015 12 31,
     cv_payload = ''aa'', cv_count = 12, cv_captured = DateTime (Date 2026 3 1) 6 0 0 0 (Some 0),
     cv_ref_start = Some (Date 2015 1 1), cv_ref_end = Some (Date 2015 12 1), cv_business = ''x1''\<rparr>"

lemma ex_receipt_dated: "receipts_dated [ex_receipt]"
proof -
  have "case add_seconds (DateTime (Date 2026 3 1) 6 0 0 0 (Some 0)) (ARCHIVE_REVERIFY_DAYS * 86400) of
      Inr due \<Rightarrow> True | Inl _ \<Rightarrow> False" by code_simp
  then show ?thesis by (auto simp: receipts_dated_def ex_receipt_def split: sum.splits)
qed

lemma ex_day: "valid_date (Date 2026 10 30)" "2016 \<le> year (Date 2026 10 30)"
  by code_simp+

theorem plan_respects_policy_witness:
  "\<exists>p. build_sgs_plan ex_codec (Date 2026 10 30) [ex_receipt] (Some 433) 4 [] = Inr p
     \<and> length (archives p) \<le> 4 \<and> distinct (map plan_item_task_name (p_units p))
     \<and> map u_code (recents p) = sort (map is_code SPECS)"
  using plan_respects_policy [OF ex_day ex_receipt_dated, of 4 ex_codec "Some 433" "[]"] by auto

section \<open>Which archive scopes are chosen\<close>

lemma select_loop_keeps: "set sel \<subseteq> set (select_loop cap k sel chosen cds)"
  by (induction cds arbitrary: sel chosen) (fastforce+)

lemma select_loop_order:
  assumes "sorted_wrt (\<lambda>a b. cd_missing b \<longrightarrow> cd_missing a) (sel @ cds)" "set (map cd_code sel) \<subseteq> chosen"
    and "\<exists>cd \<in> set (select_loop cap k sel chosen cds). \<not> cd_missing cd"
    and "cd \<in> set cds" "cd_missing cd"
  shows "cd_code cd \<in> chosen \<union> set (map cd_code (select_loop cap k sel chosen cds))"
  using assms
proof (induction cds arbitrary: sel chosen)
  case (Cons x xs)
  have late: "\<not> (\<exists>y \<in> set sel. \<not> cd_missing y)" using Cons.prems(1,4,5) by (auto simp: sorted_wrt_append)
  have xm: "cd_missing x" using Cons.prems(1,4,5) by (auto simp: sorted_wrt_append)
  have rest: "sorted_wrt (\<lambda>a b. cd_missing b \<longrightarrow> cd_missing a) (sel @ xs)"
    "sorted_wrt (\<lambda>a b. cd_missing b \<longrightarrow> cd_missing a) ((sel @ [x]) @ xs)"
    using Cons.prems(1) by (auto simp: sorted_wrt_append)
  have open': "\<not> cap \<le> k + length sel" using Cons.prems(3) late by (auto split: if_splits)
  show ?case
  proof (cases "cd_code x \<in> chosen")
    case True
    then show ?thesis using Cons.IH [OF rest(1) Cons.prems(2)] Cons.prems(3-5) open' by auto
  next
    case False
    then have more: "\<not> cap \<le> length sel + 1" using Cons.prems(3) late xm open' by (auto split: if_splits)
    have sub: "set (map cd_code (sel @ [x])) \<subseteq> insert (cd_code x) chosen" using Cons.prems(2) by auto
    have eq: "select_loop cap k sel chosen (x # xs) = select_loop cap k (sel @ [x]) (insert (cd_code x) chosen) xs"
      using False more open' by simp
    have xin: "cd_code x \<in> set (map cd_code (select_loop cap k (sel @ [x]) (insert (cd_code x) chosen) xs))"
      using select_loop_keeps [of "sel @ [x]" cap k "insert (cd_code x) chosen" xs] by auto
    show ?thesis
    proof (cases "cd = x")
      case True then show ?thesis using xin eq by simp
    next
      case neq: False
      then have "cd_code cd \<in> insert (cd_code x) chosen
          \<union> set (map cd_code (select_loop cap k (sel @ [x]) (insert (cd_code x) chosen) xs))"
        using Cons.IH [OF rest(2) sub] Cons.prems(3-5) eq by auto
      then show ?thesis using xin eq by auto
    qed
  qed
qed simp

lemma all_offers_order: "sorted_wrt (\<lambda>a b. cd_missing b \<longrightarrow> cd_missing a) (all_offers vs as_of cursor)"
proof -
  have "sorted (map (candidate_key cursor) (all_offers vs as_of cursor))" by (simp add: all_offers_def)
  then have "sorted_wrt (\<lambda>a b. candidate_key cursor a \<le> candidate_key cursor b) (all_offers vs as_of cursor)"
    by (simp add: sorted_map)
  then show ?thesis
    by (rule sorted_wrt_mono_rel [rotated]) (auto simp: candidate_key_def)
qed

lemma offer_evidence:
  assumes "cd \<in> set (all_offers vs as_of cursor)"
  shows "case receipt_scopes vs (cd_code cd, cd_start cd, cd_stop cd) of
      None \<Rightarrow> cd_missing cd
    | Some v \<Rightarrow> \<not> cd_missing cd
        \<and> (\<exists>due. add_seconds (cv_captured v) (ARCHIVE_REVERIFY_DAYS * 86400) = Inr due \<and> ddate due \<le> as_of)"
proof -
  from assms obtain s w where "cd \<in> set (scope_offer (receipt_scopes vs) as_of s w)"
    by (auto simp: all_offers_def offers_def)
  moreover from scope_offer_shape [OF this]
  have "(cd_code cd, cd_start cd, cd_stop cd) = (is_code s, fst w, snd w)" by simp
  ultimately show ?thesis
    by (cases "receipt_scopes vs (is_code s, fst w, snd w)";
      cases "add_seconds (cv_captured (the (receipt_scopes vs (is_code s, fst w, snd w)))) (ARCHIVE_REVERIFY_DAYS * 86400)")
      (auto simp: scope_offer_def Let_def split: if_splits)
qed

lemma missing_offer:
  assumes "s \<in> set SPECS" "w \<in> set (archive_scopes s as_of)" "receipt_scopes vs (is_code s, w) = None"
  obtains cd where "cd \<in> set (all_offers vs as_of cursor)" "cd_missing cd" "cd_code cd = is_code s"
proof
  let ?cd = "\<lparr>cd_missing = True, cd_due = min_instant, cd_code = is_code s,
                     cd_start = fst w, cd_stop = snd w, cd_spec = s\<rparr>"
  have "?cd \<in> set (scope_offer (receipt_scopes vs) as_of s w)"
    using assms(3) by (simp add: scope_offer_def Let_def)
  then show "?cd \<in> set (all_offers vs as_of cursor)" using assms(1,2) by (auto simp: all_offers_def offers_def)
qed simp_all



end
