(* ===== verification/SgsPlanRoundtrip.thy ===== *)
theory SgsPlanRoundtrip
  imports SgsPlanParts
begin

text \<open>
  Freezing and reading back: the JSON of a built plan is read as the same plan, so what a run stores is what
  every later reader of the run gets.
\<close>

section \<open>Objects with sorted keys\<close>

lemma map_of_sort_key:
  assumes "distinct (map fst kvs)"
  shows "map_of (sort_key fst kvs) = map_of kvs"
proof -
  have "map fst (sort_key fst kvs) = sort (map fst kvs)"
    using sort_key_map [of "\<lambda>x. x" fst kvs] by (simp add: o_def)
  then have "distinct (map fst (sort_key fst kvs))" using assms by (simp only: distinct_sort)
  then show ?thesis using assms by (simp add: map_of_inject_set)
qed

lemma json_fields_sort_key:
  assumes "distinct (map fst kvs)"
  shows "json_text (sort_key fst kvs) k = json_text kvs k" "json_int (sort_key fst kvs) k = json_int kvs k"
    "json_date (sort_key fst kvs) k = json_date kvs k"
  by (simp_all add: json_text_def json_int_def json_date_def map_of_sort_key [OF assms])

lemma unit_keys_distinct: "distinct (map fst (unit_base_json u @ unit_availability_json u))"
  by (simp add: unit_base_json_def unit_availability_json_def)

section \<open>One unit\<close>

lemma role_of_text: "role_of_text (role_text r) = Some r"
  by (cases r) (simp_all add: role_of_text_def)

lemma frequency_of_text: "frequency_of_text (frequency_text f) = Some f"
  by (cases f) (simp_all add: frequency_of_text_def)

lemma approved_start_by_name: "APPROVED_START_BY_NAME (group_text g) = Some (APPROVED_GROUP_START g)"
  by (cases g) (simp_all add: APPROVED_START_BY_NAME_def CATALOG_GROUPS_def)

lemma unit_text_fields:
  assumes "kvs = unit_base_json u @ unit_availability_json u"
  shows "json_text kvs ''unit_id'' = Inr (u_id u)" "json_int kvs ''ordinal'' = Inr (u_ordinal u)"
    "json_text kvs ''role'' = Inr (role_text (u_role u))" "json_int kvs ''series_code'' = Inr (u_code u)"
    "json_text kvs ''indicator_key'' = Inr (u_key u)" "json_text kvs ''group_name'' = Inr (u_group u)"
    "json_int kvs ''freshness_days'' = Inr (u_freshness u)" "json_text kvs ''policy_version'' = Inr (u_policy u)"
    "json_text kvs ''contract_version'' = Inr (u_contract_version u)"
    "json_text kvs ''contract_id'' = Inr (u_contract_id u)"
    "json_text kvs ''identity_kind'' = Inr (u_identity u)" "json_text kvs ''unit'' = Inr (u_unit u)"
    "json_text kvs ''method'' = Inr (u_method u)" "json_text kvs ''frequency'' = Inr (u_frequency u)"
    "valid_date (u_start u) \<Longrightarrow> json_date kvs ''start_date'' = Inr (u_start u)"
    "valid_date (u_end u) \<Longrightarrow> json_date kvs ''end_date'' = Inr (u_end u)"
  by (simp_all add: assms json_text_def json_int_def json_date_def unit_base_json_def date_roundtrip)

lemma unit_evidence_fields:
  assumes "kvs = unit_base_json u @ unit_availability_json u"
  shows "u_avail_start u = Some d \<Longrightarrow> valid_date d \<Longrightarrow> json_date kvs ''availability_start'' = Inr d"
    "u_avail_documented u = Some d \<Longrightarrow> valid_date d \<Longrightarrow> json_date kvs ''availability_documented_start'' = Inr d"
    "u_observed_on u = Some d \<Longrightarrow> valid_date d \<Longrightarrow> json_date kvs ''availability_observed_on'' = Inr d"
    "u_approved_start u = Some d \<Longrightarrow> valid_date d \<Longrightarrow> json_date kvs ''approved_history_start'' = Inr d"
    "u_registry_version u = Some t \<Longrightarrow> json_text kvs ''availability_registry_version'' = Inr t"
    "u_basis u = Some t \<Longrightarrow> json_text kvs ''availability_basis'' = Inr t"
    "u_source_url u = Some t \<Longrightarrow> json_text kvs ''availability_source_url'' = Inr t"
    "u_detail_url u = Some t \<Longrightarrow> json_text kvs ''availability_detail_url'' = Inr t"
    "u_registry_sha u = Some t \<Longrightarrow> json_text kvs ''availability_registry_sha256'' = Inr t"
  by (simp_all add: assms json_text_def json_date_def unit_base_json_def unit_availability_json_def
      json_opt_def json_date_opt_def date_roundtrip)

lemma policy_versions_differ [simp]:
  "POLICY_VERSION \<noteq> LEGACY_POLICY_VERSION" "POLICY_VERSION \<noteq> V2_POLICY_VERSION"
  "POLICY_VERSION \<in> set SUPPORTED_POLICY_VERSIONS"
  by (simp_all add: POLICY_VERSION_def LEGACY_POLICY_VERSION_def V2_POLICY_VERSION_def SUPPORTED_POLICY_VERSIONS_def)

lemma documented_start_valid: "s \<in> set SPECS \<Longrightarrow> valid_date (documented_start (is_code s))"
  using registered by metis

lemma observed_on_valid: "valid_date OBSERVED_ON"
  by code_simp

lemma json_unit_roundtrip:
  assumes s: "s \<in> set SPECS" and "valid_date a" "valid_date b" "history_floor s \<le> a"
  shows "json_unit c (unit_json POLICY_VERSION (made_unit c s r a b i)) = Inr (made_unit c s r a b i)"
proof -
  define u where "u = made_unit c s r a b i"
  define kvs where "kvs = unit_base_json u @ unit_availability_json u"
  have j: "unit_json POLICY_VERSION u = JObj (sort_key fst kvs)"
    by (simp add: unit_json_def json_obj_def kvs_def)
  have d: "distinct (map fst kvs)" unfolding kvs_def by (rule unit_keys_distinct)
  note fields = unit_text_fields [OF kvs_def]
  have dates: "valid_date (u_start u)" "valid_date (u_end u)" using assms(2,3) by (simp_all add: u_def)
  define ev where "ev = \<lparr>ev_start = first_reference s, ev_documented = documented_start (is_code s),
    ev_observed = OBSERVED_ON, ev_approved = APPROVED_GROUP_START (is_group s), ev_version = REGISTRY_VERSION,
    ev_basis = ''documented_start'', ev_source_url = source_url (is_code s), ev_detail_url = DETAIL_URL,
    ev_sha = REGISTRY_SHA256 c\<rparr>"
  have sel: "u_avail_start u = Some (first_reference s)" "u_avail_documented u = Some (documented_start (is_code s))"
    "u_registry_version u = Some REGISTRY_VERSION" "u_observed_on u = Some OBSERVED_ON"
    "u_basis u = Some ''documented_start''" "u_source_url u = Some (source_url (is_code s))"
    "u_detail_url u = Some DETAIL_URL" "u_registry_sha u = Some (REGISTRY_SHA256 c)"
    "u_approved_start u = Some (APPROVED_GROUP_START (is_group s))" "u_policy u = POLICY_VERSION"
    "u_frequency u = frequency_text (is_frequency s)" "u_group u = group_text (is_group s)" "u_code u = is_code s"
    "u_start u = a"
    by (simp_all add: u_def made_unit_def)
  note evf = unit_evidence_fields [OF kvs_def]
  have evidence: "json_evidence (sort_key fst kvs) = Inr ev"
    using evf(1) [OF sel(1) first_reference_valid(1) [OF s]] evf(2) [OF sel(2) documented_start_valid [OF s]]
      evf(3) [OF sel(4) observed_on_valid] evf(4) [OF sel(9) group_start_valid [THEN conjunct1]]
      evf(5) [OF sel(3)] evf(6) [OF sel(5)] evf(7) [OF sel(6)] evf(8) [OF sel(7)] evf(9) [OF sel(8)]
    by (simp add: json_evidence_def json_fields_sort_key [OF d] ev_def)
  have agrees: "evidence_agrees c ev (is_code s) (frequency_text (is_frequency s)) (group_text (is_group s)) a = Inr ()"
    using availability_for_spec [OF s, of c] assms(4)
    by (simp add: evidence_agrees_def availability_for_def ev_def approved_start_by_name facts_of_def
        history_floor_def max.commute)
  have "json_unit c (JObj (sort_key fst kvs)) = Inr u"
    by (simp add: json_unit_def json_object_def json_fields_sort_key [OF d] fields(1-14) fields(15) [OF dates(1)]
        fields(16) [OF dates(2)] role_of_text evidence sel(10-14) agrees)
      (simp add: u_def made_unit_def ev_def)
  then show ?thesis by (simp add: u_def [symmetric] j)
qed

section \<open>The scopes of a plan\<close>

text \<open>An archive unit over one calendar year of its series, as every built plan has.\<close>

definition yearly_archive :: "codec \<Rightarrow> date \<Rightarrow> sgs_unit \<Rightarrow> bool" where
  "yearly_archive c as_of u \<longleftrightarrow>
     (\<exists>s \<in> set SPECS. \<exists>r i. \<exists>y \<in> set [year (history_floor s)..year (recent_from s as_of) - 1].
        archive_role r
        \<and> u = made_unit c s r (fst (year_scope (history_floor s) y)) (snd (year_scope (history_floor s) y)) i)"

text \<open>A pending unit covers a calendar year, or the part of one from the documented floor of its series.\<close>

definition calendar_aligned :: "sgs_unit \<Rightarrow> bool" where
  "calendar_aligned u \<longleftrightarrow> valid_date (u_start u) \<and> u_end u = Date (year (u_start u)) 12 31
     \<and> (u_start u = Date (year (u_start u)) 1 1
        \<or> (\<forall>s \<in> set SPECS. is_code s = u_code u \<longrightarrow> u_start u \<le> history_floor s))"

lemma reissued_yearly:
  assumes "reissued c as_of q u" "calendar_aligned q" "valid_date as_of" "2016 \<le> year as_of"
  shows "yearly_archive c as_of u"
proof -
  from assms(1) obtain s i where s: "s \<in> set SPECS" "is_code s = u_code q" "archive_role (u_role q)"
    "history_floor s \<le> u_end q" "u_end q < recent_from s as_of"
    and u: "u = made_unit c s (u_role q) (max (history_floor s) (u_start q)) (u_end q) i"
    by (auto simp: reissued_def)
  let ?f = "history_floor s" and ?y = "year (u_start q)"
  note fv = history_floor_valid(1) [OF s(1)] and ev = recent_start_spec(2) [OF s(1) assms(3,4)]
  have q: "valid_date (u_start q)" "u_end q = Date ?y 12 31" using assms(2) by (simp_all add: calendar_aligned_def)
  have lo: "year ?f \<le> ?y" using year_le [OF s(4)] q(2) by simp
  have hi: "?y < year (recent_from s as_of)"
  proof (rule ccontr)
    assume "\<not> ?thesis"
    then consider "year (recent_from s as_of) = ?y" | "year (recent_from s as_of) < ?y" by linarith
    then show False
      using s(5) within_year(2) [OF ev] q(2) year_less [of "recent_from s as_of" "Date ?y 12 31"]
      by cases (simp_all add: not_le [symmetric] less_imp_le)
  qed
  have "max ?f (u_start q) = fst (year_scope ?f ?y)"
  proof (cases "u_start q = Date ?y 1 1")
    case True
    then show ?thesis by (simp add: year_scope_def)
  next
    case False
    then have le: "u_start q \<le> ?f" using assms(2) s(1,2) by (auto simp: calendar_aligned_def)
    then have "year ?f = ?y" using lo year_le by force
    then have "Date ?y 1 1 \<le> ?f" using within_year(1) [OF fv] by simp
    then show ?thesis using le by (simp add: year_scope_def max_absorb1)
  qed
  moreover have "u_end q = snd (year_scope ?f ?y)" using q(2) by (simp add: year_scope_def)
  ultimately show ?thesis
    unfolding yearly_archive_def u using s(1,3) lo hi
    by (intro bexI [of _ s] exI bexI [of _ ?y]) auto
qed

lemma offered_yearly:
  assumes "s \<in> set SPECS" "candidate_for s as_of cd"
  shows "yearly_archive c as_of (offered_unit c k (i, cd))"
proof -
  from assms(2) obtain y where y: "y \<in> set [year (history_floor s)..year (recent_from s as_of) - 1]"
    "cd_start cd = fst (year_scope (history_floor s) y)" "cd_stop cd = snd (year_scope (history_floor s) y)"
    "cd_spec cd = s"
    by (auto simp: candidate_for_def prod_eq_iff)
  then show ?thesis
    unfolding yearly_archive_def offered_unit_def snd_conv fst_conv
    by (intro bexI [of _ s] exI bexI [of _ y] conjI) (auto simp: archive_role_def assms(1))
qed

lemma yearly_archive_ordinal: "yearly_archive c as_of u \<Longrightarrow> yearly_archive c as_of (u\<lparr>u_ordinal := j\<rparr>)"
  by (force simp: yearly_archive_def)

lemma yearly_archive_aligned:
  assumes "yearly_archive c as_of u" "valid_date as_of" "2016 \<le> year as_of"
  shows "calendar_aligned u"
proof -
  from assms(1) obtain s r i y where s: "s \<in> set SPECS" "y \<in> set [year (history_floor s)..year (recent_from s as_of) - 1]"
    and u: "u = made_unit c s r (fst (year_scope (history_floor s) y)) (snd (year_scope (history_floor s) y)) i"
    by (auto simp: yearly_archive_def)
  let ?f = "history_floor s"
  have fv: "valid_date ?f" by (rule history_floor_valid(1) [OF s(1)])
  have y_max: "y < 9999"
    using s(2) valid_date_fields(2) [OF recent_start_spec(2) [OF s(1) assms(2,3)]] by simp
  show "calendar_aligned u"
  proof (cases "y = year ?f")
    case True
    then have "max ?f (Date y 1 1) = ?f" using within_year(1) [OF fv] by (simp add: max_absorb1)
    then show ?thesis
      using fv True specs_distinct(2) s(1)
      by (auto simp: calendar_aligned_def u year_scope_def distinct_map inj_on_def)
  next
    case False
    then have "year ?f < y" using s(2) by simp
    then have "max ?f (Date y 1 1) = Date y 1 1" using year_less [of ?f "Date y 1 1"] by (simp add: max_absorb2)
    moreover have "valid_date (Date y 1 1)"
      using \<open>year ?f < y\<close> s(2) valid_date_fields(1,2) [OF fv] y_max by (simp add: first_of_month)
    ultimately show ?thesis by (simp add: calendar_aligned_def u year_scope_def)
  qed
qed

section \<open>The whole plan\<close>

lemma recents_by_code_distinct:
  "distinct (map fst seen @ map u_code (filter (\<lambda>u. u_role u = Recent) us)) \<Longrightarrow>
   recents_by_code seen us = seen @ map (\<lambda>u. (u_code u, u)) (filter (\<lambda>u. u_role u = Recent) us)"
  by (induction us arbitrary: seen) auto

lemma v3_unit_ok_made:
  assumes "history_floor s \<le> a"
  shows "v3_unit_ok c (made_unit c s r a b i)"
  using assms
  by (simp add: v3_unit_ok_def made_unit_def SUPPORTED_REGISTRY_VERSIONS_def SUPPORTED_REGISTRY_SHA256_def
      approved_start_by_name history_floor_def max.commute startswith_def source_url_def url_head_def)

lemma check_recent_made:
  assumes "s \<in> set SPECS" "valid_date as_of" "2016 \<le> year as_of"
  shows "check_recent as_of (is_code s, made_unit c s Recent (recent_from s as_of) as_of i) = Inr ()"
proof -
  obtain l where l: "lookback_start (is_code s) (is_frequency s) as_of = Inr l"
    using lookback_start_total [OF assms(2,3)] by metis
  then show ?thesis
    by (simp add: check_recent_def made_unit_def frequency_of_text recent_from_def ac_simps)
qed

lemma yearly_scope_allowed:
  assumes "s \<in> set SPECS" "valid_date as_of" "2016 \<le> year as_of"
    "y \<in> set [year (history_floor s)..year (recent_from s as_of) - 1]"
  shows "\<exists>ws. archive_windows (max (first_reference s) (APPROVED_GROUP_START (is_group s))) (recent_from s as_of) = Inr ws
    \<and> year_scope (history_floor s) y \<in> set ws"
  using archive_windows_years [OF history_floor_valid(1) [OF assms(1)] recent_start_spec(2) [OF assms(1-3)]] assms(4)
  by (auto simp: history_floor_def max.commute)

lemma check_archives_yearly:
  assumes "valid_date as_of" "2016 \<le> year as_of"
    and "\<And>s. s \<in> set SPECS \<Longrightarrow> \<exists>i. map_of rs (is_code s) = Some (made_unit c s Recent (recent_from s as_of) as_of i)"
    and "\<And>u. u \<in> set us \<Longrightarrow> yearly_archive c as_of u" "distinct (map u_code us)" "seen \<inter> set (map u_code us) = {}"
  shows "check_archives rs seen us = Inr ()"
  using assms(4-)
proof (induction us arbitrary: seen)
  case (Cons u us)
  from Cons.prems(1) [of u] obtain s r i y where s: "s \<in> set SPECS"
    "y \<in> set [year (history_floor s)..year (recent_from s as_of) - 1]"
    and u: "u = made_unit c s r (fst (year_scope (history_floor s) y)) (snd (year_scope (history_floor s) y)) i"
    unfolding yearly_archive_def by auto
  obtain j where j: "map_of rs (is_code s) = Some (made_unit c s Recent (recent_from s as_of) as_of j)"
    using assms(3) [OF s(1)] by blast
  obtain ws where ws: "archive_windows (max (first_reference s) (APPROVED_GROUP_START (is_group s)))
      (recent_from s as_of) = Inr ws" "year_scope (history_floor s) y \<in> set ws"
    using yearly_scope_allowed [OF s(1) assms(1,2) s(2)] by blast
  have sel: "u_avail_start u = Some (first_reference s)" "u_code u = is_code s"
    "u_approved_start u = Some (APPROVED_GROUP_START (is_group s))" "(u_start u, u_end u) = year_scope (history_floor s) y"
    by (simp_all add: u made_unit_def)
  have "check_archives rs (insert (u_code u) seen) us = Inr ()"
    using Cons.prems by (intro Cons.IH) auto
  then show ?case using Cons.prems(3) by (simp add: sel j ws)
qed simp

definition plan_well_formed :: "codec \<Rightarrow> sgs_plan \<Rightarrow> bool" where
  "plan_well_formed c p \<longleftrightarrow>
     p_version p = PLAN_VERSION \<and> p_policy p = POLICY_VERSION \<and> valid_date (p_as_of p) \<and> 2016 \<le> year (p_as_of p)
     \<and> p_units p = recents p @ archives p \<and> map u_code (recents p) = sort (map is_code SPECS)
     \<and> (\<forall>u \<in> set (recents p). \<exists>s \<in> set SPECS. \<exists>i. u = made_unit c s Recent (recent_from s (p_as_of p)) (p_as_of p) i)
     \<and> (\<forall>u \<in> set (archives p). yearly_archive c (p_as_of p) u)
     \<and> length (archives p) \<le> 4 \<and> distinct (map u_code (archives p))"

lemma plan_roundtrip:
  assumes "plan_well_formed c p"
  shows "plan_from_json c (plan_json p) = Inr p"
proof -
  have wf: "p_version p = PLAN_VERSION" "p_policy p = POLICY_VERSION" "valid_date (p_as_of p)" "2016 \<le> year (p_as_of p)"
    "p_units p = recents p @ archives p" "map u_code (recents p) = sort (map is_code SPECS)"
    "length (archives p) \<le> 4" "distinct (map u_code (archives p))"
    using assms by (simp_all add: plan_well_formed_def)
  have rec: "\<exists>s \<in> set SPECS. \<exists>i. u = made_unit c s Recent (recent_from s (p_as_of p)) (p_as_of p) i"
    if "u \<in> set (recents p)" for u using assms that by (simp add: plan_well_formed_def)
  have arc: "yearly_archive c (p_as_of p) u" if "u \<in> set (archives p)" for u
    using assms that by (simp add: plan_well_formed_def)
  have made: "\<exists>s r a b i. s \<in> set SPECS \<and> u = made_unit c s r a b i \<and> valid_date a \<and> valid_date b \<and> history_floor s \<le> a"
    if u: "u \<in> set (p_units p)" for u
  proof (cases "u \<in> set (recents p)")
    case True
    then show ?thesis using rec [OF True] recent_start_spec(2,3) [OF _ wf(3,4)] wf(3) by blast
  next
    case False
    then have "yearly_archive c (p_as_of p) u" using u wf(5) arc by auto
    then show ?thesis
      using year_scope_bounds [OF history_floor_valid(1) _ recent_start_spec(2) [OF _ wf(3,4)]]
      unfolding yearly_archive_def by blast
  qed
  have units: "mapE (json_unit c) (map (unit_json POLICY_VERSION) (p_units p)) = Inr (p_units p)"
    using mapE_map_Inr [of "p_units p" "json_unit c" "unit_json POLICY_VERSION" "\<lambda>u. u"] made json_unit_roundtrip
    by fastforce
  have ok: "\<not> list_ex (\<lambda>u. \<not> v3_unit_ok c u) (p_units p)"
    using made v3_unit_ok_made by (fastforce simp: list_ex_iff)
  let ?rs = "map (\<lambda>u. (u_code u, u)) (recents p)"
  have dis: "distinct (map u_code (recents p))" using wf(6) specs_distinct(2) by simp
  have rs: "recents_by_code [] (p_units p) = ?rs"
    using recents_by_code_distinct [of "[]" "p_units p"] dis by (simp add: recents_def)
  have "mapE (check_recent (p_as_of p)) ?rs = Inr (map (\<lambda>u. ()) (recents p))"
    using rec check_recent_made [OF _ wf(3,4)] by (intro mapE_map_Inr) fastforce
  moreover have "check_archives ?rs {} (archives p) = Inr ()"
  proof (rule check_archives_yearly [OF wf(3,4)])
    fix s assume s: "s \<in> set SPECS"
    then have "is_code s \<in> set (map u_code (recents p))" by (simp add: wf(6))
    then obtain u where u: "u \<in> set (recents p)" "u_code u = is_code s" by auto
    moreover obtain t i where "t \<in> set SPECS" "u = made_unit c t Recent (recent_from t (p_as_of p)) (p_as_of p) i"
      using rec [OF u(1)] by blast
    moreover from calculation s have "t = s" using specs_distinct(2) by (auto simp: distinct_map inj_on_def)
    moreover have "map_of ?rs (u_code u) = Some u"
      using u(1) dis by (simp add: map_of_eq_Some_iff o_def)
    ultimately show "\<exists>i. map_of ?rs (is_code s) = Some (made_unit c s Recent (recent_from s (p_as_of p)) (p_as_of p) i)"
      by auto
  qed (use arc wf(8) in simp_all)
  ultimately have valid: "validate_v3_plan_scopes (p_units p) (p_as_of p) = Inr ()"
    using wf(7) by (simp add: validate_v3_plan_scopes_def Let_def rs MAX_ARCHIVE_UNITS_PER_RUN_def
        flip: archives_def)
  let ?kvs = "[(''plan_version'', JStr (p_version p)), (''policy_version'', JStr (p_policy p)),
           (''as_of'', JStr (date_isoformat (p_as_of p))),
           (''units'', JArr (map (unit_json (p_policy p)) (p_units p)))]"
  have d: "distinct (map fst ?kvs)" by simp
  have m: "map_of (sort_key fst ?kvs) = map_of ?kvs" by (rule map_of_sort_key [OF d])
  have "plan_from_json c (JObj (sort_key fst ?kvs)) = Inr \<lparr>p_version = PLAN_VERSION, p_policy = POLICY_VERSION,
      p_as_of = p_as_of p, p_units = p_units p\<rparr>"
    unfolding plan_from_json_def json_object_def json.case bindE.simps m json_fields_sort_key(3) [OF d]
    using units ok valid wf(1,2,3) by (simp add: json_date_def json_text_def date_roundtrip)
  then show ?thesis using wf(1,2) by (simp add: plan_json_def json_obj_def)
qed

text \<open>
  A built plan is well formed, freezing it stores it, and from then on every reader of the run gets that plan.
\<close>

lemma built_plan_well_formed:
  assumes "valid_date as_of" "2016 \<le> year as_of" "receipts_dated vs" "0 \<le> cap" "cap \<le> 4"
    and "\<forall>q \<in> set ps. calendar_aligned q" and "build_sgs_plan c as_of vs cursor cap ps = Inr p"
  shows "plan_well_formed c p" "p_as_of p = as_of"
proof -
  note shape = built_plan_shape [OF assms(1-5,7)]
  obtain carried selected where parts: "p_version p = PLAN_VERSION" "p_policy p = POLICY_VERSION" "p_as_of p = as_of"
    "archives p = renumber (length SPECS) carried @ offered_units c (length SPECS + length carried) selected"
    "\<forall>u \<in> set carried. \<exists>q \<in> set ps. reissued c as_of q u"
    "\<forall>cd \<in> set selected. cd \<in> set (all_offers vs as_of cursor)"
    by (rule build_sgs_plan_parts [OF assms(1-5), of c cursor ps]) (use assms(7) in simp)
  have "yearly_archive c as_of u" if u: "u \<in> set (archives p)" for u
  proof (cases "u \<in> set (renumber (length SPECS) carried)")
    case True
    then obtain v q j where "q \<in> set ps" "reissued c as_of q v" "u = v\<lparr>u_ordinal := j\<rparr>"
      using renumber_proj(4) parts(5) by blast
    then show ?thesis using reissued_yearly [OF _ _ assms(1,2)] assms(6) yearly_archive_ordinal by blast
  next
    case False
    then have "u \<in> set (offered_units c (length SPECS + length carried) selected)" using u parts(4) by auto
    then obtain i cd where cd: "cd \<in> set selected" "u = offered_unit c (length SPECS + length carried) (i, cd)"
      using offered_units_proj(4) [OF all_offers_shape [OF parts(6) [rule_format]]] by blast
    then obtain s where "s \<in> set SPECS" "candidate_for s as_of cd" using parts(6) all_offers_shape by blast
    then show ?thesis using offered_yearly cd(2) by blast
  qed
  then show "plan_well_formed c p" "p_as_of p = as_of"
    using shape parts(1-3) assms(1,2,5) by (simp_all add: plan_well_formed_def)
qed

lemma new_unit_row_sel [simp]: "ur_run (new_unit_row r now u) = r" "ur_unit (new_unit_row r now u) = u"
  by (simp_all add: new_unit_row_def)

lemma insert_unit_rows_fresh:
  assumes "distinct (map u_id us)" "\<And>x. x \<in> set (db_units d) \<Longrightarrow> ur_run x \<noteq> r"
  shows "\<exists>d'. insert_unit_rows (map (new_unit_row r now) us) d = Inr d' \<and> db_plans d' = db_plans d"
proof -
  have "\<exists>d'. insert_unit_rows (map (new_unit_row r now) us) d = Inr d' \<and> db_plans d' = db_plans d"
    if "distinct (map u_id us)"
      "\<And>x. x \<in> set (db_units d) \<Longrightarrow> ur_run x = r \<Longrightarrow> u_id (ur_unit x) \<notin> set (map u_id us)" for d
    using that
  proof (induction us arbitrary: d)
    case (Cons u us)
    have "\<not> exists_where (\<lambda>x. ur_run x = r \<and> u_id (ur_unit x) = u_id u) (db_units d)"
      using Cons.prems(2) by (auto simp: exists_where_iff)
    moreover have "\<exists>d'. insert_unit_rows (map (new_unit_row r now) us) (d\<lparr>db_units := db_units d @ [new_unit_row r now u]\<rparr>)
        = Inr d' \<and> db_plans d' = db_plans (d\<lparr>db_units := db_units d @ [new_unit_row r now u]\<rparr>)"
    proof (rule Cons.IH)
      fix x
      assume x: "x \<in> set (db_units (d\<lparr>db_units := db_units d @ [new_unit_row r now u]\<rparr>))" "ur_run x = r"
      show "u_id (ur_unit x) \<notin> set (map u_id us)"
      proof (cases "x \<in> set (db_units d)")
        case True then show ?thesis using Cons.prems(2) x(2) by simp
      next
        case False
        then have "u_id (ur_unit x) = u_id u" using x(1) by auto
        then show ?thesis using Cons.prems(1) by simp
      qed
    qed (use Cons.prems(1) in simp)
    ultimately show ?case by simp
  qed simp
  with assms show ?thesis by blast
qed

lemma distinct_unit_ids: "distinct (map plan_item_task_name us) \<Longrightarrow> distinct (map u_id us)"
  by (rule distinct_map_via [where g = plan_item_task_name]) (auto simp: plan_item_task_name_def)

lemma parse_frozen:
  assumes "plan_well_formed c p" "loads c (plan_text c p) = Inr (plan_json p)"
  shows "parse_plan_text c (plan_text c p) = Inr p"
  using plan_roundtrip [OF assms(1)] assms(2) by (simp add: parse_plan_text_def)

lemma freeze_and_read:
  assumes wf: "plan_well_formed c p" and codec: "loads c (plan_text c p) = Inr (plan_json p)"
    and ids: "distinct (map u_id (p_units p))"
    and free: "db_plans d r = None" "\<forall>x \<in> set (db_units d). ur_run x \<noteq> r"
  shows "\<exists>d'. freeze_sgs_plan c r p now d = Inr (p, d') \<and> read_sgs_plan c r d' = Inr (Some p)
    \<and> (\<forall>q now'. freeze_sgs_plan c r q now' d' = Inr (p, d'))"
proof -
  let ?row = "\<lparr>pr_version = p_version p, pr_as_of = date_isoformat (p_as_of p), pr_json = plan_text c p,
              pr_sha = plan_digest c p, pr_created = now\<rparr>"
  obtain d' where d': "insert_unit_rows (map (new_unit_row r now) (p_units p))
      (d\<lparr>db_plans := (db_plans d)(r \<mapsto> ?row)\<rparr>) = Inr d'" "db_plans d' = (db_plans d)(r \<mapsto> ?row)"
    using insert_unit_rows_fresh [OF ids, of "d\<lparr>db_plans := (db_plans d)(r \<mapsto> ?row)\<rparr>" r now] free(2) by auto
  have stored: "db_plans d' r = Some ?row" using d'(2) by simp
  have "freeze_sgs_plan c r p now d = Inr (p, d')"
    using free(1) d'(1) by (simp add: freeze_sgs_plan_def insert_sgs_plan_rows_def)
  moreover have "read_sgs_plan c r d' = Inr (Some p)"
    using parse_frozen [OF wf codec] by (simp add: read_sgs_plan_def stored plan_digest_def)
  moreover have "freeze_sgs_plan c r q now' d' = Inr (p, d')" for q now'
    using parse_frozen [OF wf codec] by (simp add: freeze_sgs_plan_def stored plan_digest_def)
  ultimately show ?thesis by blast
qed

text \<open>C22: A plan built from calendar-aligned pending units survives freezing: when the JSON codec reads back what
  it wrote for this plan, freezing it for a new run stores it, reading the run's plan returns exactly it, and
  freezing any other plan for the same run later returns the first one and changes nothing. Its archive
  units are calendar-aligned again, so they may be carried into later plans.\<close>

theorem frozen_plan_reads_back:
  assumes "valid_date as_of" "2016 \<le> year as_of" "receipts_dated vs" "0 \<le> cap" "cap \<le> 4"
    and "\<forall>q \<in> set ps. calendar_aligned q"
  shows "\<exists>p. build_sgs_plan c as_of vs cursor cap ps = Inr p
    \<and> (\<forall>u \<in> set (archives p). calendar_aligned u)
    \<and> (\<forall>d r now. loads c (plan_text c p) = Inr (plan_json p) \<longrightarrow> db_plans d r = None
         \<longrightarrow> (\<forall>x \<in> set (db_units d). ur_run x \<noteq> r) \<longrightarrow>
         (\<exists>d'. freeze_sgs_plan c r p now d = Inr (p, d') \<and> read_sgs_plan c r d' = Inr (Some p)
            \<and> (\<forall>q now'. freeze_sgs_plan c r q now' d' = Inr (p, d'))))"
proof -
  obtain p where p: "build_sgs_plan c as_of vs cursor cap ps = Inr p"
    by (rule build_sgs_plan_parts [OF assms(1-5), of c cursor ps])
  note wf = built_plan_well_formed [OF assms p]
  have "calendar_aligned u" if "u \<in> set (archives p)" for u
    using wf that yearly_archive_aligned [OF _ assms(1,2)] by (auto simp: plan_well_formed_def)
  moreover have "distinct (map u_id (p_units p))"
    using built_plan_shape(8) [OF assms(1-5) p] by (rule distinct_unit_ids)
  ultimately show ?thesis using p freeze_and_read [OF wf(1)] by (intro exI [of _ p]) blast
qed

text \<open>A codec that reads one value back; building a plan does not read.\<close>

definition replay_codec :: "json \<Rightarrow> codec" where
  "replay_codec j = \<lparr>dumps = (\<lambda>j. ''{}''), loads = (\<lambda>t. Inr j), sha256 = (\<lambda>t. ''00'')\<rparr>"

lemma build_ignores_loads:
  "build_sgs_plan (replay_codec j) as_of vs cursor cap [] = build_sgs_plan (replay_codec k) as_of vs cursor cap []"
proof -
  have a: "known_availability (replay_codec j) = known_availability (replay_codec k)"
    by (rule ext) (simp add: known_availability_def availability_for_def availability_for_version_def registry_of_def
        V1_HASH_def REGISTRY_SHA256_def registry_hash_def replay_codec_def)
  have r: "recent_start (replay_codec j) = recent_start (replay_codec k)"
    by (intro ext) (simp add: recent_start_def a)
  have e: "effective_history_start (replay_codec j) = effective_history_start (replay_codec k)"
    by (intro ext) (simp add: effective_history_start_def a)
  have m: "make_unit (replay_codec j) = make_unit (replay_codec k)"
    by (intro ext) (simp only: make_unit_def a)
  have p: "plan_spec (replay_codec j) = plan_spec (replay_codec k)"
    by (intro ext) (simp only: plan_spec_def r e m)
  have s: "selected_unit (replay_codec j) = selected_unit (replay_codec k)"
    by (intro ext) (simp only: selected_unit_def m)
  show ?thesis by (simp only: build_sgs_plan_def p s sort_key_simps carry_loop.simps)
qed

theorem frozen_plan_reads_back_witness:
  "\<exists>c p d'. freeze_sgs_plan c ''r1'' p ''2026-10-30T06:00:00+00:00'' empty_db = Inr (p, d')
     \<and> read_sgs_plan c ''r1'' d' = Inr (Some p) \<and> length (recents p) = 68"
proof -
  have day: "valid_date (Date 2026 10 30)" "2016 \<le> year (Date 2026 10 30)" by code_simp+
  have no: "receipts_dated []" by (simp add: receipts_dated_def)
  note built = frozen_plan_reads_back [OF day no, of 4 "[]" _ None]
  obtain p where p: "build_sgs_plan (replay_codec JNull) (Date 2026 10 30) [] None 4 [] = Inr p"
    using built [of "replay_codec JNull"] by auto
  let ?c = "replay_codec (plan_json p)"
  have "build_sgs_plan ?c (Date 2026 10 30) [] None 4 [] = Inr p" using p build_ignores_loads by metis
  with built [of ?c] have frozen: "\<forall>d r now. loads ?c (plan_text ?c p) = Inr (plan_json p)
      \<longrightarrow> db_plans d r = None \<longrightarrow> (\<forall>x \<in> set (db_units d). ur_run x \<noteq> r) \<longrightarrow>
      (\<exists>d'. freeze_sgs_plan ?c r p now d = Inr (p, d') \<and> read_sgs_plan ?c r d' = Inr (Some p)
         \<and> (\<forall>q now'. freeze_sgs_plan ?c r q now' d' = Inr (p, d')))" by simp
  have "loads ?c (plan_text ?c p) = Inr (plan_json p)" "db_plans empty_db ''r1'' = None"
    "\<forall>x \<in> set (db_units empty_db). ur_run x \<noteq> ''r1''"
    by (simp_all add: replay_codec_def empty_db_def)
  with frozen obtain d' where "freeze_sgs_plan ?c ''r1'' p ''2026-10-30T06:00:00+00:00'' empty_db = Inr (p, d')"
    "read_sgs_plan ?c ''r1'' d' = Inr (Some p)"
    by blast
  moreover have "length (map u_code (recents p)) = length SPECS"
    by (subst built_plan_shape(1) [OF day no _ _ p]) simp_all
  moreover have "length SPECS = 68" by code_simp
  ultimately show ?thesis by auto
qed

end
