(* ===== verification/SgsReceipts.thy ===== *)
theory SgsReceipts
  imports SgsPlanJson Attempts
begin

text \<open>
  Evidence of SGS work (\<open>db/sgs_refresh_plan.py\<close>): the binding of a request to the unit its claim stands for,
  the receipt committed with the observations of a unit, the coverage receipt promoted from it, and the
  planning of the next run from stored receipts and pending units. The tables keep dates and UTC times as
  ISO text; the rows of the model keep the dates and times themselves. Numbers are exact decimals.
\<close>

section \<open>Canonical values\<close>

definition canonical_date :: "string \<Rightarrow> py_error + date" where
  "canonical_date s =
     (case date_fromisoformat s of
        Inr d \<Rightarrow> Inr d
      | Inl _ \<Rightarrow> (case parse_slash_date s of
          Inr d \<Rightarrow> if format_date d = s then Inr d else Inl ValueError
        | Inl _ \<Rightarrow> Inl ValueError))"

record sgs_record =
  sr_date :: json
  sr_value :: json
  sr_end :: json

text \<open>\<open>float(str(value).replace(",", "."))\<close>, a boolean is a type error.\<close>

definition numeric_value :: "json \<Rightarrow> py_error + rat" where
  "numeric_value v =
     (case v of
        JBool _ \<Rightarrow> Inl TypeError
      | JNum n \<Rightarrow> Inr (rat_of_int n)
      | JFloat q \<Rightarrow> Inr (rat_of_int (fst q) / rat_of_int (snd q))
      | JStr s \<Rightarrow> (case parse_float (replace_char CHR '','' CHR ''.'' s) of
            Some (Fin x) \<Rightarrow> Inr x | _ \<Rightarrow> Inl ValueError)
      | _ \<Rightarrow> Inl ValueError)"

type_synonym sgs_identity = "date \<times> date option"

definition record_identity :: "int \<Rightarrow> sgs_record \<Rightarrow> py_error + sgs_identity \<times> rat" where
  "record_identity code r =
     (case (sr_date r, sr_value r) of
        (JStr _, JBool _) \<Rightarrow> Inl TypeError
      | (JStr s, v) \<Rightarrow>
          bindE (canonical_date s) (\<lambda>start.
          bindE (numeric_value v) (\<lambda>x.
            if code \<noteq> 226 then Inr ((start, None), x)
            else case sr_end r of
              JStr t \<Rightarrow> bindE (canonical_date t) (\<lambda>stop.
                 if stop \<le> start then Inl ValueError else Inr ((start, Some stop), x))
            | _ \<Rightarrow> Inl ValueError))
      | _ \<Rightarrow> Inl TypeError)"

fun canonical_cohort ::
    "int \<Rightarrow> (sgs_identity \<times> rat) list \<Rightarrow> sgs_record list \<Rightarrow> py_error + (sgs_identity \<times> rat) list" where
  "canonical_cohort code seen [] = Inr seen"
| "canonical_cohort code seen (r # rs) =
     bindE (record_identity code r) (\<lambda>(k, x).
       case map_of seen k of
         None \<Rightarrow> canonical_cohort code (seen @ [(k, x)]) rs
       | Some y \<Rightarrow> if y \<noteq> x then Inl ValueError else canonical_cohort code seen rs)"

definition value_row :: "int \<Rightarrow> sgs_identity \<times> rat \<Rightarrow> json" where
  "value_row code p =
     JArr ([JNum code, JStr (date_isoformat (fst (fst p)))]
       @ (case snd (fst p) of None \<Rightarrow> [] | Some e \<Rightarrow> [JStr (date_isoformat e)]) @ [JFloat (quotient_of (snd p))])"

definition identity_end :: "sgs_identity \<Rightarrow> date" where
  "identity_end k = (case snd k of None \<Rightarrow> fst k | Some e \<Rightarrow> e)"

definition identity_order :: "sgs_identity \<times> rat \<Rightarrow> date \<times> date" where
  "identity_order p = (fst (fst p), identity_end (fst p))"

definition canonical_sgs_values ::
    "codec \<Rightarrow> int \<Rightarrow> sgs_record list \<Rightarrow> py_error + string \<times> int \<times> date \<times> date" where
  "canonical_sgs_values c code records =
     bindE (canonical_cohort code [] records) (\<lambda>cohort.
       if cohort = [] then Inl ValueError
       else (let rows = sort_key identity_order cohort
             in Inr (sha256 c (dumps c (JArr (map (value_row code) rows))), int (length rows),
                     Min (set (map (\<lambda>p. fst (fst p)) rows)), Max (set (map (\<lambda>p. identity_end (fst p)) rows)))))"

section \<open>The claim a request belongs to\<close>

record plan_binding =
  pb_run :: run_id
  pb_sha :: string
  pb_unit :: sgs_unit

definition binds_scope :: "sgs_unit \<Rightarrow> int \<Rightarrow> date \<Rightarrow> date \<Rightarrow> bool" where
  "binds_scope u code start stop \<longleftrightarrow>
     u_code u = code \<and> u_start u = start \<and> u_end u = stop \<and> u_policy u \<in> set SUPPORTED_POLICY_VERSIONS"

definition current_sgs_plan_binding ::
    "codec \<Rightarrow> attempt_ctx option \<Rightarrow> int \<Rightarrow> date \<Rightarrow> date \<Rightarrow> db \<Rightarrow> plan_error + plan_binding option" where
  "current_sgs_plan_binding c active code start stop d =
     (case active of
        None \<Rightarrow> Inr None
      | Some ctx \<Rightarrow>
          (case find_run d (ac_run ctx) of
             None \<Rightarrow> Inr None
           | Some run \<Rightarrow>
               if rr_version run \<noteq> CURRENT_REFRESH_MANIFEST_VERSION then Inr None
               else if \<not> startswith (ac_item ctx) ''sgs_plan_'' then Inr None
               else bindE (read_sgs_plan c (ac_run ctx) d) (\<lambda>plan.
                 case (plan, db_plans d (ac_run ctx)) of
                   (Some p, Some row) \<Rightarrow>
                     (case find (\<lambda>u. plan_item_task_name u = ac_item ctx) (p_units p) of
                        None \<Rightarrow> Inl Unsupported
                      | Some u \<Rightarrow>
                          if \<not> binds_scope u code start stop then Inl Unsupported
                          else Inr (Some \<lparr>pb_run = ac_run ctx, pb_sha = pr_sha row, pb_unit = u\<rparr>))
                 | _ \<Rightarrow> Inl Unsupported)))"

section \<open>The receipt of a unit\<close>

record network_receipt =
  nr_provider :: string
  nr_route :: string
  nr_contract :: string
  nr_scope :: string
  nr_identity :: string
  nr_coverage :: string
  nr_sha :: string
  nr_captured :: string
  nr_count :: int

definition hex64 :: "string \<Rightarrow> bool" where
  "hex64 h \<longleftrightarrow> length h = 64 \<and> set h \<subseteq> set ''0123456789abcdef''"

definition identifies_unit :: "string option \<Rightarrow> network_receipt \<Rightarrow> sgs_unit \<Rightarrow> bool" where
  "identifies_unit ext n u \<longleftrightarrow>
     (case ext of None \<Rightarrow> False | Some x \<Rightarrow> x \<noteq> []) \<and> nr_provider n = ''bcb_sgs'' \<and> nr_route n = ''primary''
     \<and> nr_contract n = ''bcb-sgs-json-series-v1'' \<and> nr_scope n = ''bcb_sgs:primary:primary''
     \<and> nr_identity n = ''series:'' @ show_int (u_code u) \<and> u_contract_id u = sgs_contract_id (u_code u)
     \<and> is_current_sgs_contract (u_code u) (u_contract_version u)
     \<and> sgs_contract_semantics_match (u_code u) (u_contract_version u) (u_unit u) (u_frequency u)"

text \<open>\<open>coverage.split("..")\<close>\<close>

fun split_dots :: "string \<Rightarrow> string list" where
  "split_dots [] = [[]]"
| "split_dots [a] = [[a]]"
| "split_dots (a # b # s) =
     (if a = CHR ''.'' \<and> b = CHR ''.'' then [] # split_dots s
      else case split_dots (b # s) of [] \<Rightarrow> [[a]] | w # ws \<Rightarrow> (a # w) # ws)"

definition scope_text :: "date \<Rightarrow> date \<Rightarrow> string" where
  "scope_text s e = date_isoformat s @ ''..'' @ date_isoformat e"

definition joined_dates :: "date list \<Rightarrow> string" where
  "joined_dates ds =
     (case ds of [] \<Rightarrow> [] | d # r \<Rightarrow> date_isoformat d @ concat (map (\<lambda>x. ''..'' @ date_isoformat x) r))"

definition make_sgs_unit_commit_receipt ::
    "codec \<Rightarrow> plan_binding \<Rightarrow> string option \<Rightarrow> network_receipt option \<Rightarrow> sgs_record list \<Rightarrow> py_error + unit_commit" where
  "make_sgs_unit_commit_receipt c b ext n records =
     (case n of
        None \<Rightarrow> Inl TypeError
      | Some nr \<Rightarrow>
          (let u = pb_unit b
           in if \<not> identifies_unit ext nr u then Inl ValueError
              else case (mapE canonical_date (split_dots (nr_coverage nr)), fromisoformat (zulu_to_offset (nr_captured nr))) of
                (Inr parts, Inr captured) \<Rightarrow>
                  if joined_dates parts \<noteq> scope_text (u_start u) (u_end u) \<or> offset captured = None \<or> \<not> hex64 (nr_sha nr)
                  then Inl ValueError
                  else bindE (canonical_sgs_values c (u_code u) records) (\<lambda>(h, n', lo, hi).
                    bindE (astimezone_utc captured) (\<lambda>utc.
                    Inr \<lparr>uc_operation = the ext, uc_extraction = the ext, uc_run = pb_run b, uc_unit = u_id u,
                         uc_plan = pb_sha b, uc_code = u_code u, uc_contract_id = u_contract_id u,
                         uc_contract_version = u_contract_version u, uc_identity = u_identity u, uc_role = u_role u,
                         uc_policy = u_policy u, uc_start = u_start u, uc_end = u_end u, uc_payload = nr_sha nr,
                         uc_canonical = h, uc_count = n', uc_ref_start = lo, uc_ref_end = hi, uc_captured = utc\<rparr>))
              | _ \<Rightarrow> Inl ValueError))"

section \<open>Coverage receipts\<close>

text \<open>
  \<open>record_verified_coverage\<close>. A stored commit always carries a canonical digest of 64 digits, and its role
  is one of the three.
\<close>

definition coverage_complete :: "coverage_receipt \<Rightarrow> bool" where
  "coverage_complete v \<longleftrightarrow>
     cv_source v = ''bcb_sgs'' \<and> archive_role (cv_role v) \<and> 0 < cv_count v \<and> cv_operation v \<noteq> [] \<and> cv_run v \<noteq> []
     \<and> cv_unit v \<noteq> [] \<and> cv_business v \<noteq> [] \<and> length (cv_payload v) = 64
     \<and> set (map lower_char (cv_payload v)) \<subseteq> set ''0123456789abcdef''
     \<and> cv_start v \<le> cv_end v \<and> offset (cv_captured v) \<noteq> None \<and> cv_ref_start v \<noteq> None \<and> cv_ref_end v \<noteq> None"

definition commit_matches :: "coverage_receipt \<Rightarrow> unit_commit \<Rightarrow> bool" where
  "commit_matches v k \<longleftrightarrow>
     uc_operation k = cv_operation v \<and> uc_extraction k = cv_business v \<and> uc_run k = cv_run v
     \<and> uc_unit k = cv_unit v \<and> uc_code k = cv_code v \<and> uc_contract_id k = cv_contract_id v
     \<and> uc_contract_version k = cv_contract_version v \<and> uc_identity k = cv_identity v \<and> uc_role k = cv_role v
     \<and> uc_policy k = cv_policy v \<and> uc_start k = cv_start v \<and> uc_end k = cv_end v \<and> uc_payload k = cv_payload v
     \<and> uc_count k = cv_count v \<and> Some (uc_ref_start k) = cv_ref_start v \<and> Some (uc_ref_end k) = cv_ref_end v
     \<and> instant (uc_captured k) = instant (cv_captured v)"

definition unit_matches :: "coverage_receipt \<Rightarrow> sgs_unit \<Rightarrow> bool" where
  "unit_matches v u \<longleftrightarrow>
     u_role u = cv_role v \<and> u_code u = cv_code v \<and> u_contract_version u = cv_contract_version v
     \<and> u_identity u = cv_identity v \<and> u_policy u = cv_policy v \<and> u_start u = cv_start v \<and> u_end u = cv_end v"

definition find_unit_row :: "run_id \<Rightarrow> string \<Rightarrow> db \<Rightarrow> unit_row option" where
  "find_unit_row r k d = find (\<lambda>x. ur_run x = r \<and> u_id (ur_unit x) = k) (db_units d)"

definition recognized_identity :: "coverage_receipt \<Rightarrow> bool" where
  "recognized_identity v \<longleftrightarrow> cv_contract_id v = sgs_contract_id (cv_code v)
     \<and> cv_identity v = (if cv_code v = 226 then SGS_FULL_PERIOD_IDENTITY_KIND else SGS_POINT_IDENTITY_KIND)
     \<and> is_current_sgs_contract (cv_code v) (cv_contract_version v)"

definition proved_by :: "coverage_receipt \<Rightarrow> db \<Rightarrow> bool" where
  "proved_by v d \<longleftrightarrow>
     (case find (commit_matches v) (db_unit_commits d) of
        None \<Rightarrow> False
      | Some k \<Rightarrow> hex64 (uc_canonical k)
          \<and> (case db_plans d (cv_run v) of None \<Rightarrow> False | Some row \<Rightarrow> pr_sha row = uc_plan k)
          \<and> (case find_unit_row (cv_run v) (cv_unit v) d of None \<Rightarrow> False | Some x \<Rightarrow> unit_matches v (ur_unit x)))"

text \<open>Two receipts of one operation are the same when all stored columns are; the capture time is stored in UTC.\<close>

definition same_receipt :: "coverage_receipt \<Rightarrow> coverage_receipt \<Rightarrow> bool" where
  "same_receipt a b \<longleftrightarrow> instant (cv_captured a) = instant (cv_captured b)
     \<and> a\<lparr>cv_captured := cv_captured b\<rparr> = b"

definition verify_unit :: "run_id \<Rightarrow> string \<Rightarrow> timestamp \<Rightarrow> db \<Rightarrow> db" where
  "verify_unit r k now d =
     d\<lparr>db_units := update_where (\<lambda>x. ur_run x = r \<and> u_id (ur_unit x) = k)
         (\<lambda>x. x\<lparr>ur_status := ''verified'', ur_updated := now\<rparr>) (db_units d)\<rparr>"

definition record_verified_coverage :: "coverage_receipt \<Rightarrow> timestamp \<Rightarrow> db \<Rightarrow> py_error + bool \<times> db" where
  "record_verified_coverage v now d =
     (if \<not> coverage_complete v then Inl ValueError
      else bindE (astimezone_utc (cv_captured v)) (\<lambda>utc.
        if \<not> proved_by v d \<or> \<not> recognized_identity v then Inl ValueError
        else case find (\<lambda>p. cv_operation p = cv_operation v) (db_coverage d) of
          Some prior \<Rightarrow> if same_receipt prior v then Inr (False, d) else Inl ValueError
        | None \<Rightarrow> Inr (True, (verify_unit (cv_run v) (cv_unit v) now d)
            \<lparr>db_coverage := db_coverage d @ [v\<lparr>cv_captured := utc\<rparr>], db_cursor := Some (cv_code v)\<rparr>)))"

section \<open>Reconciling a committed unit\<close>

definition unit_commit_matches_binding :: "unit_commit \<Rightarrow> plan_binding \<Rightarrow> bool" where
  "unit_commit_matches_binding k b \<longleftrightarrow>
     (let u = pb_unit b
      in uc_plan k = pb_sha b \<and> uc_run k = pb_run b \<and> uc_unit k = u_id u \<and> uc_code k = u_code u
         \<and> uc_contract_id k = u_contract_id u \<and> uc_contract_version k = u_contract_version u
         \<and> uc_identity k = u_identity u \<and> uc_role k = u_role u \<and> uc_policy k = u_policy u
         \<and> uc_start k = u_start u \<and> uc_end k = u_end u \<and> uc_operation k = uc_extraction k \<and> 0 < uc_count k)"

definition coverage_from_unit_commit :: "unit_commit \<Rightarrow> coverage_receipt" where
  "coverage_from_unit_commit k =
     \<lparr>cv_operation = uc_operation k, cv_run = uc_run k, cv_unit = uc_unit k, cv_source = ''bcb_sgs'',
      cv_code = uc_code k, cv_contract_id = uc_contract_id k, cv_contract_version = uc_contract_version k,
      cv_identity = uc_identity k, cv_role = uc_role k, cv_policy = uc_policy k, cv_start = uc_start k,
      cv_end = uc_end k, cv_payload = uc_payload k, cv_count = uc_count k, cv_captured = uc_captured k,
      cv_ref_start = Some (uc_ref_start k), cv_ref_end = Some (uc_ref_end k), cv_business = uc_extraction k\<rparr>"

text \<open>\<open>ORDER BY captured_at DESC LIMIT 1\<close>: the first of the latest.\<close>

definition latest_commit :: "run_id \<Rightarrow> string \<Rightarrow> db \<Rightarrow> unit_commit option" where
  "latest_commit r k d =
     (case sort_key (\<lambda>x. - instant (uc_captured x)) (filter (\<lambda>x. uc_run x = r \<and> uc_unit x = k) (db_unit_commits d)) of
        [] \<Rightarrow> None | x # _ \<Rightarrow> Some x)"

definition reconcile_sgs_unit_commit :: "plan_binding \<Rightarrow> timestamp \<Rightarrow> db \<Rightarrow> py_error + unit_commit option \<times> db" where
  "reconcile_sgs_unit_commit b now d =
     (case latest_commit (pb_run b) (u_id (pb_unit b)) d of
        None \<Rightarrow> Inr (None, d)
      | Some k \<Rightarrow>
          if \<not> unit_commit_matches_binding k b \<or> \<not> hex64 (uc_payload k) \<or> \<not> hex64 (uc_canonical k)
             \<or> offset (uc_captured k) = None
          then Inl ValueError
          else bindE (astimezone_utc (uc_captured k)) (\<lambda>utc.
            let r = k\<lparr>uc_captured := utc\<rparr>
            in if uc_role r = Recent then Inr (Some r, d)
               else bindE (record_verified_coverage (coverage_from_unit_commit r) now d) (\<lambda>(_, d').
                 Inr (Some r, d'))))"

section \<open>Planning from what is stored\<close>

definition stored_coverage :: "int \<Rightarrow> db \<Rightarrow> coverage_receipt list" where
  "stored_coverage code d =
     sort_key (\<lambda>v. (cv_start v, cv_end v))
       (filter (\<lambda>v. cv_code v = code \<and> cv_source v = ''bcb_sgs'' \<and> cv_policy v \<in> set SUPPORTED_POLICY_VERSIONS)
         (db_coverage d))"

definition verified_coverage_for_codes :: "int list \<Rightarrow> db \<Rightarrow> (int \<times> coverage_receipt list) list" where
  "verified_coverage_for_codes codes d = map (\<lambda>k. (k, stored_coverage k d)) (remdups codes)"

definition verified_coverage :: "int \<Rightarrow> db \<Rightarrow> coverage_receipt list" where
  "verified_coverage code d =
     (case map_of (verified_coverage_for_codes [code] d) code of Some vs \<Rightarrow> vs | None \<Rightarrow> [])"

definition pending_status :: "string list" where
  "pending_status = [''reserved'', ''deferred'', ''failed'']"

definition pending_row :: "db \<Rightarrow> unit_row \<Rightarrow> bool" where
  "pending_row d x \<longleftrightarrow>
     archive_role (u_role (ur_unit x)) \<and> ur_status x \<in> set pending_status
     \<and> \<not> exists_where (\<lambda>v. cv_run v = ur_run x \<and> cv_unit v = u_id (ur_unit x)) (db_coverage d)
     \<and> (u_code (ur_unit x) \<noteq> 1207 \<or> u_contract_version (ur_unit x) = ''acquisition-contract-v2'')"

text \<open>The unit table has no contract id and no availability columns.\<close>

definition pending_unit :: "unit_row \<Rightarrow> sgs_unit" where
  "pending_unit x =
     (ur_unit x)\<lparr>u_contract_id := sgs_contract_id (u_code (ur_unit x)), u_avail_start := None,
       u_avail_documented := None, u_registry_version := None, u_observed_on := None, u_basis := None,
       u_source_url := None, u_detail_url := None, u_registry_sha := None, u_approved_start := None\<rparr>"

definition pending_archive_units :: "int \<Rightarrow> db \<Rightarrow> py_error + sgs_unit list" where
  "pending_archive_units limit d =
     (if limit < 0 then Inl ValueError
      else Inr (map pending_unit (take (nat limit)
        (sort_key (\<lambda>x. (u_start (ur_unit x), u_code (ur_unit x), ur_run x)) (filter (pending_row d) (db_units d))))))"

datatype unit_state = UnitDeferred | UnitFailed

fun unit_state_text :: "unit_state \<Rightarrow> string" where
  "unit_state_text UnitDeferred = ''deferred''"
| "unit_state_text UnitFailed = ''failed''"

definition open_archive_row :: "run_id \<Rightarrow> string \<Rightarrow> unit_row \<Rightarrow> bool" where
  "open_archive_row r k x \<longleftrightarrow> ur_run x = r \<and> u_id (ur_unit x) = k \<and> archive_role (u_role (ur_unit x))
     \<and> ur_status x \<noteq> ''verified''"

definition set_archive_unit_state ::
    "run_id \<Rightarrow> string \<Rightarrow> unit_state \<Rightarrow> string option \<Rightarrow> timestamp \<Rightarrow> db \<Rightarrow> bool \<times> db" where
  "set_archive_unit_state r k st err now d =
     (if \<not> exists_where (open_archive_row r k) (db_units d) then (False, d)
      else (True, d\<lparr>db_units := update_where
              (\<lambda>x. ur_run x = r \<and> u_id (ur_unit x) = k \<and> ur_status x \<noteq> ''verified'')
              (\<lambda>x. x\<lparr>ur_status := unit_state_text st, ur_error := err, ur_updated := now\<rparr>) (db_units d)\<rparr>))"

definition build_next_sgs_plan :: "codec \<Rightarrow> date \<Rightarrow> int \<Rightarrow> db \<Rightarrow> plan_error + sgs_plan" where
  "build_next_sgs_plan c as_of cap d =
     bindE active_sgs_series_codes (\<lambda>codes.
     bindE (lift (pending_archive_units (max 64 cap) d)) (\<lambda>pending.
       build_sgs_plan c as_of (concat (map snd (verified_coverage_for_codes codes d))) (db_cursor d) cap pending))"

end
