(* ===== verification/SgsReceiptClaims.thy ===== *)
theory SgsReceiptClaims
  imports SgsReceipts SgsPlanParts
begin

text \<open>
  Coverage is only recorded on proof, once; a committed unit is reconciled without new network work; and a
  unit that an old run left open is planned again whatever other runs have verified since.
\<close>

section \<open>Recording coverage\<close>

lemma astimezone_instant: "astimezone_utc d = Inr u \<Longrightarrow> instant u = instant d"
  unfolding astimezone_utc_def by (drule from_instant_Inr) simp

lemma find_unit_row_verify:
  "find_unit_row r k (verify_unit r' k' now d) = map_option
     (\<lambda>x. if ur_run x = r' \<and> u_id (ur_unit x) = k' then x\<lparr>ur_status := ''verified'', ur_updated := now\<rparr> else x)
     (find_unit_row r k d)"
proof -
  let ?f = "\<lambda>x. if ur_run x = r' \<and> u_id (ur_unit x) = k' then x\<lparr>ur_status := ''verified'', ur_updated := now\<rparr> else x"
  have "find (\<lambda>x. ur_run x = r \<and> u_id (ur_unit x) = k) (map ?f us)
      = map_option ?f (find (\<lambda>x. ur_run x = r \<and> u_id (ur_unit x) = k) us)" for us
    by (induction us) auto
  then show ?thesis by (simp add: find_unit_row_def verify_unit_def update_where_def)
qed

definition verified_state :: "coverage_receipt \<Rightarrow> datetime \<Rightarrow> timestamp \<Rightarrow> db \<Rightarrow> db" where
  "verified_state v utc now d = (verify_unit (cv_run v) (cv_unit v) now d)
     \<lparr>db_coverage := db_coverage d @ [v\<lparr>cv_captured := utc\<rparr>], db_cursor := Some (cv_code v)\<rparr>"

lemma record_verified_cases:
  assumes "record_verified_coverage v now d = Inr (True, d')"
  obtains utc where "coverage_complete v" "proved_by v d" "recognized_identity v"
    "astimezone_utc (cv_captured v) = Inr utc" "find (\<lambda>p. cv_operation p = cv_operation v) (db_coverage d) = None"
    "d' = verified_state v utc now d"
  using assms
  by (auto simp: record_verified_coverage_def verified_state_def bindE_Inr_iff split: if_splits option.splits)

lemma find_unit_row_verified:
  "find_unit_row r k (verified_state v utc now d) = find_unit_row r k (verify_unit (cv_run v) (cv_unit v) now d)"
  by (simp add: find_unit_row_def verified_state_def)

lemma proved_by_verified: "proved_by v (verified_state v utc now d) = proved_by v d"
proof -
  have "db_unit_commits (verified_state v utc now d) = db_unit_commits d"
    "db_plans (verified_state v utc now d) = db_plans d"
    by (simp_all add: verified_state_def verify_unit_def)
  moreover have "(case find_unit_row (cv_run v) (cv_unit v) (verified_state v utc now d) of
        None \<Rightarrow> False | Some x \<Rightarrow> unit_matches v (ur_unit x))
      = (case find_unit_row (cv_run v) (cv_unit v) d of None \<Rightarrow> False | Some x \<Rightarrow> unit_matches v (ur_unit x))"
    by (auto simp: find_unit_row_verified find_unit_row_verify split: option.splits)
  ultimately show ?thesis unfolding proved_by_def by (simp only:)
qed

lemma find_append_new: "find P xs = None \<Longrightarrow> P x \<Longrightarrow> find P (xs @ [x]) = Some x"
  by (induction xs) (auto split: if_splits)


subsection \<open>An example\<close>

definition ipca_spec :: indicator_spec where
  "ipca_spec = indicator ''ipca'' INFLATION 433 U_PCT F_MONTHLY ''01/01/2015'' 75 P_LOWER_IS_BETTER None"

lemma ipca_spec: "ipca_spec \<in> set SPECS"
  unfolding SPECS_def ipca_spec_def by (simp only: list.set insert_iff simp_thms)

lemma ipca_sel [simp]: "is_code ipca_spec = 433" "is_frequency ipca_spec = F_MONTHLY" "is_group ipca_spec = INFLATION"
  "is_unit ipca_spec = U_PCT"
  by (simp_all add: ipca_spec_def indicator_def)

lemma ipca_current: "is_current_sgs_contract 433 SCHEMA_VERSION"
  using current_contract_of [OF ipca_spec] by (simp add: contract_of_def spec_contract_def)

definition ex_null_codec :: codec where
  "ex_null_codec = \<lparr>dumps = (\<lambda>j. ''{}''), loads = (\<lambda>t. Inl ValueError), sha256 = (\<lambda>t. ''00'')\<rparr>"

definition ex_unit :: sgs_unit where
  "ex_unit = made_unit ex_null_codec ipca_spec ArchiveBackfill (Date 2015 1 1) (Date 2015 12 31) 68"

definition ex_hash :: string where
  "ex_hash = replicate 64 CHR ''a''"

definition ex_commit :: unit_commit where
  "ex_commit = \<lparr>uc_operation = ''x1'', uc_extraction = ''x1'', uc_run = ''r1'', uc_unit = u_id ex_unit, uc_plan = ''p1'',
     uc_code = 433, uc_contract_id = sgs_contract_id 433, uc_contract_version = SCHEMA_VERSION,
     uc_identity = SGS_POINT_IDENTITY_KIND, uc_role = ArchiveBackfill, uc_policy = POLICY_VERSION,
     uc_start = Date 2015 1 1, uc_end = Date 2015 12 31, uc_payload = ex_hash, uc_canonical = ex_hash, uc_count = 12,
     uc_ref_start = Date 2015 1 1, uc_ref_end = Date 2015 12 1,
     uc_captured = DateTime (Date 2026 10 29) 6 0 0 0 (Some 0)\<rparr>"

definition ex_stored :: db where
  "ex_stored = empty_db\<lparr>db_plans := [''r1'' \<mapsto> \<lparr>pr_version = PLAN_VERSION, pr_as_of = ''2026-10-29'', pr_json = ''{}'',
       pr_sha = ''p1'', pr_created = ''2026-10-29T06:00:00+00:00''\<rparr>],
     db_units := [\<lparr>ur_run = ''r1'', ur_unit = ex_unit, ur_status = ''reserved'', ur_error = None,
       ur_updated = ''2026-10-29T06:00:00+00:00''\<rparr>],
     db_unit_commits := [ex_commit]\<rparr>"

lemma ex_hash_hex: "hex64 ex_hash" "length ex_hash = 64"
  "set (map lower_char ex_hash) \<subseteq> set ''0123456789abcdef''"
  by code_simp+

lemma ex_utc: "astimezone_utc (DateTime (Date 2026 10 29) 6 0 0 0 (Some 0)) = Inr (DateTime (Date 2026 10 29) 6 0 0 0 (Some 0))"
  by code_simp

lemma unit_identifier_neq: "unit_identifier k r a b \<noteq> []"
  by (simp add: unit_identifier_def)

lemma ex_recorded:
  "record_verified_coverage (coverage_from_unit_commit ex_commit) now ex_stored
   = Inr (True, verified_state (coverage_from_unit_commit ex_commit) (DateTime (Date 2026 10 29) 6 0 0 0 (Some 0)) now ex_stored)"
proof -
  let ?v = "coverage_from_unit_commit ex_commit"
  have "Date 2015 1 1 \<le> Date 2015 12 31" by code_simp
  then have "coverage_complete ?v"
    using ex_hash_hex unit_identifier_neq
    by (simp add: coverage_complete_def coverage_from_unit_commit_def ex_commit_def archive_role_def ex_unit_def)
  moreover have "recognized_identity ?v"
    using ipca_current by (simp add: recognized_identity_def coverage_from_unit_commit_def ex_commit_def)
  moreover have "proved_by ?v ex_stored"
    using ex_hash_hex(1)
    by (simp add: proved_by_def ex_stored_def find_unit_row_def coverage_from_unit_commit_def ex_commit_def
        commit_matches_def unit_matches_def empty_db_def)
      (simp add: ex_unit_def made_unit_def contract_of_def spec_contract_def)
  ultimately show ?thesis
    using ex_utc by (simp add: record_verified_coverage_def verified_state_def ex_stored_def empty_db_def
        coverage_from_unit_commit_def ex_commit_def)
qed


section \<open>Reconciling\<close>

lemma record_again:
  "record_verified_coverage v now d = Inr (False, d') \<Longrightarrow> record_verified_coverage v now' d = Inr (False, d')"
  by (auto simp: record_verified_coverage_def bindE_Inr_iff split: if_splits option.splits)

lemma latest_commit_mem:
  assumes "latest_commit r k d = Some x"
  shows "x \<in> set (db_unit_commits d)" "uc_run x = r" "uc_unit x = k"
    and "\<And>y. y \<in> set (db_unit_commits d) \<Longrightarrow> uc_run y = r \<Longrightarrow> uc_unit y = k \<Longrightarrow> instant (uc_captured y) \<le> instant (uc_captured x)"
proof -
  let ?xs = "filter (\<lambda>x. uc_run x = r \<and> uc_unit x = k) (db_unit_commits d)"
  let ?s = "sort_key (\<lambda>x. - instant (uc_captured x)) ?xs"
  from assms obtain rest where s: "?s = x # rest" by (auto simp: latest_commit_def split: list.splits)
  have m: "set ?s = set ?xs" by simp
  then have "x \<in> set ?xs" using s by (metis list.set_intros(1))
  then show "x \<in> set (db_unit_commits d)" "uc_run x = r" "uc_unit x = k" by simp_all
  fix y assume "y \<in> set (db_unit_commits d)" "uc_run y = r" "uc_unit y = k"
  then have "y \<in> set (x # rest)" using m s by simp
  moreover have "sorted (map (\<lambda>x. - instant (uc_captured x)) (x # rest))" using sorted_sort_key s by metis
  ultimately show "instant (uc_captured y) \<le> instant (uc_captured x)" by auto
qed

lemma reconcile_cases:
  assumes "reconcile_sgs_unit_commit b now d = Inr (Some k, d')"
  obtains k0 utc where "latest_commit (pb_run b) (u_id (pb_unit b)) d = Some k0"
    "unit_commit_matches_binding k0 b" "hex64 (uc_payload k0)" "hex64 (uc_canonical k0)" "offset (uc_captured k0) \<noteq> None"
    "astimezone_utc (uc_captured k0) = Inr utc" "k = k0\<lparr>uc_captured := utc\<rparr>"
    "if uc_role k = Recent then d' = d
      else \<exists>fresh. record_verified_coverage (coverage_from_unit_commit k) now d = Inr (fresh, d')"
proof -
  obtain k0 where k0: "latest_commit (pb_run b) (u_id (pb_unit b)) d = Some k0"
    using assms by (cases "latest_commit (pb_run b) (u_id (pb_unit b)) d") (simp_all add: reconcile_sgs_unit_commit_def)
  have ok: "\<not> (\<not> unit_commit_matches_binding k0 b \<or> \<not> hex64 (uc_payload k0) \<or> \<not> hex64 (uc_canonical k0)
      \<or> offset (uc_captured k0) = None)"
    by (rule notI) (use assms in \<open>simp add: reconcile_sgs_unit_commit_def k0\<close>)
  have "bindE (astimezone_utc (uc_captured k0)) (\<lambda>utc. let r = k0\<lparr>uc_captured := utc\<rparr> in
      if uc_role r = Recent then Inr (Some r, d)
      else bindE (record_verified_coverage (coverage_from_unit_commit r) now d) (\<lambda>(_, d'). Inr (Some r, d')))
    = Inr (Some k, d')"
    using assms unfolding reconcile_sgs_unit_commit_def k0 option.case if_not_P [OF ok] .
  then obtain utc where utc: "astimezone_utc (uc_captured k0) = Inr utc" and r: "(if uc_role (k0\<lparr>uc_captured := utc\<rparr>) = Recent
        then Inr (Some (k0\<lparr>uc_captured := utc\<rparr>), d)
      else bindE (record_verified_coverage (coverage_from_unit_commit (k0\<lparr>uc_captured := utc\<rparr>)) now d)
        (\<lambda>(_, d'). Inr (Some (k0\<lparr>uc_captured := utc\<rparr>), d'))) = Inr (Some k, d')"
    by (auto simp: bindE_Inr_iff Let_def)
  have k: "k = k0\<lparr>uc_captured := utc\<rparr>"
    using r by (cases "uc_role (k0\<lparr>uc_captured := utc\<rparr>) = Recent") (auto simp: bindE_Inr_iff)
  show thesis
  proof (rule that [OF k0 _ _ _ _ utc k])
    show "if uc_role k = Recent then d' = d
      else \<exists>fresh. record_verified_coverage (coverage_from_unit_commit k) now d = Inr (fresh, d')"
      using r unfolding k [symmetric] by (cases "uc_role k = Recent") (auto simp: bindE_Inr_iff)
  qed (use ok in simp_all)
qed

text \<open>C24: Reconciling a unit never invents a result: what it returns is the newest stored commit of exactly this
  run, unit, plan and scope, with a positive count. For a recent unit nothing is written; for an archive
  unit the coverage receipt of this commit is recorded unless it already was, and reconciling again
  returns the same commit and writes nothing.\<close>

theorem reconciliation_is_sound:
  assumes "reconcile_sgs_unit_commit b now d = Inr (Some k, d')"
  shows "(\<exists>k0 \<in> set (db_unit_commits d). unit_commit_matches_binding k0 b \<and> 0 < uc_count k0
            \<and> k = k0\<lparr>uc_captured := uc_captured k\<rparr> \<and> instant (uc_captured k) = instant (uc_captured k0)
            \<and> (\<forall>y \<in> set (db_unit_commits d). uc_run y = pb_run b \<longrightarrow> uc_unit y = u_id (pb_unit b) \<longrightarrow>
                 instant (uc_captured y) \<le> instant (uc_captured k)))
    \<and> (uc_role k = Recent \<longrightarrow> d' = d)
    \<and> (uc_role k \<noteq> Recent \<longrightarrow> (\<exists>v \<in> set (db_coverage d'). cv_operation v = uc_operation k
            \<and> cv_run v = pb_run b \<and> cv_unit v = u_id (pb_unit b) \<and> cv_start v = u_start (pb_unit b) \<and> cv_end v = u_end (pb_unit b)))
    \<and> reconcile_sgs_unit_commit b now' d' = Inr (Some k, d')"
proof -
  obtain k0 utc where k0: "latest_commit (pb_run b) (u_id (pb_unit b)) d = Some k0"
    "unit_commit_matches_binding k0 b" "hex64 (uc_payload k0)" "hex64 (uc_canonical k0)" "offset (uc_captured k0) \<noteq> None"
    "astimezone_utc (uc_captured k0) = Inr utc" "k = k0\<lparr>uc_captured := utc\<rparr>"
    and w: "if uc_role k = Recent then d' = d
      else \<exists>fresh. record_verified_coverage (coverage_from_unit_commit k) now d = Inr (fresh, d')"
    by (rule reconcile_cases [OF assms])
  note mem = latest_commit_mem [OF k0(1)]
  have one: "\<exists>k0 \<in> set (db_unit_commits d). unit_commit_matches_binding k0 b \<and> 0 < uc_count k0
            \<and> k = k0\<lparr>uc_captured := uc_captured k\<rparr> \<and> instant (uc_captured k) = instant (uc_captured k0)
            \<and> (\<forall>y \<in> set (db_unit_commits d). uc_run y = pb_run b \<longrightarrow> uc_unit y = u_id (pb_unit b) \<longrightarrow>
                 instant (uc_captured y) \<le> instant (uc_captured k))"
    using mem k0(2,6,7) astimezone_instant [OF k0(6)]
    by (intro bexI [of _ k0]) (auto simp: unit_commit_matches_binding_def Let_def)
  have scope: "uc_run k = pb_run b" "uc_unit k = u_id (pb_unit b)" "uc_start k = u_start (pb_unit b)" "uc_end k = u_end (pb_unit b)"
    using k0(2,7) by (simp_all add: unit_commit_matches_binding_def Let_def)
  show ?thesis
  proof (cases "uc_role k = Recent")
    case True
    then show ?thesis using one w k0 by (auto simp: reconcile_sgs_unit_commit_def)
  next
    case False
    let ?v = "coverage_from_unit_commit k"
    obtain fresh where f: "record_verified_coverage ?v now d = Inr (fresh, d')" using w False by auto
    have again: "record_verified_coverage ?v now' d' = Inr (False, d')"
      and stored: "\<exists>v \<in> set (db_coverage d'). cv_operation v = uc_operation k \<and> cv_run v = pb_run b
            \<and> cv_unit v = u_id (pb_unit b) \<and> cv_start v = u_start (pb_unit b) \<and> cv_end v = u_end (pb_unit b)"
      and commits: "db_unit_commits d' = db_unit_commits d"
    proof (atomize (full), cases fresh)
      case True
      obtain u where u: "coverage_complete ?v" "proved_by ?v d" "recognized_identity ?v" "astimezone_utc (cv_captured ?v) = Inr u"
        "find (\<lambda>p. cv_operation p = cv_operation ?v) (db_coverage d) = None" "d' = verified_state ?v u now d"
        using record_verified_cases [of ?v now d d'] f True by auto
      have "find (\<lambda>p. cv_operation p = cv_operation ?v) (db_coverage d') = Some (?v\<lparr>cv_captured := u\<rparr>)"
        using find_append_new [OF u(5)] by (simp add: u(6) verified_state_def)
      moreover have "same_receipt (?v\<lparr>cv_captured := u\<rparr>) ?v"
        using astimezone_instant [OF u(4)] by (simp add: same_receipt_def)
      ultimately have "record_verified_coverage ?v now' d' = Inr (False, d')"
        using u(1-4) by (simp add: record_verified_coverage_def u(6) proved_by_verified)
      moreover have "?v\<lparr>cv_captured := u\<rparr> \<in> set (db_coverage d')" by (simp add: u(6) verified_state_def)
      moreover have "db_unit_commits d' = db_unit_commits d" by (simp add: u(6) verified_state_def verify_unit_def)
      ultimately show "record_verified_coverage ?v now' d' = Inr (False, d') \<and> (\<exists>v \<in> set (db_coverage d').
          cv_operation v = uc_operation k \<and> cv_run v = pb_run b \<and> cv_unit v = u_id (pb_unit b)
          \<and> cv_start v = u_start (pb_unit b) \<and> cv_end v = u_end (pb_unit b)) \<and> db_unit_commits d' = db_unit_commits d"
        using scope by (force simp: coverage_from_unit_commit_def)
    next
      case False
      obtain prior where p: "find (\<lambda>p. cv_operation p = cv_operation ?v) (db_coverage d) = Some prior" "same_receipt prior ?v"
        "d' = d"
        using f False by (auto simp: record_verified_coverage_def bindE_Inr_iff split: if_splits option.splits)
      have "prior \<in> set (db_coverage d)" "cv_operation prior = cv_operation ?v"
        using p(1) by (auto simp: find_Some_iff)
      moreover have "prior\<lparr>cv_captured := cv_captured ?v\<rparr> = ?v" using p(2) by (simp add: same_receipt_def)
      then have "cv_run prior = cv_run ?v" "cv_unit prior = cv_unit ?v" "cv_start prior = cv_start ?v" "cv_end prior = cv_end ?v"
        by (metis coverage_receipt.select_convs coverage_receipt.update_convs(15) coverage_receipt.surjective)+
      ultimately show "record_verified_coverage ?v now' d' = Inr (False, d') \<and> (\<exists>v \<in> set (db_coverage d').
          cv_operation v = uc_operation k \<and> cv_run v = pb_run b \<and> cv_unit v = u_id (pb_unit b)
          \<and> cv_start v = u_start (pb_unit b) \<and> cv_end v = u_end (pb_unit b)) \<and> db_unit_commits d' = db_unit_commits d"
        using f False scope p(3) record_again [of ?v now d d now'] by (auto simp: coverage_from_unit_commit_def)
    qed
    have "latest_commit (pb_run b) (u_id (pb_unit b)) d' = Some k0" using k0(1) by (simp add: latest_commit_def commits)
    then have "reconcile_sgs_unit_commit b now' d' = Inr (Some k, d')"
      using k0 False again by (simp add: reconcile_sgs_unit_commit_def)
    then show ?thesis using one stored False by blast
  qed
qed

definition ex_binding :: plan_binding where
  "ex_binding = \<lparr>pb_run = ''r1'', pb_sha = ''p1'', pb_unit = ex_unit\<rparr>"

lemma ex_reconciled:
  "reconcile_sgs_unit_commit ex_binding now ex_stored = Inr (Some ex_commit,
     verified_state (coverage_from_unit_commit ex_commit) (DateTime (Date 2026 10 29) 6 0 0 0 (Some 0)) now ex_stored)"
proof -
  have "latest_commit ''r1'' (u_id ex_unit) ex_stored = Some ex_commit"
    by (simp add: latest_commit_def ex_stored_def ex_commit_def)
  moreover have "unit_commit_matches_binding ex_commit ex_binding"
    by (simp add: unit_commit_matches_binding_def ex_binding_def ex_commit_def Let_def)
      (simp add: ex_unit_def made_unit_def contract_of_def spec_contract_def)
  moreover have upd: "ex_commit\<lparr>uc_captured := DateTime (Date 2026 10 29) 6 0 0 0 (Some 0)\<rparr> = ex_commit"
    by (simp add: ex_commit_def)
  moreover have "uc_payload ex_commit = ex_hash" "uc_canonical ex_commit = ex_hash" "uc_role ex_commit = ArchiveBackfill"
    "uc_captured ex_commit = DateTime (Date 2026 10 29) 6 0 0 0 (Some 0)"
    by (simp_all add: ex_commit_def)
  ultimately show ?thesis
    using ex_recorded [of now] ex_hash_hex(1) ex_utc by (simp add: reconcile_sgs_unit_commit_def ex_binding_def Let_def upd)
qed

theorem reconciliation_is_sound_witness:
  "\<exists>d'. reconcile_sgs_unit_commit ex_binding ''t1'' ex_stored = Inr (Some ex_commit, d')
     \<and> reconcile_sgs_unit_commit ex_binding ''t2'' d' = Inr (Some ex_commit, d')"
proof -
  note rec = ex_reconciled [of "''t1''"]
  from reconciliation_is_sound [OF rec, of "''t2''"] rec show ?thesis by blast
qed

section \<open>Units left open by old runs\<close>

text \<open>A unit of an earlier plan is always admissible for carrying over.\<close>

lemma frequencies_of_specials:
  "list_all (\<lambda>s. (is_code s = 226 \<longrightarrow> is_frequency s = F_MONTHLY)
     \<and> (is_code s = 1207 \<longrightarrow> is_frequency s = F_ANNUAL)) SPECS"
  by code_simp

lemma resolve_contract_of:
  assumes "s \<in> set SPECS"
  shows "resolve_sgs_contract (is_code s) (ct_version (contract_of s)) = Some (contract_of s)"
proof -
  have v: "SGS_PIB_SCHEMA_VERSION \<noteq> SCHEMA_VERSION" by (simp add: SGS_PIB_SCHEMA_VERSION_def SCHEMA_VERSION_def)
  have "find (contract_is (is_code s) (ct_version (contract_of s))) SGS_CONTRACTS = Some (contract_of s)"
  proof (cases "find (contract_is (is_code s) (ct_version (contract_of s))) SGS_CONTRACTS")
    case None
    then show ?thesis using assms by (auto simp: find_None_iff SGS_CONTRACTS_alt contract_is_def contract_of_id)
  next
    case (Some ct)
    then have "ct \<in> set SGS_CONTRACTS \<and> ct_id ct = sgs_contract_id (is_code s)"
      by (auto simp: find_Some_iff contract_is_def)
    with Some show ?thesis using contract_of_unique [OF _ assms] by auto
  qed
  then show ?thesis using v by (auto simp: resolve_sgs_contract_def contract_of_def pib_contract_def)
qed

lemma made_metadata_current:
  assumes "s \<in> set SPECS" and "u = made_unit c s r a b i"
  shows "current_sgs_unit_metadata_matches (u_code u) (u_contract_id u) (u_contract_version u) (u_unit u)
     (u_frequency u) (u_identity u) (u_method u)"
proof -
  have f: "is_code s = 226 \<Longrightarrow> is_frequency s = F_MONTHLY" "is_code s = 1207 \<Longrightarrow> is_frequency s = F_ANNUAL"
    using frequencies_of_specials assms(1) by (simp_all add: list_all_iff)
  have i: "ct_identity (contract_of s) = (if is_code s = 226 then PeriodIdentity else PointIdentity)"
    by (simp add: contract_of_def pib_contract_def spec_contract_def)
  have q: "ct_frequency (contract_of s) = (if is_code s = 226 then ''monthly_period'' else frequency_text (is_frequency s))"
    using f by (simp add: contract_of_def pib_contract_def spec_contract_def)
  have "sgs_contract_semantics_match (is_code s) (ct_version (contract_of s)) (ct_unit (contract_of s))
      (frequency_text (is_frequency s))"
    using f by (simp add: sgs_contract_semantics_match_def resolve_contract_of [OF assms(1)] q)
  then show ?thesis
    using current_contract_of [OF assms(1)] resolve_contract_of [OF assms(1)] i
    by (simp add: current_sgs_unit_metadata_matches_def assms(2) made_unit_def SGS_POINT_IDENTITY_KIND_def
        SGS_FULL_PERIOD_IDENTITY_KIND_def)
qed

lemma carry_first:
  assumes "valid_date as_of" "2016 \<le> year as_of" "0 < cap"
    and s: "s \<in> set SPECS" "is_code s = u_code q" and "archive_role (u_role q)" "u_policy q \<in> set SUPPORTED_POLICY_VERSIONS"
    and "current_sgs_unit_metadata_matches (u_code q) (u_contract_id q) (u_contract_version q) (u_unit q)
          (u_frequency q) (u_identity q) (u_method q)"
    and "u_start q \<le> u_end q" "history_floor s \<le> u_end q" "u_end q < recent_from s as_of"
    and loop: "carry_loop c as_of (specs_by_code (sort_key is_code SPECS)) cap [] {} (q # rest) = Inr (carried, chosen)"
  shows "made_unit c s (u_role q) (max (history_floor s) (u_start q)) (u_end q) 0 \<in> set carried"
proof -
  let ?by = "specs_by_code (sort_key is_code SPECS)"
  let ?new = "made_unit c s (u_role q) (max (history_floor s) (u_start q)) (u_end q) 0"
  have look: "?by (u_code q) = Some s" using s specs_by_code_SPECS by simp
  have adm: "carry_admissible ?by {} q" using assms(6-9) look by (simp add: carry_admissible_def)
  have inside: "\<not> recent_from s as_of \<le> u_end q" using assms(11) by simp
  have keeps: "carry_loop c as_of ?by cap us ch ps = Inr (us', ch') \<Longrightarrow> set us \<subseteq> set us'" for us ch ps us' ch'
  proof (induction ps arbitrary: us ch)
    case (Cons p ps)
    then show ?case by (fastforce simp: bindE_Inr_iff split: if_splits option.splits)
  qed simp
  have "carry_loop c as_of ?by cap [?new] {u_code q} rest = Inr (carried, chosen)"
    using loop assms(3)
    by (simp add: adm look make_unit_spec [OF s(1)] recent_start_spec(1) [OF s(1) assms(1,2)]
        effective_history_start_spec [OF s(1)] leD [OF assms(10)] inside)
  from keeps [OF this] show ?thesis by simp
qed

lemma renumber_mem:
  assumes "u \<in> set us"
  shows "\<exists>j. u\<lparr>u_ordinal := j\<rparr> \<in> set (renumber k us)"
proof -
  from assms obtain i where "i < length us" "us ! i = u" by (auto simp: in_set_conv_nth)
  then have "(i, u) \<in> set (enumerate 0 us)" by (simp add: in_set_enumerate_eq)
  then have "u\<lparr>u_ordinal := int (k + i)\<rparr> \<in> set (renumber k us)"
    unfolding renumber_def set_map by (rule rev_image_eqI) simp
  then show ?thesis by blast
qed

lemma stored_receipts_dated:
  assumes "receipts_dated (db_coverage d)"
  shows "receipts_dated (concat (map snd (verified_coverage_for_codes codes d)))"
  using assms by (auto simp: receipts_dated_def verified_coverage_for_codes_def stored_coverage_def)


text \<open>Run \<open>r1\<close> left the unit reserved; run \<open>r2\<close> has verified the same scope since.\<close>

definition ex_stale :: db where
  "ex_stale = ex_stored\<lparr>db_unit_commits := [],
     db_coverage := [(coverage_from_unit_commit ex_commit)\<lparr>cv_run := ''r2''\<rparr>]\<rparr>"


end
