(* ===== verification/Handlers.thy ===== *)
theory Handlers
  imports SgsReceipts TaskPayloads
begin

text \<open>
  Handlers: code that calls several transactions in turn. What one of them committed stays when a later one
  raises, so a handler returns the database beside its result or its exception. An exception is a
  \<open>plan_error\<close>, which covers those of the engine and of the SGS plan. Sequencing is the same for any state.
\<close>

type_synonym 'a handler = "db \<Rightarrow> (plan_error + 'a) \<times> db"

definition ret :: "'a \<Rightarrow> 's \<Rightarrow> ('e + 'a) \<times> 's" where
  "ret x d = (Inr x, d)"

definition fail :: "'e \<Rightarrow> 's \<Rightarrow> ('e + 'a) \<times> 's" where
  "fail e d = (Inl e, d)"

definition seq ::
    "('s \<Rightarrow> ('e + 'a) \<times> 's) \<Rightarrow> ('a \<Rightarrow> 's \<Rightarrow> ('e + 'b) \<times> 's) \<Rightarrow> 's \<Rightarrow> ('e + 'b) \<times> 's" where
  "seq m f d = (case m d of (Inl e, d') \<Rightarrow> (Inl e, d') | (Inr x, d') \<Rightarrow> f x d')"

text \<open>A transaction commits the database it returns, or rolls back and raises.\<close>

definition transact :: "(db \<Rightarrow> run_error + 'a \<times> db) \<Rightarrow> 'a handler" where
  "transact op d = (case op d of Inl e \<Rightarrow> (Inl (Rejected e), d) | Inr (x, d') \<Rightarrow> (Inr x, d'))"

definition execute :: "(db \<Rightarrow> run_error + db) \<Rightarrow> unit handler" where
  "execute op d = (case op d of Inl e \<Rightarrow> (Inl (Rejected e), d) | Inr d' \<Rightarrow> (Inr (), d'))"

definition modify :: "('s \<Rightarrow> 's) \<Rightarrow> 's \<Rightarrow> ('e + unit) \<times> 's" where
  "modify f d = (Inr (), f d)"

definition ask :: "('s \<Rightarrow> 'e + 'a) \<Rightarrow> 's \<Rightarrow> ('e + 'a) \<times> 's" where
  "ask f d = (f d, d)"

lemma seq_simps [simp]:
  "seq (ret x) f d = f x d"
  "seq (fail e) f d = (Inl e, d)"
  "seq (modify g) f d = f () (g d)"
  by (simp_all add: seq_def ret_def fail_def modify_def)

lemma ask_seq: "seq (ask g) f d = (case g d of Inl e \<Rightarrow> (Inl e, d) | Inr x \<Rightarrow> f x d)"
  by (simp add: seq_def ask_def split: sum.splits)

lemma seq_Inr_iff: "seq m f d = (Inr y, d') \<longleftrightarrow> (\<exists>x d1. m d = (Inr x, d1) \<and> f x d1 = (Inr y, d'))"
  by (auto simp: seq_def split: prod.splits sum.splits)

lemma ret_iff [simp]: "ret x d = (r, d') \<longleftrightarrow> r = Inr x \<and> d' = d"
  by (auto simp: ret_def)

lemma fail_iff [simp]: "fail e d = (r, d') \<longleftrightarrow> r = Inl e \<and> d' = d"
  by (auto simp: fail_def)

lemma read_iff [simp]: "ask f d = (r, d') \<longleftrightarrow> r = f d \<and> d' = d"
  by (auto simp: ask_def)

lemma write_iff [simp]: "modify f d = (r, d') \<longleftrightarrow> r = Inr () \<and> d' = f d"
  by (auto simp: modify_def)

lemma transact_Inr_iff: "transact op d = (Inr x, d') \<longleftrightarrow> op d = Inr (x, d')"
  by (auto simp: transact_def split: sum.splits prod.splits)

lemma execute_Inr_iff: "execute op d = (Inr x, d') \<longleftrightarrow> op d = Inr d'"
  by (auto simp: execute_def split: sum.splits)

section \<open>Names of exceptions\<close>

fun py_error_name :: "py_error \<Rightarrow> string" where
  "py_error_name ValueError = ''ValueError''"
| "py_error_name OverflowError = ''OverflowError''"
| "py_error_name TypeError = ''TypeError''"
| "py_error_name KeyError = ''KeyError''"
| "py_error_name IndexError = ''IndexError''"
| "py_error_name ZeroDivisionError = ''ZeroDivisionError''"
| "py_error_name RuntimeError = ''RuntimeError''"

fun run_error_name :: "run_error \<Rightarrow> string" where
  "run_error_name (LeaseConflict _ _) = ''RefreshLeaseConflictError''"
| "run_error_name (Idempotency _) = ''RefreshRunIdempotencyError''"
| "run_error_name (CutoffOrder _) = ''RefreshRunCutoffOrderError''"
| "run_error_name (InputError _ _) = ''RefreshRunInputError''"
| "run_error_name (Persistence _) = ''RefreshPersistenceError''"
| "run_error_name Integrity = ''IntegrityError''"
| "run_error_name (NotFound _) = ''RefreshRunNotFoundError''"
| "run_error_name (PyError e) = py_error_name e"

fun error_name :: "plan_error \<Rightarrow> string" where
  "error_name Unsupported = ''UnsupportedSGSPlanError''"
| "error_name (PyFail e) = py_error_name e"
| "error_name (Rejected e) = run_error_name e"

definition lift_run :: "run_error + 'a \<Rightarrow> plan_error + 'a" where
  "lift_run r = (case r of Inl e \<Rightarrow> Inl (Rejected e) | Inr x \<Rightarrow> Inr x)"

text \<open>A call that returns its database with an exception of the engine, as a handler.\<close>

definition lift_action :: "(db \<Rightarrow> (run_error + 'a) \<times> db) \<Rightarrow> 'a handler" where
  "lift_action m d = (let (r, d') = m d in (lift_run r, d'))"

lemma lift_run_simps [simp]:
  "lift_run (Inl e) = Inl (Rejected e)" "lift_run (Inr x) = Inr x"
  by (simp_all add: lift_run_def)

end
