(* ===== verification/RunTasks.thy ===== *)
theory RunTasks
  imports Handlers Windows
begin

text \<open>
  The source tasks of a refresh run (\<open>refresh.py\<close>: \<open>RefreshDependencies\<close>, \<open>_tasks\<close> and the window tasks).
  A dependency is the code that fetches and commits one source; it is an argument of the model. The modules of
  \<open>config.py\<close> read their series codes from the catalogue.
\<close>

section \<open>Dependencies\<close>

record batch_request =
  bq_codes :: "(string \<times> int) list"
  bq_start :: "string option"
  bq_end :: "string option"
  bq_cache :: bool
  bq_mark :: bool
  bq_fail_fast :: bool
  bq_timeout :: rat

record window_request =
  wq_code :: int
  wq_start :: string
  wq_end :: string
  wq_cache :: bool
  wq_fail_fast :: bool
  wq_timeout :: rat

text \<open>\<open>fetch_sgs_window\<close> may return its records, or a \<open>FetchResult\<close> whose \<open>value\<close> are the records.\<close>

datatype fetched = Bare json | FetchResult json

fun fetched_value :: "fetched \<Rightarrow> json" where
  "fetched_value (Bare v) = v"
| "fetched_value (FetchResult v) = v"

text \<open>A phase callback fails with a \<open>DerivedRefreshError\<close> (its \<open>inserted_count\<close>) or another exception.\<close>

datatype phase_failure = DerivedRefreshError int | OtherFailure string

type_synonym phase_call = "db \<Rightarrow> (phase_failure + int) \<times> db"

record deps =
  fetch_sgs_batch :: "batch_request \<Rightarrow> dict action"
  fetch_sgs_window :: "window_request \<Rightarrow> fetched action"
  fetch_all_focus :: "bool \<Rightarrow> dict action"
  fetch_focus_12m :: "bool \<Rightarrow> dict action"
  fetch_anbima_ima :: "bool \<Rightarrow> dict action"
  fetch_di_curves :: "int \<Rightarrow> bool \<Rightarrow> dict action"
  refresh_treasury_data :: "dict action"
  refresh_sidra_data :: "dict action"
  refresh_derived_snapshots :: "datetime \<Rightarrow> string \<Rightarrow> phase_call"
  observe_rules :: "phase_call option"
  refresh_macro_score :: "(datetime \<Rightarrow> string \<Rightarrow> phase_call) option"

section \<open>The task catalogue\<close>

definition config_codes :: "catalog_group \<Rightarrow> (string \<times> int) list" where
  "config_codes g = legacy_codes INDICATOR_CATALOG g"

definition ACTIVITY_REFRESH :: "(string \<times> int) list" where
  "ACTIVITY_REFRESH = config_codes ACTIVITY @ config_codes ACTIVITY_SECTORAL"

definition REQUEST_TIMEOUT :: rat where
  "REQUEST_TIMEOUT = 30"

definition sgs_groups :: "(string \<times> (string \<times> int) list \<times> string option) list" where
  "sgs_groups =
     [(''sgs_juros'', config_codes INTEREST_RATES, Some ''01/01/2015''),
      (''sgs_inflacao'', config_codes INFLATION, Some ''01/01/2015''),
      (''sgs_atividade'', ACTIVITY_REFRESH, Some ''01/01/2015''),
      (''sgs_fiscal'', config_codes FISCAL, Some ''01/01/2001''),
      (''sgs_credito'', config_codes CREDIT, Some ''01/01/2011''),
      (''sgs_cambio'', config_codes EXCHANGE, Some ''01/01/2015''),
      (''sgs_setor_externo'', config_codes EXTERNAL, Some ''01/01/2015''),
      (''sgs_complementares'', config_codes COMPLEMENTARY, Some ''01/01/2015''),
      (''sgs_ipca_grupos'', config_codes IPCA_GROUPS, None),
      (''sgs_ipca_naturezas'', config_codes IPCA_NATURE, None),
      (''sgs_ipca_nucleos'', config_codes IPCA_CORE, None),
      (''sgs_ipca_precos'', config_codes IPCA_PRICES, None)]"

definition sgs_task :: "string \<Rightarrow> int \<Rightarrow> dict action \<Rightarrow> refresh_task" where
  "sgs_task name expected run =
     \<lparr>rt_name = name, rt_provider = ''bcb_sgs'', rt_hostname = ''api.bcb.gov.br'', rt_expected = expected,
      rt_run = run\<rparr>"

definition sgs_group_task :: "bool \<Rightarrow> deps \<Rightarrow> string \<times> (string \<times> int) list \<times> string option \<Rightarrow> refresh_task" where
  "sgs_group_task cache ds g =
     (case g of (name, codes, start) \<Rightarrow>
        sgs_task name (int (length codes))
          (fetch_sgs_batch ds
             \<lparr>bq_codes = codes, bq_start = start, bq_end = None, bq_cache = cache, bq_mark = True,
              bq_fail_fast = False, bq_timeout = REQUEST_TIMEOUT\<rparr>))"

definition provider_tasks :: "bool \<Rightarrow> deps \<Rightarrow> refresh_task list" where
  "provider_tasks force ds =
     [\<lparr>rt_name = ''focus'', rt_provider = ''focus'', rt_hostname = ''olinda.bcb.gov.br'', rt_expected = 5,
       rt_run = fetch_all_focus ds (\<not> force)\<rparr>,
      \<lparr>rt_name = ''focus_12m'', rt_provider = ''focus'', rt_hostname = ''olinda.bcb.gov.br'', rt_expected = 1,
       rt_run = fetch_focus_12m ds (\<not> force)\<rparr>,
      \<lparr>rt_name = ''anbima'', rt_provider = ''anbima'',
       rt_hostname = ''s3-data-prd-use1-precos.s3.us-east-1.amazonaws.com'', rt_expected = 1,
       rt_run = fetch_anbima_ima ds (\<not> force)\<rparr>,
      \<lparr>rt_name = ''b3_di'', rt_provider = ''b3'', rt_hostname = ''www.b3.com.br'', rt_expected = 1,
       rt_run = fetch_di_curves ds 30 (\<not> force)\<rparr>,
      \<lparr>rt_name = ''tesouro'', rt_provider = ''tesouro'', rt_hostname = ''www.tesourotransparente.gov.br'',
       rt_expected = 1, rt_run = refresh_treasury_data ds\<rparr>,
      \<lparr>rt_name = ''ibge_sidra'', rt_provider = ''ibge_sidra'', rt_hostname = ''apisidra.ibge.gov.br'',
       rt_expected = 5, rt_run = refresh_sidra_data ds\<rparr>]"

definition refresh_tasks :: "bool \<Rightarrow> deps \<Rightarrow> refresh_task list" where
  "refresh_tasks force ds = map (sgs_group_task (\<not> force) ds) sgs_groups @ provider_tasks force ds"

section \<open>Window tasks\<close>

text \<open>
  The window loops carry fuel; \<open>returned\<close> reads their result. The fuel is always enough
  (\<open>annual_loop_returns\<close>, \<open>range_loop_returns\<close> below), so the second case does not arise.
\<close>

definition returned :: "(py_error + 'a) option \<Rightarrow> py_error + 'a" where
  "returned r = (case r of Some x \<Rightarrow> x | None \<Rightarrow> Inl RuntimeError)"

definition ipca_window_task :: "bool \<Rightarrow> deps \<Rightarrow> string \<times> int \<Rightarrow> nat \<times> string option \<times> string option \<Rightarrow> refresh_task" where
  "ipca_window_task force ds series window =
     (case (series, window) of ((code_name, code), (index, (start, stop))) \<Rightarrow>
        sgs_task (''sgs_ipca_grupos_'' @ show_int code @ ''_'' @ show_nat index) 1
          (fetch_sgs_batch ds
             \<lparr>bq_codes = [(code_name, code)], bq_start = start, bq_end = stop, bq_cache = \<not> force,
              bq_mark = False, bq_fail_fast = True, bq_timeout = 20\<rparr>))"

definition ipca_group_window_tasks :: "date \<Rightarrow> bool \<Rightarrow> deps \<Rightarrow> py_error + refresh_task list" where
  "ipca_group_window_tasks today force ds =
     bindE (returned (sgs_refresh_windows today None None)) (\<lambda>windows.
       Inr (concat (map (\<lambda>s. map (ipca_window_task force ds s) (enumerate 0 windows)) (config_codes IPCA_GROUPS))))"

definition window_name :: "string \<Rightarrow> int \<Rightarrow> window \<Rightarrow> string" where
  "window_name g code w =
     ''sgs_'' @ g @ ''_w'' @ show_int code @ ''_'' @ date_isoformat (fst w) @ ''_'' @ date_isoformat (snd w)"

text \<open>The texts of a window read back as dates: \<open>date(start_year, start_month, start_day)\<close>, and so on.\<close>

definition window_dates :: "string \<times> string \<Rightarrow> py_error + window" where
  "window_dates w =
     bindE (parse_slash_date (fst w)) (\<lambda>a. bindE (parse_slash_date (snd w)) (\<lambda>b. Inr (a, b)))"

fun traverse :: "('a \<Rightarrow> 'e + 'b) \<Rightarrow> 'a list \<Rightarrow> 'e + 'b list" where
  "traverse f [] = Inr []"
| "traverse f (x # xs) = bindE (f x) (\<lambda>y. bindE (traverse f xs) (\<lambda>ys. Inr (y # ys)))"

definition year_windows :: "date \<Rightarrow> py_error + ((string \<times> string) \<times> window) list" where
  "year_windows as_of =
     bindE (returned (sgs_annual_windows ''2015-01-01'' (date_isoformat as_of)))
       (traverse (\<lambda>w. bindE (window_dates w) (\<lambda>v. Inr (w, v))))"

definition window_task ::
    "string \<Rightarrow> bool \<Rightarrow> deps \<Rightarrow> string \<times> int \<Rightarrow> (string \<times> string) \<times> window \<Rightarrow> refresh_task" where
  "window_task g cache ds series w =
     (case series of (series_name, code) \<Rightarrow>
        sgs_task (window_name g code (snd w)) 1
          (seq (fetch_sgs_window ds
              \<lparr>wq_code = code, wq_start = fst (fst w), wq_end = snd (fst w), wq_cache = cache,
               wq_fail_fast = True, wq_timeout = 20\<rparr>)
            (\<lambda>fetched. ret [(series_name, fetched_value fetched)])))"

definition sgs_inflation_window_tasks :: "bool \<Rightarrow> deps \<Rightarrow> date \<Rightarrow> py_error + refresh_task list" where
  "sgs_inflation_window_tasks force ds as_of =
     bindE (year_windows as_of) (\<lambda>ws.
       Inr (concat (map (\<lambda>s. map (window_task ''inflacao'' False ds s) ws) (config_codes INFLATION))))"

definition sgs_interest_window_tasks :: "bool \<Rightarrow> deps \<Rightarrow> date \<Rightarrow> py_error + refresh_task list" where
  "sgs_interest_window_tasks force ds as_of =
     bindE (year_windows as_of) (\<lambda>ws.
       Inr (concat (map (\<lambda>s. map (window_task ''juros'' (\<not> force) ds s) ws)
         [(''selic_meta'', 432), (''tr'', 226)])))"

definition sgs_interest_remainder_task :: "bool \<Rightarrow> deps \<Rightarrow> refresh_task" where
  "sgs_interest_remainder_task force ds =
     (let remaining = filter (\<lambda>(_, code). code \<notin> {432, 226}) (config_codes INTEREST_RATES)
      in sgs_task ''sgs_juros_other'' (int (length remaining))
           (fetch_sgs_batch ds
              \<lparr>bq_codes = remaining, bq_start = Some ''01/01/2015'', bq_end = None, bq_cache = \<not> force,
               bq_mark = False, bq_fail_fast = False, bq_timeout = REQUEST_TIMEOUT\<rparr>))"

section \<open>The window loops return\<close>

lemma annual_loop_returns:
  assumes "valid_date c" "valid_date e" "nat (year e - year c) + 2 \<le> n"
  shows "annual_loop n c e \<noteq> None"
  using assms
proof (induction n arbitrary: c)
  case (Suc n)
  let ?w = "min (Date (year c) 12 31) e"
  show ?case
  proof (cases "c \<le> e")
    case True
    then have y: "year c \<le> year e" by (rule year_le)
    show ?thesis
    proof (cases "add_days ?w 1")
      case (Inr c')
      have c': "valid_date c'" using add_days_Inr [OF Inr] by simp
      have "annual_loop n c' e \<noteq> None"
      proof (cases "?w = e")
        case True
        have "e < c'"
          using add_days_Inr [OF Inr] ordinal_less_iff [OF Suc.prems(2) c'] True by simp
        then have "\<not> c' \<le> e" by (simp add: not_le)
        moreover obtain k where "n = Suc k" using Suc.prems(3) by (cases n) auto
        ultimately show ?thesis by simp
      next
        case False
        then have w: "?w = Date (year c) 12 31" and lt: "Date (year c) 12 31 < e"
          by (auto simp: min_def split: if_splits)
        have "year c < year e"
          using lt Suc.prems(2) within_year(2) [OF Suc.prems(2)] y
          by (cases "year c = year e") (auto simp: date_le_alt)
        moreover have "1 \<le> year c" "year e \<le> 9999" using Suc.prems by (simp_all add: valid_date_def)
        ultimately have "c' = Date (year c + 1) 1 1" using Inr w next_year [of "year c"] by simp
        then show ?thesis using Suc.IH [OF c' Suc.prems(2)] Suc.prems(3) \<open>year c < year e\<close> by simp
      qed
      then show ?thesis using True Inr by auto
    qed (use True in simp)
  qed simp
qed simp

lemma sgs_annual_windows_returns: "sgs_annual_windows s e \<noteq> None"
proof -
  have "annual_windows a b \<noteq> None" if "parse_window_date s = Inr a" "parse_window_date e = Inr b" for a b
  proof -
    have "valid_date x" if "parse_window_date t = Inr x" for t x
      using that
      by (auto simp: parse_window_date_def parse_slash_date_def mk_date_Inr dest: date_fromisoformat_valid
          split: sum.splits list.splits option.splits)
    then show ?thesis using that annual_loop_returns [of a b] 
      by (simp add: annual_windows_def annual_fuel_def del: annual_loop.simps)
  qed
  then show ?thesis by (auto simp: sgs_annual_windows_def split: sum.splits)
qed

lemma range_loop_returns:
  assumes "nat (year e - year c) + 2 \<le> n"
  shows "range_loop n c e \<noteq> None"
  using assms
proof (induction n arbitrary: c)
  case (Suc n)
  show ?case
  proof (cases "c < e")
    case True
    then have y: "year c \<le> year e" using year_le by simp
    show ?thesis
    proof (cases "mk_date (year c + MAX_RANGE_YEARS) (month c) (day c)")
      case (Inr d)
      have d: "year d = year c + MAX_RANGE_YEARS" using Inr by (simp add: mk_date_Inr)
      have "range_loop n (min d e) e \<noteq> None"
      proof (cases "d < e")
        case True
        then have "year d \<le> year e" using year_le by simp
        then show ?thesis using True Suc.IH [of d] Suc.prems d by (simp add: MAX_RANGE_YEARS_def min_def less_imp_le)
      next
        case False
        obtain k where "n = Suc k" using Suc.prems by (cases n) auto
        with False show ?thesis by (simp add: min_def)
      qed
      then show ?thesis using True Inr by (auto simp: Let_def)
    qed (use True in simp)
  qed simp
qed simp

lemma make_windows_returns: "make_windows today s e \<noteq> None"
proof (cases s)
  case (Some st)
  have "range_windows a b \<noteq> None" for a b unfolding range_windows_def by (rule range_loop_returns) simp
  with Some show ?thesis
    by (simp add: make_windows_def del: range_loop.simps split: sum.split)
qed (simp add: make_windows_def)

lemma sgs_refresh_windows_returns: "sgs_refresh_windows today s e \<noteq> None"
  unfolding sgs_refresh_windows_def by (rule make_windows_returns)

end
