(* ===== verification/ItemExecution.thy ===== *)
theory ItemExecution
  imports RunTasks
begin

text \<open>
  Executing one work item (\<open>refresh_run_tasks.py\<close>): the freshness marks a window leaves when its series is
  complete, the phase tasks, and the dispatch \<open>execute_refresh_item\<close>. \<open>active\<close> is the installed attempt, which
  fences the writes; the clock readings of one item are the fields of \<open>item_clock\<close>.
\<close>

record item_clock =
  ic_run :: run_clock
  ic_today :: date
  ic_updated :: timestamp
  ic_fence :: timestamp
  ic_reconcile :: timestamp
  ic_mono :: "nat \<Rightarrow> rat"

section \<open>Freshness marks\<close>

definition py_exn :: "py_error \<Rightarrow> exn" where
  "py_exn e = Exn (py_error_name e) IsOther None None None None None None None"

definition run_exn :: "run_error \<Rightarrow> exn" where
  "run_exn e = Exn (run_error_name e) IsOther None None None None None None None"

text \<open>\<open>set_meta\<close> inside a task: the fence's exception is one of the task.\<close>

definition mark :: "attempt_ctx option \<Rightarrow> item_clock \<Rightarrow> string \<Rightarrow> unit action" where
  "mark active ck key d =
     (case set_meta active (ic_fence ck) key (ic_updated ck) d of
        Inl e \<Rightarrow> (Inl (run_exn e), d) | Inr d' \<Rightarrow> (Inr (), d'))"

definition refreshed_key :: "int \<Rightarrow> string" where
  "refreshed_key code = ''sgs_last_refresh_'' @ show_int code"

definition ask_py :: "py_error + 'a \<Rightarrow> 'a action" where
  "ask_py r = (case r of Inl e \<Rightarrow> fail (py_exn e) | Inr x \<Rightarrow> ret x)"

definition has_rows :: "dict \<Rightarrow> string option \<Rightarrow> bool" where
  "has_rows payload name =
     (case name of None \<Rightarrow> False
      | Some k \<Rightarrow> (case map_of payload k of Some (JArr rows) \<Rightarrow> rows \<noteq> [] | _ \<Rightarrow> False))"

definition name_of_code :: "(string \<times> int) list \<Rightarrow> int \<Rightarrow> string option" where
  "name_of_code codes code = map_option fst (find (\<lambda>(_, k). k = code) codes)"

definition others_succeeded :: "string \<Rightarrow> work_item list \<Rightarrow> bool" where
  "others_succeeded task items = list_all (\<lambda>i. wi_task i = task \<or> wi_status i = Succeeded) items"

definition mark_ipca_series_fresh ::
    "attempt_ctx option \<Rightarrow> item_clock \<Rightarrow> string \<Rightarrow> run_snapshot \<Rightarrow> dict \<Rightarrow> unit action" where
  "mark_ipca_series_fresh active ck task snap payload =
     (case split_on CHR ''_'' task of
        [a, b, g, n, _] \<Rightarrow>
          if [a, b, g] \<noteq> [''sgs'', ''ipca'', ''grupos''] then ret ()
          else (case parse_signed n of
            None \<Rightarrow> ret ()
          | Some code \<Rightarrow>
              let name = name_of_code (config_codes IPCA_GROUPS) code;
                  siblings = filter (\<lambda>i. startswith (wi_task i) (''sgs_ipca_grupos_'' @ show_int code @ ''_''))
                               (snap_items snap)
              in if name = None \<or> \<not> others_succeeded task siblings \<or> \<not> has_rows payload name then ret ()
                 else seq (mark active ck (refreshed_key code)) (\<lambda>_. mark active ck ''last_successful_update''))
      | _ \<Rightarrow> ret ())"

definition window_code :: "string \<Rightarrow> string \<Rightarrow> int option" where
  "window_code g task =
     (case split_on CHR ''_'' task of
        [a, b, w # n, _, _] \<Rightarrow> if a = ''sgs'' \<and> b = g \<and> w = CHR ''w'' then parse_signed n else None
      | _ \<Rightarrow> None)"

definition interest_window_code :: "string \<Rightarrow> int option" where
  "interest_window_code task = window_code ''juros'' task"

definition inflation_window_code :: "string \<Rightarrow> int option" where
  "inflation_window_code task =
     (case window_code ''inflacao'' task of
        Some code \<Rightarrow> if code \<in> snd ` set (config_codes INFLATION) then Some code else None
      | None \<Rightarrow> None)"

text \<open>\<open>datetime.fromisoformat(created_at.replace("Z", "+00:00")).date()\<close>\<close>

definition created_date :: "run_snapshot \<Rightarrow> py_error + date" where
  "created_date snap =
     bindE (fromisoformat (zulu_to_offset (rr_created (snap_run snap)))) (\<lambda>dt. Inr (ddate dt))"

definition expected_windows :: "string \<Rightarrow> int list \<Rightarrow> run_snapshot \<Rightarrow> py_error + string list" where
  "expected_windows g codes snap =
     bindE (created_date snap) (\<lambda>cutoff.
     bindE (year_windows cutoff) (\<lambda>ws.
       Inr (concat (map (\<lambda>code. map (\<lambda>w. window_name g code (snd w)) ws) codes))))"

definition mark_inflation_window_fresh ::
    "attempt_ctx option \<Rightarrow> item_clock \<Rightarrow> string \<Rightarrow> run_snapshot \<Rightarrow> dict \<Rightarrow> unit action" where
  "mark_inflation_window_fresh active ck task snap payload =
     (case inflation_window_code task of
        None \<Rightarrow> ret ()
      | Some code \<Rightarrow>
          if rr_version (snap_run snap) \<notin> {''daily-refresh-v5'', ''daily-refresh-v6''}
             \<or> \<not> has_rows payload (name_of_code (config_codes INFLATION) code) then ret ()
          else seq (ask_py (expected_windows ''inflacao'' (map snd (config_codes INFLATION)) snap)) (\<lambda>expected.
            let current = filter (\<lambda>i. startswith (wi_task i) ''sgs_inflacao_w'') (snap_items snap);
                series = filter (\<lambda>i. startswith (wi_task i) (''sgs_inflacao_w'' @ show_int code @ ''_'')) current
            in if wi_task ` set current \<noteq> set expected \<or> \<not> others_succeeded task series then ret ()
               else seq (mark active ck (refreshed_key code)) (\<lambda>_.
                 if others_succeeded task current then mark active ck ''last_successful_update'' else ret ())))"

definition mark_interest_window_fresh ::
    "attempt_ctx option \<Rightarrow> item_clock \<Rightarrow> string \<Rightarrow> run_snapshot \<Rightarrow> dict \<Rightarrow> unit action" where
  "mark_interest_window_fresh active ck task snap payload =
     (case interest_window_code task of
        None \<Rightarrow> ret ()
      | Some code \<Rightarrow>
          if code \<notin> {432, 226} \<or> \<not> has_rows payload (Some (if code = 432 then ''selic_meta'' else ''tr'')) then ret ()
          else seq (ask_py (expected_windows ''juros'' [code] snap)) (\<lambda>expected.
            let siblings = filter (\<lambda>i. startswith (wi_task i) (''sgs_juros_w'' @ show_int code @ ''_'')) (snap_items snap);
                others = filter (\<lambda>i. startswith (wi_task i) ''sgs_juros_w'') (snap_items snap);
                remainder = find (\<lambda>i. wi_task i = ''sgs_juros_other'') (snap_items snap)
            in if wi_task ` set siblings \<noteq> set expected \<or> \<not> others_succeeded task siblings then ret ()
               else seq (mark active ck (refreshed_key code)) (\<lambda>_.
                 if others_succeeded task others
                    \<and> (case remainder of None \<Rightarrow> False | Some i \<Rightarrow> wi_status i = Succeeded)
                 then mark active ck ''last_successful_update'' else ret ())))"

definition mark_interest_remainder_fresh ::
    "attempt_ctx option \<Rightarrow> item_clock \<Rightarrow> run_snapshot \<Rightarrow> dict \<Rightarrow> unit action" where
  "mark_interest_remainder_fresh active ck snap payload =
     (if \<not> (has_rows payload (Some ''selic_efetiva'') \<and> has_rows payload (Some ''cdi'')) then ret ()
      else seq (mark active ck (refreshed_key 11)) (\<lambda>_.
           seq (mark active ck (refreshed_key 12)) (\<lambda>_.
             if list_all (\<lambda>i. wi_status i = Succeeded)
                  (filter (\<lambda>i. startswith (wi_task i) ''sgs_juros_w'') (snap_items snap))
             then mark active ck ''last_successful_update'' else ret ())))"

section \<open>The monolithic IPCA item of the first manifest\<close>

text \<open>\<open>n\<close> counts the readings of the monotonic clock.\<close>

definition timeout_exn :: exn where
  "timeout_exn = Exn ''TimeoutError'' IsTimeout None None None None None None None"

fun legacy_windows ::
    "deps \<Rightarrow> bool \<Rightarrow> (nat \<Rightarrow> rat) \<Rightarrow> rat \<Rightarrow> string \<times> int \<Rightarrow> (string option \<times> string option) list \<Rightarrow> nat
     \<Rightarrow> json list \<Rightarrow> (nat \<times> json list) action" where
  "legacy_windows ds force reading deadline s [] n acc = ret (n, acc)"
| "legacy_windows ds force reading deadline s ((start, stop) # ws) n acc =
     (let remaining = deadline - reading n
      in if remaining \<le> 0 then fail timeout_exn
         else seq (fetch_sgs_batch ds
             \<lparr>bq_codes = [s], bq_start = start, bq_end = stop, bq_cache = \<not> force, bq_mark = False,
              bq_fail_fast = True, bq_timeout = min 5 remaining\<rparr>) (\<lambda>payload.
           case map_of payload (fst s) of
             Some (JArr rows) \<Rightarrow> legacy_windows ds force reading deadline s ws (n + 1) (acc @ rows)
           | _ \<Rightarrow> fail (py_exn TypeError)))"

fun legacy_series ::
    "deps \<Rightarrow> bool \<Rightarrow> (nat \<Rightarrow> rat) \<Rightarrow> rat \<Rightarrow> (string option \<times> string option) list \<Rightarrow> (string \<times> int) list \<Rightarrow> nat
     \<Rightarrow> dict action" where
  "legacy_series ds force reading deadline ws [] n = ret []"
| "legacy_series ds force reading deadline ws (s # ss) n =
     seq (legacy_windows ds force reading deadline s ws n []) (\<lambda>(m, rows).
       if rows = [] then fail RuntimeErr
       else seq (legacy_series ds force reading deadline ws ss m) (\<lambda>rest. ret ((fst s, JArr rows) # rest)))"

fun mark_all :: "attempt_ctx option \<Rightarrow> item_clock \<Rightarrow> string list \<Rightarrow> unit action" where
  "mark_all active ck [] = ret ()"
| "mark_all active ck (k # ks) = seq (mark active ck k) (\<lambda>_. mark_all active ck ks)"

definition run_legacy_ipca_group :: "attempt_ctx option \<Rightarrow> item_clock \<Rightarrow> deps \<Rightarrow> bool \<Rightarrow> dict action" where
  "run_legacy_ipca_group active ck ds force =
     seq (ask_py (returned (sgs_refresh_windows (ic_today ck) None None))) (\<lambda>windows.
     seq (legacy_series ds force (ic_mono ck) (ic_mono ck 0 + 220) windows (config_codes IPCA_GROUPS) 1) (\<lambda>result.
     seq (mark_all active ck
           (map (\<lambda>s. refreshed_key (snd s)) (config_codes IPCA_GROUPS) @ [''last_successful_update''])) (\<lambda>_.
       ret result)))"

section \<open>Phase tasks\<close>

datatype phase_task = INFLATION_TARGET_RULES | DERIVED_SNAPSHOTS | MACRO_SCORE

fun phase_name :: "phase_task \<Rightarrow> string" where
  "phase_name INFLATION_TARGET_RULES = ''inflation_target_rules''"
| "phase_name DERIVED_SNAPSHOTS = ''derived_snapshots''"
| "phase_name MACRO_SCORE = ''macro_score''"

definition phase_names :: "string list" where
  "phase_names = map phase_name [INFLATION_TARGET_RULES, DERIVED_SNAPSHOTS, MACRO_SCORE]"

definition phase_of :: "string \<Rightarrow> phase_task option" where
  "phase_of t = find (\<lambda>p. phase_name p = t) [INFLATION_TARGET_RULES, DERIVED_SNAPSHOTS, MACRO_SCORE]"

definition phase_provider :: "phase_task \<Rightarrow> string" where
  "phase_provider p = (if p = MACRO_SCORE then ''macro_score'' else ''derived'')"

definition phase_expected :: "phase_task \<Rightarrow> int" where
  "phase_expected p = (if p = INFLATION_TARGET_RULES then 11 else 1)"

definition missing_callback :: phase_call where
  "missing_callback = fail (OtherFailure ''RefreshTaskDependencyError'')"

definition phase_callback :: "phase_task \<Rightarrow> deps \<Rightarrow> datetime \<Rightarrow> string \<Rightarrow> phase_call" where
  "phase_callback p ds as_of cycle =
     (case p of
        INFLATION_TARGET_RULES \<Rightarrow> (case observe_rules ds of None \<Rightarrow> missing_callback | Some f \<Rightarrow> f)
      | DERIVED_SNAPSHOTS \<Rightarrow> refresh_derived_snapshots ds as_of cycle
      | MACRO_SCORE \<Rightarrow> (case refresh_macro_score ds of None \<Rightarrow> missing_callback | Some f \<Rightarrow> f as_of cycle))"

definition phase_error :: "phase_failure \<Rightarrow> string" where
  "phase_error e = (case e of DerivedRefreshError _ \<Rightarrow> ''DerivedRefreshError'' | OtherFailure t \<Rightarrow> take 80 t)"

definition phase_count :: "phase_failure + int \<Rightarrow> int" where
  "phase_count r = (case r of Inr n \<Rightarrow> n | Inl (DerivedRefreshError n) \<Rightarrow> n | Inl (OtherFailure _) \<Rightarrow> 0)"

definition task_result :: "string \<Rightarrow> string \<Rightarrow> string option \<Rightarrow> int \<Rightarrow> int \<Rightarrow> int \<Rightarrow> execution" where
  "task_result name status code series records duration =
     \<lparr>te_result = task_result_base name status code, te_series = series, te_records = records,
      te_duration = duration\<rparr>"

definition finish_task ::
    "attempt_ctx option \<Rightarrow> timestamp \<Rightarrow> string \<Rightarrow> string \<Rightarrow> int \<Rightarrow> int \<Rightarrow> string option \<Rightarrow> timestamp \<Rightarrow> unit handler" where
  "finish_task active now name status amount duration code finished =
     execute (record_refresh_task_finish active now
       \<lparr>tf_task = name, tf_status = status, tf_series = amount, tf_records = amount, tf_duration = duration,
        tf_error = code, tf_finished = finished, tf_stamp_success = True\<rparr>)"

definition execute_phase_task ::
    "attempt_ctx option \<Rightarrow> item_clock \<Rightarrow> phase_task \<Rightarrow> deps \<Rightarrow> datetime \<Rightarrow> string \<Rightarrow> execution handler" where
  "execute_phase_task active ck p ds as_of cycle d =
     (let name = phase_name p;
          d1 = record_refresh_task_start name (phase_provider p) (phase_expected p) (ck_started (ic_run ck)) d;
          (r, d2) = phase_callback p ds as_of cycle d1;
          amount = phase_count r;
          status = (case r of Inl _ \<Rightarrow> ''error'' | Inr _ \<Rightarrow> ''ok'');
          code = (case r of Inl e \<Rightarrow> Some (phase_error e) | Inr _ \<Rightarrow> None);
          duration = ck_duration (ic_run ck)
      in seq (finish_task active (ck_finished (ic_run ck)) name status amount duration code (ck_finished (ic_run ck)))
           (\<lambda>_. ret (task_result name status code amount amount duration)) d2)"

definition record_failed_task ::
    "attempt_ctx option \<Rightarrow> item_clock \<Rightarrow> string \<Rightarrow> string \<Rightarrow> int \<Rightarrow> string \<Rightarrow> timestamp \<Rightarrow> execution handler" where
  "record_failed_task active ck name provider expected code now =
     seq (modify (record_refresh_task_start name provider expected now)) (\<lambda>_.
     seq (finish_task active (ic_fence ck) name ''error'' 0 0 (Some code) now) (\<lambda>_.
       ret (task_result name ''error'' (Some code) 0 0 0)))"

definition record_skipped_phase_task ::
    "attempt_ctx option \<Rightarrow> item_clock \<Rightarrow> phase_task \<Rightarrow> timestamp \<Rightarrow> execution handler" where
  "record_skipped_phase_task active ck p now =
     record_failed_task active ck (phase_name p) (phase_provider p) (phase_expected p) ''NoSuccessfulSourceTasks'' now"

end
