(* ===== verification/ItemDispatch.thy ===== *)
theory ItemDispatch
  imports ItemExecution
begin

text \<open>
  \<open>execute_refresh_item\<close> of \<open>refresh_run_tasks.py\<close>: a planned SGS unit, a source task, a retired task or a
  phase task. \<open>c\<close> is the codec of stored plans and \<open>str_of\<close> prints a payload value that is not text.
\<close>

definition lease_expiry :: "datetime \<Rightarrow> py_error + string" where
  "lease_expiry now = bindE (add_seconds now 1800) (\<lambda>t. Inr (isoformat t))"

section \<open>Planned SGS units\<close>

definition sgs_semantic_contract_conflict :: "sgs_unit \<Rightarrow> bool" where
  "sgs_semantic_contract_conflict u \<longleftrightarrow>
     u_code u = 1207 \<and> u_contract_version u \<noteq> SGS_PIB_SCHEMA_VERSION"

definition reconciled_execution :: "string \<Rightarrow> execution" where
  "reconciled_execution task =
     \<lparr>te_result = [(''name'', JStr task), (''status'', JStr ''success''), (''reconciled'', JBool True)],
      te_series = 0, te_records = 0, te_duration = 0\<rparr>"

text \<open>
  \<open>next(iter(records.values()), ())\<close> of a mapping; the empty tuple, which is neither a list nor a
  dictionary, is \<open>JNull\<close>.
\<close>

definition planned_records :: "fetched \<Rightarrow> json" where
  "planned_records f =
     (case fetched_value f of
        JObj [] \<Rightarrow> JNull
      | JObj ((_, v) # _) \<Rightarrow> v
      | v \<Rightarrow> v)"

definition run_planned_sgs :: "deps \<Rightarrow> sgs_unit \<Rightarrow> dict action" where
  "run_planned_sgs ds u =
     seq (fetch_sgs_window ds
         \<lparr>wq_code = u_code u, wq_start = format_date (u_start u), wq_end = format_date (u_end u),
          wq_cache = (u_role u = Recent), wq_fail_fast = True, wq_timeout = 20\<rparr>)
       (\<lambda>f. ret [(u_key u, planned_records f)])"

text \<open>\<open>binding is not None and reconcile_sgs_unit_commit(binding) is not None\<close>\<close>

definition already_committed :: "codec \<Rightarrow> attempt_ctx option \<Rightarrow> item_clock \<Rightarrow> sgs_unit \<Rightarrow> bool handler" where
  "already_committed c active ck u =
     seq (ask (current_sgs_plan_binding c active (u_code u) (u_start u) (u_end u))) (\<lambda>b.
       case b of
         None \<Rightarrow> ret False
       | Some binding \<Rightarrow> (\<lambda>d.
           case reconcile_sgs_unit_commit binding (ic_reconcile ck) d of
             Inl e \<Rightarrow> (Inl (PyFail e), d)
           | Inr (k, d') \<Rightarrow> (Inr (k \<noteq> None), d')))"

definition run_source_task ::
    "(json \<Rightarrow> string) \<Rightarrow> attempt_ctx option \<Rightarrow> item_clock \<Rightarrow> refresh_task \<Rightarrow> execution handler" where
  "run_source_task str_of active ck task =
     lift_action (run_refresh_task_detailed str_of active (ic_run ck) task)"

definition execute_sgs_unit ::
    "codec \<Rightarrow> (json \<Rightarrow> string) \<Rightarrow> attempt_ctx option \<Rightarrow> item_clock \<Rightarrow> string \<Rightarrow> run_snapshot \<Rightarrow> deps \<Rightarrow> datetime
     \<Rightarrow> execution handler" where
  "execute_sgs_unit c str_of active ck task snap ds now =
     seq (ask (sgs_plan_unit_for_task c (rr_id (snap_run snap)) task)) (\<lambda>found.
       case found of
         None \<Rightarrow> fail (Rejected (Persistence (rr_id (snap_run snap))))
       | Some u \<Rightarrow>
           if sgs_semantic_contract_conflict u
           then record_failed_task active ck task ''bcb_sgs'' 1 ''SGSSemanticContractConflict'' (isoformat now)
           else seq (already_committed c active ck u) (\<lambda>reconciled.
             if reconciled then ret (reconciled_execution task)
             else (case find (\<lambda>t. rt_name t \<in> {''sgs_juros'', ''sgs_inflacao'', ''sgs_atividade''})
                          (refresh_tasks (rr_force (snap_run snap)) ds) of
                 None \<Rightarrow> fail (PyFail RuntimeError)
               | Some template \<Rightarrow>
                   run_source_task str_of active ck (template\<lparr>rt_name := task, rt_run := run_planned_sgs ds u\<rparr>))))"

section \<open>Source tasks\<close>

text \<open>\<open>{task.name: task for task in source_task_list}\<close>: of two tasks of one name the last counts.\<close>

definition source_task_list :: "item_clock \<Rightarrow> run_snapshot \<Rightarrow> deps \<Rightarrow> py_error + refresh_task list" where
  "source_task_list ck snap ds =
     (let force = rr_force (snap_run snap); version = rr_version (snap_run snap)
      in bindE (ipca_group_window_tasks (ic_today ck) force ds) (\<lambda>ipca.
         bindE (if version \<in> {''daily-refresh-v5'', ''daily-refresh-v6''}
                then bindE (created_date snap) (sgs_inflation_window_tasks force ds) else Inr []) (\<lambda>inflation.
         bindE (if version \<in> {''daily-refresh-v4'', ''daily-refresh-v5'', ''daily-refresh-v6''}
                then bindE (created_date snap) (\<lambda>cutoff.
                  bindE (sgs_interest_window_tasks force ds cutoff) (\<lambda>ts.
                    Inr (ts @ [sgs_interest_remainder_task force ds]))) else Inr []) (\<lambda>interest.
           Inr (refresh_tasks force ds @ ipca @ inflation @ interest)))))"

definition source_task :: "string \<Rightarrow> refresh_task list \<Rightarrow> refresh_task option" where
  "source_task name tasks = find (\<lambda>t. rt_name t = name) (rev tasks)"

text \<open>The payload of a task, marked before the task boundary counts it.\<close>

definition marking :: "(dict \<Rightarrow> unit action) \<Rightarrow> refresh_task \<Rightarrow> refresh_task" where
  "marking m task = task\<lparr>rt_run := seq (rt_run task) (\<lambda>payload. seq (m payload) (\<lambda>_. ret payload))\<rparr>"

definition bounded_task ::
    "attempt_ctx option \<Rightarrow> item_clock \<Rightarrow> string \<Rightarrow> run_snapshot \<Rightarrow> deps \<Rightarrow> refresh_task \<Rightarrow> refresh_task" where
  "bounded_task active ck name snap ds task =
     (if name = ''sgs_ipca_grupos'' \<and> rr_version (snap_run snap) = ''daily-refresh-v1''
      then task\<lparr>rt_run := run_legacy_ipca_group active ck ds (rr_force (snap_run snap))\<rparr>
      else if startswith name ''sgs_ipca_grupos_'' \<and> name \<noteq> ''sgs_ipca_grupos''
      then marking (mark_ipca_series_fresh active ck name snap) task
      else if inflation_window_code name \<noteq> None
      then marking (mark_inflation_window_fresh active ck name snap) task
      else if interest_window_code name \<noteq> None
      then marking (mark_interest_window_fresh active ck name snap) task
      else if name = ''sgs_juros_other''
      then marking (mark_interest_remainder_fresh active ck snap) task
      else task)"

section \<open>Phases\<close>

definition cutoff_request :: "run_snapshot \<Rightarrow> cutoff_phase \<Rightarrow> string \<Rightarrow> string \<Rightarrow> string \<Rightarrow> cutoff_update" where
  "cutoff_request snap p cutoff now expires =
     \<lparr>cu_run = rr_id (snap_run snap), cu_phase = p, cu_cutoff = cutoff, cu_now = now, cu_lease = expires\<rparr>"

text \<open>The information cutoff a phase works with; those of the two computing phases are persisted first.\<close>

definition phase_cutoff :: "phase_task \<Rightarrow> run_snapshot \<Rightarrow> datetime \<Rightarrow> datetime handler" where
  "phase_cutoff p snap now =
     (let persist = (\<lambda>phase cutoff.
            seq (ask (\<lambda>_. lift (lease_expiry now))) (\<lambda>expires.
            seq (transact (persist_run_cutoff (cutoff_request snap phase cutoff (isoformat now) expires))) (\<lambda>persisted.
              ask (\<lambda>_. lift (fromisoformat persisted)))))
      in case p of
           INFLATION_TARGET_RULES \<Rightarrow> ret now
         | DERIVED_SNAPSHOTS \<Rightarrow> persist PhaseDerived (isoformat now)
         | MACRO_SCORE \<Rightarrow>
             (case rr_derived_cutoff (snap_run snap) of
                None \<Rightarrow> fail (Rejected (Persistence (rr_id (snap_run snap))))
              | Some derived \<Rightarrow> persist PhaseMacroScore derived))"

definition execute_phase_item ::
    "attempt_ctx option \<Rightarrow> item_clock \<Rightarrow> string \<Rightarrow> run_snapshot \<Rightarrow> deps \<Rightarrow> datetime \<Rightarrow> execution handler" where
  "execute_phase_item active ck task snap ds now =
     (case phase_of task of
        None \<Rightarrow> fail (PyFail ValueError)
      | Some p \<Rightarrow>
          (let sources = filter (\<lambda>i. wi_task i \<notin> set phase_names) (snap_items snap)
           in if sources \<noteq> [] \<and> list_all (\<lambda>i. wi_status i = Failed) sources
              then record_skipped_phase_task active ck p (isoformat now)
              else seq (phase_cutoff p snap now) (\<lambda>cutoff.
                execute_phase_task active ck p ds cutoff (rr_cycle (snap_run snap)))))"

section \<open>The dispatch\<close>

definition retired_execution :: execution where
  "retired_execution = task_result ''polymarket'' ''error'' (Some ''retired_source'') 0 0 0"

definition execute_refresh_item ::
    "codec \<Rightarrow> (json \<Rightarrow> string) \<Rightarrow> attempt_ctx option \<Rightarrow> item_clock \<Rightarrow> string \<Rightarrow> run_snapshot \<Rightarrow> deps \<Rightarrow> datetime
     \<Rightarrow> execution handler" where
  "execute_refresh_item c str_of active ck task snap ds now =
     (if rr_version (snap_run snap) = ''daily-refresh-v6'' \<and> startswith task ''sgs_plan_''
      then execute_sgs_unit c str_of active ck task snap ds now
      else seq (ask (\<lambda>_. lift (source_task_list ck snap ds))) (\<lambda>tasks.
        case source_task task tasks of
          Some t \<Rightarrow> run_source_task str_of active ck (bounded_task active ck task snap ds t)
        | None \<Rightarrow>
            if task = ''polymarket'' \<and> rr_version (snap_run snap) \<in> {''daily-refresh-v1'', ''daily-refresh-v2''}
            then ret retired_execution
            else execute_phase_item active ck task snap ds now))"

end
