(* ===== verification/RunExecution.thy ===== *)
theory RunExecution
  imports ItemDispatch Engine
begin

text \<open>
  The operations behind the API of a refresh run (\<open>refresh_run_execution.py\<close>, \<open>refresh_run_state.py\<close>):
  building the manifest, starting, resuming, advancing by one item and finalizing. Each is a handler: a
  sequence of engine transactions. The dependencies see the installed attempt, hence the argument.
\<close>

section \<open>Reading and resuming (\<open>refresh_run_state.py\<close>)\<close>

definition get_refresh_run :: "run_id \<Rightarrow> run_snapshot handler" where
  "get_refresh_run r =
     ask (\<lambda>d. case read_snapshot d r of None \<Rightarrow> Inl (Rejected (NotFound r)) | Some s \<Rightarrow> Inr s)"

definition stored_specs :: "run_snapshot \<Rightarrow> work_item_spec list" where
  "stored_specs snap = map spec_of_item (snap_items snap)"

definition resume_start :: "run_snapshot \<Rightarrow> datetime \<Rightarrow> string \<Rightarrow> sgs_plan option \<Rightarrow> run_start" where
  "resume_start snap now expires plan =
     (let run = snap_run snap
      in \<lparr>st_run = rr_id run, st_cycle = rr_cycle run, st_force = rr_force run, st_version = rr_version run,
          st_derived = rr_derived_cutoff run, st_macro = rr_macro_cutoff run, st_items = stored_specs snap,
          st_now = isoformat now, st_expires = expires, st_plan = plan\<rparr>)"

definition resume_refresh_run :: "codec \<Rightarrow> run_snapshot \<Rightarrow> datetime \<Rightarrow> run_snapshot handler" where
  "resume_refresh_run c snap now =
     seq (ask (\<lambda>_. lift (lease_expiry now))) (\<lambda>expires.
     seq (if rr_version (snap_run snap) = ''daily-refresh-v6'' then ask (read_sgs_plan c (rr_id (snap_run snap)))
          else ret None) (\<lambda>plan.
       transact (create_or_resume_run c (resume_start snap now expires plan))))"

section \<open>The manifest\<close>

definition spec_list :: "string list \<Rightarrow> work_item_spec list" where
  "spec_list names =
     map (\<lambda>(order, name). \<lparr>spec_key = name, spec_task = name, spec_order = int order\<rparr>) (enumerate 0 names)"

definition phase_items :: "deps \<Rightarrow> string list" where
  "phase_items ds =
     (if observe_rules ds \<noteq> None then [phase_name INFLATION_TARGET_RULES] else [])
     @ [phase_name DERIVED_SNAPSHOTS]
     @ (if refresh_macro_score ds \<noteq> None then [phase_name MACRO_SCORE] else [])"

definition legacy_names ::
    "bool \<Rightarrow> deps \<Rightarrow> string \<Rightarrow> date \<Rightarrow> date \<Rightarrow> refresh_task \<Rightarrow> py_error + string list" where
  "legacy_names force ds version cutoff today task =
     bindE
       (if version \<in> {''daily-refresh-v5'', ''daily-refresh-v4'', ''daily-refresh-v3''} \<and> rt_name task = ''sgs_ipca_grupos''
        then bindE (ipca_group_window_tasks today force ds) (\<lambda>ts. Inr (map rt_name ts))
        else if version = ''daily-refresh-v5'' \<and> rt_name task = ''sgs_inflacao''
        then bindE (sgs_inflation_window_tasks force ds cutoff) (\<lambda>ts. Inr (map rt_name ts))
        else if version \<in> {''daily-refresh-v5'', ''daily-refresh-v4''} \<and> rt_name task = ''sgs_juros''
        then bindE (sgs_interest_window_tasks force ds cutoff) (\<lambda>ts. Inr (map rt_name ts @ [''sgs_juros_other'']))
        else Inr [rt_name task])
       (\<lambda>names. Inr (names @
          (if rt_name task = ''b3_di'' \<and> version \<in> {''daily-refresh-v1'', ''daily-refresh-v2''}
           then [''polymarket''] else [])))"

definition run_manifest ::
    "codec \<Rightarrow> bool \<Rightarrow> deps \<Rightarrow> string \<Rightarrow> date \<Rightarrow> date \<Rightarrow> sgs_plan option \<Rightarrow> db \<Rightarrow> plan_error + work_item_spec list" where
  "run_manifest c force ds version cutoff today plan d =
     (let tasks = refresh_tasks force ds
      in if version \<notin> set SUPPORTED_REFRESH_MANIFEST_VERSIONS then Inl (PyFail ValueError)
         else if version = CURRENT_REFRESH_MANIFEST_VERSION then
           bindE (case plan of Some p \<Rightarrow> Inr p
                  | None \<Rightarrow> build_next_sgs_plan c cutoff (int MAX_ARCHIVE_UNITS_PER_RUN) d) (\<lambda>p.
             Inr (spec_list (map plan_item_task_name (p_units p)
               @ map rt_name (filter (\<lambda>t. rt_provider t \<noteq> ''bcb_sgs'') tasks) @ phase_items ds)))
         else bindE (lift (traverse (legacy_names force ds version cutoff today) tasks)) (\<lambda>names.
             Inr (spec_list (concat names @ phase_items ds))))"

section \<open>Starting\<close>

record start_request =
  sq_run :: run_id
  sq_cycle :: cycle_id
  sq_force :: bool

definition start_refresh_run :: "codec \<Rightarrow> start_request \<Rightarrow> deps \<Rightarrow> datetime \<Rightarrow> run_snapshot handler" where
  "start_refresh_run c req ds now =
     seq (ask (\<lambda>d. case read_snapshot d (sq_run req) of
         None \<Rightarrow>
           bindE (build_next_sgs_plan c (ddate now) (int MAX_ARCHIVE_UNITS_PER_RUN) d) (\<lambda>p.
           bindE (run_manifest c (sq_force req) ds CURRENT_REFRESH_MANIFEST_VERSION (ddate now) (ddate now) (Some p) d)
             (\<lambda>items. Inr (CURRENT_REFRESH_MANIFEST_VERSION, Some p, items)))
       | Some existing \<Rightarrow>
           (let version = rr_version (snap_run existing)
            in bindE (if version = CURRENT_REFRESH_MANIFEST_VERSION
                      then bindE (read_sgs_plan c (sq_run req) d) (\<lambda>p.
                        if p = None then Inl (Rejected (Persistence (sq_run req))) else Inr p)
                      else Inr None)
                 (\<lambda>plan. Inr (version, plan, stored_specs existing))))) (\<lambda>(version, plan, items).
     seq (ask (\<lambda>_. lift (lease_expiry now))) (\<lambda>expires.
       transact (create_or_resume_run c
         \<lparr>st_run = sq_run req, st_cycle = sq_cycle req, st_force = sq_force req, st_version = version,
          st_derived = None, st_macro = None, st_items = items, st_now = isoformat now, st_expires = expires,
          st_plan = plan\<rparr>)))"

section \<open>Completing and finalizing\<close>

definition result_text :: "execution \<Rightarrow> string \<Rightarrow> string option" where
  "result_text x key = text_of (map_of (te_result x) key)"

text \<open>\<open>assert_never\<close> raises an \<open>AssertionError\<close>; no execution of the model reaches it.\<close>

definition completion_outcome :: "execution \<Rightarrow> plan_error + item_outcome" where
  "completion_outcome x =
     (case map_of (te_result x) ''error_code'' of
        None \<Rightarrow> Inl (PyFail KeyError)
      | Some code \<Rightarrow>
          if code \<in> {JStr ''NoSuccessfulSourceTasks'', JStr ''retired_source''} then Inr OutSkipped
          else (case map_of (te_result x) ''status'' of
             None \<Rightarrow> Inl (PyFail KeyError)
           | Some s \<Rightarrow>
               if s = JStr ''ok'' then Inr OutSucceeded
               else if s = JStr ''partial'' then Inr OutPartial
               else if s = JStr ''error'' then Inr OutFailed
               else Inl (PyFail RuntimeError)))"

definition item_completion :: "run_snapshot \<Rightarrow> work_item \<Rightarrow> execution \<Rightarrow> datetime \<Rightarrow> plan_error + completion" where
  "item_completion snap claim x now =
     bindE (completion_outcome x) (\<lambda>outcome.
     case wi_token claim of
       None \<Rightarrow> Inl (Rejected (Persistence (rr_id (snap_run snap))))
     | Some token \<Rightarrow> Inr
         \<lparr>co_run = rr_id (snap_run snap), co_key = wi_key claim, co_token = token, co_status = outcome,
          co_finished = isoformat now, co_series = te_series x, co_records = te_records x,
          co_error = result_text x ''error_code'', co_category = result_text x ''error_category''\<rparr>)"

definition final_state_of :: "work_item list \<Rightarrow> final_state" where
  "final_state_of items =
     (if list_all (\<lambda>i. wi_status i = Succeeded) items then FinalSucceeded
      else if list_all (\<lambda>i. wi_status i \<in> {Failed, Skipped}) items then FinalFailed
      else FinalPartial)"

text \<open>The status an item is reported with; an item that is neither resolved nor deferred is left out.\<close>

definition reported_status :: "work_item \<Rightarrow> string option" where
  "reported_status i =
     (case wi_status i of
        Succeeded \<Rightarrow> Some ''ok''
      | Partial \<Rightarrow> Some ''partial''
      | Failed \<Rightarrow> Some ''error''
      | Skipped \<Rightarrow> Some ''skipped''
      | Pending \<Rightarrow> if wi_deferral i \<noteq> None then Some ''partial'' else None
      | Claimed \<Rightarrow> None)"

definition item_report :: "work_item \<Rightarrow> string \<Rightarrow> json" where
  "item_report i status =
     json_obj
       ([(''name'', JStr (wi_task i)), (''status'', JStr status), (''error_code'', json_opt (wi_error i))]
        @ (if wi_status i = Failed
           then [(''error_category'', json_opt (wi_last_category i)), (''last_error_code'', json_opt (wi_last_code i))]
           else [])
        @ (if wi_status i = Pending \<and> wi_deferral i \<noteq> None
           then [(''acquisition_status'', JStr ''deferred''), (''retry_not_before'', json_opt (wi_next_at i)),
                 (''deferral_reason'', json_opt (wi_deferral i)), (''error_category'', json_opt (wi_last_category i)),
                 (''last_error_code'', json_opt (wi_last_code i))]
           else []))"

definition reports :: "work_item list \<Rightarrow> (work_item \<times> string) list" where
  "reports items = List.map_filter (\<lambda>i. map_option (\<lambda>s. (i, s)) (reported_status i)) items"

definition overall_status :: "string list \<Rightarrow> string" where
  "overall_status statuses =
     (if list_all (\<lambda>s. s = ''ok'') statuses then ''ok''
      else if list_ex (\<lambda>s. s \<in> {''ok'', ''partial''}) statuses then ''partial''
      else ''error'')"

definition final_result_json :: "work_item list \<Rightarrow> json" where
  "final_result_json items =
     json_obj [(''status'', JStr (overall_status (map snd (reports items)))),
               (''tasks'', JArr (map (\<lambda>(i, s). item_report i s) (reports items)))]"

definition final_request :: "codec \<Rightarrow> run_snapshot \<Rightarrow> datetime \<Rightarrow> finalization" where
  "final_request c snap now =
     \<lparr>fi_run = rr_id (snap_run snap), fi_state = final_state_of (snap_items snap),
      fi_result = dumps c (final_result_json (snap_items snap)), fi_finished = isoformat now,
      fi_last_success =
        (if list_ex (\<lambda>i. wi_status i \<in> {Succeeded, Partial}) (snap_items snap) then Some (isoformat now) else None)\<rparr>"

definition finalize_if_resolved :: "codec \<Rightarrow> run_snapshot \<Rightarrow> datetime \<Rightarrow> run_snapshot handler" where
  "finalize_if_resolved c snap now =
     (if rr_state (snap_run snap) \<noteq> RunRunning then ret snap
      else seq (resume_refresh_run c snap now) (\<lambda>resumed.
        if rr_state (snap_run resumed) \<noteq> RunRunning then ret resumed
        else seq (transact (finalize_and_release_run (final_request c resumed now))) (\<lambda>finalized.
          get_refresh_run (rr_id (snap_run resumed)))))"

definition finalize_refresh_run :: "codec \<Rightarrow> run_id \<Rightarrow> datetime \<Rightarrow> run_snapshot handler" where
  "finalize_refresh_run c r now = seq (get_refresh_run r) (\<lambda>snap. finalize_if_resolved c snap now)"

section \<open>Advancing\<close>

record advance_request =
  aq_run :: run_id
  aq_expected :: item_key

record advance_clock =
  vc_now :: datetime
  vc_token :: claim_token
  vc_attempt :: string
  vc_started :: timestamp
  vc_item :: item_clock
  vc_returned :: timestamp
  vc_finished :: timestamp
  vc_interrupted :: timestamp
  vc_abandoned :: timestamp
  vc_done :: datetime
  vc_final :: datetime

definition resolved_item :: "run_snapshot \<Rightarrow> work_item \<Rightarrow> bool" where
  "resolved_item snap i =
     (case wi_status i of
        Succeeded \<Rightarrow> True
      | Partial \<Rightarrow> True
      | Failed \<Rightarrow>
          if rr_version (snap_run snap) \<noteq> CURRENT_REFRESH_MANIFEST_VERSION then MAX_WORK_ITEM_ATTEMPTS \<le> wi_attempt i
          else failed_work_item_is_resolved (Some (wi_task i)) (wi_last_category i) (wi_acquisitions i)
                 (wi_attempt i) MAX_WORK_ITEM_ATTEMPTS
      | Skipped \<Rightarrow> True
      | Pending \<Rightarrow> False
      | Claimed \<Rightarrow> False)"

text \<open>The \<open>try\<close> block of an attempt: an interruption is recorded with an unknown outcome and raised again.\<close>

definition attempt_item ::
    "codec \<Rightarrow> (json \<Rightarrow> string) \<Rightarrow> attempt_ctx \<Rightarrow> advance_clock \<Rightarrow> work_item \<Rightarrow> run_snapshot \<Rightarrow> deps \<Rightarrow> execution handler" where
  "attempt_item c str_of ctx ck claim snap ds d =
     (case seq (modify (record_refresh_attempt_milestone (ac_id ctx) ''task_execution_started'' ''observed'' None
                   (vc_started ck))) (\<lambda>_.
           seq (execute_refresh_item c str_of (Some ctx) (vc_item ck) (wi_task claim) snap ds (vc_now ck)) (\<lambda>x.
           seq (modify (record_refresh_attempt_milestone (ac_id ctx) ''task_execution_returned'' ''observed'' None
                   (vc_returned ck))) (\<lambda>_.
           seq (modify (finish_refresh_attempt (ac_id ctx) ''completed'' (result_text x ''error_code'')
                   (Some (te_records x)) None (vc_finished ck))) (\<lambda>_. ret x)))) d of
        (Inr x, d') \<Rightarrow> (Inr x, d')
      | (Inl e, d') \<Rightarrow>
          (Inl e, finish_refresh_attempt (ac_id ctx) ''outcome_unknown'' (Some (take 80 (error_name e))) None None
             (vc_abandoned ck)
             (record_refresh_attempt_milestone (ac_id ctx) ''interrupted'' ''outcome_unknown''
                (Some (take 80 (error_name e))) (vc_interrupted ck) d')))"

text \<open>What the execution says about a deferral; an exhausted retry budget takes the publisher's stored advice.\<close>

definition deferral_advice :: "work_item \<Rightarrow> execution \<Rightarrow> db \<Rightarrow> string option \<times> string option" where
  "deferral_advice claim x d =
     (let code = result_text x ''error_code''; retry = result_text x ''retry_not_before''
      in if code = Some ''RetryBudgetExceeded'' \<and> retry = None
         then (case source_scope_for_task (wi_task claim) of
                 None \<Rightarrow> (code, retry)
               | Some scope \<Rightarrow> (case db_access d scope of
                   None \<Rightarrow> (code, retry)
                 | Some row \<Rightarrow> (case ar_retry row of None \<Rightarrow> (code, retry) | Some t \<Rightarrow> (Some ''RetryDeferred'', Some t))))
         else (code, retry))"

definition complete_and_finalize ::
    "codec \<Rightarrow> advance_clock \<Rightarrow> run_id \<Rightarrow> run_snapshot \<Rightarrow> work_item \<Rightarrow> execution \<Rightarrow> run_snapshot handler" where
  "complete_and_finalize c ck r snap claim x =
     seq (ask (\<lambda>_. item_completion snap claim x (vc_done ck))) (\<lambda>req.
     seq (transact (complete_work_item_claim req)) (\<lambda>completed.
       if completed then seq (get_refresh_run r) (\<lambda>updated. finalize_if_resolved c updated (vc_final ck))
       else get_refresh_run r))"

definition settle_item ::
    "codec \<Rightarrow> advance_clock \<Rightarrow> run_id \<Rightarrow> run_snapshot \<Rightarrow> work_item \<Rightarrow> execution \<Rightarrow> run_snapshot handler" where
  "settle_item c ck r snap claim x =
     seq (ask (\<lambda>d. Inr (deferral_advice claim x d))) (\<lambda>(code, retry).
       case (code, retry) of
         (Some e, Some t) \<Rightarrow>
           if e \<in> {''CircuitOpen'', ''RetryDeferred''} then
             seq (transact (defer_work_item_claim
               \<lparr>de_run = r, de_key = wi_key claim, de_token = str_opt (wi_token claim), de_next_at = t,
                de_reason = (if e = ''CircuitOpen'' then ''publisher_cooldown'' else ''retry_after''),
                de_now = isoformat (vc_done ck), de_category = result_text x ''error_category'',
                de_code = result_text x ''error_code''\<rparr>)) (\<lambda>_. get_refresh_run r)
           else complete_and_finalize c ck r snap claim x
       | _ \<Rightarrow> complete_and_finalize c ck r snap claim x)"

definition claim_and_run ::
    "codec \<Rightarrow> (json \<Rightarrow> string) \<Rightarrow> advance_clock \<Rightarrow> advance_request \<Rightarrow> (attempt_ctx \<Rightarrow> deps) \<Rightarrow> run_snapshot
     \<Rightarrow> run_snapshot handler" where
  "claim_and_run c str_of ck req ds snap =
     seq (ask (\<lambda>_. lift (add_seconds (vc_now ck) 600))) (\<lambda>expiry.
     seq (transact (claim_next_work_item
           \<lparr>cr_run = aq_run req, cr_now = isoformat (vc_now ck), cr_expires = isoformat expiry,
            cr_expected = Some (aq_expected req)\<rparr> (vc_token ck))) (\<lambda>claimed.
     case claimed of
       None \<Rightarrow> get_refresh_run (aq_run req)
     | Some claim \<Rightarrow>
         (let ctx = new_refresh_attempt (vc_attempt ck) claim
          in seq (execute (record_refresh_attempt_started ctx (isoformat (vc_now ck)))) (\<lambda>_.
             seq (attempt_item c str_of ctx ck claim snap (ds ctx)) (\<lambda>x.
               settle_item c ck (aq_run req) snap claim x)))))"

definition advance_refresh_run ::
    "codec \<Rightarrow> (json \<Rightarrow> string) \<Rightarrow> advance_clock \<Rightarrow> advance_request \<Rightarrow> (attempt_ctx \<Rightarrow> deps) \<Rightarrow> run_snapshot handler" where
  "advance_refresh_run c str_of ck req ds =
     seq (modify (\<lambda>d. snd (reconcile_expired_refresh_attempts (aq_run req) (isoformat (vc_now ck)) d))) (\<lambda>_.
     seq (get_refresh_run (aq_run req)) (\<lambda>stored.
     seq (resume_refresh_run c stored (vc_now ck)) (\<lambda>snap.
       if rr_state (snap_run snap) \<noteq> RunRunning then ret snap
       else case find (\<lambda>i. wi_key i = aq_expected req) (snap_items snap) of
         None \<Rightarrow> fail (Rejected (NotFound (aq_run req)))
       | Some expected \<Rightarrow>
           if resolved_item snap expected then finalize_if_resolved c snap (vc_now ck)
           else claim_and_run c str_of ck req ds snap)))"

end
