(* ===== verification/ExecutionSim.thy ===== *)
theory ExecutionSim
  imports RunExecution EngineGrowth
begin

text \<open>
  Handlers as runs of the engine. \<open>sim c t0 t1 P h Q\<close> says: from a state that satisfies the engine's
  invariant and \<open>P\<close>, last seen no later than \<open>t0\<close>, whatever \<open>h\<close> does is a sequence of engine steps seen no
  later than \<open>t1\<close>, whether it returns or raises; and \<open>Q\<close> holds of what it returns.
\<close>

lemma reaches_trans: "reaches step t u \<Longrightarrow> reaches step s t \<Longrightarrow> reaches step s u"
  by (induction rule: reaches.induct) (auto intro: reaches.further)

lemma reaches_one: "step s op t \<Longrightarrow> reaches step s t"
  using reaches.here reaches.further by metis

definition sim ::
    "codec \<Rightarrow> timestamp \<Rightarrow> timestamp \<Rightarrow> (db \<Rightarrow> bool) \<Rightarrow> (db \<Rightarrow> ('e + 'a) \<times> db) \<Rightarrow> ('a \<Rightarrow> db \<Rightarrow> bool) \<Rightarrow> bool" where
  "sim c t0 t1 P h Q \<longleftrightarrow> (\<forall>seen d. seen \<le> t0 \<longrightarrow> engine_inv (seen, d) \<longrightarrow> P d \<longrightarrow>
     (\<exists>seen'. seen' \<le> t1 \<and> reaches (engine_step c) (seen, d) (seen', snd (h d))
        \<and> (\<forall>x. fst (h d) = Inr x \<longrightarrow> Q x (snd (h d)))))"

abbreviation anything :: "'a \<Rightarrow> db \<Rightarrow> bool" where
  "anything x d \<equiv> True"

lemma simI:
  "(\<And>seen d. seen \<le> t0 \<Longrightarrow> engine_inv (seen, d) \<Longrightarrow> P d \<Longrightarrow>
     \<exists>seen'. seen' \<le> t1 \<and> reaches (engine_step c) (seen, d) (seen', snd (h d))
        \<and> (\<forall>x. fst (h d) = Inr x \<longrightarrow> Q x (snd (h d)))) \<Longrightarrow> sim c t0 t1 P h Q"
  by (simp add: sim_def)

lemma simD:
  assumes "sim c t0 t1 P h Q" "seen \<le> t0" "engine_inv (seen, d)" "P d"
  obtains seen' where "seen' \<le> t1" "reaches (engine_step c) (seen, d) (seen', snd (h d))"
    "engine_inv (seen', snd (h d))" "\<And>x. fst (h d) = Inr x \<Longrightarrow> Q x (snd (h d))"
proof -
  from assms obtain seen' where s: "seen' \<le> t1" "reaches (engine_step c) (seen, d) (seen', snd (h d))"
    "\<And>x. fst (h d) = Inr x \<Longrightarrow> Q x (snd (h d))" unfolding sim_def by blast
  from engine.reaches_inv [OF s(2) assms(3)] s that show thesis by blast
qed

lemma sim_weaken:
  assumes "sim c t0 t1 P h Q" "t0' \<le> t0" "t1 \<le> t1'" "\<And>d. P' d \<Longrightarrow> P d" "\<And>x d. Q x d \<Longrightarrow> Q' x d"
  shows "sim c t0' t1' P' h Q'"
proof (rule simI)
  fix seen d assume "seen \<le> t0'" "engine_inv (seen, d)" "P' d"
  with assms(2,4) have "seen \<le> t0" "P d" by auto
  from simD [OF assms(1) this(1) \<open>engine_inv (seen, d)\<close> this(2)] obtain seen' where
    "seen' \<le> t1" "reaches (engine_step c) (seen, d) (seen', snd (h d))"
    "\<And>x. fst (h d) = Inr x \<Longrightarrow> Q x (snd (h d))" by metis
  with assms(3,5) show "\<exists>seen'\<le>t1'. reaches (engine_step c) (seen, d) (seen', snd (h d))
      \<and> (\<forall>x. fst (h d) = Inr x \<longrightarrow> Q' x (snd (h d)))" by (meson order_trans)
qed

lemma sim_relax: "sim c t0 t1 P h Q \<Longrightarrow> t1 \<le> t1' \<Longrightarrow> sim c t0 t1' P h anything"
  by (erule sim_weaken) simp_all

section \<open>Composition\<close>

lemma sim_seq:
  assumes "sim c t0 t1 P m Q" "\<And>x. sim c t1 t2 (Q x) (f x) R" "t1 \<le> t2"
  shows "sim c t0 t2 P (seq m f) R"
proof (rule simI)
  fix seen d assume a: "seen \<le> t0" "engine_inv (seen, d)" "P d"
  obtain r d1 where m: "m d = (r, d1)" by fastforce
  from simD [OF assms(1) a] m obtain s1 where s1: "s1 \<le> t1" "reaches (engine_step c) (seen, d) (s1, d1)"
    "engine_inv (s1, d1)" "\<And>x. r = Inr x \<Longrightarrow> Q x d1" by auto
  show "\<exists>s'\<le>t2. reaches (engine_step c) (seen, d) (s', snd (seq m f d))
      \<and> (\<forall>x. fst (seq m f d) = Inr x \<longrightarrow> R x (snd (seq m f d)))"
  proof (cases r)
    case (Inl e)
    with m s1 assms(3) show ?thesis by (intro exI [of _ s1]) (auto simp: seq_def)
  next
    case (Inr x)
    from simD [OF assms(2) s1(1,3) s1(4) [OF Inr]] obtain s2 where s2: "s2 \<le> t2"
      "reaches (engine_step c) (s1, d1) (s2, snd (f x d1))"
      "\<And>y. fst (f x d1) = Inr y \<Longrightarrow> R y (snd (f x d1))" by metis
    with reaches_trans [OF s2(2) s1(2)] m Inr show ?thesis by (auto simp: seq_def)
  qed
qed

lemma sim_ret: "t0 \<le> t1 \<Longrightarrow> (\<And>d. P d \<Longrightarrow> Q x d) \<Longrightarrow> sim c t0 t1 P (ret x) Q"
  by (rule simI) (auto simp: ret_def intro: reaches.here order_trans)

lemma sim_fail: "t0 \<le> t1 \<Longrightarrow> sim c t0 t1 P (fail e) Q"
  by (rule simI) (auto simp: fail_def intro: reaches.here order_trans)

lemma sim_ask: "t0 \<le> t1 \<Longrightarrow> (\<And>d x. P d \<Longrightarrow> f d = Inr x \<Longrightarrow> Q x d) \<Longrightarrow> sim c t0 t1 P (ask f) Q"
  by (rule simI) (auto simp: ask_def intro: reaches.here order_trans)

text \<open>One transaction, committed or rolled back.\<close>

lemma engine_step_late:
  "\<not> timed op \<Longrightarrow> allowed op d \<Longrightarrow> run_op c op d = Inr d' \<Longrightarrow> reaches (engine_step c) (seen, d) (seen, d')"
  by (rule reaches_one [where op = op], rule engine_step.late)

lemma sim_untimed:
  assumes "t0 \<le> t1" "\<And>d. P d \<Longrightarrow> allowed op d"
    and "\<not> timed op" "\<And>d. run_op c op d = bindE (g d) (\<lambda>p. Inr (snd p))"
    and "\<And>d x d'. P d \<Longrightarrow> g d = Inr (x, d') \<Longrightarrow> Q x d'"
  shows "sim c t0 t1 P (transact g) Q"
proof (rule simI)
  fix seen d assume a: "seen \<le> t0" "engine_inv (seen, d)" "P d"
  show "\<exists>s'\<le>t1. reaches (engine_step c) (seen, d) (s', snd (transact g d))
      \<and> (\<forall>x. fst (transact g d) = Inr x \<longrightarrow> Q x (snd (transact g d)))"
  proof (cases "g d")
    case (Inl e)
    with a assms(1) show ?thesis by (auto simp: transact_def intro: reaches.here order_trans)
  next
    case (Inr p)
    then obtain x d' where p: "g d = Inr (x, d')" by (cases p) auto
    then have "run_op c op d = Inr d'" by (simp add: assms(4))
    from engine_step_late [OF assms(3) assms(2) [OF a(3)] this] p a assms(1,5) show ?thesis
      by (intro exI [of _ seen]) (auto simp: transact_def)
  qed
qed

lemma sim_timed:
  assumes "op_now op = Inr t1" "t0 \<le> t1" "\<And>d. P d \<Longrightarrow> allowed op d"
    and "\<And>d. run_op c op d = bindE (g d) (\<lambda>p. Inr (snd p))"
    and "\<And>d x d'. engine_inv (t1, d) \<Longrightarrow> P d \<Longrightarrow> g d = Inr (x, d') \<Longrightarrow> Q x d'"
  shows "sim c t0 t1 P (transact g) Q"
proof (rule simI)
  fix seen d assume a: "seen \<le> t0" "engine_inv (seen, d)" "P d"
  have i: "engine_inv (t1, d)" using a(1,2) assms(2) exclusive_later [of seen d t1] by (auto simp: engine_inv_def)
  show "\<exists>s'\<le>t1. reaches (engine_step c) (seen, d) (s', snd (transact g d))
      \<and> (\<forall>x. fst (transact g d) = Inr x \<longrightarrow> Q x (snd (transact g d)))"
  proof (cases "g d")
    case (Inl e)
    with a assms(2) show ?thesis by (auto simp: transact_def intro: reaches.here order_trans)
  next
    case (Inr p)
    then obtain x d' where p: "g d = Inr (x, d')" by (cases p) auto
    then have "run_op c op d = Inr d'" by (simp add: assms(4))
    then have "engine_step c (seen, d) op (t1, d')"
      using assms(1,3) a assms(2) by (intro engine_step.commit) auto
    from reaches_one [of "engine_step c", OF this] p i assms(5) [OF i a(3) p] show ?thesis
      by (intro exI [of _ t1]) (auto simp: transact_def)
  qed
qed

lemma sim_execute:
  assumes "t0 \<le> t1" "\<And>d. P d \<Longrightarrow> allowed op d" "\<not> timed op" "\<And>d. run_op c op d = g d"
  shows "sim c t0 t1 P (execute g) anything"
proof (rule simI)
  fix seen d assume a: "seen \<le> t0" "engine_inv (seen, d)" "P d"
  show "\<exists>s'\<le>t1. reaches (engine_step c) (seen, d) (s', snd (execute g d))
      \<and> (\<forall>x. fst (execute g d) = Inr x \<longrightarrow> True)"
  proof (cases "g d")
    case (Inl e)
    with a assms(1) show ?thesis by (auto simp: execute_def intro: reaches.here order_trans)
  next
    case (Inr d')
    with engine_step_late [OF assms(3) assms(2) [OF a(3)], of c d'] a assms(1,4) show ?thesis
      by (intro exI [of _ seen]) (auto simp: execute_def)
  qed
qed

lemma sim_modify:
  assumes "t0 \<le> t1" "\<And>d. allowed op d" "\<not> timed op" "\<And>d. run_op c op d = Inr (g d)"
  shows "sim c t0 t1 P (modify g) anything"
proof (rule simI)
  fix seen d assume a: "seen \<le> t0" "engine_inv (seen, d)" "P d"
  from engine_step_late [OF assms(3,2,4)] a(1) assms(1) show "\<exists>s'\<le>t1. reaches (engine_step c) (seen, d)
      (s', snd (modify g d)) \<and> (\<forall>x. fst (modify g d) = Inr x \<longrightarrow> True)"
    by (intro exI [of _ seen]) (auto simp: modify_def)
qed

text \<open>A write outside the engine's tables, and one that may fail.\<close>

lemma reaches_outside:
  "same_core d' d \<Longrightarrow> db_attempts d' = db_attempts d \<Longrightarrow> reaches (engine_step c) (seen, d) (seen, d')"
  by (rule engine_step_late [of "Outside seen (\<lambda>_. d')"])
    (auto simp: outside_write_def same_core_def)

lemma sim_outside:
  assumes "t0 \<le> t1" "\<And>d. same_core (snd (h d)) d \<and> db_attempts (snd (h d)) = db_attempts d"
  shows "sim c t0 t1 P h anything"
  using assms reaches_outside by (intro simI) (meson order_trans)

end
