(* ===== verification/ItemSim.thy ===== *)
theory ItemSim
  imports ExecutionSim
begin

text \<open>
  Executing an item is a run of the engine: its freshness marks, task rows, cutoffs and receipts are engine
  transactions, and the dependencies are assumed to be runs of the engine themselves.
\<close>

named_theorems runs_intro

definition runs :: "codec \<Rightarrow> timestamp \<Rightarrow> (db \<Rightarrow> ('e + 'a) \<times> db) \<Rightarrow> bool" where
  "runs c t h \<longleftrightarrow> sim c t t (\<lambda>_. True) h anything"

lemma runs_seq [runs_intro]: "runs c t m \<Longrightarrow> (\<And>x. runs c t (f x)) \<Longrightarrow> runs c t (seq m f)"
  unfolding runs_def by (rule sim_seq) auto

lemma runs_ret [runs_intro]: "runs c t (ret x)"
  by (simp add: runs_def sim_ret)

lemma runs_fail [runs_intro]: "runs c t (fail e)"
  by (simp add: runs_def sim_fail)

lemma runs_ask [runs_intro]: "runs c t (ask f)"
  by (simp add: runs_def sim_ask)

lemma runs_if [runs_intro]: "runs c t a \<Longrightarrow> runs c t b \<Longrightarrow> runs c t (if q then a else b)"
  by simp

lemma runs_option [runs_intro]:
  "runs c t a \<Longrightarrow> (\<And>x. runs c t (f x)) \<Longrightarrow> runs c t (case v of None \<Rightarrow> a | Some x \<Rightarrow> f x)"
  by (cases v) auto

lemma runs_outside:
  "(\<And>d. same_core (snd (h d)) d \<and> db_attempts (snd (h d)) = db_attempts d) \<Longrightarrow> runs c t h"
  unfolding runs_def by (rule sim_outside) auto

definition good_deps :: "codec \<Rightarrow> timestamp \<Rightarrow> deps \<Rightarrow> bool" where
  "good_deps c t ds \<longleftrightarrow>
     (\<forall>q. runs c t (fetch_sgs_batch ds q)) \<and> (\<forall>q. runs c t (fetch_sgs_window ds q))
     \<and> (\<forall>b. runs c t (fetch_all_focus ds b)) \<and> (\<forall>b. runs c t (fetch_focus_12m ds b))
     \<and> (\<forall>b. runs c t (fetch_anbima_ima ds b)) \<and> (\<forall>n b. runs c t (fetch_di_curves ds n b))
     \<and> runs c t (refresh_treasury_data ds) \<and> runs c t (refresh_sidra_data ds)
     \<and> (\<forall>a k. runs c t (refresh_derived_snapshots ds a k))
     \<and> (\<forall>f. observe_rules ds = Some f \<longrightarrow> runs c t f)
     \<and> (\<forall>f a k. refresh_macro_score ds = Some f \<longrightarrow> runs c t (f a k))"

lemma good_depsD:
  assumes "good_deps c t ds"
  shows "runs c t (fetch_sgs_batch ds q)" "runs c t (fetch_sgs_window ds w)" "runs c t (fetch_all_focus ds b)"
    "runs c t (fetch_focus_12m ds b)" "runs c t (fetch_anbima_ima ds b)" "runs c t (fetch_di_curves ds n b)"
    "runs c t (refresh_treasury_data ds)" "runs c t (refresh_sidra_data ds)"
    "runs c t (refresh_derived_snapshots ds a k)" "observe_rules ds = Some f \<Longrightarrow> runs c t f"
    "refresh_macro_score ds = Some g \<Longrightarrow> runs c t (g a k)"
  using assms unfolding good_deps_def by blast+

section \<open>Tasks\<close>

lemma runs_mark [runs_intro]: "runs c t (mark active ck key)"
  unfolding runs_def
proof (rule simI)
  fix seen d assume a: "seen \<le> t"
  show "\<exists>s'\<le>t. reaches (engine_step c) (seen, d) (s', snd (mark active ck key d))
      \<and> (\<forall>x. fst (mark active ck key d) = Inr x \<longrightarrow> True)"
  proof (cases "set_meta active (ic_fence ck) key (ic_updated ck) d")
    case (Inl e)
    with a show ?thesis by (intro exI [of _ seen]) (simp add: mark_def reaches.here)
  next
    case (Inr d')
    with engine_step_late [of "SetMeta active (ic_fence ck) key (ic_updated ck)" d c d'] a
    show ?thesis by (intro exI [of _ seen]) (simp add: mark_def)
  qed
qed

lemma runs_ask_py [runs_intro]: "runs c t (ask_py r)"
  by (cases r) (simp_all add: ask_py_def runs_ret runs_fail)

lemma runs_marks [runs_intro]:
  "runs c t (mark_ipca_series_fresh active ck task snap payload)"
  "runs c t (mark_inflation_window_fresh active ck task snap payload)"
  "runs c t (mark_interest_window_fresh active ck task snap payload)"
  "runs c t (mark_interest_remainder_fresh active ck snap payload)"
proof -
  show "runs c t (mark_inflation_window_fresh active ck task snap payload)"
    unfolding mark_inflation_window_fresh_def Let_def by (intro runs_intro)
  show "runs c t (mark_interest_window_fresh active ck task snap payload)"
    unfolding mark_interest_window_fresh_def Let_def by (intro runs_intro)
  show "runs c t (mark_interest_remainder_fresh active ck snap payload)"
    unfolding mark_interest_remainder_fresh_def by (intro runs_intro)
  show "runs c t (mark_ipca_series_fresh active ck task snap payload)"
    unfolding mark_ipca_series_fresh_def Let_def
    by (auto split: list.split option.split intro!: runs_intro)
qed

lemma runs_mark_all [runs_intro]: "runs c t (mark_all active ck ks)"
  by (induction ks) (auto intro!: runs_intro)

lemma runs_legacy_windows:
  assumes "good_deps c t ds"
  shows "runs c t (legacy_windows ds force reading deadline s ws n acc)"
proof (induction ws arbitrary: n acc)
  case (Cons w ws)
  note good_depsD(1) [OF assms]
  then show ?case
    by (cases w) (auto simp: Let_def split: option.split json.split intro!: runs_intro Cons.IH)
qed (simp add: runs_intro)

lemma runs_legacy_series:
  assumes "good_deps c t ds"
  shows "runs c t (legacy_series ds force reading deadline ws ss n)"
  by (induction ss arbitrary: n) (auto intro!: runs_intro runs_legacy_windows [OF assms])

text \<open>A call whose exception is handled, and a handler seen through its database only.\<close>

lemma runs_snd: "runs c t h \<Longrightarrow> (\<And>d. snd (h' d) = snd (h d)) \<Longrightarrow> runs c t h'"
  by (simp add: runs_def sim_def)

lemma runs_handled:
  fixes m :: "db \<Rightarrow> ('x + 'a) \<times> db" and f :: "'x + 'a \<Rightarrow> db \<Rightarrow> ('e + 'b) \<times> db"
  assumes "runs c t m" "\<And>r. runs c t (f r)"
  shows "runs c t (\<lambda>d. f (fst (m d)) (snd (m d)))"
proof -
  have "runs c t (seq (\<lambda>d. (Inr (fst (m d)) :: 'e + ('x + 'a), snd (m d))) f)"
    using assms by (intro runs_seq) (simp_all add: runs_def sim_def)
  moreover have "seq (\<lambda>d. (Inr (fst (m d)) :: 'e + ('x + 'a), snd (m d))) f = (\<lambda>d. f (fst (m d)) (snd (m d)))"
    by (simp add: seq_def fun_eq_iff)
  ultimately show ?thesis by simp
qed

lemma runs_task_start [runs_intro]: "runs c t (modify (record_refresh_task_start name p n now))"
  unfolding runs_def by (rule sim_modify [where op = "TaskStart name p n now"]) simp_all

lemma runs_task_finish [runs_intro]: "runs c t (execute (record_refresh_task_finish active now f))"
  unfolding runs_def by (rule sim_execute [where op = "TaskFinish active now f"]) simp_all

lemma runs_finish_task [runs_intro]: "runs c t (finish_task active now name s n dur code fin)"
  unfolding finish_task_def by (rule runs_task_finish)

lemma runs_source_task:
  assumes "runs c t (rt_run task)"
  shows "runs c t (run_source_task str_of active ck task)"
proof -
  let ?start = "record_refresh_task_start (rt_name task) (rt_provider task) (rt_expected task) (ck_started (ic_run ck))"
  let ?finish = "\<lambda>r. execute (record_refresh_task_finish active (ck_finished (ic_run ck))
    (finish_of (rt_name task) (outcome_of str_of r) (ic_run ck)))"
  let ?h = "\<lambda>d. ?finish (fst (rt_run task d)) (snd (rt_run task d))"
  have "runs c t ?h" using assms runs_task_finish by (rule runs_handled)
  then have "runs c t (seq (modify ?start) (\<lambda>_. ?h))" by (intro runs_seq runs_task_start)
  then show ?thesis
    by (rule runs_snd)
      (simp add: run_source_task_def lift_action_def run_refresh_task_detailed_def Let_def execute_def
        case_prod_beta split: sum.split)
qed

definition good_task :: "codec \<Rightarrow> timestamp \<Rightarrow> refresh_task \<Rightarrow> bool" where
  "good_task c t task \<longleftrightarrow> runs c t (rt_run task)"

lemma good_sgs_task [simp]: "good_task c t (sgs_task name n run) = runs c t run"
  by (simp add: good_task_def sgs_task_def)

lemma good_window_tasks:
  assumes "good_deps c t ds"
  shows "good_task c t (window_task g cache ds s w)" "good_task c t (ipca_window_task force ds s v)"
    "good_task c t (sgs_group_task cache ds grp)" "good_task c t (sgs_interest_remainder_task force ds)"
proof -
  note d = good_depsD [OF assms]
  show "good_task c t (window_task g cache ds s w)"
    unfolding window_task_def by (cases s) (simp only: prod.case good_sgs_task, intro runs_intro d)
  show "good_task c t (ipca_window_task force ds s v)"
    unfolding ipca_window_task_def by (cases s; cases v) (simp only: prod.case good_sgs_task, rule d)
  show "good_task c t (sgs_group_task cache ds grp)"
    unfolding sgs_group_task_def by (cases grp) (simp only: prod.case good_sgs_task, rule d)
  show "good_task c t (sgs_interest_remainder_task force ds)"
    unfolding sgs_interest_remainder_task_def Let_def good_sgs_task by (rule d)
qed

lemma good_provider_tasks:
  assumes "good_deps c t ds"
  shows "list_all (good_task c t) (provider_tasks force ds)"
  unfolding provider_tasks_def list.pred_inject good_task_def refresh_task.select_convs
  by (intro conjI good_depsD [OF assms] list.pred_inject)

lemma good_refresh_tasks:
  assumes "good_deps c t ds" "task \<in> set (refresh_tasks force ds)"
  shows "good_task c t task"
proof (cases "task \<in> set (provider_tasks force ds)")
  case True
  then show ?thesis using good_provider_tasks [OF assms(1), of force] by (simp add: list_all_iff)
next
  case False
  with assms(2) obtain g where "task = sgs_group_task (\<not> force) ds g"
    unfolding refresh_tasks_def set_append set_map by blast
  then show ?thesis using good_window_tasks(3) [OF assms(1)] by simp
qed

lemma good_source_tasks:
  assumes "good_deps c t ds" "source_task_list ck snap ds = Inr ts" "task \<in> set ts"
  shows "good_task c t task"
proof -
  note w = good_window_tasks [OF assms(1)]
  have ipca: "good_task c t x" if "ipca_group_window_tasks today force ds = Inr xs" "x \<in> set xs" for today force x xs
  proof -
    from that obtain s v where "x = ipca_window_task force ds s v"
      by (auto simp: ipca_group_window_tasks_def bindE_Inr_iff)
    then show ?thesis using w(2) by simp
  qed
  have infl: "good_task c t x" if "sgs_inflation_window_tasks force ds a = Inr xs" "x \<in> set xs" for a force x xs
  proof -
    from that obtain s v where "x = window_task ''inflacao'' False ds s v"
      by (auto simp: sgs_inflation_window_tasks_def bindE_Inr_iff)
    then show ?thesis using w(1) by simp
  qed
  have intr: "good_task c t x" if "sgs_interest_window_tasks force ds a = Inr xs" "x \<in> set xs" for a force x xs
  proof -
    from that obtain s v where "x = window_task ''juros'' (\<not> force) ds s v"
      by (auto simp: sgs_interest_window_tasks_def bindE_Inr_iff)
    then show ?thesis using w(1) by simp
  qed
  let ?f = "rr_force (snap_run snap)" and ?v = "rr_version (snap_run snap)"
  from assms(2) obtain ipcas infls intrs where ts: "ts = refresh_tasks ?f ds @ ipcas @ infls @ intrs"
    and i: "ipca_group_window_tasks (ic_today ck) ?f ds = Inr ipcas"
    and infls: "(if ?v \<in> {''daily-refresh-v5'', ''daily-refresh-v6''}
        then bindE (created_date snap) (sgs_inflation_window_tasks ?f ds) else Inr []) = Inr infls"
    and intrs: "(if ?v \<in> {''daily-refresh-v4'', ''daily-refresh-v5'', ''daily-refresh-v6''}
        then bindE (created_date snap) (\<lambda>cutoff. bindE (sgs_interest_window_tasks ?f ds cutoff)
          (\<lambda>ts. Inr (ts @ [sgs_interest_remainder_task ?f ds]))) else Inr []) = Inr intrs"
    unfolding source_task_list_def Let_def bindE_Inr_iff by blast
  have "good_task c t x" if "x \<in> set infls" for x
    using infls that infl by (auto split: if_splits simp: bindE_Inr_iff)
  moreover have "good_task c t x" if "x \<in> set intrs" for x
    using intrs that intr w(4) by (auto split: if_splits simp: bindE_Inr_iff)
  ultimately show ?thesis
    using assms(3) ts good_refresh_tasks [OF assms(1)] ipca [OF i] by auto
qed

lemma source_task_mem: "source_task name ts = Some x \<Longrightarrow> x \<in> set ts"
  by (auto simp: source_task_def find_Some_iff) (metis nth_mem length_rev set_rev)

lemma good_bounded_task:
  assumes "good_deps c t ds" "good_task c t task"
  shows "good_task c t (bounded_task active ck name snap ds task)"
proof -
  have "runs c t (run_legacy_ipca_group active ck ds force)" for force
    unfolding run_legacy_ipca_group_def by (intro runs_intro runs_legacy_series [OF assms(1)])
  moreover have "runs c t (rt_run (marking m task))" if "\<And>p. runs c t (m p)" for m
    using assms(2) that by (auto simp: marking_def good_task_def intro!: runs_intro)
  ultimately show ?thesis
    using assms(2) runs_marks by (auto simp: bounded_task_def good_task_def)
qed

section \<open>Items\<close>

lemma record_verified_coverage_core:
  assumes "record_verified_coverage v now d = Inr (b, d')"
  shows "same_core d' d \<and> db_attempts d' = db_attempts d"
  using assms
  by (auto simp: record_verified_coverage_def bindE_Inr_iff guardE_def Let_def verify_unit_def same_core_def
      split: if_splits option.splits sum.splits)

lemma reconcile_unit_core:
  assumes "reconcile_sgs_unit_commit b now d = Inr (k, d')"
  shows "same_core d' d \<and> db_attempts d' = db_attempts d"
  using assms record_verified_coverage_core
  by (auto simp: reconcile_sgs_unit_commit_def bindE_Inr_iff Let_def same_core_def
      split: if_splits option.splits)

lemma runs_already_committed [runs_intro]: "runs c t (already_committed c' active ck u)"
proof -
  have "runs c t (\<lambda>d. case reconcile_sgs_unit_commit b now d of
      Inl e \<Rightarrow> (Inl (PyFail e), d) | Inr (k, d') \<Rightarrow> (Inr (k \<noteq> None), d'))" for b now
    by (rule runs_outside)
      (use reconcile_unit_core in \<open>force simp: same_core_def split: sum.split prod.split\<close>)
  then show ?thesis unfolding already_committed_def by (intro runs_intro)
qed

lemma runs_record_failed [runs_intro]: "runs c t (record_failed_task active ck name p n code now)"
  unfolding record_failed_task_def by (intro runs_intro)

lemma runs_sgs_unit:
  assumes "good_deps c t ds"
  shows "runs c t (execute_sgs_unit c' str_of active ck task snap ds now)"
proof -
  have "runs c t (run_planned_sgs ds u)" for u
    unfolding run_planned_sgs_def by (intro runs_intro good_depsD [OF assms])
  then show ?thesis unfolding execute_sgs_unit_def
    by (intro runs_intro) (simp add: runs_source_task)
qed

lemma runs_cutoff [runs_intro]: "runs c t (transact (persist_run_cutoff req))"
  unfolding runs_def by (rule sim_untimed [where op = "Cutoff req"]) (simp_all add: committed_def)

lemma runs_phase_cutoff [runs_intro]: "runs c t (phase_cutoff p snap now)"
  unfolding phase_cutoff_def Let_def by (cases p) (simp_all, (intro runs_intro)+)

lemma runs_phase_callback:
  assumes "good_deps c t ds"
  shows "runs c t (phase_callback p ds a k)"
  unfolding phase_callback_def missing_callback_def
  using good_depsD(9-11) [OF assms]
  by (cases p) (auto split: option.split intro: runs_fail)

lemma runs_phase_task:
  assumes "good_deps c t ds"
  shows "runs c t (execute_phase_task active ck p ds a k)"
proof -
  let ?f = "\<lambda>r. seq (finish_task active (ck_finished (ic_run ck)) (phase_name p)
      (case r of Inl _ \<Rightarrow> ''error'' | Inr _ \<Rightarrow> ''ok'') (phase_count r) (ck_duration (ic_run ck))
      (case r of Inl e \<Rightarrow> Some (phase_error e) | Inr _ \<Rightarrow> None) (ck_finished (ic_run ck)))
    (\<lambda>_. ret (task_result (phase_name p) (case r of Inl _ \<Rightarrow> ''error'' | Inr _ \<Rightarrow> ''ok'')
      (case r of Inl e \<Rightarrow> Some (phase_error e) | Inr _ \<Rightarrow> None) (phase_count r) (phase_count r)
      (ck_duration (ic_run ck))))"
  let ?h = "\<lambda>d. ?f (fst (phase_callback p ds a k d)) (snd (phase_callback p ds a k d))"
  have "runs c t (?f r)" for r by (intro runs_intro)
  with runs_phase_callback [OF assms] have "runs c t ?h" by (rule runs_handled)
  then have "runs c t (seq (modify (record_refresh_task_start (phase_name p) (phase_provider p) (phase_expected p)
      (ck_started (ic_run ck)))) (\<lambda>_. ?h))" by (intro runs_seq runs_task_start)
  then show ?thesis by (rule runs_snd) (simp add: execute_phase_task_def Let_def case_prod_beta)
qed

lemma runs_phase_item:
  assumes "good_deps c t ds"
  shows "runs c t (execute_phase_item active ck task snap ds now)"
  unfolding execute_phase_item_def record_skipped_phase_task_def Let_def
  by (intro runs_intro runs_phase_task [OF assms])

lemma runs_execute_item:
  assumes "good_deps c t ds"
  shows "runs c t (execute_refresh_item c' str_of active ck task snap ds now)"
proof -
  have "runs c t (run_source_task str_of active ck (bounded_task active ck task snap ds x))"
    if "source_task_list ck snap ds = Inr ts" "source_task task ts = Some x" for ts x
    using good_bounded_task [OF assms good_source_tasks [OF assms that(1) source_task_mem [OF that(2)]]]
    by (intro runs_source_task) (simp add: good_task_def)
  then have rest: "runs c t (case source_task task ts of
          Some x \<Rightarrow> run_source_task str_of active ck (bounded_task active ck task snap ds x)
        | None \<Rightarrow>
            if task = ''polymarket'' \<and> rr_version (snap_run snap) \<in> {''daily-refresh-v1'', ''daily-refresh-v2''}
            then ret retired_execution
            else execute_phase_item active ck task snap ds now)"
    if "source_task_list ck snap ds = Inr ts" for ts
    using that by (auto split: option.split intro!: runs_intro runs_phase_item [OF assms])
  show ?thesis
  proof (cases "source_task_list ck snap ds")
    case (Inl e)
    then show ?thesis unfolding execute_refresh_item_def
      by (auto intro!: runs_intro runs_sgs_unit [OF assms] runs_outside
          simp: ask_seq lift_def same_core_def)
  next
    case (Inr ts)
    have asked: "runs c t (seq (ask (\<lambda>_. lift (source_task_list ck snap ds))) f)" if "runs c t (f ts)" for f
      using that by (rule runs_snd) (simp add: ask_seq Inr)
    show ?thesis unfolding execute_refresh_item_def
      by (rule runs_if [OF runs_sgs_unit [OF assms]], rule asked, rule rest [OF Inr])
  qed
qed

end
