(* ===== verification/ApiSim.thy ===== *)
theory ApiSim
  imports ItemSim EngineFacts
begin

text \<open>
  The operations behind the API as runs of the engine, and the API as a machine that refines it: each call is
  a step, and \<open>refinement\<close> carries every state reachable through the API back to the engine.
\<close>

section \<open>Refinement of machines\<close>

locale refinement = machine astep inv for astep :: "'s \<Rightarrow> 'o \<Rightarrow> 's \<Rightarrow> bool" and inv +
  fixes cstep :: "'s \<Rightarrow> 'p \<Rightarrow> 's \<Rightarrow> bool"
  assumes simulates: "inv s \<Longrightarrow> cstep s op s' \<Longrightarrow> reaches astep s s'"
begin

lemma reaches_abstract: "reaches cstep s s' \<Longrightarrow> inv s \<Longrightarrow> reaches astep s s'"
proof (induction rule: reaches.induct)
  case (further s t op u)
  from further.IH further.prems have st: "reaches astep s t" by blast
  then have "inv t" using further.prems by (rule reaches_inv)
  then have "reaches astep t u" using further.hyps(2) by (rule simulates)
  then show ?case using st by (rule reaches_trans)
qed (rule reaches.here)

end

section \<open>What a start returns\<close>

lemma resume_or_insert_returns:
  assumes "resume_or_insert c st d = Inr (snap, d')"
  shows "find_run d' (st_run st) = Some (snap_run snap)"
  using assms
  by (auto simp: resume_or_insert_def bindE_Inr_iff read_snapshot_def find_run_def split: option.splits if_splits)

lemma create_returns:
  assumes "create_or_resume_run c start d = Inr (snap, d')"
  shows "find_run d' (st_run start) = Some (snap_run snap)"
  using assms
proof (cases rule: create_cases)
  case (1 st)
  then show ?thesis by (auto dest: read_snapshot_SomeD)
next
  case (2 st d1)
  then show ?thesis using resume_or_insert_returns normalize_start_Inr(2) by metis
qed

definition stored :: "run_snapshot \<Rightarrow> db \<Rightarrow> bool" where
  "stored snap d \<longleftrightarrow> find_run d (rr_id (snap_run snap)) \<noteq> None"

lemma sim_get: "t0 \<le> t1 \<Longrightarrow> sim c t0 t1 P (get_refresh_run r) stored"
  unfolding get_refresh_run_def
proof (rule sim_ask)
  fix d x assume "(case read_snapshot d r of None \<Rightarrow> Inl (Rejected (NotFound r)) | Some s \<Rightarrow> Inr s) = Inr x"
  then have "find_run d r = Some (snap_run x)" by (auto split: option.splits dest: read_snapshot_SomeD)
  then show "stored x d" using find_run_SomeD [of d r] by (auto simp: stored_def)
qed

lemma sim_start_run:
  assumes "is_utc now" "t0 \<le> isoformat now" "st_now st = isoformat now"
    and "\<And>d. P d \<Longrightarrow> st_macro st = None \<or> find_run d (st_run st) \<noteq> None"
  shows "sim c t0 (isoformat now) P (transact (create_or_resume_run c st)) stored"
proof (rule sim_timed [where op = "Start st"])
  show "op_now (Start st) = Inr (isoformat now)" using assms(1,3) by (simp add: utc_iso_isoformat)
  show "stored x d'" if "create_or_resume_run c st d = Inr (x, d')" for d x d'
    using create_returns [OF that] find_run_SomeD [of d' "st_run st"] by (auto simp: stored_def)
qed (use assms in \<open>simp_all add: committed_def\<close>)

lemma sim_resume:
  assumes "is_utc now" "t0 \<le> isoformat now"
  shows "sim c t0 (isoformat now) (stored snap) (resume_refresh_run c snap now) stored"
proof -
  have "sim c t0 t0 (stored snap) (ask f) (\<lambda>_. stored snap)" for f :: "db \<Rightarrow> plan_error + 'x"
    by (rule sim_ask) auto
  note a = this
  have p: "sim c t0 t0 (stored snap) (if b then ask f else ret None) (\<lambda>_. stored snap)"
    for b and f :: "db \<Rightarrow> plan_error + sgs_plan option"
    using a sim_ret [of t0 t0 "stored snap"] by (cases b) auto
  show ?thesis
    unfolding resume_refresh_run_def
    by (rule sim_seq [OF a], rule sim_seq [OF p], rule sim_start_run)
      (use assms in \<open>auto simp: resume_start_def Let_def stored_def\<close>)
qed

section \<open>Finalizing\<close>

lemma sim_finalize_transaction: "t0 \<le> t1 \<Longrightarrow> sim c t0 t1 P (transact (finalize_and_release_run req)) anything"
  by (rule sim_untimed [where op = "Finalize req"]) (simp_all add: committed_def)

lemma sim_finalize_if_resolved:
  assumes "is_utc now" "t0 \<le> isoformat now"
  shows "sim c t0 (isoformat now) (stored snap) (finalize_if_resolved c snap now) anything"
proof (cases "rr_state (snap_run snap) = RunRunning")
  case False
  then show ?thesis using assms(2) by (simp add: finalize_if_resolved_def sim_ret)
next
  case True
  let ?t = "isoformat now"
  have "sim c ?t ?t (stored s) (if rr_state (snap_run s) \<noteq> RunRunning then ret s
      else seq (transact (finalize_and_release_run (final_request c s now))) (\<lambda>_. get_refresh_run (rr_id (snap_run s))))
      anything" for s
  proof (cases "rr_state (snap_run s) = RunRunning")
    case True
    have "sim c ?t ?t (\<lambda>_. True) (get_refresh_run (rr_id (snap_run s))) anything"
      using sim_get [of ?t ?t] by (rule sim_weaken) auto
    with sim_finalize_transaction [of ?t ?t] True show ?thesis by (auto intro: sim_seq)
  qed (simp add: sim_ret)
  from sim_seq [OF sim_resume [OF assms] this order_refl] show ?thesis
    unfolding finalize_if_resolved_def using True by simp
qed

lemma sim_finalize:
  assumes "is_utc now" "t0 \<le> isoformat now"
  shows "sim c t0 (isoformat now) (\<lambda>_. True) (finalize_refresh_run c r now) anything"
  unfolding finalize_refresh_run_def
  by (rule sim_seq [OF sim_get [of t0 t0]]) (use assms sim_finalize_if_resolved in auto)

section \<open>Starting\<close>

lemma sim_start:
  assumes "is_utc now" "t0 \<le> isoformat now"
  shows "sim c t0 (isoformat now) (\<lambda>_. True) (start_refresh_run c req ds now) anything"
proof -
  have a: "sim c t0 t0 (\<lambda>_. True) (ask f) anything" for f :: "db \<Rightarrow> plan_error + 'x"
    by (rule sim_ask) auto
  have s: "sim c t0 (isoformat now) (\<lambda>_. True) (transact (create_or_resume_run c st)) anything"
    if "st_now st = isoformat now" "st_macro st = None" for st
    using that(2) by (intro sim_relax [OF sim_start_run [OF assms(1,2) that(1)]]) simp_all
  have "sim c t0 (isoformat now) (\<lambda>_. True) (case x of (version, plan, items) \<Rightarrow>
     seq (ask (\<lambda>_. lift (lease_expiry now))) (\<lambda>expires.
       transact (create_or_resume_run c
         \<lparr>st_run = sq_run req, st_cycle = sq_cycle req, st_force = sq_force req, st_version = version,
          st_derived = None, st_macro = None, st_items = items, st_now = isoformat now, st_expires = expires,
          st_plan = plan\<rparr>))) anything" for x
    using assms(2) by (cases x) (auto intro!: sim_seq [OF a] s)
  then show ?thesis unfolding start_refresh_run_def by (rule sim_seq [OF a]) (rule assms(2))
qed

section \<open>Advancing\<close>

lemma claim_next_stores:
  assumes "claim_next_work_item req token d = Inr (Some i, d')"
  shows "\<exists>k. find_item d' (cr_run req) k = Some i"
proof -
  have row: "\<exists>k. find_item e' (cr_run req) k = Some i" if "claim_row (cr_run req) k g f e = (Some i, e')" for k g f e e'
    using that by (auto simp: claim_row_def Let_def split: if_splits)
  from assms show ?thesis
  proof (cases rule: claim_next_cases)
    case (3 now ex run)
    from 3(8) show ?thesis
      by (auto simp: claim_v6_item_def claim_legacy_item_def bindE_Inr_iff Let_def
          split: if_splits option.splits dest!: row)
  qed auto
qed

definition beginnable :: "work_item option \<Rightarrow> db \<Rightarrow> bool" where
  "beginnable w d \<longleftrightarrow> (\<forall>i. w = Some i \<longrightarrow> wi_generation i = wi_attempt i \<and> i \<in> set (db_items d))"

lemma sim_claim:
  assumes "is_utc now" "t0 \<le> isoformat now" "cr_now req = isoformat now"
  shows "sim c t0 (isoformat now) P (transact (claim_next_work_item req token)) beginnable"
proof (rule sim_timed [where op = "Claim req token"])
  show n: "op_now (Claim req token) = Inr (isoformat now)" using assms(1,3) by (simp add: utc_iso_isoformat)
  show "beginnable w d'" if "engine_inv (isoformat now, d)" "claim_next_work_item req token d = Inr (w, d')" for d w d'
  proof -
    have "engine_inv (isoformat now, d')"
      using engine_op_inv [OF that(1), of "Claim req token" c d'] n that(2) by (simp add: committed_def)
    then have ok: "items_ok d'" by (simp add: engine_inv_def tables_ok_def)
    show ?thesis unfolding beginnable_def
    proof (intro allI impI)
      fix i assume "w = Some i"
      with that(2) claim_next_stores obtain k where "find_item d' (cr_run req) k = Some i" by blast
      then have "i \<in> set (db_items d')" using find_item_SomeD by blast
      with ok show "wi_generation i = wi_attempt i \<and> i \<in> set (db_items d')"
        by (auto simp: items_ok_def list_all_iff item_ok_def)
    qed
  qed
qed (use assms in \<open>simp_all add: committed_def\<close>)

lemma sim_begin:
  assumes "t0 \<le> t1"
  shows "sim c t0 t1 (beginnable (Some i)) (execute (record_refresh_attempt_started (new_refresh_attempt a i) now)) anything"
proof (rule sim_execute [where op = "Begin (new_refresh_attempt a i) now"])
  show "allowed (Begin (new_refresh_attempt a i) now) d" if "beginnable (Some i) d" for d
    using that by (auto simp: beginnable_def new_refresh_attempt_def exists_where_iff item_key_of_def)
qed (use assms in simp_all)

lemma runs_milestone [runs_intro]: "runs c t (modify (record_refresh_attempt_milestone a s r det now))"
  unfolding runs_def by (rule sim_modify [where op = "Milestone a s r det now"]) simp_all

lemma runs_finish [runs_intro]: "runs c t (modify (finish_refresh_attempt a r e n sd now))"
  unfolding runs_def by (rule sim_modify [where op = "Finish a r e n sd now"]) simp_all

lemma runs_attempt_item:
  assumes "good_deps c t ds"
  shows "runs c t (attempt_item c' str_of ctx ck claim snap ds)"
proof -
  let ?body = "seq (modify (record_refresh_attempt_milestone (ac_id ctx) ''task_execution_started'' ''observed'' None
                   (vc_started ck))) (\<lambda>_.
           seq (execute_refresh_item c' str_of (Some ctx) (vc_item ck) (wi_task claim) snap ds (vc_now ck)) (\<lambda>x.
           seq (modify (record_refresh_attempt_milestone (ac_id ctx) ''task_execution_returned'' ''observed'' None
                   (vc_returned ck))) (\<lambda>_.
           seq (modify (finish_refresh_attempt (ac_id ctx) ''completed'' (result_text x ''error_code'')
                   (Some (te_records x)) None (vc_finished ck))) (\<lambda>_. ret x))))"
  let ?fin = "\<lambda>r. case r of Inr x \<Rightarrow> ret x
    | Inl e \<Rightarrow> seq (modify (record_refresh_attempt_milestone (ac_id ctx) ''interrupted'' ''outcome_unknown''
                (Some (take 80 (error_name e))) (vc_interrupted ck)))
          (\<lambda>_. seq (modify (finish_refresh_attempt (ac_id ctx) ''outcome_unknown'' (Some (take 80 (error_name e))) None None
             (vc_abandoned ck))) (\<lambda>_. fail e))"
  have "runs c t ?body" by (intro runs_intro runs_execute_item [OF assms])
  moreover have "runs c t (?fin r)" for r by (cases r) (auto intro!: runs_intro)
  ultimately have "runs c t (\<lambda>d. ?fin (fst (?body d)) (snd (?body d)))" by (rule runs_handled)
  then show ?thesis
    by (rule runs_snd) (simp add: attempt_item_def case_prod_beta ret_def fail_def split: sum.split)
qed

lemma sim_complete_and_finalize:
  assumes "is_utc (vc_final ck)" "t0 \<le> isoformat (vc_final ck)"
  shows "sim c t0 (isoformat (vc_final ck)) (\<lambda>_. True) (complete_and_finalize c ck r snap claim x) anything"
proof -
  let ?t = "isoformat (vc_final ck)"
  have ask: "sim c t0 t0 (\<lambda>_. True) (ask f) anything" for f :: "db \<Rightarrow> plan_error + 'x" by (rule sim_ask) auto
  have comp: "sim c t0 t0 (\<lambda>_. True) (transact (complete_work_item_claim req)) anything" for req
    by (rule sim_untimed [where op = "Complete req"]) (simp_all add: committed_def)
  have get: "sim c t0 ?t (\<lambda>_. True) (get_refresh_run r) anything"
    using sim_get [OF assms(2)] by (rule sim_weaken) auto
  have fin: "sim c t0 ?t (\<lambda>_. True) (seq (get_refresh_run r) (\<lambda>updated. finalize_if_resolved c updated (vc_final ck))) anything"
    by (rule sim_seq [OF sim_get [of t0 t0]]) (use assms sim_finalize_if_resolved in auto)
  have "sim c t0 ?t (\<lambda>_. True) (if b then seq (get_refresh_run r) (\<lambda>updated. finalize_if_resolved c updated (vc_final ck))
      else get_refresh_run r) anything" for b
    using get fin by simp
  with assms(2) show ?thesis
    unfolding complete_and_finalize_def by (intro sim_seq [OF ask] sim_seq [OF comp]) auto
qed

lemma sim_settle:
  assumes "is_utc (vc_final ck)" "t0 \<le> isoformat (vc_final ck)"
  shows "sim c t0 (isoformat (vc_final ck)) (\<lambda>_. True) (settle_item c ck r snap claim x) anything"
proof -
  let ?t = "isoformat (vc_final ck)"
  have ask: "sim c t0 t0 (\<lambda>_. True) (ask f) anything" for f :: "db \<Rightarrow> plan_error + 'x" by (rule sim_ask) auto
  have get: "sim c t0 ?t (\<lambda>_. True) (get_refresh_run r) anything"
    using sim_get [OF assms(2)] by (rule sim_weaken) auto
  have defers: "sim c t0 ?t (\<lambda>_. True) (seq (transact (defer_work_item_claim req)) (\<lambda>_. get_refresh_run r)) anything" for req
  proof (rule sim_seq)
    show "sim c t0 t0 (\<lambda>_. True) (transact (defer_work_item_claim req)) anything"
      by (rule sim_untimed [where op = "Defer req"]) (simp_all add: committed_def)
  qed (use get assms(2) in auto)
  note finish = sim_complete_and_finalize [OF assms]
  show ?thesis
    unfolding settle_item_def
    by (rule sim_seq [OF ask]) (use assms(2) defers finish in \<open>auto split: option.split\<close>)
qed

lemma sim_runs: "runs c t1 h \<Longrightarrow> t0 \<le> t1 \<Longrightarrow> sim c t0 t1 P h anything"
  unfolding runs_def by (rule sim_weaken [of c t1 t1 "\<lambda>_. True" h anything t0 t1 P anything]) simp_all

text \<open>The clock of an advance: it is read at the start and again before finalizing.\<close>

definition clock_ok :: "timestamp \<Rightarrow> advance_clock \<Rightarrow> bool" where
  "clock_ok t0 ck \<longleftrightarrow> is_utc (vc_now ck) \<and> is_utc (vc_final ck) \<and> t0 \<le> isoformat (vc_now ck)
     \<and> isoformat (vc_now ck) \<le> isoformat (vc_final ck)"

lemma sim_claim_and_run:
  assumes "clock_ok t0 ck" "\<And>ctx. good_deps c (isoformat (vc_final ck)) (ds ctx)"
  shows "sim c t0 (isoformat (vc_final ck)) (\<lambda>_. True) (claim_and_run c str_of ck req ds snap) anything"
proof -
  let ?n = "isoformat (vc_now ck)" and ?t = "isoformat (vc_final ck)"
  note k = assms(1) [unfolded clock_ok_def]
  have ask: "sim c t0 t0 (\<lambda>_. True) (ask f) anything" for f :: "db \<Rightarrow> plan_error + 'x" by (rule sim_ask) auto
  have get: "sim c ?n ?t P (get_refresh_run (aq_run req)) anything" for P
    using k by (intro sim_relax [OF sim_get [of ?n ?t]]) simp_all
  have settle: "sim c ?t ?t (\<lambda>_. True) (settle_item c ck (aq_run req) snap i x) anything" for i x
    using k by (intro sim_settle) auto
  have attempt: "sim c ?n ?t (\<lambda>_. True) (seq (attempt_item c str_of ctx ck i snap (ds ctx))
      (\<lambda>x. settle_item c ck (aq_run req) snap i x)) anything" for ctx i
    by (rule sim_seq [OF sim_runs [OF runs_attempt_item [OF assms(2)]] settle]) (use k in auto)
  have claimed: "sim c ?n ?t (beginnable w) (case w of None \<Rightarrow> get_refresh_run (aq_run req)
     | Some i \<Rightarrow> (let ctx = new_refresh_attempt (vc_attempt ck) i
          in seq (execute (record_refresh_attempt_started ctx ?n)) (\<lambda>_.
             seq (attempt_item c str_of ctx ck i snap (ds ctx)) (\<lambda>x.
               settle_item c ck (aq_run req) snap i x)))) anything" for w
  proof (cases w)
    case (Some i)
    have nt: "?n \<le> ?t" using k by blast
    show ?thesis unfolding Some option.case Let_def
      by (rule sim_seq [OF sim_begin [of ?n ?n, OF order_refl] attempt nt])
  next
    case None
    show ?thesis unfolding None option.case by (rule get)
  qed
  have claim: "sim c t0 ?n P (transact (claim_next_work_item
      \<lparr>cr_run = aq_run req, cr_now = ?n, cr_expires = isoformat e, cr_expected = Some (aq_expected req)\<rparr>
      (vc_token ck))) beginnable" for P e
    using k by (intro sim_claim) simp_all
  have nt: "?n \<le> ?t" "t0 \<le> ?t" using k by (blast intro: order_trans)+
  show ?thesis
    unfolding claim_and_run_def by (rule sim_seq [OF ask sim_seq [OF claim claimed nt(1)] nt(2)])
qed

lemma sim_advance:
  assumes "clock_ok t0 ck" "\<And>ctx. good_deps c (isoformat (vc_final ck)) (ds ctx)"
  shows "sim c t0 (isoformat (vc_final ck)) (\<lambda>_. True) (advance_refresh_run c str_of ck req ds) anything"
proof -
  let ?n = "isoformat (vc_now ck)" and ?t = "isoformat (vc_final ck)"
  note k = assms(1) [unfolded clock_ok_def]
  have recovered: "sim c t0 t0 (\<lambda>_. True)
      (modify (\<lambda>d. snd (reconcile_expired_refresh_attempts (aq_run req) ?n d))) anything"
    by (rule sim_modify [where op = "Reconcile (aq_run req) ?n"]) simp_all
  have later: "clock_ok ?n ck" using k by (simp add: clock_ok_def)
  have fin: "sim c ?n ?t (stored s) (finalize_if_resolved c s (vc_now ck)) anything" for s
    using k by (intro sim_relax [OF sim_finalize_if_resolved [of "vc_now ck" ?n]]) simp_all
  have run: "sim c ?n ?t (stored s) (claim_and_run c str_of ck req ds s) anything" for s
    using sim_claim_and_run [OF later assms(2)] by (rule sim_weaken) auto
  have body: "sim c ?n ?t (stored s) (if rr_state (snap_run s) \<noteq> RunRunning then ret s
       else case find (\<lambda>i. wi_key i = aq_expected req) (snap_items s) of
         None \<Rightarrow> fail (Rejected (NotFound (aq_run req)))
       | Some expected \<Rightarrow>
           if resolved_item s expected then finalize_if_resolved c s (vc_now ck)
           else claim_and_run c str_of ck req ds s) anything" for s
  proof (cases "rr_state (snap_run s) = RunRunning")
    case True
    show ?thesis
      using True k fin [of s] run [of s] sim_fail [of ?n ?t c "stored s" "Rejected (NotFound (aq_run req))"]
      by (cases "find (\<lambda>i. wi_key i = aq_expected req) (snap_items s)") simp_all
  next
    case False
    then show ?thesis using k by (simp add: sim_ret)
  qed
  have nt: "?n \<le> ?t" "t0 \<le> ?t" using k by (blast intro: order_trans)+
  have resumed: "sim c t0 ?n (stored s) (resume_refresh_run c s (vc_now ck)) stored" for s
    using k by (intro sim_resume) auto
  show ?thesis
    unfolding advance_refresh_run_def
    by (rule sim_seq [OF recovered sim_seq [OF sim_get [OF order_refl] sim_seq [OF resumed body nt(1)] nt(2)] nt(2)])
qed

section \<open>The API as a machine\<close>

datatype api_call =
    ApiStart start_request deps datetime
  | ApiAdvance advance_request "attempt_ctx \<Rightarrow> deps" advance_clock
  | ApiFinalize run_id datetime

fun call_db :: "codec \<Rightarrow> (json \<Rightarrow> string) \<Rightarrow> api_call \<Rightarrow> db \<Rightarrow> db" where
  "call_db c str_of (ApiStart req ds now) d = snd (start_refresh_run c req ds now d)"
| "call_db c str_of (ApiAdvance req ds ck) d = snd (advance_refresh_run c str_of ck req ds d)"
| "call_db c str_of (ApiFinalize r now) d = snd (finalize_refresh_run c r now d)"

fun call_end :: "api_call \<Rightarrow> timestamp" where
  "call_end (ApiStart req ds now) = isoformat now"
| "call_end (ApiAdvance req ds ck) = isoformat (vc_final ck)"
| "call_end (ApiFinalize r now) = isoformat now"

fun call_ok :: "codec \<Rightarrow> timestamp \<Rightarrow> api_call \<Rightarrow> bool" where
  "call_ok c t0 (ApiStart req ds now) \<longleftrightarrow> is_utc now \<and> t0 \<le> isoformat now"
| "call_ok c t0 (ApiAdvance req ds ck) \<longleftrightarrow> clock_ok t0 ck \<and> (\<forall>ctx. good_deps c (isoformat (vc_final ck)) (ds ctx))"
| "call_ok c t0 (ApiFinalize r now) \<longleftrightarrow> is_utc now \<and> t0 \<le> isoformat now"

inductive api_step :: "codec \<Rightarrow> (json \<Rightarrow> string) \<Rightarrow> engine_state \<Rightarrow> api_call \<Rightarrow> engine_state \<Rightarrow> bool"
  for c str_of where
  "call_ok c seen call \<Longrightarrow> api_step c str_of (seen, d) call (call_end call, call_db c str_of call d)"

lemma call_simulated:
  assumes "engine_inv (seen, d)" "call_ok c seen call"
  shows "\<exists>t. t \<le> call_end call \<and> reaches (engine_step c) (seen, d) (t, call_db c str_of call d)"
proof (cases call)
  case (ApiStart req ds now)
  with assms(2) have "sim c seen (isoformat now) (\<lambda>_. True) (start_refresh_run c req ds now) anything"
    by (intro sim_start) auto
  with assms(1) ApiStart show ?thesis unfolding sim_def by fastforce
next
  case (ApiAdvance req ds ck)
  with assms(2) have "sim c seen (isoformat (vc_final ck)) (\<lambda>_. True) (advance_refresh_run c str_of ck req ds) anything"
    by (intro sim_advance) auto
  with assms(1) ApiAdvance show ?thesis unfolding sim_def by fastforce
next
  case (ApiFinalize r now)
  with assms(2) have "sim c seen (isoformat now) (\<lambda>_. True) (finalize_refresh_run c r now) anything"
    by (intro sim_finalize) auto
  with assms(1) ApiFinalize show ?thesis unfolding sim_def by fastforce
qed

text \<open>The clock may move on without a write.\<close>

lemma reaches_clock: "t \<le> t' \<Longrightarrow> reaches (engine_step c) (t, d) (t', d)"
  by (rule reaches_one [where op = "Outside t' id"], rule engine_step.commit)
    (auto simp: outside_write_def)

interpretation api: refinement "engine_step c" engine_inv "api_step c str_of" for c str_of
proof
  fix s op s'
  assume inv: "engine_inv s" and step: "api_step c str_of s op s'"
  from step show "reaches (engine_step c) s s'"
  proof (cases rule: api_step.cases)
    case (1 seen d)
    with call_simulated [of seen d c op str_of] inv obtain t where
      "t \<le> call_end op" "reaches (engine_step c) (seen, d) (t, call_db c str_of op d)" by auto
    with reaches_clock reaches_trans 1 show ?thesis by metis
  qed
qed

end
