(* ===== verification/ExecutionClaims.thy ===== *)
theory ExecutionClaims
  imports ApiSim EngineLiveness SgsPlanRoundtrip
begin

text \<open>
  The properties of the operations behind the API: they refine the engine, the status they publish agrees
  with the state they store, and what happens to a unit whose commit is found again. The examples run a
  legacy run with one retired source through the API.
\<close>

section \<open>A legacy run through the API\<close>

definition legacy_start :: run_start where
  "legacy_start = \<lparr>st_run = ''run0'', st_cycle = ''cycle0'', st_force = False, st_version = ''daily-refresh-v1'',
     st_derived = None, st_macro = None, st_items = [ex_spec ''polymarket'' 0, ex_spec ''focus'' 1],
     st_now = ex_time ''03:00'', st_expires = ex_time ''05:30'', st_plan = None\<rparr>"

definition failing_deps :: deps where
  "failing_deps =
     (let failing = fail (Exn ''TimeoutError'' IsOther None None None None None None None); phase = fail (OtherFailure ''TimeoutError'')
      in \<lparr>fetch_sgs_batch = (\<lambda>_. failing), fetch_sgs_window = (\<lambda>_. fail (Exn ''TimeoutError'' IsOther None None None None None None None)), fetch_all_focus = (\<lambda>_. failing),
          fetch_focus_12m = (\<lambda>_. failing), fetch_anbima_ima = (\<lambda>_. failing), fetch_di_curves = (\<lambda>_ _. failing),
          refresh_treasury_data = failing, refresh_sidra_data = failing,
          refresh_derived_snapshots = (\<lambda>_ _. phase), observe_rules = None, refresh_macro_score = None\<rparr>)"

definition ex_instant :: "int \<Rightarrow> datetime" where
  "ex_instant m = DateTime (Date 2025 1 2) 3 m 0 0 (Some 0)"

definition ex_clock :: advance_clock where
  "ex_clock = \<lparr>vc_now = ex_instant 1, vc_token = ''t1'', vc_attempt = ''a1'', vc_started = ex_time ''03:02'',
     vc_item = \<lparr>ic_run = \<lparr>ck_started = ex_time ''03:02'', ck_finished = ex_time ''03:02'', ck_duration = 0\<rparr>,
        ic_today = Date 2025 1 2, ic_updated = ex_time ''03:02'', ic_fence = ex_time ''03:02'',
        ic_reconcile = ex_time ''03:02'', ic_mono = (\<lambda>_. 0)\<rparr>,
     vc_returned = ex_time ''03:03'', vc_finished = ex_time ''03:03'', vc_interrupted = ex_time ''03:03'',
     vc_abandoned = ex_time ''03:03'', vc_done = ex_instant 3, vc_final = ex_instant 4\<rparr>"

definition ex_advance :: api_call where
  "ex_advance = ApiAdvance \<lparr>aq_run = ''run0'', aq_expected = ''polymarket''\<rparr> (\<lambda>_. failing_deps) ex_clock"

lemma failing_deps_good: "good_deps c t failing_deps"
  by (simp add: good_deps_def failing_deps_def runs_fail Let_def)

definition legacy_ops :: "engine_op list" where
  "legacy_ops =
     [Start legacy_start,
      Claim \<lparr>cr_run = ''run0'', cr_now = ex_time ''03:00'', cr_expires = ex_time ''03:10'', cr_expected = Some ''polymarket''\<rparr> ''t1'',
      Complete \<lparr>co_run = ''run0'', co_key = ''polymarket'', co_token = ''t1'', co_status = OutSkipped,
        co_finished = ex_time ''03:00'', co_series = 0, co_records = 0, co_error = Some ''retired_source'', co_category = None\<rparr>,
      Claim \<lparr>cr_run = ''run0'', cr_now = ex_time ''03:00'', cr_expires = ex_time ''03:10'', cr_expected = Some ''focus''\<rparr> ''t2'',
      Complete \<lparr>co_run = ''run0'', co_key = ''focus'', co_token = ''t2'', co_status = OutSucceeded,
        co_finished = ex_time ''03:00'', co_series = 5, co_records = 60, co_error = None, co_category = None\<rparr>]"

definition legacy_state :: engine_state where
  "legacy_state = ex_state legacy_ops"

lemma legacy_reachable: "engine_reachable ex_codec legacy_state" "fst legacy_state = ex_time ''03:00''"
proof -
  show "engine_reachable ex_codec legacy_state"
    unfolding legacy_state_def by (rule ex_reach) code_simp
  show "fst legacy_state = ex_time ''03:00''" by code_simp
qed

lemma legacy_advanced:
  "map rr_state (db_runs (call_db ex_codec (\<lambda>_. []) ex_advance (snd legacy_state))) = [RunPartial]"
  by code_simp


section \<open>Refinement\<close>

text \<open>C26: The API refines the engine: whatever sequence of starts, advances and finalizations is served, with
  non-decreasing clocks and with dependencies that only run engine transactions, the database stays among the
  states of the engine and only grows from one to the next. So every guarantee on reachable states (one live
  claim, frozen finished runs, fenced writes, ordered cutoffs) holds behind the API, also when a call raises
  half-way.\<close>

theorem api_refines_engine:
  assumes "engine_reachable c s" and "reaches (api_step c str_of) s s'"
  shows "engine_reachable c s' \<and> engine_grows s s'"
proof -
  have "engine_inv s" using assms(1) by (rule reachable_inv)
  then have steps: "reaches (engine_step c) s s'" by (rule api.reaches_abstract [OF assms(2)])
  then have "engine_reachable c s'"
    using assms(1) unfolding engine_reachable_def by (rule reaches_trans)
  with reachable_step [OF assms(1) steps] show ?thesis by blast
qed

theorem api_refines_engine_witness:
  "\<exists>s. engine_reachable ex_codec s \<and> map rr_state (db_runs (snd s)) = [RunPartial]
     \<and> db_leases (snd s) DAILY_REFRESH_LEASE = None"
proof -
  define s where "s = (call_end ex_advance, call_db ex_codec (\<lambda>_. []) ex_advance (snd legacy_state))"
  have "clock_ok (ex_time ''03:00'') ex_clock" by code_simp
  then have "call_ok ex_codec (fst legacy_state) ex_advance"
    unfolding ex_advance_def legacy_reachable(2) call_ok.simps using failing_deps_good by blast
  then have "api_step ex_codec (\<lambda>_. []) (fst legacy_state, snd legacy_state) ex_advance s"
    unfolding s_def by (rule api_step.intros)
  then have step: "api_step ex_codec (\<lambda>_. []) legacy_state ex_advance s" by (simp only: prod.collapse)
  have "engine_reachable ex_codec s"
    by (rule conjunct1 [OF api_refines_engine [OF legacy_reachable(1) reaches_one [of "api_step ex_codec (\<lambda>_. [])", OF step]]])
  moreover have "map rr_state (db_runs (snd s)) = [RunPartial]" unfolding s_def snd_conv by (rule legacy_advanced)
  moreover have "db_leases (snd s) DAILY_REFRESH_LEASE = None" unfolding s_def snd_conv by code_simp
  ultimately show ?thesis by (intro exI [of _ s] conjI)
qed

section \<open>Publishing the result\<close>

text \<open>Every item of a run that may be finalized is reported.\<close>

lemma finished_item_reported:
  assumes "\<not> unfinished_item v6 (wi_run i) i"
  shows "reported_status i \<noteq> None"
    and "reported_status i = Some ''ok'' \<longleftrightarrow> wi_status i = Succeeded"
    and "reported_status i \<in> {Some ''error'', Some ''skipped''} \<longleftrightarrow> wi_status i \<in> {Failed, Skipped}"
    and "reported_status i \<in> {Some ''ok'', Some ''partial'', Some ''error'', Some ''skipped''}"
  using assms by (cases "wi_status i"; auto simp: reported_status_def unfinished_item_def)+

lemma reports_all:
  assumes "\<forall>i \<in> set is. reported_status i \<noteq> None"
  shows "reports is = map (\<lambda>i. (i, the (reported_status i))) is"
  using assms by (induction "is") (auto simp: reports_def List.map_filter_simps)

lemma overall_status_of_final:
  assumes "\<forall>i \<in> set is. \<not> unfinished_item v6 (wi_run i) i"
  shows "overall_status (map snd (reports is)) =
    (case final_state_of is of FinalSucceeded \<Rightarrow> ''ok'' | FinalPartial \<Rightarrow> ''partial'' | FinalFailed \<Rightarrow> ''error'')"
proof -
  have r: "map snd (reports is) = map (\<lambda>i. the (reported_status i)) is"
    using assms finished_item_reported(1) by (subst reports_all) auto
  have ok: "the (reported_status i) = ''ok'' \<longleftrightarrow> wi_status i = Succeeded"
    and some: "the (reported_status i) \<in> {''ok'', ''partial''} \<longleftrightarrow> wi_status i \<notin> {Failed, Skipped}" if "i \<in> set is" for i
    using finished_item_reported(2-4) [of v6 i] assms that by force+
  have "list_all (\<lambda>s. s = ''ok'') (map snd (reports is)) \<longleftrightarrow> list_all (\<lambda>i. wi_status i = Succeeded) is"
    unfolding r list_all_iff using ok by simp
  moreover have "list_ex (\<lambda>s. s \<in> {''ok'', ''partial''}) (map snd (reports is))
      \<longleftrightarrow> \<not> list_all (\<lambda>i. wi_status i \<in> {Failed, Skipped}) is"
    unfolding r list_ex_iff list_all_iff using some by auto
  ultimately show ?thesis by (simp only: overall_status_def final_state_of_def split: if_splits) simp
qed

text \<open>C27: What a finalization publishes agrees with what it stores. The result document reports every item of
  the run, in order, none left out, and its overall status is ok, partial or error exactly as the run's stored
  state is succeeded, partial or failed.\<close>

theorem published_status_agrees:
  assumes "read_snapshot d r = Some snap"
    and "finalize_and_release_run (final_request c snap now) d = Inr (True, d')"
  shows "map fst (reports (snap_items snap)) = snap_items snap
    \<and> (\<exists>x. find_run d' r = Some x \<and> rr_final_result x = Some (dumps c (final_result_json (snap_items snap)))
        \<and> (rr_state x, overall_status (map snd (reports (snap_items snap))))
            \<in> {(RunSucceeded, ''ok''), (RunPartial, ''partial''), (RunFailed, ''error'')})"
proof -
  let ?q = "final_request c snap now" and ?is = "snap_items snap"
  from assms(1) obtain run where run: "find_run d r = Some run" "snap_run snap = run" "?is = run_items d r" "rr_id run = r"
    by (auto simp: read_snapshot_def split: option.splits dest: find_run_SomeD)
  have q: "fi_run ?q = r" "fi_state ?q = final_state_of ?is" "fi_result ?q = dumps c (final_result_json ?is)"
    using run by (simp_all add: final_request_def)
  obtain t success where f: "rr_state run = RunRunning"
    "\<not> exists_where (unfinished_item (is_v6 (rr_version run)) r) (db_items d)"
    "d' = set_lease DAILY_REFRESH_LEASE None (stamp_success success (finalize_run_row ?q t d))"
    using finalize_True [OF assms(2)] run(1) unfolding q by (metis option.inject)
  have mem: "i \<in> set (db_items d) \<and> wi_run i = r" if "i \<in> set ?is" for i
    using that run(3) by (auto simp: run_items_def)
  have fin: "\<forall>i \<in> set ?is. \<not> unfinished_item (is_v6 (rr_version run)) (wi_run i) i"
    using mem f(2) by (auto simp: exists_where_iff)
  have "find_run d' r = Some (finalized_run ?q t run)"
    using run f(1) q(1) by (simp add: f(3) find_run_def find_update)
  moreover have all: "\<forall>i \<in> set ?is. reported_status i \<noteq> None"
    using fin finished_item_reported(1) by blast
  have "map fst (reports ?is) = ?is"
    unfolding reports_all [OF all] by (simp add: comp_def)
  moreover note overall_status_of_final [OF fin]
  ultimately show ?thesis
    by (cases "final_state_of ?is") (simp_all add: q finalized_run_def)
qed

definition legacy_snapshot :: run_snapshot where
  "legacy_snapshot = the (read_snapshot (snd legacy_state) ''run0'')"

theorem published_status_agrees_witness:
  "\<exists>d'. finalize_and_release_run (final_request ex_codec legacy_snapshot (ex_instant 4)) (snd legacy_state) = Inr (True, d')
     \<and> map wi_task (map fst (reports (snap_items legacy_snapshot))) = [''polymarket'', ''focus'']
     \<and> overall_status (map snd (reports (snap_items legacy_snapshot))) = ''partial''"
proof -
  have read: "read_snapshot (snd legacy_state) ''run0'' = Some legacy_snapshot"
    unfolding legacy_snapshot_def by (rule option.collapse [symmetric]) code_simp
  have "case finalize_and_release_run (final_request ex_codec legacy_snapshot (ex_instant 4)) (snd legacy_state) of
      Inl _ \<Rightarrow> False | Inr p \<Rightarrow> fst p" by code_simp
  then obtain d' where d': "finalize_and_release_run (final_request ex_codec legacy_snapshot (ex_instant 4))
      (snd legacy_state) = Inr (True, d')"
    by (cases "finalize_and_release_run (final_request ex_codec legacy_snapshot (ex_instant 4)) (snd legacy_state)") auto
  have "map fst (reports (snap_items legacy_snapshot)) = snap_items legacy_snapshot"
    by (rule conjunct1 [OF published_status_agrees [OF read d']])
  moreover have "map wi_task (snap_items legacy_snapshot) = [''polymarket'', ''focus'']" by code_simp
  moreover have "overall_status (map snd (reports (snap_items legacy_snapshot))) = ''partial''" by code_simp
  ultimately show ?thesis using d' by (intro exI [of _ d'] conjI) (simp_all only:)
qed

section \<open>Reconciled units\<close>

lemma seq_value: "m d = (Inr x, d1) \<Longrightarrow> seq m f d = f x d1"
  by (simp add: seq_def)

lemma reconciled_keys:
  "map_of (te_result (reconciled_execution t)) ''error_code'' = None"
  "map_of (te_result (reconciled_execution t)) ''retry_not_before'' = None"
  by (simp_all add: reconciled_execution_def)

lemma reconcile_keeps_items:
  assumes "reconcile_sgs_unit_commit b now d = Inr (k, d')"
  shows "db_items d' = db_items d"
proof -
  have v: "db_items e' = db_items e" if "record_verified_coverage v t e = Inr (f, e')" for v t e f e'
    using that by (auto simp: record_verified_coverage_def verify_unit_def bindE_Inr_iff split: if_splits option.splits)
  show ?thesis using assms
    by (auto simp: reconcile_sgs_unit_commit_def bindE_Inr_iff Let_def split: option.splits if_splits dest!: v)
qed

text \<open>C28: A unit whose commit is found again is never completed. When its plan unit has a stored commit, the item
  runs without any request and returns the reconciled result; that result has no error code, so settling it
  raises a \<open>KeyError\<close>, writes nothing and leaves the item claimed. The advance fails although the data are
  committed.\<close>

theorem reconciled_unit_is_not_completed:
  assumes "rr_version (snap_run snap) = ''daily-refresh-v6''" and "startswith task ''sgs_plan_''"
    and "sgs_plan_unit_for_task c (rr_id (snap_run snap)) task d = Inr (Some u)"
    and "\<not> sgs_semantic_contract_conflict u"
    and "current_sgs_plan_binding c active (u_code u) (u_start u) (u_end u) d = Inr (Some b)"
    and "reconcile_sgs_unit_commit b (ic_reconcile ck) d = Inr (Some k, d')"
  shows "execute_refresh_item c str_of active ck task snap ds now d = (Inr (reconciled_execution task), d')
    \<and> settle_item c vck r snap claim (reconciled_execution task) d' = (Inl (PyFail KeyError), d')
    \<and> db_items d' = db_items d"
proof -
  have found: "already_committed c active ck u d = (Inr True, d')"
    using assms(5,6) by (simp add: already_committed_def ask_seq)
  have run: "execute_sgs_unit c str_of active ck task snap ds now d = (Inr (reconciled_execution task), d')"
    using assms(3,4) by (simp add: execute_sgs_unit_def ask_seq seq_value [of "already_committed c active ck u" d True d', OF found])
  have "completion_outcome (reconciled_execution task) = Inl (PyFail KeyError)"
    by (simp add: completion_outcome_def reconciled_keys)
  then have "complete_and_finalize c vck r snap claim (reconciled_execution task) d' = (Inl (PyFail KeyError), d')"
    by (simp add: complete_and_finalize_def item_completion_def ask_seq)
  moreover have "deferral_advice claim (reconciled_execution task) d' = (None, None)"
    by (simp add: deferral_advice_def result_text_def reconciled_keys)
  ultimately have "settle_item c vck r snap claim (reconciled_execution task) d' = (Inl (PyFail KeyError), d')"
    by (simp add: settle_item_def ask_seq)
  with run assms(1,2) reconcile_keeps_items [OF assms(6)] show ?thesis by (simp add: execute_refresh_item_def)
qed

text \<open>A frozen plan whose first unit has a stored commit.\<close>

definition planned_run :: run_record where
  "planned_run = \<lparr>rr_id = ''r1'', rr_cycle = ''c1'', rr_state = RunRunning, rr_force = False,
     rr_version = ''daily-refresh-v6'', rr_derived_cutoff = None, rr_macro_cutoff = None,
     rr_created = ex_time ''03:00'', rr_updated = ex_time ''03:00'', rr_finished = None, rr_final_result = None\<rparr>"

definition commit_for :: "sgs_unit \<Rightarrow> unit_commit" where
  "commit_for u = \<lparr>uc_operation = ''x1'', uc_extraction = ''x1'', uc_run = ''r1'', uc_unit = u_id u, uc_plan = ''00'',
     uc_code = u_code u, uc_contract_id = u_contract_id u, uc_contract_version = u_contract_version u,
     uc_identity = u_identity u, uc_role = u_role u, uc_policy = u_policy u, uc_start = u_start u, uc_end = u_end u,
     uc_payload = replicate 64 CHR ''a'', uc_canonical = replicate 64 CHR ''a'', uc_count = 12,
     uc_ref_start = u_start u, uc_ref_end = u_end u, uc_captured = ex_instant 0\<rparr>"

definition committed_db :: "sgs_unit \<Rightarrow> db" where
  "committed_db u = empty_db\<lparr>db_runs := [planned_run],
     db_plans := [''r1'' \<mapsto> \<lparr>pr_version = PLAN_VERSION, pr_as_of = ''2026-10-30'', pr_json = ''{}'', pr_sha = ''00'',
       pr_created = ex_time ''03:00''\<rparr>],
     db_unit_commits := [commit_for u]\<rparr>"

definition unit_ctx :: "sgs_unit \<Rightarrow> attempt_ctx" where
  "unit_ctx u = \<lparr>ac_id = ''a1'', ac_run = ''r1'', ac_item = plan_item_task_name u, ac_number = 1, ac_generation = 1,
     ac_token = ''t1'', ac_expires = ex_time ''04:00''\<rparr>"

lemma committed_unit_reconciles:
  assumes "u_role u = Recent"
  shows "\<exists>k. reconcile_sgs_unit_commit \<lparr>pb_run = ''r1'', pb_sha = ''00'', pb_unit = u\<rparr> now (committed_db u)
    = Inr (Some k, committed_db u)"
proof -
  have "hex64 (replicate 64 CHR ''a'')" "astimezone_utc (ex_instant 0) = Inr (ex_instant 0)"
    "offset (ex_instant 0) \<noteq> None" by code_simp+
  then show ?thesis using assms
    by (simp add: reconcile_sgs_unit_commit_def latest_commit_def committed_db_def commit_for_def
        unit_commit_matches_binding_def Let_def)
qed

lemma planned_unit:
  obtains c p u where "read_sgs_plan c ''r1'' (committed_db u) = Inr (Some p)"
    "find (\<lambda>x. plan_item_task_name x = plan_item_task_name u) (p_units p) = Some u" "u_role u = Recent"
    "u_policy u = POLICY_VERSION" "\<not> sgs_semantic_contract_conflict u"
proof -
  have day: "valid_date (Date 2026 10 30)" "2016 \<le> year (Date 2026 10 30)" by code_simp+
  have no: "receipts_dated []" by (simp add: receipts_dated_def)
  obtain p where p: "build_sgs_plan (replay_codec JNull) (Date 2026 10 30) [] None 4 [] = Inr p"
    using build_sgs_plan_parts [OF day no, of 4 "replay_codec JNull" None "[]"] by auto
  let ?c = "replay_codec (plan_json p)"
  have built: "build_sgs_plan ?c (Date 2026 10 30) [] None 4 [] = Inr p" using p build_ignores_loads by metis
  have wf: "plan_well_formed ?c p" by (rule built_plan_well_formed [OF day no _ _ _ built]) simp_all
  have "loads ?c (plan_text ?c p) = Inr (plan_json p)" "plan_text ?c p = ''{}''"
    by (simp_all add: replay_codec_def plan_text_def)
  with parse_frozen [OF wf] have parsed: "parse_plan_text ?c ''{}'' = Inr p" by simp
  have specs: "length SPECS = 68" by code_simp
  have "map u_code (recents p) = sort (map is_code SPECS)"
    by (rule built_plan_shape(1) [OF day no _ _ built]) simp_all
  then have "length (map u_code (recents p)) = length (sort (map is_code SPECS))" by (rule arg_cong)
  then have "length (recents p) = 68" by (simp only: length_map length_sort specs)
  then obtain u us where us: "recents p = u # us" by (cases "recents p") auto
  obtain s i where s: "s \<in> set SPECS" "u = made_unit ?c s Recent (recent_from s (p_as_of p)) (p_as_of p) i"
    using wf us by (auto simp: plan_well_formed_def)
  show thesis
  proof (rule that)
    show "read_sgs_plan ?c ''r1'' (committed_db u) = Inr (Some p)"
      using parsed wf by (simp add: read_sgs_plan_def committed_db_def plan_well_formed_def) (simp add: replay_codec_def)
    show "find (\<lambda>x. plan_item_task_name x = plan_item_task_name u) (p_units p) = Some u"
      using wf us by (simp add: plan_well_formed_def)
    show "u_role u = Recent" using s(2) by simp
    show "u_policy u = POLICY_VERSION" using s(2) by (simp add: made_unit_def)
    show "\<not> sgs_semantic_contract_conflict u"
      using s(2) by (simp add: sgs_semantic_contract_conflict_def made_unit_def contract_of_def pib_contract_def)
  qed
qed

definition planned_snapshot :: run_snapshot where
  "planned_snapshot = \<lparr>snap_run = planned_run, snap_items = [], snap_lease = None\<rparr>"

theorem reconciled_unit_is_not_completed_witness:
  "\<exists>c u d. find_run d ''r1'' = Some planned_run \<and> db_unit_commits d \<noteq> []
     \<and> execute_refresh_item c (\<lambda>_. []) (Some (unit_ctx u)) (vc_item ex_clock) (plan_item_task_name u) planned_snapshot
         failing_deps (ex_instant 1) d = (Inr (reconciled_execution (plan_item_task_name u)), d)
     \<and> (\<forall>claim. settle_item c ex_clock ''r1'' planned_snapshot claim (reconciled_execution (plan_item_task_name u)) d
         = (Inl (PyFail KeyError), d))"
proof -
  obtain c p u where u: "read_sgs_plan c ''r1'' (committed_db u) = Inr (Some p)"
    "find (\<lambda>x. plan_item_task_name x = plan_item_task_name u) (p_units p) = Some u" "u_role u = Recent"
    "u_policy u = POLICY_VERSION" "\<not> sgs_semantic_contract_conflict u" by (rule planned_unit)
  have v: "rr_version (snap_run planned_snapshot) = ''daily-refresh-v6''" "rr_id (snap_run planned_snapshot) = ''r1''"
    "find_run (committed_db u) ''r1'' = Some planned_run" "rr_version planned_run = ''daily-refresh-v6''"
    by (simp_all add: planned_snapshot_def planned_run_def committed_db_def find_run_def)
  have named: "startswith (plan_item_task_name u) ''sgs_plan_''" by (simp add: plan_item_task_name_def startswith_def)
  have unit: "sgs_plan_unit_for_task c (rr_id (snap_run planned_snapshot)) (plan_item_task_name u) (committed_db u) = Inr (Some u)"
    using u(1,2) by (simp add: sgs_plan_unit_for_task_def v)
  have "binds_scope u (u_code u) (u_start u) (u_end u)"
    using u(4) by (simp add: binds_scope_def SUPPORTED_POLICY_VERSIONS_def)
  then have bound: "current_sgs_plan_binding c (Some (unit_ctx u)) (u_code u) (u_start u) (u_end u) (committed_db u)
      = Inr (Some \<lparr>pb_run = ''r1'', pb_sha = ''00'', pb_unit = u\<rparr>)"
    using u(1,2) v named by (simp add: current_sgs_plan_binding_def unit_ctx_def CURRENT_REFRESH_MANIFEST_VERSION_def)
      (simp add: committed_db_def)
  obtain k where k: "reconcile_sgs_unit_commit \<lparr>pb_run = ''r1'', pb_sha = ''00'', pb_unit = u\<rparr>
      (ic_reconcile (vc_item ex_clock)) (committed_db u) = Inr (Some k, committed_db u)"
    using committed_unit_reconciles [OF u(3)] by blast
  note stuck = reconciled_unit_is_not_completed [OF v(1) named unit u(5) bound k]
  have "db_unit_commits (committed_db u) \<noteq> []" by (simp add: committed_db_def)
  with stuck v(3) show ?thesis by blast
qed

end
