(* ===== verification/RunClient.thy ===== *)
theory RunClient
  imports Handlers
begin

text \<open>
  The client that drives a refresh run over HTTP (\<open>refresh_run_client.py\<close>). The server, the clocks and
  \<open>time.sleep\<close> are operations on a world of any type; \<open>pydantic\<close>'s validation of a status document and of a
  result document is an argument. Durations are exact rationals where Python has floats.
\<close>

section \<open>Documents\<close>

record client_run =
  cr_id :: string
  cr_cycle_id :: string
  cr_state :: run_state
  cr_force :: bool
  cr_version :: string
  cr_final :: "string option"
  cr_next_due :: "string option"
  cr_due_key :: "string option"

record client_item =
  ci_key :: string
  ci_task :: "string option"
  ci_status :: item_status
  ci_attempt :: int
  ci_expires :: "string option"
  ci_generation :: int
  ci_acquisitions :: int
  ci_next_at :: "string option"
  ci_deferral :: "string option"
  ci_category :: "string option"
  ci_last_category :: "string option"

record client_snapshot =
  cs_run :: client_run
  cs_items :: "client_item list"

datatype refresh_status = RsOk | RsPartial | RsError

datatype report_status = TsOk | TsPartial | TsError | TsSkipped

record final_task =
  ft_name :: string
  ft_status :: report_status
  ft_error :: "string option"
  ft_acquisition :: "string option"
  ft_retry :: "string option"
  ft_deferral :: "string option"
  ft_category :: "string option"
  ft_last_code :: "string option"
  ft_last_category :: "string option"

record final_result =
  fr_status :: refresh_status
  fr_tasks :: "final_task list"

record client_config =
  cf_base :: string
  cf_run :: string
  cf_cycle :: string
  cf_token :: string
  cf_force :: bool
  cf_max_wait :: int
  cf_max_in_run_wait :: int
  cf_resume :: bool

record client_result =
  cl_status :: refresh_status
  cl_tasks :: "json list"
  cl_http :: int
  cl_latency :: rat

datatype client_error = ClientError string | ClientPy py_error

section \<open>The world\<close>

record http_request =
  hr_url :: string
  hr_method :: string
  hr_timeout :: rat
  hr_token :: string
  hr_body :: "json option"

text \<open>A request is answered, or raises one of the three exceptions the client expects.\<close>

datatype http_reply = Reply int json | Unreachable

record 'w world =
  wo_request :: "http_request \<Rightarrow> 'w \<Rightarrow> http_reply \<times> 'w"
  wo_now :: "'w \<Rightarrow> datetime \<times> 'w"
  wo_monotonic :: "'w \<Rightarrow> rat \<times> 'w"
  wo_perf_counter :: "'w \<Rightarrow> rat \<times> 'w"
  wo_sleep :: "rat \<Rightarrow> 'w \<Rightarrow> 'w"

record validation =
  va_snapshot :: "json \<Rightarrow> client_snapshot option"
  va_loads :: "string \<Rightarrow> json option"
  va_final :: "json \<Rightarrow> final_result option"

type_synonym ('w, 'a) client = "'w \<Rightarrow> (client_error + 'a) \<times> 'w"

definition call :: "('w \<Rightarrow> 'a \<times> 'w) \<Rightarrow> ('w, 'a) client" where
  "call f w = (case f w of (x, w') \<Rightarrow> (Inr x, w'))"

definition raising :: "py_error + 'a \<Rightarrow> ('w, 'a) client" where
  "raising r = (case r of Inl e \<Rightarrow> fail (ClientPy e) | Inr x \<Rightarrow> ret x)"

definition client_fail :: "string \<Rightarrow> ('w, 'a) client" where
  "client_fail code = fail (ClientError code)"

section \<open>Reading a status\<close>

definition accepted_versions :: "client_config \<Rightarrow> string list" where
  "accepted_versions cfg =
     (if cf_resume cfg then SUPPORTED_REFRESH_MANIFEST_VERSIONS else [CURRENT_REFRESH_MANIFEST_VERSION])"

definition same_workflow :: "client_config \<Rightarrow> client_snapshot \<Rightarrow> bool" where
  "same_workflow cfg s \<longleftrightarrow>
     cr_id (cs_run s) = cf_run cfg \<and> cr_cycle_id (cs_run s) = cf_cycle cfg \<and> cr_force (cs_run s) = cf_force cfg
     \<and> cr_version (cs_run s) \<in> set (accepted_versions cfg)"

definition snapshot :: "validation \<Rightarrow> client_config \<Rightarrow> json \<Rightarrow> ('w, client_snapshot) client" where
  "snapshot va cfg payload =
     (case va_snapshot va payload of
        None \<Rightarrow> client_fail ''refresh run returned an invalid status document''
      | Some s \<Rightarrow>
          if \<not> same_workflow cfg s then client_fail ''refresh run status disagrees with the stable workflow identity''
          else ret s)"

definition run_url :: "client_config \<Rightarrow> string" where
  "run_url cfg = cf_base cfg @ ''/api/refresh-runs/'' @ cf_run cfg"

definition request :: "client_config \<Rightarrow> string \<Rightarrow> string \<Rightarrow> rat \<Rightarrow> json option \<Rightarrow> http_request" where
  "request cfg url meth timeout body =
     \<lparr>hr_url = url, hr_method = meth, hr_timeout = timeout, hr_token = cf_token cfg, hr_body = body\<rparr>"

definition send :: "'w world \<Rightarrow> http_request \<Rightarrow> ('w, http_reply) client" where
  "send wo q = call (wo_request wo q)"

definition pause :: "'w world \<Rightarrow> rat \<Rightarrow> ('w, unit) client" where
  "pause wo s = call (\<lambda>w. ((), wo_sleep wo s w))"

definition status_refused :: "string \<Rightarrow> int \<Rightarrow> ('w, 'a) client" where
  "status_refused what status = client_fail (what @ '' returned HTTP '' @ show_int status)"

text \<open>The attempts still to make, of three; a failed one is followed by a pause unless it was the last.\<close>

fun read_attempts ::
    "'w world \<Rightarrow> validation \<Rightarrow> client_config \<Rightarrow> nat \<Rightarrow> ('w, client_snapshot option) client" where
  "read_attempts wo va cfg 0 = client_fail ''refresh run status could not reconcile the request''"
| "read_attempts wo va cfg (Suc n) =
     (let again = (if n = 0 then read_attempts wo va cfg n
                   else seq (pause wo (rat_of_nat (3 - n))) (\<lambda>_. read_attempts wo va cfg n))
      in seq (send wo (request cfg (run_url cfg) ''GET'' 30 None)) (\<lambda>r.
           case r of
             Unreachable \<Rightarrow> again
           | Reply status payload \<Rightarrow>
               if status = 404 then ret None
               else if status = 200 then seq (snapshot va cfg payload) (\<lambda>s. ret (Some s))
               else if status \<in> {401, 403, 409, 422, 503} then status_refused ''refresh run status'' status
               else again))"

definition read_status :: "'w world \<Rightarrow> validation \<Rightarrow> client_config \<Rightarrow> ('w, client_snapshot option) client" where
  "read_status wo va cfg = read_attempts wo va cfg 3"

section \<open>The three posts\<close>

definition start_body :: "client_config \<Rightarrow> json" where
  "start_body cfg =
     JObj [(''run_id'', JStr (cf_run cfg)), (''cycle_id'', JStr (cf_cycle cfg)), (''force'', JBool (cf_force cfg))]"

fun start_attempts :: "'w world \<Rightarrow> validation \<Rightarrow> client_config \<Rightarrow> nat \<Rightarrow> ('w, client_snapshot) client" where
  "start_attempts wo va cfg 0 = client_fail ''refresh run start outcome could not be reconciled''"
| "start_attempts wo va cfg (Suc n) =
     (let reconcile = seq (read_status wo va cfg) (\<lambda>s. case s of
            Some snap \<Rightarrow> ret snap | None \<Rightarrow> start_attempts wo va cfg n)
      in seq (send wo (request cfg (cf_base cfg @ ''/api/refresh-runs'') ''POST'' 30 (Some (start_body cfg)))) (\<lambda>r.
           case r of
             Unreachable \<Rightarrow> reconcile
           | Reply status payload \<Rightarrow>
               if status = 200 then snapshot va cfg payload
               else if status = 409 then
                 seq (read_status wo va cfg) (\<lambda>s. case s of
                   Some snap \<Rightarrow> ret snap | None \<Rightarrow> status_refused ''refresh run start'' status)
               else if status \<in> {401, 403, 422, 503} then status_refused ''refresh run start'' status
               else reconcile))"

definition start_run :: "'w world \<Rightarrow> validation \<Rightarrow> client_config \<Rightarrow> ('w, client_snapshot) client" where
  "start_run wo va cfg =
     seq (if cf_resume cfg
          then seq (read_status wo va cfg) (\<lambda>s. case s of
            None \<Rightarrow> client_fail ''requested refresh run does not exist; refusing to create a new run''
          | Some _ \<Rightarrow> ret ())
          else ret ()) (\<lambda>_. start_attempts wo va cfg 2)"

definition post_item :: "'w world \<Rightarrow> validation \<Rightarrow> client_config \<Rightarrow> string \<Rightarrow> ('w, client_snapshot option) client" where
  "post_item wo va cfg item_key =
     seq (send wo (request cfg (run_url cfg @ ''/advance'') ''POST'' 300
            (Some (JObj [(''expected_item_key'', JStr item_key)])))) (\<lambda>r.
       case r of
         Unreachable \<Rightarrow> read_status wo va cfg
       | Reply status payload \<Rightarrow>
           if status = 200 then seq (snapshot va cfg payload) (\<lambda>s. ret (Some s))
           else if status = 409 then read_status wo va cfg
           else if status \<in> {401, 403, 404, 422, 503} then status_refused ''refresh item advance'' status
           else read_status wo va cfg)"

definition post_finalize :: "'w world \<Rightarrow> validation \<Rightarrow> client_config \<Rightarrow> ('w, client_snapshot option) client" where
  "post_finalize wo va cfg =
     seq (send wo (request cfg (run_url cfg @ ''/finalize'') ''POST'' 30 None)) (\<lambda>r.
       case r of
         Unreachable \<Rightarrow> read_status wo va cfg
       | Reply status payload \<Rightarrow>
           if status = 200 then seq (snapshot va cfg payload) (\<lambda>s. ret (Some s))
           else if status \<in> {401, 403, 404, 422, 503} then status_refused ''refresh run finalization'' status
           else read_status wo va cfg)"

section \<open>What to do next\<close>

definition text_or :: "string option \<Rightarrow> string option \<Rightarrow> string option" where
  "text_or a b = (if a = None \<or> a = Some [] then b else a)"

text \<open>\<open>a > b\<close> of datetimes: one with and one without an offset raises a \<open>TypeError\<close>.\<close>

definition is_after :: "datetime \<Rightarrow> datetime \<Rightarrow> py_error + bool" where
  "is_after a b =
     (if (offset a = None) = (offset b = None) then Inr (instant b < instant a) else Inl TypeError)"

definition client_retryable :: "client_run \<Rightarrow> client_item \<Rightarrow> bool" where
  "client_retryable run i \<longleftrightarrow>
     (if cr_version run \<noteq> CURRENT_REFRESH_MANIFEST_VERSION then ci_attempt i < int MAX_WORK_ITEM_ATTEMPTS
      else failed_work_item_is_retryable (ci_task i) (text_or (ci_last_category i) (ci_category i))
             (nat (ci_acquisitions i)) (nat (ci_attempt i)) MAX_WORK_ITEM_ATTEMPTS)"

definition waits :: "client_item \<Rightarrow> datetime \<Rightarrow> py_error + bool" where
  "waits i now =
     (case ci_next_at i of
        None \<Rightarrow> Inr False
      | Some t \<Rightarrow> bindE (fromisoformat (zulu_to_offset t)) (\<lambda>retry_at. is_after retry_at now))"

fun first_item :: "client_run \<Rightarrow> datetime \<Rightarrow> client_item list \<Rightarrow> py_error + client_item option" where
  "first_item run now [] = Inr None"
| "first_item run now (i # is) =
     (if int MAX_WORK_ITEM_ATTEMPTS \<le> ci_acquisitions i then first_item run now is
      else bindE (waits i now) (\<lambda>w.
        if w then first_item run now is
        else if ci_status i \<in> {Pending, Claimed} then Inr (Some i)
        else if ci_status i = Failed \<and> client_retryable run i then Inr (Some i)
        else first_item run now is))"

definition preferred :: "client_snapshot \<Rightarrow> client_item list" where
  "preferred s =
     (case cr_due_key (cs_run s) of
        None \<Rightarrow> cs_items s
      | Some k \<Rightarrow> sort_key (\<lambda>i. ci_key i \<noteq> k) (cs_items s))"

definition next_item :: "'w world \<Rightarrow> client_snapshot \<Rightarrow> ('w, client_item option) client" where
  "next_item wo s = seq (call (wo_now wo)) (\<lambda>now. raising (first_item (cs_run s) now (preferred s)))"

definition next_due :: "client_snapshot \<Rightarrow> ('w, datetime option) client" where
  "next_due s =
     (case cr_next_due (cs_run s) of
        None \<Rightarrow> ret None
      | Some raw \<Rightarrow>
          (case fromisoformat (zulu_to_offset raw) of
             Inl e \<Rightarrow> client_fail ''refresh run returned an invalid next eligibility timestamp''
           | Inr due \<Rightarrow>
               if offset due = None
               then client_fail ''refresh run returned a timezone-naive next eligibility timestamp''
               else raising (bindE (astimezone_utc due) (\<lambda>u. Inr (Some u)))))"

definition claim_is_active :: "'w world \<Rightarrow> client_item \<Rightarrow> ('w, bool) client" where
  "claim_is_active wo i =
     (if ci_status i \<noteq> Claimed then ret False
      else case ci_expires i of
        None \<Rightarrow> ret False
      | Some t \<Rightarrow> seq (raising (fromisoformat t)) (\<lambda>expires_at.
          seq (call (wo_now wo)) (\<lambda>now. raising (is_after expires_at now))))"

section \<open>The result\<close>

definition stored_result :: "validation \<Rightarrow> client_snapshot \<Rightarrow> ('w, final_result) client" where
  "stored_result va s =
     (case cr_final (cs_run s) of
        None \<Rightarrow> client_fail ''terminal refresh run has no final result''
      | Some text \<Rightarrow>
          (case va_loads va text of
             None \<Rightarrow> client_fail ''terminal refresh run has an invalid final result''
           | Some parsed \<Rightarrow>
               (case va_final va parsed of
                  None \<Rightarrow> client_fail ''terminal refresh run has an invalid final result''
                | Some final \<Rightarrow> ret final)))"

fun report_status_text :: "report_status \<Rightarrow> string" where
  "report_status_text TsOk = ''ok''"
| "report_status_text TsPartial = ''partial''"
| "report_status_text TsError = ''error''"
| "report_status_text TsSkipped = ''skipped''"

definition when_set :: "string \<Rightarrow> string option \<Rightarrow> (string \<times> json) list" where
  "when_set key v = (case v of None \<Rightarrow> [] | Some t \<Rightarrow> if t = [] then [] else [(key, JStr t)])"

definition task_document :: "final_task \<Rightarrow> json" where
  "task_document t =
     JObj ([(''name'', JStr (ft_name t)), (''status'', JStr (report_status_text (ft_status t))),
            (''error_code'', json_opt (ft_error t))]
       @ when_set ''acquisition_status'' (ft_acquisition t)
       @ when_set ''retry_not_before'' (ft_retry t)
       @ when_set ''deferral_reason'' (ft_deferral t)
       @ when_set ''error_category'' (ft_category t)
       @ when_set ''last_error_code'' (ft_last_code t))"

definition client_result_of :: "'w world \<Rightarrow> validation \<Rightarrow> client_snapshot \<Rightarrow> rat \<Rightarrow> ('w, client_result) client" where
  "client_result_of wo va s started =
     seq (stored_result va s) (\<lambda>final.
       if fr_status final = RsError then client_fail ''refresh run completed with no successful work items''
       else seq (call (wo_perf_counter wo)) (\<lambda>now. ret
         \<lparr>cl_status = fr_status final, cl_tasks = map task_document (fr_tasks final), cl_http = 200,
          cl_latency = of_int (round_even ((now - started) * 1000)) / 1000\<rparr>))"

section \<open>The loop\<close>

definition terminal :: "client_snapshot \<Rightarrow> bool" where
  "terminal s \<longleftrightarrow> cr_state (cs_run s) \<noteq> RunRunning"

definition expect :: "string \<Rightarrow> 'a option \<Rightarrow> ('w, 'a) client" where
  "expect code x = (case x of None \<Rightarrow> client_fail code | Some y \<Rightarrow> ret y)"

text \<open>The answer of a post, or the status read once more when it is unknown.\<close>

definition updated_or_read ::
    "'w world \<Rightarrow> validation \<Rightarrow> client_config \<Rightarrow> string \<Rightarrow> client_snapshot option \<Rightarrow> ('w, client_snapshot) client" where
  "updated_or_read wo va cfg code updated =
     (case updated of Some s \<Rightarrow> ret s | None \<Rightarrow> seq (read_status wo va cfg) (expect code))"

definition delay_until :: "datetime option \<Rightarrow> datetime \<Rightarrow> rat" where
  "delay_until due now =
     (case due of None \<Rightarrow> 0 | Some d \<Rightarrow> rat_of_int (instant d - instant now) / 1000000)"

text \<open>
  One round: the snapshot of the next round and the time waited so far, or nothing when the round ended with
  \<open>continue\<close> after a wait (then the deadline is not checked).
\<close>

datatype round = Waited client_snapshot rat | Acted client_snapshot

definition idle_round ::
    "'w world \<Rightarrow> validation \<Rightarrow> client_config \<Rightarrow> rat \<Rightarrow> rat \<Rightarrow> client_snapshot \<Rightarrow> rat \<Rightarrow> ('w, round) client" where
  "idle_round wo va cfg deadline budget s waited =
     seq (next_due s) (\<lambda>due_at.
     seq (call (wo_now wo)) (\<lambda>now_utc.
     seq (call (wo_monotonic wo)) (\<lambda>mono.
       let delay = delay_until due_at now_utc
       in if 0 < delay \<and> delay \<le> deadline - mono \<and> delay \<le> budget - waited
          then seq (pause wo delay) (\<lambda>_.
               seq (read_status wo va cfg) (\<lambda>current.
               seq (expect ''refresh run disappeared while awaiting provider eligibility'' current) (\<lambda>t.
                 ret (Waited t (waited + delay)))))
          else seq (post_finalize wo va cfg) (\<lambda>updated.
               seq (updated_or_read wo va cfg ''refresh run disappeared during finalization'' updated) (\<lambda>t.
                 ret (Acted t))))))"

text \<open>A round on a claimed item polls the server, but the assignment of what it read is unreachable.\<close>

definition polling_round ::
    "'w world \<Rightarrow> validation \<Rightarrow> client_config \<Rightarrow> rat \<Rightarrow> client_snapshot \<Rightarrow> ('w, round) client" where
  "polling_round wo va cfg deadline s =
     seq (call (wo_monotonic wo)) (\<lambda>mono.
       if deadline \<le> mono then client_fail ''refresh run exceeded the bounded wait time''
       else seq (pause wo 2) (\<lambda>_.
            seq (read_status wo va cfg) (\<lambda>current.
            seq (expect ''refresh run disappeared while work was claimed'' current) (\<lambda>_. ret (Acted s)))))"

definition posting_round ::
    "'w world \<Rightarrow> validation \<Rightarrow> client_config \<Rightarrow> client_item \<Rightarrow> ('w, round) client" where
  "posting_round wo va cfg i =
     seq (post_item wo va cfg (ci_key i)) (\<lambda>updated.
     seq (updated_or_read wo va cfg ''refresh run disappeared after an uncertain advance'' updated) (\<lambda>t.
       ret (Acted t)))"

definition client_round ::
    "'w world \<Rightarrow> validation \<Rightarrow> client_config \<Rightarrow> rat \<Rightarrow> rat \<Rightarrow> client_snapshot \<Rightarrow> rat \<Rightarrow> ('w, round) client" where
  "client_round wo va cfg deadline budget s waited =
     seq (next_item wo s) (\<lambda>item.
       case item of
         None \<Rightarrow> idle_round wo va cfg deadline budget s waited
       | Some i \<Rightarrow> seq (claim_is_active wo i) (\<lambda>active.
           if active then polling_round wo va cfg deadline s else posting_round wo va cfg i))"

definition check_deadline :: "'w world \<Rightarrow> rat \<Rightarrow> ('w, unit) client" where
  "check_deadline wo deadline =
     seq (call (wo_monotonic wo)) (\<lambda>mono.
       if deadline \<le> mono then client_fail ''refresh run exceeded the bounded wait time'' else ret ())"

fun client_rounds ::
    "'w world \<Rightarrow> validation \<Rightarrow> client_config \<Rightarrow> rat \<Rightarrow> rat \<Rightarrow> rat \<Rightarrow> nat \<Rightarrow> client_snapshot \<Rightarrow> rat
     \<Rightarrow> ('w, client_result) client" where
  "client_rounds wo va cfg started deadline budget 0 s waited =
     client_fail ''refresh run exceeded the bounded operation count''"
| "client_rounds wo va cfg started deadline budget (Suc n) s waited =
     (if terminal s then client_result_of wo va s started
      else seq (client_round wo va cfg deadline budget s waited) (\<lambda>r.
        case r of
          Waited t waited' \<Rightarrow> client_rounds wo va cfg started deadline budget n t waited'
        | Acted t \<Rightarrow> seq (check_deadline wo deadline) (\<lambda>_.
            client_rounds wo va cfg started deadline budget n t waited)))"

definition wait_budget :: "client_config \<Rightarrow> rat" where
  "wait_budget cfg = of_int (min (max (cf_max_in_run_wait cfg) 0) 300)"

definition run_resumable_refresh :: "'w world \<Rightarrow> validation \<Rightarrow> client_config \<Rightarrow> ('w, client_result) client" where
  "run_resumable_refresh wo va cfg =
     seq (call (wo_perf_counter wo)) (\<lambda>started.
     seq (start_run wo va cfg) (\<lambda>s.
       client_rounds wo va cfg started (started + of_int (cf_max_wait cfg)) (wait_budget cfg) 1000 s 0))"

end
