(* ===== verification/ClientCosts.thy ===== *)
theory ClientCosts
  imports RunClient
begin

text \<open>
  What the client does to the server and the clock, whatever they answer: a log of its requests and pauses is
  kept beside the world, and \<open>yields h Q\<close> says that every run of \<open>h\<close> adds events that satisfy \<open>Q\<close> together
  with its outcome.
\<close>

section \<open>A world with a log\<close>

datatype event = Sent http_request http_reply | Slept rat

definition logged :: "'w world \<Rightarrow> ('w \<times> event list) world" where
  "logged wo =
     \<lparr>wo_request = (\<lambda>q (w, es). case wo_request wo q w of (r, w') \<Rightarrow> (r, (w', es @ [Sent q r]))),
      wo_now = (\<lambda>(w, es). case wo_now wo w of (t, w') \<Rightarrow> (t, (w', es))),
      wo_monotonic = (\<lambda>(w, es). case wo_monotonic wo w of (t, w') \<Rightarrow> (t, (w', es))),
      wo_perf_counter = (\<lambda>(w, es). case wo_perf_counter wo w of (t, w') \<Rightarrow> (t, (w', es))),
      wo_sleep = (\<lambda>s (w, es). (wo_sleep wo s w, es @ [Slept s]))\<rparr>"

definition yields ::
    "('w \<times> event list \<Rightarrow> ('e + 'a) \<times> ('w \<times> event list)) \<Rightarrow> (event list \<Rightarrow> 'e + 'a \<Rightarrow> bool) \<Rightarrow> bool" where
  "yields h Q \<longleftrightarrow> (\<forall>w es. \<exists>new. snd (snd (h (w, es))) = es @ new \<and> Q new (fst (h (w, es))))"

lemma yieldsD:
  assumes "yields h Q" "h (w, es) = (r, (w', es'))"
  obtains new where "es' = es @ new" "Q new r"
  using assms unfolding yields_def by (metis fst_conv snd_conv)

lemma yields_weaken: "yields h Q \<Longrightarrow> (\<And>new r. Q new r \<Longrightarrow> R new r) \<Longrightarrow> yields h R"
  unfolding yields_def by blast

lemma yields_seq:
  assumes "yields m Q" "\<And>x new. Q new (Inr x) \<Longrightarrow> yields (f x) (Q' x)"
    and "\<And>new e. Q new (Inl e) \<Longrightarrow> R new (Inl e)"
    and "\<And>new x new' r. Q new (Inr x) \<Longrightarrow> Q' x new' r \<Longrightarrow> R (new @ new') r"
  shows "yields (seq m f) R"
  unfolding yields_def
proof (intro allI)
  fix w es
  obtain r w1 es1 where m: "m (w, es) = (r, (w1, es1))" by (metis prod.collapse)
  obtain new where new: "es1 = es @ new" "Q new r" by (rule yieldsD [OF assms(1) m])
  show "\<exists>new. snd (snd (seq m f (w, es))) = es @ new \<and> R new (fst (seq m f (w, es)))"
  proof (cases r)
    case (Inl e)
    with m new assms(3) show ?thesis by (auto simp: seq_def)
  next
    case (Inr x)
    obtain r' w2 es2 where f: "f x (w1, es1) = (r', (w2, es2))" by (metis prod.collapse)
    obtain new' where "es2 = es1 @ new'" "Q' x new' r'"
      by (rule yieldsD [OF assms(2) f]) (use new(2) Inr in simp)
    with m f new Inr assms(4) show ?thesis by (auto simp: seq_def)
  qed
qed

lemma yields_ret: "Q [] (Inr x) \<Longrightarrow> yields (ret x) Q"
  by (auto simp: yields_def ret_def)

lemma yields_fail: "Q [] (Inl e) \<Longrightarrow> yields (fail e) Q"
  by (auto simp: yields_def fail_def)

lemma yields_readings:
  "(\<And>t. Q [] (Inr t)) \<Longrightarrow> yields (call (wo_now (logged wo))) Q"
  "(\<And>t. Q' [] (Inr t)) \<Longrightarrow> yields (call (wo_monotonic (logged wo))) Q'"
  "(\<And>t. Q' [] (Inr t)) \<Longrightarrow> yields (call (wo_perf_counter (logged wo))) Q'"
  by (auto simp: yields_def call_def logged_def split: prod.split)

lemma yields_send: "(\<And>r. Q [Sent q r] (Inr r)) \<Longrightarrow> yields (send (logged wo) q) Q"
  by (auto simp: yields_def send_def call_def logged_def split: prod.split)

lemma yields_pause: "Q [Slept s] (Inr ()) \<Longrightarrow> yields (pause (logged wo) s) Q"
  by (auto simp: yields_def pause_def call_def logged_def split: prod.split)

section \<open>Costs\<close>

declare read_attempts.simps [simp del] start_attempts.simps [simp del] client_rounds.simps [simp del]

fun sent :: "event list \<Rightarrow> nat" where
  "sent [] = 0"
| "sent (Sent q r # es) = Suc (sent es)"
| "sent (Slept s # es) = sent es"

fun slept :: "event list \<Rightarrow> rat" where
  "slept [] = 0"
| "slept (Sent q r # es) = slept es"
| "slept (Slept s # es) = s + slept es"

lemma sent_append [simp]: "sent (es @ fs) = sent es + sent fs"
  by (induction es rule: sent.induct) auto

lemma slept_append [simp]: "slept (es @ fs) = slept es + slept fs"
  by (induction es rule: slept.induct) auto

definition costs :: "('w \<times> event list \<Rightarrow> ('e + 'a) \<times> ('w \<times> event list)) \<Rightarrow> nat \<Rightarrow> rat \<Rightarrow> bool" where
  "costs h a b \<longleftrightarrow> yields h (\<lambda>new _. sent new \<le> a \<and> slept new \<le> b)"

named_theorems costs_intro

lemma costs_seq:
  assumes "costs m a b" "\<And>x. costs (f x) a' b'" "a + a' \<le> A" "b + b' \<le> B" "0 \<le> b'"
  shows "costs (seq m f) A B"
  unfolding costs_def
  by (rule yields_seq [OF assms(1,2) [unfolded costs_def]]) (use assms(3-5) in force)+

lemma costs_then_free: "costs m a b \<Longrightarrow> (\<And>x. costs (f x) 0 0) \<Longrightarrow> costs (seq m f) a b"
  using costs_seq [of m a b f 0 0 a b] by simp

lemma costs_free_then: "costs m 0 0 \<Longrightarrow> (\<And>x. costs (f x) a b) \<Longrightarrow> 0 \<le> b \<Longrightarrow> costs (seq m f) a b"
  using costs_seq [of m 0 0 f a b a b] by simp

lemma costs_weaken: "costs h a b \<Longrightarrow> a \<le> a' \<Longrightarrow> b \<le> b' \<Longrightarrow> costs h a' b'"
  unfolding costs_def by (erule yields_weaken) auto

lemma costs_ret [costs_intro]: "0 \<le> b \<Longrightarrow> costs (ret x) a b"
  by (simp add: costs_def yields_ret)

lemma costs_client_fail [costs_intro]: "0 \<le> b \<Longrightarrow> costs (client_fail code) a b"
  by (simp add: costs_def client_fail_def yields_fail)

lemma costs_status_refused [costs_intro]: "0 \<le> b \<Longrightarrow> costs (status_refused what n) a b"
  by (simp add: status_refused_def costs_client_fail)

lemma costs_raising [costs_intro]: "0 \<le> b \<Longrightarrow> costs (raising r) a b"
  by (cases r) (simp_all add: raising_def costs_def yields_ret yields_fail)

lemma costs_snapshot [costs_intro]: "0 \<le> b \<Longrightarrow> costs (snapshot va cfg p) a b"
  by (auto simp: snapshot_def intro!: costs_intro split: option.split)

lemma costs_expect [costs_intro]: "0 \<le> b \<Longrightarrow> costs (expect code x) a b"
  by (auto simp: expect_def intro!: costs_intro split: option.split)

lemma costs_send: "costs (send (logged wo) q) 1 0"
  by (simp add: costs_def yields_send)

lemma costs_pause: "costs (pause (logged wo) s) 0 s"
  by (simp add: costs_def yields_pause)

lemma costs_readings [costs_intro]:
  "costs (call (wo_now (logged wo))) 0 0" "costs (call (wo_monotonic (logged wo))) 0 0"
  "costs (call (wo_perf_counter (logged wo))) 0 0"
  by (simp_all add: costs_def yields_readings)

text \<open>Three attempts to read a status are three requests and three seconds at most.\<close>

lemma costs_sent_then:
  assumes "\<And>r. costs (f r) a b" "0 \<le> b"
  shows "costs (seq (send (logged wo) q) f) (Suc a) b"
  by (rule costs_seq [OF costs_send assms(1)]) (use assms(2) in auto)

lemma costs_read_last: "costs (read_attempts (logged wo) va cfg 1) 1 0"
  unfolding One_nat_def read_attempts.simps Let_def
  by (rule costs_sent_then)
    (auto split: http_reply.split intro!: costs_intro costs_free_then)

lemma costs_read_more:
  assumes "costs (read_attempts (logged wo) va cfg (Suc n)) a b" "0 \<le> b" "n < 2"
  shows "costs (read_attempts (logged wo) va cfg (Suc (Suc n))) (Suc a) (rat_of_nat (2 - n) + b)"
proof -
  have p: "costs (seq (pause (logged wo) (rat_of_nat (3 - Suc n))) (\<lambda>_. read_attempts (logged wo) va cfg (Suc n)))
      a (rat_of_nat (2 - n) + b)"
    by (rule costs_seq [OF costs_pause assms(1)]) (use assms in auto)
  have "0 \<le> rat_of_nat (2 - n) + b" using assms(2) by simp
  then show ?thesis
    unfolding read_attempts.simps(2) [of _ _ _ "Suc n"] Let_def
    by (intro costs_sent_then)
      (use p in \<open>auto split: http_reply.split
         intro!: costs_intro costs_free_then\<close>)
qed

lemma costs_read_status: "costs (read_status (logged wo) va cfg) 3 3"
proof -
  have "costs (read_attempts (logged wo) va cfg (Suc (Suc 0))) 2 2"
    using costs_read_more [of wo va cfg 0 1 0] costs_read_last [of wo va cfg] by (simp add: numeral_2_eq_2)
  from costs_read_more [OF this] show ?thesis
    unfolding read_status_def by (simp add: numeral_3_eq_3 numeral_2_eq_2)
qed

lemma costs_start_attempts: "costs (start_attempts (logged wo) va cfg n) (4 * n) (3 * rat_of_nat n)"
proof (induction n)
  case (Suc n)
  let ?b = "3 + 3 * rat_of_nat n"
  have reconcile: "costs (seq (read_status (logged wo) va cfg) (\<lambda>s. case s of
      Some snap \<Rightarrow> ret snap | None \<Rightarrow> start_attempts (logged wo) va cfg n)) (3 + 4 * n) ?b"
    by (rule costs_seq [OF costs_read_status, of _ "4 * n" "3 * rat_of_nat n"])
      (auto split: option.split intro!: costs_intro Suc.IH)
  have conflict: "costs (seq (read_status (logged wo) va cfg) (\<lambda>s. case s of
      Some snap \<Rightarrow> ret snap | None \<Rightarrow> status_refused ''refresh run start'' k)) (3 + 4 * n) ?b" for k
    by (rule costs_seq [OF costs_read_status, of _ 0 0]) (auto split: option.split intro!: costs_intro)
  have "costs (start_attempts (logged wo) va cfg (Suc n)) (Suc (3 + 4 * n)) ?b"
    unfolding start_attempts.simps Let_def
    by (rule costs_sent_then) (use reconcile conflict in \<open>auto split: http_reply.split intro!: costs_intro\<close>)
  then show ?case by (rule costs_weaken) (simp_all add: algebra_simps)
qed (simp add: start_attempts.simps costs_intro)

lemma costs_start_run: "costs (start_run (logged wo) va cfg) 11 9"
proof -
  have "costs (if cf_resume cfg
          then seq (read_status (logged wo) va cfg) (\<lambda>s. case s of
            None \<Rightarrow> client_fail ''requested refresh run does not exist; refusing to create a new run''
          | Some _ \<Rightarrow> ret ())
          else ret ()) 3 3"
    by (auto split: option.split intro!: costs_intro costs_then_free [OF costs_read_status])
  then show ?thesis
    unfolding start_run_def by (rule costs_seq [OF _ costs_start_attempts]) simp_all
qed

lemma costs_post_item: "costs (post_item (logged wo) va cfg k) 4 3"
proof -
  have "costs (post_item (logged wo) va cfg k) (Suc 3) 3"
    unfolding post_item_def
    by (rule costs_sent_then)
      (auto split: http_reply.split intro!: costs_intro costs_read_status costs_free_then)
  then show ?thesis by simp
qed

lemma costs_post_finalize: "costs (post_finalize (logged wo) va cfg) 4 3"
proof -
  have "costs (post_finalize (logged wo) va cfg) (Suc 3) 3"
    unfolding post_finalize_def
    by (rule costs_sent_then)
      (auto split: http_reply.split intro!: costs_intro costs_read_status costs_free_then)
  then show ?thesis by simp
qed

lemma costs_updated_or_read: "costs (updated_or_read (logged wo) va cfg code x) 3 3"
  unfolding updated_or_read_def
  by (auto split: option.split intro!: costs_intro costs_then_free [OF costs_read_status])

lemma costs_next_item: "costs (next_item (logged wo) s) 0 0"
  unfolding next_item_def by (auto intro!: costs_intro costs_free_then)

lemma costs_claim_is_active: "costs (claim_is_active (logged wo) i) 0 0"
  unfolding claim_is_active_def by (auto split: option.split intro!: costs_intro costs_free_then)

lemma costs_next_due: "costs (next_due s) 0 0"
  unfolding next_due_def by (auto split: option.split sum.split intro!: costs_intro)

lemma costs_polling_round: "costs (polling_round (logged wo) va cfg deadline s) 3 5"
proof -
  have polled: "costs (seq (read_status (logged wo) va cfg) (\<lambda>current.
      seq (expect code current) (\<lambda>_. ret (Acted s)))) 3 3" for code
    by (rule costs_then_free [OF costs_read_status]) (auto intro!: costs_intro costs_free_then)
  have "costs (seq (pause (logged wo) 2) (\<lambda>_. seq (read_status (logged wo) va cfg) (\<lambda>current.
      seq (expect code current) (\<lambda>_. ret (Acted s))))) 3 5" for code
    by (rule costs_seq [OF costs_pause polled]) simp_all
  then show ?thesis
    unfolding polling_round_def by (auto intro!: costs_intro costs_free_then)
qed

lemma costs_posting_round: "costs (posting_round (logged wo) va cfg i) 7 6"
proof -
  have "costs (seq (updated_or_read (logged wo) va cfg code x) (\<lambda>t. ret (Acted t))) 3 3" for code x
    by (rule costs_then_free [OF costs_updated_or_read]) (auto intro!: costs_intro)
  then show ?thesis
    unfolding posting_round_def by (rule costs_seq [OF costs_post_item]) simp_all
qed

text \<open>What a round costs: waiting for a provider is paid from the wait budget.\<close>

fun round_cost :: "rat \<Rightarrow> rat \<Rightarrow> event list \<Rightarrow> client_error + round \<Rightarrow> bool" where
  "round_cost budget waited new (Inr (Waited t waited')) \<longleftrightarrow>
     sent new \<le> 7 \<and> waited' \<le> budget \<and> slept new \<le> 3 + (waited' - waited)"
| "round_cost budget waited new (Inr (Acted t)) \<longleftrightarrow> sent new \<le> 7 \<and> slept new \<le> 6"
| "round_cost budget waited new (Inl e) \<longleftrightarrow> sent new \<le> 7 \<and> slept new \<le> 6 + (budget - waited)"

lemma round_cost_acted:
  assumes "costs h 7 6" "\<And>x w w' t k. h w \<noteq> (Inr (Waited t k), w')" "waited \<le> budget"
  shows "yields h (round_cost budget waited)"
  unfolding yields_def
proof (intro allI)
  fix w es
  obtain r w' es' where h: "h (w, es) = (r, (w', es'))" by (metis prod.collapse)
  obtain new where new: "es' = es @ new" "sent new \<le> 7 \<and> slept new \<le> 6"
    by (rule yieldsD [OF assms(1) [unfolded costs_def] h])
  with assms(2,3) h have "round_cost budget waited new r" by (cases r; cases "projr r") auto
  with h new show "\<exists>new. snd (snd (h (w, es))) = es @ new \<and> round_cost budget waited new (fst (h (w, es)))" by auto
qed

lemma acts_only:
  "seq m (\<lambda>t. ret (Acted (g t))) w \<noteq> (Inr (Waited t' k), w')"
  by (auto simp: seq_def split: prod.splits sum.splits)

lemma seq_not_waited: "(\<And>x w. f x w \<noteq> (Inr (Waited t k), w')) \<Longrightarrow> seq m f w \<noteq> (Inr (Waited t k), w')"
  by (auto simp: seq_def split: prod.splits sum.splits)

lemma fail_not_waited [simp]: "client_fail code w \<noteq> (Inr x, w')"
  by (simp add: client_fail_def)

lemma polling_not_waited: "polling_round wo va cfg deadline s w \<noteq> (Inr (Waited t k), w')"
proof -
  have "seq (pause wo 2) (\<lambda>_. seq (read_status wo va cfg) (\<lambda>current.
      seq (expect code current) (\<lambda>_. ret (Acted s)))) w \<noteq> (Inr (Waited t k), w')" for code w
    by (intro seq_not_waited) simp
  then show ?thesis unfolding polling_round_def by (intro seq_not_waited) simp
qed

lemma yields_free:
  assumes "costs m 0 0" "\<And>x. yields (f x) (round_cost budget waited)" "waited \<le> budget"
  shows "yields (seq m f) (round_cost budget waited)"
proof (rule yields_seq [OF assms(1) [unfolded costs_def] assms(2)])
  fix new new' :: "event list" and r :: "client_error + round"
  assume "sent new \<le> 0 \<and> slept new \<le> 0" "round_cost budget waited new' r"
  then show "round_cost budget waited (new @ new') r" by (cases "(budget, waited, new, r)" rule: round_cost.cases) auto
qed (use assms(3) in auto)

lemma idle_round_cost:
  assumes "waited \<le> budget"
  shows "yields (idle_round (logged wo) va cfg deadline budget s waited) (round_cost budget waited)"
proof -
  have wait: "yields (seq (pause (logged wo) delay) (\<lambda>_.
      seq (read_status (logged wo) va cfg) (\<lambda>current.
      seq (expect code current) (\<lambda>t. ret (Waited t (waited + delay)))))) (round_cost budget waited)"
    if "0 < delay" "delay \<le> budget - waited" for delay code
  proof (rule yields_seq [where Q = "\<lambda>new _. sent new = 0 \<and> slept new = delay"])
    show "yields (pause (logged wo) delay) (\<lambda>new _. sent new = 0 \<and> slept new = delay)" by (simp add: yields_pause)
    show "yields (seq (read_status (logged wo) va cfg) (\<lambda>current. seq (expect code current)
        (\<lambda>t. ret (Waited t (waited + delay)))))
      (\<lambda>new r. sent new \<le> 3 \<and> slept new \<le> 3 \<and> (\<forall>x. r = Inr x \<longrightarrow> (\<exists>t. x = Waited t (waited + delay))))" for x :: unit
    proof (rule yields_seq [OF costs_read_status [unfolded costs_def]])
      show "yields (seq (expect code x) (\<lambda>t. ret (Waited t (waited + delay))))
         (\<lambda>new r. new = [] \<and> (\<forall>x. r = Inr x \<longrightarrow> (\<exists>t. x = Waited t (waited + delay))))" for x
        by (cases x) (auto simp: expect_def client_fail_def yields_ret yields_fail fail_def yields_def seq_def ret_def)
    qed auto
    fix new new' :: "event list" and r :: "client_error + round" and x :: unit
    assume "sent new = 0 \<and> slept new = delay"
      "sent new' \<le> 3 \<and> slept new' \<le> 3 \<and> (\<forall>x. r = Inr x \<longrightarrow> (\<exists>t. x = Waited t (waited + delay)))"
    then show "round_cost budget waited (new @ new') r" using that by (cases r) auto
  qed (use that in auto)
  have act: "yields (seq (post_finalize (logged wo) va cfg) (\<lambda>updated.
      seq (updated_or_read (logged wo) va cfg code updated) (\<lambda>t. ret (Acted t)))) (round_cost budget waited)" for code
  proof (rule round_cost_acted [OF costs_seq [OF costs_post_finalize, of _ 3 3]])
    show "costs (seq (updated_or_read (logged wo) va cfg code x) (\<lambda>t. ret (Acted t))) 3 3" for x
      by (rule costs_then_free [OF costs_updated_or_read]) (auto intro!: costs_intro)
  qed (use assms in \<open>auto intro!: seq_not_waited acts_only\<close>)
  show ?thesis
    unfolding idle_round_def Let_def
    by (intro yields_free costs_next_due costs_readings assms) (use wait act in auto)
qed

lemma client_round_cost:
  assumes "waited \<le> budget"
  shows "yields (client_round (logged wo) va cfg deadline budget s waited) (round_cost budget waited)"
proof -
  have poll: "yields (polling_round (logged wo) va cfg deadline s) (round_cost budget waited)"
    by (rule round_cost_acted [OF costs_weaken [OF costs_polling_round]])
      (use assms in \<open>simp_all add: polling_not_waited\<close>)
  have post: "yields (posting_round (logged wo) va cfg i) (round_cost budget waited)" for i
    by (rule round_cost_acted [OF costs_posting_round])
      (use assms in \<open>auto simp: posting_round_def intro!: seq_not_waited acts_only\<close>)
  have item: "yields (seq (claim_is_active (logged wo) i) (\<lambda>active. if active
      then polling_round (logged wo) va cfg deadline s else posting_round (logged wo) va cfg i)) (round_cost budget waited)" for i
    by (rule yields_free [OF costs_claim_is_active _ assms]) (use poll post in simp)
  show ?thesis
    unfolding client_round_def
    by (rule yields_free [OF costs_next_item _ assms])
      (use idle_round_cost [OF assms] item in \<open>auto split: option.split\<close>)
qed

lemma costs_result: "costs (client_result_of (logged wo) va s started) 0 0"
proof -
  have "costs (stored_result va s) 0 0"
    unfolding stored_result_def by (auto split: option.split intro!: costs_intro)
  then show ?thesis unfolding client_result_of_def by (auto intro!: costs_intro costs_free_then)
qed

lemma client_rounds_cost:
  assumes "waited \<le> budget"
  shows "costs (client_rounds (logged wo) va cfg started deadline budget n s waited) (7 * n)
    (6 * rat_of_nat n + (budget - waited))"
  using assms
proof (induction n arbitrary: s waited)
  case (Suc n)
  let ?w = "6 * rat_of_nat n + (budget - waited)"
  have checked: "costs (seq (check_deadline (logged wo) deadline) (\<lambda>_.
      client_rounds (logged wo) va cfg started deadline budget n t waited)) (7 * n) ?w" for t
    using Suc.prems unfolding check_deadline_def by (auto intro!: costs_free_then costs_intro Suc.IH)
  have rounds: "yields (case r of Waited t waited' \<Rightarrow> client_rounds (logged wo) va cfg started deadline budget n t waited'
      | Acted t \<Rightarrow> seq (check_deadline (logged wo) deadline) (\<lambda>_.
          client_rounds (logged wo) va cfg started deadline budget n t waited))
      (\<lambda>new _. sent new \<le> 7 * n \<and> slept new \<le> 6 * rat_of_nat n
         + (case r of Waited t waited' \<Rightarrow> budget - waited' | Acted t \<Rightarrow> budget - waited))"
    if "round_cost budget waited new (Inr r)" for r new
    using that Suc.IH checked by (cases r) (simp_all add: costs_def)
  have "costs (seq (client_round (logged wo) va cfg deadline budget s waited) (\<lambda>r. case r of
        Waited t waited' \<Rightarrow> client_rounds (logged wo) va cfg started deadline budget n t waited'
      | Acted t \<Rightarrow> seq (check_deadline (logged wo) deadline) (\<lambda>_.
          client_rounds (logged wo) va cfg started deadline budget n t waited)))
      (7 + 7 * n) (6 + ?w)"
    unfolding costs_def
  proof (rule yields_seq [OF client_round_cost [OF Suc.prems] rounds])
    fix new new' :: "event list" and r and e :: client_error and r' :: "client_error + client_result"
    show "round_cost budget waited new (Inl e) \<Longrightarrow> sent new \<le> 7 + 7 * n \<and> slept new \<le> 6 + ?w"
      using of_nat_0_le_iff [of n, where ?'a = rat] by simp
    show "round_cost budget waited new (Inr r) \<Longrightarrow> sent new' \<le> 7 * n \<and> slept new' \<le> 6 * rat_of_nat n
         + (case r of Waited t waited' \<Rightarrow> budget - waited' | Acted t \<Rightarrow> budget - waited) \<Longrightarrow>
       sent (new @ new') \<le> 7 + 7 * n \<and> slept (new @ new') \<le> 6 + ?w"
      by (cases r) auto
  qed assumption
  moreover have "costs (client_result_of (logged wo) va s started) (7 + 7 * n) (6 + ?w)"
    by (rule costs_weaken [OF costs_result]) (use Suc.prems in auto)
  ultimately have "costs (client_rounds (logged wo) va cfg started deadline budget (Suc n) s waited) (7 + 7 * n) (6 + ?w)"
    by (simp add: client_rounds.simps)
  then show ?case by (rule costs_weaken) (simp_all add: algebra_simps)
qed (simp add: client_rounds.simps costs_intro)

text \<open>C30: The client is bounded whatever the server answers and whatever the clocks say: it returns or raises
  after at most 7011 requests, and it sleeps at most 6309 seconds: nine to start, six in each of a thousand
  rounds, and no more than the wait budget, itself at most 300 seconds, for providers.\<close>

theorem client_is_bounded:
  "sent (snd (snd (run_resumable_refresh (logged wo) va cfg (w, [])))) \<le> 7011
   \<and> slept (snd (snd (run_resumable_refresh (logged wo) va cfg (w, [])))) \<le> 6009 + wait_budget cfg
   \<and> 0 \<le> wait_budget cfg \<and> wait_budget cfg \<le> 300"
proof -
  have b: "0 \<le> wait_budget cfg" "wait_budget cfg \<le> 300"
    using of_int_le_iff [of 0, where ?'a = rat] of_int_le_iff [of _ 300, where ?'a = rat]
    by (simp_all add: wait_budget_def)
  have "costs (run_resumable_refresh (logged wo) va cfg) 7011 (6009 + wait_budget cfg)"
    unfolding run_resumable_refresh_def
  proof (rule costs_free_then [OF costs_readings(3) costs_seq [OF costs_start_run]])
    show "costs (client_rounds (logged wo) va cfg started (started + of_int (cf_max_wait cfg)) (wait_budget cfg) 1000 s 0)
      7000 (6000 + wait_budget cfg)" for started s
      using client_rounds_cost [OF b(1), of wo va cfg started _ 1000 s] by simp
  qed (use b in simp_all)
  then obtain new where "snd (snd (run_resumable_refresh (logged wo) va cfg (w, []))) = [] @ new"
    "sent new \<le> 7011 \<and> slept new \<le> 6009 + wait_budget cfg"
    unfolding costs_def yields_def by blast
  with b show ?thesis by simp
qed

end
