(* ===== verification/ClientClaims.thy ===== *)
theory ClientClaims
  imports ClientCosts
begin

text \<open>
  What a result of the client stands for, and what it does while an item is claimed.
\<close>

section \<open>Where a result comes from\<close>

text \<open>
  The snapshots the server has answered with, accepted for this workflow. \<open>delivers va cfg K T h\<close>: when the
  snapshots in \<open>K\<close> were answered before, what \<open>h\<close> returns satisfies \<open>T\<close> with those it was answered since.
\<close>

fun answered :: "validation \<Rightarrow> client_config \<Rightarrow> http_reply \<Rightarrow> client_snapshot set" where
  "answered va cfg (Reply status payload) =
     (if status = 200 then {s. va_snapshot va payload = Some s \<and> same_workflow cfg s} else {})"
| "answered va cfg Unreachable = {}"

fun answers :: "validation \<Rightarrow> client_config \<Rightarrow> event list \<Rightarrow> client_snapshot set" where
  "answers va cfg [] = {}"
| "answers va cfg (Sent q r # es) = answered va cfg r \<union> answers va cfg es"
| "answers va cfg (Slept s # es) = answers va cfg es"

lemma answers_append [simp]: "answers va cfg (es @ fs) = answers va cfg es \<union> answers va cfg fs"
  by (induction es rule: sent.induct) auto

definition delivers ::
    "validation \<Rightarrow> client_config \<Rightarrow> client_snapshot set \<Rightarrow> (client_snapshot set \<Rightarrow> 'a \<Rightarrow> bool)
     \<Rightarrow> ('w \<times> event list, 'a) client \<Rightarrow> bool" where
  "delivers va cfg K T h \<longleftrightarrow> yields h (\<lambda>new r. \<forall>x. r = Inr x \<longrightarrow> T (K \<union> answers va cfg new) x)"

named_theorems delivers_intro

lemma delivers_seq:
  assumes "delivers va cfg K T m" "\<And>K' x. K \<subseteq> K' \<Longrightarrow> T K' x \<Longrightarrow> delivers va cfg K' T' (f x)"
  shows "delivers va cfg K T' (seq m f)"
  unfolding delivers_def yields_def
proof (intro allI)
  fix w es
  obtain r w1 es1 where m: "m (w, es) = (r, (w1, es1))" by (metis prod.collapse)
  obtain new where new: "es1 = es @ new" "\<forall>x. r = Inr x \<longrightarrow> T (K \<union> answers va cfg new) x"
    by (rule yieldsD [OF assms(1) [unfolded delivers_def] m])
  show "\<exists>new. snd (snd (seq m f (w, es))) = es @ new
      \<and> (\<forall>x. fst (seq m f (w, es)) = Inr x \<longrightarrow> T' (K \<union> answers va cfg new) x)"
  proof (cases r)
    case (Inl e)
    with m new show ?thesis by (auto simp: seq_def)
  next
    case (Inr x)
    with new have "delivers va cfg (K \<union> answers va cfg new) T' (f x)" by (intro assms(2)) auto
    then obtain new' where "snd (snd (f x (w1, es1))) = es1 @ new'"
      "\<forall>y. fst (f x (w1, es1)) = Inr y \<longrightarrow> T' (K \<union> answers va cfg new \<union> answers va cfg new') y"
      unfolding delivers_def yields_def by blast
    with m new(1) Inr show ?thesis by (intro exI [of _ "new @ new'"]) (auto simp: seq_def Un_assoc)
  qed
qed

lemma delivers_free: "costs h a b \<Longrightarrow> delivers va cfg K (\<lambda>_ _. True) h"
  unfolding costs_def delivers_def by (erule yields_weaken) simp

lemma delivers_after: "costs m a b \<Longrightarrow> (\<And>K' x. K \<subseteq> K' \<Longrightarrow> delivers va cfg K' T (f x)) \<Longrightarrow> delivers va cfg K T (seq m f)"
  by (rule delivers_seq [OF delivers_free]) auto

lemma delivers_ret [delivers_intro]: "T K x \<Longrightarrow> delivers va cfg K T (ret x)"
  by (simp add: delivers_def yields_ret)

lemma delivers_fail [delivers_intro]:
  "delivers va cfg K T (client_fail code)" "delivers va cfg K T (status_refused what n)"
  by (simp_all add: delivers_def client_fail_def status_refused_def yields_fail)

lemma delivers_send:
  assumes "\<And>r. delivers va cfg (K \<union> answered va cfg r) T (f r)"
  shows "delivers va cfg K T (seq (send (logged wo) q) f)"
  unfolding delivers_def
proof (rule yields_seq [where Q = "\<lambda>new r. \<exists>x. new = [Sent q x] \<and> r = Inr x"])
  show "yields (send (logged wo) q) (\<lambda>new r. \<exists>x. new = [Sent q x] \<and> r = Inr x)" by (simp add: yields_send)
  show "yields (f r) (\<lambda>new y. \<forall>x. y = Inr x \<longrightarrow> T (K \<union> answered va cfg r \<union> answers va cfg new) x)" for r
    using assms by (simp add: delivers_def)
qed (auto simp: Un_assoc)

definition known :: "client_snapshot set \<Rightarrow> client_snapshot \<Rightarrow> bool" where
  "known K s \<longleftrightarrow> s \<in> K"

definition known_opt :: "client_snapshot set \<Rightarrow> client_snapshot option \<Rightarrow> bool" where
  "known_opt K s \<longleftrightarrow> (\<forall>t. s = Some t \<longrightarrow> t \<in> K)"

lemma delivers_snapshot: "delivers va cfg (K \<union> answered va cfg (Reply 200 payload)) known (snapshot va cfg payload)"
  by (auto simp: snapshot_def known_def intro!: delivers_intro split: option.split)

lemma delivers_snapshot_opt:
  "delivers va cfg (K \<union> answered va cfg (Reply 200 payload)) known_opt
     (seq (snapshot va cfg payload) (\<lambda>s. ret (Some s)))"
  by (rule delivers_seq [OF delivers_snapshot]) (auto simp: known_def known_opt_def intro!: delivers_intro)

lemma delivers_read_attempts: "delivers va cfg K known_opt (read_attempts (logged wo) va cfg n)"
proof (induction n arbitrary: K)
  case (Suc n)
  have again: "delivers va cfg K known_opt (if n = 0 then read_attempts (logged wo) va cfg n
      else seq (pause (logged wo) (rat_of_nat (3 - n))) (\<lambda>_. read_attempts (logged wo) va cfg n))" for K
    using Suc.IH by (auto intro: delivers_after [OF costs_pause])
  have none: "known_opt K' None" for K' by (simp add: known_opt_def)
  show ?case
    unfolding read_attempts.simps Let_def
  proof (rule delivers_send)
    fix r
    show "delivers va cfg (K \<union> answered va cfg r) known_opt (case r of
        Reply status payload \<Rightarrow> if status = 404 then ret None
          else if status = 200 then seq (snapshot va cfg payload) (\<lambda>s. ret (Some s))
          else if status \<in> {401, 403, 409, 422, 503} then status_refused ''refresh run status'' status
          else if n = 0 then read_attempts (logged wo) va cfg n
          else seq (pause (logged wo) (rat_of_nat (3 - n))) (\<lambda>_. read_attempts (logged wo) va cfg n)
      | Unreachable \<Rightarrow> if n = 0 then read_attempts (logged wo) va cfg n
          else seq (pause (logged wo) (rat_of_nat (3 - n))) (\<lambda>_. read_attempts (logged wo) va cfg n))"
    proof (cases r)
      case (Reply status payload)
      show ?thesis
        using delivers_snapshot_opt [of va cfg K payload] again [of "K \<union> answered va cfg r"] none
        by (cases "status = 404"; cases "status = 200"; cases "status \<in> {401, 403, 409, 422, 503}")
          (simp_all add: Reply delivers_intro)
    next
      case Unreachable
      then show ?thesis using again by simp
    qed
  qed
qed (simp add: read_attempts.simps delivers_intro)

lemmas delivers_read_status = delivers_read_attempts [of va cfg K wo 3 for va cfg K wo, folded read_status_def]

lemma delivers_post:
  "delivers va cfg K known_opt (post_item (logged wo) va cfg k)"
  "delivers va cfg K known_opt (post_finalize (logged wo) va cfg)"
  unfolding post_item_def post_finalize_def
  using delivers_snapshot_opt [of va cfg K] delivers_read_status [of va cfg _ wo]
  by (auto intro!: delivers_send delivers_intro split: http_reply.split simp del: Un_iff answered.simps(1))

lemma delivers_expect: "known_opt K x \<Longrightarrow> delivers va cfg K known (expect code x)"
  by (auto simp: expect_def known_opt_def known_def intro!: delivers_intro split: option.split)

lemma delivers_updated_or_read:
  "known_opt K x \<Longrightarrow> delivers va cfg K known (updated_or_read (logged wo) va cfg code x)"
  unfolding updated_or_read_def
  by (auto split: option.split simp: known_opt_def known_def
      intro!: delivers_intro delivers_seq [OF delivers_read_status delivers_expect])

lemma delivers_start_attempts: "delivers va cfg K known (start_attempts (logged wo) va cfg n)"
proof (induction n arbitrary: K)
  case (Suc n)
  have reconcile: "delivers va cfg K known (seq (read_status (logged wo) va cfg) (\<lambda>s. case s of
      Some snap \<Rightarrow> ret snap | None \<Rightarrow> start_attempts (logged wo) va cfg n))" for K
    by (rule delivers_seq [OF delivers_read_status])
      (auto split: option.split simp: known_opt_def known_def intro!: delivers_intro Suc.IH)
  have conflict: "delivers va cfg K known (seq (read_status (logged wo) va cfg) (\<lambda>s. case s of
      Some snap \<Rightarrow> ret snap | None \<Rightarrow> status_refused ''refresh run start'' k))" for K k
    by (rule delivers_seq [OF delivers_read_status])
      (auto split: option.split simp: known_opt_def known_def intro!: delivers_intro)
  show ?case
    unfolding start_attempts.simps Let_def
    using reconcile conflict delivers_snapshot [of va cfg K]
    by (auto intro!: delivers_send delivers_intro split: http_reply.split simp del: Un_iff answered.simps(1))
qed (simp add: start_attempts.simps delivers_intro)

lemma delivers_start_run: "delivers va cfg K known (start_run (logged wo) va cfg)"
proof -
  have "costs (if cf_resume cfg
          then seq (read_status (logged wo) va cfg) (\<lambda>s. case s of
            None \<Rightarrow> client_fail ''requested refresh run does not exist; refusing to create a new run''
          | Some _ \<Rightarrow> ret ())
          else ret ()) 3 3"
    by (auto split: option.split intro!: costs_intro costs_then_free [OF costs_read_status])
  then show ?thesis unfolding start_run_def by (rule delivers_after) (rule delivers_start_attempts)
qed

definition known_round :: "client_snapshot set \<Rightarrow> round \<Rightarrow> bool" where
  "known_round K r \<longleftrightarrow> (case r of Waited t _ \<Rightarrow> t \<in> K | Acted t \<Rightarrow> t \<in> K)"

lemma delivers_client_round:
  assumes "s \<in> K"
  shows "delivers va cfg K known_round (client_round (logged wo) va cfg deadline budget s waited)"
proof -
  have acted: "delivers va cfg K known_round (seq m (\<lambda>t. ret (Acted t)))" if "delivers va cfg K known m"
    for m :: "('a \<times> event list, client_snapshot) client" and K
    by (rule delivers_seq [OF that]) (auto simp: known_def known_round_def intro!: delivers_intro)
  have waited: "delivers va cfg K known_round (seq m (\<lambda>t. ret (Waited t k)))" if "delivers va cfg K known m"
    for m :: "('a \<times> event list, client_snapshot) client" and K k
    by (rule delivers_seq [OF that]) (auto simp: known_def known_round_def intro!: delivers_intro)
  have posted: "delivers va cfg K known_round (posting_round (logged wo) va cfg i)" for K i
    unfolding posting_round_def by (rule delivers_seq [OF delivers_post(1)]) (rule acted [OF delivers_updated_or_read])
  have finalized: "delivers va cfg K known_round (seq (post_finalize (logged wo) va cfg) (\<lambda>updated.
      seq (updated_or_read (logged wo) va cfg code updated) (\<lambda>t. ret (Acted t))))" for K code
    by (rule delivers_seq [OF delivers_post(2)]) (rule acted [OF delivers_updated_or_read])
  have slept: "delivers va cfg K known_round (seq (pause (logged wo) delay) (\<lambda>_.
      seq (read_status (logged wo) va cfg) (\<lambda>current. seq (expect code current) (\<lambda>t. ret (Waited t k)))))" for K delay code k
    by (rule delivers_after [OF costs_pause], rule delivers_seq [OF delivers_read_status])
      (rule waited [OF delivers_expect])
  have idle: "delivers va cfg K known_round (idle_round (logged wo) va cfg deadline budget s waited)" for K
    unfolding idle_round_def Let_def
    by (intro delivers_after [OF costs_next_due] delivers_after [OF costs_readings(1)] delivers_after [OF costs_readings(2)])
      (use slept finalized in auto)
  have stale: "delivers va cfg K' known_round (ret (Acted s))" if "K \<subseteq> K'" for K'
    using assms that by (intro delivers_ret) (auto simp: known_round_def)
  have polled: "delivers va cfg K' known_round (polling_round (logged wo) va cfg deadline s)" if "K \<subseteq> K'" for K'
  proof -
    have "delivers va cfg K2 known_round (seq (pause (logged wo) 2) (\<lambda>_.
        seq (read_status (logged wo) va cfg) (\<lambda>current. seq (expect code current) (\<lambda>_. ret (Acted s)))))"
      if "K \<subseteq> K2" for K2 code
      by (intro delivers_after [OF costs_pause] delivers_after [OF costs_read_status]
          delivers_after [OF costs_expect [OF order_refl]] stale) (use that in blast)
    then show ?thesis
      unfolding polling_round_def by (intro delivers_after [OF costs_readings(2)]) (use that in \<open>auto intro: delivers_intro\<close>)
  qed
  show ?thesis
    unfolding client_round_def
  proof (rule delivers_after [OF costs_next_item])
    fix K' and item assume "K \<subseteq> K'"
    then show "delivers va cfg K' known_round (case item of None \<Rightarrow> idle_round (logged wo) va cfg deadline budget s waited
        | Some i \<Rightarrow> seq (claim_is_active (logged wo) i) (\<lambda>active. if active
            then polling_round (logged wo) va cfg deadline s else posting_round (logged wo) va cfg i))"
      using idle by (cases item) (auto intro!: delivers_after [OF costs_claim_is_active] polled posted, blast)
  qed
qed

definition published :: "validation \<Rightarrow> client_snapshot \<Rightarrow> client_result \<Rightarrow> bool" where
  "published va s res \<longleftrightarrow> terminal s \<and> (\<exists>text parsed final.
     cr_final (cs_run s) = Some text \<and> va_loads va text = Some parsed \<and> va_final va parsed = Some final
     \<and> fr_status final \<noteq> RsError \<and> cl_status res = fr_status final
     \<and> cl_tasks res = map task_document (fr_tasks final))"

lemma delivers_stored_result:
  "delivers va cfg K (\<lambda>_ final. \<exists>text parsed. cr_final (cs_run s) = Some text \<and> va_loads va text = Some parsed
     \<and> va_final va parsed = Some final) (stored_result va s)"
  unfolding stored_result_def by (auto intro!: delivers_intro split: option.split)

lemma delivers_result:
  assumes "s \<in> K" "terminal s"
  shows "delivers va cfg K (\<lambda>K res. \<exists>s \<in> K. published va s res) (client_result_of (logged wo) va s started)"
  unfolding client_result_of_def
proof (rule delivers_seq [OF delivers_stored_result])
  fix K' final
  assume "K \<subseteq> K'" and f: "\<exists>text parsed. cr_final (cs_run s) = Some text \<and> va_loads va text = Some parsed
     \<and> va_final va parsed = Some final"
  show "delivers va cfg K' (\<lambda>K res. \<exists>s \<in> K. published va s res)
     (if fr_status final = RsError then client_fail ''refresh run completed with no successful work items''
      else seq (call (wo_perf_counter (logged wo))) (\<lambda>now. ret
         \<lparr>cl_status = fr_status final, cl_tasks = map task_document (fr_tasks final), cl_http = 200,
          cl_latency = of_int (round_even ((now - started) * 1000)) / 1000\<rparr>))"
  proof (cases "fr_status final = RsError")
    case False
    have "published va s \<lparr>cl_status = fr_status final, cl_tasks = map task_document (fr_tasks final), cl_http = 200,
        cl_latency = l\<rparr>" for l
      using f False assms(2) by (auto simp: published_def)
    then show ?thesis
      using False assms(1) \<open>K \<subseteq> K'\<close>
      by (auto intro!: delivers_after [OF costs_readings(3)] delivers_ret bexI [of _ s])
  qed (simp add: delivers_intro)
qed

lemma delivers_client_rounds:
  assumes "s \<in> K"
  shows "delivers va cfg K (\<lambda>K res. \<exists>s \<in> K. published va s res)
    (client_rounds (logged wo) va cfg started deadline budget n s waited)"
  using assms
proof (induction n arbitrary: s waited K)
  case (Suc n)
  have check: "costs (check_deadline (logged wo) deadline) 0 0"
    unfolding check_deadline_def by (auto intro!: costs_free_then costs_intro)
  show ?case
  proof (cases "terminal s")
    case True
    then show ?thesis using delivers_result [OF Suc.prems] by (simp add: client_rounds.simps)
  next
    case False
    have "delivers va cfg K (\<lambda>K res. \<exists>s \<in> K. published va s res)
      (seq (client_round (logged wo) va cfg deadline budget s waited) (\<lambda>r. case r of
          Waited t waited' \<Rightarrow> client_rounds (logged wo) va cfg started deadline budget n t waited'
        | Acted t \<Rightarrow> seq (check_deadline (logged wo) deadline) (\<lambda>_.
            client_rounds (logged wo) va cfg started deadline budget n t waited)))"
      by (rule delivers_seq [OF delivers_client_round [OF Suc.prems]])
        (auto simp: known_round_def split: round.splits intro!: Suc.IH delivers_after [OF check])
    then show ?thesis using False by (simp add: client_rounds.simps)
  qed
qed (simp add: client_rounds.simps delivers_intro)

text \<open>C31: The client reports only what the server published. When it returns a result, one of the requests it
  sent was answered with status 200 and a status document that is valid, belongs to exactly this run, cycle,
  force flag and an accepted manifest version, and says that the run is finished; the result is the status
  and the task list of the final result stored in that document, and that status is not an error.\<close>

theorem client_reports_the_published_result:
  assumes "run_resumable_refresh (logged wo) va cfg (w, []) = (Inr res, (w', es))"
  shows "\<exists>q payload s. Sent q (Reply 200 payload) \<in> set es \<and> va_snapshot va payload = Some s
    \<and> same_workflow cfg s \<and> published va s res"
proof -
  have "delivers va cfg {} (\<lambda>K res. \<exists>s \<in> K. published va s res) (run_resumable_refresh (logged wo) va cfg)"
    unfolding run_resumable_refresh_def
    by (rule delivers_after [OF costs_readings(3)], rule delivers_seq [OF delivers_start_run])
      (simp add: known_def delivers_client_rounds)
  then obtain s where s: "s \<in> answers va cfg es" "published va s res"
    unfolding delivers_def
    by (rule yieldsD [of "run_resumable_refresh (logged wo) va cfg", OF _ assms]) (auto intro: that)
  have "\<exists>q payload. Sent q (Reply 200 payload) \<in> set es \<and> va_snapshot va payload = Some s \<and> same_workflow cfg s"
    if "s \<in> answers va cfg es" for es
    using that
  proof (induction es rule: sent.induct)
    case (2 q r es)
    then show ?case by (cases r) (auto split: if_splits)
  qed auto
  with s show ?thesis by blast
qed

subsection \<open>An example\<close>

text \<open>A server that answers every request with one document, and clocks that stand still.\<close>

definition frozen_world :: "datetime \<Rightarrow> unit world" where
  "frozen_world t = \<lparr>wo_request = (\<lambda>_ w. (Reply 200 JNull, w)), wo_now = (\<lambda>w. (t, w)), wo_monotonic = (\<lambda>w. (0, w)),
     wo_perf_counter = (\<lambda>w. (0, w)), wo_sleep = (\<lambda>_ w. w)\<rparr>"

definition ex_run :: "run_state \<Rightarrow> client_run" where
  "ex_run st = \<lparr>cr_id = ''r1'', cr_cycle_id = ''c1'', cr_state = st, cr_force = False, cr_version = ''daily-refresh-v6'',
     cr_final = Some ''{}'', cr_next_due = None, cr_due_key = None\<rparr>"

definition ex_item :: client_item where
  "ex_item = \<lparr>ci_key = ''focus'', ci_task = Some ''focus'', ci_status = Claimed, ci_attempt = 1,
     ci_expires = Some ''2025-01-02T03:30:00+00:00'', ci_generation = 1, ci_acquisitions = 1, ci_next_at = None,
     ci_deferral = None, ci_category = None, ci_last_category = None\<rparr>"

definition ex_final_task :: final_task where
  "ex_final_task = \<lparr>ft_name = ''focus'', ft_status = TsOk, ft_error = None, ft_acquisition = None, ft_retry = None,
     ft_deferral = None, ft_category = None, ft_last_code = None, ft_last_category = None\<rparr>"

definition ex_validation :: validation where
  "ex_validation = \<lparr>va_snapshot = (\<lambda>_. Some \<lparr>cs_run = ex_run RunSucceeded, cs_items = []\<rparr>),
     va_loads = (\<lambda>_. Some JNull), va_final = (\<lambda>_. Some \<lparr>fr_status = RsOk, fr_tasks = [ex_final_task]\<rparr>)\<rparr>"

definition ex_config :: client_config where
  "ex_config = \<lparr>cf_base = ''http://localhost'', cf_run = ''r1'', cf_cycle = ''c1'', cf_token = ''t'', cf_force = False,
     cf_max_wait = 7200, cf_max_in_run_wait = 300, cf_resume = False\<rparr>"

definition ex_noon :: datetime where
  "ex_noon = DateTime (Date 2025 1 2) 3 0 0 0 (Some 0)"

lemma ex_client_run:
  "case run_resumable_refresh (logged (frozen_world ex_noon)) ex_validation ex_config ((), []) of
     (r, (w, es)) \<Rightarrow> (case r of Inl e \<Rightarrow> False | Inr res \<Rightarrow> cl_status res = RsOk \<and> length es = 1)"
  by code_simp

theorem client_reports_the_published_result_witness:
  "\<exists>s. va_snapshot ex_validation JNull = Some s \<and> terminal s \<and> same_workflow ex_config s"
proof -
  obtain r w es where run: "run_resumable_refresh (logged (frozen_world ex_noon)) ex_validation ex_config ((), []) = (r, (w, es))"
    by (metis prod.collapse)
  with ex_client_run obtain res where "r = Inr res" by (auto split: sum.splits)
  from client_reports_the_published_result [OF run [unfolded this]] show ?thesis
    by (auto simp: ex_validation_def published_def)
qed

section \<open>Polling a claimed item\<close>

text \<open>C32: While the first open item of a snapshot is claimed, the client is deaf: the status it polls every two
  seconds is thrown away, because the assignment stands behind the \<open>raise\<close> in the branch for a missing run.
  Even when every poll answers that the run has finished, no round ever looks at it, and when the claim
  stays unexpired for the remaining rounds the client fails instead of returning the result.\<close>

theorem polled_status_is_ignored:
  assumes claimed: "\<And>w. first_item (cs_run s) (fst (wo_now wo w)) (preferred s) = Inr (Some i)"
    and "ci_status i = Claimed" and "ci_expires i = Some stamp" and "fromisoformat stamp = Inr expiry"
    and unexpired: "\<And>w. is_after expiry (fst (wo_now wo w)) = Inr True"
    and within: "\<And>w. fst (wo_monotonic wo w) < deadline"
    and finished: "\<And>q w. fst (wo_request wo q w) = Reply 200 payload" "va_snapshot va payload = Some t"
      "same_workflow cfg t" "terminal t"
    and "\<not> terminal s"
  shows "fst (client_rounds wo va cfg started deadline budget n s waited w)
      = Inl (ClientError ''refresh run exceeded the bounded operation count'')"
proof -
  have now: "call (wo_now wo) w = (Inr (fst (wo_now wo w)), snd (wo_now wo w))" for w
    by (simp add: call_def case_prod_beta)
  have mono: "call (wo_monotonic wo) w = (Inr (fst (wo_monotonic wo w)), snd (wo_monotonic wo w))" for w
    by (simp add: call_def case_prod_beta)
  have reply: "send wo q w = (Inr (Reply 200 payload), snd (wo_request wo q w))" for q w
    using finished(1) by (simp add: send_def call_def case_prod_beta)
  have item: "\<exists>w'. next_item wo s w = (Inr (Some i), w')" for w
    using claimed by (simp add: next_item_def seq_def now raising_def)
  have active: "\<exists>w'. claim_is_active wo i w = (Inr True, w')" for w
    using assms(2-4) unexpired by (simp add: claim_is_active_def raising_def seq_def now ret_def)
  have read: "\<exists>w'. read_status wo va cfg w = (Inr (Some t), w')" for w
    using finished(2,3) by (simp add: read_status_def numeral_3_eq_3 read_attempts.simps Let_def seq_def reply snapshot_def ret_def)
  have poll: "\<exists>w'. polling_round wo va cfg deadline s w = (Inr (Acted s), w')" for w
  proof -
    obtain w1 where w1: "pause wo 2 (snd (wo_monotonic wo w)) = (Inr (), w1)" by (simp add: pause_def call_def)
    obtain w2 where "read_status wo va cfg w1 = (Inr (Some t), w2)" using read by blast
    with w1 within show ?thesis
      by (simp add: polling_round_def seq_def mono expect_def ret_def not_le [symmetric])
  qed
  have acted: "\<exists>w'. client_round wo va cfg deadline budget s waited w = (Inr (Acted s), w')" for w
  proof -
    obtain w1 w2 where "next_item wo s w = (Inr (Some i), w1)" "claim_is_active wo i w1 = (Inr True, w2)"
      using item active by metis
    with poll [of w2] show ?thesis by (simp add: client_round_def seq_def)
  qed
  have checked: "\<exists>w'. check_deadline wo deadline w = (Inr (), w')" for w
    using within by (simp add: check_deadline_def seq_def mono ret_def not_le [symmetric])
  have round: "\<exists>w'. client_rounds wo va cfg started deadline budget (Suc n) s waited w
      = client_rounds wo va cfg started deadline budget n s waited w'" for n w
  proof -
    obtain w1 where w1: "client_round wo va cfg deadline budget s waited w = (Inr (Acted s), w1)" using acted by blast
    obtain w2 where "check_deadline wo deadline w1 = (Inr (), w2)" using checked by blast
    with w1 \<open>\<not> terminal s\<close> show ?thesis by (auto simp: client_rounds.simps seq_def)
  qed
  show ?thesis
  proof (induction n arbitrary: w)
    case (Suc n)
    obtain w' where "client_rounds wo va cfg started deadline budget (Suc n) s waited w
      = client_rounds wo va cfg started deadline budget n s waited w'" using round by blast
    with Suc show ?case by simp
  qed (simp add: client_rounds.simps client_fail_def fail_def)
qed

theorem polled_status_is_ignored_witness:
  "fst (client_rounds (frozen_world ex_noon) ex_validation ex_config 0 7200 300 999
     \<lparr>cs_run = ex_run RunRunning, cs_items = [ex_item]\<rparr> 0 ())
   = Inl (ClientError ''refresh run exceeded the bounded operation count'')"
proof (rule polled_status_is_ignored [where i = ex_item and stamp = "''2025-01-02T03:30:00+00:00''" and payload = JNull
      and t = "\<lparr>cs_run = ex_run RunSucceeded, cs_items = []\<rparr>"])
  show "fromisoformat ''2025-01-02T03:30:00+00:00'' = Inr (DateTime (Date 2025 1 2) 3 30 0 0 (Some 0))" by code_simp
  show "is_after (DateTime (Date 2025 1 2) 3 30 0 0 (Some 0)) (fst (wo_now (frozen_world ex_noon) w)) = Inr True" for w
  proof -
    have "is_after (DateTime (Date 2025 1 2) 3 30 0 0 (Some 0)) ex_noon = Inr True" by code_simp
    then show ?thesis by (simp add: frozen_world_def)
  qed
qed (simp_all add: frozen_world_def ex_item_def ex_validation_def same_workflow_def terminal_def ex_run_def
    ex_config_def preferred_def waits_def MAX_WORK_ITEM_ATTEMPTS_def accepted_versions_def CURRENT_REFRESH_MANIFEST_VERSION_def)

end
