(* ===== verification/Doubles.thy ===== *)
theory Doubles
  imports PyValues "HOL-Library.Log_Nat"
begin

text \<open>
  Python's float arithmetic. A finite double is the rational it stands for (the two zeros are one), and an
  operation is the exact result rounded once to binary64, ties to even; a result beyond the largest double
  is an infinity. \<open>round64\<close> is the rounding: it is monotone and exact on the numbers that have a short
  enough binary expansion, integers up to \<open>2^53\<close> among them.
\<close>

section \<open>Rounding to binary64\<close>

text \<open>The exponent of the largest power of two that is at most \<open>\<bar>x\<bar>\<close>.\<close>

definition binade :: "rat \<Rightarrow> int" where
  "binade x =
     (case quotient_of \<bar>x\<bar> of (p, q) \<Rightarrow>
        let e = int (floorlog 2 (nat p)) - int (floorlog 2 (nat q)) in if 2 powi e \<le> \<bar>x\<bar> then e else e - 1)"

text \<open>The exponent of the last place: 52 below the binade, and not below that of the smallest double.\<close>

definition last_place :: "rat \<Rightarrow> int" where
  "last_place x = max (binade x) (- 1022) - 52"

definition round64 :: "rat \<Rightarrow> rat" where
  "round64 x = (if x = 0 then 0 else of_int (round_even (x / 2 powi last_place x)) * 2 powi last_place x)"

lemma powi_pos [simp]: "0 < (2::rat) powi e"
  by (simp add: zero_less_power_int)

lemma powi_neq_0 [simp]: "(2::rat) powi e \<noteq> 0"
  using powi_pos [of e] by linarith

lemma powi_add: "(2::rat) powi (a + b) = 2 powi a * 2 powi b"
  by (rule power_int_add) simp

lemma powi_diff: "(2::rat) powi (a - b) = 2 powi a / 2 powi b"
  by (rule power_int_diff) simp

lemma powi_less_iff [simp]: "(2::rat) powi a < 2 powi b \<longleftrightarrow> a < b"
  using power_int_strict_increasing [of a b "2::rat"] power_int_strict_increasing [of b a "2::rat"]
  by (cases a b rule: linorder_cases) auto

lemma powi_le_iff [simp]: "(2::rat) powi a \<le> 2 powi b \<longleftrightarrow> a \<le> b"
  using powi_less_iff [of b a] by (simp only: not_less [symmetric])

lemma powi_int: "0 \<le> e \<Longrightarrow> (2::rat) powi e = of_int (2 ^ nat e)"
  by (simp add: power_int_def)

lemma floorlog_powi:
  assumes "0 < p"
  shows "2 powi (int (floorlog 2 (nat p)) - 1) \<le> rat_of_int p" "rat_of_int p < 2 powi int (floorlog 2 (nat p))"
proof -
  define n where "n = nat p"
  have p: "rat_of_int p = rat_of_nat n" and n: "0 < n" using assms by (simp_all add: n_def)
  have b: "2 ^ (floorlog 2 n - 1) \<le> n \<and> n < 2 ^ floorlog 2 n" by (rule floorlog_bounds) (use n in auto)
  then obtain k where k: "floorlog 2 n = Suc k" using n by (cases "floorlog 2 n") auto
  have "rat_of_nat (2 ^ k) \<le> rat_of_nat n" "rat_of_nat n < rat_of_nat (2 ^ Suc k)"
    using b unfolding k of_nat_le_iff of_nat_less_iff by simp_all
  then show "2 powi (int (floorlog 2 (nat p)) - 1) \<le> rat_of_int p"
    "rat_of_int p < 2 powi int (floorlog 2 (nat p))"
    unfolding p n_def [symmetric] k power_int_of_nat by simp_all
qed

lemma binade_bounds:
  assumes "x \<noteq> 0"
  shows "2 powi binade x \<le> \<bar>x\<bar>" "\<bar>x\<bar> < 2 powi (binade x + 1)"
proof -
  obtain p q where pq: "quotient_of \<bar>x\<bar> = (p, q)" by fastforce
  have q: "0 < q" and x: "\<bar>x\<bar> = of_int p / of_int q"
    using quotient_of_denom_pos [OF pq] quotient_of_div [OF pq] by auto
  have "0 < \<bar>x\<bar>" using assms by simp
  then have p: "0 < p" using x q by (simp add: zero_less_divide_iff)
  let ?a = "int (floorlog 2 (nat p))" and ?b = "int (floorlog 2 (nat q))"
  note bp = floorlog_powi [OF p] and bq = floorlog_powi [OF q]
  have e: "?a - ?b + 1 = ?a - (?b - 1)" "?a - ?b - 1 = ?a - 1 - ?b" by simp_all
  have "rat_of_int p / of_int q < 2 powi ?a / 2 powi (?b - 1)"
    by (rule frac_less [OF less_imp_le bp(2) _ bq(1)]) (use p in simp_all)
  then have up: "\<bar>x\<bar> < 2 powi (?a - ?b + 1)" by (simp only: x e powi_diff [of ?a "?b - 1"])
  have "2 powi (?a - 1) / 2 powi ?b \<le> rat_of_int p / of_int q"
    by (rule frac_le [OF less_imp_le bp(1) _ less_imp_le [OF bq(2)]]) (use p q in simp_all)
  then have lo: "2 powi (?a - ?b - 1) \<le> \<bar>x\<bar>" by (simp only: x e powi_diff [of "?a - 1" ?b])
  show "2 powi binade x \<le> \<bar>x\<bar>" "\<bar>x\<bar> < 2 powi (binade x + 1)"
    using up lo unfolding binade_def pq prod.case Let_def by (auto simp: not_le)
qed

lemma binade_less: "x \<noteq> 0 \<Longrightarrow> 2 powi e \<le> \<bar>x\<bar> \<Longrightarrow> e \<le> binade x"
  using binade_bounds(2) [of x] le_less_trans [of "2 powi e" "\<bar>x\<bar>"] by fastforce

lemma binade_greater: "x \<noteq> 0 \<Longrightarrow> \<bar>x\<bar> < 2 powi e \<Longrightarrow> binade x < e"
  using binade_bounds(1) [of x] le_less_trans [of "2 powi binade x" "\<bar>x\<bar>"] by fastforce

subsection \<open>Rounding to integers\<close>

lemma round_even_le: "x \<le> rat_of_int n \<Longrightarrow> round_even x \<le> n"
  unfolding round_even_def Let_def using floor_correct [of x] by (auto split: if_splits) linarith+

lemma round_even_int [simp]: "round_even (of_int n) = n"
  by (simp add: round_even_def Let_def)

lemma round_even_mono:
  assumes "x \<le> y"
  shows "round_even x \<le> round_even y"
proof (cases "\<lfloor>x\<rfloor> = \<lfloor>y\<rfloor>")
  case True
  then show ?thesis using assms by (auto simp: round_even_def Let_def)
next
  case False
  then have "\<lfloor>x\<rfloor> + 1 \<le> \<lfloor>y\<rfloor>" using floor_mono [OF assms] by simp
  then have "x \<le> of_int \<lfloor>y\<rfloor>" using floor_correct [of x] of_int_le_iff [of "\<lfloor>x\<rfloor> + 1" "\<lfloor>y\<rfloor>", where 'a = rat] by linarith
  then show ?thesis using round_even_le round_even_floor order_trans by blast
qed

lemma round_even_minus: "round_even (- x) = - round_even x"
proof (cases "x = of_int \<lfloor>x\<rfloor>")
  case True
  then show ?thesis by (metis of_int_minus round_even_int)
next
  case False
  then have "of_int \<lfloor>x\<rfloor> < x" using floor_correct [of x] by (metis order_le_less)
  then have "\<lfloor>- x\<rfloor> = - \<lfloor>x\<rfloor> - 1"
    by (intro floor_unique) (use floor_correct [of x] in auto)
  then show ?thesis using False floor_correct [of x] by (auto simp: round_even_def Let_def)
qed

subsection \<open>The rounding is monotone\<close>

lemma round64_0 [simp]: "round64 0 = 0"
  by (simp add: round64_def)

lemma binade_minus [simp]: "binade (- x) = binade x"
  by (simp add: binade_def)

lemma round64_minus: "round64 (- x) = - round64 x"
  by (simp add: round64_def last_place_def round_even_minus)

lemma round64_le_multiple:
  assumes "0 < x" "x \<le> of_int k * 2 powi last_place x"
  shows "round64 x \<le> of_int k * 2 powi last_place x"
proof -
  have "x / 2 powi last_place x \<le> of_int k" using assms(2) by (simp add: divide_le_eq)
  then show ?thesis using assms(1) round_even_le by (simp add: round64_def)
qed

lemma round64_ge_multiple:
  assumes "0 < x" "of_int k * 2 powi last_place x \<le> x"
  shows "of_int k * 2 powi last_place x \<le> round64 x"
proof -
  have "of_int k \<le> x / 2 powi last_place x" using assms(2) by (simp add: le_divide_eq)
  then show ?thesis using assms(1) round_even_ge by (simp add: round64_def)
qed

lemma powi_multiple: "l \<le> e \<Longrightarrow> (2::rat) powi e = of_int (2 ^ nat (e - l)) * 2 powi l"
  using powi_int [of "e - l"] powi_add [of "e - l" l] by simp

lemma round64_mono_pos:
  assumes "0 < x" "x \<le> y"
  shows "round64 x \<le> round64 y"
proof (cases "last_place x = last_place y")
  case True
  have "x / 2 powi last_place x \<le> y / 2 powi last_place x" using assms(2) by (simp add: divide_right_mono)
  then show ?thesis using assms round_even_mono True by (simp add: round64_def)
next
  case False
  have "binade x \<le> binade y" using binade_less [of y "binade x"] binade_bounds(1) [of x] assms by auto
  with False have b: "binade x < binade y" "last_place x \<le> binade y" "last_place y \<le> binade y"
    by (auto simp: last_place_def max_def split: if_splits)
  have "2 powi (binade x + 1) \<le> (2::rat) powi binade y" using b(1) by simp
  then have xy: "x \<le> 2 powi binade y" "2 powi binade y \<le> y"
    using binade_bounds(2) [of x] binade_bounds(1) [of y] assms by (auto simp del: powi_le_iff)
  have "round64 x \<le> 2 powi binade y"
    unfolding powi_multiple [OF b(2)] by (rule round64_le_multiple) (use assms xy b(2) powi_multiple [OF b(2)] in auto)
  also have "\<dots> \<le> round64 y"
    unfolding powi_multiple [OF b(3)] by (rule round64_ge_multiple) (use assms xy b(3) powi_multiple [OF b(3)] in auto)
  finally show ?thesis .
qed

lemma round64_nonneg: "0 \<le> x \<Longrightarrow> 0 \<le> round64 x"
  using round64_ge_multiple [of x 0] by (cases "x = 0") auto

lemma round64_mono:
  assumes "x \<le> y"
  shows "round64 x \<le> round64 y"
proof -
  consider "0 < x" | "x \<le> 0" "0 \<le> y" | "y < 0" by linarith
  then show ?thesis
  proof cases
    case 1
    then show ?thesis using assms by (rule round64_mono_pos)
  next
    case 2
    then show ?thesis using round64_nonneg [of y] round64_nonneg [of "- x"] round64_minus [of x] by simp
  next
    case 3
    then show ?thesis using assms round64_mono_pos [of "- y" "- x"] by (simp add: round64_minus)
  qed
qed

lemma round64_exact:
  assumes "\<bar>k\<bar> \<le> 2 ^ 53" "- 1074 \<le> e"
  shows "round64 (of_int k * 2 powi e) = of_int k * 2 powi e"
proof (cases "k = 0")
  case False
  define x where "x = rat_of_int k * 2 powi e"
  have x: "x \<noteq> 0" "\<bar>x\<bar> = of_int \<bar>k\<bar> * 2 powi e" using False by (simp_all add: x_def abs_mult)
  have whole: "round64 x = x" if n: "x = of_int n * 2 powi last_place x" for n
  proof -
    have "x / 2 powi last_place x = of_int n" using arg_cong [OF n, of "\<lambda>z. z / 2 powi last_place x"] by simp
    then show ?thesis using x(1) n by (simp only: round64_def round_even_int if_False)
  qed
  show ?thesis
    unfolding x_def [symmetric]
  proof (cases "last_place x \<le> e")
    case True
    define l where "l = last_place x"
    have "(2::rat) powi e = of_int (2 ^ nat (e - l)) * 2 powi l"
      by (rule powi_multiple) (use True in \<open>simp add: l_def\<close>)
    then have "x = of_int (k * 2 ^ nat (e - l)) * 2 powi l" by (simp add: x_def)
    then have "x = of_int (k * 2 ^ nat (e - l)) * 2 powi last_place x" by (simp only: l_def)
    then show "round64 x = x" by (rule whole)
  next
    case False
    then have l: "last_place x = binade x - 52" "e < binade x - 52"
      using assms(2) by (auto simp: last_place_def max_def split: if_splits)
    have "rat_of_int \<bar>k\<bar> \<le> of_int (2 ^ 53)" using assms(1) by (simp only: of_int_le_iff)
    then have "\<bar>x\<bar> \<le> of_int (2 ^ 53) * 2 powi e" unfolding x(2) by (rule mult_right_mono) (simp add: less_imp_le)
    also have "\<dots> = 2 powi (e + 53)" using powi_multiple [of e "e + 53"] by simp
    finally have up: "\<bar>x\<bar> \<le> 2 powi (e + 53)" .
    have "2 powi binade x \<le> (2::rat) powi (e + 53)" using binade_bounds(1) [OF x(1)] up by (rule order_trans)
    then have b: "binade x = e + 53" using l(2) by simp
    then have "\<bar>x\<bar> = 2 powi (e + 53)" using binade_bounds(1) [OF x(1)] up by simp
    moreover have "(2::rat) powi (e + 53) = of_int (2 ^ 52) * 2 powi last_place x"
      using powi_multiple [of "e + 1" "e + 53"] l b by (simp add: algebra_simps)
    ultimately have "x = of_int (2 ^ 52) * 2 powi last_place x \<or> x = of_int (- (2 ^ 52)) * 2 powi last_place x"
      by (simp add: abs_if split: if_splits)
    then show "round64 x = x" using whole by blast
  qed
qed simp

lemma round64_int: "\<bar>k\<bar> \<le> 2 ^ 53 \<Longrightarrow> round64 (of_int k) = of_int k"
  using round64_exact [of k 0] by simp

lemma round64_half: "\<bar>k\<bar> \<le> 2 ^ 53 \<Longrightarrow> round64 (of_int k / 2) = of_int k / 2"
  using round64_exact [of k "- 1"] by simp

section \<open>Operations\<close>

text \<open>The double nearest to an exact result.\<close>

definition fl :: "rat \<Rightarrow> pyfloat" where
  "fl x = finite_float (round64 x)"

fun is_finite :: "pyfloat \<Rightarrow> bool" where
  "is_finite (Fin x) = True"
| "is_finite _ = False"

fun float_add :: "pyfloat \<Rightarrow> pyfloat \<Rightarrow> pyfloat" where
  "float_add (Fin x) (Fin y) = fl (x + y)"
| "float_add NaN _ = NaN"
| "float_add _ NaN = NaN"
| "float_add PosInf NegInf = NaN"
| "float_add NegInf PosInf = NaN"
| "float_add PosInf _ = PosInf"
| "float_add _ PosInf = PosInf"
| "float_add NegInf _ = NegInf"
| "float_add _ NegInf = NegInf"

definition float_sub :: "pyfloat \<Rightarrow> pyfloat \<Rightarrow> pyfloat" where
  "float_sub x y = float_add x (negate_float y)"

definition signed_inf :: "bool \<Rightarrow> pyfloat" where
  "signed_inf positive = (if positive then PosInf else NegInf)"

fun float_mult :: "pyfloat \<Rightarrow> pyfloat \<Rightarrow> pyfloat" where
  "float_mult (Fin x) (Fin y) = fl (x * y)"
| "float_mult NaN _ = NaN"
| "float_mult _ NaN = NaN"
| "float_mult (Fin x) PosInf = (if x = 0 then NaN else signed_inf (0 < x))"
| "float_mult (Fin x) NegInf = (if x = 0 then NaN else signed_inf (x < 0))"
| "float_mult PosInf (Fin y) = (if y = 0 then NaN else signed_inf (0 < y))"
| "float_mult NegInf (Fin y) = (if y = 0 then NaN else signed_inf (y < 0))"
| "float_mult x y = signed_inf (x = y)"

text \<open>A division by zero raises, whatever is divided.\<close>

fun float_div :: "pyfloat \<Rightarrow> pyfloat \<Rightarrow> py_error + pyfloat" where
  "float_div (Fin x) (Fin y) = (if y = 0 then Inl ZeroDivisionError else Inr (fl (x / y)))"
| "float_div NaN (Fin y) = (if y = 0 then Inl ZeroDivisionError else Inr NaN)"
| "float_div PosInf (Fin y) = (if y = 0 then Inl ZeroDivisionError else Inr (signed_inf (0 < y)))"
| "float_div NegInf (Fin y) = (if y = 0 then Inl ZeroDivisionError else Inr (signed_inf (y < 0)))"
| "float_div (Fin x) PosInf = Inr (Fin 0)"
| "float_div (Fin x) NegInf = Inr (Fin 0)"
| "float_div _ _ = Inr NaN"

fun float_abs :: "pyfloat \<Rightarrow> pyfloat" where
  "float_abs (Fin x) = Fin \<bar>x\<bar>"
| "float_abs NaN = NaN"
| "float_abs _ = PosInf"

fun float_less :: "pyfloat \<Rightarrow> pyfloat \<Rightarrow> bool" where
  "float_less (Fin x) (Fin y) \<longleftrightarrow> x < y"
| "float_less (Fin x) PosInf \<longleftrightarrow> True"
| "float_less NegInf (Fin y) \<longleftrightarrow> True"
| "float_less NegInf PosInf \<longleftrightarrow> True"
| "float_less _ _ \<longleftrightarrow> False"

fun float_eq :: "pyfloat \<Rightarrow> pyfloat \<Rightarrow> bool" where
  "float_eq NaN _ \<longleftrightarrow> False"
| "float_eq _ NaN \<longleftrightarrow> False"
| "float_eq x y \<longleftrightarrow> x = y"

text \<open>An \<open>int\<close> in a float operation. Those of the program are far below \<open>2^53\<close>.\<close>

definition float_of_int :: "int \<Rightarrow> pyfloat" where
  "float_of_int n = fl (of_int n)"

text \<open>\<open>fsum\<close> of finite values: the exact sum, rounded once. A sum that leaves the range of doubles raises.\<close>

definition fsum :: "rat list \<Rightarrow> py_error + rat" where
  "fsum xs = (case fl (sum_list xs) of Fin s \<Rightarrow> Inr s | _ \<Rightarrow> Inl OverflowError)"

lemma double_overflow_large: "2 ^ 60 < double_overflow"
  by (simp add: double_overflow_def)

lemma fl_small:
  assumes "\<bar>x\<bar> \<le> 2 ^ 53"
  shows "fl x = Fin (round64 x)"
proof -
  have "round64 x \<le> round64 (of_int (2 ^ 53))" "round64 (of_int (- (2 ^ 53))) \<le> round64 x"
    using assms by (auto intro!: round64_mono simp: abs_le_iff)
  then have "round64 x \<le> 2 ^ 53" "- (2 ^ 53) \<le> round64 x"
    using round64_int [of "2 ^ 53"] round64_int [of "- (2 ^ 53)"] by simp_all
  then show ?thesis using double_overflow_large by (auto simp: fl_def finite_float_def)
qed

lemma float_of_int_small: "\<bar>n\<bar> \<le> 2 ^ 53 \<Longrightarrow> float_of_int n = Fin (of_int n)"
proof -
  assume n: "\<bar>n\<bar> \<le> 2 ^ 53"
  then have "rat_of_int \<bar>n\<bar> \<le> of_int (2 ^ 53)" by (simp only: of_int_le_iff)
  then show ?thesis using fl_small [of "of_int n"] round64_int [OF n] by (simp add: float_of_int_def)
qed

lemma round64_between:
  assumes "of_int a \<le> x" "x \<le> of_int b" "\<bar>a\<bar> \<le> 2 ^ 53" "\<bar>b\<bar> \<le> 2 ^ 53"
  shows "of_int a \<le> round64 x" "round64 x \<le> of_int b"
  using round64_mono [OF assms(1)] round64_mono [OF assms(2)] round64_int assms(3,4) by simp_all

section \<open>Percentiles\<close>

text \<open>\<open>100 * (less + 0.5 * equal) / n\<close>, as the percentiles and the score compute it.\<close>

definition percentile_of :: "nat \<Rightarrow> nat \<Rightarrow> nat \<Rightarrow> py_error + pyfloat" where
  "percentile_of below equal n =
     float_div (float_mult (float_of_int 100)
        (float_add (float_of_int (int below)) (float_mult (Fin (1 / 2)) (float_of_int (int equal)))))
      (float_of_int (int n))"

text \<open>Only the division rounds: the result is the exact percentile, rounded once, and stays within its range.\<close>

lemma percentile_of_eq:
  assumes "below + equal \<le> n" "0 < n" "n \<le> 2 ^ 40"
  shows "percentile_of below equal n = Inr (Fin (round64 (100 * (of_nat below + of_nat equal / 2) / of_nat n)))"
    and "0 \<le> round64 (100 * (of_nat below + of_nat equal / 2) / of_nat n)"
    and "round64 (100 * (of_nat below + of_nat equal / 2) / of_nat n) \<le> 100"
proof -
  define k where "k = 2 * int below + int equal"
  have k: "0 \<le> k" "k \<le> 2 * int n" and n: "int n \<le> 1099511627776" using assms by (simp_all add: k_def)
  have parts: "float_of_int (int below) = Fin (of_nat below)" "float_of_int (int equal) = Fin (of_nat equal)"
    "float_of_int (int n) = Fin (of_nat n)" "float_of_int 100 = Fin 100"
    using assms n float_of_int_small [of "int below"] float_of_int_small [of "int equal"] float_of_int_small [of "int n"]
      float_of_int_small [of 100] by simp_all
  have half: "fl (1 / 2 * of_nat equal) = Fin (of_nat equal / 2)"
    using fl_small [of "of_nat equal / 2"] round64_half [of "int equal"] assms n
    by simp
  have kr: "rat_of_int k \<le> of_int 2199023255552" unfolding of_int_le_iff using k n by linarith
  have sum: "of_nat below + of_nat equal / 2 = rat_of_int k / 2" by (simp add: k_def)
  have added: "fl (of_nat below + of_nat equal / 2) = Fin (of_int k / 2)"
    unfolding sum using fl_small [of "of_int k / 2"] round64_half [of k] k n kr by simp
  have hundred: "fl (100 * (of_int k / 2)) = Fin (of_int (50 * k))"
    using fl_small [of "of_int (50 * k)"] round64_int [of "50 * k"] k n kr by simp
  have q: "100 * (of_nat below + of_nat equal / 2) / of_nat n = rat_of_int (50 * k) / of_nat n"
    unfolding sum by simp
  have "rat_of_int k \<le> of_int (2 * int n)" using k(2) by (simp only: of_int_le_iff)
  then have range: "of_int 0 \<le> rat_of_int (50 * k) / of_nat n" "rat_of_int (50 * k) / of_nat n \<le> of_int 100"
    using k(1) assms(2) by (simp_all add: divide_le_eq)
  have quotient: "fl (rat_of_int (50 * k) / of_nat n) = Fin (round64 (rat_of_int (50 * k) / of_nat n))"
    by (rule fl_small) (use range in auto)
  show "percentile_of below equal n = Inr (Fin (round64 (100 * (of_nat below + of_nat equal / 2) / of_nat n)))"
    unfolding percentile_of_def parts float_mult.simps half float_add.simps added hundred float_div.simps q
    using quotient assms(2) by simp
  show "0 \<le> round64 (100 * (of_nat below + of_nat equal / 2) / of_nat n)"
    "round64 (100 * (of_nat below + of_nat equal / 2) / of_nat n) \<le> 100"
    unfolding q using round64_between [OF range] by simp_all
qed

end
