(* ===== verification/Selection.thy ===== *)
theory Selection
  imports TextOrder "HOL-Library.AList" "HOL-Library.Product_Lexorder" "HOL-Library.Multiset"
begin

text \<open>
  Picking the latest: Python's \<open>max(.., key=..)\<close> and \<open>min(.., key=..)\<close>, which return the first extreme
  element, and the loop that keeps the latest element of each group in a dictionary. A dictionary is an
  association list in insertion order, a tuple of keys is compared lexicographically.
\<close>

fun max_from :: "('a \<Rightarrow> 'k::linorder) \<Rightarrow> 'a \<Rightarrow> 'a list \<Rightarrow> 'a" where
  "max_from k x [] = x"
| "max_from k x (y # ys) = max_from k (if k x < k y then y else x) ys"

definition max_key :: "('a \<Rightarrow> 'k::linorder) \<Rightarrow> 'a list \<Rightarrow> 'a option" where
  "max_key k xs = (case xs of [] \<Rightarrow> None | x # ys \<Rightarrow> Some (max_from k x ys))"

fun min_from :: "('a \<Rightarrow> 'k::linorder) \<Rightarrow> 'a \<Rightarrow> 'a list \<Rightarrow> 'a" where
  "min_from k x [] = x"
| "min_from k x (y # ys) = min_from k (if k y < k x then y else x) ys"

definition min_key :: "('a \<Rightarrow> 'k::linorder) \<Rightarrow> 'a list \<Rightarrow> 'a option" where
  "min_key k xs = (case xs of [] \<Rightarrow> None | x # ys \<Rightarrow> Some (min_from k x ys))"

text \<open>One step of the loop: an element replaces its group's when it is the group's first or has a greater key.\<close>

definition latest_step :: "('a \<Rightarrow> 'g) \<Rightarrow> ('a \<Rightarrow> 'k::linorder) \<Rightarrow> ('g \<times> 'a) list \<Rightarrow> 'a \<Rightarrow> ('g \<times> 'a) list" where
  "latest_step g k d x =
     (case map_of d (g x) of
        None \<Rightarrow> AList.update (g x) x d
      | Some y \<Rightarrow> if k y < k x then AList.update (g x) x d else d)"

definition latest_by :: "('a \<Rightarrow> 'g) \<Rightarrow> ('a \<Rightarrow> 'k::linorder) \<Rightarrow> 'a list \<Rightarrow> ('g \<times> 'a) list" where
  "latest_by g k xs = foldl (latest_step g k) [] xs"

text \<open>\<open>tuple(d[key] for key in sorted(d))\<close>\<close>

definition in_key_order :: "('g::linorder \<times> 'a) list \<Rightarrow> 'a list" where
  "in_key_order d = map snd (sort_key fst d)"

section \<open>What they pick\<close>

lemma max_from_spec: "max_from k x ys \<in> insert x (set ys) \<and> (\<forall>y \<in> insert x (set ys). k y \<le> k (max_from k x ys))"
proof (induction k x ys rule: max_from.induct)
  case (2 k x y ys)
  then show ?case by (cases "k x < k y") (auto dest: less_imp_le order_trans)
qed simp

lemma max_key_Some: "max_key k xs = Some x \<Longrightarrow> x \<in> set xs \<and> (\<forall>y \<in> set xs. k y \<le> k x)"
  using max_from_spec [of k "hd xs" "tl xs"] by (cases xs) (auto simp: max_key_def)

lemma max_key_None [simp]: "max_key k xs = None \<longleftrightarrow> xs = []"
  by (simp add: max_key_def split: list.split)

lemma min_from_spec: "min_from k x ys \<in> insert x (set ys) \<and> (\<forall>y \<in> insert x (set ys). k (min_from k x ys) \<le> k y)"
proof (induction k x ys rule: min_from.induct)
  case (2 k x y ys)
  then show ?case by (cases "k y < k x") (auto dest: less_imp_le order_trans)
qed simp

lemma min_key_Some: "min_key k xs = Some x \<Longrightarrow> x \<in> set xs \<and> (\<forall>y \<in> set xs. k x \<le> k y)"
  using min_from_spec [of k "hd xs" "tl xs"] by (cases xs) (auto simp: min_key_def)

lemma min_key_None [simp]: "min_key k xs = None \<longleftrightarrow> xs = []"
  by (simp add: min_key_def split: list.split)

text \<open>The invariant of the loop: one entry for each group seen, the latest element of it.\<close>

definition latest_of :: "('a \<Rightarrow> 'g) \<Rightarrow> ('a \<Rightarrow> 'k::linorder) \<Rightarrow> 'a list \<Rightarrow> ('g \<times> 'a) list \<Rightarrow> bool" where
  "latest_of g k xs d \<longleftrightarrow> distinct (map fst d) \<and> fst ` set d = g ` set xs \<and>
     (\<forall>(h, x) \<in> set d. x \<in> set xs \<and> g x = h \<and> (\<forall>y \<in> set xs. g y = h \<longrightarrow> k y \<le> k x))"

lemma latest_step_of:
  assumes "latest_of g k xs d"
  shows "latest_of g k (xs @ [x]) (latest_step g k d x)"
proof -
  have d: "distinct (map fst d)" "fst ` set d = g ` set xs"
    and mem: "\<And>h z. (h, z) \<in> set d \<Longrightarrow> z \<in> set xs \<and> g z = h \<and> (\<forall>y \<in> set xs. g y = h \<longrightarrow> k y \<le> k z)"
    using assms by (auto simp: latest_of_def)
  have upd: "latest_of g k (xs @ [x]) (AList.update (g x) x d)" if le: "\<And>y. y \<in> set xs \<Longrightarrow> g y = g x \<Longrightarrow> k y \<le> k x"
  proof -
    have set_upd: "set (AList.update (g x) x d) = insert (g x, x) {p \<in> set d. fst p \<noteq> g x}"
      using d(1)
    proof (induction d)
      case (Cons p d)
      obtain h z where p: "p = (h, z)" by fastforce
      from Cons show ?case unfolding p by (auto simp: rev_image_eqI)
    qed simp
    have "distinct (map fst (AList.update (g x) x d))" using d(1) by (rule distinct_update)
    moreover have "fst ` set (AList.update (g x) x d) = g ` set (xs @ [x])"
    proof -
      have "fst ` {p \<in> set d. fst p \<noteq> g x} = g ` set xs - {g x}" using d(2) by force
      then show ?thesis unfolding set_upd by auto
    qed
    ultimately show ?thesis
      unfolding latest_of_def set_upd using le mem by auto
  qed
  show ?thesis
  proof (cases "map_of d (g x)")
    case None
    then have "g x \<notin> g ` set xs" using d(2) by (simp add: map_of_eq_None_iff)
    then have "latest_of g k (xs @ [x]) (AList.update (g x) x d)" by (intro upd) (metis image_eqI)
    then show ?thesis using None by (simp add: latest_step_def)
  next
    case (Some y)
    then have y: "(g x, y) \<in> set d" by (rule map_of_SomeD)
    note my = mem [OF y]
    show ?thesis
    proof (cases "k y < k x")
      case True
      have "k z \<le> k x" if "z \<in> set xs" "g z = g x" for z
        using my that True by (meson less_imp_le order_trans)
      then show ?thesis using upd Some True by (simp add: latest_step_def)
    next
      case False
      have "latest_of g k (xs @ [x]) d"
        unfolding latest_of_def
      proof (intro conjI ballI)
        show "distinct (map fst d)" by (rule d(1))
        have "g x \<in> g ` set xs" using my by (metis image_eqI)
        then show "fst ` set d = g ` set (xs @ [x])" using d(2) by auto
        fix p assume p: "p \<in> set d"
        obtain h z where hz: "p = (h, z)" by fastforce
        have "k x \<le> k z" if "g x = h"
          using False my p hz that map_of_is_SomeI [OF d(1), of h z] Some by auto
        then show "case p of (h, z) \<Rightarrow> z \<in> set (xs @ [x]) \<and> g z = h \<and> (\<forall>y \<in> set (xs @ [x]). g y = h \<longrightarrow> k y \<le> k z)"
          using mem [of h z] p hz by auto
      qed
      then show ?thesis using Some False by (simp add: latest_step_def)
    qed
  qed
qed

lemma latest_by_of: "latest_of g k xs (latest_by g k xs)"
proof (induction xs rule: rev_induct)
  case Nil
  then show ?case by (simp add: latest_of_def latest_by_def)
next
  case (snoc x xs)
  then show ?case using latest_step_of [of g k xs "latest_by g k xs" x] by (simp add: latest_by_def)
qed

lemma latest_by_mem:
  "(h, x) \<in> set (latest_by g k xs) \<Longrightarrow> x \<in> set xs \<and> g x = h \<and> (\<forall>y \<in> set xs. g y = h \<longrightarrow> k y \<le> k x)"
  using latest_by_of [of g k xs] by (auto simp: latest_of_def)

lemma latest_by_keys: "fst ` set (latest_by g k xs) = g ` set xs" "distinct (map fst (latest_by g k xs))"
  using latest_by_of [of g k xs] by (auto simp: latest_of_def)

lemma in_key_order_mem: "x \<in> set (in_key_order d) \<longleftrightarrow> x \<in> snd ` set d"
  by (simp add: in_key_order_def)

lemma latest_values_mem:
  "x \<in> set (in_key_order (latest_by g k xs)) \<Longrightarrow> x \<in> set xs \<and> (\<forall>y \<in> set xs. g y = g x \<longrightarrow> k y \<le> k x)"
  by (auto simp: in_key_order_mem dest: latest_by_mem)

lemma latest_values_groups:
  "map g (in_key_order (latest_by g k xs)) = sort (map fst (latest_by g k xs))"
proof -
  have "map g (map snd ps) = map fst ps" if "set ps \<subseteq> set (latest_by g k xs)" for ps
    using that by (induction ps) (auto dest: latest_by_mem)
  from this [of "sort_key fst (latest_by g k xs)"]
  have "map g (in_key_order (latest_by g k xs)) = map fst (sort_key fst (latest_by g k xs))"
    by (simp add: in_key_order_def)
  also have "\<dots> = sort (map fst (latest_by g k xs))"
    by (rule properties_for_sort [symmetric]) (simp_all only: mset_map mset_sort sorted_sort_key)
  finally show ?thesis .
qed

lemma latest_values_sorted:
  "sorted (map g (in_key_order (latest_by g k xs)))" "distinct (map g (in_key_order (latest_by g k xs)))"
  unfolding latest_values_groups using latest_by_keys(2) [of g k xs] by simp_all

end
