(* ===== verification/DerivedModels.thy ===== *)
theory DerivedModels
  imports Doubles Selection IsoText
begin

text \<open>
  Derived indicators: their inputs and results (\<open>derived/models.py\<close>) and the engine that calculates one
  from its inputs (\<open>derived/engine.py\<close>). A constructor is a function that runs the checks of
  \<open>__post_init__\<close> in order and returns the normalised value; \<open>well_formed_result\<close> is what it guarantees.
\<close>

section \<open>Reasons and errors\<close>

datatype unavailable_reason =
    INPUT_NOT_AVAILABLE | NON_FINITE_RESULT | FOCUS_12M_MISSING | DI_CURVE_MISSING
  | DI_CONTRACT_OUTSIDE_TOLERANCE | REQUIRED_INPUT_MISSING | REFERENCE_MONTH_MISMATCH
  | CURRENT_ACCOUNT_NON_NEGATIVE | PRIMARY_BALANCE_PREVIOUS_MONTH_MISSING | INFLATION_TARGET_MISSING
  | DI_CONTRACT_REUSED | INPUT_UNIT_MISMATCH

fun reason_text :: "unavailable_reason \<Rightarrow> string" where
  "reason_text INPUT_NOT_AVAILABLE = ''input_not_available_at_as_of''"
| "reason_text NON_FINITE_RESULT = ''non_finite_result''"
| "reason_text FOCUS_12M_MISSING = ''focus_12m_missing''"
| "reason_text DI_CURVE_MISSING = ''di_curve_missing''"
| "reason_text DI_CONTRACT_OUTSIDE_TOLERANCE = ''di_contract_outside_tolerance''"
| "reason_text REQUIRED_INPUT_MISSING = ''required_input_missing''"
| "reason_text REFERENCE_MONTH_MISMATCH = ''reference_month_mismatch''"
| "reason_text CURRENT_ACCOUNT_NON_NEGATIVE = ''current_account_non_negative''"
| "reason_text PRIMARY_BALANCE_PREVIOUS_MONTH_MISSING = ''primary_balance_previous_month_missing''"
| "reason_text INFLATION_TARGET_MISSING = ''inflation_target_missing''"
| "reason_text DI_CONTRACT_REUSED = ''di_contract_reused''"
| "reason_text INPUT_UNIT_MISMATCH = ''input_unit_mismatch''"

definition ALL_REASONS :: "unavailable_reason list" where
  "ALL_REASONS =
     [INPUT_NOT_AVAILABLE, NON_FINITE_RESULT, FOCUS_12M_MISSING, DI_CURVE_MISSING, DI_CONTRACT_OUTSIDE_TOLERANCE,
      REQUIRED_INPUT_MISSING, REFERENCE_MONTH_MISMATCH, CURRENT_ACCOUNT_NON_NEGATIVE,
      PRIMARY_BALANCE_PREVIOUS_MONTH_MISSING, INFLATION_TARGET_MISSING, DI_CONTRACT_REUSED, INPUT_UNIT_MISMATCH]"

text \<open>\<open>FutureInput\<close> and \<open>Ledger\<close> are the subclasses of \<open>ValueError\<close> the modules declare, and
  \<open>UnsupportedTransformation\<close> is the error of the score's loader.\<close>

datatype derived_error = PyError py_error | FutureInput | Ledger string | UnsupportedTransformation string

definition python :: "py_error + 'a \<Rightarrow> derived_error + 'a" where
  "python r = (case r of Inl e \<Rightarrow> Inl (PyError e) | Inr x \<Rightarrow> Inr x)"

lemma if_Inl_iff: "(if b then Inl e else m) = Inr x \<longleftrightarrow> \<not> b \<and> m = Inr x"
  by simp

lemma python_Inr_iff [simp]: "python r = Inr x \<longleftrightarrow> r = Inr x"
  by (simp add: python_def split: sum.split)

lemma python_Inr [simp]: "python (Inr x) = Inr x"
  by simp

definition utc_datetime :: "datetime \<Rightarrow> py_error + datetime" where
  "utc_datetime d = (if offset d = None then Inl ValueError else astimezone_utc d)"

lemma utc_datetime_utc: "utc_datetime d = Inr u \<Longrightarrow> is_utc u \<and> instant u = instant d"
  by (auto simp: utc_datetime_def astimezone_utc_def dest: from_instant_Inr split: if_splits)

lemma utc_datetime_of_utc: "is_utc d \<Longrightarrow> utc_datetime d = Inr d"
  by (simp add: utc_datetime_def astimezone_utc_def from_instant_instant) (simp add: is_utc_def)

section \<open>Inputs\<close>

type_synonym metadata = "(string \<times> json) list"

record derived_input =
  di_key :: string
  di_value :: rat
  di_unit :: string
  di_period :: string
  di_available :: datetime
  di_source :: string
  di_metadata :: metadata

text \<open>The keys of the metadata are distinct, so sorting the pairs is sorting the keys. A float in the metadata is
  a \<open>JFloat\<close>, which is finite.\<close>

definition make_input ::
    "string \<Rightarrow> pyfloat \<Rightarrow> string \<Rightarrow> string \<Rightarrow> datetime \<Rightarrow> string \<Rightarrow> metadata \<Rightarrow> derived_error + derived_input" where
  "make_input key value u period available source metadata =
     (if key = [] \<or> u = [] \<or> period = [] \<or> source = [] then Inl (PyError ValueError)
      else case value of
        Fin x \<Rightarrow>
          if [] \<in> set (map fst metadata) \<or> \<not> distinct (map fst metadata) then Inl (PyError ValueError)
          else bindE (python (utc_datetime available)) (\<lambda>t. Inr
            \<lparr>di_key = key, di_value = x, di_unit = u, di_period = period, di_available = t, di_source = source,
             di_metadata = sort_key fst metadata\<rparr>)
      | _ \<Rightarrow> Inl (PyError ValueError))"

definition well_formed_input :: "derived_input \<Rightarrow> bool" where
  "well_formed_input i \<longleftrightarrow> di_key i \<noteq> [] \<and> di_unit i \<noteq> [] \<and> di_period i \<noteq> [] \<and> di_source i \<noteq> []
     \<and> [] \<notin> set (map fst (di_metadata i)) \<and> distinct (map fst (di_metadata i)) \<and> sorted (map fst (di_metadata i))
     \<and> is_utc (di_available i)"

lemma make_input_Inr:
  assumes "make_input key v u period available source md = Inr i"
  shows "well_formed_input i" "di_key i = key" "Fin (di_value i) = v" "instant (di_available i) = instant available"
    "di_period i = period"
proof -
  obtain x t where v: "v = Fin x" and t: "utc_datetime available = Inr t"
    and i: "i = \<lparr>di_key = key, di_value = x, di_unit = u, di_period = period, di_available = t, di_source = source,
        di_metadata = sort_key fst md\<rparr>"
    and c: "key \<noteq> []" "u \<noteq> []" "period \<noteq> []" "source \<noteq> []" "[] \<notin> set (map fst md)" "distinct (map fst md)"
    using assms by (auto simp: make_input_def bindE_Inr_iff split: if_splits pyfloat.splits)
  have "distinct (map fst (sort_key fst md))" using c(6) by (metis distinct_map distinct_sort set_sort)
  then show "well_formed_input i" using c utc_datetime_utc [OF t] by (simp add: well_formed_input_def i)
  show "di_key i = key" "Fin (di_value i) = v" "instant (di_available i) = instant available" "di_period i = period"
    using utc_datetime_utc [OF t] by (simp_all add: i v)
qed

lemma make_input_again:
  assumes "well_formed_input i"
  shows "make_input (di_key i) (Fin (di_value i)) (di_unit i) (di_period i) (di_available i) (di_source i) (di_metadata i)
    = Inr i"
proof -
  have "sort_key fst (di_metadata i) = di_metadata i"
    using assms by (simp add: well_formed_input_def sort_key_id_if_sorted)
  then show ?thesis using assms by (simp add: make_input_def well_formed_input_def utc_datetime_of_utc)
qed

section \<open>Results\<close>

record derived_result =
  dr_key :: string
  dr_value :: "rat option"
  dr_unit :: string
  dr_as_of :: datetime
  dr_version :: string
  dr_formula :: string
  dr_inputs :: "derived_input list"
  dr_reason :: "unavailable_reason option"
  dr_reference :: "string option"
  dr_percentile :: "rat option"
  dr_classification :: "string option"
  dr_class_reason :: "string option"
  dr_basis :: "string option"
  dr_count :: "int option"
  dr_history_at :: "datetime option"
  dr_dependencies :: "(string \<times> string) list"

text \<open>An optional float that has to be finite.\<close>

definition finite_opt :: "pyfloat option \<Rightarrow> derived_error + rat option" where
  "finite_opt v = (case v of None \<Rightarrow> Inr None | Some (Fin x) \<Rightarrow> Inr (Some x) | Some _ \<Rightarrow> Inl (PyError ValueError))"

definition utc_opt :: "datetime option \<Rightarrow> derived_error + datetime option" where
  "utc_opt t = (case t of None \<Rightarrow> Inr None | Some d \<Rightarrow> bindE (python (utc_datetime d)) (\<lambda>u. Inr (Some u)))"

definition numbers_ok :: "rat option \<Rightarrow> derived_result \<Rightarrow> bool" where
  "numbers_ok p r \<longleftrightarrow> (\<forall>x \<in> set_option p. 0 \<le> x \<and> x \<le> 100) \<and> (p = None \<longleftrightarrow> dr_classification r = None)
     \<and> (\<forall>n \<in> set_option (dr_count r). 0 \<le> n) \<and> (dr_count r = None \<longleftrightarrow> dr_basis r = None)"

definition contents_ok :: "rat option \<Rightarrow> derived_result \<Rightarrow> bool" where
  "contents_ok v r \<longleftrightarrow> (v = None \<longleftrightarrow> dr_reason r \<noteq> None) \<and> distinct (map di_key (dr_inputs r))
     \<and> (\<forall>(k, f) \<in> set (dr_dependencies r). k \<noteq> [] \<and> f \<noteq> []) \<and> distinct (map fst (dr_dependencies r))"

text \<open>\<open>DerivedResult(..)\<close>: the value and the percentile as floats, the other arguments in \<open>r\<close>.\<close>

definition make_result :: "pyfloat option \<Rightarrow> pyfloat option \<Rightarrow> derived_result \<Rightarrow> derived_error + derived_result" where
  "make_result v p r =
     bindE (python (utc_datetime (dr_as_of r))) (\<lambda>cutoff.
     if dr_key r = [] \<or> dr_unit r = [] \<or> dr_version r = [] \<or> dr_formula r = [] then Inl (PyError ValueError)
     else bindE (finite_opt v) (\<lambda>value.
     bindE (case dr_reference r of None \<Rightarrow> Inr () | Some s \<Rightarrow> bindE (python (date_fromisoformat s)) (\<lambda>_. Inr ())) (\<lambda>_.
     bindE (finite_opt p) (\<lambda>percentile.
     if \<not> numbers_ok percentile r then Inl (PyError ValueError)
     else bindE (utc_opt (dr_history_at r)) (\<lambda>known_at.
     if \<not> contents_ok value r then Inl (PyError ValueError)
     else if list_ex (\<lambda>i. instant cutoff < instant (di_available i)) (dr_inputs r) then Inl FutureInput
     else Inr (r\<lparr>dr_value := value, dr_percentile := percentile, dr_as_of := cutoff,
                 dr_inputs := sort_key di_key (dr_inputs r), dr_history_at := known_at,
                 dr_dependencies := sort_key fst (dr_dependencies r)\<rparr>))))))"

definition float_opt :: "rat option \<Rightarrow> pyfloat option" where
  "float_opt v = map_option Fin v"

text \<open>\<open>dataclasses.replace\<close>, which runs the checks again.\<close>

definition remake_result :: "derived_result \<Rightarrow> derived_error + derived_result" where
  "remake_result r = make_result (float_opt (dr_value r)) (float_opt (dr_percentile r)) r"

definition well_formed_result :: "derived_result \<Rightarrow> bool" where
  "well_formed_result r \<longleftrightarrow>
     is_utc (dr_as_of r) \<and> dr_key r \<noteq> [] \<and> dr_unit r \<noteq> [] \<and> dr_version r \<noteq> [] \<and> dr_formula r \<noteq> []
     \<and> (\<forall>s \<in> set_option (dr_reference r). \<exists>d. date_fromisoformat s = Inr d)
     \<and> (\<forall>x \<in> set_option (dr_percentile r). 0 \<le> x \<and> x \<le> 100)
     \<and> (dr_percentile r = None \<longleftrightarrow> dr_classification r = None)
     \<and> (\<forall>n \<in> set_option (dr_count r). 0 \<le> n) \<and> (dr_count r = None \<longleftrightarrow> dr_basis r = None)
     \<and> (\<forall>t \<in> set_option (dr_history_at r). is_utc t)
     \<and> (dr_value r = None \<longleftrightarrow> dr_reason r \<noteq> None)
     \<and> distinct (map di_key (dr_inputs r)) \<and> sorted (map di_key (dr_inputs r))
     \<and> (\<forall>(k, f) \<in> set (dr_dependencies r). k \<noteq> [] \<and> f \<noteq> [])
     \<and> distinct (map fst (dr_dependencies r)) \<and> sorted (map fst (dr_dependencies r))
     \<and> (\<forall>i \<in> set (dr_inputs r). instant (di_available i) \<le> instant (dr_as_of r))"

lemma finite_opt_Inr: "finite_opt v = Inr w \<longleftrightarrow> v = float_opt w"
  by (cases w) (auto simp: finite_opt_def float_opt_def split: option.splits pyfloat.splits)

lemma utc_opt_Inr: "utc_opt t = Inr u \<Longrightarrow> \<forall>x \<in> set_option u. is_utc x"
  by (auto simp: utc_opt_def bindE_Inr_iff dest: utc_datetime_utc split: option.splits)

lemma utc_opt_of_utc: "\<forall>x \<in> set_option t. is_utc x \<Longrightarrow> utc_opt t = Inr t"
  by (auto simp: utc_opt_def utc_datetime_of_utc split: option.splits)

lemma distinct_sort_key: "distinct (map f (sort_key f xs)) = distinct (map f xs)"
  by (metis distinct_map distinct_sort set_sort)

text \<open>The constructor and its guarantee.\<close>

lemma make_result_Inr:
  assumes "make_result v p r = Inr s"
  shows "well_formed_result s"
    "s = r\<lparr>dr_value := dr_value s, dr_percentile := dr_percentile s, dr_as_of := dr_as_of s,
       dr_inputs := sort_key di_key (dr_inputs r), dr_history_at := dr_history_at s,
       dr_dependencies := sort_key fst (dr_dependencies r)\<rparr>"
    "v = float_opt (dr_value s)" "p = float_opt (dr_percentile s)" "utc_datetime (dr_as_of r) = Inr (dr_as_of s)"
proof -
  obtain cutoff val pct t u where
    c: "utc_datetime (dr_as_of r) = Inr cutoff" and
    k: "\<not> (dr_key r = [] \<or> dr_unit r = [] \<or> dr_version r = [] \<or> dr_formula r = [])" and
    v: "v = float_opt val" "p = float_opt pct" and
    ref: "(case dr_reference r of None \<Rightarrow> Inr () | Some s \<Rightarrow> bindE (python (date_fromisoformat s)) (\<lambda>_. Inr ())) = Inr u" and
    ok: "numbers_ok pct r" "contents_ok val r" and t: "utc_opt (dr_history_at r) = Inr t" and
    past: "\<not> list_ex (\<lambda>i. instant cutoff < instant (di_available i)) (dr_inputs r)" and
    s: "r\<lparr>dr_value := val, dr_percentile := pct, dr_as_of := cutoff,
      dr_inputs := sort_key di_key (dr_inputs r), dr_history_at := t,
      dr_dependencies := sort_key fst (dr_dependencies r)\<rparr> = s"
    using assms
    by (simp only: make_result_def bindE_Inr_iff if_Inl_iff finite_opt_Inr python_Inr_iff
        not_not sum.inject) (elim exE conjE, rule that)
  have ref: "\<forall>s \<in> set_option (dr_reference r). \<exists>d. date_fromisoformat s = Inr d"
    using ref by (auto simp: bindE_Inr_iff split: option.splits)
  have past: "\<forall>i \<in> set (dr_inputs r). instant (di_available i) \<le> instant cutoff"
    using past by (auto simp: list_ex_iff not_less)
  show "well_formed_result s"
    unfolding well_formed_result_def s [symmetric]
    using utc_datetime_utc [OF c] k ref ok past utc_opt_Inr [OF t]
    by (simp add: distinct_sort_key numbers_ok_def contents_ok_def)
  show "s = r\<lparr>dr_value := dr_value s, dr_percentile := dr_percentile s, dr_as_of := dr_as_of s,
       dr_inputs := sort_key di_key (dr_inputs r), dr_history_at := dr_history_at s,
       dr_dependencies := sort_key fst (dr_dependencies r)\<rparr>" by (simp add: s [symmetric])
  show "v = float_opt (dr_value s)" "p = float_opt (dr_percentile s)" "utc_datetime (dr_as_of r) = Inr (dr_as_of s)"
    using v c by (simp_all add: s [symmetric])
qed

end
