(* ===== verification/DerivedIndicators.thy ===== *)
theory DerivedIndicators
  imports DerivedModels SgsRegistry
begin

text \<open>
  The calculation engine (\<open>derived/engine.py\<close>) and the derived indicators built from SGS observations and
  from the DI curve (\<open>credit_spread.py\<close>, \<open>external_coverage.py\<close>, \<open>primary_balance_change.py\<close>,
  \<open>di_selection.py\<close>, \<open>di_slope.py\<close>). Each selects its inputs among what was available at the cutoff and
  says why it has no value. Timestamps of observations are aware, as their loaders make them.
\<close>

section \<open>The engine\<close>

record derivation_spec =
  ds_key :: string
  ds_unit :: string
  ds_version :: string
  ds_formula :: string
  ds_calculate :: "derived_input list \<Rightarrow> derived_error + pyfloat"

text \<open>The arguments of a result without a classification.\<close>

definition result_args ::
    "derivation_spec \<Rightarrow> datetime \<Rightarrow> derived_input list \<Rightarrow> unavailable_reason option \<Rightarrow> date option \<Rightarrow> derived_result" where
  "result_args spec as_of inputs reason reference =
     \<lparr>dr_key = ds_key spec, dr_value = None, dr_unit = ds_unit spec, dr_as_of = as_of, dr_version = ds_version spec,
      dr_formula = ds_formula spec, dr_inputs = inputs, dr_reason = reason,
      dr_reference = map_option date_isoformat reference, dr_percentile = None, dr_classification = None,
      dr_class_reason = None, dr_basis = None, dr_count = None, dr_history_at = None, dr_dependencies = []\<rparr>"

definition available_by :: "datetime \<Rightarrow> datetime \<Rightarrow> bool" where
  "available_by cutoff t \<longleftrightarrow> instant t \<le> instant cutoff"

definition calculate :: "derivation_spec \<Rightarrow> derived_input list \<Rightarrow> datetime \<Rightarrow> derived_error + derived_result" where
  "calculate spec inputs as_of =
     bindE (python (utc_datetime as_of)) (\<lambda>cutoff.
       let eligible = filter (\<lambda>i. available_by cutoff (di_available i)) inputs
       in if length eligible \<noteq> length inputs
          then make_result None None (result_args spec cutoff eligible (Some INPUT_NOT_AVAILABLE) None)
          else bindE (ds_calculate spec inputs) (\<lambda>v.
            make_result (if is_finite v then Some v else None) None
              (result_args spec cutoff inputs (if is_finite v then None else Some NON_FINITE_RESULT) None)))"

text \<open>The helper \<open>_unavailable\<close> of every module, and \<open>replace(result, reference_date=..)\<close>.\<close>

definition unavailable ::
    "derivation_spec \<Rightarrow> datetime \<Rightarrow> unavailable_reason \<Rightarrow> date option \<Rightarrow> derived_input list
     \<Rightarrow> derived_error + derived_result" where
  "unavailable spec as_of reason reference inputs =
     make_result None None (result_args spec as_of inputs (Some reason) reference)"

definition with_reference :: "date \<Rightarrow> derived_result \<Rightarrow> derived_error + derived_result" where
  "with_reference reference r = remake_result (r\<lparr>dr_reference := Some (date_isoformat reference)\<rparr>)"

text \<open>\<open>{item.key: item.value for item in inputs}[key]\<close>\<close>

definition input_value :: "string \<Rightarrow> derived_input list \<Rightarrow> derived_error + pyfloat" where
  "input_value key inputs =
     (case map_of (rev (map (\<lambda>i. (di_key i, di_value i)) inputs)) key of
        None \<Rightarrow> Inl (PyError KeyError) | Some x \<Rightarrow> Inr (Fin x))"

definition difference_of :: "string \<Rightarrow> string \<Rightarrow> derived_input list \<Rightarrow> derived_error + pyfloat" where
  "difference_of a b inputs =
     bindE (input_value a inputs) (\<lambda>x. bindE (input_value b inputs) (\<lambda>y. Inr (float_sub x y)))"

section \<open>SGS observations\<close>

record sgs_observation =
  ob_key :: string
  ob_code :: int
  ob_value :: pyfloat
  ob_unit :: unit_kind
  ob_frequency :: frequency
  ob_period :: date
  ob_source :: string
  ob_available :: datetime
  ob_basis :: string
  ob_published :: "datetime option"
  ob_first_seen :: datetime

text \<open>The order of vintages: by period, then by when they were available, then by when they were first seen.\<close>

definition vintage_rank :: "sgs_observation \<Rightarrow> date \<times> int \<times> int" where
  "vintage_rank o1 = (ob_period o1, instant (ob_available o1), instant (ob_first_seen o1))"

definition same_month :: "date \<Rightarrow> date \<Rightarrow> bool" where
  "same_month d e \<longleftrightarrow> year d = year e \<and> month d = month e"

definition dated_metadata :: "sgs_observation \<Rightarrow> metadata" where
  "dated_metadata o1 =
     [(''availability_basis'', JStr (ob_basis o1)), (''first_seen_at'', JStr (isoformat (ob_first_seen o1))),
      (''source_published_at'', json_opt (map_option isoformat (ob_published o1))),
      (''provider_code'', JNum (ob_code o1))]"

definition observation_input :: "string \<Rightarrow> sgs_observation \<Rightarrow> metadata \<Rightarrow> derived_error + derived_input" where
  "observation_input key o1 md =
     make_input key (ob_value o1) (unit_text (ob_unit o1)) (date_isoformat (ob_period o1)) (ob_available o1)
       (ob_source o1) md"

subsection \<open>Credit spread\<close>

definition CREDIT_SPREAD :: derivation_spec where
  "CREDIT_SPREAD =
     \<lparr>ds_key = ''spread_credito_pf_selic'', ds_unit = ''pp'', ds_version = ''1.0.0'',
      ds_formula = ''taxa_media_credito_pf - selic_meta'',
      ds_calculate = difference_of ''taxa_media_credito_pf'' ''selic_meta''\<rparr>"

definition is_series :: "string \<Rightarrow> int \<Rightarrow> frequency \<Rightarrow> sgs_observation \<Rightarrow> bool" where
  "is_series key code f o1 \<longleftrightarrow>
     ob_key o1 = key \<and> ob_code o1 = code \<and> ob_unit o1 = U_PCT_ANNUAL \<and> ob_frequency o1 = f"

definition credit_input :: "sgs_observation \<Rightarrow> derived_error + derived_input" where
  "credit_input o1 = observation_input (ob_key o1) o1 (dated_metadata o1)"

definition build_credit_spread_result :: "sgs_observation list \<Rightarrow> datetime \<Rightarrow> derived_error + derived_result" where
  "build_credit_spread_result observations as_of =
     bindE (python (utc_datetime as_of)) (\<lambda>cutoff.
       let eligible = filter (\<lambda>o1. available_by cutoff (ob_available o1)) observations;
           rates = filter (is_series ''selic_meta'' 432 F_DAILY) eligible
       in case max_key vintage_rank (filter (is_series ''taxa_media_credito_pf'' 20716 F_MONTHLY) eligible) of
            None \<Rightarrow> unavailable CREDIT_SPREAD cutoff REQUIRED_INPUT_MISSING None []
          | Some credit \<Rightarrow>
              (case max_key vintage_rank (filter (\<lambda>o1. same_month (ob_period o1) (ob_period credit)) rates) of
                 None \<Rightarrow> bindE (credit_input credit) (\<lambda>i.
                   unavailable CREDIT_SPREAD cutoff (if rates \<noteq> [] then REFERENCE_MONTH_MISMATCH else REQUIRED_INPUT_MISSING)
                     (Some (ob_period credit)) [i])
               | Some selic \<Rightarrow>
                   bindE (credit_input credit) (\<lambda>i. bindE (credit_input selic) (\<lambda>j.
                   bindE (calculate CREDIT_SPREAD [i, j] cutoff) (with_reference (ob_period credit))))))"

subsection \<open>External coverage\<close>

text \<open>\<open>inputs[0].value / abs(inputs[1].value)\<close>\<close>

definition coverage_ratio :: "derived_input list \<Rightarrow> derived_error + pyfloat" where
  "coverage_ratio inputs =
     (case inputs of
        i # j # _ \<Rightarrow> python (float_div (Fin (di_value i)) (float_abs (Fin (di_value j))))
      | _ \<Rightarrow> Inl (PyError IndexError))"

definition EXTERNAL_COVERAGE :: derivation_spec where
  "EXTERNAL_COVERAGE =
     \<lparr>ds_key = ''cobertura_externa'', ds_unit = ''ratio'', ds_version = ''1.0.0'',
      ds_formula = ''idp_12m_pib / abs(conta_corrente_12m_pib)'', ds_calculate = coverage_ratio\<rparr>"

text \<open>The catalogue lookup \<open>INDICATOR_CATALOG[key]\<close>; the metadata carries its key.\<close>

definition coverage_input :: "sgs_observation \<Rightarrow> derived_error + derived_input" where
  "coverage_input o1 =
     (if ob_key o1 \<notin> set (map is_key SPECS) then Inl (PyError KeyError)
      else observation_input (ob_key o1) o1
        [(''availability_basis'', JStr (ob_basis o1)), (''catalog_frequency'', JStr (frequency_text (ob_frequency o1))),
         (''catalog_key'', JStr (ob_key o1)), (''provider_code'', JNum (ob_code o1))])"

definition coverage_inputs :: "sgs_observation list \<Rightarrow> derived_error + derived_input list" where
  "coverage_inputs os = mapE coverage_input os"

definition build_external_coverage_result :: "sgs_observation list \<Rightarrow> datetime \<Rightarrow> derived_error + derived_result" where
  "build_external_coverage_result observations as_of =
     bindE (python (utc_datetime as_of)) (\<lambda>cutoff.
       let latest = latest_by ob_key vintage_rank
             (filter (\<lambda>o1. ob_key o1 \<in> {''idp_12m_pib'', ''conta_corrente_12m_pib''} \<and> available_by cutoff (ob_available o1))
               observations)
       in case (map_of latest ''idp_12m_pib'', map_of latest ''conta_corrente_12m_pib'') of
            (Some idp, Some account) \<Rightarrow>
              (let reference = min (ob_period idp) (ob_period account)
               in bindE (coverage_inputs [idp, account]) (\<lambda>inputs.
                  if \<not> same_month (ob_period idp) (ob_period account)
                  then unavailable EXTERNAL_COVERAGE cutoff REFERENCE_MONTH_MISMATCH (Some reference) inputs
                  else if float_less (Fin 0) (ob_value account) \<or> float_eq (ob_value account) (Fin 0)
                  then unavailable EXTERNAL_COVERAGE cutoff CURRENT_ACCOUNT_NON_NEGATIVE (Some reference) inputs
                  else bindE (calculate EXTERNAL_COVERAGE inputs cutoff) (with_reference reference)))
          | (idp, account) \<Rightarrow>
              bindE (coverage_inputs (case idp of Some o1 \<Rightarrow> [o1] | None \<Rightarrow> (case account of Some o1 \<Rightarrow> [o1] | None \<Rightarrow> [])))
                (unavailable EXTERNAL_COVERAGE cutoff REQUIRED_INPUT_MISSING None))"

subsection \<open>Change of the primary balance\<close>

definition PRIMARY_BALANCE_CHANGE :: derivation_spec where
  "PRIMARY_BALANCE_CHANGE =
     \<lparr>ds_key = ''variacao_saldo_primario_12m'', ds_unit = ''pp'', ds_version = ''1.0.0'',
      ds_formula = ''saldo_primario_12m_pib(t) - saldo_primario_12m_pib(t-12 meses)'',
      ds_calculate = difference_of ''current_balance'' ''previous_balance''\<rparr>"

text \<open>\<open>monthrange\<close> and \<open>date\<close> raise a \<open>ValueError\<close> outside the years 1 to 9999.\<close>

definition previous_period :: "date \<Rightarrow> py_error + date" where
  "previous_period d =
     mk_date (year d - 1) (month d) (min (day d) (month_length (is_leap (year d - 1)) (month d)))"

definition balance_input :: "string \<Rightarrow> sgs_observation \<Rightarrow> derived_error + derived_input" where
  "balance_input key o1 = observation_input key o1 (dated_metadata o1)"

definition build_primary_balance_change_result ::
    "sgs_observation list \<Rightarrow> datetime \<Rightarrow> derived_error + derived_result" where
  "build_primary_balance_change_result observations as_of =
     bindE (python (utc_datetime as_of)) (\<lambda>cutoff.
       let latest = latest_by ob_period (\<lambda>o1. instant (ob_available o1))
             (filter (\<lambda>o1. ob_key o1 = ''saldo_primario_12m_pib'' \<and> available_by cutoff (ob_available o1)) observations)
       in case max_key fst latest of
            None \<Rightarrow> unavailable PRIMARY_BALANCE_CHANGE cutoff REQUIRED_INPUT_MISSING None []
          | Some (period, current) \<Rightarrow>
              bindE (balance_input ''current_balance'' current) (\<lambda>i.
              bindE (python (previous_period period)) (\<lambda>before.
                case map_of latest before of
                  None \<Rightarrow> unavailable PRIMARY_BALANCE_CHANGE cutoff PRIMARY_BALANCE_PREVIOUS_MONTH_MISSING (Some period) [i]
                | Some previous \<Rightarrow>
                    bindE (balance_input ''previous_balance'' previous) (\<lambda>j.
                    bindE (calculate PRIMARY_BALANCE_CHANGE [i, j] cutoff) (with_reference period)))))"

section \<open>The DI curve\<close>

text \<open>The fields of a contract that the derived indicators read.\<close>

record di_contract =
  dc_trade_date :: date
  dc_symbol :: string
  dc_maturity :: date
  dc_rate :: pyfloat
  dc_available :: datetime
  dc_basis :: string

definition CONTRACT_TOLERANCE_DAYS :: int where
  "CONTRACT_TOLERANCE_DAYS = 90"

definition select_di_contract_for_horizon ::
    "'a di_contract_scheme list \<Rightarrow> date \<Rightarrow> int \<Rightarrow> py_error + 'a di_contract_scheme option" where
  "select_di_contract_for_horizon contracts reference horizon =
     bindE (add_days reference horizon) (\<lambda>target.
       let off = (\<lambda>k. \<bar>days_between (dc_maturity k) target\<bar>)
       in Inr (min_key (\<lambda>k. (off k, dc_maturity k, dc_symbol k))
            (filter (\<lambda>k. off k \<le> CONTRACT_TOLERANCE_DAYS) contracts)))"

definition DI_SLOPE :: derivation_spec where
  "DI_SLOPE =
     \<lparr>ds_key = ''inclinacao_di_5y_1y'', ds_unit = ''pp'', ds_version = ''1.0.0'', ds_formula = ''DI5Y - DI1Y'',
      ds_calculate = difference_of ''di_5y'' ''di_1y''\<rparr>"

definition di_input :: "string \<Rightarrow> di_contract \<Rightarrow> derived_error + derived_input" where
  "di_input key k =
     make_input key (dc_rate k) ''pct_annual'' (date_isoformat (dc_trade_date k)) (dc_available k) ''B3 DI''
       [(''availability_basis'', JStr (dc_basis k)), (''maturity'', JStr (date_isoformat (dc_maturity k))),
        (''symbol'', JStr (dc_symbol k))]"

text \<open>The slope builds its result itself: a difference that is not finite raises.\<close>

definition build_di_slope_result :: "di_contract list \<Rightarrow> datetime \<Rightarrow> derived_error + derived_result" where
  "build_di_slope_result contracts as_of =
     bindE (python (utc_datetime as_of)) (\<lambda>cutoff.
       let eligible = filter (\<lambda>k. available_by cutoff (dc_available k)) contracts
       in case max_key dc_trade_date eligible of
            None \<Rightarrow> unavailable DI_SLOPE cutoff DI_CURVE_MISSING None []
          | Some newest \<Rightarrow>
              (let trade_date = dc_trade_date newest;
                   curve = filter (\<lambda>k. dc_trade_date k = trade_date) eligible
               in bindE (python (select_di_contract_for_horizon curve trade_date 365)) (\<lambda>short.
                  bindE (python (select_di_contract_for_horizon curve trade_date 1825)) (\<lambda>long.
                  case (short, long) of
                    (Some one, Some five) \<Rightarrow>
                      if (dc_symbol one, dc_maturity one) = (dc_symbol five, dc_maturity five)
                      then unavailable DI_SLOPE cutoff DI_CONTRACT_REUSED (Some trade_date) []
                      else bindE (di_input ''di_1y'' one) (\<lambda>i. bindE (di_input ''di_5y'' five) (\<lambda>j.
                           bindE (ds_calculate DI_SLOPE [i, j]) (\<lambda>v.
                           make_result (Some v) None (result_args DI_SLOPE cutoff [i, j] None (Some trade_date)))))
                  | _ \<Rightarrow> unavailable DI_SLOPE cutoff DI_CONTRACT_OUTSIDE_TOLERANCE (Some trade_date) []))))"

end
