(* ===== verification/RealRate.thy ===== *)
theory RealRate
  imports DerivedIndicators
begin

text \<open>
  The ex-ante real interest rate and its classification by a historical percentile (\<open>derived/percentiles.py\<close>,
  \<open>derived/real_rate.py\<close>). The Focus expectations, the DI contracts and the two histories are arguments: the
  code reads them from the store at the cutoff. JSON text and SHA-256 are the codec's.
\<close>

section \<open>Percentiles\<close>

definition MINIMUM_OBSERVATIONS :: nat where
  "MINIMUM_OBSERVATIONS = 24"

datatype percentile_band = BandVeryLow | BandLow | BandNeutral | BandHigh | BandVeryHigh

record percentile_observation =
  po_value :: pyfloat
  po_as_of :: datetime

record percentile_result =
  pt_percentile :: "pyfloat option"
  pt_band :: "percentile_band option"
  pt_reason :: "string option"

text \<open>\<open>as_of.replace(year=as_of.year - 10)\<close>, on 28 February where the day does not exist.\<close>

definition replace_date :: "datetime \<Rightarrow> date \<Rightarrow> datetime" where
  "replace_date t d = DateTime d (hour t) (minute t) (second t) (micro t) (offset t)"

definition ten_year_cutoff :: "datetime \<Rightarrow> py_error + datetime" where
  "ten_year_cutoff t =
     (case mk_date (year (ddate t) - 10) (month (ddate t)) (day (ddate t)) of
        Inr d \<Rightarrow> Inr (replace_date t d)
      | Inl _ \<Rightarrow> bindE (mk_date (year (ddate t) - 10) (month (ddate t)) 28) (\<lambda>d. Inr (replace_date t d)))"

definition band_of :: "pyfloat \<Rightarrow> percentile_band" where
  "band_of p =
     (if float_less p (Fin 20) then BandVeryLow else if float_less p (Fin 40) then BandLow
      else if float_less p (Fin 60) then BandNeutral else if float_less p (Fin 80) then BandHigh
      else BandVeryHigh)"

definition eligible_observations ::
    "percentile_observation list \<Rightarrow> datetime \<Rightarrow> py_error + percentile_observation list" where
  "eligible_observations observations as_of =
     bindE (utc_datetime as_of) (\<lambda>cutoff_end.
     bindE (ten_year_cutoff cutoff_end) (\<lambda>cutoff_start.
       Inr (filter (\<lambda>o1. instant cutoff_start \<le> instant (po_as_of o1) \<and> instant (po_as_of o1) \<le> instant cutoff_end
                    \<and> is_finite (po_value o1)) observations)))"

definition empirical_percentile ::
    "percentile_observation list \<Rightarrow> pyfloat \<Rightarrow> datetime \<Rightarrow> py_error + percentile_result" where
  "empirical_percentile observations current as_of =
     bindE (eligible_observations observations as_of) (\<lambda>eligible.
       let values = map po_value eligible
       in if \<not> is_finite current
          then Inr \<lparr>pt_percentile = None, pt_band = None, pt_reason = Some ''non_finite_value''\<rparr>
          else if length values < MINIMUM_OBSERVATIONS
          then Inr \<lparr>pt_percentile = None, pt_band = None, pt_reason = Some ''insufficient_history''\<rparr>
          else bindE (percentile_of (length (filter (\<lambda>v. float_less v current) values))
                        (length (filter (\<lambda>v. float_eq v current) values)) (length values))
            (\<lambda>p. Inr \<lparr>pt_percentile = Some p, pt_band = Some (band_of p), pt_reason = None\<rparr>))"

section \<open>The real rate\<close>

record focus_expectation =
  fe_reference :: date
  fe_median :: pyfloat
  fe_available :: datetime
  fe_basis :: string

definition FOCUS_12M_FILTER :: string where
  "FOCUS_12M_FILTER = ''Indicador eq '' @ [CHR 39] @ ''IPCA'' @ [CHR 39] @ '' and Suavizada eq '' @ [CHR 39] @ ''S'' @ [CHR 39]
     @ '' and baseCalculo eq 0''"

fun classification_text :: "percentile_band \<Rightarrow> string" where
  "classification_text BandVeryLow = ''muito_baixo''"
| "classification_text BandLow = ''baixo''"
| "classification_text BandNeutral = ''neutro''"
| "classification_text BandHigh = ''restritivo''"
| "classification_text BandVeryHigh = ''muito_restritivo''"

definition fisher :: "derived_input list \<Rightarrow> derived_error + pyfloat" where
  "fisher inputs =
     bindE (input_value ''expected_inflation'' inputs) (\<lambda>inflation.
     bindE (python (float_div inflation (Fin 100))) (\<lambda>i.
     bindE (input_value ''nominal_rate'' inputs) (\<lambda>nominal.
       let denominator = float_add (Fin 1) i
       in if float_eq denominator (Fin 0) then Inr NaN
          else bindE (python (float_div nominal (Fin 100))) (\<lambda>n.
               bindE (python (float_div (float_add (Fin 1) n) denominator)) (\<lambda>q.
                 Inr (float_mult (float_sub q (Fin 1)) (Fin 100)))))))"

definition REAL_RATE :: derivation_spec where
  "REAL_RATE =
     \<lparr>ds_key = ''juro_real_ex_ante_1y'', ds_unit = ''pct_annual'', ds_version = ''1.0.0'',
      ds_formula = ''((1 + DI/100) / (1 + IPCA/100) - 1) * 100'', ds_calculate = fisher\<rparr>"

definition focus_input :: "focus_expectation \<Rightarrow> derived_error + derived_input" where
  "focus_input e =
     make_input ''expected_inflation'' (fe_median e) ''pct_annual'' (date_isoformat (fe_reference e)) (fe_available e)
       ''Focus IPCA 12m'' [(''availability_basis'', JStr (fe_basis e)), (''filter'', JStr FOCUS_12M_FILTER)]"

definition parse_reference_date :: "string option \<Rightarrow> date option" where
  "parse_reference_date s =
     (case s of None \<Rightarrow> None
      | Some t \<Rightarrow> (case date_fromisoformat (take 10 t) of Inr d \<Rightarrow> Some d | Inl _ \<Rightarrow> None))"

definition is_real_rate :: "derived_result \<Rightarrow> bool" where
  "is_real_rate r \<longleftrightarrow> dr_key r = ds_key REAL_RATE \<and> dr_version r = ds_version REAL_RATE \<and> dr_value r \<noteq> None"

definition inputs_known :: "derived_result \<Rightarrow> bool" where
  "inputs_known r \<longleftrightarrow> list_all (\<lambda>i. available_by (dr_as_of r) (di_available i)) (dr_inputs r)"

definition eligible_retrospective :: "datetime \<Rightarrow> derived_result \<Rightarrow> bool" where
  "eligible_retrospective cutoff r \<longleftrightarrow> is_real_rate r \<and> available_by cutoff (dr_as_of r)
     \<and> (case parse_reference_date (dr_reference r) of None \<Rightarrow> False | Some d \<Rightarrow> d \<le> ddate cutoff)
     \<and> dr_dependencies r \<noteq> [] \<and> inputs_known r"

definition eligible_production :: "datetime \<Rightarrow> derived_result \<Rightarrow> bool" where
  "eligible_production cutoff r \<longleftrightarrow> is_real_rate r \<and> parse_reference_date (dr_reference r) \<noteq> None
     \<and> available_by cutoff (dr_as_of r) \<and> {''nominal_rate'', ''expected_inflation''} \<subseteq> set (map di_key (dr_inputs r))
     \<and> inputs_known r"

definition reference_of :: "derived_result \<Rightarrow> date" where
  "reference_of r = the (parse_reference_date (dr_reference r))"

text \<open>Retrospective results fill the references production has none for; their dates are kept.\<close>

fun add_retrospective ::
    "derived_result list \<Rightarrow> (date \<times> derived_result) list \<Rightarrow> (date \<times> datetime) list
     \<Rightarrow> (date \<times> derived_result) list \<times> (date \<times> datetime) list" where
  "add_retrospective [] known added = (known, added)"
| "add_retrospective (r # rs) known added =
     (if reference_of r \<in> fst ` set known then add_retrospective rs known added
      else add_retrospective rs (AList.update (reference_of r) r known)
             (AList.update (reference_of r) (dr_as_of r) added))"

definition midnight :: "date \<Rightarrow> datetime" where
  "midnight d = DateTime d 0 0 0 0 (Some 0)"

definition sample_of :: "(date \<times> derived_result) list \<Rightarrow> percentile_observation list" where
  "sample_of known =
     List.map_filter (\<lambda>(d, r). map_option (\<lambda>v. \<lparr>po_value = Fin v, po_as_of = midnight d\<rparr>) (dr_value r))
       (sort_key fst known)"

definition historical_observations ::
    "derived_result list \<Rightarrow> derived_result \<Rightarrow> derived_result list
     \<Rightarrow> percentile_observation list \<times> bool \<times> datetime option" where
  "historical_observations history current retrospective =
     (let production = foldl (\<lambda>d r. AList.update (reference_of r) r d) []
            (filter (eligible_production (dr_as_of current)) history);
          (known, added) = add_retrospective (filter (eligible_retrospective (dr_as_of current)) retrospective) production [];
          (known, references) =
            (case parse_reference_date (dr_reference current) of
               None \<Rightarrow> (known, map fst added)
             | Some d \<Rightarrow> (AList.update d current known, filter (\<lambda>e. e \<noteq> d) (map fst added)));
          observations = sample_of known;
          selected = in_key_order (latest_by (\<lambda>o1. (year (ddate (po_as_of o1)), month (ddate (po_as_of o1))))
            (\<lambda>o1. ddate (po_as_of o1)) observations);
          used = filter (\<lambda>d. d \<in> set references) (map (\<lambda>o1. ddate (po_as_of o1)) selected)
      in if references = [] \<or> used = [] then (observations, False, None)
         else (selected, True, max_key instant (List.map_filter (map_of added) used)))"

definition PRODUCTION_HISTORY_BASIS :: string where
  "PRODUCTION_HISTORY_BASIS = ''production_forward_captured''"

definition RETROSPECTIVE_HISTORY_BASIS :: string where
  "RETROSPECTIVE_HISTORY_BASIS = ''retrospective_reference_monthly_plus_production_forward_captured_monthly''"

fun json_float :: "pyfloat \<Rightarrow> py_error + json" where
  "json_float (Fin x) = Inr (JFloat (quotient_of x))"
| "json_float _ = Inl ValueError"

definition canonical_sample :: "percentile_observation list \<Rightarrow> py_error + json list" where
  "canonical_sample =
     mapE (\<lambda>o1. bindE (json_float (po_value o1)) (\<lambda>v. Inr (JArr [JStr (date_isoformat (ddate (po_as_of o1))), v])))"

definition classify ::
    "codec \<Rightarrow> derived_result \<Rightarrow> derived_result list \<Rightarrow> derived_result list \<Rightarrow> derived_error + derived_result" where
  "classify c r history retrospective =
     (case dr_value r of
        None \<Rightarrow> Inr r
      | Some v \<Rightarrow>
          (let (sample, used, known_at) = historical_observations history r retrospective;
               basis = (if used then RETROSPECTIVE_HISTORY_BASIS else PRODUCTION_HISTORY_BASIS)
           in bindE (python (eligible_observations sample (dr_as_of r))) (\<lambda>observations.
              bindE (python (canonical_sample observations)) (\<lambda>canonical.
              bindE (python (empirical_percentile observations (Fin v) (dr_as_of r))) (\<lambda>p.
                make_result (Some (Fin v)) (pt_percentile p)
                  (r\<lparr>dr_classification := map_option classification_text (pt_band p), dr_class_reason := pt_reason p,
                     dr_basis := Some basis, dr_count := Some (int (length observations)), dr_history_at := known_at,
                     dr_dependencies :=
                       [(''historical_sample'',
                         sha256 c (dumps c (JObj [(''basis'', JStr basis), (''sample'', JArr canonical)]))),
                        (''history_basis'', sha256 c basis)]\<rparr>))))))"

definition build_real_rate_result ::
    "codec \<Rightarrow> datetime \<Rightarrow> focus_expectation list \<Rightarrow> di_contract list \<Rightarrow> derived_result list \<Rightarrow> derived_result list
     \<Rightarrow> derived_error + derived_result" where
  "build_real_rate_result c as_of expectations contracts history retrospective =
     bindE (python (utc_datetime as_of)) (\<lambda>cutoff.
     case (max_key fe_reference expectations, max_key dc_trade_date contracts) of
       (None, _) \<Rightarrow> unavailable REAL_RATE cutoff FOCUS_12M_MISSING None []
     | (Some _, None) \<Rightarrow> unavailable REAL_RATE cutoff DI_CURVE_MISSING None []
     | (Some newest, Some curve_end) \<Rightarrow>
         (let reference = min (dc_trade_date curve_end) (fe_reference newest)
          in case max_key fe_reference (filter (\<lambda>e. fe_reference e \<le> reference) expectations) of
               None \<Rightarrow> unavailable REAL_RATE cutoff FOCUS_12M_MISSING (Some reference) []
             | Some expectation \<Rightarrow>
                 (case max_key dc_trade_date (filter (\<lambda>k. dc_trade_date k \<le> reference) contracts) of
                    None \<Rightarrow> bindE (focus_input expectation) (\<lambda>i.
                      unavailable REAL_RATE cutoff DI_CURVE_MISSING (Some reference) [i])
                  | Some on \<Rightarrow>
                      bindE (python (select_di_contract_for_horizon
                        (filter (\<lambda>k. dc_trade_date k = dc_trade_date on) contracts) reference 365)) (\<lambda>selected.
                      case selected of
                        None \<Rightarrow> bindE (focus_input expectation) (\<lambda>i.
                          unavailable REAL_RATE cutoff DI_CONTRACT_OUTSIDE_TOLERANCE (Some reference) [i])
                      | Some k \<Rightarrow>
                          bindE (di_input ''nominal_rate'' k) (\<lambda>n. bindE (focus_input expectation) (\<lambda>i.
                          bindE (calculate REAL_RATE [n, i] cutoff) (\<lambda>r.
                          bindE (with_reference reference r) (\<lambda>r. classify c r history retrospective))))))))"

end
