(* ===== verification/TargetDistance.thy ===== *)
theory TargetDistance
  imports RealRate
begin

text \<open>
  Inflation targets (\<open>derived/inflation_targets.py\<close>), the ledger observations of them
  (\<open>derived/inflation_target_inputs.py\<close>) and the distance of the Focus expectation from the target
  (\<open>derived/focus_target_distance.py\<close>).
\<close>

section \<open>Rules\<close>

record target_rule =
  tr_id :: string
  tr_table_version :: string
  tr_regime :: string
  tr_from :: date
  tr_to :: "date option"
  tr_center :: rat
  tr_band :: rat
  tr_source_url :: string
  tr_legal_reference :: "string option"
  tr_direct_url :: "string option"

definition INFLATION_TARGET_TABLE_VERSION :: string where
  "INFLATION_TARGET_TABLE_VERSION = ''1.0.0''"

definition OFFICIAL_HISTORICAL_TABLE_URL :: string where
  "OFFICIAL_HISTORICAL_TABLE_URL = ''https://www.bcb.gov.br/controleinflacao/historicometas''"

definition official_rule :: "string \<Rightarrow> string \<Rightarrow> int \<Rightarrow> date option \<Rightarrow> rat \<Rightarrow> rat \<Rightarrow> target_rule" where
  "official_rule rule_id regime from_year effective_to center band =
     \<lparr>tr_id = rule_id, tr_table_version = INFLATION_TARGET_TABLE_VERSION, tr_regime = regime,
      tr_from = Date from_year 1 1, tr_to = effective_to, tr_center = center, tr_band = band,
      tr_source_url = OFFICIAL_HISTORICAL_TABLE_URL, tr_legal_reference = None, tr_direct_url = None\<rparr>"

definition annual_rule :: "string \<Rightarrow> int \<Rightarrow> rat \<Rightarrow> rat \<Rightarrow> target_rule" where
  "annual_rule rule_id y center band = official_rule rule_id ''annual_target'' y (Some (Date (y + 1) 1 1)) center band"

definition INFLATION_TARGET_RULES :: "target_rule list" where
  "INFLATION_TARGET_RULES =
     [annual_rule ''bcb-cmn-target-2015'' 2015 (9 / 2) 2,
      annual_rule ''bcb-cmn-target-2016'' 2016 (9 / 2) 2,
      annual_rule ''bcb-cmn-target-2017'' 2017 (9 / 2) (3 / 2),
      annual_rule ''bcb-cmn-target-2018'' 2018 (9 / 2) (3 / 2),
      annual_rule ''bcb-cmn-target-2019'' 2019 (17 / 4) (3 / 2),
      annual_rule ''bcb-cmn-target-2020'' 2020 4 (3 / 2),
      annual_rule ''bcb-cmn-target-2021'' 2021 (15 / 4) (3 / 2),
      annual_rule ''bcb-cmn-target-2022'' 2022 (7 / 2) (3 / 2),
      annual_rule ''bcb-cmn-target-2023'' 2023 (13 / 4) (3 / 2),
      annual_rule ''bcb-cmn-target-2024'' 2024 3 (3 / 2),
      official_rule ''bcb-continuous-target-2025'' ''continuous_target'' 2025 None 3 (3 / 2)]"

definition in_effect :: "target_rule \<Rightarrow> date \<Rightarrow> bool" where
  "in_effect r d \<longleftrightarrow> tr_from r \<le> d \<and> (case tr_to r of None \<Rightarrow> True | Some e \<Rightarrow> d < e)"

definition target_for_reference_date :: "date \<Rightarrow> target_rule option" where
  "target_for_reference_date d = find (\<lambda>r. in_effect r d) INFLATION_TARGET_RULES"

section \<open>Observations of the ledger\<close>

record target_observation =
  to_rule :: target_rule
  to_first_seen :: datetime
  to_hash :: string

definition to_available :: "target_observation \<Rightarrow> datetime" where
  "to_available o1 = to_first_seen o1"

text \<open>Python's \<open>or\<close> on texts.\<close>

definition text_or :: "string \<Rightarrow> string \<Rightarrow> string" where
  "text_or s t = (if s = [] then t else s)"

definition str_or_empty :: "string option \<Rightarrow> string" where
  "str_or_empty s = (case s of None \<Rightarrow> [] | Some t \<Rightarrow> t)"

definition target_source :: "target_rule \<Rightarrow> string" where
  "target_source r =
     text_or (str_or_empty (tr_direct_url r)) (text_or (tr_source_url r) OFFICIAL_HISTORICAL_TABLE_URL)"

definition target_metadata :: "target_observation \<Rightarrow> metadata" where
  "target_metadata o1 =
     (let r = to_rule o1
      in [(''availability_basis'', JStr ''first_seen_at''), (''effective_from'', JStr (date_isoformat (tr_from r))),
          (''effective_to'', json_date_opt (tr_to r)), (''first_seen_at'', JStr (isoformat (to_first_seen o1))),
          (''legal_reference'', json_opt (tr_legal_reference r)), (''payload_hash'', JStr (to_hash o1)),
          (''regime'', JStr (tr_regime r)), (''rule_id'', JStr (tr_id r)), (''source_url'', JStr (target_source r)),
          (''table_version'', JStr (tr_table_version r)), (''tolerance_band_pp'', JFloat (quotient_of (tr_band r)))])"

definition distance_target_input :: "target_observation \<Rightarrow> date \<Rightarrow> derived_error + derived_input" where
  "distance_target_input o1 reference =
     make_input ''inflation_target'' (Fin (tr_center (to_rule o1))) ''pct_annual'' (date_isoformat reference)
       (to_available o1) (target_source (to_rule o1)) (target_metadata o1)"

section \<open>The distance from the target\<close>

definition FOCUS_TARGET_DISTANCE :: derivation_spec where
  "FOCUS_TARGET_DISTANCE =
     \<lparr>ds_key = ''distancia_focus_meta'', ds_unit = ''pp'', ds_version = ''1.0.0'',
      ds_formula = ''Focus IPCA 12m - centro da meta de infla'' @ [CHR 0xE7, CHR 0xE3] @ ''o'',
      ds_calculate = difference_of ''expected_inflation'' ''inflation_target''\<rparr>"

text \<open>Of each revision the first sighting; of each rule the latest revision, two at one instant are ambiguous.\<close>

definition revision_key :: "target_observation \<Rightarrow> string \<times> string \<times> string" where
  "revision_key o1 = (tr_id (to_rule o1), tr_table_version (to_rule o1), to_hash o1)"

fun latest_revisions ::
    "(string \<times> target_observation) list \<Rightarrow> target_observation list \<Rightarrow> derived_error + (string \<times> target_observation) list" where
  "latest_revisions known [] = Inr known"
| "latest_revisions known (o1 # os) =
     (case map_of known (tr_id (to_rule o1)) of
        None \<Rightarrow> latest_revisions (AList.update (tr_id (to_rule o1)) o1 known) os
      | Some e \<Rightarrow>
          if instant (to_first_seen e) < instant (to_first_seen o1)
          then latest_revisions (AList.update (tr_id (to_rule o1)) o1 known) os
          else if instant (to_first_seen o1) = instant (to_first_seen e)
            \<and> (tr_table_version (to_rule o1), to_hash o1) \<noteq> (tr_table_version (to_rule e), to_hash e)
          then Inl (Ledger ''ambiguous_revision'')
          else latest_revisions known os)"

definition latest_target_revisions ::
    "target_observation list \<Rightarrow> datetime \<Rightarrow> derived_error + target_observation list" where
  "latest_target_revisions observations cutoff =
     bindE (latest_revisions [] (map snd (latest_by revision_key (\<lambda>o1. - instant (to_first_seen o1))
         (filter (\<lambda>o1. available_by cutoff (to_first_seen o1)) observations))))
       (\<lambda>known. Inr (map snd known))"

definition select_target_observation ::
    "target_observation list \<Rightarrow> date \<Rightarrow> datetime \<Rightarrow> derived_error + target_observation option" where
  "select_target_observation observations reference cutoff =
     bindE (latest_target_revisions observations cutoff) (\<lambda>known.
       case filter (\<lambda>o1. in_effect (to_rule o1) reference) known of
         [] \<Rightarrow> Inr None
       | [o1] \<Rightarrow> Inr (Some o1)
       | _ \<Rightarrow> Inl (Ledger ''ambiguous_rule''))"

definition build_focus_target_distance_result ::
    "focus_expectation list \<Rightarrow> target_observation list \<Rightarrow> datetime \<Rightarrow> derived_error + derived_result" where
  "build_focus_target_distance_result expectations observations as_of =
     bindE (python (utc_datetime as_of)) (\<lambda>cutoff.
     case max_key (\<lambda>e. (fe_reference e, instant (fe_available e)))
            (filter (\<lambda>e. available_by cutoff (fe_available e)) expectations) of
       None \<Rightarrow> unavailable FOCUS_TARGET_DISTANCE cutoff FOCUS_12M_MISSING None []
     | Some e \<Rightarrow>
         bindE (select_target_observation observations (fe_reference e) cutoff) (\<lambda>target.
         case target of
           None \<Rightarrow>
             bindE (focus_input e) (\<lambda>i.
               unavailable FOCUS_TARGET_DISTANCE cutoff
                 (case target_for_reference_date (fe_reference e) of
                    None \<Rightarrow> INFLATION_TARGET_MISSING
                  | Some r \<Rightarrow> if list_ex (\<lambda>o1. tr_id (to_rule o1) = tr_id r \<and> available_by cutoff (to_first_seen o1)) observations
                              then INFLATION_TARGET_MISSING else INPUT_NOT_AVAILABLE)
                 (Some (fe_reference e)) [i])
         | Some o1 \<Rightarrow>
             bindE (focus_input e) (\<lambda>i. bindE (distance_target_input o1 (fe_reference e)) (\<lambda>j.
             bindE (calculate FOCUS_TARGET_DISTANCE [i, j] cutoff) (with_reference (fe_reference e))))))"

end
