(* ===== verification/ScoreModels.thy ===== *)
theory ScoreModels
  imports TargetDistance
begin

text \<open>
  The macro score: its methodology (\<open>macro_score/methodology.py\<close>), component points and series
  (\<open>macro_score/models.py\<close>, \<open>macro_score/component_points.py\<close>) and the selection of vintages at a cutoff
  (\<open>macro_score/inputs.py\<close>). The civil date of an instant in Sao Paulo comes from the time-zone database and
  is the argument \<open>zone\<close>; JSON text and SHA-256 are the codec's.
\<close>

section \<open>Methodology\<close>

definition MACRO_SCORE_VERSION :: string where
  "MACRO_SCORE_VERSION = ''0.3.0-beta''"

datatype dimension = Activity | Inflation | Monetary | Fiscal | Credit | External

definition DIMENSIONS :: "dimension list" where
  "DIMENSIONS = [Activity, Inflation, Monetary, Fiscal, Credit, External]"

fun dimension_text :: "dimension \<Rightarrow> string" where
  "dimension_text Activity = ''activity''"
| "dimension_text Inflation = ''inflation''"
| "dimension_text Monetary = ''monetary''"
| "dimension_text Fiscal = ''fiscal''"
| "dimension_text Credit = ''credit''"
| "dimension_text External = ''external''"

datatype direction = Higher | Lower

fun direction_text :: "direction \<Rightarrow> string" where
  "direction_text Higher = ''higher_is_better''"
| "direction_text Lower = ''lower_is_better''"

datatype component_unit = CuPct | CuPctAnnual | CuPctGdp | CuPp | CuRatio | CuUsdMillion

fun component_unit_text :: "component_unit \<Rightarrow> string" where
  "component_unit_text CuPct = ''pct''"
| "component_unit_text CuPctAnnual = ''pct_annual''"
| "component_unit_text CuPctGdp = ''pct_gdp''"
| "component_unit_text CuPp = ''pp''"
| "component_unit_text CuRatio = ''ratio''"
| "component_unit_text CuUsdMillion = ''usd_million''"

record component_spec =
  sc_key :: string
  sc_dimension :: dimension
  sc_direction :: direction
  sc_unit :: component_unit
  sc_formula :: string
  sc_sources :: "string list"
  sc_weight :: int

definition component ::
    "string \<Rightarrow> dimension \<Rightarrow> direction \<Rightarrow> component_unit \<Rightarrow> string \<Rightarrow> string list \<Rightarrow> component_spec" where
  "component k d r u f ss =
     \<lparr>sc_key = k, sc_dimension = d, sc_direction = r, sc_unit = u, sc_formula = f, sc_sources = ss, sc_weight = 1\<rparr>"

definition COMPONENTS :: "component_spec list" where
  "COMPONENTS =
     [component ''ibc_br_sa_yoy'' Activity Higher CuPct ''((ibc_br_sa_t / ibc_br_sa_t-12) - 1) * 100'' [''ibc_br_sa''],
      component ''desemprego'' Activity Lower CuPct ''desemprego'' [''desemprego''],
      component ''rendimento_real_yoy'' Activity Higher CuPct ''((rendimento_real_t / rendimento_real_t-12) - 1) * 100''
        [''rendimento_medio_real''],
      component ''abs_ipca_12m_target'' Inflation Lower CuPp ''abs(ipca_12m - inflation_target)''
        [''ipca_12m'', ''inflation_target''],
      component ''abs_focus_12m_target'' Inflation Lower CuPp ''abs(expected_inflation - inflation_target)''
        [''expected_inflation'', ''inflation_target''],
      component ''juro_real_ex_ante_1y'' Monetary Lower CuPctAnnual ''((1 + DI/100) / (1 + IPCA/100) - 1) * 100''
        [''nominal_rate'', ''expected_inflation''],
      component ''inclinacao_di_5y_1y'' Monetary Higher CuPp ''di_5y - di_1y'' [''di_5y'', ''di_1y''],
      component ''saldo_primario_12m_pib'' Fiscal Higher CuPctGdp ''saldo_primario_12m_pib'' [''saldo_primario_12m_pib''],
      component ''dbgg_pib'' Fiscal Lower CuPctGdp ''dbgg_pib'' [''dbgg_pib''],
      component ''dbgg_yoy_pp'' Fiscal Lower CuPp ''dbgg_pib_t - dbgg_pib_t-12'' [''dbgg_pib''],
      component ''saldo_nominal_12m_pib'' Fiscal Higher CuPctGdp ''saldo_nominal_12m_pib'' [''saldo_nominal_12m_pib''],
      component ''inadimplencia_pf'' Credit Lower CuPct ''inadimplencia_pf'' [''inadimplencia_pf''],
      component ''comprometimento_renda'' Credit Lower CuPct ''comprometimento_renda'' [''comprometimento_renda''],
      component ''icc_pf'' Credit Lower CuPctAnnual ''icc_pf'' [''icc_pf''],
      component ''spread_credito_pf_selic'' Credit Lower CuPp ''taxa_media_credito_pf - selic_meta''
        [''taxa_media_credito_pf'', ''selic_meta''],
      component ''cobertura_externa'' External Higher CuRatio ''idp_12m_pib / abs(conta_corrente_12m_pib)''
        [''idp_12m_pib'', ''conta_corrente_12m_pib''],
      component ''conta_corrente_12m_pib'' External Higher CuPctGdp ''conta_corrente_12m_pib'' [''conta_corrente_12m_pib''],
      component ''reservas_internacionais'' External Higher CuUsdMillion ''reservas_internacionais''
        [''reservas_internacionais'']]"

fun minimum_valid :: "dimension \<Rightarrow> nat" where
  "minimum_valid Activity = 2"
| "minimum_valid Inflation = 2"
| "minimum_valid Monetary = 2"
| "minimum_valid Fiscal = 3"
| "minimum_valid Credit = 3"
| "minimum_valid External = 2"

definition MINIMUM_VALID_DIMENSIONS :: nat where
  "MINIMUM_VALID_DIMENSIONS = 5"

section \<open>Points and series\<close>

datatype component_reason =
    CrRequiredInputMissing | CrStaleInput | CrReferenceMonthMismatch | CrCurrentAccountNonNegative
  | CrHistoricalLagMissing | CrInvalidDenominator | CrInflationTargetMissing | CrInflationTargetNotObserved
  | CrDerivedSnapshotMissing | CrDerivedSnapshotUnavailable | CrInsufficientHistory

fun component_reason_text :: "component_reason \<Rightarrow> string" where
  "component_reason_text CrRequiredInputMissing = ''required_input_missing''"
| "component_reason_text CrStaleInput = ''stale_input''"
| "component_reason_text CrReferenceMonthMismatch = ''reference_month_mismatch''"
| "component_reason_text CrCurrentAccountNonNegative = ''current_account_non_negative''"
| "component_reason_text CrHistoricalLagMissing = ''historical_lag_missing''"
| "component_reason_text CrInvalidDenominator = ''invalid_denominator''"
| "component_reason_text CrInflationTargetMissing = ''inflation_target_missing''"
| "component_reason_text CrInflationTargetNotObserved = ''inflation_target_not_observed''"
| "component_reason_text CrDerivedSnapshotMissing = ''derived_snapshot_missing''"
| "component_reason_text CrDerivedSnapshotUnavailable = ''derived_snapshot_unavailable''"
| "component_reason_text CrInsufficientHistory = ''insufficient_history''"

record component_point =
  cp_value :: rat
  cp_unit :: component_unit
  cp_period :: date
  cp_available :: datetime
  cp_fingerprint :: string
  cp_inputs :: "derived_input list"

record component_series =
  se_key :: string
  se_current :: "component_point option"
  se_history :: "component_point list"
  se_reason :: "component_reason option"
  se_upstream :: "unavailable_reason option"

definition month_start :: "date \<Rightarrow> date" where
  "month_start d = Date (year d) (month d) 1"

text \<open>\<open>ComponentSeries(..)\<close> with its checks.\<close>

definition make_series ::
    "string \<Rightarrow> component_point option \<Rightarrow> component_point list \<Rightarrow> component_reason option \<Rightarrow> unavailable_reason option
     \<Rightarrow> derived_error + component_series" where
  "make_series key current history reason upstream =
     (if (current = None) = (reason = None) \<or> sort_key cp_period history \<noteq> history
         \<or> \<not> distinct (map (\<lambda>p. month_start (cp_period p)) history)
      then Inl (PyError ValueError)
      else Inr \<lparr>se_key = key, se_current = current, se_history = history, se_reason = reason, se_upstream = upstream\<rparr>)"

record component_calculation =
  cc_value :: rat
  cc_period :: date
  cc_available :: datetime
  cc_inputs :: "derived_input list"

definition make_calculation ::
    "pyfloat \<Rightarrow> date \<Rightarrow> datetime \<Rightarrow> derived_input list \<Rightarrow> derived_error + component_calculation" where
  "make_calculation v period available inputs =
     (case v of
        Fin x \<Rightarrow>
          if inputs = [] then Inl (PyError ValueError)
          else bindE (python (utc_datetime available)) (\<lambda>t.
            Inr \<lparr>cc_value = x, cc_period = period, cc_available = t, cc_inputs = inputs\<rparr>)
      | _ \<Rightarrow> Inl (PyError ValueError))"

text \<open>\<open>inputs[0]\<close> and \<open>max(..)\<close> raise on an empty tuple.\<close>

definition calculation_from_inputs :: "pyfloat \<Rightarrow> derived_input list \<Rightarrow> derived_error + component_calculation" where
  "calculation_from_inputs v inputs =
     (case (inputs, max_key instant (map di_available inputs)) of
        (i # _, Some available) \<Rightarrow>
          bindE (python (date_fromisoformat (di_period i))) (\<lambda>period. make_calculation v period available inputs)
      | _ \<Rightarrow> Inl (PyError IndexError))"

definition fingerprint_input :: "derived_input \<Rightarrow> json" where
  "fingerprint_input i =
     json_obj [(''available_at'', JStr (isoformat (di_available i))), (''key'', JStr (di_key i)),
       (''metadata'', json_obj (di_metadata i)), (''reference_period'', JStr (di_period i)),
       (''source'', JStr (di_source i)), (''unit'', JStr (di_unit i)), (''value'', JFloat (quotient_of (di_value i)))]"

definition component_point :: "codec \<Rightarrow> component_spec \<Rightarrow> component_calculation \<Rightarrow> derived_error + component_point" where
  "component_point c spec calculation =
     (let fingerprint = sha256 c (dumps c (json_obj
            [(''component'', JStr (sc_key spec)), (''formula'', JStr (sc_formula spec)),
             (''inputs'', JArr (map fingerprint_input (cc_inputs calculation))),
             (''methodology_version'', JStr MACRO_SCORE_VERSION),
             (''reference_period'', JStr (date_isoformat (cc_period calculation))),
             (''value'', JFloat (quotient_of (cc_value calculation)))]))
      in if fingerprint = [] then Inl (PyError ValueError)
         else bindE (python (utc_datetime (cc_available calculation))) (\<lambda>t. Inr
           \<lparr>cp_value = cc_value calculation, cp_unit = sc_unit spec, cp_period = cc_period calculation,
            cp_available = t, cp_fingerprint = fingerprint, cp_inputs = sort_key di_key (cc_inputs calculation)\<rparr>))"

section \<open>Vintages\<close>

text \<open>Validated by pydantic: a finite value, texts that are not empty, and timestamps in UTC.\<close>

record score_vintage =
  sv_provider :: string
  sv_series :: string
  sv_period :: date
  sv_value :: rat
  sv_unit :: string
  sv_source :: string
  sv_available :: datetime
  sv_first_seen :: datetime
  sv_hash :: string
  sv_published :: "datetime option"

definition availability_basis :: "score_vintage \<Rightarrow> string" where
  "availability_basis v = (if sv_published v \<noteq> None then ''source_published_at'' else ''first_seen_at'')"

definition score_vintage_input :: "string \<Rightarrow> score_vintage \<Rightarrow> derived_error + derived_input" where
  "score_vintage_input key v =
     make_input key (Fin (sv_value v)) (sv_unit v) (date_isoformat (sv_period v)) (sv_available v) (sv_source v)
       [(''availability_basis'', JStr (availability_basis v)), (''first_seen_at'', JStr (isoformat (sv_first_seen v))),
        (''payload_hash'', JStr (sv_hash v)), (''source_published_at'', json_opt (map_option isoformat (sv_published v)))]"

record score_cutoff =
  mc_as_of :: datetime
  mc_month :: date

record source_policy =
  sp_provider :: string
  sp_series :: string
  sp_frequency :: frequency
  sp_freshness :: int

datatype selection_reason = SelMissing | SelStale

datatype input_selection = Available score_vintage | Unavailable selection_reason

definition score_cutoff_at :: "(datetime \<Rightarrow> date) \<Rightarrow> datetime \<Rightarrow> derived_error + score_cutoff" where
  "score_cutoff_at zone as_of =
     bindE (python (utc_datetime as_of)) (\<lambda>cutoff.
       Inr \<lparr>mc_as_of = cutoff, mc_month = month_start (zone cutoff)\<rparr>)"

definition WINDOW_MONTHS :: int where
  "WINDOW_MONTHS = 120"

definition month_index :: "date \<Rightarrow> int" where
  "month_index d = year d * 12 + month d"

definition shift_month :: "date \<Rightarrow> int \<Rightarrow> py_error + date" where
  "shift_month d k = (let index = month_index d - 1 + k in mk_date (index div 12) (index mod 12 + 1) 1)"

definition historical_month_window :: "date \<Rightarrow> derived_error + date list" where
  "historical_month_window score_month =
     python (mapE (shift_month (month_start score_month)) [- (WINDOW_MONTHS - 1) .. 0])"

definition month_end :: "int \<Rightarrow> int \<Rightarrow> date" where
  "month_end y m = Date y m (month_length (is_leap y) m)"

fun period_end :: "date \<Rightarrow> frequency \<Rightarrow> date option" where
  "period_end d F_MONTHLY = Some (month_end (year d) (month d))"
| "period_end d F_MOVING_QUARTER = Some (month_end (year d) (month d))"
| "period_end d F_QUARTERLY = Some (month_end (year d) (((month d - 1) div 3 + 1) * 3))"
| "period_end d F_ANNUAL = Some (Date (year d) 12 31)"
| "period_end d F_DAILY = None"
| "period_end d F_MARKET = None"

definition BCB_CREDIT_MONTHLY_KEYS :: "string list" where
  "BCB_CREDIT_MONTHLY_KEYS = [''inadimplencia_pf'', ''comprometimento_renda'', ''icc_pf'', ''taxa_media_credito_pf'']"

definition current_reference_is_fresh ::
    "(datetime \<Rightarrow> date) \<Rightarrow> date \<Rightarrow> score_cutoff \<Rightarrow> source_policy \<Rightarrow> derived_error + bool" where
  "current_reference_is_fresh zone period cutoff policy =
     (if sp_series policy \<in> set BCB_CREDIT_MONTHLY_KEYS
      then (let age = month_index (mc_month cutoff) - month_index period in Inr (0 \<le> age \<and> age \<le> 2))
      else case period_end period (sp_frequency policy) of
        None \<Rightarrow> Inr True
      | Some e \<Rightarrow> bindE (python (add_days e (sp_freshness policy))) (\<lambda>deadline. Inr (zone (mc_as_of cutoff) \<le> deadline)))"

definition known_vintages :: "score_vintage list \<Rightarrow> score_cutoff \<Rightarrow> source_policy \<Rightarrow> score_vintage list" where
  "known_vintages vintages cutoff policy =
     filter (\<lambda>v. sv_provider v = sp_provider policy \<and> sv_series v = sp_series policy
       \<and> available_by (mc_as_of cutoff) (sv_available v)) vintages"

definition seen_rank :: "score_vintage \<Rightarrow> int \<times> int \<times> string" where
  "seen_rank v = (instant (sv_available v), instant (sv_first_seen v), sv_hash v)"

definition select_known_source_vintages :: "score_vintage list \<Rightarrow> score_cutoff \<Rightarrow> source_policy \<Rightarrow> score_vintage list" where
  "select_known_source_vintages vintages cutoff policy =
     in_key_order (latest_by sv_period seen_rank (known_vintages vintages cutoff policy))"

definition select_latest_source_by_month :: "score_vintage list \<Rightarrow> score_vintage list" where
  "select_latest_source_by_month vintages =
     in_key_order (latest_by (\<lambda>v. month_start (sv_period v)) (\<lambda>v. (sv_period v, seen_rank v)) vintages)"

definition select_current_source ::
    "(datetime \<Rightarrow> date) \<Rightarrow> score_vintage list \<Rightarrow> score_cutoff \<Rightarrow> source_policy \<Rightarrow> derived_error + input_selection" where
  "select_current_source zone vintages cutoff policy =
     (let local_date = zone (mc_as_of cutoff)
      in case max_key sv_period (filter (\<lambda>v. month_start (sv_period v) \<le> mc_month cutoff
             \<and> (sp_frequency policy \<notin> {F_DAILY, F_MARKET} \<or> sv_period v \<le> local_date))
             (select_known_source_vintages vintages cutoff policy)) of
           None \<Rightarrow> Inr (Unavailable SelMissing)
         | Some v \<Rightarrow> bindE (current_reference_is_fresh zone (sv_period v) cutoff policy) (\<lambda>fresh.
             Inr (if fresh then Available v else Unavailable SelStale)))"

definition select_historical_source ::
    "score_vintage list \<Rightarrow> score_cutoff \<Rightarrow> source_policy \<Rightarrow> derived_error + score_vintage list" where
  "select_historical_source vintages cutoff policy =
     bindE (historical_month_window (mc_month cutoff)) (\<lambda>window.
       Inr (select_latest_source_by_month
         (filter (\<lambda>v. month_start (sv_period v) \<in> set window) (known_vintages vintages cutoff policy))))"

text \<open>\<open>select_current_vintage\<close> and \<open>select_historical_vintages\<close> pass this policy; the provider is \<open>bcb_sgs\<close>.\<close>

definition policy_for_spec :: "indicator_spec \<Rightarrow> source_policy" where
  "policy_for_spec s =
     \<lparr>sp_provider = ''bcb_sgs'', sp_series = is_key s, sp_frequency = is_frequency s, sp_freshness = is_freshness s\<rparr>"

end
