(* ===== verification/DerivedStore.thy ===== *)
theory DerivedStore
  imports DerivedModels
begin

text \<open>
  The stored form of derived results: their payload (\<open>derived/models.py\<close>) and the snapshot table
  (\<open>derived/repository.py\<close>). A payload is a typed record, as the code's \<open>TypedDict\<close>; its JSON text is the
  codec's, and \<open>adapter\<close> is pydantic's \<open>validate_json\<close> for the payload type.
\<close>

section \<open>Payloads\<close>

record input_payload =
  ip_value :: rat
  ip_unit :: string
  ip_period :: string
  ip_available :: string
  ip_source :: string
  ip_metadata :: "metadata option"

text \<open>A \<open>NotRequired\<close> key is an option; the three classification keys may also hold a null.\<close>

record result_payload =
  rp_key :: string
  rp_value :: "rat option"
  rp_unit :: string
  rp_as_of :: string
  rp_version :: string
  rp_formula :: string
  rp_inputs :: "(string \<times> input_payload) list"
  rp_reason :: "string option"
  rp_reference :: "string option"
  rp_percentile :: "rat option option"
  rp_classification :: "string option option"
  rp_class_reason :: "string option option"
  rp_basis :: "string option"
  rp_count :: "int option"
  rp_history_at :: "string option"
  rp_dependencies :: "(string \<times> string) list option"

definition input_to_payload :: "derived_input \<Rightarrow> input_payload" where
  "input_to_payload i =
     \<lparr>ip_value = di_value i, ip_unit = di_unit i, ip_period = di_period i, ip_available = isoformat (di_available i),
      ip_source = di_source i, ip_metadata = (if di_metadata i = [] then None else Some (di_metadata i))\<rparr>"

definition result_to_payload :: "derived_result \<Rightarrow> bool \<Rightarrow> result_payload" where
  "result_to_payload r include_dependencies =
     (let classified = (dr_reference r \<noteq> None \<or> dr_class_reason r \<noteq> None); given = (\<lambda>v. if classified then Some v else None)
      in \<lparr>rp_key = dr_key r, rp_value = dr_value r, rp_unit = dr_unit r, rp_as_of = isoformat (dr_as_of r),
          rp_version = dr_version r, rp_formula = dr_formula r,
          rp_inputs = map (\<lambda>i. (di_key i, input_to_payload i)) (dr_inputs r),
          rp_reason = map_option reason_text (dr_reason r), rp_reference = dr_reference r,
          rp_percentile = (if classified then Some (dr_percentile r) else None),
          rp_classification = given (dr_classification r), rp_class_reason = given (dr_class_reason r),
          rp_basis = dr_basis r, rp_count = dr_count r, rp_history_at = map_option isoformat (dr_history_at r),
          rp_dependencies = (if include_dependencies \<and> dr_dependencies r \<noteq> [] then Some (dr_dependencies r) else None)\<rparr>)"

text \<open>\<open>UnavailableReason(text)\<close> and \<open>payload.get(key)\<close> of a key that may hold a null.\<close>

definition reason_of :: "string \<Rightarrow> derived_error + unavailable_reason" where
  "reason_of s = (case find (\<lambda>r. reason_text r = s) ALL_REASONS of None \<Rightarrow> Inl (PyError ValueError) | Some r \<Rightarrow> Inr r)"

definition get_null :: "'a option option \<Rightarrow> 'a option" where
  "get_null v = (case v of None \<Rightarrow> None | Some x \<Rightarrow> x)"

definition get_list :: "'a list option \<Rightarrow> 'a list" where
  "get_list v = (case v of None \<Rightarrow> [] | Some xs \<Rightarrow> xs)"

definition opt_step :: "('a \<Rightarrow> 'e + 'b) \<Rightarrow> 'a option \<Rightarrow> 'e + 'b option" where
  "opt_step f v = (case v of None \<Rightarrow> Inr None | Some x \<Rightarrow> bindE (f x) (\<lambda>y. Inr (Some y)))"

definition input_from_payload :: "string \<times> input_payload \<Rightarrow> derived_error + derived_input" where
  "input_from_payload = (\<lambda>(key, p).
     bindE (python (fromisoformat (ip_available p))) (\<lambda>available.
       make_input key (Fin (ip_value p)) (ip_unit p) (ip_period p) available (ip_source p) (get_list (ip_metadata p))))"

definition result_from_payload :: "result_payload \<Rightarrow> derived_error + derived_result" where
  "result_from_payload p =
     bindE (python (fromisoformat (rp_as_of p))) (\<lambda>as_of.
     bindE (mapE input_from_payload (rp_inputs p)) (\<lambda>inputs.
     bindE (opt_step reason_of (rp_reason p)) (\<lambda>reason.
     bindE (opt_step (\<lambda>t. python (fromisoformat t)) (rp_history_at p)) (\<lambda>history_at.
       make_result (float_opt (rp_value p)) (float_opt (get_null (rp_percentile p)))
         \<lparr>dr_key = rp_key p, dr_value = None, dr_unit = rp_unit p, dr_as_of = as_of, dr_version = rp_version p,
          dr_formula = rp_formula p, dr_inputs = inputs, dr_reason = reason, dr_reference = rp_reference p,
          dr_percentile = None, dr_classification = get_null (rp_classification p),
          dr_class_reason = get_null (rp_class_reason p), dr_basis = rp_basis p, dr_count = rp_count p,
          dr_history_at = history_at, dr_dependencies = get_list (rp_dependencies p)\<rparr>))))"

section \<open>JSON and the identity of the inputs\<close>

definition json_rat_opt :: "rat option \<Rightarrow> json" where
  "json_rat_opt v = (case v of None \<Rightarrow> JNull | Some x \<Rightarrow> JFloat (quotient_of x))"

definition optional :: "string \<Rightarrow> ('a \<Rightarrow> json) \<Rightarrow> 'a option \<Rightarrow> (string \<times> json) list" where
  "optional key f v = (case v of None \<Rightarrow> [] | Some x \<Rightarrow> [(key, f x)])"

definition input_json :: "input_payload \<Rightarrow> json" where
  "input_json p =
     json_obj ([(''value'', JFloat (quotient_of (ip_value p))), (''unit'', JStr (ip_unit p)),
       (''reference_period'', JStr (ip_period p)), (''available_at'', JStr (ip_available p)),
       (''source'', JStr (ip_source p))] @ optional ''metadata'' json_obj (ip_metadata p))"

definition inputs_json :: "result_payload \<Rightarrow> json" where
  "inputs_json p = json_obj (map (\<lambda>(k, i). (k, input_json i)) (rp_inputs p))"

definition dependencies_json :: "(string \<times> string) list \<Rightarrow> json" where
  "dependencies_json ds = json_obj (map (\<lambda>(k, f). (k, JStr f)) ds)"

definition payload_json :: "result_payload \<Rightarrow> json" where
  "payload_json p =
     json_obj ([(''key'', JStr (rp_key p)), (''value'', json_rat_opt (rp_value p)), (''unit'', JStr (rp_unit p)),
        (''as_of'', JStr (rp_as_of p)), (''methodology_version'', JStr (rp_version p)),
        (''formula'', JStr (rp_formula p)), (''inputs'', inputs_json p), (''reason'', json_opt (rp_reason p))]
       @ optional ''reference_date'' JStr (rp_reference p)
       @ optional ''historical_percentile'' json_rat_opt (rp_percentile p)
       @ optional ''classification'' json_opt (rp_classification p)
       @ optional ''classification_reason'' json_opt (rp_class_reason p)
       @ optional ''classification_history_basis'' JStr (rp_basis p)
       @ optional ''classification_history_count'' JNum (rp_count p)
       @ optional ''classification_history_available_at'' JStr (rp_history_at p)
       @ optional ''dependency_fingerprints'' dependencies_json (rp_dependencies p))"

definition inputs_hash :: "codec \<Rightarrow> derived_result \<Rightarrow> string" where
  "inputs_hash c r =
     (let p = result_to_payload r True
      in sha256 c (dumps c (case rp_dependencies p of
           None \<Rightarrow> inputs_json p
         | Some ds \<Rightarrow> json_obj [(''inputs'', inputs_json p), (''dependency_fingerprints'', dependencies_json ds)])))"

section \<open>The snapshot table\<close>

datatype snapshot_origin = ProductionRefresh | TestFixture

fun origin_text :: "snapshot_origin \<Rightarrow> string" where
  "origin_text ProductionRefresh = ''production_refresh''"
| "origin_text TestFixture = ''test_fixture''"

definition origin_of :: "string \<Rightarrow> derived_error + snapshot_origin" where
  "origin_of s =
     (if s = ''production_refresh'' then Inr ProductionRefresh
      else if s = ''test_fixture'' then Inr TestFixture else Inl (PyError ValueError))"

record derived_snapshot =
  sn_result :: derived_result
  sn_inputs_hash :: string
  sn_cycle :: string
  sn_origin :: snapshot_origin
  sn_created :: datetime

record snapshot_row =
  sr_key :: string
  sr_as_of :: timestamp
  sr_version :: string
  sr_hash :: string
  sr_payload :: string
  sr_cycle :: string
  sr_origin :: string
  sr_created :: timestamp

definition row_identity :: "snapshot_row \<Rightarrow> string \<times> string \<times> string \<times> string" where
  "row_identity r = (sr_key r, sr_as_of r, sr_version r, sr_hash r)"

text \<open>\<open>INSERT .. ON CONFLICT (key, as_of, methodology_version, inputs_hash) DO NOTHING\<close>\<close>

definition insert_row :: "snapshot_row \<Rightarrow> snapshot_row list \<Rightarrow> bool \<times> snapshot_row list" where
  "insert_row r t = (if row_identity r \<in> set (map row_identity t) then (False, t) else (True, t @ [r]))"

definition insert_snapshot ::
    "codec \<Rightarrow> derived_result \<Rightarrow> string \<Rightarrow> snapshot_origin \<Rightarrow> datetime \<Rightarrow> snapshot_row list
     \<Rightarrow> derived_error + bool \<times> snapshot_row list" where
  "insert_snapshot c r cycle origin created t =
     bindE (python (utc_datetime created)) (\<lambda>at_utc.
       Inr (insert_row
         \<lparr>sr_key = dr_key r, sr_as_of = isoformat (dr_as_of r), sr_version = dr_version r, sr_hash = inputs_hash c r,
          sr_payload = dumps c (payload_json (result_to_payload r True)), sr_cycle = cycle,
          sr_origin = origin_text origin, sr_created = isoformat at_utc\<rparr> t))"

type_synonym payload_adapter = "string \<Rightarrow> derived_error + result_payload"

definition snapshot_from_row :: "payload_adapter \<Rightarrow> snapshot_row \<Rightarrow> derived_error + derived_snapshot" where
  "snapshot_from_row adapter row =
     bindE (adapter (sr_payload row)) (\<lambda>p.
     bindE (result_from_payload p) (\<lambda>r.
     bindE (origin_of (sr_origin row)) (\<lambda>origin.
     bindE (python (fromisoformat (sr_created row))) (\<lambda>created.
     bindE (python (utc_datetime created)) (\<lambda>at_utc. Inr
       \<lparr>sn_result = r, sn_inputs_hash = sr_hash row, sn_cycle = sr_cycle row, sn_origin = origin,
        sn_created = at_utc\<rparr>)))))"

text \<open>The rows of a key in the order of the query; the order of insertion breaks ties, as the row id does.\<close>

definition query_snapshot_history ::
    "payload_adapter \<Rightarrow> string \<Rightarrow> snapshot_row list \<Rightarrow> derived_error + derived_snapshot list" where
  "query_snapshot_history adapter key t =
     mapE (snapshot_from_row adapter) (sort_key (\<lambda>r. (sr_as_of r, sr_created r)) (filter (\<lambda>r. sr_key r = key) t))"

text \<open>\<open>ORDER BY key, as_of DESC, created_at DESC, id DESC\<close>: the first row of each key is the last of its history.\<close>

definition query_latest_snapshots ::
    "payload_adapter \<Rightarrow> snapshot_row list \<Rightarrow> derived_error + (string \<times> derived_snapshot) list" where
  "query_latest_snapshots adapter t =
     bindE (mapE (\<lambda>r. bindE (snapshot_from_row adapter r) (\<lambda>s. Inr (sr_key r, s)))
         (sort_key sr_key (rev (sort_key (\<lambda>r. (sr_as_of r, sr_created r)) t)))) (\<lambda>rows.
       Inr (foldl (\<lambda>d (k, s). if k \<in> fst ` set d then d else d @ [(k, s)]) [] rows))"

section \<open>Reading back\<close>

lemma make_result_again:
  assumes "well_formed_result r"
  shows "make_result (float_opt (dr_value r)) (float_opt (dr_percentile r)) (r\<lparr>dr_value := v, dr_percentile := p\<rparr>) = Inr r"
proof -
  have "sort_key di_key (dr_inputs r) = dr_inputs r" "sort_key fst (dr_dependencies r) = dr_dependencies r"
    using assms by (simp_all add: well_formed_result_def sort_key_id_if_sorted)
  moreover have "utc_opt (dr_history_at r) = Inr (dr_history_at r)" "utc_datetime (dr_as_of r) = Inr (dr_as_of r)"
    using assms by (simp_all add: well_formed_result_def utc_opt_of_utc utc_datetime_of_utc)
  moreover have "finite_opt (float_opt w) = Inr w" for w by (simp add: finite_opt_Inr)
  moreover have "(case dr_reference r of None \<Rightarrow> Inr () | Some s \<Rightarrow> bindE (python (date_fromisoformat s)) (\<lambda>_. Inr ())) = Inr ()"
    using assms by (auto simp: well_formed_result_def split: option.split)
  moreover have "\<not> list_ex (\<lambda>i. instant (dr_as_of r) < instant (di_available i)) (dr_inputs r)"
    using assms by (auto simp: well_formed_result_def list_ex_iff not_less)
  moreover have "numbers_ok (dr_percentile r) (r\<lparr>dr_value := v, dr_percentile := p\<rparr>)"
    "contents_ok (dr_value r) (r\<lparr>dr_value := v, dr_percentile := p\<rparr>)"
    "\<not> (dr_key r = [] \<or> dr_unit r = [] \<or> dr_version r = [] \<or> dr_formula r = [])"
    using assms by (simp_all add: well_formed_result_def numbers_ok_def contents_ok_def)
  ultimately show ?thesis by (simp add: make_result_def)
qed

lemma reason_roundtrip: "reason_of (reason_text r) = Inr r"
  by (cases r) (hypsubst, code_simp)+

lemma get_null_if: "get_null (if b then Some v else None) = (if b then v else None)"
  by (simp add: get_null_def)

lemma utc_text_roundtrip: "is_utc t \<Longrightarrow> fromisoformat (isoformat t) = Inr t"
  by (rule isoformat_roundtrip) (simp add: is_utc_def)

lemma input_roundtrip:
  assumes "well_formed_input i"
  shows "input_from_payload (di_key i, input_to_payload i) = Inr i"
proof -
  have "get_list (if di_metadata i = [] then None else Some (di_metadata i)) = di_metadata i"
    by (simp add: get_list_def)
  moreover have "is_utc (di_available i)" using assms by (simp add: well_formed_input_def)
  ultimately show ?thesis
    using make_input_again [OF assms] by (simp add: input_from_payload_def input_to_payload_def utc_text_roundtrip)
qed

lemma payload_roundtrip:
  assumes "well_formed_result r" "\<forall>i \<in> set (dr_inputs r). well_formed_input i"
    "dr_percentile r \<noteq> None \<Longrightarrow> dr_reference r \<noteq> None \<or> dr_class_reason r \<noteq> None"
  shows "result_from_payload (result_to_payload r True) = Inr r"
proof -
  have inputs: "mapE input_from_payload (map (\<lambda>i. (di_key i, input_to_payload i)) (dr_inputs r)) = Inr (dr_inputs r)"
    using mapE_map_Inr [of "dr_inputs r" input_from_payload "\<lambda>i. (di_key i, input_to_payload i)" id]
      input_roundtrip assms(2) by simp
  have utc: "is_utc (dr_as_of r)" "\<forall>t \<in> set_option (dr_history_at r). is_utc t"
    using assms(1) by (simp_all add: well_formed_result_def)
  have at_utc: "opt_step (\<lambda>t. python (fromisoformat t)) (map_option isoformat (dr_history_at r)) = Inr (dr_history_at r)"
    using utc(2) by (cases "dr_history_at r") (simp_all add: opt_step_def utc_text_roundtrip)
  have reason: "opt_step reason_of (map_option reason_text (dr_reason r)) = Inr (dr_reason r)"
    by (cases "dr_reason r") (simp_all add: opt_step_def reason_roundtrip)
  have cls: "dr_percentile r = None \<and> dr_classification r = None \<or> dr_reference r \<noteq> None \<or> dr_class_reason r \<noteq> None"
    using assms(1,3) by (auto simp: well_formed_result_def)
  have whole: "r\<lparr>dr_value := None, dr_percentile := None\<rparr>
      = \<lparr>dr_key = dr_key r, dr_value = None, dr_unit = dr_unit r, dr_as_of = dr_as_of r, dr_version = dr_version r,
         dr_formula = dr_formula r, dr_inputs = dr_inputs r, dr_reason = dr_reason r, dr_reference = dr_reference r,
         dr_percentile = None, dr_classification = dr_classification r,
         dr_class_reason = dr_class_reason r, dr_basis = dr_basis r, dr_count = dr_count r,
         dr_history_at = dr_history_at r, dr_dependencies = dr_dependencies r\<rparr>" by (cases r) simp
  have deps: "get_list (if dr_dependencies r \<noteq> [] then Some (dr_dependencies r) else None) = dr_dependencies r"
    by (simp add: get_list_def)
  have rest: "result_from_payload (result_to_payload r True)
      = make_result (float_opt (dr_value r)) (float_opt (dr_percentile r)) (r\<lparr>dr_value := None, dr_percentile := None\<rparr>)"
  proof (cases "dr_reference r = None \<and> dr_class_reason r = None")
    case True
    then have "dr_percentile r = None" "dr_classification r = None" using cls by auto
    then show ?thesis using True
      by (simp add: result_from_payload_def result_to_payload_def Let_def utc_text_roundtrip utc(1) inputs reason at_utc
          get_null_if get_null_def deps whole)
  next
    case False
    then show ?thesis
      by (simp add: result_from_payload_def result_to_payload_def Let_def utc_text_roundtrip utc(1) inputs reason at_utc
          get_null_if get_null_def deps whole)
  qed
  show ?thesis unfolding rest by (rule make_result_again [OF assms(1)])
qed

end
