(* ===== verification/ScoreComponents.thy ===== *)
theory ScoreComponents
  imports ScoreModels DerivedStore
begin

text \<open>
  The series of the score's components: levels and yearly changes of SGS vintages
  (\<open>macro_score/raw_components.py\<close>), distances from the inflation target (\<open>target_components.py\<close>), stored
  derived snapshots (\<open>derived_components.py\<close>), and the choice of builder (\<open>component_inputs.py\<close>).
\<close>

section \<open>Sources\<close>

record score_sources =
  ss_vintages :: "score_vintage list"
  ss_targets :: "target_observation list"
  ss_snapshots :: "derived_snapshot list"

text \<open>What every builder reads: the codec, the time zone, the sources and the cutoff.\<close>

record score_context =
  sx_codec :: codec
  sx_zone :: "datetime \<Rightarrow> date"
  sx_sources :: score_sources
  sx_cutoff :: score_cutoff

definition indicator_for :: "string \<Rightarrow> derived_error + indicator_spec" where
  "indicator_for key = (case find (\<lambda>s. is_key s = key) SPECS of None \<Rightarrow> Inl (PyError KeyError) | Some s \<Rightarrow> Inr s)"

text \<open>\<open>spec.source_keys[0]\<close>\<close>

definition first_source :: "component_spec \<Rightarrow> string" where
  "first_source spec = hd (sc_sources spec)"

fun input_reason :: "selection_reason \<Rightarrow> component_reason" where
  "input_reason SelMissing = CrRequiredInputMissing"
| "input_reason SelStale = CrStaleInput"

definition current_source :: "score_context \<Rightarrow> source_policy \<Rightarrow> derived_error + input_selection" where
  "current_source x policy = select_current_source (sx_zone x) (ss_vintages (sx_sources x)) (sx_cutoff x) policy"

definition historical_source :: "score_context \<Rightarrow> source_policy \<Rightarrow> derived_error + score_vintage list" where
  "historical_source x policy = select_historical_source (ss_vintages (sx_sources x)) (sx_cutoff x) policy"

definition point_from :: "score_context \<Rightarrow> component_spec \<Rightarrow> pyfloat \<Rightarrow> derived_input list \<Rightarrow> derived_error + component_point" where
  "point_from x spec v inputs =
     bindE (calculation_from_inputs v inputs) (\<lambda>k. component_point (sx_codec x) spec k)"

section \<open>Levels\<close>

definition level_point :: "score_context \<Rightarrow> component_spec \<Rightarrow> score_vintage \<Rightarrow> derived_error + component_point" where
  "level_point x spec v =
     bindE (score_vintage_input (first_source spec) v) (\<lambda>i. point_from x spec (Fin (sv_value v)) [i])"

definition build_level_series :: "score_context \<Rightarrow> component_spec \<Rightarrow> derived_error + component_series" where
  "build_level_series x spec =
     bindE (indicator_for (first_source spec)) (\<lambda>source.
     bindE (historical_source x (policy_for_spec source)) (\<lambda>window.
     bindE (mapE (level_point x spec) window) (\<lambda>history.
     bindE (current_source x (policy_for_spec source)) (\<lambda>selected.
     case selected of
       Available v \<Rightarrow> bindE (level_point x spec v) (\<lambda>p. make_series (sc_key spec) (Some p) history None None)
     | Unavailable reason \<Rightarrow> make_series (sc_key spec) None history (Some (input_reason reason)) None))))"

section \<open>Changes over twelve months\<close>

definition prior_year_month :: "date \<Rightarrow> py_error + date" where
  "prior_year_month d = mk_date (year d - 1) (month d) 1"

definition source_months :: "score_context \<Rightarrow> indicator_spec \<Rightarrow> (date \<times> score_vintage) list" where
  "source_months x source =
     map (\<lambda>v. (month_start (sv_period v), v)) (select_latest_source_by_month
       (select_known_source_vintages (ss_vintages (sx_sources x)) (sx_cutoff x) (policy_for_spec source)))"

definition percent_change :: "rat \<Rightarrow> rat \<Rightarrow> py_error + pyfloat option" where
  "percent_change current previous =
     (if previous = 0 then Inr None
      else bindE (float_div (Fin current) (Fin previous)) (\<lambda>q.
        Inr (Some (float_mult (float_sub q (Fin 1)) (Fin 100)))))"

definition level_difference :: "rat \<Rightarrow> rat \<Rightarrow> py_error + pyfloat option" where
  "level_difference current previous = Inr (Some (float_sub (Fin current) (Fin previous)))"

definition CHANGE_FUNCTIONS :: "(string \<times> (rat \<Rightarrow> rat \<Rightarrow> py_error + pyfloat option)) list" where
  "CHANGE_FUNCTIONS =
     [(''ibc_br_sa_yoy'', percent_change), (''rendimento_real_yoy'', percent_change), (''dbgg_yoy_pp'', level_difference)]"

datatype change = NoLag | NoDenominator | Change component_point

text \<open>The change at one observation: what the loop and the current value of the builder share.\<close>

definition change_at ::
    "score_context \<Rightarrow> component_spec \<Rightarrow> (rat \<Rightarrow> rat \<Rightarrow> py_error + pyfloat option) \<Rightarrow> (date \<times> score_vintage) list
     \<Rightarrow> score_vintage \<Rightarrow> derived_error + change" where
  "change_at x spec f by_month v =
     bindE (python (prior_year_month (sv_period v))) (\<lambda>before.
     case map_of by_month before of
       None \<Rightarrow> Inr NoLag
     | Some previous \<Rightarrow>
         bindE (python (f (sv_value v) (sv_value previous))) (\<lambda>value.
         case value of
           None \<Rightarrow> Inr NoDenominator
         | Some y \<Rightarrow>
             bindE (score_vintage_input ''current_value'' v) (\<lambda>i.
             bindE (score_vintage_input ''previous_value'' previous) (\<lambda>j.
             bindE (point_from x spec y [i, j]) (\<lambda>p. Inr (Change p))))))"

definition changes :: "change list \<Rightarrow> component_point list" where
  "changes = List.map_filter (\<lambda>k. case k of Change p \<Rightarrow> Some p | _ \<Rightarrow> None)"

definition build_change_series :: "score_context \<Rightarrow> component_spec \<Rightarrow> derived_error + component_series" where
  "build_change_series x spec =
     bindE (indicator_for (first_source spec)) (\<lambda>source.
     case map_of CHANGE_FUNCTIONS (sc_key spec) of
       None \<Rightarrow> Inl (PyError KeyError)
     | Some f \<Rightarrow>
         (let by_month = source_months x source
          in bindE (historical_source x (policy_for_spec source)) (\<lambda>window.
             bindE (mapE (change_at x spec f by_month) window) (\<lambda>samples.
             bindE (current_source x (policy_for_spec source)) (\<lambda>selected.
             case selected of
               Available v \<Rightarrow>
                 bindE (change_at x spec f by_month v) (\<lambda>k.
                 case k of
                   NoLag \<Rightarrow> make_series (sc_key spec) None (changes samples) (Some CrHistoricalLagMissing) None
                 | NoDenominator \<Rightarrow> make_series (sc_key spec) None (changes samples) (Some CrInvalidDenominator) None
                 | Change p \<Rightarrow> make_series (sc_key spec) (Some p) (changes samples) None None)
             | Unavailable reason \<Rightarrow>
                 make_series (sc_key spec) None (changes samples) (Some (input_reason reason)) None)))))"

section \<open>Distances from the inflation target\<close>

definition FOCUS_POLICY :: source_policy where
  "FOCUS_POLICY =
     \<lparr>sp_provider = ''focus'', sp_series = ''IPCA_12M_S_BASE0'', sp_frequency = F_DAILY, sp_freshness = 7\<rparr>"

definition uses_focus :: "component_spec \<Rightarrow> bool" where
  "uses_focus spec \<longleftrightarrow> first_source spec = ''expected_inflation''"

text \<open>The policy \<open>_source_history\<close> and \<open>_current_expectation\<close> select with.\<close>

definition expectation_policy :: "component_spec \<Rightarrow> derived_error + source_policy" where
  "expectation_policy spec =
     (if uses_focus spec then Inr FOCUS_POLICY
      else bindE (indicator_for (first_source spec)) (\<lambda>s. Inr (policy_for_spec s)))"

definition target_at_reference ::
    "date \<Rightarrow> target_observation list \<Rightarrow> score_cutoff \<Rightarrow> component_reason + target_observation" where
  "target_at_reference period observations cutoff =
     (case target_for_reference_date period of
        None \<Rightarrow> Inl CrInflationTargetMissing
      | Some r \<Rightarrow>
          (case max_key (\<lambda>o1. (instant (to_first_seen o1), to_hash o1))
              (filter (\<lambda>o1. to_rule o1 = r \<and> available_by (mc_as_of cutoff) (to_available o1)) observations) of
             None \<Rightarrow> Inl CrInflationTargetNotObserved
           | Some o1 \<Rightarrow> Inr o1))"

definition score_target_input :: "target_observation \<Rightarrow> date \<Rightarrow> derived_error + derived_input" where
  "score_target_input o1 period =
     (let r = to_rule o1
      in make_input ''inflation_target'' (Fin (tr_center r)) ''pct_annual'' (date_isoformat period) (to_available o1)
           (text_or (str_or_empty (tr_direct_url r)) (tr_source_url r))
           [(''availability_basis'', JStr ''first_seen_at''), (''effective_from'', JStr (date_isoformat (tr_from r))),
            (''effective_to'', json_date_opt (tr_to r)), (''first_seen_at'', JStr (isoformat (to_first_seen o1))),
            (''payload_hash'', JStr (to_hash o1)), (''regime'', JStr (tr_regime r)), (''rule_id'', JStr (tr_id r)),
            (''table_version'', JStr (tr_table_version r)),
            (''tolerance_band_pp'', JFloat (quotient_of (tr_band r)))])"

definition distance_point ::
    "score_context \<Rightarrow> component_spec \<Rightarrow> score_vintage \<Rightarrow> target_observation \<Rightarrow> derived_error + component_point" where
  "distance_point x spec v target =
     bindE (score_vintage_input (if uses_focus spec then ''expected_inflation'' else ''ipca_12m'') v) (\<lambda>i.
     bindE (score_target_input target (sv_period v)) (\<lambda>j.
       point_from x spec (float_abs (float_sub (Fin (di_value i)) (Fin (di_value j)))) [i, j]))"

definition distance_history ::
    "score_context \<Rightarrow> component_spec \<Rightarrow> score_vintage list \<Rightarrow> derived_error + component_point list" where
  "distance_history x spec window =
     mapE (\<lambda>(v, target). distance_point x spec v target)
       (List.map_filter (\<lambda>v. case target_at_reference (sv_period v) (ss_targets (sx_sources x)) (sx_cutoff x) of
            Inr target \<Rightarrow> Some (v, target) | Inl _ \<Rightarrow> None) window)"

definition build_target_distance_series :: "score_context \<Rightarrow> component_spec \<Rightarrow> derived_error + component_series" where
  "build_target_distance_series x spec =
     bindE (expectation_policy spec) (\<lambda>policy.
     bindE (historical_source x policy) (\<lambda>window.
     bindE (distance_history x spec window) (\<lambda>history.
     bindE (current_source x policy) (\<lambda>selected.
     case selected of
       Available v \<Rightarrow>
         (case target_at_reference (sv_period v) (ss_targets (sx_sources x)) (sx_cutoff x) of
            Inl reason \<Rightarrow> make_series (sc_key spec) None history (Some reason) None
          | Inr target \<Rightarrow> bindE (distance_point x spec v target) (\<lambda>p. make_series (sc_key spec) (Some p) history None None))
     | Unavailable reason \<Rightarrow> make_series (sc_key spec) None history (Some (input_reason reason)) None))))"

section \<open>Derived snapshots\<close>

definition DERIVED_KEYS :: "string list" where
  "DERIVED_KEYS = [''juro_real_ex_ante_1y'', ''inclinacao_di_5y_1y'', ''spread_credito_pf_selic'', ''cobertura_externa'']"

definition ANCHOR_KEYS :: "(string \<times> string option) list" where
  "ANCHOR_KEYS =
     [(''juro_real_ex_ante_1y'', None), (''inclinacao_di_5y_1y'', None),
      (''spread_credito_pf_selic'', Some ''taxa_media_credito_pf''), (''cobertura_externa'', Some ''idp_12m_pib'')]"

definition snapshot_is_forward :: "score_cutoff \<Rightarrow> string option \<Rightarrow> derived_snapshot \<Rightarrow> bool" where
  "snapshot_is_forward cutoff cycle s \<longleftrightarrow>
     sn_origin s = ProductionRefresh
     \<and> available_by (sn_created s) (dr_as_of (sn_result s)) \<and> available_by (mc_as_of cutoff) (dr_as_of (sn_result s))
     \<and> (available_by (mc_as_of cutoff) (sn_created s)
        \<or> (case cycle of None \<Rightarrow> False
           | Some k \<Rightarrow> strip k \<noteq> [] \<and> sn_cycle s = k \<and> instant (dr_as_of (sn_result s)) = instant (mc_as_of cutoff)))
     \<and> inputs_known (sn_result s)"

definition snapshot_is_fresh :: "score_context \<Rightarrow> component_spec \<Rightarrow> date \<Rightarrow> datetime \<Rightarrow> derived_error + bool" where
  "snapshot_is_fresh x spec reference as_of =
     (case map_of ANCHOR_KEYS (sc_key spec) of
        None \<Rightarrow> Inl (PyError KeyError)
      | Some None \<Rightarrow> Inr True
      | Some (Some anchor) \<Rightarrow>
          bindE (indicator_for anchor) (\<lambda>s.
          bindE (score_cutoff_at (sx_zone x) as_of) (\<lambda>cutoff.
            current_reference_is_fresh (sx_zone x) reference cutoff (policy_for_spec s))))"

definition snapshot_input :: "derived_snapshot \<Rightarrow> derived_input \<Rightarrow> derived_error + derived_input" where
  "snapshot_input s i =
     make_input (di_key i) (Fin (di_value i)) (di_unit i) (di_period i) (di_available i) (di_source i)
       (di_metadata i @ [(''derived_snapshot_inputs_hash'', JStr (sn_inputs_hash s))])"

definition point_from_snapshot ::
    "score_context \<Rightarrow> component_spec \<Rightarrow> derived_snapshot \<Rightarrow> date \<Rightarrow> rat \<Rightarrow> derived_error + component_point" where
  "point_from_snapshot x spec s reference v =
     bindE (mapE (snapshot_input s) (dr_inputs (sn_result s))) (\<lambda>inputs.
     bindE (make_calculation (Fin v) reference
         (case max_key instant (map di_available inputs) of None \<Rightarrow> dr_as_of (sn_result s) | Some t \<Rightarrow> t) inputs) (\<lambda>k.
       component_point (sx_codec x) spec k))"

definition snapshot_rank :: "derived_snapshot \<Rightarrow> int \<times> int \<times> string" where
  "snapshot_rank s = (instant (dr_as_of (sn_result s)), instant (sn_created s), sn_inputs_hash s)"

text \<open>A snapshot with the date it refers to; a reference that is not a date raises.\<close>

definition dated_snapshot :: "derived_snapshot \<Rightarrow> derived_error + (date \<times> derived_snapshot) option" where
  "dated_snapshot s =
     (case dr_reference (sn_result s) of
        None \<Rightarrow> Inr None
      | Some r \<Rightarrow> bindE (python (date_fromisoformat r)) (\<lambda>d. Inr (Some (d, s))))"

text \<open>The second loop: of the snapshots that have a value and were fresh, the latest reference of each month.\<close>

definition valid_snapshot ::
    "score_context \<Rightarrow> component_spec \<Rightarrow> date \<times> derived_snapshot \<Rightarrow> derived_error + (date \<times> derived_snapshot \<times> rat) option" where
  "valid_snapshot x spec = (\<lambda>(d, s).
     case dr_value (sn_result s) of
       None \<Rightarrow> Inr None
     | Some v \<Rightarrow> bindE (snapshot_is_fresh x spec d (dr_as_of (sn_result s))) (\<lambda>fresh.
         Inr (if fresh then Some (d, s, v) else None)))"

definition somes :: "'a option list \<Rightarrow> 'a list" where
  "somes = List.map_filter id"

definition snapshot_history ::
    "score_context \<Rightarrow> component_spec \<Rightarrow> string option \<Rightarrow> derived_snapshot list \<Rightarrow> derived_error + component_point list" where
  "snapshot_history x spec cycle snapshots =
     bindE (historical_month_window (mc_month (sx_cutoff x))) (\<lambda>window.
     bindE (mapE dated_snapshot (filter (snapshot_is_forward (sx_cutoff x) cycle) snapshots)) (\<lambda>dated.
     let by_reference = latest_by fst (\<lambda>(d, s). snapshot_rank s)
           (filter (\<lambda>(d, s). month_start d \<in> set window) (somes dated))
     in bindE (mapE (valid_snapshot x spec) (map snd by_reference)) (\<lambda>valid.
        mapE (\<lambda>(d, s, v). point_from_snapshot x spec s d v)
          (in_key_order (latest_by (\<lambda>(d, s, v). month_start d) (\<lambda>(d, s, v). d) (somes valid))))))"

definition build_derived_snapshot_series ::
    "score_context \<Rightarrow> string option \<Rightarrow> component_spec \<Rightarrow> derived_error + component_series" where
  "build_derived_snapshot_series x cycle spec =
     (let snapshots = filter (\<lambda>s. dr_key (sn_result s) = sc_key spec \<and> snapshot_is_forward (sx_cutoff x) cycle s)
            (ss_snapshots (sx_sources x))
      in bindE (snapshot_history x spec cycle snapshots) (\<lambda>history.
         case max_key snapshot_rank snapshots of
           None \<Rightarrow> make_series (sc_key spec) None history (Some CrDerivedSnapshotMissing) None
         | Some newest \<Rightarrow>
             (case (dr_value (sn_result newest), dr_reference (sn_result newest)) of
                (Some v, Some r) \<Rightarrow>
                  bindE (python (date_fromisoformat r)) (\<lambda>d.
                  bindE (snapshot_is_fresh x spec d (mc_as_of (sx_cutoff x))) (\<lambda>fresh.
                    if \<not> fresh then make_series (sc_key spec) None history (Some CrStaleInput) None
                    else bindE (point_from_snapshot x spec newest d v) (\<lambda>p.
                         make_series (sc_key spec) (Some p) history None None)))
              | _ \<Rightarrow> make_series (sc_key spec) None history (Some CrDerivedSnapshotUnavailable)
                       (dr_reason (sn_result newest)))))"

section \<open>All components\<close>

definition build_component :: "score_context \<Rightarrow> string option \<Rightarrow> component_spec \<Rightarrow> derived_error + component_series" where
  "build_component x cycle spec =
     (if sc_key spec \<in> set DERIVED_KEYS then build_derived_snapshot_series x cycle spec
      else if sc_key spec \<in> {''ibc_br_sa_yoy'', ''rendimento_real_yoy'', ''dbgg_yoy_pp''} then build_change_series x spec
      else if sc_key spec \<in> {''abs_ipca_12m_target'', ''abs_focus_12m_target''} then build_target_distance_series x spec
      else build_level_series x spec)"

definition build_component_series :: "score_context \<Rightarrow> string option \<Rightarrow> derived_error + component_series list" where
  "build_component_series x cycle = mapE (build_component x cycle) COMPONENTS"

end
