(* ===== verification/ScoreCalculator.thy ===== *)
theory ScoreCalculator
  imports ScoreComponents
begin

text \<open>
  Normalising a component against its history (\<open>macro_score/normalization.py\<close>) and aggregating the
  components into dimensions and a score (\<open>macro_score/calculator.py\<close>). All arithmetic is on floats.
\<close>

section \<open>Normalisation\<close>

definition MINIMUM_COMPONENT_HISTORY :: nat where
  "MINIMUM_COMPONENT_HISTORY = 24"

text \<open>The literals 0.02 and 0.98 as doubles.\<close>

definition LOWER_WINSOR_QUANTILE :: pyfloat where
  "LOWER_WINSOR_QUANTILE = fl (2 / 100)"

definition UPPER_WINSOR_QUANTILE :: pyfloat where
  "UPPER_WINSOR_QUANTILE = fl (98 / 100)"

record normalized_component =
  nc_spec :: component_spec
  nc_current :: "component_point option"
  nc_percentile :: "pyfloat option"
  nc_score :: "pyfloat option"
  nc_reason :: "component_reason option"
  nc_count :: nat
  nc_fingerprint :: string
  nc_basis :: string

definition float_floor :: "pyfloat \<Rightarrow> py_error + int" where
  "float_floor x = (case x of Fin r \<Rightarrow> Inr \<lfloor>r\<rfloor> | NaN \<Rightarrow> Inl ValueError | _ \<Rightarrow> Inl OverflowError)"

text \<open>\<open>xs[i]\<close>: a negative index counts from the end.\<close>

definition list_item :: "'a list \<Rightarrow> int \<Rightarrow> py_error + 'a" where
  "list_item xs i =
     (let j = (if i < 0 then i + int (length xs) else i)
      in if 0 \<le> j \<and> j < int (length xs) then Inr (xs ! nat j) else Inl IndexError)"

definition type7_quantile :: "rat list \<Rightarrow> pyfloat \<Rightarrow> py_error + pyfloat" where
  "type7_quantile values probability =
     (let ordered = sort values; position = float_mult (float_of_int (int (length ordered) - 1)) probability
      in bindE (float_floor position) (\<lambda>lower.
           let upper = min (lower + 1) (int (length ordered) - 1);
               fraction = float_sub position (float_of_int lower)
           in bindE (list_item ordered lower) (\<lambda>a. bindE (list_item ordered upper) (\<lambda>b.
                Inr (float_add (Fin a) (float_mult fraction (float_sub (Fin b) (Fin a))))))))"

text \<open>\<open>min(upper, max(lower, value))\<close>: each keeps its first argument unless the second is strictly better.\<close>

definition winsorize :: "pyfloat \<Rightarrow> pyfloat \<Rightarrow> pyfloat \<Rightarrow> pyfloat" where
  "winsorize v lo hi =
     (let raised = (if float_less lo v then v else lo) in if float_less raised hi then raised else hi)"

definition history_fingerprint :: "codec \<Rightarrow> component_point list \<Rightarrow> string" where
  "history_fingerprint c history =
     sha256 c (dumps c (JArr (map (\<lambda>p. json_obj
       [(''fingerprint'', JStr (cp_fingerprint p)), (''reference_period'', JStr (date_isoformat (cp_period p))),
        (''value'', JFloat (quotient_of (cp_value p)))]) history)))"

definition history_basis_of :: "component_point list \<Rightarrow> string" where
  "history_basis_of history =
     (if list_ex (\<lambda>p. list_ex (\<lambda>i. map_of (di_metadata i) ''source_basis'' = Some (JStr ''retrospective_reference''))
           (cp_inputs p)) history
      then ''retrospective_reference'' else ''forward_captured'')"

definition component_spec_of :: "string \<Rightarrow> component_spec option" where
  "component_spec_of key = find (\<lambda>s. sc_key s = key) COMPONENTS"

definition normalize_component :: "codec \<Rightarrow> component_series \<Rightarrow> py_error + normalized_component" where
  "normalize_component c series =
     (case component_spec_of (se_key series) of
        None \<Rightarrow> Inl KeyError
      | Some spec \<Rightarrow>
          (let history = se_history series;
               without = (\<lambda>current reason. \<lparr>nc_spec = spec, nc_current = current, nc_percentile = None, nc_score = None,
                 nc_reason = reason, nc_count = length history, nc_fingerprint = history_fingerprint c history,
                 nc_basis = history_basis_of history\<rparr>)
           in case se_current series of
                None \<Rightarrow> Inr (without None (se_reason series))
              | Some current \<Rightarrow>
                  if length history < MINIMUM_COMPONENT_HISTORY
                  then Inr (without (Some current) (Some CrInsufficientHistory))
                  else (let values = map cp_value history
                        in bindE (type7_quantile values LOWER_WINSOR_QUANTILE) (\<lambda>lo.
                           bindE (type7_quantile values UPPER_WINSOR_QUANTILE) (\<lambda>hi.
                           let winsorized = map (\<lambda>v. winsorize (Fin v) lo hi) values;
                               v = winsorize (Fin (cp_value current)) lo hi
                           in bindE (percentile_of (length (filter (\<lambda>w. float_less w v) winsorized))
                                  (length (filter (\<lambda>w. float_eq w v) winsorized)) (length winsorized)) (\<lambda>p.
                                Inr \<lparr>nc_spec = spec, nc_current = Some current, nc_percentile = Some p,
                                  nc_score = Some (if sc_direction spec = Lower then float_sub (Fin 100) p else p),
                                  nc_reason = None, nc_count = length history,
                                  nc_fingerprint = history_fingerprint c history,
                                  nc_basis = history_basis_of history\<rparr>))))))"

section \<open>Aggregation\<close>

datatype score_class = VeryWeak | Weak | Neutral | Strong | VeryStrong

fun score_class_text :: "score_class \<Rightarrow> string" where
  "score_class_text VeryWeak = ''muito_fraco''"
| "score_class_text Weak = ''fraco''"
| "score_class_text Neutral = ''neutro''"
| "score_class_text Strong = ''forte''"
| "score_class_text VeryStrong = ''muito_forte''"

datatype score_error =
    ScorePython py_error
  | ClockError datetime datetime
  | InventoryError "string list" "string list" "string list"
  | InvalidScore pyfloat

definition scored :: "py_error + 'a \<Rightarrow> score_error + 'a" where
  "scored r = (case r of Inl e \<Rightarrow> Inl (ScorePython e) | Inr x \<Rightarrow> Inr x)"

record dimension_score =
  dm_dimension :: dimension
  dm_score :: "pyfloat option"
  dm_valid :: nat
  dm_total :: nat
  dm_coverage :: pyfloat
  dm_insufficient :: bool
  dm_components :: "normalized_component list"

record score_result =
  mr_score :: "pyfloat option"
  mr_class :: "score_class option"
  mr_calculated :: datetime
  mr_as_of :: datetime
  mr_month :: date
  mr_version :: string
  mr_coverage :: pyfloat
  mr_valid_dimensions :: nat
  mr_total_dimensions :: nat
  mr_dimensions :: "dimension_score list"
  mr_components :: "normalized_component list"
  mr_fingerprint :: string
  mr_warnings :: "string list"

definition classify_score :: "pyfloat \<Rightarrow> score_error + score_class" where
  "classify_score s =
     (if \<not> is_finite s \<or> float_less s (Fin 0) \<or> float_less (Fin 100) s then Inl (InvalidScore s)
      else Inr (if float_less s (Fin 20) then VeryWeak else if float_less s (Fin 40) then Weak
        else if float_less s (Fin 60) then Neutral else if float_less s (Fin 80) then Strong else VeryStrong))"

definition validate_inventory :: "normalized_component list \<Rightarrow> score_error + unit" where
  "validate_inventory components =
     (let expected = map sc_key COMPONENTS; actual = map (\<lambda>k. sc_key (nc_spec k)) components;
          missing = sort (filter (\<lambda>k. k \<notin> set actual) expected);
          extra = sort (remdups (filter (\<lambda>k. k \<notin> set expected) actual));
          duplicates = sort (remdups (filter (\<lambda>k. 1 < count_list actual k) actual))
      in if missing \<noteq> [] \<or> extra \<noteq> [] \<or> duplicates \<noteq> [] then Inl (InventoryError missing extra duplicates)
         else Inr ())"

definition ordered_components :: "normalized_component list \<Rightarrow> normalized_component list" where
  "ordered_components components =
     List.map_filter (\<lambda>s. find (\<lambda>k. sc_key (nc_spec k) = sc_key s) components) COMPONENTS"

text \<open>\<open>fsum(..) / count\<close>. Infinities and NaN propagate, infinities of both signs raise.\<close>

definition fsum_floats :: "pyfloat list \<Rightarrow> py_error + pyfloat" where
  "fsum_floats xs =
     (if NaN \<in> set xs then Inr NaN
      else if PosInf \<in> set xs \<and> NegInf \<in> set xs then Inl ValueError
      else if PosInf \<in> set xs then Inr PosInf
      else if NegInf \<in> set xs then Inr NegInf
      else bindE (fsum (List.map_filter (\<lambda>v. case v of Fin x \<Rightarrow> Some x | _ \<Rightarrow> None) xs)) (\<lambda>s. Inr (Fin s)))"

definition mean_of :: "pyfloat list \<Rightarrow> py_error + pyfloat" where
  "mean_of xs = bindE (fsum_floats xs) (\<lambda>s. float_div s (float_of_int (int (length xs))))"

text \<open>The true division of two ints.\<close>

definition ratio :: "nat \<Rightarrow> nat \<Rightarrow> py_error + pyfloat" where
  "ratio m n = (if n = 0 then Inl ZeroDivisionError else Inr (fl (of_nat m / of_nat n)))"

definition valid_components :: "normalized_component list \<Rightarrow> normalized_component list" where
  "valid_components members = filter (\<lambda>k. nc_score k \<noteq> None \<and> nc_reason k = None) members"

definition dimension_score :: "normalized_component list \<Rightarrow> dimension \<Rightarrow> py_error + dimension_score" where
  "dimension_score components d =
     (let members = filter (\<lambda>k. sc_dimension (nc_spec k) = d) components; valid = valid_components members
      in bindE (ratio (length valid) (length members)) (\<lambda>coverage.
           if minimum_valid d \<le> length valid
           then bindE (mean_of (List.map_filter nc_score valid)) (\<lambda>s. Inr
             \<lparr>dm_dimension = d, dm_score = Some s, dm_valid = length valid, dm_total = length members,
              dm_coverage = coverage, dm_insufficient = False, dm_components = members\<rparr>)
           else Inr
             \<lparr>dm_dimension = d, dm_score = None, dm_valid = length valid, dm_total = length members,
              dm_coverage = coverage, dm_insufficient = True, dm_components = members\<rparr>))"

definition dimension_scores :: "normalized_component list \<Rightarrow> py_error + dimension_score list" where
  "dimension_scores components = mapE (dimension_score components) DIMENSIONS"

definition fingerprint_component :: "normalized_component \<Rightarrow> json" where
  "fingerprint_component k =
     (let spec = nc_spec k; at_current = (\<lambda>f. case nc_current k of None \<Rightarrow> JNull | Some p \<Rightarrow> f p)
      in json_obj
        [(''available_at'', at_current (\<lambda>p. JStr (isoformat (cp_available p)))),
         (''current_fingerprint'', at_current (\<lambda>p. JStr (cp_fingerprint p))),
         (''direction'', JStr (direction_text (sc_direction spec))), (''formula'', JStr (sc_formula spec)),
         (''history_count'', JNum (int (nc_count k))), (''history_fingerprint'', JStr (nc_fingerprint k)),
         (''key'', JStr (sc_key spec)), (''methodology_version'', JStr MACRO_SCORE_VERSION),
         (''reason'', json_opt (map_option component_reason_text (nc_reason k))),
         (''reference_period'', at_current (\<lambda>p. JStr (date_isoformat (cp_period p)))),
         (''unit'', JStr (component_unit_text (sc_unit spec))),
         (''value'', at_current (\<lambda>p. JFloat (quotient_of (cp_value p)))), (''weight'', JNum (sc_weight spec))])"

definition score_fingerprint :: "codec \<Rightarrow> normalized_component list \<Rightarrow> score_cutoff \<Rightarrow> string" where
  "score_fingerprint c components cutoff =
     sha256 c (dumps c (json_obj
       [(''as_of'', JStr (isoformat (mc_as_of cutoff))), (''components'', JArr (map fingerprint_component components)),
        (''score_month'', JStr (date_isoformat (mc_month cutoff)))]))"

definition score_warnings :: "normalized_component list \<Rightarrow> dimension_score list \<Rightarrow> string list" where
  "score_warnings components dimensions =
     List.map_filter (\<lambda>k. map_option (\<lambda>r. sc_key (nc_spec k) @ '':'' @ component_reason_text r) (nc_reason k)) components
     @ List.map_filter (\<lambda>d. if dm_insufficient d then Some (dimension_text (dm_dimension d) @ '':insufficient_coverage'')
                          else None) dimensions"

definition aggregate_macro_score ::
    "codec \<Rightarrow> normalized_component list \<Rightarrow> score_cutoff \<Rightarrow> datetime \<Rightarrow> score_error + score_result" where
  "aggregate_macro_score c components cutoff calculated =
     bindE (validate_inventory components) (\<lambda>_.
       let ordered = ordered_components components
       in bindE (scored (utc_datetime calculated)) (\<lambda>completed.
          if instant completed < instant (mc_as_of cutoff) then Inl (ClockError (mc_as_of cutoff) completed)
          else bindE (scored (dimension_scores ordered)) (\<lambda>dimensions.
            let valid = List.map_filter dm_score dimensions
            in bindE (if MINIMUM_VALID_DIMENSIONS \<le> length valid
                      then bindE (scored (mean_of valid)) (\<lambda>s. Inr (Some s)) else Inr None) (\<lambda>score.
               bindE (case score of None \<Rightarrow> Inr None | Some s \<Rightarrow> bindE (classify_score s) (\<lambda>k. Inr (Some k))) (\<lambda>class.
               bindE (scored (ratio (length valid) (length DIMENSIONS))) (\<lambda>coverage.
                 Inr \<lparr>mr_score = score, mr_class = class, mr_calculated = completed, mr_as_of = mc_as_of cutoff,
                   mr_month = mc_month cutoff, mr_version = MACRO_SCORE_VERSION, mr_coverage = coverage,
                   mr_valid_dimensions = length valid, mr_total_dimensions = length DIMENSIONS,
                   mr_dimensions = dimensions, mr_components = ordered,
                   mr_fingerprint = score_fingerprint c ordered cutoff,
                   mr_warnings = score_warnings ordered dimensions\<rparr>))))))"

end
