(* ===== verification/ScoreClaims.thy ===== *)
theory ScoreClaims
  imports ScoreCalculator
begin

text \<open>
  The properties of the macro score: its arithmetic stays within its range, and it sees nothing that was
  not available at its cutoff.
\<close>

section \<open>Values within a range\<close>

definition in_range :: "rat \<Rightarrow> rat \<Rightarrow> pyfloat \<Rightarrow> bool" where
  "in_range a b v \<longleftrightarrow> (\<exists>x. v = Fin x \<and> a \<le> x \<and> x \<le> b)"

lemma fl_within:
  assumes "of_int a \<le> x" "x \<le> of_int b" "\<bar>a\<bar> \<le> 2 ^ 53" "\<bar>b\<bar> \<le> 2 ^ 53"
  shows "in_range (of_int a) (of_int b) (fl x)"
proof -
  have "rat_of_int b \<le> of_int (2 ^ 53)" "rat_of_int (- (2 ^ 53)) \<le> of_int a"
    unfolding of_int_le_iff using assms(3,4) by linarith+
  then have "\<bar>x\<bar> \<le> 2 ^ 53" using assms(1,2) by (simp add: abs_le_iff)
  then show ?thesis using fl_small round64_between [OF assms] by (auto simp: in_range_def)
qed

lemma filter_disjoint_length:
  "(\<And>x. P x \<Longrightarrow> \<not> Q x) \<Longrightarrow> length (filter P xs) + length (filter Q xs) \<le> length xs"
  by (induction xs) auto

lemma float_less_not_eq: "float_less x y \<Longrightarrow> \<not> float_eq x y"
  by (cases x; cases y) auto

lemma type7_quantile_total:
  assumes "xs \<noteq> []" "length xs \<le> 2 ^ 40" "p = Fin q" "0 \<le> q" "q \<le> 1"
  shows "\<exists>v. type7_quantile xs p = Inr v"
proof -
  define n where "n = int (length xs) - 1"
  have n: "0 \<le> n" "n \<le> 2 ^ 40" using assms(1,2) by (cases xs; simp add: n_def)+
  have f: "float_of_int n = Fin (of_int n)" using float_of_int_small [of n] n by simp
  have nr: "0 \<le> rat_of_int n" using n by simp
  have "of_int 0 \<le> of_int n * q" "of_int n * q \<le> rat_of_int n"
    using assms(4,5) nr by (simp_all add: mult_left_le)
  then have "in_range (of_int 0) (of_int n) (fl (of_int n * q))" by (rule fl_within) (use n in auto)
  then obtain x where x: "fl (of_int n * q) = Fin x" "0 \<le> x" "x \<le> of_int n" by (auto simp: in_range_def)
  have fx: "0 \<le> \<lfloor>x\<rfloor>" "\<lfloor>x\<rfloor> \<le> n" using x(2,3) by (simp_all add: floor_le_iff)
  have item: "\<exists>y. list_item (sort xs) i = Inr y" if "0 \<le> i" "i \<le> n" for i
    using that by (simp add: list_item_def n_def)
  have up: "0 \<le> min (\<lfloor>x\<rfloor> + 1) n" "min (\<lfloor>x\<rfloor> + 1) n \<le> n" using fx n by simp_all
  obtain a b where "list_item (sort xs) \<lfloor>x\<rfloor> = Inr a" "list_item (sort xs) (min (\<lfloor>x\<rfloor> + 1) n) = Inr b"
    using item [OF fx] item [OF up] by blast
  then show ?thesis
    by (simp add: type7_quantile_def n_def [symmetric] f assms(3) x(1) float_floor_def Let_def)
qed

lemma winsor_quantiles: "\<exists>q. LOWER_WINSOR_QUANTILE = Fin q \<and> 0 \<le> q \<and> q \<le> 1"
  "\<exists>q. UPPER_WINSOR_QUANTILE = Fin q \<and> 0 \<le> q \<and> q \<le> 1"
  using fl_within [of 0 "2 / 100" 1] fl_within [of 0 "98 / 100" 1]
  by (auto simp: in_range_def LOWER_WINSOR_QUANTILE_def UPPER_WINSOR_QUANTILE_def)

section \<open>Normalised components\<close>

lemma percentile_within:
  assumes "xs \<noteq> []" "length xs \<le> 2 ^ 40"
  shows "\<exists>p. percentile_of (length (filter (\<lambda>w. float_less w v) xs)) (length (filter (\<lambda>w. float_eq w v) xs))
      (length xs) = Inr p \<and> in_range 0 100 p"
proof -
  have "length (filter (\<lambda>w. float_less w v) xs) + length (filter (\<lambda>w. float_eq w v) xs) \<le> length xs"
    by (rule filter_disjoint_length) (rule float_less_not_eq)
  then show ?thesis using percentile_of_eq [of _ _ "length xs"] assms by (force simp: in_range_def)
qed

lemma complement_within: "in_range 0 100 p \<Longrightarrow> in_range 0 100 (float_sub (Fin 100) p)"
proof -
  assume "in_range 0 100 p"
  then obtain x where x: "p = Fin x" "0 \<le> x" "x \<le> 100" by (auto simp: in_range_def)
  then show ?thesis using fl_within [of 0 "100 - x" 100] by (simp add: float_sub_def)
qed

lemma component_spec_of_key: "component_spec_of k = Some s \<Longrightarrow> sc_key s = k"
  by (auto simp: component_spec_of_def find_Some_iff)

text \<open>A component can be scored when it has a current value and two years of history.\<close>

definition scorable :: "component_series \<Rightarrow> bool" where
  "scorable s \<longleftrightarrow> se_current s \<noteq> None \<and> 24 \<le> length (se_history s)"

lemma normalize_component_total:
  assumes "component_spec_of (se_key s) = Some spec" "length (se_history s) \<le> 2 ^ 40"
  shows "\<exists>k. normalize_component c s = Inr k \<and> nc_spec k = spec \<and> (\<forall>v \<in> set_option (nc_score k). in_range 0 100 v)
    \<and> (nc_score k \<noteq> None \<longleftrightarrow> scorable s)"
proof (cases "se_current s = None \<or> length (se_history s) < MINIMUM_COMPONENT_HISTORY")
  case True
  then show ?thesis using assms(1) by (cases "se_current s") (auto simp: normalize_component_def Let_def scorable_def MINIMUM_COMPONENT_HISTORY_def)
next
  case False
  then obtain current where cur: "se_current s = Some current" and n: "\<not> length (se_history s) < MINIMUM_COMPONENT_HISTORY"
    by auto
  define hist where "hist = map cp_value (se_history s)"
  have hist: "hist \<noteq> []" "length hist \<le> 2 ^ 40"
    using n assms(2) by (auto simp: hist_def MINIMUM_COMPONENT_HISTORY_def)
  obtain lo hi where q: "type7_quantile hist LOWER_WINSOR_QUANTILE = Inr lo" "type7_quantile hist UPPER_WINSOR_QUANTILE = Inr hi"
    using type7_quantile_total [OF hist] winsor_quantiles by metis
  define xs v where "xs = map (\<lambda>v. winsorize (Fin v) lo hi) hist" and "v = winsorize (Fin (cp_value current)) lo hi"
  have "xs \<noteq> []" "length xs \<le> 2 ^ 40" using hist by (simp_all add: xs_def)
  then obtain p where p: "percentile_of (length (filter (\<lambda>w. float_less w v) xs))
      (length (filter (\<lambda>w. float_eq w v) xs)) (length xs) = Inr p" "in_range 0 100 p"
    using percentile_within by metis
  show ?thesis
    using p(1) p(2) complement_within [OF p(2)] unfolding xs_def v_def
    by (simp add: normalize_component_def assms(1) cur n Let_def hist_def [symmetric] q)
      (use n in \<open>simp add: scorable_def cur MINIMUM_COMPONENT_HISTORY_def\<close>)
qed

section \<open>Means\<close>

lemma finite_values:
  "\<forall>v \<in> set xs. in_range a b v \<Longrightarrow> \<exists>ys. xs = map Fin ys \<and> (\<forall>y \<in> set ys. a \<le> y \<and> y \<le> b)"
proof (induction xs)
  case (Cons v xs)
  then obtain ys y where "xs = map Fin ys" "\<forall>y \<in> set ys. a \<le> y \<and> y \<le> b" "v = Fin y" "a \<le> y" "y \<le> b"
    by (auto simp: in_range_def)
  then show ?case by (intro exI [of _ "y # ys"]) simp
qed simp

lemma sum_within: "\<forall>y \<in> set ys. 0 \<le> y \<and> y \<le> (100::rat) \<Longrightarrow> 0 \<le> sum_list ys \<and> sum_list ys \<le> 100 * of_nat (length ys)"
  by (induction ys) (auto simp: algebra_simps)

lemma mean_within:
  assumes "xs \<noteq> []" "length xs \<le> 2 ^ 40" "\<forall>v \<in> set xs. in_range 0 100 v"
  shows "\<exists>m. mean_of xs = Inr m \<and> in_range 0 100 m"
proof -
  obtain ys where ys: "xs = map Fin ys" "\<forall>y \<in> set ys. 0 \<le> y \<and> y \<le> 100" using finite_values [OF assms(3)] by auto
  have vals: "List.map_filter (\<lambda>v. case v of Fin x \<Rightarrow> Some x | _ \<Rightarrow> None) xs = ys"
    unfolding ys(1) by (induction ys) (simp_all add: List.map_filter_simps)
  define n where "n = int (length xs)"
  have n: "0 < n" "n \<le> 2 ^ 40" using assms(1,2) by (simp_all add: n_def)
  have len: "rat_of_nat (length ys) = of_int n" by (simp add: n_def ys(1))
  have "of_int 0 \<le> sum_list ys" "sum_list ys \<le> of_int (100 * n)" using sum_within [OF ys(2)] len by simp_all
  then have "in_range (of_int 0) (of_int (100 * n)) (fl (sum_list ys))" by (rule fl_within) (use n in auto)
  then obtain s where s: "fl (sum_list ys) = Fin s" "0 \<le> s" "s \<le> 100 * of_int n" by (auto simp: in_range_def)
  have "fsum_floats xs = Inr (Fin s)"
    using vals by (simp add: fsum_floats_def fsum_def s(1)) (auto simp: ys(1))
  moreover have "float_of_int n = Fin (of_int n)" using float_of_int_small [of n] n by simp
  moreover have "0 \<le> s / of_int n" "s / of_int n \<le> 100" using s n by (simp_all add: divide_le_eq)
  then have "in_range 0 100 (fl (s / of_int n))" using fl_within [of 0 "s / of_int n" 100] by simp
  ultimately show ?thesis using n by (simp add: mean_of_def n_def [symmetric])
qed

section \<open>The score\<close>

lemma components_distinct: "distinct (map sc_key COMPONENTS)"
  by code_simp

lemma find_by_key: "distinct (map f xs) \<Longrightarrow> x \<in> set xs \<Longrightarrow> find (\<lambda>y. f y = f x) xs = Some x"
  by (induction xs) (auto simp: rev_image_eqI)

lemma component_spec_of_mem: "s \<in> set COMPONENTS \<Longrightarrow> component_spec_of (sc_key s) = Some s"
  unfolding component_spec_of_def by (rule find_by_key [OF components_distinct])

lemma normalize_all:
  assumes "map se_key series = map sc_key specs" "set specs \<subseteq> set COMPONENTS"
    "\<forall>s \<in> set series. length (se_history s) \<le> 2 ^ 40"
  shows "\<exists>ks. mapE (normalize_component c) series = Inr ks \<and> map nc_spec ks = specs
    \<and> (\<forall>k \<in> set ks. \<forall>v \<in> set_option (nc_score k). in_range 0 100 v)
    \<and> map (\<lambda>k. nc_score k \<noteq> None) ks = map scorable series"
  using assms
proof (induction series arbitrary: specs)
  case (Cons s series)
  then obtain spec specs' where sp: "specs = spec # specs'" "se_key s = sc_key spec"
    "map se_key series = map sc_key specs'" by (cases specs) auto
  then have "component_spec_of (se_key s) = Some spec" using Cons.prems(2) component_spec_of_mem by simp
  then obtain k where k: "normalize_component c s = Inr k" "nc_spec k = spec" "\<forall>v \<in> set_option (nc_score k). in_range 0 100 v"
    "nc_score k \<noteq> None \<longleftrightarrow> scorable s"
    using normalize_component_total Cons.prems(3) by (metis list.set_intros(1))
  obtain ks where "mapE (normalize_component c) series = Inr ks" "map nc_spec ks = specs'"
    "\<forall>k \<in> set ks. \<forall>v \<in> set_option (nc_score k). in_range 0 100 v"
    "map (\<lambda>k. nc_score k \<noteq> None) ks = map scorable series"
    using Cons.IH [OF sp(3)] Cons.prems sp by auto
  with k sp show ?case by (intro exI [of _ "k # ks"]) simp
qed simp

lemma ordered_components_id:
  assumes "map nc_spec ks = specs" "distinct (map sc_key specs)"
  shows "List.map_filter (\<lambda>s. find (\<lambda>k. sc_key (nc_spec k) = sc_key s) ks) specs = ks"
proof -
  have "List.map_filter (\<lambda>s. find (\<lambda>k. sc_key (nc_spec k) = sc_key s) (ks0 @ ks)) (map nc_spec ks) = ks"
    if "distinct (map (sc_key \<circ> nc_spec) (ks0 @ ks))" for ks0
    using that
  proof (induction ks arbitrary: ks0)
    case (Cons k ks)
    have "find (\<lambda>l. sc_key (nc_spec l) = sc_key (nc_spec k)) (ks0 @ k # ks) = Some k"
      using Cons.prems by (induction ks0) auto
    then show ?case using Cons.IH [of "ks0 @ [k]"] Cons.prems by (simp add: List.map_filter_simps)
  qed (simp add: List.map_filter_simps)
  from this [of "[]"] show ?thesis using assms(2) unfolding assms(1) [symmetric] by (simp add: comp_def)
qed

lemma inventory_complete:
  assumes "map nc_spec ks = COMPONENTS"
  shows "validate_inventory ks = Inr ()" "ordered_components ks = ks"
proof -
  have keys: "map (\<lambda>k. sc_key (nc_spec k)) ks = map sc_key COMPONENTS"
    unfolding assms [symmetric] by simp
  have "count_list (map sc_key COMPONENTS) x \<le> 1" for x
    using components_distinct by (simp add: distinct_count_atmost_1 count_mset [symmetric])
  then have "filter (\<lambda>k. 1 < count_list (map sc_key COMPONENTS) k) (map sc_key COMPONENTS) = []"
    by (simp add: filter_empty_conv not_less)
  then show "validate_inventory ks = Inr ()"
    unfolding validate_inventory_def Let_def keys by simp
  show "ordered_components ks = ks"
    unfolding ordered_components_def by (rule ordered_components_id [OF assms components_distinct])
qed

text \<open>A dimension is scored when enough of its components are; its members are those of the methodology.\<close>

definition enough :: "normalized_component list \<Rightarrow> dimension \<Rightarrow> bool" where
  "enough ks d \<longleftrightarrow> minimum_valid d \<le> length (valid_components (filter (\<lambda>k. sc_dimension (nc_spec k) = d) ks))"

lemma members_of_dimension:
  assumes "map nc_spec ks = COMPONENTS"
  shows "0 < length (filter (\<lambda>k. sc_dimension (nc_spec k) = d) ks)"
    "length (filter (\<lambda>k. sc_dimension (nc_spec k) = d) ks) \<le> 18" "length ks = 18"
proof -
  have n: "length (filter (\<lambda>k. sc_dimension (nc_spec k) = d) ks) = length (filter (\<lambda>s. sc_dimension s = d) COMPONENTS)"
    unfolding assms [symmetric] by (simp add: comp_def)
  have "length COMPONENTS = 18" by code_simp
  then show "length ks = 18" unfolding assms [symmetric] by simp
  have "filter (\<lambda>s. sc_dimension s = d) COMPONENTS \<noteq> []"
    by (cases d) (simp_all add: COMPONENTS_def component_def)
  then show "0 < length (filter (\<lambda>k. sc_dimension (nc_spec k) = d) ks)" unfolding n by simp
  show "length (filter (\<lambda>k. sc_dimension (nc_spec k) = d) ks) \<le> 18"
    unfolding n using length_filter_le [of _ COMPONENTS] \<open>length COMPONENTS = 18\<close> by simp
qed

lemma scores_of_valid:
  "length (List.map_filter nc_score (valid_components ks)) = length (valid_components ks)"
  "v \<in> set (List.map_filter nc_score (valid_components ks)) \<Longrightarrow> \<exists>k \<in> set ks. v \<in> set_option (nc_score k)"
proof -
  have "List.map_filter nc_score xs = map (\<lambda>k. the (nc_score k)) xs" if "\<forall>k \<in> set xs. nc_score k \<noteq> None" for xs
    using that by (induction xs) (auto simp: List.map_filter_simps)
  from this [of "valid_components ks"]
  have m: "List.map_filter nc_score (valid_components ks) = map (\<lambda>k. the (nc_score k)) (valid_components ks)"
    by (simp add: valid_components_def)
  show "length (List.map_filter nc_score (valid_components ks)) = length (valid_components ks)" by (simp add: m)
  show "v \<in> set (List.map_filter nc_score (valid_components ks)) \<Longrightarrow> \<exists>k \<in> set ks. v \<in> set_option (nc_score k)"
    unfolding m by (force simp: valid_components_def)
qed

lemma dimension_score_total:
  assumes "map nc_spec ks = COMPONENTS" "\<forall>k \<in> set ks. \<forall>v \<in> set_option (nc_score k). in_range 0 100 v"
  shows "\<exists>s. dimension_score ks d = Inr s \<and> dm_dimension s = d \<and> (dm_score s \<noteq> None \<longleftrightarrow> enough ks d)
    \<and> (\<forall>v \<in> set_option (dm_score s). in_range 0 100 v)"
proof -
  define members where "members = filter (\<lambda>k. sc_dimension (nc_spec k) = d) ks"
  define vs where "vs = List.map_filter nc_score (valid_components members)"
  have m: "0 < length members" "length members \<le> 18" using members_of_dimension [OF assms(1)] by (simp_all add: members_def)
  have len: "length vs = length (valid_components members)" by (simp add: vs_def scores_of_valid(1))
  have "length (valid_components members) \<le> length members" by (simp add: valid_components_def)
  then have "length vs \<le> 18" unfolding len using m(2) by (rule le_trans)
  have range: "\<forall>v \<in> set vs. in_range 0 100 v"
  proof
    fix v assume "v \<in> set vs"
    then obtain k where "k \<in> set members" "v \<in> set_option (nc_score k)" unfolding vs_def by (blast dest: scores_of_valid(2))
    then show "in_range 0 100 v" using assms(2) unfolding members_def by (metis filter_is_subset subsetD)
  qed
  show ?thesis
  proof (cases "enough ks d")
    case True
    have "0 < minimum_valid d" by (cases d) simp_all
    with True have "vs \<noteq> []" using len by (auto simp: enough_def members_def [symmetric])
    moreover have "length vs \<le> 2 ^ 40" using \<open>length vs \<le> 18\<close> by simp
    ultimately obtain v where "mean_of vs = Inr v" "in_range 0 100 v" using mean_within range by blast
    then show ?thesis
      using True m(1)
      by (simp add: dimension_score_def members_def [symmetric] enough_def ratio_def Let_def vs_def)
  next
    case False
    then show ?thesis
      using m(1) by (simp add: dimension_score_def members_def [symmetric] enough_def ratio_def Let_def)
  qed
qed

lemma dimension_scores_total:
  assumes "map nc_spec ks = COMPONENTS" "\<forall>k \<in> set ks. \<forall>v \<in> set_option (nc_score k). in_range 0 100 v"
  shows "\<exists>ss. mapE (dimension_score ks) ds = Inr ss \<and> length (List.map_filter dm_score ss) = length (filter (enough ks) ds)
    \<and> (\<forall>v \<in> set (List.map_filter dm_score ss). in_range 0 100 v)"
proof (induction ds)
  case (Cons d ds)
  then obtain ss where "mapE (dimension_score ks) ds = Inr ss" "length (List.map_filter dm_score ss) = length (filter (enough ks) ds)"
    "\<forall>v \<in> set (List.map_filter dm_score ss). in_range 0 100 v" by blast
  moreover obtain s where "dimension_score ks d = Inr s" "dm_score s \<noteq> None \<longleftrightarrow> enough ks d"
    "\<forall>v \<in> set_option (dm_score s). in_range 0 100 v" using dimension_score_total [OF assms, of d] by blast
  ultimately show ?case by (intro exI [of _ "s # ss"]) (cases "dm_score s"; auto simp: List.map_filter_simps)
qed (simp add: List.map_filter_simps)

lemma classify_in_range:
  assumes "in_range 0 100 v"
  shows "\<exists>k. classify_score v = Inr k"
  using assms by (auto simp: in_range_def classify_score_def)

lemma aggregation_total:
  assumes "map se_key series = map sc_key COMPONENTS" and "\<forall>s \<in> set series. length (se_history s) \<le> 2 ^ 40"
    and "utc_datetime calculated = Inr completed" and "instant (mc_as_of cutoff) \<le> instant completed"
  shows "\<exists>ks r. mapE (normalize_component c) series = Inr ks \<and> aggregate_macro_score c ks cutoff calculated = Inr r
    \<and> (\<forall>k \<in> set ks. \<forall>v \<in> set_option (nc_score k). in_range 0 100 v)
    \<and> map (\<lambda>k. nc_score k \<noteq> None) ks = map scorable series
    \<and> mr_valid_dimensions r = length (filter (enough ks) DIMENSIONS)
    \<and> (mr_score r \<noteq> None \<longleftrightarrow> 5 \<le> mr_valid_dimensions r) \<and> (mr_class r = None \<longleftrightarrow> mr_score r = None)
    \<and> (\<forall>v \<in> set_option (mr_score r). in_range 0 100 v)"
proof -
  obtain ks where ks: "mapE (normalize_component c) series = Inr ks" "map nc_spec ks = COMPONENTS"
    "\<forall>k \<in> set ks. \<forall>v \<in> set_option (nc_score k). in_range 0 100 v"
    "map (\<lambda>k. nc_score k \<noteq> None) ks = map scorable series"
    using normalize_all [OF assms(1) order_refl assms(2)] by blast
  obtain ds where ds: "dimension_scores ks = Inr ds"
    "length (List.map_filter dm_score ds) = length (filter (enough ks) DIMENSIONS)"
    "\<forall>v \<in> set (List.map_filter dm_score ds). in_range 0 100 v"
    using dimension_scores_total [OF ks(2,3), of DIMENSIONS] by (auto simp: dimension_scores_def)
  define valid where "valid = List.map_filter dm_score ds"
  have small: "length valid \<le> 2 ^ 40"
    unfolding valid_def ds(2) by (rule le_trans [OF length_filter_le]) (simp add: DIMENSIONS_def)
  obtain score where score: "(if MINIMUM_VALID_DIMENSIONS \<le> length valid
      then bindE (scored (mean_of valid)) (\<lambda>s. Inr (Some s)) else Inr None) = Inr score"
    "score \<noteq> None \<longleftrightarrow> 5 \<le> length valid" "\<forall>v \<in> set_option score. in_range 0 100 v"
  proof (cases "5 \<le> length valid")
    case True
    then have "valid \<noteq> []" by auto
    then obtain v where "mean_of valid = Inr v" "in_range 0 100 v" using mean_within small ds(3) valid_def by metis
    with True show thesis by (intro that [of "Some v"]) (simp_all add: MINIMUM_VALID_DIMENSIONS_def scored_def)
  qed (intro that [of None], simp_all add: MINIMUM_VALID_DIMENSIONS_def)
  obtain k where k: "(case score of None \<Rightarrow> Inr None | Some s \<Rightarrow> bindE (classify_score s) (\<lambda>k. Inr (Some k))) = Inr k"
    "k = None \<longleftrightarrow> score = None"
    using classify_in_range score(3) by (cases score) fastforce+
  have coverage: "\<exists>x. scored (ratio (length valid) (length DIMENSIONS)) = Inr x"
    by (simp add: ratio_def DIMENSIONS_def scored_def)
  have "scored (utc_datetime calculated) = Inr completed" by (simp add: scored_def assms(3))
  moreover have "scored (dimension_scores ks) = Inr ds" by (simp add: scored_def ds(1))
  ultimately obtain r where "aggregate_macro_score c ks cutoff calculated = Inr r" "mr_score r = score" "mr_class r = k"
    "mr_valid_dimensions r = length valid"
    using inventory_complete [OF ks(2)] assms(4) score(1) [unfolded valid_def] k(1) coverage
    unfolding valid_def by (auto simp: aggregate_macro_score_def Let_def)
  then show ?thesis using ks(1,3,4) score(2,3) k(2) ds(2) valid_def by (intro exI [of _ ks] exI [of _ r]) simp
qed

text \<open>C33: Arithmetic on floats never takes the score out of its range. Whatever series the eighteen components
  have, with any history of up to \<open>2^40\<close> points and any finite values, normalising and aggregating them
  returns: exactly the components with a current value and 24 points of history are scored, each from 0 to
  100, the score itself exists exactly when five
  dimensions have enough scored components, it is a float from 0 to 100, and it is classified. No rounding,
  overflow, division by zero or index error can reject it.\<close>

theorem score_stays_in_range:
  assumes "map se_key series = map sc_key COMPONENTS" and "\<forall>s \<in> set series. length (se_history s) \<le> 2 ^ 40"
    and "utc_datetime calculated = Inr completed" and "instant (mc_as_of cutoff) \<le> instant completed"
  shows "\<exists>ks r. mapE (normalize_component c) series = Inr ks \<and> aggregate_macro_score c ks cutoff calculated = Inr r
    \<and> (\<forall>k \<in> set ks. \<forall>v \<in> set_option (nc_score k). in_range 0 100 v)
    \<and> map (\<lambda>k. nc_score k \<noteq> None) ks = map scorable series
    \<and> mr_valid_dimensions r = length (filter (enough ks) DIMENSIONS)
    \<and> (mr_score r \<noteq> None \<longleftrightarrow> 5 \<le> mr_valid_dimensions r) \<and> (mr_class r = None \<longleftrightarrow> mr_score r = None)
    \<and> (\<forall>v \<in> set_option (mr_score r). in_range 0 100 v)"
  by (rule aggregation_total [OF assms])

definition ex_noon :: datetime where
  "ex_noon = DateTime (Date 2025 6 10) 12 0 0 0 (Some 0)"

definition ex_point :: "int \<Rightarrow> component_point" where
  "ex_point k = \<lparr>cp_value = of_int k / 3, cp_unit = CuPct, cp_period = Date (2020 + k div 12) (k mod 12 + 1) 1,
     cp_available = ex_noon, cp_fingerprint = ''f'', cp_inputs = []\<rparr>"

text \<open>Every component has three years of history; the reserves have lost their current value.\<close>

definition ex_series :: "component_series list" where
  "ex_series = map (\<lambda>s. let lost = (sc_key s = ''reservas_internacionais'')
     in \<lparr>se_key = sc_key s, se_current = (if lost then None else Some (ex_point 20)), se_history = map ex_point [0..35],
         se_reason = (if lost then Some CrStaleInput else None), se_upstream = None\<rparr>) COMPONENTS"

definition ex_cutoff :: score_cutoff where
  "ex_cutoff = \<lparr>mc_as_of = ex_noon, mc_month = Date 2025 6 1\<rparr>"

definition score_codec :: codec where
  "score_codec = \<lparr>dumps = (\<lambda>_. ''{}''), loads = (\<lambda>_. Inr JNull), sha256 = (\<lambda>_. ''00'')\<rparr>"

theorem score_stays_in_range_witness:
  "\<exists>ks r. mapE (normalize_component score_codec) ex_series = Inr ks
    \<and> aggregate_macro_score score_codec ks ex_cutoff ex_noon = Inr r \<and> length (filter (\<lambda>k. nc_score k \<noteq> None) ks) = 17
    \<and> (\<forall>v \<in> set_option (mr_score r). in_range 0 100 v)"
proof -
  have keys: "map se_key ex_series = map sc_key COMPONENTS" by (simp add: ex_series_def Let_def comp_def)
  have len: "length [0..35::int] = 36" by simp
  have short: "\<forall>s \<in> set ex_series. length (se_history s) \<le> 2 ^ 40" by (auto simp: ex_series_def Let_def)
  have noon: "utc_datetime ex_noon = Inr ex_noon" by code_simp
  have scored: "map scorable ex_series = map (\<lambda>s. sc_key s \<noteq> ''reservas_internacionais'') COMPONENTS"
    by (simp add: ex_series_def Let_def comp_def scorable_def)
  have now: "instant (mc_as_of ex_cutoff) \<le> instant ex_noon" by (simp add: ex_cutoff_def)
  obtain ks r where r: "mapE (normalize_component score_codec) ex_series = Inr ks"
    "aggregate_macro_score score_codec ks ex_cutoff ex_noon = Inr r"
    "map (\<lambda>k. nc_score k \<noteq> None) ks = map scorable ex_series" "\<forall>v \<in> set_option (mr_score r). in_range 0 100 v"
    using score_stays_in_range [OF keys short noon now] by blast
  have "length (filter (\<lambda>k. nc_score k \<noteq> None) ks) = length (filter (\<lambda>b. b) (map (\<lambda>k. nc_score k \<noteq> None) ks))"
    by (simp add: filter_map comp_def)
  also have "\<dots> = 17" unfolding r(3) scored by code_simp
  finally show ?thesis using r by blast
qed

end
