(* ===== verification/ScorePast.thy ===== *)
theory ScorePast
  imports ScoreComponents
begin

text \<open>
  Point in time: the series of the components are built from what was available at the cutoff. The first part
  shows that the sources may be cut down to it beforehand, the second that every input of every point is part
  of it.
\<close>

section \<open>The sources at the cutoff\<close>

definition as_of_cutoff :: "score_context \<Rightarrow> datetime \<Rightarrow> bool" where
  "as_of_cutoff x t \<longleftrightarrow> available_by (mc_as_of (sx_cutoff x)) t"

definition known_sources :: "string option \<Rightarrow> score_context \<Rightarrow> score_context" where
  "known_sources cycle x = x\<lparr>sx_sources :=
     \<lparr>ss_vintages = filter (\<lambda>v. as_of_cutoff x (sv_available v)) (ss_vintages (sx_sources x)),
      ss_targets = filter (\<lambda>o1. as_of_cutoff x (to_available o1)) (ss_targets (sx_sources x)),
      ss_snapshots = filter (snapshot_is_forward (sx_cutoff x) cycle) (ss_snapshots (sx_sources x))\<rparr>\<rparr>"

lemma known_frame [simp]:
  "sx_codec (known_sources cycle x) = sx_codec x" "sx_zone (known_sources cycle x) = sx_zone x"
  "sx_cutoff (known_sources cycle x) = sx_cutoff x"
  by (simp_all add: known_sources_def)

lemma known_vintages_known [simp]:
  "known_vintages (ss_vintages (sx_sources (known_sources cycle x))) (sx_cutoff x) policy
    = known_vintages (ss_vintages (sx_sources x)) (sx_cutoff x) policy"
  by (simp add: known_sources_def known_vintages_def as_of_cutoff_def conj_ac cong: conj_cong)

lemma sources_known [simp]:
  "current_source (known_sources cycle x) policy = current_source x policy"
  "historical_source (known_sources cycle x) policy = historical_source x policy"
  "source_months (known_sources cycle x) s = source_months x s"
  by (simp_all add: current_source_def historical_source_def source_months_def select_current_source_def
      select_historical_source_def select_known_source_vintages_def)

lemma targets_known [simp]:
  "target_at_reference d (ss_targets (sx_sources (known_sources cycle x))) (sx_cutoff x)
    = target_at_reference d (ss_targets (sx_sources x)) (sx_cutoff x)"
proof -
  have "filter (\<lambda>o1. to_rule o1 = r \<and> available_by (mc_as_of (sx_cutoff x)) (to_available o1))
      (ss_targets (sx_sources (known_sources cycle x)))
    = filter (\<lambda>o1. to_rule o1 = r \<and> available_by (mc_as_of (sx_cutoff x)) (to_available o1)) (ss_targets (sx_sources x))" for r
    by (simp add: known_sources_def as_of_cutoff_def conj_ac cong: conj_cong)
  then show ?thesis by (simp only: target_at_reference_def cong: option.case_cong)
qed

lemma points_known [simp]:
  "point_from (known_sources cycle x) = point_from x"
  "level_point (known_sources cycle x) = level_point x"
  "change_at (known_sources cycle x) = change_at x"
  "distance_point (known_sources cycle x) = distance_point x"
  "snapshot_is_fresh (known_sources cycle x) = snapshot_is_fresh x"
  "point_from_snapshot (known_sources cycle x) = point_from_snapshot x"
proof -
  show p: "point_from (known_sources cycle x) = point_from x" by (intro ext) (unfold point_from_def known_frame, rule refl)
  show "level_point (known_sources cycle x) = level_point x" by (intro ext) (unfold level_point_def p known_frame, rule refl)
  show "change_at (known_sources cycle x) = change_at x" by (intro ext) (unfold change_at_def p known_frame, rule refl)
  show "distance_point (known_sources cycle x) = distance_point x" by (intro ext) (unfold distance_point_def p known_frame, rule refl)
  show "snapshot_is_fresh (known_sources cycle x) = snapshot_is_fresh x"
    by (intro ext) (unfold snapshot_is_fresh_def known_frame, rule refl)
  show "point_from_snapshot (known_sources cycle x) = point_from_snapshot x"
    by (intro ext) (unfold point_from_snapshot_def known_frame, rule refl)
qed

lemma snapshots_known:
  "filter (\<lambda>s. dr_key (sn_result s) = k \<and> snapshot_is_forward (sx_cutoff x) cycle s)
      (ss_snapshots (sx_sources (known_sources cycle x)))
    = filter (\<lambda>s. dr_key (sn_result s) = k \<and> snapshot_is_forward (sx_cutoff x) cycle s) (ss_snapshots (sx_sources x))"
  by (simp add: known_sources_def conj_ac cong: conj_cong)

lemma builders_known:
  "build_level_series (known_sources cycle x) = build_level_series x"
  "build_change_series (known_sources cycle x) = build_change_series x"
  "build_target_distance_series (known_sources cycle x) = build_target_distance_series x"
  "build_derived_snapshot_series (known_sources cycle x) cycle = build_derived_snapshot_series x cycle"
proof -
  show "build_level_series (known_sources cycle x) = build_level_series x"
    by (intro ext) (unfold build_level_series_def known_frame sources_known targets_known points_known, rule refl)
  show "build_change_series (known_sources cycle x) = build_change_series x"
    by (intro ext) (unfold build_change_series_def known_frame sources_known targets_known points_known, rule refl)
  have h: "distance_history (known_sources cycle x) = distance_history x"
    by (intro ext) (unfold distance_history_def known_frame sources_known targets_known points_known, rule refl)
  show "build_target_distance_series (known_sources cycle x) = build_target_distance_series x"
    by (intro ext) (unfold build_target_distance_series_def h known_frame sources_known targets_known points_known, rule refl)
  have v: "valid_snapshot (known_sources cycle x) = valid_snapshot x"
    by (intro ext) (unfold valid_snapshot_def known_frame sources_known targets_known points_known, rule refl)
  have hs: "snapshot_history (known_sources cycle x) = snapshot_history x"
    by (intro ext) (unfold snapshot_history_def v known_frame sources_known targets_known points_known, rule refl)
  show "build_derived_snapshot_series (known_sources cycle x) cycle = build_derived_snapshot_series x cycle"
    by (intro ext) (unfold build_derived_snapshot_series_def hs known_frame snapshots_known points_known, rule refl)
qed

lemma build_known: "build_component_series (known_sources cycle x) cycle = build_component_series x cycle"
proof -
  have "build_component (known_sources cycle x) cycle = build_component x cycle"
    by (intro ext) (unfold build_component_def builders_known, rule refl)
  then show ?thesis by (simp only: build_component_series_def)
qed

section \<open>Every input is in the past\<close>

definition past_point :: "datetime \<Rightarrow> component_point \<Rightarrow> bool" where
  "past_point t p \<longleftrightarrow> available_by t (cp_available p) \<and> (\<forall>i \<in> set (cp_inputs p). available_by t (di_available i))"

definition past_series :: "datetime \<Rightarrow> component_series \<Rightarrow> bool" where
  "past_series t s \<longleftrightarrow> (\<forall>p \<in> set_option (se_current s) \<union> set (se_history s). past_point t p)"

lemma make_series_past:
  assumes "make_series k current history reason u = Inr s" "\<forall>p \<in> set_option current. past_point t p"
    "\<forall>p \<in> set history. past_point t p"
  shows "past_series t s"
  using assms by (auto simp: make_series_def past_series_def split: if_splits)

lemma component_point_past:
  assumes "make_calculation v d available inputs = Inr k" "component_point c spec k = Inr p"
    "available_by t available" "\<forall>i \<in> set inputs. available_by t (di_available i)"
  shows "past_point t p"
  using assms
  by (auto simp: make_calculation_def component_point_def Let_def bindE_Inr_iff past_point_def available_by_def
      dest!: utc_datetime_utc split: pyfloat.splits if_splits)

lemma latest_available:
  "\<forall>i \<in> set inputs. available_by t (di_available i) \<Longrightarrow> max_key instant (map di_available inputs) = Some u \<Longrightarrow> available_by t u"
  by (drule max_key_Some) auto

lemma point_from_past:
  assumes "point_from x spec v inputs = Inr p" "\<forall>i \<in> set inputs. available_by t (di_available i)"
  shows "past_point t p"
proof -
  obtain k d u where "make_calculation v d u inputs = Inr k" "component_point (sx_codec x) spec k = Inr p"
    "max_key instant (map di_available inputs) = Some u"
    using assms(1)
    by (auto simp: point_from_def calculation_from_inputs_def bindE_Inr_iff split: list.splits option.splits)
  then show ?thesis using component_point_past latest_available assms(2) by blast
qed

lemma vintage_input_available: "score_vintage_input k v = Inr i \<Longrightarrow> instant (di_available i) = instant (sv_available v)"
  unfolding score_vintage_input_def by (rule make_input_Inr(4))

lemma target_input_available: "score_target_input o1 d = Inr i \<Longrightarrow> instant (di_available i) = instant (to_available o1)"
  unfolding score_target_input_def Let_def by (rule make_input_Inr(4))

lemma known_vintages_mem: "v \<in> set (known_vintages vs cutoff policy) \<Longrightarrow> available_by (mc_as_of cutoff) (sv_available v)"
  by (simp add: known_vintages_def)

lemma known_source_mem:
  "v \<in> set (select_known_source_vintages vs cutoff policy) \<Longrightarrow> available_by (mc_as_of cutoff) (sv_available v)"
  unfolding select_known_source_vintages_def by (blast dest: latest_values_mem known_vintages_mem)

lemma by_month_mem: "v \<in> set (select_latest_source_by_month vs) \<Longrightarrow> v \<in> set vs"
  unfolding select_latest_source_by_month_def by (blast dest: latest_values_mem)

lemma current_source_past: "current_source x policy = Inr (Available v) \<Longrightarrow> as_of_cutoff x (sv_available v)"
  by (auto simp: current_source_def select_current_source_def Let_def bindE_Inr_iff as_of_cutoff_def
      split: option.splits if_splits dest!: max_key_Some known_source_mem)

lemma historical_source_past: "historical_source x policy = Inr vs \<Longrightarrow> v \<in> set vs \<Longrightarrow> as_of_cutoff x (sv_available v)"
  by (auto simp: historical_source_def select_historical_source_def bindE_Inr_iff as_of_cutoff_def
      dest!: by_month_mem known_vintages_mem)

lemma source_months_past: "map_of (source_months x s) d = Some v \<Longrightarrow> as_of_cutoff x (sv_available v)"
  by (auto simp: source_months_def as_of_cutoff_def dest!: map_of_SomeD by_month_mem known_source_mem)

lemma mapE_all: "mapE f xs = Inr ys \<Longrightarrow> (\<And>x y. x \<in> set xs \<Longrightarrow> f x = Inr y \<Longrightarrow> P y) \<Longrightarrow> \<forall>y \<in> set ys. P y"
  using mapE_Inr_mem by metis

lemma level_point_past:
  "level_point x spec v = Inr p \<Longrightarrow> as_of_cutoff x (sv_available v) \<Longrightarrow> past_point (mc_as_of (sx_cutoff x)) p"
  by (auto simp: level_point_def bindE_Inr_iff as_of_cutoff_def available_by_def
      dest!: vintage_input_available intro!: point_from_past [where inputs = "[i]" for i])

text \<open>The invariant of a context: the points a builder makes from what it selected.\<close>

abbreviation past_at :: "score_context \<Rightarrow> component_point \<Rightarrow> bool" where
  "past_at x \<equiv> past_point (mc_as_of (sx_cutoff x))"

lemma change_at_past:
  assumes "change_at x spec f (source_months x s) v = Inr (Change p)" "as_of_cutoff x (sv_available v)"
  shows "past_at x p"
proof -
  obtain d w i j y where m: "map_of (source_months x s) d = Some w" and i: "score_vintage_input ''current_value'' v = Inr i"
    and j: "score_vintage_input ''previous_value'' w = Inr j" and p: "point_from x spec y [i, j] = Inr p"
    using assms(1) by (auto simp: change_at_def bindE_Inr_iff split: option.splits)
  note w = source_months_past [OF m]
  show ?thesis
    by (rule point_from_past [OF p])
      (use w assms(2) vintage_input_available [OF i] vintage_input_available [OF j] in
        \<open>simp add: as_of_cutoff_def available_by_def\<close>)
qed

lemma target_past:
  "target_at_reference d (ss_targets (sx_sources x)) (sx_cutoff x) = Inr o1 \<Longrightarrow> as_of_cutoff x (to_available o1)"
  by (auto simp: target_at_reference_def as_of_cutoff_def dest!: max_key_Some split: option.splits)

lemma distance_point_past:
  assumes "distance_point x spec v o1 = Inr p" "as_of_cutoff x (sv_available v)" "as_of_cutoff x (to_available o1)"
  shows "past_at x p"
proof -
  obtain k i j y where i: "score_vintage_input k v = Inr i" and j: "score_target_input o1 (sv_period v) = Inr j"
    and p: "point_from x spec y [i, j] = Inr p"
    using assms(1) by (auto simp: distance_point_def bindE_Inr_iff)
  show ?thesis
    by (rule point_from_past [OF p])
      (use assms(2,3) vintage_input_available [OF i] target_input_available [OF j] in
        \<open>simp add: as_of_cutoff_def available_by_def\<close>)
qed

lemma level_series_past:
  assumes "build_level_series x spec = Inr s"
  shows "past_series (mc_as_of (sx_cutoff x)) s"
proof -
  obtain source window history selected where w: "historical_source x (policy_for_spec source) = Inr window"
    and h: "mapE (level_point x spec) window = Inr history"
    and sel: "current_source x (policy_for_spec source) = Inr selected"
    and s: "(case selected of Available v \<Rightarrow> bindE (level_point x spec v) (\<lambda>p. make_series (sc_key spec) (Some p) history None None)
     | Unavailable reason \<Rightarrow> make_series (sc_key spec) None history (Some (input_reason reason)) None) = Inr s"
    using assms by (auto simp: build_level_series_def bindE_Inr_iff)
  have past: "\<forall>p \<in> set history. past_at x p"
    by (rule mapE_all [OF h]) (blast intro: level_point_past historical_source_past [OF w])
  show ?thesis
    using s sel by (auto simp: bindE_Inr_iff split: input_selection.splits
        elim!: make_series_past intro: past [rule_format] dest: level_point_past [OF _ current_source_past])
qed

lemma changes_mem: "p \<in> set (changes ks) \<longleftrightarrow> Change p \<in> set ks"
  by (induction ks) (auto simp: changes_def List.map_filter_simps split: change.split)

lemma change_series_past:
  assumes "build_change_series x spec = Inr s"
  shows "past_series (mc_as_of (sx_cutoff x)) s"
proof -
  obtain source f window samples selected where w: "historical_source x (policy_for_spec source) = Inr window"
    and h: "mapE (change_at x spec f (source_months x source)) window = Inr samples"
    and sel: "current_source x (policy_for_spec source) = Inr selected"
    and s: "(case selected of Available v \<Rightarrow> bindE (change_at x spec f (source_months x source) v) (\<lambda>k. case k of
          NoLag \<Rightarrow> make_series (sc_key spec) None (changes samples) (Some CrHistoricalLagMissing) None
        | NoDenominator \<Rightarrow> make_series (sc_key spec) None (changes samples) (Some CrInvalidDenominator) None
        | Change p \<Rightarrow> make_series (sc_key spec) (Some p) (changes samples) None None)
     | Unavailable reason \<Rightarrow> make_series (sc_key spec) None (changes samples) (Some (input_reason reason)) None) = Inr s"
    using assms by (auto simp: build_change_series_def Let_def bindE_Inr_iff split: option.splits)
  have past: "\<forall>p \<in> set (changes samples). past_at x p"
  proof
    fix p assume "p \<in> set (changes samples)"
    then obtain v where "v \<in> set window" "change_at x spec f (source_months x source) v = Inr (Change p)"
      unfolding changes_mem using mapE_Inr_mem [OF h] by metis
    then show "past_at x p" using change_at_past historical_source_past [OF w] by blast
  qed
  show ?thesis
  proof (cases selected)
    case (Available v)
    with s obtain k where k: "change_at x spec f (source_months x source) v = Inr k" and
      made: "(case k of
          NoLag \<Rightarrow> make_series (sc_key spec) None (changes samples) (Some CrHistoricalLagMissing) None
        | NoDenominator \<Rightarrow> make_series (sc_key spec) None (changes samples) (Some CrInvalidDenominator) None
        | Change p \<Rightarrow> make_series (sc_key spec) (Some p) (changes samples) None None) = Inr s"
      by (auto simp: bindE_Inr_iff)
    have "past_at x p" if "k = Change p" for p
      using change_at_past k that current_source_past sel Available by blast
    then show ?thesis using made past by (cases k) (auto elim!: make_series_past)
  next
    case (Unavailable reason)
    then show ?thesis using s past by (auto elim!: make_series_past)
  qed
qed

lemma target_series_past:
  assumes "build_target_distance_series x spec = Inr s"
  shows "past_series (mc_as_of (sx_cutoff x)) s"
proof -
  let ?target = "\<lambda>v. target_at_reference (sv_period v) (ss_targets (sx_sources x)) (sx_cutoff x)"
  obtain policy window history selected where w: "historical_source x policy = Inr window"
    and h: "distance_history x spec window = Inr history" and sel: "current_source x policy = Inr selected"
    and s: "(case selected of Available v \<Rightarrow> (case ?target v of Inl reason \<Rightarrow> make_series (sc_key spec) None history (Some reason) None
          | Inr target \<Rightarrow> bindE (distance_point x spec v target) (\<lambda>p. make_series (sc_key spec) (Some p) history None None))
     | Unavailable reason \<Rightarrow> make_series (sc_key spec) None history (Some (input_reason reason)) None) = Inr s"
    using assms by (auto simp: build_target_distance_series_def bindE_Inr_iff)
  have pairs: "v \<in> set vs \<and> ?target v = Inr o1"
    if "(v, o1) \<in> set (List.map_filter (\<lambda>v. case ?target v of Inr o1 \<Rightarrow> Some (v, o1) | Inl _ \<Rightarrow> None) vs)" for v o1 vs
    using that by (induction vs) (auto simp: List.map_filter_simps split: sum.splits)
  have past: "\<forall>p \<in> set history. past_at x p"
    by (rule mapE_all [OF h [unfolded distance_history_def]])
      (auto dest!: pairs intro: distance_point_past historical_source_past [OF w] target_past)
  show ?thesis
    using s sel by (auto simp: bindE_Inr_iff split: input_selection.splits sum.splits
        elim!: make_series_past intro: past [rule_format] dest: distance_point_past [OF _ current_source_past target_past])
qed

lemma snapshot_point_past:
  assumes "point_from_snapshot x spec s d v = Inr p" "snapshot_is_forward (sx_cutoff x) cycle s"
  shows "past_at x p"
proof -
  let ?t = "mc_as_of (sx_cutoff x)"
  obtain inputs k where i: "mapE (snapshot_input s) (dr_inputs (sn_result s)) = Inr inputs"
    and k: "make_calculation (Fin v) d (case max_key instant (map di_available inputs) of
        None \<Rightarrow> dr_as_of (sn_result s) | Some t \<Rightarrow> t) inputs = Inr k"
    and p: "component_point (sx_codec x) spec k = Inr p"
    using assms(1) by (auto simp: point_from_snapshot_def bindE_Inr_iff)
  have as_of: "available_by ?t (dr_as_of (sn_result s))" and known: "inputs_known (sn_result s)"
    using assms(2) by (simp_all add: snapshot_is_forward_def)
  have past: "\<forall>i \<in> set inputs. available_by ?t (di_available i)"
  proof (rule mapE_all [OF i])
    fix j i assume "j \<in> set (dr_inputs (sn_result s))" "snapshot_input s j = Inr i"
    then show "available_by ?t (di_available i)"
      using as_of known make_input_Inr(4) [of "di_key j" "Fin (di_value j)"]
      by (fastforce simp: snapshot_input_def inputs_known_def list_all_iff available_by_def)
  qed
  show ?thesis
    by (rule component_point_past [OF k p]) (use past as_of latest_available [OF past] in \<open>auto split: option.split\<close>)
qed

lemma mapE_somes:
  "mapE f xs = Inr ys \<Longrightarrow> y \<in> set (somes ys) \<Longrightarrow> \<exists>x \<in> set xs. f x = Inr (Some y)"
proof -
  assume m: "mapE f xs = Inr ys" and "y \<in> set (somes ys)"
  then have "Some y \<in> set ys" by (auto simp: somes_def List.map_filter_def)
  then show ?thesis using mapE_Inr_mem [OF m] by blast
qed

lemma valid_snapshot_same: "valid_snapshot x spec e = Inr (Some (r, s, y)) \<Longrightarrow> e = (r, s)"
  by (cases e) (auto simp: valid_snapshot_def bindE_Inr_iff split: option.splits if_splits)

lemma dated_snapshot_same: "dated_snapshot s' = Inr (Some (r, s)) \<Longrightarrow> s' = s"
  by (auto simp: dated_snapshot_def bindE_Inr_iff split: option.splits)

lemma snapshot_history_past:
  assumes "snapshot_history x spec cycle snapshots = Inr history"
  shows "\<forall>p \<in> set history. past_at x p"
proof -
  obtain window dated valid where
    d: "mapE dated_snapshot (filter (snapshot_is_forward (sx_cutoff x) cycle) snapshots) = Inr dated" and
    v: "mapE (valid_snapshot x spec) (map snd (latest_by fst (\<lambda>(d, s). snapshot_rank s)
        (filter (\<lambda>(d, s). month_start d \<in> set window) (somes dated)))) = Inr valid" and
    h: "mapE (\<lambda>(d, s, v). point_from_snapshot x spec s d v)
        (in_key_order (latest_by (\<lambda>(d, s, v). month_start d) (\<lambda>(d, s, v). d) (somes valid))) = Inr history"
    using assms unfolding snapshot_history_def Let_def bindE_Inr_iff by (elim exE conjE) (rule that)
  have forward: "snapshot_is_forward (sx_cutoff x) cycle s" if valid: "(r, s, y) \<in> set (somes valid)" for r s y
  proof -
    obtain e where mem: "e \<in> set (map snd (latest_by fst (\<lambda>(d, s). snapshot_rank s)
        (filter (\<lambda>(d, s). month_start d \<in> set window) (somes dated))))" and val: "valid_snapshot x spec e = Inr (Some (r, s, y))"
      by (rule bexE [OF mapE_somes [OF v valid]])
    have "e \<in> set (filter (\<lambda>(d, s). month_start d \<in> set window) (somes dated))"
      using mem unfolding set_map by (elim imageE) (metis latest_by_mem prod.collapse)
    then have "(r, s) \<in> set (somes dated)" unfolding valid_snapshot_same [OF val] by simp
    then have "\<exists>s' \<in> set (filter (snapshot_is_forward (sx_cutoff x) cycle) snapshots). dated_snapshot s' = Inr (Some (r, s))"
      by (rule mapE_somes [OF d])
    then show ?thesis using dated_snapshot_same by auto
  qed
  show ?thesis
  proof (rule mapE_all [OF h])
    fix e p
    assume e: "e \<in> set (in_key_order (latest_by (\<lambda>(d, s, v). month_start d) (\<lambda>(d, s, v). d) (somes valid)))"
      and p: "(case e of (d, s, v) \<Rightarrow> point_from_snapshot x spec s d v) = Inr p"
    obtain d s v where dsv: "e = (d, s, v)" by (cases e)
    have "e \<in> set (somes valid)" using latest_values_mem [OF e] by blast
    then show "past_at x p" using p unfolding dsv by (auto intro: snapshot_point_past forward)
  qed
qed

lemma derived_series_past:
  assumes "build_derived_snapshot_series x cycle spec = Inr s"
  shows "past_series (mc_as_of (sx_cutoff x)) s"
proof -
  define snapshots where "snapshots = filter (\<lambda>s. dr_key (sn_result s) = sc_key spec \<and> snapshot_is_forward (sx_cutoff x) cycle s)
            (ss_snapshots (sx_sources x))"
  obtain history where h: "snapshot_history x spec cycle snapshots = Inr history"
    using assms by (auto simp: build_derived_snapshot_series_def Let_def bindE_Inr_iff snapshots_def)
  note past = snapshot_history_past [OF h]
  have forward: "max_key snapshot_rank snapshots = Some n \<Longrightarrow> snapshot_is_forward (sx_cutoff x) cycle n" for n
    by (auto simp: snapshots_def dest: max_key_Some)
  show ?thesis
    using assms h unfolding build_derived_snapshot_series_def Let_def snapshots_def [symmetric]
    by (auto simp: bindE_Inr_iff split: option.splits if_splits
        elim!: make_series_past intro: past [rule_format] dest: snapshot_point_past [OF _ forward])
qed

lemma component_past: "build_component x cycle spec = Inr s \<Longrightarrow> past_series (mc_as_of (sx_cutoff x)) s"
  unfolding build_component_def
  by (auto dest: level_series_past change_series_past target_series_past derived_series_past split: if_splits)

section \<open>The property\<close>


section \<open>An example\<close>

definition ex_stamp :: "int \<Rightarrow> int \<Rightarrow> datetime" where
  "ex_stamp m d = DateTime (Date 2025 m d) 12 0 0 0 (Some 0)"

definition ex_vintage :: "string \<Rightarrow> int \<Rightarrow> datetime \<Rightarrow> rat \<Rightarrow> score_vintage" where
  "ex_vintage series m seen v =
     \<lparr>sv_provider = ''bcb_sgs'', sv_series = series, sv_period = Date 2025 m 1, sv_value = v, sv_unit = ''pct'',
      sv_source = ''bcb'', sv_available = seen, sv_first_seen = seen, sv_hash = ''h'', sv_published = None\<rparr>"

text \<open>The unemployment rate of May is first captured after the cutoff.\<close>

definition ex_context :: score_context where
  "ex_context =
     \<lparr>sx_codec = \<lparr>dumps = (\<lambda>_. ''{}''), loads = (\<lambda>_. Inr JNull), sha256 = (\<lambda>_. ''00'')\<rparr>, sx_zone = ddate,
      sx_sources = \<lparr>ss_vintages = [ex_vintage ''desemprego'' 4 (ex_stamp 5 30) 6, ex_vintage ''desemprego'' 5 (ex_stamp 6 30) 7],
        ss_targets = [], ss_snapshots = []\<rparr>,
      sx_cutoff = \<lparr>mc_as_of = ex_stamp 6 10, mc_month = Date 2025 6 1\<rparr>\<rparr>"

definition ex_level :: "component_series list \<Rightarrow> string \<Rightarrow> (rat option \<times> rat list) list" where
  "ex_level series key = map (\<lambda>s. (map_option cp_value (se_current s), map cp_value (se_history s)))
     (filter (\<lambda>s. se_key s = key) series)"


end
