(* ===== verification/VintageLedger.thy ===== *)
theory VintageLedger
  imports ScoreComponents
begin

text \<open>
  The ledger of observation vintages as the derived indicators and the macro score read it: SGS observations
  (\<open>derived/sgs_inputs.py\<close>), Focus expectations and DI contracts (\<open>derived/real_rate_inputs.py\<close>), inflation
  targets (\<open>derived/inflation_target_inputs.py\<close>) and score vintages (\<open>macro_score/sources.py\<close>). The table is a
  list of rows in the order of their insertion; a query filters it and sorts it by the columns of its
  \<open>ORDER BY\<close>. Timestamps in the table are text, compared as text. What pydantic validates is an argument.
\<close>

section \<open>Rows\<close>

record vintage_row =
  vr_provider :: string
  vr_series :: string
  vr_period :: string
  vr_dimensions :: string
  vr_dimensions_hash :: string
  vr_value :: string
  vr_published :: "timestamp option"
  vr_first_seen :: timestamp
  vr_available :: timestamp
  vr_hash :: string
  vr_revision :: string

record focus_value =
  fv_date :: string
  fv_median :: rat
  fv_base :: int

text \<open>
  The models of pydantic: \<open>lv_number\<close> reads the finite \<open>valor\<close> of an SGS value, \<open>lv_rule\<close> and
  \<open>lv_dimensions\<close> the payload and the dimensions of a target rule, \<open>lv_focus\<close> a Focus value, \<open>lv_date\<close> and
  \<open>lv_time\<close> a date and a datetime.
\<close>

record ledger_validators =
  lv_number :: "string \<Rightarrow> rat option"
  lv_rule :: "string \<Rightarrow> target_rule option"
  lv_dimensions :: "string \<Rightarrow> (string \<times> string) option"
  lv_focus :: "string \<Rightarrow> focus_value option"
  lv_date :: "string \<Rightarrow> date option"
  lv_time :: "string \<Rightarrow> datetime option"

definition known_rows :: "string \<Rightarrow> string \<Rightarrow> datetime \<Rightarrow> vintage_row list \<Rightarrow> vintage_row list" where
  "known_rows provider series cutoff rows =
     filter (\<lambda>r. vr_provider r = provider \<and> vr_series r = series \<and> vr_available r \<le> isoformat cutoff) rows"

definition in_query_order :: "vintage_row list \<Rightarrow> vintage_row list" where
  "in_query_order = sort_key (\<lambda>r. (vr_period r, vr_available r, vr_first_seen r, vr_hash r))"

section \<open>Texts\<close>

text \<open>\<open>value.replace("Z", "+00:00")\<close>\<close>

definition replace_zulu :: "string \<Rightarrow> string" where
  "replace_zulu s = concat (map (\<lambda>c. if c = CHR ''Z'' then ''+00:00'' else [c]) s)"

text \<open>\<open>except ValueError: return None\<close>\<close>

definition catching :: "py_error + 'a \<Rightarrow> py_error + 'a option" where
  "catching r = (case r of Inr x \<Rightarrow> Inr (Some x) | Inl ValueError \<Rightarrow> Inr None | Inl e \<Rightarrow> Inl e)"

definition aware_timestamp :: "timestamp \<Rightarrow> py_error + datetime option" where
  "aware_timestamp s = catching (bindE (fromisoformat (replace_zulu s)) utc_datetime)"

definition optional_timestamp :: "timestamp option \<Rightarrow> py_error + datetime option" where
  "optional_timestamp s = (case s of None \<Rightarrow> Inr None | Some t \<Rightarrow> aware_timestamp t)"

text \<open>\<open>parse_reference_date\<close> of a JSON value; only texts and numbers print as a date may.\<close>

definition reference_date_of :: "json option \<Rightarrow> date option" where
  "reference_date_of v =
     (case v of
        Some (JStr s) \<Rightarrow> parse_reference_date (Some s)
      | Some (JNum n) \<Rightarrow> parse_reference_date (Some (show_int n))
      | _ \<Rightarrow> None)"

definition ledger_object :: "codec \<Rightarrow> string \<Rightarrow> py_error + (string \<times> json) list option" where
  "ledger_object c s =
     bindE (catching (loads c s)) (\<lambda>v. Inr (case v of Some (JObj kvs) \<Rightarrow> Some kvs | _ \<Rightarrow> None))"

text \<open>\<open>float(value)\<close> of an integer beyond the doubles raises.\<close>

definition finite_number :: "json option \<Rightarrow> py_error + rat option" where
  "finite_number v =
     (case v of
        Some (JNum n) \<Rightarrow> (case float_of_int n of Fin x \<Rightarrow> Inr (Some x) | _ \<Rightarrow> Inl OverflowError)
      | Some (JFloat q) \<Rightarrow> Inr (Some (of_int (fst q) / of_int (snd q)))
      | _ \<Rightarrow> Inr None)"

definition row_basis :: "vintage_row \<Rightarrow> string" where
  "row_basis r =
     (if str_or_empty (vr_published r) \<noteq> [] then ''source_published_at'' else ''first_seen_at'')"

text \<open>The results of a loop that skips the rows it rejects.\<close>

definition collectE :: "('a \<Rightarrow> 'e + 'b option) \<Rightarrow> 'a list \<Rightarrow> 'e + 'b list" where
  "collectE f xs = bindE (mapE f xs) (\<lambda>ys. Inr (List.map_filter id ys))"

section \<open>SGS observations\<close>

definition api_url :: "int \<Rightarrow> string" where
  "api_url code = ''https://api.bcb.gov.br/dados/serie/bcdata.sgs.'' @ show_int code @ ''/dados''"

definition loaded_observation ::
    "ledger_validators \<Rightarrow> indicator_spec \<Rightarrow> vintage_row \<Rightarrow> py_error + sgs_observation option" where
  "loaded_observation lv spec r =
     (case parse_reference_date (Some (vr_period r)) of
        None \<Rightarrow> Inr None
      | Some d \<Rightarrow>
          bindE (aware_timestamp (vr_available r)) (\<lambda>available.
          bindE (optional_timestamp (vr_published r)) (\<lambda>published.
          bindE (aware_timestamp (vr_first_seen r)) (\<lambda>first_seen. Inr
            (case (lv_number lv (vr_value r), available, first_seen) of
               (Some x, Some t, Some u) \<Rightarrow>
                 Some \<lparr>ob_key = is_key spec, ob_code = is_code spec,
                       ob_value = Fin (if is_transformation spec = Some T_INVERT_SIGN then - x else x),
                       ob_unit = is_unit spec, ob_frequency = is_frequency spec, ob_period = d,
                       ob_source = api_url (is_code spec), ob_available = t,
                       ob_basis = (if published \<noteq> None then ''source_published_at'' else ''first_seen_at''),
                       ob_published = published, ob_first_seen = u\<rparr>
             | _ \<Rightarrow> None)))))"

definition load_sgs_observations ::
    "ledger_validators \<Rightarrow> vintage_row list \<Rightarrow> string \<Rightarrow> datetime \<Rightarrow> derived_error + sgs_observation list" where
  "load_sgs_observations lv rows key as_of =
     bindE (indicator_for key) (\<lambda>spec.
     bindE (python (utc_datetime as_of)) (\<lambda>cutoff.
       python (collectE (loaded_observation lv spec) (in_query_order (known_rows ''bcb_sgs'' (is_key spec) cutoff rows)))))"

section \<open>Focus expectations and DI contracts\<close>

definition FOCUS_12M_KEY :: string where
  "FOCUS_12M_KEY = ''IPCA_12M_S_BASE0''"

definition loaded_expectation :: "codec \<Rightarrow> vintage_row \<Rightarrow> py_error + focus_expectation option" where
  "loaded_expectation c r =
     bindE (ledger_object c (vr_value r)) (\<lambda>raw.
     bindE (aware_timestamp (vr_available r)) (\<lambda>available.
     case (parse_reference_date (Some (vr_period r)), raw, available) of
       (Some d, Some kvs, Some t) \<Rightarrow>
         bindE (finite_number (map_of kvs ''Mediana'')) (\<lambda>median.
           Inr (if map_of kvs ''Indicador'' = Some (JStr ''IPCA'') \<and> map_of kvs ''Suavizada'' = Some (JStr ''S'')
                   \<and> (case map_of kvs ''baseCalculo'' of Some (JNum n) \<Rightarrow> n = 0 | Some (JFloat q) \<Rightarrow> fst q = 0 | _ \<Rightarrow> False)
                   \<and> reference_date_of (map_of kvs ''Data'') = Some d
                then map_option (\<lambda>m. \<lparr>fe_reference = d, fe_median = Fin m, fe_available = t, fe_basis = row_basis r\<rparr>) median
                else None))
     | _ \<Rightarrow> Inr None))"

text \<open>\<open>latest[key] = item\<close> row by row, then the values in the order of the keys.\<close>

definition latest_in_order :: "('a \<Rightarrow> 'k::linorder) \<Rightarrow> 'a list \<Rightarrow> 'a list" where
  "latest_in_order k xs = in_key_order (foldl (\<lambda>d x. AList.update (k x) x d) [] xs)"

definition load_focus_expectations ::
    "codec \<Rightarrow> vintage_row list \<Rightarrow> datetime \<Rightarrow> derived_error + focus_expectation list" where
  "load_focus_expectations c rows as_of =
     bindE (python (utc_datetime as_of)) (\<lambda>cutoff.
     bindE (python (collectE (loaded_expectation c) (in_query_order (known_rows ''focus'' FOCUS_12M_KEY cutoff rows))))
       (\<lambda>es. Inr (latest_in_order fe_reference es)))"

definition loaded_contract :: "codec \<Rightarrow> vintage_row \<Rightarrow> py_error + di_contract option" where
  "loaded_contract c r =
     bindE (ledger_object c (vr_dimensions r)) (\<lambda>dimensions.
     bindE (ledger_object c (vr_value r)) (\<lambda>raw.
     bindE (aware_timestamp (vr_available r)) (\<lambda>available.
     case (parse_reference_date (Some (vr_period r)), dimensions, raw, available) of
       (Some d, Some ds, Some kvs, Some t) \<Rightarrow>
         bindE (finite_number (map_of kvs ''rate'')) (\<lambda>rate.
           Inr (case (map_of ds ''symbol'', reference_date_of (map_of ds ''maturity''), rate) of
                  (Some (JStr s), Some m, Some x) \<Rightarrow>
                    if s = [] then None
                    else Some \<lparr>dc_trade_date = d, dc_symbol = s, dc_maturity = m, dc_rate = Fin x, dc_available = t,
                               dc_basis = row_basis r\<rparr>
                | _ \<Rightarrow> None))
     | _ \<Rightarrow> Inr None)))"

definition load_di_contracts :: "codec \<Rightarrow> vintage_row list \<Rightarrow> datetime \<Rightarrow> derived_error + di_contract list" where
  "load_di_contracts c rows as_of =
     bindE (python (utc_datetime as_of)) (\<lambda>cutoff.
     bindE (python (collectE (loaded_contract c)
         (sort_key (\<lambda>r. (vr_period r, vr_dimensions_hash r, vr_available r, vr_first_seen r, vr_hash r))
           (known_rows ''b3'' ''di1'' cutoff rows))))
       (\<lambda>ks. Inr (latest_in_order (\<lambda>k. (dc_trade_date k, dc_symbol k, dc_maturity k)) ks)))"

section \<open>Inflation targets\<close>

definition rule_payload :: "target_rule \<Rightarrow> json" where
  "rule_payload r =
     json_obj [(''rule_id'', JStr (tr_id r)), (''table_version'', JStr (tr_table_version r)), (''regime'', JStr (tr_regime r)),
       (''effective_from'', JStr (date_isoformat (tr_from r))), (''effective_to'', json_date_opt (tr_to r)),
       (''center_pct'', JFloat (quotient_of (tr_center r))), (''tolerance_band_pp'', JFloat (quotient_of (tr_band r))),
       (''source_url'', JStr (tr_source_url r)), (''legal_reference'', json_opt (tr_legal_reference r)),
       (''direct_source_url'', json_opt (tr_direct_url r))]"

definition rule_dimensions :: "target_rule \<Rightarrow> json" where
  "rule_dimensions r = json_obj [(''rule_id'', JStr (tr_id r)), (''table_version'', JStr (tr_table_version r))]"

definition rule_row :: "codec \<Rightarrow> target_rule \<Rightarrow> datetime \<Rightarrow> vintage_row" where
  "rule_row c r observed_at =
     (let text = dumps c (rule_payload r); dimensions = dumps c (rule_dimensions r)
      in \<lparr>vr_provider = ''bcb_cmn'', vr_series = ''inflation_target_rules'', vr_period = date_isoformat (tr_from r),
          vr_dimensions = dimensions, vr_dimensions_hash = sha256 c dimensions, vr_value = text, vr_published = None,
          vr_first_seen = isoformat observed_at, vr_available = isoformat observed_at, vr_hash = sha256 c text,
          vr_revision = take 16 (sha256 c text)\<rparr>)"

definition vintage_identity :: "vintage_row \<Rightarrow> string \<times> string \<times> string \<times> string \<times> string" where
  "vintage_identity r = (vr_provider r, vr_series r, vr_period r, vr_dimensions_hash r, vr_hash r)"

text \<open>\<open>INSERT .. ON CONFLICT (..) DO NOTHING\<close>\<close>

definition insert_vintage :: "vintage_row \<Rightarrow> vintage_row list \<Rightarrow> vintage_row list" where
  "insert_vintage r rows = (if vintage_identity r \<in> set (map vintage_identity rows) then rows else rows @ [r])"

definition observe_inflation_target_rules ::
    "codec \<Rightarrow> target_rule list \<Rightarrow> datetime \<Rightarrow> vintage_row list \<Rightarrow> derived_error + nat \<times> vintage_row list" where
  "observe_inflation_target_rules c rules now rows =
     bindE (python (utc_datetime now)) (\<lambda>t.
       Inr (length rules, foldl (\<lambda>rs r. insert_vintage (rule_row c r t) rs) rows rules))"

definition valid_or :: "'a option \<Rightarrow> derived_error + 'a" where
  "valid_or v = (case v of None \<Rightarrow> Inl (PyError ValueError) | Some x \<Rightarrow> Inr x)"

definition target_observation_of ::
    "codec \<Rightarrow> ledger_validators \<Rightarrow> vintage_row \<Rightarrow> derived_error + target_observation" where
  "target_observation_of c lv row =
     bindE (valid_or (lv_time lv (vr_first_seen row))) (\<lambda>seen.
     bindE (valid_or (lv_time lv (vr_available row))) (\<lambda>available.
     bindE (valid_or (lv_dimensions lv (vr_dimensions row))) (\<lambda>dimensions.
     bindE (valid_or (lv_rule lv (vr_value row))) (\<lambda>r.
     if dimensions \<noteq> (tr_id r, tr_table_version r) \<or> sha256 c (vr_dimensions row) \<noteq> vr_dimensions_hash row
     then Inl (Ledger ''rule_identity'')
     else if vr_period row \<noteq> date_isoformat (tr_from r) then Inl (Ledger ''rule_identity'')
     else bindE (python (utc_datetime seen)) (\<lambda>t. bindE (python (utc_datetime available)) (\<lambda>u.
       if vr_published row \<noteq> None \<or> instant t \<noteq> instant u then Inl (Ledger ''availability'')
       else if sha256 c (dumps c (rule_payload r)) \<noteq> vr_hash row then Inl (Ledger ''payload_hash'')
       else Inr \<lparr>to_rule = r, to_first_seen = t, to_hash = vr_hash row\<rparr>))))))"

definition load_inflation_target_observations ::
    "codec \<Rightarrow> ledger_validators \<Rightarrow> vintage_row list \<Rightarrow> datetime \<Rightarrow> derived_error + target_observation list" where
  "load_inflation_target_observations c lv rows as_of =
     bindE (python (utc_datetime as_of)) (\<lambda>cutoff.
       mapE (target_observation_of c lv) (in_query_order (known_rows ''bcb_cmn'' ''inflation_target_rules'' cutoff rows)))"

section \<open>Score vintages\<close>

definition SGS_SOURCE_KEYS :: "string list" where
  "SGS_SOURCE_KEYS = filter (\<lambda>k. k \<in> set (map is_key SPECS)) (remdups (concat (map sc_sources COMPONENTS)))"

definition transformed_value :: "rat \<Rightarrow> indicator_spec \<Rightarrow> derived_error + rat" where
  "transformed_value x spec =
     (case is_transformation spec of
        None \<Rightarrow> Inr x
      | Some T_INVERT_SIGN \<Rightarrow> Inr (- x)
      | Some _ \<Rightarrow> Inl (UnsupportedTransformation (is_key spec)))"

definition FOCUS_SOURCE :: string where
  "FOCUS_SOURCE =
     ''https://olinda.bcb.gov.br/olinda/servico/Expectativas/versao/v1/odata/ExpectativasMercadoInflacao12Meses''"

text \<open>A row pydantic validated: its date and its timestamps, which \<open>ScoreVintage\<close> converts to UTC.\<close>

definition vintage_times ::
    "ledger_validators \<Rightarrow> vintage_row \<Rightarrow> (date \<times> datetime \<times> datetime \<times> datetime option) option" where
  "vintage_times lv r =
     (case (lv_date lv (vr_period r), lv_time lv (vr_available r), lv_time lv (vr_first_seen r)) of
        (Some d, Some t, Some u) \<Rightarrow>
          (case vr_published r of
             None \<Rightarrow> Some (d, t, u, None)
           | Some p \<Rightarrow> map_option (\<lambda>w. (d, t, u, Some w)) (lv_time lv p))
      | _ \<Rightarrow> None)"

definition make_score_vintage ::
    "string \<Rightarrow> string \<Rightarrow> rat \<Rightarrow> string \<Rightarrow> string \<Rightarrow> vintage_row \<Rightarrow> date \<times> datetime \<times> datetime \<times> datetime option
     \<Rightarrow> derived_error + score_vintage" where
  "make_score_vintage provider series x u source r = (\<lambda>(d, t, s, p).
     bindE (python (utc_datetime t)) (\<lambda>available. bindE (python (utc_datetime s)) (\<lambda>first_seen.
     bindE (utc_opt p) (\<lambda>published.
       if provider = [] \<or> series = [] \<or> vr_hash r = [] then Inl (PyError ValueError)
       else Inr \<lparr>sv_provider = provider, sv_series = series, sv_period = d, sv_value = x, sv_unit = u, sv_source = source,
                 sv_available = available, sv_first_seen = first_seen, sv_hash = vr_hash r, sv_published = published\<rparr>))))"

definition sgs_vintage ::
    "ledger_validators \<Rightarrow> vintage_row \<Rightarrow> date \<times> datetime \<times> datetime \<times> datetime option
     \<Rightarrow> derived_error + score_vintage option" where
  "sgs_vintage lv r ts =
     (case find (\<lambda>s. is_key s = vr_series r \<and> is_key s \<in> set SGS_SOURCE_KEYS) SPECS of
        None \<Rightarrow> Inr None
      | Some spec \<Rightarrow>
          (case lv_number lv (vr_value r) of
             None \<Rightarrow> Inr None
           | Some x \<Rightarrow>
               bindE (transformed_value x spec) (\<lambda>y.
               bindE (make_score_vintage (vr_provider r) (vr_series r) y (unit_text (is_unit spec)) (api_url (is_code spec))
                 r ts) (\<lambda>v. Inr (Some v)))))"

definition focus_vintage ::
    "ledger_validators \<Rightarrow> vintage_row \<Rightarrow> date \<times> datetime \<times> datetime \<times> datetime option
     \<Rightarrow> derived_error + score_vintage option" where
  "focus_vintage lv r ts =
     (case lv_focus lv (vr_value r) of
        None \<Rightarrow> Inr None
      | Some f \<Rightarrow>
          if fv_base f \<noteq> 0 \<or> fv_date f \<noteq> date_isoformat (fst ts) then Inr None
          else bindE (make_score_vintage (vr_provider r) FOCUS_12M_KEY (fv_median f) ''pct_annual'' FOCUS_SOURCE r ts)
            (\<lambda>v. Inr (Some v)))"

definition score_row :: "ledger_validators \<Rightarrow> vintage_row \<Rightarrow> derived_error + score_vintage option" where
  "score_row lv r =
     (case vintage_times lv r of
        None \<Rightarrow> Inr None
      | Some ts \<Rightarrow> if vr_provider r = ''bcb_sgs'' then sgs_vintage lv r ts else focus_vintage lv r ts)"

definition load_score_vintages ::
    "ledger_validators \<Rightarrow> vintage_row list \<Rightarrow> datetime \<Rightarrow> derived_error + score_vintage list" where
  "load_score_vintages lv rows as_of =
     bindE (python (utc_datetime as_of)) (\<lambda>cutoff.
       collectE (score_row lv)
         (sort_key (\<lambda>r. (vr_provider r, vr_series r, vr_period r, vr_available r, vr_first_seen r, vr_hash r))
           (filter (\<lambda>r. vr_available r \<le> isoformat cutoff
               \<and> (vr_provider r = ''bcb_sgs'' \<and> vr_series r \<in> set SGS_SOURCE_KEYS
                   \<or> vr_provider r = ''focus'' \<and> vr_series r = FOCUS_12M_KEY)) rows)))"

text \<open>The sources of a score, without the retrospective DI ledgers.\<close>

definition load_macro_score_sources ::
    "codec \<Rightarrow> ledger_validators \<Rightarrow> payload_adapter \<Rightarrow> vintage_row list \<Rightarrow> snapshot_row list \<Rightarrow> datetime
     \<Rightarrow> derived_error + score_sources" where
  "load_macro_score_sources c lv adapter rows table as_of =
     bindE (python (utc_datetime as_of)) (\<lambda>cutoff.
     bindE (mapE (\<lambda>k. query_snapshot_history adapter k table) DERIVED_KEYS) (\<lambda>snapshots.
     bindE (load_score_vintages lv rows cutoff) (\<lambda>vintages.
     bindE (load_inflation_target_observations c lv rows cutoff) (\<lambda>targets.
       Inr \<lparr>ss_vintages = vintages, ss_targets = targets, ss_snapshots = concat snapshots\<rparr>))))"

end
