(* ===== verification/DerivedRefresh.thy ===== *)
theory DerivedRefresh
  imports VintageLedger
begin

text \<open>
  The refresh of the derived snapshots (\<open>derived/refresh.py\<close>, \<open>refresh_derived_snapshots\<close> of
  \<open>derived/repository.py\<close>): each indicator is built from the ledger and stored; a failure of one leaves the
  others. The history of the real rate is read from the snapshot table itself.
\<close>

section \<open>Building one result\<close>

text \<open>
  What the refresh reads beside the two tables: the codec, the validators, the retrospective history of the
  real rate (\<open>load_retrospective_real_rate_history\<close>) and the clock at the insertion of each key.
\<close>

record derived_context =
  dx_codec :: codec
  dx_validators :: ledger_validators
  dx_adapter :: payload_adapter
  dx_retrospective :: "datetime \<Rightarrow> derived_error + derived_result list"
  dx_now :: "string \<Rightarrow> datetime"

definition two_series ::
    "ledger_validators \<Rightarrow> vintage_row list \<Rightarrow> string \<Rightarrow> string \<Rightarrow> datetime \<Rightarrow> derived_error + sgs_observation list" where
  "two_series lv rows a b as_of =
     bindE (load_sgs_observations lv rows a as_of) (\<lambda>xs.
     bindE (load_sgs_observations lv rows b as_of) (\<lambda>ys. Inr (xs @ ys)))"

definition BUILDER_KEYS :: "string list" where
  "BUILDER_KEYS =
     [ds_key EXTERNAL_COVERAGE, ds_key PRIMARY_BALANCE_CHANGE, ds_key CREDIT_SPREAD, ds_key FOCUS_TARGET_DISTANCE,
      ds_key DI_SLOPE]"

text \<open>\<open>_BUILDERS[key](as_of)\<close>\<close>

definition build_additional ::
    "derived_context \<Rightarrow> vintage_row list \<Rightarrow> string \<Rightarrow> datetime \<Rightarrow> derived_error + derived_result" where
  "build_additional x rows key as_of =
     (let lv = dx_validators x; c = dx_codec x
      in if key = ds_key EXTERNAL_COVERAGE then
           bindE (two_series lv rows ''idp_12m_pib'' ''conta_corrente_12m_pib'' as_of)
             (\<lambda>os. build_external_coverage_result os as_of)
         else if key = ds_key PRIMARY_BALANCE_CHANGE then
           bindE (load_sgs_observations lv rows ''saldo_primario_12m_pib'' as_of)
             (\<lambda>os. build_primary_balance_change_result os as_of)
         else if key = ds_key CREDIT_SPREAD then
           bindE (two_series lv rows ''taxa_media_credito_pf'' ''selic_meta'' as_of)
             (\<lambda>os. build_credit_spread_result os as_of)
         else if key = ds_key FOCUS_TARGET_DISTANCE then
           bindE (load_focus_expectations c rows as_of) (\<lambda>es.
           bindE (load_inflation_target_observations c lv rows as_of) (\<lambda>os.
             build_focus_target_distance_result es os as_of))
         else if key = ds_key DI_SLOPE then
           bindE (load_di_contracts c rows as_of) (\<lambda>ks. build_di_slope_result ks as_of)
         else Inl (PyError KeyError))"

text \<open>The real rate, whose builder loads the Focus expectations and the DI contracts.\<close>

definition build_real_rate ::
    "derived_context \<Rightarrow> vintage_row list \<Rightarrow> snapshot_row list \<Rightarrow> datetime \<Rightarrow> derived_error + derived_result" where
  "build_real_rate x rows table as_of =
     bindE (query_snapshot_history (dx_adapter x) (ds_key REAL_RATE) table) (\<lambda>history.
     bindE (dx_retrospective x as_of) (\<lambda>retrospective.
     bindE (python (utc_datetime as_of)) (\<lambda>cutoff.
     bindE (load_focus_expectations (dx_codec x) rows cutoff) (\<lambda>expectations.
     bindE (load_di_contracts (dx_codec x) rows cutoff) (\<lambda>contracts.
       build_real_rate_result (dx_codec x) as_of expectations contracts (map sn_result history) retrospective)))))"

definition build_derived ::
    "derived_context \<Rightarrow> vintage_row list \<Rightarrow> snapshot_row list \<Rightarrow> string \<Rightarrow> datetime \<Rightarrow> derived_error + derived_result" where
  "build_derived x rows table key as_of =
     (if key = ds_key REAL_RATE then build_real_rate x rows table as_of else build_additional x rows key as_of)"

section \<open>Storing them\<close>

text \<open>The two operations of the loop; either leaves the table alone when it raises.\<close>

definition refresh_one ::
    "derived_context \<Rightarrow> vintage_row list \<Rightarrow> datetime \<Rightarrow> string \<Rightarrow> string \<Rightarrow> snapshot_row list
     \<Rightarrow> derived_error + nat \<times> snapshot_row list" where
  "refresh_one x rows as_of cycle key table =
     bindE (build_derived x rows table key as_of) (\<lambda>r.
     bindE (insert_snapshot (dx_codec x) r cycle ProductionRefresh (dx_now x key) table) (\<lambda>(inserted, t).
       Inr (if inserted then 1 else 0, t)))"

fun refresh_loop ::
    "derived_context \<Rightarrow> vintage_row list \<Rightarrow> datetime \<Rightarrow> string \<Rightarrow> string list \<Rightarrow> nat \<times> string list \<times> snapshot_row list
     \<Rightarrow> nat \<times> string list \<times> snapshot_row list" where
  "refresh_loop x rows as_of cycle [] s = s"
| "refresh_loop x rows as_of cycle (key # keys) (inserted, failures, table) =
     refresh_loop x rows as_of cycle keys
       (case refresh_one x rows as_of cycle key table of
          Inl _ \<Rightarrow> (inserted, failures @ [key], table)
        | Inr (n, t) \<Rightarrow> (inserted + n, failures, t))"

text \<open>\<open>DerivedRefreshError\<close> carries the count and the keys that failed; what was inserted stays.\<close>

definition refresh_all_derived_snapshots ::
    "derived_context \<Rightarrow> vintage_row list \<Rightarrow> datetime \<Rightarrow> string \<Rightarrow> snapshot_row list
     \<Rightarrow> (nat \<times> string list + nat) \<times> snapshot_row list" where
  "refresh_all_derived_snapshots x rows as_of cycle table =
     (case refresh_loop x rows as_of cycle (ds_key REAL_RATE # BUILDER_KEYS) (0, [], table) of
        (n, failures, t) \<Rightarrow> (if failures \<noteq> [] then Inl (n, failures) else Inr n, t))"

section \<open>Sound results\<close>

definition sound_result :: "string \<Rightarrow> datetime \<Rightarrow> derived_result \<Rightarrow> bool" where
  "sound_result key as_of r \<longleftrightarrow> well_formed_result r \<and> dr_key r = key \<and> utc_datetime as_of = Inr (dr_as_of r)
     \<and> (\<forall>i \<in> set (dr_inputs r). well_formed_input i)
     \<and> (dr_percentile r \<noteq> None \<longrightarrow> dr_reference r \<noteq> None \<or> dr_class_reason r \<noteq> None)"

lemma utc_datetime_again: "utc_datetime as_of = Inr t \<Longrightarrow> utc_datetime t = Inr t"
  using utc_datetime_utc utc_datetime_of_utc by blast

lemma make_result_sound:
  assumes "make_result v p r = Inr s" "\<forall>i \<in> set (dr_inputs r). well_formed_input i"
    "p \<noteq> None \<longrightarrow> dr_reference r \<noteq> None \<or> dr_class_reason r \<noteq> None"
  shows "sound_result (dr_key r) (dr_as_of r) s"
proof -
  note m = make_result_Inr [OF assms(1)]
  have s: "dr_key s = dr_key r" "dr_inputs s = sort_key di_key (dr_inputs r)" "dr_reference s = dr_reference r"
    "dr_class_reason s = dr_class_reason r"
    by (subst m(2), simp)+
  have "dr_percentile s \<noteq> None \<longrightarrow> p \<noteq> None" using m(4) by (simp add: float_opt_def)
  then show ?thesis using m(1,5) assms(2,3) by (simp add: sound_result_def s)
qed

lemma unavailable_sound:
  assumes "unavailable spec t reason reference inputs = Inr r" "\<forall>i \<in> set inputs. well_formed_input i"
  shows "sound_result (ds_key spec) t r"
  using make_result_sound [OF assms(1) [unfolded unavailable_def]] assms(2) by (simp add: result_args_def)

lemma calculate_sound:
  assumes "calculate spec inputs t = Inr r" "\<forall>i \<in> set inputs. well_formed_input i"
  shows "sound_result (ds_key spec) t r"
proof -
  obtain cutoff where c: "utc_datetime t = Inr cutoff" using assms(1) by (auto simp: calculate_def bindE_Inr_iff)
  let ?eligible = "filter (\<lambda>i. available_by cutoff (di_available i)) inputs"
  have made: "sound_result (ds_key spec) cutoff r"
    if m: "make_result v None (result_args spec cutoff js reason None) = Inr r" and js: "set js \<subseteq> set inputs" for v js reason
    using make_result_sound [OF m] assms(2) js by (auto simp: result_args_def)
  have "sound_result (ds_key spec) cutoff r"
  proof (cases "length ?eligible = length inputs")
    case False
    then have "make_result None None (result_args spec cutoff ?eligible (Some INPUT_NOT_AVAILABLE) None) = Inr r"
      using assms(1) c by (simp add: calculate_def)
    then show ?thesis by (rule made) auto
  next
    case True
    then obtain v where "make_result (if is_finite v then Some v else None) None
        (result_args spec cutoff inputs (if is_finite v then None else Some NON_FINITE_RESULT) None) = Inr r"
      using assms(1) c by (auto simp: calculate_def bindE_Inr_iff)
    then show ?thesis by (rule made) simp
  qed
  then show ?thesis using c utc_datetime_again by (simp add: sound_result_def)
qed

lemma with_reference_sound:
  assumes "with_reference d q = Inr r" "sound_result key t q"
  shows "sound_result key t r" "dr_reference r \<noteq> None"
proof -
  have q: "dr_key q = key" "utc_datetime t = Inr (dr_as_of q)" "\<forall>i \<in> set (dr_inputs q). well_formed_input i"
    using assms(2) by (simp_all add: sound_result_def)
  note m = assms(1) [unfolded with_reference_def remake_result_def]
  have "sound_result key (dr_as_of q) r" using make_result_sound [OF m] q by simp
  then show "sound_result key t r" using q(2) utc_datetime_again by (simp add: sound_result_def)
  show "dr_reference r \<noteq> None" by (subst make_result_Inr(2) [OF m]) simp
qed

lemma classify_sound:
  assumes "classify c q history retrospective = Inr r" "sound_result key t q" "dr_reference q \<noteq> None"
  shows "sound_result key t r"
proof (cases "dr_value q")
  case None
  then show ?thesis using assms(1,2) by (simp add: classify_def)
next
  case (Some v)
  have q: "dr_key q = key" "utc_datetime t = Inr (dr_as_of q)" "\<forall>i \<in> set (dr_inputs q). well_formed_input i"
    using assms(2) by (simp_all add: sound_result_def)
  obtain v p a b n k h d where m: "make_result v p (q\<lparr>dr_classification := a, dr_class_reason := b, dr_basis := k, dr_count := n,
      dr_history_at := h, dr_dependencies := d\<rparr>) = Inr r"
    using assms(1) Some by (auto simp: classify_def Let_def bindE_Inr_iff split: prod.splits)
  have "sound_result key (dr_as_of q) r" using make_result_sound [OF m] q assms(3) by simp
  then show ?thesis using q(2) utc_datetime_again by (simp add: sound_result_def)
qed

text \<open>The inputs of every builder are made by \<open>DerivedInput\<close>.\<close>

lemma observation_inputs_sound:
  "observation_input key o1 md = Inr i \<Longrightarrow> well_formed_input i"
  "credit_input o1 = Inr i \<Longrightarrow> well_formed_input i"
  "balance_input key o1 = Inr i \<Longrightarrow> well_formed_input i"
  "coverage_input o1 = Inr i \<Longrightarrow> well_formed_input i"
  "di_input key k = Inr i \<Longrightarrow> well_formed_input i"
  "focus_input e = Inr i \<Longrightarrow> well_formed_input i"
  "distance_target_input o2 d = Inr i \<Longrightarrow> well_formed_input i"
  by (auto simp: observation_input_def credit_input_def balance_input_def coverage_input_def di_input_def
      focus_input_def distance_target_input_def dest: make_input_Inr(1) split: if_splits)

lemma coverage_inputs_sound: "coverage_inputs os = Inr is1 \<Longrightarrow> \<forall>i \<in> set is1. well_formed_input i"
  unfolding coverage_inputs_def
proof (induction os arbitrary: is1)
  case Nil
  then show ?case by simp
next
  case (Cons o1 os)
  then show ?case using observation_inputs_sound(4) by (auto simp: bindE_Inr_iff)
qed

section \<open>What a computation produces\<close>

definition produces :: "('b \<Rightarrow> bool) \<Rightarrow> 'e + 'b \<Rightarrow> bool" where
  "produces P m \<longleftrightarrow> (\<forall>r. m = Inr r \<longrightarrow> P r)"

lemma produces_bind: "(\<And>x. m = Inr x \<Longrightarrow> produces P (f x)) \<Longrightarrow> produces P (bindE m f)"
  by (auto simp: produces_def bindE_Inr_iff)

lemma produces_if: "(b \<Longrightarrow> produces P m) \<Longrightarrow> (\<not> b \<Longrightarrow> produces P n) \<Longrightarrow> produces P (if b then m else n)"
  by simp

lemma produces_let: "produces P (f s) \<Longrightarrow> produces P (let x = s in f x)"
  by simp

lemma produces_option:
  "(v = None \<Longrightarrow> produces P m) \<Longrightarrow> (\<And>x. v = Some x \<Longrightarrow> produces P (f x)) \<Longrightarrow> produces P (case v of None \<Rightarrow> m | Some x \<Rightarrow> f x)"
  by (cases v) simp_all

lemma produces_prod: "(\<And>x y. v = (x, y) \<Longrightarrow> produces P (f x y)) \<Longrightarrow> produces P (case v of (x, y) \<Rightarrow> f x y)"
  by (cases v) simp

lemma produces_Inl: "produces P (Inl e)"
  by (simp add: produces_def)

lemmas produces_control = produces_bind produces_if produces_let produces_option produces_prod produces_Inl

lemma sound_result_at:
  "utc_datetime t = Inr cutoff \<Longrightarrow> sound_result key cutoff r \<Longrightarrow> sound_result key t r"
  using utc_datetime_again by (simp add: sound_result_def)

lemma produces_unavailable:
  assumes "utc_datetime t = Inr cutoff" "key = ds_key spec" "\<forall>i \<in> set inputs. well_formed_input i"
  shows "produces (sound_result key t) (unavailable spec cutoff reason reference inputs)"
  unfolding produces_def using unavailable_sound [OF _ assms(3)] sound_result_at [OF assms(1)] assms(2) by blast

lemma produces_reference:
  assumes "utc_datetime t = Inr cutoff" "calculate spec inputs cutoff = Inr q" "key = ds_key spec"
    "\<forall>i \<in> set inputs. well_formed_input i"
  shows "produces (sound_result key t) (with_reference d q)"
  unfolding produces_def
  using with_reference_sound(1) [OF _ calculate_sound [OF assms(2,4)]] sound_result_at [OF assms(1)] assms(3) by blast

lemma produces_made:
  assumes "utc_datetime t = Inr cutoff" "key = ds_key spec" "\<forall>i \<in> set inputs. well_formed_input i"
  shows "produces (sound_result key t) (make_result v None (result_args spec cutoff inputs reason reference))"
proof -
  have "sound_result (ds_key spec) cutoff r"
    if "make_result v None (result_args spec cutoff inputs reason reference) = Inr r" for r
    using make_result_sound [OF that] assms(3) by (simp add: result_args_def)
  then show ?thesis unfolding produces_def using sound_result_at [OF assms(1)] assms(2) by blast
qed

lemma produces_classified:
  assumes "utc_datetime t = Inr cutoff" "calculate spec inputs cutoff = Inr q" "with_reference d q = Inr r" "key = ds_key spec"
    "\<forall>i \<in> set inputs. well_formed_input i"
  shows "produces (sound_result key t) (classify c r history retrospective)"
proof -
  have "sound_result key cutoff r" "dr_reference r \<noteq> None"
    using with_reference_sound [OF assms(3) calculate_sound [OF assms(2,5)]] assms(4) by simp_all
  then have "produces (sound_result key cutoff) (classify c r history retrospective)"
    using classify_sound unfolding produces_def by blast
  then show ?thesis unfolding produces_def using sound_result_at [OF assms(1)] by blast
qed

lemmas sound_rules = produces_control produces_unavailable produces_reference produces_made produces_classified

lemma credit_spread_sound: "produces (sound_result (ds_key CREDIT_SPREAD) t) (build_credit_spread_result os t)"
  unfolding build_credit_spread_result_def
  by (intro sound_rules) (auto dest: observation_inputs_sound)

lemma external_coverage_sound: "produces (sound_result (ds_key EXTERNAL_COVERAGE) t) (build_external_coverage_result os t)"
  unfolding build_external_coverage_result_def
  by (intro sound_rules) (auto dest: coverage_inputs_sound)

lemma primary_balance_sound:
  "produces (sound_result (ds_key PRIMARY_BALANCE_CHANGE) t) (build_primary_balance_change_result os t)"
  unfolding build_primary_balance_change_result_def
  by (intro sound_rules) (auto dest: observation_inputs_sound)

lemma focus_distance_sound:
  "produces (sound_result (ds_key FOCUS_TARGET_DISTANCE) t) (build_focus_target_distance_result es os t)"
  unfolding build_focus_target_distance_result_def
  by (intro sound_rules) (auto dest: observation_inputs_sound)

lemma di_slope_sound: "produces (sound_result (ds_key DI_SLOPE) t) (build_di_slope_result ks t)"
  unfolding build_di_slope_result_def
  by (intro sound_rules) (auto dest: observation_inputs_sound)

lemma real_rate_sound: "produces (sound_result (ds_key REAL_RATE) t) (build_real_rate_result c t es ks history retrospective)"
  unfolding build_real_rate_result_def
  by (intro sound_rules) (auto dest: observation_inputs_sound)

end
