(* ===== verification/DerivedClaims.thy ===== *)
theory DerivedClaims
  imports DerivedRefresh
begin

text \<open>
  The properties of the derived snapshots: every result that is built is well formed and known at its
  cutoff, and what is stored reads back.
\<close>

section \<open>Insertion into a sorted table\<close>

lemma insort_around:
  assumes "sorted (map f (ys @ x # zs))"
  shows "\<exists>us vs. insort_key f a (ys @ zs) = us @ vs \<and> insort_key f a (ys @ x # zs) = us @ x # vs"
  using assms
proof (induction ys)
  case Nil
  show ?case
  proof (cases "f a \<le> f x")
    case True
    then have "insort_key f a zs = a # zs" using Nil by (cases zs) auto
    then show ?thesis using True by (intro exI [of _ "[a]"] exI [of _ zs]) simp
  next
    case False
    then show ?thesis by (intro exI [of _ "[]"] exI [of _ "insort_key f a zs"]) simp
  qed
next
  case (Cons y ys)
  then obtain us vs where "insort_key f a (ys @ zs) = us @ vs" "insort_key f a (ys @ x # zs) = us @ x # vs" by auto
  then show ?case
    by (cases "f a \<le> f y") (rule exI [of _ "a # y # ys"], simp, rule exI [of _ "y # us"], simp)
qed

lemma sort_key_append_one: "\<exists>us vs. sort_key f xs = us @ vs \<and> sort_key f (xs @ [x]) = us @ x # vs"
proof (induction xs)
  case Nil
  show ?case by simp
next
  case (Cons a xs)
  then obtain us vs where u: "sort_key f xs = us @ vs" "sort_key f (xs @ [x]) = us @ x # vs" by blast
  have "sorted (map f (us @ x # vs))" using sorted_sort_key [of f "xs @ [x]"] u(2) by simp
  then show ?case using insort_around [of f us x vs a] u by simp
qed

lemma mapE_insert:
  assumes "mapE f (us @ vs) = Inr h" "f x = Inr s"
  shows "\<exists>h1 h2. h = h1 @ h2 \<and> mapE f (us @ x # vs) = Inr (h1 @ s # h2)"
  using assms(1)
proof (induction us arbitrary: h)
  case Nil
  then show ?case using assms(2) by (intro exI [of _ "[]"] exI [of _ h]) simp
next
  case (Cons u us)
  then obtain y k where y: "f u = Inr y" "mapE f (us @ vs) = Inr k" "h = y # k" by (auto simp: bindE_Inr_iff)
  obtain h1 h2 where "k = h1 @ h2" "mapE f (us @ x # vs) = Inr (h1 @ s # h2)" using Cons.IH [OF y(2)] by blast
  then show ?case using y by (intro exI [of _ "y # h1"] exI [of _ h2]) simp
qed

section \<open>What is built\<close>

lemma build_derived_sound: "produces (sound_result key as_of) (build_derived x rows table key as_of)"
proof -
  have at_cutoff: "utc_datetime as_of = Inr t \<Longrightarrow> sound_result k t r \<Longrightarrow> sound_result k as_of r" for t k r
    by (rule sound_result_at)
  have "produces (sound_result (ds_key REAL_RATE) as_of) (build_real_rate x rows table as_of)"
    unfolding build_real_rate_def by (intro produces_bind real_rate_sound)
  moreover have "produces (sound_result key as_of) (build_additional x rows key as_of)"
    unfolding build_additional_def
    by (intro produces_let produces_if produces_bind produces_Inl; hypsubst)
      (rule external_coverage_sound primary_balance_sound credit_spread_sound focus_distance_sound di_slope_sound)+
  ultimately show ?thesis by (simp add: build_derived_def)
qed

lemma sound_payload:
  assumes "sound_result key t r"
  shows "result_from_payload (result_to_payload r True) = Inr r"
  by (rule payload_roundtrip) (use assms in \<open>simp_all add: sound_result_def\<close>)

text \<open>C36: The result of any builder, from whatever the ledger and the snapshot table hold, is well formed:
  it has a value or a reason and not both, its texts are not empty, its percentile lies between 0 and 100, its inputs
  and dependencies are distinct and in order, and no input became available after the cutoff. It carries the key
  it was built for and the cutoff in UTC, and its payload parses back to it.
\<close>

theorem derived_results_are_sound:
  assumes "build_derived x rows table key as_of = Inr r"
  shows "well_formed_result r \<and> dr_key r = key \<and> utc_datetime as_of = Inr (dr_as_of r)
    \<and> (\<forall>i \<in> set (dr_inputs r). well_formed_input i \<and> instant (di_available i) \<le> instant as_of)
    \<and> result_from_payload (result_to_payload r True) = Inr r"
proof -
  have s: "sound_result key as_of r" using assms build_derived_sound unfolding produces_def by blast
  then have "instant (dr_as_of r) = instant as_of" using utc_datetime_utc by (auto simp: sound_result_def)
  then show ?thesis using s sound_payload [OF s] by (auto simp: sound_result_def well_formed_result_def)
qed

section \<open>What is stored\<close>

definition stored_row :: "codec \<Rightarrow> derived_result \<Rightarrow> string \<Rightarrow> snapshot_origin \<Rightarrow> datetime \<Rightarrow> snapshot_row" where
  "stored_row c r cycle origin at_utc =
     \<lparr>sr_key = dr_key r, sr_as_of = isoformat (dr_as_of r), sr_version = dr_version r, sr_hash = inputs_hash c r,
      sr_payload = dumps c (payload_json (result_to_payload r True)), sr_cycle = cycle,
      sr_origin = origin_text origin, sr_created = isoformat at_utc\<rparr>"

lemma insert_snapshot_Inr:
  "insert_snapshot c r cycle origin now t = Inr (b, t') \<longleftrightarrow>
     (\<exists>u. utc_datetime now = Inr u \<and> insert_row (stored_row c r cycle origin u) t = (b, t'))"
  by (auto simp: insert_snapshot_def bindE_Inr_iff stored_row_def)

lemma stored_identity: "row_identity (stored_row c r cycle origin u) = (dr_key r, isoformat (dr_as_of r), dr_version r, inputs_hash c r)"
  by (simp add: row_identity_def stored_row_def)

lemma stored_row_reads_back:
  assumes "adapter (dumps c (payload_json (result_to_payload r True))) = Inr (result_to_payload r True)"
    "result_from_payload (result_to_payload r True) = Inr r" "is_utc u"
  shows "snapshot_from_row adapter (stored_row c r cycle origin u)
    = Inr \<lparr>sn_result = r, sn_inputs_hash = inputs_hash c r, sn_cycle = cycle, sn_origin = origin, sn_created = u\<rparr>"
proof -
  have "origin_of (origin_text origin) = Inr origin" by (cases origin) (simp_all add: origin_of_def)
  then show ?thesis using assms
    by (simp add: snapshot_from_row_def stored_row_def utc_text_roundtrip utc_datetime_of_utc)
qed

lemma new_row_reads_back:
  assumes "adapter (dumps c (payload_json (result_to_payload r True))) = Inr (result_to_payload r True)"
    "result_from_payload (result_to_payload r True) = Inr r" "utc_datetime now = Inr u"
    "query_snapshot_history adapter (dr_key r) t = Inr h"
  shows "\<exists>s h1 h2. h = h1 @ h2
    \<and> query_snapshot_history adapter (dr_key r) (t @ [stored_row c r cycle origin u]) = Inr (h1 @ s # h2)
    \<and> sn_result s = r \<and> sn_inputs_hash s = inputs_hash c r \<and> sn_cycle s = cycle \<and> sn_origin s = origin
    \<and> instant (sn_created s) = instant now"
proof -
  let ?row = "stored_row c r cycle origin u" and ?f = "\<lambda>r. (sr_as_of r, sr_created r)"
  have "sr_key ?row = dr_key r" by (simp add: stored_row_def)
  then have f: "filter (\<lambda>k. sr_key k = dr_key r) (t @ [?row]) = filter (\<lambda>k. sr_key k = dr_key r) t @ [?row]" by simp
  obtain us vs where o1: "sort_key ?f (filter (\<lambda>k. sr_key k = dr_key r) t) = us @ vs"
    "sort_key ?f (filter (\<lambda>k. sr_key k = dr_key r) t @ [?row]) = us @ ?row # vs"
    using sort_key_append_one [of ?f "filter (\<lambda>k. sr_key k = dr_key r) t" ?row] by auto
  note u = utc_datetime_utc [OF assms(3)]
  have reads: "snapshot_from_row adapter ?row
      = Inr \<lparr>sn_result = r, sn_inputs_hash = inputs_hash c r, sn_cycle = cycle, sn_origin = origin, sn_created = u\<rparr>"
    by (rule stored_row_reads_back) (use assms(1,2) u in simp_all)
  have "mapE (snapshot_from_row adapter) (us @ vs) = Inr h"
    using assms(4) unfolding query_snapshot_history_def o1 .
  from mapE_insert [where f = "snapshot_from_row adapter", OF this reads] obtain h1 h2 where h: "h = h1 @ h2"
    "mapE (snapshot_from_row adapter) (us @ ?row # vs) = Inr (h1 @ \<lparr>sn_result = r, sn_inputs_hash = inputs_hash c r,
        sn_cycle = cycle, sn_origin = origin, sn_created = u\<rparr> # h2)"
    by (elim exE conjE) (rule that)
  show ?thesis unfolding query_snapshot_history_def f o1(2)
    by (rule exI, rule exI [of _ h1], rule exI [of _ h2], rule conjI [OF h(1)], rule conjI [OF h(2)]) (simp add: u)
qed

lemma insert_row_cases:
  assumes "insert_row row t = (b, t')"
  shows "b \<Longrightarrow> t' = t @ [row]" "\<not> b \<Longrightarrow> t' = t \<and> (\<exists>k \<in> set t. row_identity k = row_identity row)"
    "row_identity row \<in> set (map row_identity t')"
  using assms by (auto simp: insert_row_def split: if_splits)

text \<open>C35: When the refresh of a key succeeds, the history of the key has exactly one snapshot more, at its place in the
  order, with the result that was built, the hash of its inputs, the cycle and the clock of the insertion;
  or the table held a snapshot of the same key, cutoff, version and inputs, and is as it was. Storing the same
  result again, in any cycle and at any time, changes nothing. The hypothesis on the adapter is that pydantic reads the
  payload that was written; the history could be read before.
\<close>

theorem snapshot_reads_back:
  assumes built: "build_derived x rows table key as_of = Inr r"
    and codec: "dx_adapter x (dumps (dx_codec x) (payload_json (result_to_payload r True))) = Inr (result_to_payload r True)"
    and before: "query_snapshot_history (dx_adapter x) key table = Inr h"
    and run: "refresh_one x rows as_of cycle key table = Inr (n, table')"
    and again: "utc_datetime afterwards = Inr u"
  shows "(n = 0 \<and> table' = table
        \<and> (\<exists>row \<in> set table. row_identity row = (key, isoformat (dr_as_of r), dr_version r, inputs_hash (dx_codec x) r))
      \<or> n = 1 \<and> (\<exists>s h1 h2. h = h1 @ h2 \<and> query_snapshot_history (dx_adapter x) key table' = Inr (h1 @ s # h2)
        \<and> sn_result s = r \<and> sn_inputs_hash s = inputs_hash (dx_codec x) r \<and> sn_cycle s = cycle
        \<and> sn_origin s = ProductionRefresh \<and> instant (sn_created s) = instant (dx_now x key)))
    \<and> insert_snapshot (dx_codec x) r cycle2 origin2 afterwards table' = Inr (False, table')"
proof -
  let ?c = "dx_codec x" and ?a = "dx_adapter x"
  have s: "sound_result key as_of r" using built build_derived_sound unfolding produces_def by blast
  then have key: "dr_key r = key" by (simp add: sound_result_def)
  obtain b where i: "insert_snapshot ?c r cycle ProductionRefresh (dx_now x key) table = Inr (b, table')"
    and n: "n = (if b then 1 else 0)"
    using run by (auto simp: refresh_one_def built bindE_Inr_iff)
  then obtain v where v: "utc_datetime (dx_now x key) = Inr v"
    and ins: "insert_row (stored_row ?c r cycle ProductionRefresh v) table = (b, table')"
    unfolding insert_snapshot_Inr by blast
  note cases = insert_row_cases [OF ins, unfolded stored_identity key]
  have "insert_snapshot ?c r cycle2 origin2 afterwards table' = Inr (False, table')"
    unfolding insert_snapshot_Inr using again cases(3) by (simp add: insert_row_def stored_identity key)
  moreover have "\<exists>s h1 h2. h = h1 @ h2 \<and> query_snapshot_history ?a key table' = Inr (h1 @ s # h2)
        \<and> sn_result s = r \<and> sn_inputs_hash s = inputs_hash ?c r \<and> sn_cycle s = cycle
        \<and> sn_origin s = ProductionRefresh \<and> instant (sn_created s) = instant (dx_now x key)" if b
    unfolding cases(1) [OF that]
    using new_row_reads_back [where adapter = ?a and c = ?c and r = r and t = table and h = h and u = v] codec
      sound_payload [OF s] v before by (simp only: key simp_thms)
  ultimately show ?thesis using cases(2) n by (cases b) simp_all
qed

section \<open>A stored result\<close>

definition ex_row :: vintage_row where
  "ex_row =
     \<lparr>vr_provider = ''bcb_sgs'', vr_series = ''taxa_media_credito_pf'', vr_period = ''2026-01-01'', vr_dimensions = ''{}'',
      vr_dimensions_hash = ''00'', vr_value = ''51'', vr_published = None,
      vr_first_seen = ''2026-02-26T12:00:00+00:00'', vr_available = ''2026-02-26T12:00:00+00:00'', vr_hash = ''00'',
      vr_revision = ''00''\<rparr>"

definition ex_validators :: ledger_validators where
  "ex_validators =
     \<lparr>lv_number = (\<lambda>s. map_option rat_of_int (parse_signed s)), lv_rule = (\<lambda>_. None), lv_dimensions = (\<lambda>_. None),
      lv_focus = (\<lambda>_. None), lv_date = (\<lambda>_. None), lv_time = (\<lambda>_. None)\<rparr>"

definition ex_context :: "payload_adapter \<Rightarrow> derived_context" where
  "ex_context adapter =
     \<lparr>dx_codec = \<lparr>dumps = (\<lambda>_. ''{}''), loads = (\<lambda>_. Inl ValueError), sha256 = (\<lambda>_. ''00'')\<rparr>,
      dx_validators = ex_validators, dx_adapter = adapter, dx_retrospective = (\<lambda>_. Inr []),
      dx_now = (\<lambda>_. DateTime (Date 2026 3 1) 3 0 5 0 (Some 0))\<rparr>"

definition ex_as_of :: datetime where
  "ex_as_of = DateTime (Date 2026 3 1) 0 0 0 0 (Some (- 180))"

definition ex_key :: string where
  "ex_key = ''spread_credito_pf_selic''"

definition ex_build :: "payload_adapter \<Rightarrow> derived_error + derived_result" where
  "ex_build adapter = build_derived (ex_context adapter) [ex_row] [] ex_key ex_as_of"

lemma ex_build_any: "ex_build adapter = ex_build (\<lambda>_. Inl FutureInput)"
  by (simp add: ex_build_def build_derived_def build_additional_def ex_key_def REAL_RATE_def ex_context_def)

lemma ex_specs:
  "case indicator_for ''taxa_media_credito_pf'' of
     Inr s \<Rightarrow> is_key s = ''taxa_media_credito_pf'' \<and> is_code s = 20716 \<and> is_unit s = U_PCT_ANNUAL
       \<and> is_frequency s = F_MONTHLY \<and> is_transformation s = None
   | Inl _ \<Rightarrow> False"
  "case indicator_for ''selic_meta'' of Inr s \<Rightarrow> is_key s = ''selic_meta'' | Inl _ \<Rightarrow> False"
  by code_simp+

definition ex_cutoff :: datetime where
  "ex_cutoff = DateTime (Date 2026 3 1) 0 3 0 0 (Some 0)"

lemma ex_texts:
  "utc_datetime ex_as_of = Inr ex_cutoff" "known_rows ''bcb_sgs'' ''taxa_media_credito_pf'' ex_cutoff [ex_row] = [ex_row]"
  "aware_timestamp (vr_available ex_row) = Inr (Some (DateTime (Date 2026 2 26) 12 0 0 0 (Some 0)))"
  "aware_timestamp (vr_first_seen ex_row) = Inr (Some (DateTime (Date 2026 2 26) 12 0 0 0 (Some 0)))"
  "lv_number ex_validators (vr_value ex_row) = Some 51" "parse_reference_date (Some (vr_period ex_row)) = Some (Date 2026 1 1)"
  "known_rows ''bcb_sgs'' ''selic_meta'' ex_cutoff [ex_row] = []"
  by code_simp+

definition ex_observation :: sgs_observation where
  "ex_observation =
     \<lparr>ob_key = ''taxa_media_credito_pf'', ob_code = 20716, ob_value = Fin 51, ob_unit = U_PCT_ANNUAL, ob_frequency = F_MONTHLY,
      ob_period = Date 2026 1 1, ob_source = api_url 20716, ob_available = DateTime (Date 2026 2 26) 12 0 0 0 (Some 0),
      ob_basis = ''first_seen_at'', ob_published = None, ob_first_seen = DateTime (Date 2026 2 26) 12 0 0 0 (Some 0)\<rparr>"

lemma ex_loaded: "two_series ex_validators [ex_row] ''taxa_media_credito_pf'' ''selic_meta'' ex_as_of = Inr [ex_observation]"
proof -
  obtain s u where s: "indicator_for ''taxa_media_credito_pf'' = Inr s" "is_key s = ''taxa_media_credito_pf''"
      "is_code s = 20716" "is_unit s = U_PCT_ANNUAL" "is_frequency s = F_MONTHLY" "is_transformation s = None"
    and u: "indicator_for ''selic_meta'' = Inr u" "is_key u = ''selic_meta''"
    using ex_specs by (auto split: sum.splits)
  have "vr_published ex_row = None" by (simp add: ex_row_def)
  then have "loaded_observation ex_validators s ex_row = Inr (Some ex_observation)"
    by (simp add: loaded_observation_def ex_texts optional_timestamp_def ex_observation_def s)
  then show ?thesis
    by (simp add: two_series_def load_sgs_observations_def s u ex_texts in_query_order_def collectE_def List.map_filter_def)
qed

lemma ex_seen:
  "utc_datetime (DateTime (Date 2026 2 26) 12 0 0 0 (Some 0)) = Inr (DateTime (Date 2026 2 26) 12 0 0 0 (Some 0))"
  "date_isoformat (Date 2026 1 1) \<noteq> []" "instant (DateTime (Date 2026 2 26) 12 0 0 0 (Some 0)) \<le> instant ex_cutoff"
  by code_simp+

lemma ex_credit: "\<exists>i. credit_input ex_observation = Inr i"
  using ex_seen
  by (simp add: credit_input_def observation_input_def make_input_def dated_metadata_def ex_observation_def api_url_def)

lemma ex_instants: "instant (ob_available ex_observation) \<le> instant ex_cutoff"
  using ex_seen(3) by (simp add: ex_observation_def)

lemma ex_build_ok: "\<exists>r. ex_build adapter = Inr r \<and> dr_reason r = Some REQUIRED_INPUT_MISSING \<and> length (dr_inputs r) = 1"
proof -
  obtain i where i: "credit_input ex_observation = Inr i" using ex_credit by blast
  have at_i: "instant (di_available i) = instant (ob_available ex_observation)"
    using make_input_Inr(4) [OF i [unfolded credit_input_def observation_input_def]] .
  have series: "is_series ''taxa_media_credito_pf'' 20716 F_MONTHLY ex_observation"
    "\<not> is_series ''selic_meta'' 432 F_DAILY ex_observation"
    by (simp_all add: is_series_def ex_observation_def)
  have "build_credit_spread_result [ex_observation] ex_as_of
      = unavailable CREDIT_SPREAD ex_cutoff REQUIRED_INPUT_MISSING (Some (Date 2026 1 1)) [i]"
    using ex_instants
    by (simp add: build_credit_spread_result_def ex_texts available_by_def series max_key_def i) (simp add: ex_observation_def)
  moreover have "ex_build adapter = build_credit_spread_result [ex_observation] ex_as_of"
    by (simp add: ex_build_def build_derived_def build_additional_def ex_key_def REAL_RATE_def EXTERNAL_COVERAGE_def
        PRIMARY_BALANCE_CHANGE_def CREDIT_SPREAD_def ex_context_def ex_loaded)
  moreover have "date_fromisoformat (date_isoformat (Date 2026 1 1)) = Inr (Date 2026 1 1)" "utc_datetime ex_cutoff = Inr ex_cutoff"
    by code_simp+
  ultimately show ?thesis using ex_instants at_i
    by (simp add: unavailable_def make_result_def result_args_def CREDIT_SPREAD_def finite_opt_def utc_opt_def numbers_ok_def
        contents_ok_def)
qed

definition ex_result :: derived_result where
  "ex_result = (case ex_build (\<lambda>_. Inl FutureInput) of Inr r \<Rightarrow> r | Inl _ \<Rightarrow> undefined)"

definition ex_adapter :: payload_adapter where
  "ex_adapter s = (if s = ''{}'' then Inr (result_to_payload ex_result True) else Inl (PyError ValueError))"

lemma ex_built:
  "build_derived (ex_context ex_adapter) [ex_row] [] ex_key ex_as_of = Inr ex_result"
  "dr_reason ex_result = Some REQUIRED_INPUT_MISSING" "length (dr_inputs ex_result) = 1"
proof -
  obtain r where r: "ex_build (\<lambda>_. Inl FutureInput) = Inr r" "dr_reason r = Some REQUIRED_INPUT_MISSING" "length (dr_inputs r) = 1"
    using ex_build_ok by blast
  then have e: "ex_result = r" by (simp add: ex_result_def)
  have "ex_build ex_adapter = Inr ex_result" using ex_build_any r(1) e by metis
  then show "build_derived (ex_context ex_adapter) [ex_row] [] ex_key ex_as_of = Inr ex_result" by (simp add: ex_build_def)
  show "dr_reason ex_result = Some REQUIRED_INPUT_MISSING" "length (dr_inputs ex_result) = 1" using r e by simp_all
qed

lemma ex_clock: "utc_datetime (DateTime (Date 2026 3 1) 3 0 5 0 (Some 0)) = Inr (DateTime (Date 2026 3 1) 3 0 5 0 (Some 0))"
  by code_simp

lemma ex_run:
  "\<exists>t. refresh_one (ex_context ex_adapter) [ex_row] ex_as_of ''cycle-1'' ex_key [] = Inr (1, t) \<and> t \<noteq> []"
  unfolding refresh_one_def ex_built(1) bindE.simps by (simp add: insert_snapshot_def insert_row_def ex_context_def ex_clock)

theorem derived_results_are_sound_witness:
  "well_formed_result ex_result \<and> dr_key ex_result = ''spread_credito_pf_selic'' \<and> dr_reason ex_result = Some REQUIRED_INPUT_MISSING
    \<and> length (dr_inputs ex_result) = 1 \<and> result_from_payload (result_to_payload ex_result True) = Inr ex_result"
  using derived_results_are_sound [OF ex_built(1)] ex_built(2,3) by (simp add: ex_key_def)

theorem snapshot_reads_back_witness:
  "\<exists>t s. refresh_one (ex_context ex_adapter) [ex_row] ex_as_of ''cycle-1'' ex_key [] = Inr (1, t)
    \<and> query_snapshot_history ex_adapter ex_key t = Inr [s] \<and> sn_result s = ex_result \<and> sn_cycle s = ''cycle-1''"
proof -
  obtain t where t: "refresh_one (ex_context ex_adapter) [ex_row] ex_as_of ''cycle-1'' ex_key [] = Inr (1, t)"
    using ex_run by blast
  have adapter: "dx_adapter (ex_context ex_adapter) = ex_adapter" by (simp add: ex_context_def)
  have "dx_adapter (ex_context ex_adapter) (dumps (dx_codec (ex_context ex_adapter))
      (payload_json (result_to_payload ex_result True))) = Inr (result_to_payload ex_result True)"
    by (simp add: ex_context_def ex_adapter_def)
  from snapshot_reads_back [OF ex_built(1) this _ t ex_clock, of "[]" "''cycle-2''" TestFixture]
  show ?thesis using t by (auto simp: query_snapshot_history_def adapter)
qed

end
