(* ===== verification/ScoreStore.thy ===== *)
theory ScoreStore
  imports ScoreCalculator VintageLedger
begin

text \<open>
  The stored form of a macro score (\<open>macro_score/serialization.py\<close>), its table (\<open>macro_score/repository.py\<close>), the
  refresh that fills it (\<open>macro_score/refresh.py\<close>) and the summary of two scores (\<open>macro_score/summary.py\<close>). The
  overlay of the retrospective history is an argument; \<open>adapter\<close> is pydantic's \<open>validate_json\<close>.
\<close>

section \<open>Payloads\<close>

record component_payload =
  kp_key :: string
  kp_dimension :: string
  kp_value :: "rat option"
  kp_unit :: string
  kp_period :: "string option"
  kp_available :: "string option"
  kp_version :: string
  kp_formula :: string
  kp_direction :: string
  kp_weight :: int
  kp_percentile :: "pyfloat option"
  kp_score :: "pyfloat option"
  kp_reason :: "string option"
  kp_count :: nat
  kp_fingerprint :: string
  kp_basis :: "string option"
  kp_inputs :: "(string \<times> input_payload) list"

record dimension_payload =
  yp_score :: "pyfloat option"
  yp_valid :: nat
  yp_total :: nat
  yp_coverage :: pyfloat
  yp_reason :: "string option"
  yp_components :: "string list"

record score_payload =
  mp_score :: "pyfloat option"
  mp_class :: "string option"
  mp_calculated :: string
  mp_as_of :: string
  mp_month :: string
  mp_version :: string
  mp_coverage :: pyfloat
  mp_valid :: nat
  mp_total :: nat
  mp_dimensions :: "(string \<times> dimension_payload) list"
  mp_components :: "(string \<times> component_payload) list"
  mp_warnings :: "string list"
  mp_hash :: string
  mp_cycle :: string
  mp_origin :: string

definition score_input_payload :: "derived_input \<Rightarrow> input_payload" where
  "score_input_payload i =
     \<lparr>ip_value = di_value i, ip_unit = di_unit i, ip_period = di_period i, ip_available = isoformat (di_available i),
      ip_source = di_source i, ip_metadata = Some (di_metadata i)\<rparr>"

definition score_component_payload :: "string \<Rightarrow> normalized_component \<Rightarrow> component_payload" where
  "score_component_payload version k =
     (let spec = nc_spec k; current = nc_current k
      in \<lparr>kp_key = sc_key spec, kp_dimension = dimension_text (sc_dimension spec), kp_value = map_option cp_value current,
          kp_unit = component_unit_text (sc_unit spec),
          kp_period = map_option (\<lambda>p. date_isoformat (cp_period p)) current,
          kp_available = map_option (\<lambda>p. isoformat (cp_available p)) current, kp_version = version,
          kp_formula = sc_formula spec, kp_direction = direction_text (sc_direction spec), kp_weight = sc_weight spec,
          kp_percentile = nc_percentile k, kp_score = nc_score k,
          kp_reason = map_option component_reason_text (nc_reason k), kp_count = nc_count k,
          kp_fingerprint = nc_fingerprint k,
          kp_basis = (if nc_basis k = ''retrospective_reference'' then Some ''retrospective_reference'' else None),
          kp_inputs = (case current of None \<Rightarrow> []
            | Some p \<Rightarrow> map (\<lambda>i. (di_key i, score_input_payload i)) (cp_inputs p))\<rparr>)"

definition score_dimension_payload :: "dimension_score \<Rightarrow> dimension_payload" where
  "score_dimension_payload d =
     \<lparr>yp_score = dm_score d, yp_valid = dm_valid d, yp_total = dm_total d, yp_coverage = dm_coverage d,
      yp_reason = (if dm_insufficient d then Some ''insufficient_coverage'' else None),
      yp_components = map (\<lambda>k. sc_key (nc_spec k)) (dm_components d)\<rparr>"

text \<open>\<open>strftime("%Y-%m")\<close>\<close>

definition month_text :: "date \<Rightarrow> string" where
  "month_text d = take 7 (date_isoformat d)"

definition macro_score_payload :: "score_result \<Rightarrow> string \<Rightarrow> snapshot_origin \<Rightarrow> score_payload" where
  "macro_score_payload r cycle origin =
     \<lparr>mp_score = mr_score r, mp_class = map_option score_class_text (mr_class r), mp_calculated = isoformat (mr_calculated r),
      mp_as_of = isoformat (mr_as_of r), mp_month = month_text (mr_month r), mp_version = mr_version r,
      mp_coverage = mr_coverage r, mp_valid = mr_valid_dimensions r, mp_total = mr_total_dimensions r,
      mp_dimensions = map (\<lambda>d. (dimension_text (dm_dimension d), score_dimension_payload d)) (mr_dimensions r),
      mp_components = map (\<lambda>k. (sc_key (nc_spec k), score_component_payload (mr_version r) k)) (mr_components r),
      mp_warnings = mr_warnings r, mp_hash = mr_fingerprint r, mp_cycle = cycle, mp_origin = origin_text origin\<rparr>"

section \<open>The table\<close>

datatype score_store_error =
    StoreError derived_error
  | ScoringError score_error
  | SnapshotTime datetime datetime
  | MonthRange string string
  | SnapshotIntegrity string

definition stored :: "derived_error + 'a \<Rightarrow> score_store_error + 'a" where
  "stored r = (case r of Inl e \<Rightarrow> Inl (StoreError e) | Inr x \<Rightarrow> Inr x)"

record macro_score_snapshot =
  ms_payload :: score_payload
  ms_hash :: string
  ms_cycle :: string
  ms_origin :: snapshot_origin
  ms_created :: datetime

record score_table_row =
  zr_month :: string
  zr_version :: string
  zr_as_of :: timestamp
  zr_calculated :: timestamp
  zr_hash :: string
  zr_payload :: string
  zr_cycle :: string
  zr_origin :: string
  zr_created :: timestamp

definition score_identity :: "score_table_row \<Rightarrow> string \<times> string \<times> string" where
  "score_identity r = (zr_month r, zr_version r, zr_hash r)"

text \<open>\<open>_canonical_json\<close> of a payload: \<open>allow_nan=False\<close> refuses a number that is not finite.\<close>

type_synonym score_text = "score_payload \<Rightarrow> derived_error + string"

definition insert_macro_score_snapshot ::
    "score_text \<Rightarrow> score_result \<Rightarrow> string \<Rightarrow> snapshot_origin \<Rightarrow> datetime \<Rightarrow> score_table_row list
     \<Rightarrow> score_store_error + bool \<times> score_table_row list" where
  "insert_macro_score_snapshot text_of_payload r cycle origin created_at t =
     bindE (stored (python (utc_datetime created_at))) (\<lambda>created.
     bindE (stored (python (utc_datetime (mr_calculated r)))) (\<lambda>completed.
     if instant created < instant completed then Inl (SnapshotTime completed created)
     else bindE (stored (text_of_payload (macro_score_payload r cycle origin))) (\<lambda>payload.
       let row = \<lparr>zr_month = month_text (mr_month r), zr_version = mr_version r, zr_as_of = isoformat (mr_as_of r),
              zr_calculated = isoformat completed, zr_hash = mr_fingerprint r, zr_payload = payload, zr_cycle = cycle,
              zr_origin = origin_text origin, zr_created = isoformat created\<rparr>
       in Inr (if score_identity row \<in> set (map score_identity t) then (False, t) else (True, t @ [row])))))"

type_synonym score_adapter = "string \<Rightarrow> derived_error + score_payload"

definition matching_fields :: "score_table_row \<Rightarrow> score_payload \<Rightarrow> (string \<times> string \<times> string) list" where
  "matching_fields row p =
     [(''score_month'', zr_month row, mp_month p), (''methodology_version'', zr_version row, mp_version p),
      (''as_of'', zr_as_of row, mp_as_of p), (''calculated_at'', zr_calculated row, mp_calculated p),
      (''inputs_hash'', zr_hash row, mp_hash p), (''calculation_cycle_id'', zr_cycle row, mp_cycle p),
      (''origin'', zr_origin row, mp_origin p)]"

definition score_snapshot_from_row :: "score_adapter \<Rightarrow> score_table_row \<Rightarrow> score_store_error + macro_score_snapshot" where
  "score_snapshot_from_row adapter row =
     bindE (stored (adapter (zr_payload row))) (\<lambda>p.
     case find (\<lambda>(f, a, b). a \<noteq> b) (matching_fields row p) of
       Some (f, _, _) \<Rightarrow> Inl (SnapshotIntegrity f)
     | None \<Rightarrow>
         bindE (stored (origin_of (zr_origin row))) (\<lambda>origin.
         bindE (stored (python (bindE (fromisoformat (zr_created row)) utc_datetime))) (\<lambda>created.
           Inr \<lparr>ms_payload = p, ms_hash = zr_hash row, ms_cycle = zr_cycle row, ms_origin = origin, ms_created = created\<rparr>)))"

text \<open>A month is four digits, a dash and 01 to 12.\<close>

definition is_month_text :: "string \<Rightarrow> bool" where
  "is_month_text s \<longleftrightarrow> length s = 7 \<and> list_all is_digit_char (take 4 s) \<and> s ! 4 = CHR ''-''
     \<and> drop 5 s \<in> {''01'', ''02'', ''03'', ''04'', ''05'', ''06'', ''07'', ''08'', ''09'', ''10'', ''11'', ''12''}"

definition month_date :: "string \<Rightarrow> string \<Rightarrow> string \<Rightarrow> score_store_error + date" where
  "month_date s first_month last_month =
     (if is_month_text s then stored (python (date_fromisoformat (s @ ''-01''))) else Inl (MonthRange first_month last_month))"

definition month_range :: "string \<Rightarrow> string \<Rightarrow> score_store_error + date \<times> date" where
  "month_range s e =
     bindE (month_date s s e) (\<lambda>first. bindE (month_date e s e) (\<lambda>final.
       if final < first then Inl (MonthRange s e) else Inr (first, final)))"

text \<open>The order \<open>calculated_at DESC, inputs_hash DESC, id DESC\<close>, within and across months.\<close>

definition newest_first :: "score_table_row list \<Rightarrow> score_table_row list" where
  "newest_first rows = rev (sort_key (\<lambda>r. (zr_month r, zr_calculated r, zr_hash r)) rows)"

definition production_rows :: "score_table_row list \<Rightarrow> score_table_row list" where
  "production_rows t = filter (\<lambda>r. zr_origin r = origin_text ProductionRefresh) t"

definition first_by_month :: "(string \<times> 'a) list \<Rightarrow> (string \<times> 'a) list" where
  "first_by_month = foldl (\<lambda>d (k, s). if k \<in> fst ` set d then d else d @ [(k, s)]) []"

definition query_macro_score_history ::
    "score_adapter \<Rightarrow> string \<Rightarrow> string \<Rightarrow> score_table_row list \<Rightarrow> score_store_error + macro_score_snapshot list" where
  "query_macro_score_history adapter s e t =
     bindE (month_range s e) (\<lambda>(first, final).
     bindE (mapE (\<lambda>r. bindE (score_snapshot_from_row adapter r) (\<lambda>k. Inr (zr_month r, k)))
         (sort_key zr_month (newest_first
           (filter (\<lambda>r. month_text first \<le> zr_month r \<and> zr_month r \<le> month_text final) (production_rows t))))) (\<lambda>rows.
       Inr (in_key_order (first_by_month rows))))"

definition query_latest_macro_score ::
    "score_adapter \<Rightarrow> score_table_row list \<Rightarrow> score_store_error + macro_score_snapshot option" where
  "query_latest_macro_score adapter t =
     (case newest_first (production_rows t) of
        [] \<Rightarrow> Inr None
      | r # _ \<Rightarrow> bindE (score_snapshot_from_row adapter r) (\<lambda>s. Inr (Some s)))"

text \<open>The newest row of each of the two latest months; only those rows are parsed.\<close>

definition query_latest_macro_score_pair ::
    "score_adapter \<Rightarrow> score_table_row list \<Rightarrow> score_store_error + macro_score_snapshot list" where
  "query_latest_macro_score_pair adapter t =
     mapE (\<lambda>(_, r). score_snapshot_from_row adapter r)
       (take 2 (first_by_month (map (\<lambda>r. (zr_month r, r)) (newest_first (production_rows t)))))"

section \<open>Refreshing the score\<close>

text \<open>
  \<open>refresh_macro_score\<close>: sources at the cutoff, component series, the overlay of the retrospective history,
  normalisation, aggregation, insertion. The two clock readings are arguments.
\<close>

definition refresh_macro_score ::
    "codec \<Rightarrow> ledger_validators \<Rightarrow> payload_adapter \<Rightarrow> (datetime \<Rightarrow> date)
     \<Rightarrow> (datetime \<Rightarrow> component_series list \<Rightarrow> derived_error + component_series list) \<Rightarrow> score_text
     \<Rightarrow> vintage_row list \<Rightarrow> snapshot_row list \<Rightarrow> datetime \<Rightarrow> string \<Rightarrow> datetime \<Rightarrow> datetime \<Rightarrow> score_table_row list
     \<Rightarrow> score_store_error + nat \<times> score_table_row list" where
  "refresh_macro_score c lv adapter zone overlay text_of_payload rows snapshots as_of cycle completed created t =
     bindE (stored (score_cutoff_at zone as_of)) (\<lambda>cutoff.
     bindE (stored (load_macro_score_sources c lv adapter rows snapshots (mc_as_of cutoff))) (\<lambda>sources.
     bindE (stored (build_component_series
         \<lparr>sx_codec = c, sx_zone = zone, sx_sources = sources, sx_cutoff = cutoff\<rparr> (Some cycle))) (\<lambda>built.
     bindE (stored (overlay (mc_as_of cutoff) built)) (\<lambda>series.
     bindE (stored (python (mapE (normalize_component c) series))) (\<lambda>components.
     bindE (case aggregate_macro_score c components cutoff completed of Inl e \<Rightarrow> Inl (ScoringError e) | Inr r \<Rightarrow> Inr r) (\<lambda>r.
     bindE (insert_macro_score_snapshot text_of_payload r cycle ProductionRefresh created t) (\<lambda>(inserted, t').
       Inr (if inserted then 1 else 0, t'))))))))"

section \<open>The summary of two scores\<close>

record dimension_delta =
  dd_key :: string
  dd_label :: string
  dd_previous :: pyfloat
  dd_current :: pyfloat
  dd_delta :: pyfloat

datatype summary_direction = MoreFavorable | LessFavorable | Stable

fun summary_direction_text :: "summary_direction \<Rightarrow> string" where
  "summary_direction_text MoreFavorable = ''more_favorable''"
| "summary_direction_text LessFavorable = ''less_favorable''"
| "summary_direction_text Stable = ''stable''"

record score_summary =
  su_template :: string
  su_previous_month :: string
  su_current_month :: string
  su_previous :: pyfloat
  su_current :: pyfloat
  su_delta :: pyfloat
  su_direction :: string
  su_improving :: "dimension_delta list"
  su_worsening :: "dimension_delta list"
  su_text :: string

text \<open>Texts are lists of code points; the accents of the labels lie in the first 256.\<close>

definition DIMENSION_LABELS :: "(string \<times> string) list" where
  "DIMENSION_LABELS =
     [(''activity'', ''Atividade''), (''inflation'', ''Infla'' @ [CHR 0xE7, CHR 0xE3] @ ''o''),
      (''monetary'', ''Monet'' @ [CHR 0xE1] @ ''ria''), (''fiscal'', ''Fiscal''), (''credit'', ''Cr'' @ [CHR 0xE9] @ ''dito''),
      (''external'', ''Externo'')]"

definition available_component_keys :: "score_payload \<Rightarrow> string set" where
  "available_component_keys p = set (map fst (filter (\<lambda>(k, c). kp_value c \<noteq> None) (mp_components p)))"

definition dimension_change ::
    "score_payload \<Rightarrow> score_payload \<Rightarrow> string \<Rightarrow> py_error + dimension_delta option" where
  "dimension_change current previous key =
     (case (map_option yp_score (map_of (mp_dimensions current) key), map_option yp_score (map_of (mp_dimensions previous) key)) of
        (Some (Some x), Some (Some y)) \<Rightarrow>
          (case map_of DIMENSION_LABELS key of
             None \<Rightarrow> Inl KeyError
           | Some label \<Rightarrow> Inr (Some \<lparr>dd_key = key, dd_label = label, dd_previous = y, dd_current = x, dd_delta = float_sub x y\<rparr>))
      | _ \<Rightarrow> Inr None)"

text \<open>An order on floats that are not NaN.\<close>

fun float_rank :: "pyfloat \<Rightarrow> int \<times> rat" where
  "float_rank (Fin x) = (0, x)"
| "float_rank PosInf = (1, 0)"
| "float_rank NegInf = (- 1, 0)"
| "float_rank NaN = (0, 0)"

definition dimension_deltas ::
    "score_payload \<Rightarrow> score_payload \<Rightarrow> py_error + dimension_delta list \<times> dimension_delta list" where
  "dimension_deltas current previous =
     bindE (mapE (dimension_change current previous)
         (sort (filter (\<lambda>k. k \<in> fst ` set (mp_dimensions previous)) (map fst (mp_dimensions current))))) (\<lambda>found.
       let deltas = somes found;
           improving = filter (\<lambda>d. float_less (Fin 0) (dd_delta d)) deltas;
           worsening = filter (\<lambda>d. float_less (dd_delta d) (Fin 0)) deltas
       in Inr (take 2 (sort_key (\<lambda>d. (float_rank (negate_float (dd_delta d)), dd_key d)) improving),
               take 2 (sort_key (\<lambda>d. (float_rank (dd_delta d), dd_key d)) worsening)))"

text \<open>\<open>f"{value:+.3f}"\<close> with a decimal comma: the exact value rounded to thousandths, ties to even.\<close>

definition three_digits :: "int \<Rightarrow> string" where
  "three_digits n = (if n < 10 then ''00'' else if n < 100 then ''0'' else []) @ show_int n"

fun format_delta :: "pyfloat \<Rightarrow> string" where
  "format_delta (Fin x) =
     (let n = round_even (\<bar>x\<bar> * 1000)
      in (if x < 0 then ''-'' else ''+'') @ show_int (n div 1000) @ '','' @ three_digits (n mod 1000))"
| "format_delta PosInf = ''+inf''"
| "format_delta NegInf = ''-inf''"
| "format_delta NaN = ''+nan''"

definition strip_plus :: "string \<Rightarrow> string" where
  "strip_plus s = dropWhile (\<lambda>c. c = CHR ''+'') s"

definition join_with :: "string \<Rightarrow> string list \<Rightarrow> string" where
  "join_with sep parts = (case parts of [] \<Rightarrow> [] | p # ps \<Rightarrow> p @ concat (map (\<lambda>s. sep @ s) ps))"

definition delta_texts :: "string \<Rightarrow> dimension_delta list \<Rightarrow> string list" where
  "delta_texts intro_text ds =
     (if ds = [] then []
      else [intro_text @ join_with '', '' (map (\<lambda>d. dd_label d @ '' ('' @ format_delta (dd_delta d) @ '' pontos)'') ds) @ ''.''])"

definition headline :: "pyfloat \<Rightarrow> string \<Rightarrow> string \<Rightarrow> string" where
  "headline delta previous_month current_month =
     (let between = '' entre '' @ previous_month @ '' e '' @ current_month @ ''.''
      in if float_less (Fin 0) delta
         then ''Macro Score ficou '' @ strip_plus (format_delta delta) @ '' pontos mais favor'' @ [CHR 0xE1] @ ''vel'' @ between
         else if float_less delta (Fin 0)
         then ''Macro Score ficou '' @ format_delta (float_abs delta) @ '' pontos menos favor'' @ [CHR 0xE1] @ ''vel'' @ between
         else ''Macro Score permaneceu est'' @ [CHR 0xE1] @ ''vel'' @ between)"

text \<open>\<open>None\<close> is the unavailable summary, whose only reason is \<open>insufficient_equivalent_cycles\<close>.\<close>

definition build_macro_score_summary ::
    "macro_score_snapshot \<Rightarrow> macro_score_snapshot \<Rightarrow> py_error + score_summary option" where
  "build_macro_score_summary current previous =
     (let p = ms_payload current; q = ms_payload previous
      in if ms_origin current \<noteq> ProductionRefresh \<or> ms_origin previous \<noteq> ProductionRefresh
           \<or> mp_month p \<le> mp_month q \<or> mp_version p \<noteq> mp_version q
           \<or> available_component_keys p \<noteq> available_component_keys q then Inr None
         else case (mp_score p, mp_score q) of
           (Some x, Some y) \<Rightarrow>
             if \<not> is_finite x \<or> \<not> is_finite y then Inr None
             else (let delta = float_sub x y
               in bindE (dimension_deltas p q) (\<lambda>(improving, worsening). Inr (Some
                 \<lparr>su_template = ''0.1.0'', su_previous_month = mp_month q, su_current_month = mp_month p, su_previous = y,
                  su_current = x, su_delta = delta,
                  su_direction = summary_direction_text (if float_less (Fin 0) delta then MoreFavorable
                    else if float_less delta (Fin 0) then LessFavorable else Stable),
                  su_improving = improving, su_worsening = worsening,
                  su_text = join_with '' '' ([headline delta (mp_month q) (mp_month p)]
                    @ delta_texts (''Maiores varia'' @ [CHR 0xE7, CHR 0xF5] @ ''es favor'' @ [CHR 0xE1] @ ''veis: '') improving
                    @ delta_texts (''Maiores varia'' @ [CHR 0xE7, CHR 0xF5] @ ''es desfavor'' @ [CHR 0xE1] @ ''veis: '') worsening
                    @ [''Varia'' @ [CHR 0xE7, CHR 0xE3] @ ''o observada, sem atribui'' @ [CHR 0xE7, CHR 0xE3] @ ''o causal.''])\<rparr>)))
         | _ \<Rightarrow> Inr None)"

end
