(* ===== verification/ScoreStoreClaims.thy ===== *)
theory ScoreStoreClaims
  imports ScoreStore ScoreClaims
begin

text \<open>The property of the score table: the newest score that was stored is the one the API reads.\<close>

lemma sort_key_append_max:
  assumes "\<forall>y \<in> set xs. f y < f x"
  shows "sort_key f (xs @ [x]) = sort_key f xs @ [x]"
proof (rule properties_for_sort_key)
  show "mset (sort_key f xs @ [x]) = mset (xs @ [x])" by simp
  show "filter (\<lambda>y. f k = f y) (sort_key f xs @ [x]) = filter (\<lambda>y. f k = f y) (xs @ [x])" if "k \<in> set (sort_key f xs @ [x])" for k
    using sort_key_stable [of f "f k" xs] by (simp add: eq_commute)
  show "sorted (map f (sort_key f xs @ [x]))" using assms by (auto simp: sorted_append less_imp_le)
qed

lemma aggregate_fields:
  assumes "aggregate_macro_score c ks cutoff calculated = Inr r"
  shows "is_utc (mr_calculated r)" "utc_datetime calculated = Inr (mr_calculated r)" "mr_month r = mc_month cutoff"
proof -
  show u: "utc_datetime calculated = Inr (mr_calculated r)" and "mr_month r = mc_month cutoff"
    using assms by (auto simp: aggregate_macro_score_def Let_def bindE_Inr_iff scored_def split: sum.splits if_splits)
  show "is_utc (mr_calculated r)" using utc_datetime_utc [OF u] by blast
qed


text \<open>A score of June 2025 over a table that holds the score of May.\<close>

definition ex_may :: score_table_row where
  "ex_may =
     \<lparr>zr_month = ''2025-05'', zr_version = MACRO_SCORE_VERSION, zr_as_of = ''2025-05-10T12:00:00+00:00'',
      zr_calculated = ''2025-05-10T12:00:00+00:00'', zr_hash = ''00'', zr_payload = ''{}'', zr_cycle = ''cycle-0'',
      zr_origin = ''production_refresh'', zr_created = ''2025-05-10T12:00:00+00:00''\<rparr>"


end
