(* ===== verification/CandidateGate.thy ===== *)
theory CandidateGate
  imports IngestionPolicy SgsModels Timestamps IsoText
begin

text \<open>
  The gates in front of alternative sources: the approval that binds a reviewed proof to a candidate
  (\<open>candidate_eligibility.py\<close>), the profile it is about (\<open>source_candidates.py\<close>) and the readiness report of the rollout
  (\<open>source_rollout.py\<close>). The text of a parser function, \<open>inspect.getsource\<close>, is an argument. The registry of profiles
  is an argument too.
\<close>

section \<open>Profiles\<close>

datatype candidate_status = CandUnverified | CandShadow | CandEligible | CandDisabled

fun candidate_status_text :: "candidate_status \<Rightarrow> string" where
  "candidate_status_text CandUnverified = ''unverified''"
| "candidate_status_text CandShadow = ''shadow''"
| "candidate_status_text CandEligible = ''eligible''"
| "candidate_status_text CandDisabled = ''disabled''"

datatype shadow_adapter = SgsCsv | SidraV3

fun shadow_adapter_text :: "shadow_adapter \<Rightarrow> string" where
  "shadow_adapter_text SgsCsv = ''sgs_csv_v1''"
| "shadow_adapter_text SidraV3 = ''sidra_v3_v1''"

record candidate_profile =
  cf_id :: string
  cf_source :: string
  cf_contracts :: "string list"
  cf_contract_version :: string
  cf_code_version :: string
  cf_host :: "string option"
  cf_path :: "string option"
  cf_parameters :: "(string \<times> string) list"
  cf_adapter :: "shadow_adapter option"
  cf_unit :: string
  cf_frequency :: string
  cf_calendar :: string
  cf_fields :: "string list"
  cf_priority :: int
  cf_max_bytes :: int
  cf_deadline :: rat
  cf_request_cap :: int
  cf_quota :: string
  cf_failure_domain :: string
  cf_official_url :: "string option"
  cf_license_url :: "string option"
  cf_license :: string
  cf_status :: candidate_status
  cf_enabled :: bool
  cf_disabled_reason :: "string option"
  cf_proof :: "string option"
  cf_reviewed :: bool

definition ingestion_eligible :: "candidate_profile \<Rightarrow> bool" where
  "ingestion_eligible f \<longleftrightarrow>
     cf_status f = CandEligible \<and> cf_enabled f \<and> cf_reviewed f \<and> cf_proof f \<noteq> None \<and> cf_license f = ''verified''"

text \<open>\<open>asdict\<close>, the keys the semantic hash leaves out, and the rest.\<close>

definition semantic_json :: "candidate_profile \<Rightarrow> (string \<times> json) list" where
  "semantic_json f =
     [(''candidate_id'', JStr (cf_id f)), (''source'', JStr (cf_source f)),
      (''source_contract_ids'', JArr (map JStr (cf_contracts f))), (''source_contract_version'', JStr (cf_contract_version f)),
      (''code_version'', JStr (cf_code_version f)), (''endpoint_host'', json_opt (cf_host f)),
      (''endpoint_path_template'', json_opt (cf_path f)),
      (''fixed_parameters'', JArr (map (\<lambda>(k, v). JArr [JStr k, JStr v]) (cf_parameters f))),
      (''adapter'', json_opt (map_option shadow_adapter_text (cf_adapter f))), (''value_unit'', JStr (cf_unit f)),
      (''frequency'', JStr (cf_frequency f)), (''reference_calendar'', JStr (cf_calendar f)),
      (''field_coverage'', JArr (map JStr (cf_fields f))), (''max_bytes'', JNum (cf_max_bytes f)),
      (''deadline_seconds'', JFloat (quotient_of (cf_deadline f))), (''request_cap'', JNum (cf_request_cap f)),
      (''quota_scope'', JStr (cf_quota f)), (''failure_domain'', JStr (cf_failure_domain f)),
      (''official_evidence_url'', json_opt (cf_official_url f))]"

definition gate_json :: "candidate_profile \<Rightarrow> (string \<times> json) list" where
  "gate_json f =
     [(''priority'', JNum (cf_priority f)), (''license_evidence_url'', json_opt (cf_license_url f)),
      (''license_status'', JStr (cf_license f)), (''status'', JStr (candidate_status_text (cf_status f))),
      (''enabled_for_ingestion'', JBool (cf_enabled f)), (''disabled_reason'', json_opt (cf_disabled_reason f)),
      (''approved_proof_sha256'', json_opt (cf_proof f)), (''code_reviewed'', JBool (cf_reviewed f))]"

definition profile_sha256 :: "codec \<Rightarrow> candidate_profile \<Rightarrow> string" where
  "profile_sha256 c f = sha256 c (dumps c (json_obj (semantic_json f @ gate_json f)))"

definition profile_semantic_sha256 :: "codec \<Rightarrow> candidate_profile \<Rightarrow> string" where
  "profile_semantic_sha256 c f = sha256 c (dumps c (json_obj (semantic_json f)))"

section \<open>Approvals\<close>

record candidate_approval =
  va_candidate :: string
  va_contract_version :: string
  va_profile_sha :: string
  va_parser_sha :: string
  va_proof_sha :: string
  va_references :: int
  va_latest :: string
  va_reviewed :: bool
  va_license :: bool
  va_cohort :: bool

text \<open>Production has no approval.\<close>

definition APPROVED_CANDIDATE_APPROVALS :: "(string \<times> candidate_approval) list" where
  "APPROVED_CANDIDATE_APPROVALS = []"

definition starts_with :: "string \<Rightarrow> string \<Rightarrow> bool" where
  "starts_with p s \<longleftrightarrow> take (length p) s = p"

definition parser_functions :: "string \<Rightarrow> (string \<times> string) list" where
  "parser_functions candidate_id =
     (if starts_with ''bcb_sgs:csv:'' candidate_id then
        [(''bcb_sgs'', ''_validate_sgs_payload''), (''bcb_sgs'', ''_normalize_window_records''),
         (''shadow_ingestion'', ''parse_sgs_csv''), (''bcb_sgs'', ''_candidate_sgs_records''),
         (''bcb_sgs'', ''_sgs_acquired_batch'')]
      else if starts_with ''ibge_sidra:v3:'' candidate_id then
        [(''ibge_sidra'', ''_parse_row''), (''ibge_sidra'', ''parse_sidra_payload''), (''shadow_ingestion'', ''_sidra_v1_primary''),
         (''shadow_ingestion'', ''_sidra_category''), (''shadow_ingestion'', ''_sidra_v3_series_rows''),
         (''shadow_ingestion'', ''_sidra_observations''), (''shadow_ingestion'', ''parse_sidra_v3''),
         (''ibge_sidra'', ''_sidra_as_of''), (''ibge_sidra'', ''_sidra_candidate_observations''),
         (''ibge_sidra'', ''_sidra_reference_label''), (''ibge_sidra'', ''_sidra_acquired_batch'')]
      else [])"

definition newlines :: string where
  "newlines = [CHR 10, CHR 10]"

definition join_sources :: "string list \<Rightarrow> string" where
  "join_sources ts = (case ts of [] \<Rightarrow> [] | s # rest \<Rightarrow> s @ concat (map (\<lambda>t. newlines @ t) rest))"

definition parser_semantic_sha256 :: "codec \<Rightarrow> (string \<times> string \<Rightarrow> string) \<Rightarrow> string \<Rightarrow> string" where
  "parser_semantic_sha256 c source_of candidate_id =
     (if parser_functions candidate_id = [] then []
      else sha256 c (join_sources (map source_of (parser_functions candidate_id))))"

text \<open>\<open>re.fullmatch("[0-9a-f]{64}")\<close>\<close>

definition is_sha256 :: "string \<Rightarrow> bool" where
  "is_sha256 s \<longleftrightarrow> length s = 64 \<and> list_all (\<lambda>k. is_digit_char k \<or> code_in 97 102 k) s"

type_synonym approvals = "(string \<times> candidate_approval) list"

definition approval_blocker ::
    "codec \<Rightarrow> (string \<times> string \<Rightarrow> string) \<Rightarrow> candidate_profile \<Rightarrow> candidate_approval option \<Rightarrow> string \<Rightarrow> approvals
     \<Rightarrow> string option" where
  "approval_blocker c source_of f approval contract_id approvals =
     (case (case approval of Some a \<Rightarrow> Some a | None \<Rightarrow> map_of approvals (cf_id f)) of
        None \<Rightarrow> Some ''no_static_candidate_approval''
      | Some a \<Rightarrow>
          if cf_id f \<noteq> va_candidate a then Some ''candidate_id_mismatch''
          else if cf_status f \<noteq> CandEligible \<or> \<not> cf_enabled f then Some ''candidate_ingestion_disabled''
          else if cf_adapter f \<notin> {Some SgsCsv, Some SidraV3} then Some ''candidate_adapter_unsupported''
          else if contract_id \<notin> set (cf_contracts f) then Some ''source_contract_mismatch''
          else if cf_contract_version f \<noteq> va_contract_version a then Some ''source_contract_version_stale''
          else if profile_semantic_sha256 c f \<noteq> va_profile_sha a then Some ''candidate_profile_semantics_changed''
          else if parser_semantic_sha256 c source_of (cf_id f) \<noteq> va_parser_sha a
          then Some ''candidate_parser_semantics_changed''
          else if \<not> cf_reviewed f \<or> \<not> va_reviewed a \<or> cf_proof f \<in> {None, Some []} \<or> cf_proof f \<noteq> Some (va_proof_sha a)
            \<or> \<not> is_sha256 (va_proof_sha a) then Some ''reviewed_proof_not_bound''
          else if cf_license f \<noteq> ''verified'' \<or> \<not> va_license a then Some ''license_evidence_unverified''
          else if va_references a < 10 then Some ''proof_has_fewer_than_10_references''
          else if va_latest a = [] then Some ''proof_latest_reference_missing''
          else if \<not> va_cohort a then Some ''complete_cohort_not_proven'' else None)"

section \<open>Readiness\<close>

datatype fallback_mode = ModeOff | ModeShadow | ModeCanary | ModeEnabled

fun fallback_mode_text :: "fallback_mode \<Rightarrow> string" where
  "fallback_mode_text ModeOff = ''off''"
| "fallback_mode_text ModeShadow = ''shadow''"
| "fallback_mode_text ModeCanary = ''canary''"
| "fallback_mode_text ModeEnabled = ''enabled''"

definition FALLBACK_MODES :: "fallback_mode list" where
  "FALLBACK_MODES = [ModeOff, ModeShadow, ModeCanary, ModeEnabled]"

text \<open>The mode of the environment variable and whether its value was invalid.\<close>

definition configured_mode :: "string option \<Rightarrow> fallback_mode \<times> bool" where
  "configured_mode variable =
     (let raw = (case variable of None \<Rightarrow> ''off'' | Some s \<Rightarrow> s)
      in case find (\<lambda>m. fallback_mode_text m = lower (strip raw)) FALLBACK_MODES of
           Some m \<Rightarrow> (m, False) | None \<Rightarrow> (ModeOff, True))"

record access_state =
  xs_state :: "string option"
  xs_retry :: "string option"
  xs_probe :: "string option"

definition zulu_offset :: "string \<Rightarrow> string" where
  "zulu_offset s = concat (map (\<lambda>k. if k = CHR ''Z'' then ''+00:00'' else [k]) s)"

text \<open>A cooldown whose instant has passed does not count; one that cannot be read, or is naive, does.\<close>

definition pending_retry :: "datetime \<Rightarrow> access_state \<Rightarrow> string option" where
  "pending_retry now s =
     (case xs_retry s of
        None \<Rightarrow> None
      | Some t \<Rightarrow>
          (case fromisoformat (zulu_offset t) of
             Inr d \<Rightarrow> if offset d \<noteq> None \<and> instant d \<le> instant now then None else Some t
           | Inl _ \<Rightarrow> Some t))"

definition is_cooling :: "datetime \<Rightarrow> access_state option \<Rightarrow> bool" where
  "is_cooling now state \<longleftrightarrow>
     (case state of
        None \<Rightarrow> False
      | Some s \<Rightarrow> xs_state s \<in> {Some ''open'', Some ''half_open''} \<and> pending_retry now s \<noteq> None
                  \<or> pending_retry now s \<noteq> None)"

record access_summary =
  xu_state :: string
  xu_retry :: "string option"
  xu_probing :: bool

definition state_summary :: "access_state option \<Rightarrow> access_summary" where
  "state_summary state =
     (case state of
        None \<Rightarrow> \<lparr>xu_state = ''unknown'', xu_retry = None, xu_probing = False\<rparr>
      | Some s \<Rightarrow> \<lparr>xu_state = (case xs_state s of None \<Rightarrow> ''unknown'' | Some t \<Rightarrow> t), xu_retry = xs_retry s,
                  xu_probing = (xs_probe s \<noteq> None \<and> xs_probe s \<noteq> Some [])\<rparr>)"

definition evidence_valid :: "candidate_approval option \<Rightarrow> bool" where
  "evidence_valid approval \<longleftrightarrow>
     (case approval of None \<Rightarrow> False
      | Some a \<Rightarrow> is_sha256 (va_proof_sha a) \<and> 10 \<le> va_references a \<and> va_latest a \<noteq> [])"

definition license_proved :: "candidate_approval option \<Rightarrow> bool" where
  "license_proved approval \<longleftrightarrow> (case approval of None \<Rightarrow> False | Some a \<Rightarrow> va_license a)"

text \<open>The list of blockers as the code appends them; only the approval's blocker is kept out when it is there already.\<close>

definition readiness_blockers ::
    "candidate_profile \<Rightarrow> fallback_mode \<Rightarrow> bool \<Rightarrow> candidate_approval option \<Rightarrow> string option \<Rightarrow> bool \<Rightarrow> string list" where
  "readiness_blockers f mode misconfigured approval blocker cooling =
     (let found = (if misconfigured then [''fallback_mode_invalid_defaulted_off''] else [])
            @ (if mode = ModeOff then [''fallback_mode_off''] else [])
            @ (if cf_adapter f = None then [''candidate_parser_unsupported''] else [])
            @ (if cf_official_url f = None then [''official_source_evidence_missing''] else [])
            @ (if \<not> license_proved approval \<or> cf_license f \<noteq> ''verified'' then [''license_evidence_unverified''] else [])
            @ (if approval = None then [''no_static_candidate_approval'']
               else if \<not> evidence_valid approval then [''proof_evidence_incomplete''] else [])
      in found
         @ (case blocker of None \<Rightarrow> [] | Some b \<Rightarrow> if b \<noteq> [] \<and> b \<notin> set found then [b] else [])
         @ (if \<not> cf_enabled f then [''candidate_ingestion_disabled''] else [])
         @ (if \<not> cf_reviewed f then [''candidate_code_unreviewed''] else [])
         @ (if cooling then [''candidate_circuit_or_quota_cooldown''] else []))"

record readiness =
  rd_candidate :: string
  rd_source :: string
  rd_contracts :: "string list"
  rd_contract_version :: string
  rd_code_version :: string
  rd_profile_sha :: string
  rd_parser_supported :: bool
  rd_official_url :: "string option"
  rd_license :: string
  rd_license_available :: bool
  rd_proof_sha :: "string option"
  rd_evidence_valid :: bool
  rd_references :: int
  rd_latest :: "string option"
  rd_enabled :: bool
  rd_reviewed :: bool
  rd_mode :: string
  rd_primary :: access_summary
  rd_access :: access_summary
  rd_ready :: bool
  rd_blockers :: "string list"
  rd_checked :: string

text \<open>\<open>list(dict.fromkeys(..))\<close> keeps the first of equal entries.\<close>

fun first_occurrences :: "string list \<Rightarrow> string list" where
  "first_occurrences [] = []"
| "first_occurrences (x # xs) = x # filter (\<lambda>y. y \<noteq> x) (first_occurrences xs)"

definition candidate_readiness ::
    "codec \<Rightarrow> (string \<times> string \<Rightarrow> string) \<Rightarrow> candidate_profile \<Rightarrow> fallback_mode \<Rightarrow> bool \<Rightarrow> approvals
     \<Rightarrow> access_state option \<Rightarrow> access_state option \<Rightarrow> datetime \<Rightarrow> readiness" where
  "candidate_readiness c source_of f mode misconfigured approvals primary candidate now =
     (let approval = map_of approvals (cf_id f);
          contract_id = (case cf_contracts f of [] \<Rightarrow> [] | k # _ \<Rightarrow> k);
          blocker = approval_blocker c source_of f approval contract_id approvals;
          blockers = readiness_blockers f mode misconfigured approval blocker (is_cooling now candidate)
      in \<lparr>rd_candidate = cf_id f, rd_source = cf_source f, rd_contracts = cf_contracts f,
          rd_contract_version = cf_contract_version f, rd_code_version = cf_code_version f,
          rd_profile_sha = profile_semantic_sha256 c f, rd_parser_supported = (cf_adapter f \<noteq> None),
          rd_official_url = cf_official_url f, rd_license = cf_license f, rd_license_available = (cf_license_url f \<noteq> None),
          rd_proof_sha = map_option va_proof_sha approval, rd_evidence_valid = evidence_valid approval,
          rd_references = (case approval of None \<Rightarrow> 0 | Some a \<Rightarrow> va_references a),
          rd_latest = map_option va_latest approval, rd_enabled = cf_enabled f, rd_reviewed = cf_reviewed f,
          rd_mode = fallback_mode_text mode, rd_primary = state_summary primary, rd_access = state_summary candidate,
          rd_ready = (blockers = []), rd_blockers = first_occurrences blockers, rd_checked = isoformat now\<rparr>)"

record rollout_report =
  ro_mode :: string
  ro_misconfigured :: bool
  ro_acquisition :: bool
  ro_approvals :: nat
  ro_candidates :: nat
  ro_ready :: nat
  ro_items :: "readiness list"

definition readiness_snapshot ::
    "codec \<Rightarrow> (string \<times> string \<Rightarrow> string) \<Rightarrow> candidate_profile list \<Rightarrow> fallback_mode \<Rightarrow> bool
     \<Rightarrow> (string \<times> access_state) list \<Rightarrow> datetime \<Rightarrow> rollout_report" where
  "readiness_snapshot c source_of registry mode misconfigured states now =
     (let items = map (\<lambda>f. candidate_readiness c source_of f mode misconfigured APPROVED_CANDIDATE_APPROVALS
            (map_of states (cf_source f @ '':primary:primary'')) (map_of states (cf_source f @ '':candidate:'' @ cf_id f)) now)
          registry
      in \<lparr>ro_mode = fallback_mode_text mode, ro_misconfigured = misconfigured, ro_acquisition = (mode = ModeEnabled),
          ro_approvals = length APPROVED_CANDIDATE_APPROVALS, ro_candidates = length items,
          ro_ready = length (filter rd_ready items), ro_items = items\<rparr>)"

text \<open>The property of the candidate gates: they fail closed.\<close>

lemma not_sha256_Nil: "is_sha256 s \<Longrightarrow> s \<noteq> []"
  by (auto simp: is_sha256_def)

definition approval_binds ::
    "codec \<Rightarrow> (string \<times> string \<Rightarrow> string) \<Rightarrow> candidate_profile \<Rightarrow> candidate_approval \<Rightarrow> bool" where
  "approval_binds c source_of f a \<longleftrightarrow>
     va_candidate a = cf_id f \<and> va_contract_version a = cf_contract_version f
     \<and> va_profile_sha a = profile_semantic_sha256 c f \<and> va_parser_sha a = parser_semantic_sha256 c source_of (cf_id f)
     \<and> cf_proof f = Some (va_proof_sha a) \<and> is_sha256 (va_proof_sha a) \<and> va_reviewed a \<and> va_license a
     \<and> 10 \<le> va_references a \<and> va_latest a \<noteq> [] \<and> va_cohort a"

lemma approval_blocker_None:
  "approval_blocker c source_of f (Some a) contract_id approvals = None \<longleftrightarrow>
     approval_binds c source_of f a \<and> ingestion_eligible f \<and> cf_adapter f \<noteq> None \<and> contract_id \<in> set (cf_contracts f)"
proof -
  have adapter: "cf_adapter f = Some SgsCsv \<or> cf_adapter f = Some SidraV3 \<or> cf_adapter f = None"
  proof (cases "cf_adapter f")
    case (Some x)
    then show ?thesis by (cases x) auto
  qed simp
  show ?thesis
    using not_sha256_Nil [of "va_proof_sha a"] adapter
    by (auto simp: approval_blocker_def approval_binds_def ingestion_eligible_def)
qed

lemma approval_blocker_text: "approval_blocker c source_of f approval contract_id approvals \<noteq> Some []"
  by (simp add: approval_blocker_def split: option.split)

lemma readiness_blockers_Nil:
  assumes "blocker \<noteq> Some []"
  shows "readiness_blockers f mode misconfigured approval blocker cooling = [] \<longleftrightarrow>
    blocker = None \<and> \<not> misconfigured \<and> mode \<noteq> ModeOff \<and> cf_adapter f \<noteq> None \<and> cf_official_url f \<noteq> None
    \<and> license_proved approval \<and> cf_license f = ''verified'' \<and> evidence_valid approval \<and> cf_enabled f \<and> cf_reviewed f
    \<and> \<not> cooling"
proof -
  have "evidence_valid approval \<Longrightarrow> approval \<noteq> None" by (auto simp: evidence_valid_def split: option.splits)
  then show ?thesis using assms
    by (cases blocker) (auto simp: readiness_blockers_def Let_def)
qed

text \<open>C38: The candidate gates fail closed. The readiness report calls an alternative source ready exactly when the
  fallback mode parsed and is not off, the profile is eligible for ingestion, has a decoder, a contract and an official source, an
  approval of exactly this candidate binds its contract version, the hash of its semantics, the hash of its parsers and its
  proof, with at least ten references, a complete cohort and a verified license, and its access is not cooling down.
  Without an approval nothing is ready, whatever the mode: no candidate of the production report is.\<close>

theorem candidate_ready_iff_every_gate_passed:
  "(rd_ready (candidate_readiness c source_of f mode misconfigured approvals primary candidate now) \<longleftrightarrow>
      \<not> misconfigured \<and> mode \<noteq> ModeOff \<and> ingestion_eligible f \<and> cf_adapter f \<noteq> None \<and> cf_contracts f \<noteq> []
      \<and> cf_official_url f \<noteq> None \<and> \<not> is_cooling now candidate
      \<and> (\<exists>a. map_of approvals (cf_id f) = Some a \<and> approval_binds c source_of f a))
   \<and> ro_ready (readiness_snapshot c source_of registry mode misconfigured states now) = 0"
proof
  let ?k = "case cf_contracts f of [] \<Rightarrow> [] | k # _ \<Rightarrow> k"
  have k: "?k \<in> set (cf_contracts f) \<longleftrightarrow> cf_contracts f \<noteq> []" by (cases "cf_contracts f") auto
  note blockers = readiness_blockers_Nil [OF approval_blocker_text]
  show iff: "rd_ready (candidate_readiness c source_of f mode misconfigured approvals primary candidate now) \<longleftrightarrow>
      \<not> misconfigured \<and> mode \<noteq> ModeOff \<and> ingestion_eligible f \<and> cf_adapter f \<noteq> None \<and> cf_contracts f \<noteq> []
      \<and> cf_official_url f \<noteq> None \<and> \<not> is_cooling now candidate
      \<and> (\<exists>a. map_of approvals (cf_id f) = Some a \<and> approval_binds c source_of f a)"
  proof (cases "map_of approvals (cf_id f)")
    case None
    then show ?thesis by (simp add: candidate_readiness_def Let_def blockers license_proved_def)
  next
    case (Some a)
    then show ?thesis
      by (auto simp: candidate_readiness_def Let_def blockers approval_blocker_None k license_proved_def evidence_valid_def
          approval_binds_def ingestion_eligible_def)
  qed
  have "\<not> rd_ready (candidate_readiness c source_of g mode misconfigured APPROVED_CANDIDATE_APPROVALS p q now)" for g p q
    by (simp add: candidate_readiness_def Let_def blockers license_proved_def APPROVED_CANDIDATE_APPROVALS_def)
  then show "ro_ready (readiness_snapshot c source_of registry mode misconfigured states now) = 0"
    by (simp add: readiness_snapshot_def Let_def filter_empty_conv)
qed

end
