(* ===== verification/Freshness.thy ===== *)
theory Freshness
  imports ScoreModels
begin

text \<open>
  Calendar interpretation for reference-period freshness (\<open>reference_freshness.py\<close>). Arguments that are not of the
  type the code tests for are refused; \<open>None\<close> stands for such a value.
\<close>

record reference_freshness =
  rf_basis :: date
  rf_kind :: string
  rf_deadline :: date
  rf_age :: int
  rf_stale :: bool

definition end_of_month :: "date \<Rightarrow> int \<Rightarrow> date" where
  "end_of_month d m = Date (year d) m (month_length (is_leap (year d)) m)"

definition FRESHNESS_FREQUENCIES :: "string list" where
  "FRESHNESS_FREQUENCIES = [''daily'', ''market'', ''monthly'', ''moving_quarter'', ''quarterly'', ''annual'']"

text \<open>The date a reference stands for and its name.\<close>

definition freshness_basis :: "date \<Rightarrow> string \<Rightarrow> string \<Rightarrow> string \<Rightarrow> int \<Rightarrow> (date \<times> string) option" where
  "freshness_basis reference freq how identity code =
     (if how = ''full_period'' then
        (if code = 226 \<and> identity = ''full_period'' \<and> freq = ''monthly'' then Some (reference, ''eligible_period_start'') else None)
      else if identity \<noteq> ''point'' then None
      else if freq = ''monthly'' then Some (end_of_month reference (month reference), ''observation_month_end'')
      else if freq = ''moving_quarter'' then Some (end_of_month reference (month reference), ''reference_month_end'')
      else if freq = ''quarterly'' then
        Some (end_of_month reference (((month reference - 1) div 3 + 1) * 3), ''calendar_quarter_end'')
      else if freq = ''annual'' then Some (Date (year reference) 12 31, ''calendar_year_end'')
      else if freq = ''daily'' \<or> freq = ''market'' then Some (reference, ''observation_date'') else None)"

definition resolve_reference_freshness ::
    "date \<Rightarrow> date \<Rightarrow> string option \<Rightarrow> string option \<Rightarrow> int option \<Rightarrow> int option \<Rightarrow> string option \<Rightarrow> reference_freshness option" where
  "resolve_reference_freshness reference as_of frequency_arg method_arg days_arg code_arg identity_arg =
     (case (frequency_arg, method_arg, days_arg, code_arg, identity_arg) of
        (Some freq, Some how, Some days, Some code, Some identity) \<Rightarrow>
          if code < 1 \<or> identity \<notin> {''point'', ''full_period''} \<or> days < 1 \<or> freq \<notin> set FRESHNESS_FREQUENCIES
            \<or> how \<notin> {''date_range'', ''full_period''} \<or> as_of < reference then None
          else (case freshness_basis reference freq how identity code of
            None \<Rightarrow> None
          | Some (basis, kind) \<Rightarrow>
              (case add_days basis days of
                 Inl _ \<Rightarrow> None
               | Inr deadline \<Rightarrow> Some \<lparr>rf_basis = basis, rf_kind = kind, rf_deadline = deadline,
                   rf_age = days_between as_of basis, rf_stale = (deadline < as_of)\<rparr>))
      | _ \<Rightarrow> None)"

text \<open>A reference is stale exactly when it is older than the days it may be.\<close>

lemma stale_iff_older:
  assumes "resolve_reference_freshness reference as_of f m (Some days) k i = Some r" "valid_date as_of"
  shows "rf_stale r \<longleftrightarrow> days < rf_age r"
proof -
  obtain basis deadline where d: "add_days basis days = Inr deadline" and
    r: "rf_stale r = (deadline < as_of)" "rf_age r = days_between as_of basis"
    using assms(1) by (auto simp: resolve_reference_freshness_def split: option.splits if_splits sum.splits)
  have "valid_date deadline" "ordinal deadline = ordinal basis + days"
    using d ordinal_from_ordinal [of "ordinal basis + days"] by (auto simp: add_days_def Let_def split: if_splits)
  then show ?thesis using ordinal_less_iff [OF _ assms(2), of deadline] r by (auto simp: days_between_def)
qed

end
