(* ===== verification/ScoreOverlay.thy ===== *)
theory ScoreOverlay
  imports ScoreStore
begin

text \<open>
  The overlay of reconstructed monthly values on the history of the components
  (\<open>overlay_retrospective_history\<close> and its helpers in \<open>macro_score/retrospective.py\<close>), and the verification of the DI maturities
  such a value was computed from.
\<close>

section \<open>Verified maturities\<close>

record di_instrument =
  in_report :: date
  in_symbol :: string
  in_security :: string
  in_fin_id :: string
  in_maturity :: date
  in_start :: "date option"
  in_finish :: "date option"
  in_hash :: string
  in_source_name :: string
  in_message :: string
  in_message_id :: string
  in_captured :: datetime
  in_available :: datetime
  in_basis :: string

definition INSTRUMENT_BASIS :: string where
  "INSTRUMENT_BASIS = ''b3_instrument_snapshot_v1''"

definition traded_on :: "di_instrument \<Rightarrow> date \<Rightarrow> bool" where
  "traded_on k d \<longleftrightarrow> (case in_start k of None \<Rightarrow> True | Some s \<Rightarrow> s \<le> d) \<and> (case in_finish k of None \<Rightarrow> True | Some e \<Rightarrow> d \<le> e)"

definition is_text :: "json option \<Rightarrow> bool" where
  "is_text v \<longleftrightarrow> (case v of Some (JStr _) \<Rightarrow> True | _ \<Rightarrow> False)"

definition registry_proves_source :: "(string \<times> json) list \<Rightarrow> di_instrument list \<Rightarrow> date \<Rightarrow> date \<Rightarrow> bool" where
  "registry_proves_source source registry trade_date maturity =
     list_ex (\<lambda>k. map_of source ''symbol'' = Some (JStr (in_symbol k))
         \<and> map_of source ''security_id'' \<in> {Some (JStr (in_fin_id k)), Some (JStr (in_security k))}
         \<and> map_of source ''instrument_source_hash'' = Some (JStr (in_hash k))
         \<and> map_of source ''instrument_source_name'' = Some (JStr (in_source_name k))
         \<and> map_of source ''instrument_report_date'' = Some (JStr (date_isoformat (in_report k)))
         \<and> in_maturity k = maturity \<and> map_of source ''fin_instrm_id'' = Some (JStr (in_fin_id k))
         \<and> map_of source ''instrument_isin'' = Some (JStr (in_security k))
         \<and> map_of source ''instrument_available_at'' = Some (JStr (isoformat (in_available k)))
         \<and> traded_on k trade_date \<and> in_basis k = INSTRUMENT_BASIS \<and> in_message k = ''bvmf.100.02'') registry"

definition provenance_complete :: "(string \<times> json) list \<Rightarrow> bool" where
  "provenance_complete source \<longleftrightarrow>
     map_of source ''maturity_basis'' = Some (JStr INSTRUMENT_BASIS)
     \<and> map_of source ''expiry_field'' = Some (JStr ''FutrCtrctsInf/XprtnDt'')
     \<and> is_text (map_of source ''instrument_source_hash'') \<and> map_of source ''instrument_source_hash'' \<noteq> Some (JStr [])
     \<and> map_of source ''instrument_source_basis'' = Some (JStr INSTRUMENT_BASIS)
     \<and> is_text (map_of source ''instrument_source_name'') \<and> map_of source ''instrument_source_name'' \<noteq> Some (JStr [])
     \<and> is_text (map_of source ''security_id'') \<and> is_text (map_of source ''instrument_report_date'')
     \<and> is_text (map_of source ''instrument_available_at'')"

text \<open>One source: \<open>None\<close> is a return of false, otherwise its trade date. A rate that no double holds raises.\<close>

definition verified_source :: "di_instrument list \<Rightarrow> json \<Rightarrow> py_error + string option" where
  "verified_source registry v =
     (case v of
        JObj source \<Rightarrow>
          if \<not> provenance_complete source then Inr None
          else (case (map_of source ''trade_date'', map_of source ''maturity'') of
            (Some (JStr t), Some (JStr m)) \<Rightarrow>
              (case (date_fromisoformat t, date_fromisoformat m) of
                 (Inr trade_date, Inr maturity) \<Rightarrow>
                   bindE (finite_number (map_of source ''rate'')) (\<lambda>rate. Inr
                     (if rate = None \<or> maturity \<le> trade_date
                         \<or> \<not> registry_proves_source source registry trade_date maturity then None else Some t))
               | _ \<Rightarrow> Inr None)
          | _ \<Rightarrow> Inr None)
      | _ \<Rightarrow> Inr None)"

text \<open>The sources \<open>di_1y\<close> and \<open>di_5y\<close> that are there, which have to be of one trade date.\<close>

definition has_verified_di_maturities :: "codec \<Rightarrow> di_instrument list \<Rightarrow> string \<Rightarrow> py_error + bool" where
  "has_verified_di_maturities c registry text =
     bindE (catching (loads c text)) (\<lambda>parsed.
     case parsed of
       Some (JObj inputs) \<Rightarrow>
         (let sources = filter (\<lambda>v. v \<noteq> JNull) (List.map_filter (map_of inputs) [''di_1y'', ''di_5y''])
          in case sources of
               [] \<Rightarrow> Inr False
             | v # vs \<Rightarrow>
                 bindE (verified_source registry v) (\<lambda>first. case first of None \<Rightarrow> Inr False | Some d \<Rightarrow>
                   (case vs of
                      [] \<Rightarrow> Inr True
                    | w # _ \<Rightarrow> bindE (verified_source registry w) (\<lambda>other. Inr (other = Some d)))))
     | _ \<Rightarrow> Inr False)"

section \<open>Rows of the overlay\<close>

record overlay_row =
  ov_component :: string
  ov_month :: string
  ov_value :: "pyfloat option"
  ov_unit :: string
  ov_formula :: string
  ov_basis :: string
  ov_fetched :: timestamp
  ov_inputs :: string
  ov_hash :: string
  ov_reason :: "string option"

definition FORMULA_VERSION :: string where
  "FORMULA_VERSION = ''macro-retrospective-1.0.0''"

definition DI_FORMULA_VERSION :: string where
  "DI_FORMULA_VERSION = ''macro-retrospective-di-2.0.0''"

text \<open>The row kept for a component and month, or the mark that two rows of one instant disagree.\<close>

datatype overlay_choice = Chosen overlay_row | Ambiguous

type_synonym overlay_table = "((string \<times> string) \<times> overlay_choice) list"

text \<open>Comparing an aware with a naive datetime raises a \<open>TypeError\<close>.\<close>

definition compare_times :: "datetime \<Rightarrow> datetime \<Rightarrow> py_error + int" where
  "compare_times a b =
     (if (offset a = None) \<noteq> (offset b = None) then Inl TypeError else Inr (instant a - instant b))"

fun same_value :: "pyfloat option \<Rightarrow> pyfloat option \<Rightarrow> bool" where
  "same_value (Some x) (Some y) = float_eq x y"
| "same_value a b = (a = b)"

definition disagrees :: "overlay_row \<Rightarrow> overlay_row \<Rightarrow> bool" where
  "disagrees a b \<longleftrightarrow> ov_hash a \<noteq> ov_hash b \<or> ov_formula a \<noteq> ov_formula b \<or> \<not> same_value (ov_value a) (ov_value b) \<or> ov_unit a \<noteq> ov_unit b"

definition select_overlay_row :: "overlay_table \<Rightarrow> overlay_row \<Rightarrow> py_error + overlay_table" where
  "select_overlay_row t row =
     (let key = (ov_component row, ov_month row)
      in case map_of t key of
           Some Ambiguous \<Rightarrow> Inr t
         | None \<Rightarrow> Inr (AList.update key (Chosen row) t)
         | Some (Chosen previous) \<Rightarrow>
             (case (fromisoformat (replace_zulu (ov_fetched row)), fromisoformat (replace_zulu (ov_fetched previous))) of
                (Inr incoming_at, Inr previous_at) \<Rightarrow>
                  bindE (compare_times incoming_at previous_at) (\<lambda>k. Inr
                    (if 0 < k then AList.update key (Chosen row) t
                     else if k = 0 \<and> disagrees row previous then AList.update key Ambiguous t else t))
              | _ \<Rightarrow> Inr t))"

fun select_rows :: "overlay_table \<Rightarrow> overlay_row list \<Rightarrow> py_error + overlay_table" where
  "select_rows t [] = Inr t"
| "select_rows t (r # rs) = bindE (select_overlay_row t r) (\<lambda>u. select_rows u rs)"

text \<open>Of the DI values, those of components with enough verified months.\<close>

definition gate_additional_values ::
    "codec \<Rightarrow> di_instrument list \<Rightarrow> nat \<Rightarrow> overlay_row list \<Rightarrow> py_error + overlay_row list" where
  "gate_additional_values c registry minimum values_given =
     bindE (mapE (\<lambda>r. bindE (has_verified_di_maturities c registry (ov_inputs r)) (\<lambda>ok. Inr (ok, r)))
         (filter (\<lambda>r. ov_formula r = DI_FORMULA_VERSION) values_given)) (\<lambda>checked.
       let months = (\<lambda>k. remdups (map (\<lambda>(_, r). ov_month r) (filter (\<lambda>(ok, r). ok \<and> ov_component r = k) checked)))
       in Inr (filter (\<lambda>r. ov_formula r \<noteq> DI_FORMULA_VERSION
              \<or> ov_component r \<in> set (map (\<lambda>(_, q). ov_component q) (filter fst checked)) \<and> minimum \<le> length (months (ov_component r)))
            values_given))"

definition known_values :: "datetime \<Rightarrow> overlay_row list \<Rightarrow> py_error + overlay_row list" where
  "known_values as_of values_given =
     collectE (\<lambda>r. case fromisoformat (replace_zulu (ov_fetched r)) of
         Inl _ \<Rightarrow> Inr None
       | Inr available_at \<Rightarrow> bindE (compare_times available_at as_of) (\<lambda>k. Inr (if 0 < k then None else Some r))) values_given"

section \<open>The overlay\<close>

definition overlay_point :: "component_spec \<Rightarrow> overlay_row \<Rightarrow> derived_error + component_point option" where
  "overlay_point spec row =
     bindE (python (date_fromisoformat (ov_month row @ ''-01''))) (\<lambda>ref.
     bindE (python (fromisoformat (ov_fetched row))) (\<lambda>fetched.
     case ov_value row of
       None \<Rightarrow> Inr None
     | Some v \<Rightarrow>
         bindE (make_input ''retrospective_reference'' v (ov_unit row) (date_isoformat ref) fetched
             ''BCB official historical reference; not point-in-time''
             [(''source_basis'', JStr ''retrospective_reference''), (''formula_version'', JStr (ov_formula row)),
              (''inputs_hash'', JStr (ov_hash row))]) (\<lambda>i.
         bindE (python (utc_datetime fetched)) (\<lambda>t.
         if ov_hash row = [] then Inl (PyError ValueError)
         else Inr (Some \<lparr>cp_value = di_value i, cp_unit = sc_unit spec, cp_period = ref, cp_available = t,
                        cp_fingerprint = ov_hash row, cp_inputs = [i]\<rparr>)))))"

definition overlaid :: "overlay_table \<Rightarrow> component_series \<Rightarrow> derived_error + component_series" where
  "overlaid t s =
     (let entries = filter (\<lambda>(k, _). fst k = se_key s) t
      in if entries = [] then Inr s
         else case component_spec_of (se_key s) of
           None \<Rightarrow> Inl (PyError KeyError)
         | Some spec \<Rightarrow>
             bindE (collectE (overlay_point spec)
                 (List.map_filter (\<lambda>(_, k). case k of Chosen r \<Rightarrow> Some r | Ambiguous \<Rightarrow> None) (sort_key (\<lambda>(k, _). snd k) entries)))
               (\<lambda>points. make_series (se_key s) (se_current s) points (se_reason s) (se_upstream s)))"

text \<open>\<open>ORDER BY component_key, reference_month, fetched_at DESC, inputs_hash DESC\<close>\<close>

definition overlay_rows :: "datetime \<Rightarrow> overlay_row list \<Rightarrow> overlay_row list" where
  "overlay_rows as_of rows =
     sort_key (\<lambda>r. (ov_component r, ov_month r)) (rev (sort_key (\<lambda>r. (ov_fetched r, ov_hash r))
       (filter (\<lambda>r. ov_basis r = ''retrospective_reference'' \<and> ov_formula r = FORMULA_VERSION \<and> ov_value r \<noteq> None
          \<and> ov_fetched r \<le> isoformat as_of) rows)))"

definition overlay_retrospective_history ::
    "codec \<Rightarrow> di_instrument list \<Rightarrow> overlay_row list \<Rightarrow> overlay_row list \<Rightarrow> datetime \<Rightarrow> component_series list
     \<Rightarrow> derived_error + component_series list" where
  "overlay_retrospective_history c registry rows additional as_of series =
     bindE (python (select_rows [] (overlay_rows as_of rows))) (\<lambda>t.
     bindE (python (gate_additional_values c registry 24 additional)) (\<lambda>gated.
     bindE (python (bindE (known_values as_of gated) (select_rows t))) (\<lambda>t'.
       mapE (overlaid t') series)))"

end
