(* ===== verification/RetroMonths.thy ===== *)
theory RetroMonths
  imports ScoreOverlay
begin

text \<open>
  The reconstruction of the monthly components from the SGS series and the Focus expectations
  (\<open>macro_score/retrospective.py\<close>): the windows of the requests, the choice of the Focus record of a month, the formulas
  of a month, the rows and their insertion. Fetching the records is an argument; years have four digits.
\<close>

section \<open>Dates\<close>

text \<open>\<open>_days_in_month\<close>, by the day before the first of the next month.\<close>

definition days_in_month :: "int \<Rightarrow> int \<Rightarrow> py_error + int" where
  "days_in_month y m =
     bindE (if m = 12 then mk_date (y + 1) 1 1 else mk_date y (m + 1) 1) (\<lambda>d.
     bindE (add_days d (- 1)) (\<lambda>e. Inr (day e)))"

definition shift_months :: "date \<Rightarrow> int \<Rightarrow> py_error + date" where
  "shift_months d n =
     (let index = year d * 12 + month d - 1 + n; y = index div 12; m = index mod 12
      in bindE (days_in_month y (m + 1)) (\<lambda>k. mk_date y (m + 1) (min (day d) k)))"

definition shift_year :: "date \<Rightarrow> int \<Rightarrow> py_error + date" where
  "shift_year d n =
     (case mk_date (year d + n) (month d) (day d) of
        Inr e \<Rightarrow> Inr e
      | Inl _ \<Rightarrow> mk_date (year d + n) (month d) 28)"

lemma shift_year_Inr: "shift_year d n = Inr e \<Longrightarrow> valid_date e \<and> year e = year d + n \<and> month e = month d \<and> day e \<in> {day d, 28}"
  by (auto simp: shift_year_def mk_date_def split: sum.splits if_splits)

text \<open>A window ends ten years after it starts, or with the range; the next one starts on its last day.\<close>

function date_windows :: "date \<Rightarrow> date \<Rightarrow> py_error + (date \<times> date) list" where
  "date_windows cursor end_date =
     (if end_date < cursor then Inr []
      else case shift_year cursor 10 of
        Inl e \<Rightarrow> Inl e
      | Inr limit \<Rightarrow>
          if end_date \<le> limit then Inr [(cursor, end_date)]
          else bindE (date_windows limit end_date) (\<lambda>ws. Inr ((cursor, limit) # ws)))"
  by pat_completeness auto
termination
proof (relation "measure (\<lambda>(cursor, _). nat (10000 - year cursor))", simp)
  fix cursor end_date limit
  assume "shift_year cursor 10 = Inr limit"
  from shift_year_Inr [OF this] show "((limit, end_date), (cursor, end_date)) \<in> measure (\<lambda>(cursor, _). nat (10000 - year cursor))"
    by (auto simp: valid_date_def)
qed

declare date_windows.simps [simp del]

section \<open>The Focus record of a month\<close>

type_synonym raw_record = "(string \<times> json) list"

text \<open>\<open>row.get("baseCalculo") != 0\<close>; \<open>False\<close> equals zero.\<close>

definition is_zero :: "json option \<Rightarrow> bool" where
  "is_zero v \<longleftrightarrow> (case v of Some (JNum n) \<Rightarrow> n = 0 | Some (JFloat q) \<Rightarrow> fst q = 0 | Some (JBool b) \<Rightarrow> \<not> b | _ \<Rightarrow> False)"

definition is_smoothed_ipca :: "raw_record \<Rightarrow> bool" where
  "is_smoothed_ipca r \<longleftrightarrow> map_of r ''Indicador'' = Some (JStr ''IPCA'') \<and> map_of r ''Suavizada'' = Some (JStr ''S'')
     \<and> is_zero (map_of r ''baseCalculo'')"

type_synonym focus_months = "(string \<times> rat \<times> raw_record) list"

definition select_focus_record ::
    "date \<Rightarrow> date \<Rightarrow> date \<Rightarrow> focus_months \<Rightarrow> raw_record \<Rightarrow> py_error + focus_months" where
  "select_focus_record start end_date cutoff selected r =
     (if \<not> is_smoothed_ipca r then Inr selected
      else case map_of r ''Data'' of
        Some (JStr day_text) \<Rightarrow>
          bindE (finite_number (map_of r ''Mediana'')) (\<lambda>median.
          case median of
            None \<Rightarrow> Inr selected
          | Some x \<Rightarrow>
              bindE (date_fromisoformat (take 10 day_text)) (\<lambda>reference.
              if cutoff < reference then Inl ValueError
              else (let m = month_text reference
                in if end_date < reference \<or> m < month_text start \<or> month_text end_date < m then Inr selected
                   else case map_of selected m of
                     None \<Rightarrow> Inr (dict_set m (x, r) selected)
                   | Some (_, previous) \<Rightarrow>
                       Inr (if (case map_of previous ''Data'' of Some (JStr s) \<Rightarrow> s | _ \<Rightarrow> []) < day_text
                            then dict_set m (x, r) selected else selected))))
      | _ \<Rightarrow> Inr selected)"

fun select_focus_from :: "date \<Rightarrow> date \<Rightarrow> date \<Rightarrow> focus_months \<Rightarrow> raw_record list \<Rightarrow> py_error + focus_months" where
  "select_focus_from start end_date cutoff selected [] = Inr selected"
| "select_focus_from start end_date cutoff selected (r # rs) =
     bindE (select_focus_record start end_date cutoff selected r) (\<lambda>s. select_focus_from start end_date cutoff s rs)"

definition select_focus_months :: "raw_record list \<Rightarrow> date \<Rightarrow> date \<Rightarrow> date \<Rightarrow> py_error + focus_months" where
  "select_focus_months records start end_date cutoff = select_focus_from start end_date cutoff [] records"

section \<open>The observations of a series\<close>

text \<open>\<open>date(int(year_text), int(month_text), int(day_text))\<close> of a text \<open>dd/mm/yyyy\<close>\<close>

definition sgs_reference :: "string \<Rightarrow> py_error + date" where
  "sgs_reference s =
     (case map (\<lambda>part. parse_signed (strip part)) (split_on (CHR ''/'') s) of
        [Some d, Some m, Some y] \<Rightarrow> mk_date y m d
      | _ \<Rightarrow> Inl ValueError)"

text \<open>\<open>float(raw_value)\<close> of a number or a text, finite.\<close>

definition sgs_number :: "json option \<Rightarrow> py_error + rat" where
  "sgs_number v =
     (case v of
        Some (JNum n) \<Rightarrow> (case float_of_int n of Fin x \<Rightarrow> Inr x | _ \<Rightarrow> Inl OverflowError)
      | Some (JFloat q) \<Rightarrow> Inr (of_int (fst q) / of_int (snd q))
      | Some (JStr s) \<Rightarrow> (case parse_float s of Some (Fin x) \<Rightarrow> Inr x | _ \<Rightarrow> Inl ValueError)
      | _ \<Rightarrow> Inl TypeError)"

text \<open>One record of a response: its month, its value, and itself. \<open>window\<close> and \<open>asked\<close> are what was asked for.\<close>

definition sgs_observation_of ::
    "date \<times> date \<Rightarrow> date \<times> date \<Rightarrow> date \<Rightarrow> raw_record \<Rightarrow> py_error + string \<times> rat \<times> raw_record" where
  "sgs_observation_of window asked cutoff r =
     (case map_of r ''data'' of
        Some (JStr s) \<Rightarrow>
          bindE (sgs_reference s) (\<lambda>reference.
          if \<not> (fst window \<le> reference \<and> reference \<le> snd window) then Inl ValueError
          else if \<not> (fst asked \<le> reference \<and> reference \<le> snd asked) \<or> cutoff < reference then Inl ValueError
          else bindE (sgs_number (map_of r ''valor'')) (\<lambda>x. Inr (month_text reference, x, r)))
      | _ \<Rightarrow> Inl TypeError)"

text \<open>The loader of a window of a series: the HTTP request is an argument.\<close>

type_synonym sgs_loader = "int \<Rightarrow> date \<times> date \<Rightarrow> py_error + raw_record list"

definition fetch_series ::
    "sgs_loader \<Rightarrow> date \<times> date \<Rightarrow> date \<Rightarrow> string \<Rightarrow> derived_error + string \<times> (string \<times> rat \<times> raw_record) list" where
  "fetch_series load asked cutoff key =
     bindE (indicator_for key) (\<lambda>spec.
     bindE (python (date_windows (fst asked) (snd asked))) (\<lambda>windows.
     bindE (python (mapE (\<lambda>w. bindE (load (is_code spec) w) (mapE (sgs_observation_of w asked cutoff))) windows)) (\<lambda>found.
       Inr (key, foldl (\<lambda>d p. dict_set (fst p) (snd p) d) [] (concat found)))))"

text \<open>\<open>sorted(SOURCE_KEYS | {"idp_12m_pib"})\<close>\<close>

definition RETRO_SOURCE_KEYS :: "string list" where
  "RETRO_SOURCE_KEYS =
     [''comprometimento_renda'', ''conta_corrente_12m_pib'', ''dbgg_pib'', ''desemprego'', ''ibc_br_sa'', ''icc_pf'',
      ''idp_12m_pib'', ''inadimplencia_pf'', ''ipca_12m'', ''rendimento_medio_real'', ''reservas_internacionais'',
      ''saldo_nominal_12m_pib'', ''saldo_primario_12m_pib'', ''selic_meta'', ''taxa_media_credito_pf'']"

definition fetch_observations ::
    "sgs_loader \<Rightarrow> (unit \<Rightarrow> py_error + raw_record list) \<Rightarrow> date \<Rightarrow> date \<Rightarrow> date
     \<Rightarrow> derived_error + (string \<times> (string \<times> rat \<times> raw_record) list) list \<times> focus_months" where
  "fetch_observations load pages start end_date cutoff =
     bindE (python (shift_months start (- 12))) (\<lambda>input_start.
     bindE (mapE (fetch_series load (input_start, end_date) cutoff) RETRO_SOURCE_KEYS) (\<lambda>observations.
     bindE (python (bindE (pages ()) (\<lambda>records. select_focus_months records start end_date cutoff))) (\<lambda>focus.
       Inr (observations, focus))))"

section \<open>The inputs of a month\<close>

text \<open>The value of a source and where it comes from, by its key.\<close>

type_synonym inputs_of_month = "(string \<times> rat \<times> json) list"

definition input_entry :: "indicator_spec \<Rightarrow> rat \<times> raw_record \<Rightarrow> rat \<times> json" where
  "input_entry spec v =
     ((if is_transformation spec = Some T_INVERT_SIGN then - fst v else fst v),
      json_obj [(''source_url'', JStr (api_url (is_code spec))), (''provider_code'', JNum (is_code spec)),
                (''record'', json_obj (snd v))])"

text \<open>\<open>monthly[month][key] = ...\<close>, series by series.\<close>

definition add_period :: "indicator_spec \<Rightarrow> (string \<times> inputs_of_month) list \<Rightarrow> string \<times> rat \<times> raw_record \<Rightarrow> (string \<times> inputs_of_month) list" where
  "add_period spec monthly p =
     dict_set (fst p) (dict_set (is_key spec) (input_entry spec (snd p)) (get_list (map_of monthly (fst p)))) monthly"

fun monthly_from ::
    "(string \<times> inputs_of_month) list \<Rightarrow> (string \<times> (string \<times> rat \<times> raw_record) list) list
     \<Rightarrow> derived_error + (string \<times> inputs_of_month) list" where
  "monthly_from monthly [] = Inr monthly"
| "monthly_from monthly ((key, periods) # rest) =
     bindE (indicator_for key) (\<lambda>spec. monthly_from (foldl (add_period spec) monthly periods) rest)"

definition month_inputs ::
    "(string \<times> (string \<times> rat \<times> raw_record) list) list \<Rightarrow> derived_error + (string \<times> inputs_of_month) list" where
  "month_inputs observations = monthly_from [] observations"

definition raw_value :: "inputs_of_month \<Rightarrow> string \<Rightarrow> rat option" where
  "raw_value inputs key = map_option fst (map_of inputs key)"

definition provenance_of :: "inputs_of_month \<Rightarrow> string \<Rightarrow> json" where
  "provenance_of inputs key = (case map_of inputs key of Some v \<Rightarrow> snd v | None \<Rightarrow> JNull)"

section \<open>Formulas\<close>

type_synonym month_value = "string \<times> pyfloat \<times> string \<times> (string \<times> json) list"

definition LEVEL_KEYS :: "string list" where
  "LEVEL_KEYS =
     [''desemprego'', ''dbgg_pib'', ''saldo_nominal_12m_pib'', ''saldo_primario_12m_pib'', ''inadimplencia_pf'',
      ''comprometimento_renda'', ''icc_pf'', ''conta_corrente_12m_pib'', ''reservas_internacionais'']"

definition level_value :: "inputs_of_month \<Rightarrow> string \<Rightarrow> derived_error + month_value option" where
  "level_value inputs key =
     (case raw_value inputs key of
        None \<Rightarrow> Inr None
      | Some x \<Rightarrow> bindE (indicator_for key) (\<lambda>spec.
          Inr (Some (key, Fin x, unit_text (is_unit spec), [(key, provenance_of inputs key)]))))"

definition level_values :: "inputs_of_month \<Rightarrow> derived_error + month_value list" where
  "level_values inputs = collectE (level_value inputs) LEVEL_KEYS"

definition previous_year :: "string \<Rightarrow> py_error + string" where
  "previous_year m =
     (case map parse_signed (split_on (CHR ''-'') m) of
        [Some y, Some n] \<Rightarrow> Inr (pad 4 (y - 1) @ ''-'' @ pad 2 n)
      | _ \<Rightarrow> Inl ValueError)"

datatype operation = Ratio | Difference

definition CHANGE_PAIRS :: "(string \<times> string \<times> string \<times> operation) list" where
  "CHANGE_PAIRS =
     [(''ibc_br_sa'', ''ibc_br_sa_yoy'', ''pct'', Ratio), (''rendimento_medio_real'', ''rendimento_real_yoy'', ''pct'', Ratio),
      (''dbgg_pib'', ''dbgg_yoy_pp'', ''pp'', Difference),
      (''saldo_primario_12m_pib'', ''variacao_saldo_primario_12m'', ''pp'', Difference)]"

fun change_of :: "operation \<Rightarrow> rat \<Rightarrow> rat \<Rightarrow> py_error + pyfloat" where
  "change_of Ratio current prior =
     bindE (float_div (Fin current) (Fin prior)) (\<lambda>q. Inr (float_mult (float_sub q (Fin 1)) (Fin 100)))"
| "change_of Difference current prior = Inr (float_sub (Fin current) (Fin prior))"

definition change_value ::
    "inputs_of_month \<Rightarrow> inputs_of_month \<Rightarrow> string \<times> string \<times> string \<times> operation \<Rightarrow> py_error + month_value option" where
  "change_value inputs previous p =
     (case p of (key, name, u, kind) \<Rightarrow>
        case (raw_value inputs key, raw_value previous key) of
          (Some current, Some prior) \<Rightarrow>
            if kind = Ratio \<and> prior = 0 then Inr None
            else bindE (change_of kind current prior) (\<lambda>v. Inr (Some (name, v, u,
                   [(''current'', provenance_of inputs key), (''previous'', provenance_of previous key)])))
        | _ \<Rightarrow> Inr None)"

definition change_values :: "string \<Rightarrow> inputs_of_month \<Rightarrow> (string \<times> inputs_of_month) list \<Rightarrow> py_error + month_value list" where
  "change_values m inputs monthly =
     bindE (previous_year m) (\<lambda>before. collectE (change_value inputs (get_list (map_of monthly before))) CHANGE_PAIRS)"

definition paired_values :: "inputs_of_month \<Rightarrow> py_error + month_value list" where
  "paired_values inputs =
     (let spread = (case (raw_value inputs ''taxa_media_credito_pf'', raw_value inputs ''selic_meta'') of
            (Some credit, Some selic) \<Rightarrow>
              [(''spread_credito_pf_selic'', float_sub (Fin credit) (Fin selic), ''pp'',
                [(''credit'', provenance_of inputs ''taxa_media_credito_pf''), (''selic'', provenance_of inputs ''selic_meta'')])]
          | _ \<Rightarrow> [])
      in case (raw_value inputs ''conta_corrente_12m_pib'', raw_value inputs ''idp_12m_pib'') of
           (Some cc, Some idp) \<Rightarrow>
             if cc < 0 then bindE (float_div (Fin idp) (float_abs (Fin cc))) (\<lambda>v. Inr (spread @
                [(''cobertura_externa'', v, ''ratio'',
                  [(''current_account'', provenance_of inputs ''conta_corrente_12m_pib''),
                   (''idp'', provenance_of inputs ''idp_12m_pib'')])]))
             else Inr spread
         | _ \<Rightarrow> Inr spread)"

definition target_values :: "string \<Rightarrow> inputs_of_month \<Rightarrow> focus_months \<Rightarrow> py_error + month_value list" where
  "target_values m inputs focus =
     bindE (date_fromisoformat (m @ ''-01'')) (\<lambda>reference.
     case target_for_reference_date reference of
       None \<Rightarrow> Inr []
     | Some rule \<Rightarrow>
         (let away = (\<lambda>x. float_sub (Fin x) (Fin (tr_center rule)))
          in Inr ((case raw_value inputs ''ipca_12m'' of
                None \<Rightarrow> []
              | Some x \<Rightarrow> [(''abs_ipca_12m_target'', float_abs (away x), ''pp'',
                   [(''ipca_12m'', provenance_of inputs ''ipca_12m''), (''target_rule'', JStr (tr_id rule))])])
            @ (case map_of focus m of
                None \<Rightarrow> []
              | Some (x, r) \<Rightarrow>
                  (let from = [(''focus'', json_obj r), (''target_rule'', JStr (tr_id rule))]
                   in [(''abs_focus_12m_target'', float_abs (away x), ''pp'', from),
                       (''distancia_focus_meta'', away x, ''pp'', from)])))))"

section \<open>Rows\<close>

definition monthly_row :: "codec \<Rightarrow> string \<Rightarrow> string \<Rightarrow> string \<times> pyfloat \<times> string \<times> (string \<times> json) list \<Rightarrow> overlay_row" where
  "monthly_row c fetched_at m v =
     (case v of (name, x, u, sources) \<Rightarrow>
        let packed = dumps c (json_obj sources)
        in \<lparr>ov_component = name, ov_month = m, ov_value = Some x, ov_unit = u, ov_formula = FORMULA_VERSION,
            ov_basis = ''retrospective_reference'', ov_fetched = fetched_at, ov_inputs = packed, ov_hash = sha256 c packed,
            ov_reason = None\<rparr>)"

definition month_values ::
    "(string \<times> inputs_of_month) list \<Rightarrow> focus_months \<Rightarrow> string \<Rightarrow> inputs_of_month \<Rightarrow> derived_error + month_value list" where
  "month_values monthly focus m inputs =
     bindE (level_values inputs) (\<lambda>levels.
     bindE (python (change_values m inputs monthly)) (\<lambda>changed.
     bindE (python (paired_values inputs)) (\<lambda>paired.
     bindE (python (target_values m inputs focus)) (\<lambda>targets.
       Inr (foldl (\<lambda>d v. dict_set (fst v) (snd v) d) [] (levels @ changed @ paired @ targets))))))"

definition outside_output :: "date option \<Rightarrow> date option \<Rightarrow> date \<Rightarrow> bool" where
  "outside_output output_start output_end d \<longleftrightarrow>
     (case output_start of None \<Rightarrow> False | Some s \<Rightarrow> d < month_start s)
     \<or> (case output_end of None \<Rightarrow> False | Some e \<Rightarrow> month_start e < d)"

definition build_rows ::
    "codec \<Rightarrow> (string \<times> inputs_of_month) list \<Rightarrow> focus_months \<Rightarrow> string \<Rightarrow> date option \<Rightarrow> date option
     \<Rightarrow> derived_error + overlay_row list" where
  "build_rows c monthly focus fetched_at output_start output_end =
     bindE (mapE (\<lambda>(m, inputs).
         bindE (python (date_fromisoformat (m @ ''-01''))) (\<lambda>d.
           if outside_output output_start output_end d then Inr []
           else bindE (month_values monthly focus m inputs) (\<lambda>vs. Inr (map (monthly_row c fetched_at m) vs))))
       (sort_key fst monthly)) (\<lambda>rows. Inr (concat rows))"

section \<open>The ledger\<close>

text \<open>\<open>INSERT OR IGNORE\<close> under the primary key; the number of rows it added.\<close>

definition value_identity :: "overlay_row \<Rightarrow> string \<times> string \<times> string \<times> string" where
  "value_identity r = (ov_component r, ov_month r, ov_formula r, ov_hash r)"

fun insert_rows :: "overlay_row list \<Rightarrow> overlay_row list \<Rightarrow> nat \<times> overlay_row list" where
  "insert_rows ledger [] = (0, ledger)"
| "insert_rows ledger (r # rs) =
     (if value_identity r \<in> value_identity ` set ledger then insert_rows ledger rs
      else case insert_rows (ledger @ [r]) rs of (n, l) \<Rightarrow> (Suc n, l))"

text \<open>The range asked for, before anything is read: ordered, not after today, and about ten years at most.\<close>

definition valid_reconstruction_range :: "date \<Rightarrow> date \<Rightarrow> date \<Rightarrow> py_error + bool" where
  "valid_reconstruction_range today start end_date =
     bindE (shift_year start 10) (\<lambda>s. bindE (add_days s 31) (\<lambda>limit.
       Inr (\<not> (end_date < start \<or> limit < end_date \<or> today < end_date))))"

text \<open>\<open>reconstruct\<close>; \<open>cutoff\<close> is the date of the request, \<open>fetched_at\<close> its time after it.\<close>

definition reconstruct ::
    "codec \<Rightarrow> sgs_loader \<Rightarrow> (unit \<Rightarrow> py_error + raw_record list) \<Rightarrow> date \<Rightarrow> date \<Rightarrow> date \<Rightarrow> string \<Rightarrow> bool
     \<Rightarrow> overlay_row list \<Rightarrow> derived_error + nat \<times> overlay_row list" where
  "reconstruct c load pages cutoff start end_date fetched_at dry_run ledger =
     bindE (python (valid_reconstruction_range cutoff start end_date)) (\<lambda>ok.
     if \<not> ok then Inl (PyError ValueError)
     else bindE (fetch_observations load pages start end_date cutoff) (\<lambda>(observations, focus).
          bindE (month_inputs observations) (\<lambda>monthly.
          bindE (build_rows c monthly focus fetched_at (Some start) (Some end_date)) (\<lambda>rows.
            Inr (if dry_run then (0, ledger) else insert_rows ledger rows)))))"

text \<open>
  What the reconstruction of the monthly components guarantees: its requests tile the range, the Focus record of a
  month is the newest one, and the ledger never holds a value twice.
\<close>

section \<open>Windows\<close>

definition within_ten_years :: "date \<times> date \<Rightarrow> bool" where
  "within_ten_years w \<longleftrightarrow> fst w \<le> snd w \<and> snd w \<le> Date (year (fst w) + 10) (month (fst w)) (day (fst w))"

text \<open>Windows from \<open>s\<close> to \<open>e\<close>, each starting on the last day of the one before.\<close>

fun tiles :: "date \<Rightarrow> date \<Rightarrow> (date \<times> date) list \<Rightarrow> bool" where
  "tiles s e [] = False"
| "tiles s e [w] = (w = (s, e))"
| "tiles s e (w # ws) = (fst w = s \<and> s < snd w \<and> tiles (snd w) e ws)"

lemma tiles_cover: "tiles s e ws \<Longrightarrow> s \<le> d \<Longrightarrow> d \<le> e \<Longrightarrow> \<exists>w \<in> set ws. fst w \<le> d \<and> d \<le> snd w"
proof (induction s e ws rule: tiles.induct)
  case (3 s e w v ws)
  then show ?case by (cases "d \<le> snd w") auto
qed auto

lemma shift_year_total:
  assumes "valid_date d" "year d + n \<le> 9999" "0 \<le> n"
  obtains e where "shift_year d n = Inr e" "e \<le> Date (year d + n) (month d) (day d)"
proof (cases "valid_date (Date (year d + n) (month d) (day d))")
  case True
  then show ?thesis using that [of "Date (year d + n) (month d) (day d)"] by (simp add: shift_year_def mk_date_def)
next
  case False
  have l: "28 \<le> month_length b m" for b m by (simp add: month_length_def leap_day_def)
  then have v: "valid_date (Date (year d + n) (month d) 28)" using assms by (auto simp: valid_date_def)
  have "28 < day d"
    using False v assms l [of "is_leap (year d + n)" "month d"] by (fastforce simp: valid_date_def)
  then show ?thesis using that [of "Date (year d + n) (month d) 28"] False v
    by (simp add: shift_year_def mk_date_def less_eq_date_def less_date_def)
qed

lemma date_windows_tile:
  assumes "valid_date s" "valid_date e" "s \<le> e" "year e \<le> 9989"
  shows "\<exists>ws. date_windows s e = Inr ws \<and> tiles s e ws \<and> list_all within_ten_years ws"
  using assms
proof (induction s e rule: date_windows.induct)
  case (1 s e)
  have "year s \<le> year e" using "1.prems"(3) by (auto simp: less_eq_date_def less_date_def)
  then have y: "year s + 10 \<le> 9999" using "1.prems"(4) by linarith
  obtain l where l: "shift_year s 10 = Inr l" and le: "l \<le> Date (year s + 10) (month s) (day s)"
    by (rule shift_year_total [OF "1.prems"(1) y]) auto
  have v: "valid_date l" and sl: "s < l" using shift_year_Inr [OF l] by (simp_all add: less_date_def)
  have n: "\<not> e < s" using "1.prems"(3) by simp
  show ?case
  proof (cases "e \<le> l")
    case True
    have "date_windows s e = Inr [(s, e)]" by (subst date_windows.simps) (simp only: n l True if_False if_True sum.case)
    moreover have "within_ten_years (s, e)" using "1.prems"(3) order_trans [OF True le] by (simp add: within_ten_years_def)
    ultimately show ?thesis by simp
  next
    case False
    then have "l \<le> e" by simp
    then obtain ws where ws: "date_windows l e = Inr ws" "tiles l e ws" "list_all within_ten_years ws"
      using "1.IH" [OF n l False v "1.prems"(2) _ "1.prems"(4)] by blast
    have "date_windows s e = Inr ((s, l) # ws)"
      by (subst date_windows.simps) (simp only: n l False ws(1) if_False sum.case bindE.simps)
    moreover have "tiles s e ((s, l) # ws)" using sl ws(2) by (cases ws) auto
    moreover have "within_ten_years (s, l)" using sl le by (simp add: within_ten_years_def less_imp_le)
    ultimately show ?thesis using ws(3) by simp
  qed
qed

text \<open>The requests of the reconstruction tile its range. For a range that ends at least ten years before the last
  year of the calendar, the loop of the windows returns; the first window starts with the range, each later one on the
  last day of the one before, the last ends with the range, none is longer than ten years, and so every day is asked
  for.\<close>

theorem retro_windows_tile:
  assumes "valid_date s" "valid_date e" "s \<le> e" "year e \<le> 9989"
  shows "\<exists>ws. date_windows s e = Inr ws \<and> tiles s e ws \<and> list_all within_ten_years ws
    \<and> (\<forall>d. s \<le> d \<and> d \<le> e \<longrightarrow> (\<exists>w \<in> set ws. fst w \<le> d \<and> d \<le> snd w))"
  using date_windows_tile [OF assms] tiles_cover by blast

section \<open>The ledger\<close>

lemma insert_rows_keeps: "set ledger \<subseteq> set (snd (insert_rows ledger rows))"
  by (induction ledger rows rule: insert_rows.induct) (auto split: prod.splits)

lemma insert_rows_identities:
  "value_identity ` set (snd (insert_rows ledger rows)) = value_identity ` (set ledger \<union> set rows)"
proof (induction ledger rows rule: insert_rows.induct)
  case (2 ledger r rs)
  show ?case
  proof (cases "value_identity r \<in> value_identity ` set ledger")
    case True
    then show ?thesis using 2(1) [OF True] by (simp add: image_Un insert_absorb)
  next
    case False
    obtain n l where e: "insert_rows (ledger @ [r]) rs = (n, l)" by fastforce
    show ?thesis using 2(2) [OF False] by (simp only: insert_rows.simps False if_False e prod.case snd_conv) auto
  qed
qed simp

lemma insert_rows_count: "length (snd (insert_rows ledger rows)) = length ledger + fst (insert_rows ledger rows)"
  by (induction ledger rows rule: insert_rows.induct) (auto split: prod.splits)

lemma insert_rows_distinct:
  "distinct (map value_identity ledger) \<Longrightarrow> distinct (map value_identity (snd (insert_rows ledger rows)))"
  by (induction ledger rows rule: insert_rows.induct) (auto split: prod.splits)

lemma insert_rows_nothing: "value_identity ` set rows \<subseteq> value_identity ` set ledger \<Longrightarrow> insert_rows ledger rows = (0, ledger)"
  by (induction ledger rows rule: insert_rows.induct) auto

text \<open>Writing the same rows again writes nothing.\<close>

lemma insert_rows_again:
  "insert_rows (snd (insert_rows ledger rows)) rows = (0, snd (insert_rows ledger rows))"
  by (rule insert_rows_nothing) (auto simp: insert_rows_identities)

section \<open>The Focus record of a month\<close>

definition data_text :: "raw_record \<Rightarrow> string" where
  "data_text r = (case map_of r ''Data'' of Some (JStr s) \<Rightarrow> s | _ \<Rightarrow> [])"

text \<open>The records of a month that the selection reads.\<close>

definition focus_record_of :: "string \<Rightarrow> raw_record \<Rightarrow> bool" where
  "focus_record_of m r \<longleftrightarrow> is_smoothed_ipca r \<and> (\<exists>s x d. map_of r ''Data'' = Some (JStr s)
     \<and> finite_number (map_of r ''Mediana'') = Inr (Some x) \<and> date_fromisoformat (take 10 s) = Inr d \<and> month_text d = m)"

text \<open>What holds of the records selected so far.\<close>

definition selection_ok :: "date \<Rightarrow> date \<Rightarrow> date \<Rightarrow> raw_record list \<Rightarrow> focus_months \<Rightarrow> bool" where
  "selection_ok start end_date cutoff seen selected \<longleftrightarrow>
     (\<forall>m x r. map_of selected m = Some (x, r) \<longrightarrow>
        r \<in> set seen \<and> focus_record_of m r \<and> finite_number (map_of r ''Mediana'') = Inr (Some x)
        \<and> (\<exists>d. date_fromisoformat (take 10 (data_text r)) = Inr d \<and> d \<le> cutoff \<and> d \<le> end_date
             \<and> month_text start \<le> m \<and> m \<le> month_text end_date))
     \<and> (\<forall>q \<in> set seen. \<forall>m d. focus_record_of m q \<and> date_fromisoformat (take 10 (data_text q)) = Inr d
          \<and> d \<le> end_date \<and> month_text start \<le> m \<and> m \<le> month_text end_date \<longrightarrow>
            (\<exists>x r. map_of selected m = Some (x, r) \<and> data_text q \<le> data_text r))"

lemma selection_empty: "selection_ok start end_date cutoff [] []"
  by (simp add: selection_ok_def)

text \<open>A record that leaves the selection as it was was not to be read, or an older one.\<close>

lemma selection_unchanged:
  assumes "selection_ok start end_date cutoff seen selected"
    "\<And>m d. focus_record_of m r \<Longrightarrow> date_fromisoformat (take 10 (data_text r)) = Inr d \<Longrightarrow> d \<le> end_date
      \<Longrightarrow> month_text start \<le> m \<Longrightarrow> m \<le> month_text end_date
      \<Longrightarrow> \<exists>x q. map_of selected m = Some (x, q) \<and> data_text r \<le> data_text q"
  shows "selection_ok start end_date cutoff (seen @ [r]) selected"
  using assms unfolding selection_ok_def by (fastforce simp: Ball_def)

lemma selection_changed:
  assumes ok: "selection_ok start end_date cutoff seen selected"
    and r: "focus_record_of m r" "finite_number (map_of r ''Mediana'') = Inr (Some x)"
      "date_fromisoformat (take 10 (data_text r)) = Inr d" "month_text d = m" "d \<le> cutoff" "d \<le> end_date"
      "month_text start \<le> m" "m \<le> month_text end_date"
    and newer: "\<And>y q. map_of selected m = Some (y, q) \<Longrightarrow> data_text q \<le> data_text r"
  shows "selection_ok start end_date cutoff (seen @ [r]) (dict_set m (x, r) selected)"
proof -
  have a: "q \<in> set seen \<Longrightarrow> focus_record_of k q \<Longrightarrow> date_fromisoformat (take 10 (data_text q)) = Inr e \<Longrightarrow> e \<le> end_date
      \<Longrightarrow> month_text start \<le> k \<Longrightarrow> k \<le> month_text end_date
      \<Longrightarrow> \<exists>y p. map_of selected k = Some (y, p) \<and> data_text q \<le> data_text p" for q k e
    using ok unfolding selection_ok_def by blast
  have b: "focus_record_of k r \<Longrightarrow> k = m" for k using r(1) unfolding focus_record_of_def by force
  have "(\<forall>q \<in> set (seen @ [r]). \<forall>k e. focus_record_of k q \<and> date_fromisoformat (take 10 (data_text q)) = Inr e
          \<and> e \<le> end_date \<and> month_text start \<le> k \<and> k \<le> month_text end_date \<longrightarrow>
            (\<exists>y p. map_of (dict_set m (x, r) selected) k = Some (y, p) \<and> data_text q \<le> data_text p))"
  proof (intro ballI allI impI)
    fix q k e
    assume q: "q \<in> set (seen @ [r])" and h: "focus_record_of k q \<and> date_fromisoformat (take 10 (data_text q)) = Inr e
          \<and> e \<le> end_date \<and> month_text start \<le> k \<and> k \<le> month_text end_date"
    show "\<exists>y p. map_of (dict_set m (x, r) selected) k = Some (y, p) \<and> data_text q \<le> data_text p"
    proof (cases "q = r")
      case True
      then show ?thesis using b h by simp
    next
      case False
      then obtain y p where yp: "map_of selected k = Some (y, p)" "data_text q \<le> data_text p" using q h a by force
      then show ?thesis using newer order_trans [OF yp(2)] by (cases "k = m") auto
    qed
  qed
  moreover have "(\<forall>k y p. map_of (dict_set m (x, r) selected) k = Some (y, p) \<longrightarrow>
        p \<in> set (seen @ [r]) \<and> focus_record_of k p \<and> finite_number (map_of p ''Mediana'') = Inr (Some y)
        \<and> (\<exists>d. date_fromisoformat (take 10 (data_text p)) = Inr d \<and> d \<le> cutoff \<and> d \<le> end_date
             \<and> month_text start \<le> k \<and> k \<le> month_text end_date))"
    using ok r unfolding selection_ok_def by auto
  ultimately show ?thesis unfolding selection_ok_def by blast
qed

lemma select_focus_record_ok:
  assumes step: "select_focus_record start end_date cutoff selected r = Inr selected'"
    and ok: "selection_ok start end_date cutoff seen selected"
  shows "selection_ok start end_date cutoff (seen @ [r]) selected'"
proof (cases "\<exists>s x d. is_smoothed_ipca r \<and> map_of r ''Data'' = Some (JStr s)
    \<and> finite_number (map_of r ''Mediana'') = Inr (Some x) \<and> date_fromisoformat (take 10 s) = Inr d")
  case False
  then have "selected' = selected"
    using step by (fastforce simp: select_focus_record_def bindE_Inr_iff split: if_splits option.splits json.splits)
  moreover have "\<not> focus_record_of m r" for m using False by (auto simp: focus_record_of_def)
  ultimately show ?thesis using selection_unchanged [OF ok] by blast
next
  case True
  then obtain s x d where r: "is_smoothed_ipca r" "map_of r ''Data'' = Some (JStr s)"
    "finite_number (map_of r ''Mediana'') = Inr (Some x)" "date_fromisoformat (take 10 s) = Inr d" by blast
  let ?m = "month_text d"
  have t: "data_text r = s" by (simp add: data_text_def r)
  have f: "focus_record_of ?m r" using r by (auto simp: focus_record_of_def)
  have u: "focus_record_of k r \<Longrightarrow> k = ?m" for k using r by (auto simp: focus_record_of_def)
  have c: "d \<le> cutoff" using step by (auto simp: select_focus_record_def r split: if_splits)
  consider (out) "end_date < d \<or> ?m < month_text start \<or> month_text end_date < ?m" "selected' = selected"
    | (first) "\<not> (end_date < d \<or> ?m < month_text start \<or> month_text end_date < ?m)" "map_of selected ?m = None"
        "selected' = dict_set ?m (x, r) selected"
    | (newer) y q where "\<not> (end_date < d \<or> ?m < month_text start \<or> month_text end_date < ?m)"
        "map_of selected ?m = Some (y, q)" "data_text q < s" "selected' = dict_set ?m (x, r) selected"
    | (older) y q where "map_of selected ?m = Some (y, q)" "s \<le> data_text q" "selected' = selected"
    using step c by (cases "end_date < d \<or> ?m < month_text start \<or> month_text end_date < ?m"; cases "map_of selected ?m")
      (auto simp: select_focus_record_def r Let_def data_text_def [symmetric] not_less split: if_splits)
  then show ?thesis
  proof cases
    case out
    then show ?thesis using selection_unchanged [OF ok] u r(4) t by (force simp: not_less [symmetric])
  next
    case first
    then show ?thesis using selection_changed [OF ok f r(3) _ _ c] r(4) t by (simp add: not_less)
  next
    case newer
    then show ?thesis using selection_changed [OF ok f r(3) _ _ c] r(4) t by (simp add: not_less less_imp_le)
  next
    case older
    then show ?thesis using selection_unchanged [OF ok] u t by force
  qed
qed

lemma select_focus_from_ok:
  assumes "select_focus_from start end_date cutoff selected rs = Inr selected'" "selection_ok start end_date cutoff seen selected"
  shows "selection_ok start end_date cutoff (seen @ rs) selected'"
  using assms
proof (induction rs arbitrary: seen selected)
  case (Cons r rs)
  then obtain k where "select_focus_record start end_date cutoff selected r = Inr k"
    "select_focus_from start end_date cutoff k rs = Inr selected'" by (auto simp: bindE_Inr_iff)
  then show ?case using Cons.IH [of k "seen @ [r]"] select_focus_record_ok [OF _ Cons.prems(2)] by simp
qed simp

text \<open>The record of a month is one of the records given, of that month, not after the cutoff or the end of the range, and
  none of that month has a later date; a month of the range has a record when one is given.\<close>

theorem focus_record_is_the_newest:
  "select_focus_months records start end_date cutoff = Inr selected \<Longrightarrow> selection_ok start end_date cutoff records selected"
  using select_focus_from_ok [OF _ selection_empty, of start end_date cutoff records selected]
  by (simp add: select_focus_months_def)

end
