(* ===== verification/RetroDi.thy ===== *)
theory RetroDi
  imports RetroMonths
begin

text \<open>
  The retrospective DI prices and the B3 instrument snapshots as \<open>macro_score/sources.py\<close> loads them. A table is the
  list of its rows, its timestamps and dates are text; the ledger configured as a SQLite file and the database hold the
  same columns.
\<close>

section \<open>Observations\<close>

record di_observation =
  ro_trade :: date
  ro_symbol :: string
  ro_maturity :: date
  ro_rate :: pyfloat
  ro_hash :: string
  ro_name :: string
  ro_member :: string
  ro_fetched :: datetime
  ro_basis :: string
  ro_maturity_basis :: string
  ro_security :: "string option"
  ro_conflict :: bool

record di_price_row =
  pr_trade :: string
  pr_symbol :: string
  pr_maturity :: string
  pr_rate :: json
  pr_hash :: string
  pr_name :: string
  pr_member :: string
  pr_fetched :: timestamp
  pr_basis :: string
  pr_maturity_basis :: string
  pr_security :: "string option"

record price_identity =
  pi_trade :: string
  pi_symbol :: string
  pi_hash :: string
  pi_security :: "string option"
  pi_basis :: string

definition RETROSPECTIVE_BASIS :: string where
  "RETROSPECTIVE_BASIS = ''retrospective_reference''"

definition PRICE_IDENTITY_BASIS :: string where
  "PRICE_IDENTITY_BASIS = ''b3_price_identity_v1''"

definition identities_of :: "price_identity list \<Rightarrow> di_price_row \<Rightarrow> string option list" where
  "identities_of identities r =
     map pi_security (filter (\<lambda>i. pi_basis i = PRICE_IDENTITY_BASIS \<and> pi_trade i = pr_trade r
       \<and> pi_symbol i = pr_symbol r \<and> pi_hash i = pr_hash r) identities)"

text \<open>The security of a price and whether its identities conflict.\<close>

definition resolve_identity :: "string option \<Rightarrow> string option list \<Rightarrow> string option \<times> bool" where
  "resolve_identity existing found =
     (if found = [] then (existing, False)
      else if None \<notin> set found \<and> length (remdups found) = 1 \<and> (existing = None \<or> existing = hd found)
      then (hd found, False) else (None, True))"

definition rate_number :: "json \<Rightarrow> py_error + rat option" where
  "rate_number v =
     (case v of JNum _ \<Rightarrow> catching (sgs_number (Some v)) | JFloat _ \<Rightarrow> catching (sgs_number (Some v))
      | JStr _ \<Rightarrow> catching (sgs_number (Some v)) | _ \<Rightarrow> Inr None)"

definition parsed_price :: "di_price_row \<Rightarrow> py_error + date \<times> date \<times> datetime" where
  "parsed_price r =
     bindE (date_fromisoformat (pr_trade r)) (\<lambda>trade.
     bindE (date_fromisoformat (pr_maturity r)) (\<lambda>maturity.
     bindE (bindE (fromisoformat (replace_zulu (pr_fetched r))) utc_datetime) (\<lambda>fetched. Inr (trade, maturity, fetched))))"

text \<open>The observation of a parsed row, with its identity resolved, unless it is of the future or a text is missing.\<close>

definition di_observation_of ::
    "datetime \<Rightarrow> string option \<times> bool \<Rightarrow> di_price_row \<Rightarrow> date \<times> date \<times> datetime \<Rightarrow> rat \<Rightarrow> di_observation option" where
  "di_observation_of cutoff identity r parsed x =
     (case parsed of (trade, maturity, fetched) \<Rightarrow>
        if instant cutoff < instant fetched \<or> ddate cutoff < trade
          \<or> pr_symbol r = [] \<or> pr_hash r = [] \<or> pr_name r = [] \<or> pr_member r = [] then None
        else Some \<lparr>ro_trade = trade, ro_symbol = pr_symbol r, ro_maturity = maturity, ro_rate = Fin x,
          ro_hash = pr_hash r, ro_name = pr_name r, ro_member = pr_member r, ro_fetched = fetched,
          ro_basis = pr_basis r, ro_maturity_basis = pr_maturity_basis r,
          ro_security = (if str_or_empty (fst identity) = [] then None else fst identity),
          ro_conflict = snd identity\<rparr>)"

definition loaded_di_observation :: "datetime \<Rightarrow> price_identity list \<Rightarrow> di_price_row \<Rightarrow> py_error + di_observation option" where
  "loaded_di_observation cutoff identities r =
     bindE (catching (parsed_price r)) (\<lambda>parsed.
     case parsed of
       None \<Rightarrow> Inr None
     | Some p \<Rightarrow> bindE (rate_number (pr_rate r)) (\<lambda>rate. Inr (Option.bind rate
         (di_observation_of cutoff (resolve_identity (pr_security r) (identities_of identities r)) r p))))"

text \<open>The rows of the database, then those of the configured ledger, each with the identities beside it.\<close>

definition known_prices :: "datetime \<Rightarrow> di_price_row list \<Rightarrow> di_price_row list" where
  "known_prices cutoff rows = filter (\<lambda>r. pr_basis r = RETROSPECTIVE_BASIS \<and> pr_fetched r \<le> isoformat cutoff) rows"

definition load_retrospective_di_observations ::
    "(price_identity list \<times> di_price_row list) list \<Rightarrow> datetime \<Rightarrow> py_error + di_observation list" where
  "load_retrospective_di_observations ledgers as_of =
     bindE (utc_datetime as_of) (\<lambda>cutoff.
     bindE (mapE (\<lambda>(identities, rows). collectE (loaded_di_observation cutoff identities) (known_prices cutoff rows)) ledgers)
       (\<lambda>found. Inr (concat found)))"

section \<open>Instrument snapshots\<close>

record instrument_row =
  ir_report :: string
  ir_symbol :: string
  ir_security :: string
  ir_fin_id :: string
  ir_maturity :: string
  ir_start :: "string option"
  ir_finish :: "string option"
  ir_hash :: string
  ir_source_name :: string
  ir_message :: string
  ir_message_id :: string
  ir_captured :: timestamp
  ir_available :: timestamp
  ir_basis :: string

definition optional_date :: "string option \<Rightarrow> py_error + date option" where
  "optional_date s = (if str_or_empty s = [] then Inr None else bindE (date_fromisoformat (str_or_empty s)) (\<lambda>d. Inr (Some d)))"

definition parsed_instrument :: "instrument_row \<Rightarrow> py_error + di_instrument" where
  "parsed_instrument r =
     bindE (date_fromisoformat (ir_report r)) (\<lambda>report.
     bindE (date_fromisoformat (ir_maturity r)) (\<lambda>maturity.
     bindE (optional_date (ir_start r)) (\<lambda>start.
     bindE (optional_date (ir_finish r)) (\<lambda>finish.
     bindE (bindE (fromisoformat (ir_captured r)) utc_datetime) (\<lambda>captured.
     bindE (bindE (fromisoformat (ir_available r)) utc_datetime) (\<lambda>available. Inr
       \<lparr>in_report = report, in_symbol = ir_symbol r, in_security = ir_security r, in_fin_id = ir_fin_id r,
        in_maturity = maturity, in_start = start, in_finish = finish, in_hash = ir_hash r,
        in_source_name = ir_source_name r, in_message = ir_message r, in_message_id = ir_message_id r,
        in_captured = captured, in_available = available, in_basis = ir_basis r\<rparr>))))))"

definition MESSAGE_DEFINITION :: string where
  "MESSAGE_DEFINITION = ''bvmf.100.02''"

definition loaded_instrument :: "instrument_row \<Rightarrow> py_error + di_instrument option" where
  "loaded_instrument r =
     (if ir_basis r \<noteq> INSTRUMENT_BASIS \<or> ir_message r \<noteq> MESSAGE_DEFINITION then Inr None else catching (parsed_instrument r))"

definition load_di_instrument_snapshots :: "instrument_row list \<Rightarrow> datetime \<Rightarrow> py_error + di_instrument list" where
  "load_di_instrument_snapshots rows as_of =
     bindE (utc_datetime as_of) (\<lambda>cutoff.
       collectE loaded_instrument (filter (\<lambda>r. ir_available r \<le> isoformat cutoff) rows))"

section \<open>What the loaders guarantee\<close>

lemma catching_Some: "catching r = Inr (Some x) \<longleftrightarrow> r = Inr x"
  by (auto simp: catching_def split: sum.splits py_error.splits)

lemma collectE_mem:
  assumes "collectE f xs = Inr ys" "y \<in> set ys"
  obtains x where "x \<in> set xs" "f x = Inr (Some y)"
proof -
  obtain zs where zs: "mapE f xs = Inr zs" "ys = List.map_filter id zs"
    using assms(1) by (auto simp: collectE_def bindE_Inr_iff)
  then have "Some y \<in> set zs" using assms(2) by (auto simp: map_filter_def)
  then show ?thesis using that mapE_Inr_mem [OF zs(1)] by blast
qed

definition proper_observation :: "datetime \<Rightarrow> di_observation \<Rightarrow> bool" where
  "proper_observation cutoff k \<longleftrightarrow> valid_date (ro_trade k) \<and> valid_date (ro_maturity k) \<and> is_finite (ro_rate k)
     \<and> ro_symbol k \<noteq> [] \<and> ro_hash k \<noteq> [] \<and> is_utc (ro_fetched k) \<and> instant (ro_fetched k) \<le> instant cutoff
     \<and> ro_trade k \<le> ddate cutoff \<and> ro_security k \<noteq> Some []"

lemma parsed_price_proper:
  "parsed_price r = Inr (trade, maturity, fetched) \<Longrightarrow> valid_date trade \<and> valid_date maturity \<and> is_utc fetched"
  by (auto simp: parsed_price_def bindE_Inr_iff date_fromisoformat_valid utc_datetime_utc)

lemma di_observation_of_proper:
  assumes "di_observation_of cutoff identity r p x = Some k" "valid_date (fst p)" "valid_date (fst (snd p))" "is_utc (snd (snd p))"
  shows "proper_observation cutoff k"
  using assms by (auto simp: di_observation_of_def proper_observation_def str_or_empty_def not_less split: prod.splits if_splits)

lemma loaded_di_observation_proper:
  assumes "loaded_di_observation cutoff identities r = Inr (Some k)"
  shows "proper_observation cutoff k"
proof -
  obtain v where c: "catching (parsed_price r) = Inr v"
    using assms by (auto simp: loaded_di_observation_def bindE_Inr_iff)
  then obtain p where p: "parsed_price r = Inr p"
    using assms by (cases v) (auto simp: loaded_di_observation_def catching_Some)
  then have "catching (parsed_price r) = Inr (Some p)" by (simp add: catching_Some)
  then obtain x where "di_observation_of cutoff (resolve_identity (pr_security r) (identities_of identities r)) r p x = Some k"
    using assms by (auto simp: loaded_di_observation_def bindE_Inr_iff bind_eq_Some_conv)
  then show ?thesis using di_observation_of_proper parsed_price_proper p by (cases p) auto
qed

lemma retrospective_di_observations_proper:
  assumes "load_retrospective_di_observations ledgers as_of = Inr ks" "k \<in> set ks" "utc_datetime as_of = Inr cutoff"
  shows "proper_observation cutoff k"
proof -
  obtain found where found: "mapE (\<lambda>(identities, rows). collectE (loaded_di_observation cutoff identities)
      (known_prices cutoff rows)) ledgers = Inr found" "ks = concat found"
    using assms(1,3) by (auto simp: load_retrospective_di_observations_def bindE_Inr_iff)
  then obtain xs where "xs \<in> set found" "k \<in> set xs" using assms(2) by auto
  then show ?thesis using mapE_Inr_mem [OF found(1), of xs]
    by (auto elim!: collectE_mem dest: loaded_di_observation_proper)
qed

definition proper_instrument :: "di_instrument \<Rightarrow> bool" where
  "proper_instrument k \<longleftrightarrow> valid_date (in_report k) \<and> valid_date (in_maturity k) \<and> is_utc (in_available k)
     \<and> in_basis k = INSTRUMENT_BASIS \<and> in_message k = MESSAGE_DEFINITION"

lemma loaded_instrument_proper: "loaded_instrument r = Inr (Some k) \<Longrightarrow> proper_instrument k"
  by (auto simp: loaded_instrument_def parsed_instrument_def proper_instrument_def catching_Some bindE_Inr_iff
      date_fromisoformat_valid utc_datetime_utc split: if_splits)

lemma di_instrument_snapshots_proper:
  "load_di_instrument_snapshots rows as_of = Inr ks \<Longrightarrow> k \<in> set ks \<Longrightarrow> proper_instrument k"
  by (auto simp: load_di_instrument_snapshots_def bindE_Inr_iff elim!: collectE_mem dest: loaded_instrument_proper)

text \<open>
  The monthly DI components of \<open>macro_score/retrospective.py\<close>: the contracts of a trade date with the instrument each
  price belongs to, the curve and the Focus expectation of a month, the values, and the rows with their provenance. Where
  the code returns \<open>None\<close> for a date whose prices conflict, the model returns \<open>Inl ()\<close>.
\<close>

record retro_sources =
  rs_vintages :: "score_vintage list"
  rs_observations :: "di_observation list"
  rs_instruments :: "di_instrument list"

section \<open>Contracts\<close>

record retro_contract = di_contract +
  rc_security :: string
  rc_hash :: string
  rc_report :: date
  rc_instrument_at :: datetime
  rc_expiry :: string
  rc_isin :: string
  rc_fin_id :: string
  rc_source_name :: string

definition EXPIRY_FIELD :: string where
  "EXPIRY_FIELD = ''FutrCtrctsInf/XprtnDt''"

definition instrument_candidates :: "di_instrument list \<Rightarrow> string \<Rightarrow> string option \<Rightarrow> di_instrument list" where
  "instrument_candidates snapshots symbol security =
     filter (\<lambda>k. in_basis k = INSTRUMENT_BASIS \<and> in_message k = MESSAGE_DEFINITION \<and> in_symbol k = symbol
       \<and> (case security of None \<Rightarrow> True | Some s \<Rightarrow> s \<in> {in_fin_id k, in_security k})) snapshots"

text \<open>A set built by a comprehension has one element.\<close>

definition single :: "'a list \<Rightarrow> bool" where
  "single xs \<longleftrightarrow> length (remdups xs) = 1"

definition retro_contract_of :: "date \<Rightarrow> string \<Rightarrow> di_observation list \<Rightarrow> di_instrument \<Rightarrow> retro_contract" where
  "retro_contract_of trade symbol revisions k =
     (let newest = the (max_key (\<lambda>o1. instant (ro_fetched o1)) revisions)
      in \<lparr>dc_trade_date = trade, dc_symbol = symbol, dc_maturity = in_maturity k, dc_rate = ro_rate (hd revisions),
          dc_available = ro_fetched newest, dc_basis = RETROSPECTIVE_BASIS,
          rc_security = text_or (str_or_empty (ro_security (hd revisions))) (in_fin_id k),
          rc_hash = in_hash k, rc_report = in_report k, rc_instrument_at = in_available k, rc_expiry = EXPIRY_FIELD,
          rc_isin = in_security k, rc_fin_id = in_fin_id k, rc_source_name = in_source_name k\<rparr>)"

text \<open>The contract of a symbol: its revisions agree, and the instruments they may mean are one.\<close>

definition contract_for :: "di_instrument list \<Rightarrow> date \<Rightarrow> string \<Rightarrow> di_observation list \<Rightarrow> unit + retro_contract option" where
  "contract_for snapshots trade symbol revisions =
     (if \<not> single (map (\<lambda>r. (ro_security r, ro_rate r)) revisions) \<or> \<not> list_all (\<lambda>r. is_finite (ro_rate r)) revisions then Inl ()
      else (let security = ro_security (hd revisions);
                candidates = instrument_candidates snapshots symbol security;
                eligible = filter (\<lambda>k. trade < in_maturity k \<and> traded_on k trade) candidates
        in if security \<noteq> None \<and> 1 < length (remdups (map in_maturity candidates)) then Inl ()
           else if eligible = [] then Inr None
           else if \<not> single (map (\<lambda>k. (in_security k, in_fin_id k, in_maturity k, in_start k, in_finish k)) eligible) then Inl ()
           else (let report = Max (set (map in_report eligible)); latest = filter (\<lambda>k. in_report k = report) eligible
             in if \<not> single (map (\<lambda>k. (in_security k, in_maturity k)) latest) then Inl ()
                else case min_key in_hash latest of
                  None \<Rightarrow> Inl ()
                | Some k \<Rightarrow> Inr (Some (retro_contract_of trade symbol revisions k)))))"

text \<open>The keys of a dictionary filled in order.\<close>

definition in_first_order :: "'a list \<Rightarrow> 'a list" where
  "in_first_order xs = rev (remdups (rev xs))"

definition di_contracts_for_date :: "di_observation list \<Rightarrow> date \<Rightarrow> di_instrument list \<Rightarrow> unit + retro_contract list" where
  "di_contracts_for_date observations trade snapshots =
     (let rows = filter (\<lambda>r. ro_trade r = trade) observations
      in if list_ex ro_conflict rows then Inl ()
         else collectE (\<lambda>symbol. contract_for snapshots trade symbol (filter (\<lambda>r. ro_symbol r = symbol) rows))
           (in_first_order (map ro_symbol rows)))"

section \<open>A month\<close>

definition focus_of_month :: "score_vintage list \<Rightarrow> string \<Rightarrow> score_vintage list" where
  "focus_of_month vintages m =
     sort_key (\<lambda>v. (sv_period v, instant (sv_available v)))
       (filter (\<lambda>v. sv_provider v = ''focus'' \<and> sv_series v = FOCUS_12M_KEY \<and> month_text (sv_period v) = m) vintages)"

definition di_dates_of_month :: "di_observation list \<Rightarrow> string \<Rightarrow> date list" where
  "di_dates_of_month observations m =
     sort (remdups (filter (\<lambda>d. month_text d = m) (map ro_trade observations)))"

definition float_json :: "pyfloat \<Rightarrow> json" where
  "float_json x = (case x of Fin q \<Rightarrow> JFloat (quotient_of q) | _ \<Rightarrow> JNull)"

text \<open>\<open>sorted({...})\<close> of texts\<close>

definition sorted_texts :: "string list \<Rightarrow> json" where
  "sorted_texts xs = JArr (map JStr (sort (remdups xs)))"

definition di_source_provenance :: "di_observation list \<Rightarrow> retro_contract \<Rightarrow> (string \<times> json) list" where
  "di_source_provenance observations k =
     (let rows = filter (\<lambda>r. ro_trade r = dc_trade_date k \<and> ro_symbol r = dc_symbol k) observations
      in [(''symbol'', JStr (dc_symbol k)), (''maturity'', JStr (date_isoformat (dc_maturity k))),
          (''maturity_basis'', JStr INSTRUMENT_BASIS), (''expiry_field'', JStr (rc_expiry k)),
          (''security_id'', JStr (rc_security k)), (''instrument_isin'', JStr (rc_isin k)),
          (''fin_instrm_id'', JStr (rc_fin_id k)), (''instrument_source_hash'', JStr (rc_hash k)),
          (''instrument_source_name'', JStr (rc_source_name k)),
          (''instrument_report_date'', JStr (date_isoformat (rc_report k))),
          (''instrument_available_at'', JStr (isoformat (rc_instrument_at k))),
          (''trade_date'', JStr (date_isoformat (dc_trade_date k))), (''rate'', float_json (dc_rate k)),
          (''source_hashes'', sorted_texts (map ro_hash rows)), (''source_files'', sorted_texts (map ro_name rows)),
          (''instrument_source_basis'', JStr INSTRUMENT_BASIS),
          (''fetched_at'', JStr (isoformat (ro_fetched (the (max_key (\<lambda>r. instant (ro_fetched r)) rows)))))])"

definition focus_provenance :: "score_vintage \<Rightarrow> (string \<times> json) list" where
  "focus_provenance v =
     [(''reference_date'', JStr (date_isoformat (sv_period v))), (''value'', JFloat (quotient_of (sv_value v))),
      (''available_at'', JStr (isoformat (sv_available v))), (''payload_hash'', JStr (sv_hash v)),
      (''source'', JStr (sv_source v))]"

text \<open>A component, its value, its unit and the sources it was computed from.\<close>

type_synonym di_value = "string \<times> pyfloat \<times> string \<times> (string \<times> (string \<times> json) list) list"

text \<open>\<open>((1 + nominal / 100) / denominator - 1) * 100\<close>\<close>

definition fisher_denominator :: "rat \<Rightarrow> py_error + pyfloat" where
  "fisher_denominator inflation = bindE (float_div (Fin inflation) (Fin 100)) (\<lambda>q. Inr (float_add (Fin 1) q))"

definition fisher_rate :: "pyfloat \<Rightarrow> pyfloat \<Rightarrow> py_error + pyfloat" where
  "fisher_rate nominal denominator =
     bindE (float_div nominal (Fin 100)) (\<lambda>q.
     bindE (float_div (float_add (Fin 1) q) denominator) (\<lambda>r.
       Inr (float_mult (float_sub r (Fin 1)) (Fin 100))))"

definition real_rate_value ::
    "score_vintage \<Rightarrow> di_observation list \<Rightarrow> retro_contract option \<Rightarrow> py_error + di_value list \<times> string list" where
  "real_rate_value focus observations nominal =
     (case nominal of
        None \<Rightarrow> Inr ([], [''di_1y_outside_tolerance''])
      | Some k \<Rightarrow>
          bindE (fisher_denominator (sv_value focus)) (\<lambda>denominator.
          if float_eq denominator (Fin 0) then Inr ([], [''invalid_fisher_denominator''])
          else bindE (fisher_rate (dc_rate k) denominator) (\<lambda>x.
            Inr ([(''juro_real_ex_ante_1y'', x, ''pct_annual'',
                   [(''di_1y'', di_source_provenance observations k), (''focus_12m_base0'', focus_provenance focus)])], []))))"

definition slope_value ::
    "di_observation list \<Rightarrow> retro_contract option \<Rightarrow> retro_contract option \<Rightarrow> di_value list \<times> string list" where
  "slope_value observations one_year five_year =
     (case (one_year, five_year) of
        (Some one, Some five) \<Rightarrow>
          if (dc_symbol one, dc_maturity one) = (dc_symbol five, dc_maturity five) then ([], [''di_slope_contract_reused''])
          else ([(''inclinacao_di_5y_1y'', float_sub (dc_rate five) (dc_rate one), ''pp'',
                  [(''di_1y'', di_source_provenance observations one), (''di_5y'', di_source_provenance observations five)])], [])
      | _ \<Rightarrow> ([], [''di_slope_contract_outside_tolerance'']))"

section \<open>Rows\<close>

definition stamp_of :: "(string \<times> json) list \<Rightarrow> string \<Rightarrow> datetime option" where
  "stamp_of source field =
     (case map_of source field of
        Some (JStr s) \<Rightarrow> (case fromisoformat (replace_zulu s) of Inr t \<Rightarrow> Some t | Inl _ \<Rightarrow> None)
      | _ \<Rightarrow> None)"

text \<open>The newest of the times the sources carry, all of them aware.\<close>

definition row_stamps :: "score_vintage \<Rightarrow> (string \<times> (string \<times> json) list) list \<Rightarrow> datetime list" where
  "row_stamps focus sources =
     sv_available focus # concat (map (\<lambda>(_, s).
       List.map_filter (stamp_of s) [''fetched_at'', ''available_at'', ''instrument_available_at'']) sources)"

definition di_row_inputs :: "date \<Rightarrow> (string \<times> (string \<times> json) list) list \<Rightarrow> json" where
  "di_row_inputs reference sources =
     json_obj ((''reference_date'', JStr (date_isoformat reference)) # map (\<lambda>(k, s). (k, json_obj s)) sources)"

definition di_month_row ::
    "codec \<Rightarrow> string \<Rightarrow> date \<Rightarrow> score_vintage \<Rightarrow> di_value \<Rightarrow> py_error + overlay_row" where
  "di_month_row c m reference focus v =
     (case v of (name, x, u, sources) \<Rightarrow>
        bindE (astimezone_utc (the (max_key instant (row_stamps focus sources)))) (\<lambda>fetched.
          let packed = dumps c (di_row_inputs reference sources)
          in Inr \<lparr>ov_component = name, ov_month = m, ov_value = Some x, ov_unit = u, ov_formula = DI_FORMULA_VERSION,
                  ov_basis = RETROSPECTIVE_BASIS, ov_fetched = isoformat fetched, ov_inputs = packed,
                  ov_hash = sha256 c packed, ov_reason = None\<rparr>))"

text \<open>A price near a horizon whose instrument is not known; the second horizon is looked at only if it has to be.\<close>

definition near_horizon :: "date \<Rightarrow> date \<Rightarrow> int \<Rightarrow> py_error + bool" where
  "near_horizon reference maturity horizon =
     bindE (add_days reference horizon) (\<lambda>target. Inr (\<bar>days_between maturity target\<bar> \<le> 90))"

definition unresolved_price :: "date \<Rightarrow> di_observation \<Rightarrow> py_error + string option" where
  "unresolved_price reference r =
     bindE (near_horizon reference (ro_maturity r) 365) (\<lambda>near.
     bindE (if near then Inr True else near_horizon reference (ro_maturity r) 1825) (\<lambda>is_near.
       Inr (if is_near then Some (''instrument_snapshot_missing_or_conflicting:'' @ ro_symbol r) else None)))"

type_synonym month_result = "overlay_row list \<times> string list"

definition di_month_values ::
    "codec \<Rightarrow> string \<Rightarrow> date \<Rightarrow> score_vintage \<Rightarrow> di_observation list \<Rightarrow> retro_contract list \<Rightarrow> py_error + month_result" where
  "di_month_values c m reference focus observations contracts =
     bindE (select_di_contract_for_horizon contracts reference 365) (\<lambda>one_year.
     bindE (select_di_contract_for_horizon contracts reference 1825) (\<lambda>five_year.
     bindE (real_rate_value focus observations one_year) (\<lambda>(rates, reasons).
       (case slope_value observations one_year five_year of (slopes, others) \<Rightarrow>
          bindE (mapE (di_month_row c m reference focus) (rates @ slopes)) (\<lambda>rows. Inr (rows, reasons @ others))))))"

text \<open>The month once its curve, its reference and its Focus expectation are chosen.\<close>

definition curve_month ::
    "codec \<Rightarrow> string \<Rightarrow> date \<Rightarrow> date \<Rightarrow> score_vintage \<Rightarrow> retro_sources \<Rightarrow> py_error + month_result" where
  "curve_month c m curve reference focus sources =
     (case di_contracts_for_date (rs_observations sources) curve (rs_instruments sources) of
        Inl _ \<Rightarrow> Inr ([], [''conflicting_di_revision''])
      | Inr contracts \<Rightarrow>
          if contracts = []
          then Inr ([], [if list_ex (\<lambda>r. ro_trade r = curve) (rs_observations sources)
                  then ''instrument_snapshot_missing_or_conflicting'' else ''di_curve_missing''])
          else bindE (collectE (unresolved_price reference)
                 (filter (\<lambda>r. ro_trade r = curve \<and> ro_symbol r \<notin> dc_symbol ` set contracts) (rs_observations sources)))
               (\<lambda>unresolved.
               if unresolved \<noteq> [] then Inr ([], in_first_order unresolved)
               else di_month_values c m reference focus (rs_observations sources) contracts))"

text \<open>
  The rows of a month and the reasons it has none, each counted once. \<open>reference\<close> is the last price of the month that
  a Focus expectation has been published for, \<open>curve\<close> the last trade date by then.
\<close>

definition build_retrospective_di_month ::
    "codec \<Rightarrow> string \<Rightarrow> date list \<Rightarrow> score_vintage list \<Rightarrow> retro_sources \<Rightarrow> py_error + month_result" where
  "build_retrospective_di_month c m month_dates candidates sources =
     (if month_dates = [] then Inr ([], [''di_curve_missing''])
      else if candidates = [] then Inr ([], [''focus_12m_base0_missing''])
      else (let reference = min (last month_dates) (sv_period (last candidates))
        in case max_key id (filter (\<lambda>d. d \<le> reference) month_dates) of
             None \<Rightarrow> Inr ([], [''di_curve_after_aligned_reference''])
           | Some curve \<Rightarrow>
               (let aligned = min reference curve; eligible = filter (\<lambda>v. sv_period v \<le> aligned) candidates
                in if eligible = [] then Inr ([], [''focus_reference_after_di_trade_date''])
                   else curve_month c m curve aligned (last eligible) sources)))"

definition retro_months :: "retro_sources \<Rightarrow> string list" where
  "retro_months sources =
     sort (remdups (map (\<lambda>r. month_text (ro_trade r)) (rs_observations sources)
       @ map (\<lambda>v. month_text (sv_period v))
           (filter (\<lambda>v. sv_provider v = ''focus'' \<and> sv_series v = FOCUS_12M_KEY) (rs_vintages sources))))"

definition build_retrospective_di_values ::
    "codec \<Rightarrow> retro_sources \<Rightarrow> py_error + overlay_row list \<times> (string \<times> string list) list" where
  "build_retrospective_di_values c sources =
     bindE (mapE (\<lambda>m. bindE (build_retrospective_di_month c m (di_dates_of_month (rs_observations sources) m)
           (focus_of_month (rs_vintages sources) m) sources) (\<lambda>(rows, reasons). Inr (rows, m, reasons)))
         (retro_months sources))
       (\<lambda>results. Inr (concat (map fst results), filter (\<lambda>(_, reasons). reasons \<noteq> []) (map snd results)))"

text \<open>The rows of the components with enough verified months.\<close>

definition eligible_retrospective_di_values :: "codec \<Rightarrow> nat \<Rightarrow> retro_sources \<Rightarrow> py_error + overlay_row list" where
  "eligible_retrospective_di_values c minimum sources =
     bindE (build_retrospective_di_values c sources) (\<lambda>(candidates, _).
     bindE (mapE (\<lambda>r. has_verified_di_maturities c (rs_instruments sources) (ov_inputs r)) candidates) (\<lambda>verified.
       let valid = map snd (filter fst (zip verified candidates));
           months = (\<lambda>k. remdups (map ov_month (filter (\<lambda>r. ov_component r = k) valid)))
       in Inr (filter (\<lambda>r. ov_component r \<in> ov_component ` set valid \<and> minimum \<le> length (months (ov_component r))) candidates)))"

section \<open>The history\<close>

text \<open>One row of a component and month from the ledger: the newest, unless two of that instant differ.\<close>

definition newest_version :: "overlay_row list \<Rightarrow> overlay_row option" where
  "newest_version versions =
     (let newest_at = Max (set (map ov_fetched versions)); newest = filter (\<lambda>r. ov_fetched r = newest_at) versions
      in case newest of
           [] \<Rightarrow> None
         | r # rs \<Rightarrow> if list_ex (disagrees r) rs then None else Some r)"

definition in_history_order :: "overlay_row list \<Rightarrow> overlay_row list" where
  "in_history_order rows =
     sort_key (\<lambda>r. (ov_component r, ov_month r)) (rev (sort_key (\<lambda>r. (ov_fetched r, ov_hash r)) rows))"

definition ledger_versions :: "overlay_row list \<Rightarrow> overlay_row list" where
  "ledger_versions rows =
     List.map_filter (\<lambda>k. newest_version (filter (\<lambda>r. (ov_component r, ov_month r) = k) rows))
       (sort (remdups (map (\<lambda>r. (ov_component r, ov_month r)) rows)))"

definition query_retrospective_history ::
    "codec \<Rightarrow> retro_sources \<Rightarrow> overlay_row list \<Rightarrow> string \<Rightarrow> string \<Rightarrow> py_error + overlay_row list" where
  "query_retrospective_history c sources ledger start finish =
     (let rows = in_history_order (filter (\<lambda>r. start \<le> ov_month r \<and> ov_month r \<le> finish \<and> ov_basis r = RETROSPECTIVE_BASIS) ledger)
      in bindE (select_rows [] (ledger_versions rows)) (\<lambda>t.
         bindE (build_retrospective_di_values c sources) (\<lambda>(calculated, _).
         bindE (select_rows t (filter (\<lambda>r. start \<le> ov_month r \<and> ov_month r \<le> finish) calculated)) (\<lambda>t'.
           Inr (List.map_filter (\<lambda>(_, k). case k of Chosen r \<Rightarrow> Some r | Ambiguous \<Rightarrow> None) (sort_key fst t'))))))"

end
