(* ===== verification/RetroDiClaims.thy ===== *)
theory RetroDiClaims
  imports RetroDi SgsPlanRoundtrip
begin

text \<open>
  What the monthly DI rows guarantee: each is computed from contracts whose instrument is in the registry, and what its
  provenance says passes the verification the overlay asks for.
\<close>

section \<open>Contracts of the registry\<close>

text \<open>The instrument a contract came from.\<close>

definition registered :: "di_instrument list \<Rightarrow> date \<Rightarrow> retro_contract \<Rightarrow> bool" where
  "registered snapshots trade k \<longleftrightarrow> dc_trade_date k = trade \<and> is_finite (dc_rate k) \<and> rc_expiry k = EXPIRY_FIELD
     \<and> (\<exists>i \<in> set snapshots. in_basis i = INSTRUMENT_BASIS \<and> in_message i = MESSAGE_DEFINITION \<and> in_symbol i = dc_symbol k
          \<and> in_maturity i = dc_maturity k \<and> trade < in_maturity i \<and> traded_on i trade
          \<and> rc_security k \<in> {in_fin_id i, in_security i} \<and> rc_hash k = in_hash i \<and> rc_report k = in_report i
          \<and> rc_instrument_at k = in_available i \<and> rc_isin k = in_security i \<and> rc_fin_id k = in_fin_id i
          \<and> rc_source_name k = in_source_name i)"

lemma contract_for_registered:
  assumes "contract_for snapshots trade symbol revisions = Inr (Some k)" "revisions \<noteq> []"
  shows "registered snapshots trade k"
proof -
  let ?security = "ro_security (hd revisions)"
  define eligible where "eligible = filter (\<lambda>i. trade < in_maturity i \<and> traded_on i trade)
    (instrument_candidates snapshots symbol ?security)"
  obtain report i where i: "min_key in_hash (filter (\<lambda>j. in_report j = report) eligible) = Some i"
    and k: "k = retro_contract_of trade symbol revisions i"
    and f: "list_all (\<lambda>r. is_finite (ro_rate r)) revisions"
    using assms(1) unfolding contract_for_def Let_def eligible_def [symmetric]
    by (auto split: if_splits option.splits)
  have "i \<in> set eligible" using min_key_Some [OF i] by simp
  then have e: "i \<in> set snapshots" "in_basis i = INSTRUMENT_BASIS" "in_message i = MESSAGE_DEFINITION" "in_symbol i = symbol"
    "case ?security of None \<Rightarrow> True | Some s \<Rightarrow> s \<in> {in_fin_id i, in_security i}" "trade < in_maturity i" "traded_on i trade"
    by (auto simp: eligible_def instrument_candidates_def)
  have s: "rc_security k \<in> {in_fin_id i, in_security i}"
    using e(5) by (auto simp: k retro_contract_of_def Let_def text_or_def str_or_empty_def split: option.splits)
  have r: "is_finite (dc_rate k)" using f assms(2) by (cases revisions) (simp_all add: k retro_contract_of_def Let_def)
  show ?thesis
    unfolding registered_def using e s r by (auto simp: k retro_contract_of_def Let_def intro!: bexI [of _ i])
qed

lemma di_contracts_registered:
  assumes "di_contracts_for_date observations trade snapshots = Inr contracts" "k \<in> set contracts"
  shows "registered snapshots trade k"
proof -
  let ?rows = "filter (\<lambda>r. ro_trade r = trade) observations"
  have c: "collectE (\<lambda>symbol. contract_for snapshots trade symbol (filter (\<lambda>r. ro_symbol r = symbol) ?rows))
      (in_first_order (map ro_symbol ?rows)) = Inr contracts"
    using assms(1) by (simp add: di_contracts_for_date_def Let_def split: if_splits)
  show ?thesis
  proof (rule collectE_mem [OF c assms(2)])
    fix symbol
    assume s: "symbol \<in> set (in_first_order (map ro_symbol ?rows))"
      and k: "contract_for snapshots trade symbol (filter (\<lambda>r. ro_symbol r = symbol) ?rows) = Inr (Some k)"
    have "filter (\<lambda>r. ro_symbol r = symbol) ?rows \<noteq> []" using s by (auto simp: in_first_order_def filter_empty_conv)
    then show ?thesis using contract_for_registered [OF k] by blast
  qed
qed

lemma selected_contract_mem:
  "select_di_contract_for_horizon contracts reference horizon = Inr (Some k) \<Longrightarrow> k \<in> set contracts"
  by (auto simp: select_di_contract_for_horizon_def bindE_Inr_iff Let_def dest!: min_key_Some)

section \<open>Provenance\<close>

text \<open>What the verification needs of the registry, whose columns are not null.\<close>

definition registry_ok :: "di_instrument list \<Rightarrow> bool" where
  "registry_ok snapshots \<longleftrightarrow> (\<forall>i \<in> set snapshots. valid_date (in_maturity i) \<and> in_hash i \<noteq> [] \<and> in_source_name i \<noteq> [])"

lemma finite_number_float_json: "finite_number (Some (float_json (Fin q))) = Inr (Some q)"
proof -
  obtain a b where "quotient_of q = (a, b)" by fastforce
  then show ?thesis using quotient_of_div [of q a b] by (simp add: finite_number_def float_json_def)
qed

lemma provenance_distinct: "distinct (map fst (di_source_provenance observations k))"
  by (simp add: di_source_provenance_def Let_def)

lemma provenance_verified:
  assumes k: "registered snapshots trade k" and ok: "registry_ok snapshots" and t: "valid_date trade"
  shows "verified_source snapshots (json_obj (di_source_provenance observations k)) = Inr (Some (date_isoformat trade))"
proof -
  obtain i where i: "i \<in> set snapshots" "in_basis i = INSTRUMENT_BASIS" "in_message i = MESSAGE_DEFINITION"
    "in_symbol i = dc_symbol k" "in_maturity i = dc_maturity k" "trade < in_maturity i" "traded_on i trade"
    "rc_security k \<in> {in_fin_id i, in_security i}" "rc_hash k = in_hash i" "rc_report k = in_report i"
    "rc_instrument_at k = in_available i" "rc_isin k = in_security i" "rc_fin_id k = in_fin_id i"
    "rc_source_name k = in_source_name i" and r: "is_finite (dc_rate k)" "dc_trade_date k = trade" "rc_expiry k = EXPIRY_FIELD"
    using k by (auto simp: registered_def)
  obtain q where q: "dc_rate k = Fin q" using r(1) by (cases "dc_rate k") auto
  have m: "valid_date (dc_maturity k)" "in_hash i \<noteq> []" "in_source_name i \<noteq> []" using ok i(1,5) by (auto simp: registry_ok_def)
  let ?s = "di_source_provenance observations k"
  have get: "map_of (sort_key fst ?s) = map_of ?s" by (rule map_of_sort_key [OF provenance_distinct])
  have fields: "map_of ?s ''maturity_basis'' = Some (JStr INSTRUMENT_BASIS)" "map_of ?s ''expiry_field'' = Some (JStr EXPIRY_FIELD)"
    "map_of ?s ''instrument_source_hash'' = Some (JStr (in_hash i))" "map_of ?s ''instrument_source_basis'' = Some (JStr INSTRUMENT_BASIS)"
    "map_of ?s ''instrument_source_name'' = Some (JStr (in_source_name i))" "map_of ?s ''security_id'' = Some (JStr (rc_security k))"
    "map_of ?s ''instrument_report_date'' = Some (JStr (date_isoformat (in_report i)))"
    "map_of ?s ''instrument_available_at'' = Some (JStr (isoformat (in_available i)))"
    "map_of ?s ''trade_date'' = Some (JStr (date_isoformat trade))" "map_of ?s ''maturity'' = Some (JStr (date_isoformat (dc_maturity k)))"
    "map_of ?s ''rate'' = Some (float_json (Fin q))" "map_of ?s ''symbol'' = Some (JStr (in_symbol i))"
    "map_of ?s ''fin_instrm_id'' = Some (JStr (in_fin_id i))" "map_of ?s ''instrument_isin'' = Some (JStr (in_security i))"
    using i r q by (simp_all add: di_source_provenance_def Let_def)
  have c: "provenance_complete (sort_key fst ?s)"
    using m unfolding provenance_complete_def get fields by (simp add: is_text_def EXPIRY_FIELD_def)
  have p: "registry_proves_source (sort_key fst ?s) snapshots trade (dc_maturity k)"
    unfolding registry_proves_source_def list_ex_iff get fields
    using i by (intro bexI [OF _ i(1)]) (auto simp: MESSAGE_DEFINITION_def)
  show ?thesis
    using p i(5,6) t m(1)
    by (simp add: verified_source_def json_obj_def c get fields date_roundtrip finite_number_float_json)
qed

section \<open>Rows\<close>

text \<open>The sources of a row are contracts of one trade date, by the keys the verification reads, and the Focus record.\<close>

definition verifiable :: "di_instrument list \<Rightarrow> date \<Rightarrow> di_observation list \<Rightarrow> (string \<times> (string \<times> json) list) list \<Rightarrow> bool" where
  "verifiable snapshots trade observations sources \<longleftrightarrow>
     (\<exists>k. registered snapshots trade k \<and> map_of sources ''di_1y'' = Some (di_source_provenance observations k))
     \<and> (\<forall>s. map_of sources ''di_5y'' = Some s \<longrightarrow>
          (\<exists>k. registered snapshots trade k \<and> s = di_source_provenance observations k))
     \<and> distinct (map fst sources) \<and> ''reference_date'' \<notin> fst ` set sources"

lemma real_rate_verifiable:
  assumes "real_rate_value focus observations nominal = Inr (vs, reasons)" "v \<in> set vs"
    "\<And>k. nominal = Some k \<Longrightarrow> registered snapshots trade k"
  shows "verifiable snapshots trade observations (snd (snd (snd v)))"
proof -
  obtain k x where k: "nominal = Some k" "v = (''juro_real_ex_ante_1y'', x, ''pct_annual'',
      [(''di_1y'', di_source_provenance observations k), (''focus_12m_base0'', focus_provenance focus)])"
    using assms(1,2) by (auto simp: real_rate_value_def bindE_Inr_iff split: option.splits if_splits)
  show ?thesis using assms(3) [OF k(1)] by (auto simp: verifiable_def k(2))
qed

lemma slope_verifiable:
  assumes "slope_value observations one_year five_year = (vs, reasons)" "v \<in> set vs"
    "\<And>k. one_year = Some k \<or> five_year = Some k \<Longrightarrow> registered snapshots trade k"
  shows "verifiable snapshots trade observations (snd (snd (snd v)))"
proof -
  obtain k l x where k: "one_year = Some k" "five_year = Some l" "v = (''inclinacao_di_5y_1y'', x, ''pp'',
      [(''di_1y'', di_source_provenance observations k), (''di_5y'', di_source_provenance observations l)])"
    using assms(1,2) by (auto simp: slope_value_def split: option.splits if_splits)
  show ?thesis using assms(3) k(1,2) by (auto simp: verifiable_def k(3))
qed

text \<open>The text of the inputs passes the verification when the codec reads it back.\<close>

lemma verifiable_row:
  assumes v: "verifiable snapshots trade observations sources" and ok: "registry_ok snapshots" and t: "valid_date trade"
    and codec: "loads c text = Inr (di_row_inputs reference sources)"
  shows "has_verified_di_maturities c snapshots text = Inr True"
proof -
  define kvs where "kvs = (''reference_date'', JStr (date_isoformat reference)) # map (\<lambda>(k, s). (k, json_obj s)) sources"
  have d: "distinct (map fst kvs)" using v by (auto simp: kvs_def verifiable_def split_def image_image comp_def)
  have get: "map_of (sort_key fst kvs) = map_of kvs" by (rule map_of_sort_key [OF d])
  have found: "loads c text = Inr (JObj (sort_key fst kvs))"
    unfolding codec di_row_inputs_def kvs_def json_obj_def [of "_ # _"] ..
  have m: "map_of (map (\<lambda>(k, s). (k, json_obj s)) sources) key = map_option json_obj (map_of sources key)" for key
    by (induction sources) auto
  have key: "map_of kvs ''di_1y'' = map_option json_obj (map_of sources ''di_1y'')"
    "map_of kvs ''di_5y'' = map_option json_obj (map_of sources ''di_5y'')" by (simp_all add: kvs_def m)
  obtain k where k: "registered snapshots trade k" "map_of sources ''di_1y'' = Some (di_source_provenance observations k)"
    using v by (auto simp: verifiable_def)
  note first = provenance_verified [OF k(1) ok t, of observations]
  have n: "json_obj s \<noteq> JNull" for s by (simp add: json_obj_def)
  show ?thesis
  proof (cases "map_of sources ''di_5y''")
    case None
    then show ?thesis using first
      by (simp add: has_verified_di_maturities_def found catching_def get key k(2) n List.map_filter_simps)
  next
    case (Some s)
    then obtain l where l: "registered snapshots trade l" "s = di_source_provenance observations l"
      using v by (auto simp: verifiable_def)
    show ?thesis using first provenance_verified [OF l(1) ok t, of observations] Some l(2)
      by (simp add: has_verified_di_maturities_def found catching_def get key k(2) n List.map_filter_simps)
  qed
qed

text \<open>Every row of a month, with what it was built from.\<close>

lemma di_month_values_rows:
  assumes "di_month_values c m reference focus observations contracts = Inr (rows, reasons)" "r \<in> set rows"
    and contracts: "\<And>k. k \<in> set contracts \<Longrightarrow> registered snapshots trade k"
  shows "\<exists>sources. verifiable snapshots trade observations sources
    \<and> ov_inputs r = dumps c (di_row_inputs reference sources) \<and> ov_month r = m \<and> ov_formula r = DI_FORMULA_VERSION"
proof -
  obtain one five p where
    one: "select_di_contract_for_horizon contracts reference 365 = Inr one" and
    five: "select_di_contract_for_horizon contracts reference 1825 = Inr five" and
    p: "real_rate_value focus observations one = Inr p" and
    rows: "mapE (di_month_row c m reference focus) (fst p @ fst (slope_value observations one five)) = Inr rows"
    using assms(1) by (auto simp: di_month_values_def bindE_Inr_iff split_def)
  have rates: "real_rate_value focus observations one = Inr (fst p, snd p)" by (simp add: p)
  have slopes: "slope_value observations one five = (fst (slope_value observations one five), snd (slope_value observations one five))"
    by simp
  have reg: "one = Some k \<or> five = Some k \<Longrightarrow> registered snapshots trade k" for k
    using contracts selected_contract_mem one five by blast
  obtain v where v: "v \<in> set (fst p @ fst (slope_value observations one five))" "di_month_row c m reference focus v = Inr r"
    using mapE_Inr_mem [OF rows assms(2)] by blast
  have "verifiable snapshots trade observations (snd (snd (snd v)))"
    using v(1) real_rate_verifiable [OF rates _ reg, of v] slope_verifiable [OF slopes _ reg, of v]
    unfolding set_append by blast
  moreover have "ov_inputs r = dumps c (di_row_inputs reference (snd (snd (snd v)))) \<and> ov_month r = m \<and> ov_formula r = DI_FORMULA_VERSION"
    using v(2) by (auto simp: di_month_row_def bindE_Inr_iff Let_def split: prod.splits)
  ultimately show ?thesis by blast
qed

text \<open>The curve of a month with rows: its reference is its trade date, and its Focus expectation is not later.\<close>

lemma retrospective_di_month_curve:
  assumes b: "build_retrospective_di_month c m month_dates candidates sources = Inr (rows, reasons)" and r: "rows \<noteq> []"
  obtains curve focus contracts where "curve \<in> set month_dates" "focus \<in> set candidates" "sv_period focus \<le> curve"
    "di_contracts_for_date (rs_observations sources) curve (rs_instruments sources) = Inr contracts"
    "di_month_values c m curve focus (rs_observations sources) contracts = Inr (rows, reasons)"
proof -
  obtain reference curve where curve: "max_key id (filter (\<lambda>d. d \<le> reference) month_dates) = Some curve"
    and some: "filter (\<lambda>v. sv_period v \<le> min reference curve) candidates \<noteq> []"
    and month: "curve_month c m curve (min reference curve) (last (filter (\<lambda>v. sv_period v \<le> min reference curve) candidates)) sources
      = Inr (rows, reasons)"
    using b r unfolding build_retrospective_di_month_def Let_def
    by (auto simp del: min.bounded_iff split: if_splits option.splits)
  have c: "curve \<in> set month_dates" "min reference curve = curve" using max_key_Some [OF curve] by auto
  let ?focus = "last (filter (\<lambda>v. sv_period v \<le> curve) candidates)"
  have f: "?focus \<in> set (filter (\<lambda>v. sv_period v \<le> curve) candidates)" using some unfolding c(2) by (rule last_in_set)
  obtain contracts where "di_contracts_for_date (rs_observations sources) curve (rs_instruments sources) = Inr contracts"
    "di_month_values c m curve ?focus (rs_observations sources) contracts = Inr (rows, reasons)"
    using month r unfolding curve_month_def c(2) by (auto simp: bindE_Inr_iff split: sum.splits if_splits)
  then show ?thesis using that [of curve ?focus contracts] c(1) f by auto
qed

lemma retrospective_di_month_rows:
  assumes b: "build_retrospective_di_month c m month_dates candidates sources = Inr (rows, reasons)" and r: "r \<in> set rows"
  shows "\<exists>trade given. trade \<in> set month_dates \<and> verifiable (rs_instruments sources) trade (rs_observations sources) given
    \<and> ov_inputs r = dumps c (di_row_inputs trade given) \<and> ov_month r = m \<and> ov_formula r = DI_FORMULA_VERSION"
proof -
  have some: "rows \<noteq> []" using r by auto
  show ?thesis
    by (rule retrospective_di_month_curve [OF b some]) (use di_month_values_rows [OF _ r] di_contracts_registered in blast)
qed

text \<open>What the reconstruction writes passes the gate it is read through. For any observations of valid trade dates and
  any registry whose instruments have a valid maturity, a hash and a source, every row built for the two DI components is
  of its month and formula, and when the JSON codec reads the row's inputs back, the verification of their maturities
  against that registry succeeds: no row is lost to the gate for its provenance, and none raises.\<close>

theorem retrospective_di_rows_are_verified:
  assumes "build_retrospective_di_values c sources = Inr (rows, failures)" "r \<in> set rows"
    and "registry_ok (rs_instruments sources)" "list_all (\<lambda>k. valid_date (ro_trade k)) (rs_observations sources)"
    and "\<And>v. ov_inputs r = dumps c v \<Longrightarrow> loads c (ov_inputs r) = Inr v"
  shows "ov_month r \<in> set (retro_months sources) \<and> ov_formula r = DI_FORMULA_VERSION
    \<and> has_verified_di_maturities c (rs_instruments sources) (ov_inputs r) = Inr True"
proof -
  obtain m rs reasons where m: "m \<in> set (retro_months sources)" "r \<in> set rs"
    "build_retrospective_di_month c m (di_dates_of_month (rs_observations sources) m)
       (focus_of_month (rs_vintages sources) m) sources = Inr (rs, reasons)"
    using assms(1,2) by (fastforce simp: build_retrospective_di_values_def bindE_Inr_iff split: prod.splits dest: mapE_Inr_mem)
  obtain trade given where t: "trade \<in> set (di_dates_of_month (rs_observations sources) m)"
    "verifiable (rs_instruments sources) trade (rs_observations sources) given"
    "ov_inputs r = dumps c (di_row_inputs trade given)" "ov_month r = m" "ov_formula r = DI_FORMULA_VERSION"
    using retrospective_di_month_rows [OF m(3,2)] by blast
  have "valid_date trade" using t(1) assms(4) by (auto simp: di_dates_of_month_def list_all_iff)
  then show ?thesis using verifiable_row [OF t(2) assms(3)] assms(5) [OF t(3)] m(1) t(4,5) by blast
qed

section \<open>A month\<close>

text \<open>Two prices of a day with their instruments, and a Focus expectation of the day.\<close>

definition rx_evening :: datetime where
  "rx_evening = DateTime (Date 2024 2 1) 18 0 0 0 (Some 0)"

definition rx_price :: "string \<Rightarrow> date \<Rightarrow> rat \<Rightarrow> di_observation" where
  "rx_price symbol maturity rate =
     \<lparr>ro_trade = Date 2024 1 31, ro_symbol = symbol, ro_maturity = maturity, ro_rate = Fin rate, ro_hash = ''h1'', ro_name = ''n1'',
      ro_member = ''m1'', ro_fetched = rx_evening, ro_basis = RETROSPECTIVE_BASIS, ro_maturity_basis = ''b3'',
      ro_security = None, ro_conflict = False\<rparr>"

definition rx_instrument :: "string \<Rightarrow> date \<Rightarrow> di_instrument" where
  "rx_instrument symbol maturity =
     \<lparr>in_report = Date 2024 1 30, in_symbol = symbol, in_security = ''BR'' @ symbol, in_fin_id = ''7'', in_maturity = maturity,
      in_start = None, in_finish = None, in_hash = ''h2'', in_source_name = ''n2'', in_message = MESSAGE_DEFINITION,
      in_message_id = ''i'', in_captured = rx_evening, in_available = rx_evening, in_basis = INSTRUMENT_BASIS\<rparr>"

definition rx_focus :: score_vintage where
  "rx_focus =
     \<lparr>sv_provider = ''focus'', sv_series = FOCUS_12M_KEY, sv_period = Date 2024 1 31, sv_value = 0, sv_unit = ''pct_annual'',
      sv_source = FOCUS_SOURCE, sv_available = rx_evening, sv_first_seen = rx_evening, sv_hash = ''h3'', sv_published = None\<rparr>"

definition rx_retro :: retro_sources where
  "rx_retro =
     \<lparr>rs_vintages = [rx_focus],
      rs_observations = [rx_price ''F25'' (Date 2025 1 30) (25 / 2), rx_price ''F29'' (Date 2029 1 29) 11],
      rs_instruments = [rx_instrument ''F25'' (Date 2025 1 30), rx_instrument ''F29'' (Date 2029 1 29)]\<rparr>"

definition rx_given :: "(string \<times> (string \<times> json) list) list" where
  "rx_given =
     [(''di_1y'', di_source_provenance (rs_observations rx_retro) (retro_contract_of (Date 2024 1 31) ''F25''
        [rx_price ''F25'' (Date 2025 1 30) (25 / 2)] (rx_instrument ''F25'' (Date 2025 1 30)))),
      (''focus_12m_base0'', focus_provenance rx_focus)]"

definition rx_texts :: codec where
  "rx_texts =
     \<lparr>dumps = (\<lambda>v. if v = di_row_inputs (Date 2024 1 31) rx_given then ''rate'' else ''slope''),
      loads = (\<lambda>s. if s = ''rate'' then Inr (di_row_inputs (Date 2024 1 31) rx_given) else Inl ValueError),
      sha256 = (\<lambda>s. s)\<rparr>"


lemma fl_eighths: "\<bar>k\<bar> \<le> 2 ^ 53 \<Longrightarrow> fl (of_int k / 8) = Fin (of_int k / 8)"
proof -
  assume k: "\<bar>k\<bar> \<le> 2 ^ 53"
  have r: "round64 (of_int k / 8) = of_int k / 8" using round64_exact [of k "- 3"] k by (simp add: power_int_minus)
  have "\<bar>rat_of_int k\<bar> \<le> of_int (2 ^ 53)" using k by (metis of_int_abs of_int_le_iff)
  then show ?thesis using fl_small [of "of_int k / 8"] r by simp
qed

lemma rx_denominator: "fisher_denominator 0 = Inr (Fin 1)"
  using fl_eighths [of 0] fl_eighths [of 8] by (simp add: fisher_denominator_def)

lemma rx_fisher: "fisher_rate (Fin (25 / 2)) (Fin 1) = Inr (Fin (25 / 2))"
  using fl_eighths [of 1] fl_eighths [of 9] fl_eighths [of 100] by (simp add: fisher_rate_def float_sub_def)

lemma rx_slope: "float_sub (Fin 11) (Fin (25 / 2)) = Fin (- (3 / 2))"
  using fl_eighths [of "- 12"] by (simp add: float_sub_def)

definition rx_one :: retro_contract where
  "rx_one = retro_contract_of (Date 2024 1 31) ''F25'' [rx_price ''F25'' (Date 2025 1 30) (25 / 2)] (rx_instrument ''F25'' (Date 2025 1 30))"

definition rx_five :: retro_contract where
  "rx_five = retro_contract_of (Date 2024 1 31) ''F29'' [rx_price ''F29'' (Date 2029 1 29) 11] (rx_instrument ''F29'' (Date 2029 1 29))"

lemma rx_contracts: "di_contracts_for_date (rs_observations rx_retro) (Date 2024 1 31) (rs_instruments rx_retro) = Inr [rx_one, rx_five]"
  by code_simp

lemma rx_selected: "select_di_contract_for_horizon [rx_one, rx_five] (Date 2024 1 31) 365 = Inr (Some rx_one)"
  "select_di_contract_for_horizon [rx_one, rx_five] (Date 2024 1 31) 1825 = Inr (Some rx_five)"
  by code_simp+

lemma rx_months: "retro_months rx_retro = [''2024-01'']" "focus_of_month (rs_vintages rx_retro) ''2024-01'' = [rx_focus]"
  "di_dates_of_month (rs_observations rx_retro) ''2024-01'' = [Date 2024 1 31]"
  by code_simp+

lemma rx_stamps: "astimezone_utc (the (max_key instant (row_stamps rx_focus rx_given))) = Inr rx_evening"
  by code_simp

definition rx_slope_given :: "(string \<times> (string \<times> json) list) list" where
  "rx_slope_given = [(''di_1y'', di_source_provenance (rs_observations rx_retro) rx_one),
     (''di_5y'', di_source_provenance (rs_observations rx_retro) rx_five)]"

lemma rx_slope_stamps: "astimezone_utc (the (max_key instant (row_stamps rx_focus rx_slope_given))) = Inr rx_evening"
  by code_simp

definition rx_row :: "string \<Rightarrow> rat \<Rightarrow> string \<Rightarrow> string \<Rightarrow> overlay_row" where
  "rx_row name x u packed =
     \<lparr>ov_component = name, ov_month = ''2024-01'', ov_value = Some (Fin x), ov_unit = u, ov_formula = DI_FORMULA_VERSION,
      ov_basis = RETROSPECTIVE_BASIS, ov_fetched = isoformat rx_evening, ov_inputs = packed, ov_hash = packed, ov_reason = None\<rparr>"

lemma rx_values:
  "real_rate_value rx_focus (rs_observations rx_retro) (Some rx_one) = Inr ([(''juro_real_ex_ante_1y'', Fin (25 / 2), ''pct_annual'', rx_given)], [])"
  "slope_value (rs_observations rx_retro) (Some rx_one) (Some rx_five) = ([(''inclinacao_di_5y_1y'', Fin (- (3 / 2)), ''pp'', rx_slope_given)], [])"
proof -
  have r: "dc_rate rx_one = Fin (25 / 2)" "dc_rate rx_five = Fin 11" "sv_value rx_focus = 0" "dc_symbol rx_one \<noteq> dc_symbol rx_five"
    by code_simp+
  have g: "rx_given = [(''di_1y'', di_source_provenance (rs_observations rx_retro) rx_one), (''focus_12m_base0'', focus_provenance rx_focus)]"
    by (simp add: rx_given_def rx_one_def)
  show "real_rate_value rx_focus (rs_observations rx_retro) (Some rx_one) = Inr ([(''juro_real_ex_ante_1y'', Fin (25 / 2), ''pct_annual'', rx_given)], [])"
    by (simp add: real_rate_value_def r rx_denominator rx_fisher g)
  show "slope_value (rs_observations rx_retro) (Some rx_one) (Some rx_five) = ([(''inclinacao_di_5y_1y'', Fin (- (3 / 2)), ''pp'', rx_slope_given)], [])"
    using r(4) by (simp add: slope_value_def r(1,2) rx_slope rx_slope_given_def)
qed

lemma rx_month: "di_month_values rx_texts ''2024-01'' (Date 2024 1 31) rx_focus (rs_observations rx_retro) [rx_one, rx_five]
  = Inr ([rx_row ''juro_real_ex_ante_1y'' (25 / 2) ''pct_annual'' ''rate'',
          rx_row ''inclinacao_di_5y_1y'' (- (3 / 2)) ''pp'' (dumps rx_texts (di_row_inputs (Date 2024 1 31) rx_slope_given))], [])"
  by (simp add: di_month_values_def rx_selected rx_values di_month_row_def rx_stamps rx_slope_stamps Let_def rx_row_def)
    (simp add: rx_texts_def)

lemma rx_built: "\<exists>q. build_retrospective_di_values rx_texts rx_retro = Inr ([rx_row ''juro_real_ex_ante_1y'' (25 / 2) ''pct_annual'' ''rate'', q], [])"
proof -
  have d: "sv_period rx_focus = Date 2024 1 31" by (simp add: rx_focus_def)
  have o: "ro_trade r = Date 2024 1 31 \<and> ro_symbol r \<in> dc_symbol ` {rx_one, rx_five}" if "r \<in> set (rs_observations rx_retro)" for r
    using that by (auto simp: rx_retro_def rx_price_def rx_one_def rx_five_def retro_contract_of_def Let_def)
  have none: "filter (\<lambda>r. ro_trade r = Date 2024 1 31 \<and> ro_symbol r \<notin> dc_symbol ` set [rx_one, rx_five]) (rs_observations rx_retro) = []"
    using o by (auto simp: filter_empty_conv)
  have "build_retrospective_di_month rx_texts ''2024-01'' [Date 2024 1 31] [rx_focus] rx_retro
    = Inr ([rx_row ''juro_real_ex_ante_1y'' (25 / 2) ''pct_annual'' ''rate'',
            rx_row ''inclinacao_di_5y_1y'' (- (3 / 2)) ''pp'' (dumps rx_texts (di_row_inputs (Date 2024 1 31) rx_slope_given))], [])"
    using none by (simp add: build_retrospective_di_month_def curve_month_def Let_def d max_key_def rx_contracts rx_month collectE_def)
  then show ?thesis by (simp add: build_retrospective_di_values_def rx_months)
qed

theorem retrospective_di_rows_are_verified_witness:
  "\<exists>c sources rows failures r. build_retrospective_di_values c sources = Inr (rows, failures) \<and> r \<in> set rows
    \<and> ov_month r = ''2024-01'' \<and> ov_value r = Some (Fin (25 / 2))
    \<and> has_verified_di_maturities c (rs_instruments sources) (ov_inputs r) = Inr True"
proof -
  let ?r = "rx_row ''juro_real_ex_ante_1y'' (25 / 2) ''pct_annual'' ''rate''"
  obtain q where b: "build_retrospective_di_values rx_texts rx_retro = Inr ([?r, q], [])" using rx_built by blast
  have ok: "registry_ok (rs_instruments rx_retro)" "list_all (\<lambda>k. valid_date (ro_trade k)) (rs_observations rx_retro)"
    by (simp add: registry_ok_def rx_retro_def rx_instrument_def, code_simp) code_simp
  have codec: "loads rx_texts (ov_inputs ?r) = Inr v" if "ov_inputs ?r = dumps rx_texts v" for v
    using that by (simp add: rx_texts_def rx_row_def split: if_splits)
  have "ov_month ?r \<in> set (retro_months rx_retro) \<and> ov_formula ?r = DI_FORMULA_VERSION
      \<and> has_verified_di_maturities rx_texts (rs_instruments rx_retro) (ov_inputs ?r) = Inr True"
    by (rule retrospective_di_rows_are_verified [OF b _ ok]) (use codec in simp_all)
  then show ?thesis using b by (intro exI [of _ rx_texts] exI [of _ rx_retro] exI [of _ "[?r, q]"] exI [of _ "[]"] exI [of _ ?r])
    (simp add: rx_row_def)
qed

end
