(* ===== verification/RetroRate.thy ===== *)
theory RetroRate
  imports RetroDi DerivedRefresh RetroDiClaims RunModels
begin

text \<open>
  The history of the ex-ante real rate before the forward capture (\<open>derived/retrospective_real_rate.py\<close>): the monthly DI
  rows are checked again against the registry and the cutoff, and the rate is computed once more from the row's inputs.
\<close>

section \<open>Comparing floats\<close>

definition float_le :: "pyfloat \<Rightarrow> pyfloat \<Rightarrow> bool" where
  "float_le x y \<longleftrightarrow> float_less x y \<or> float_eq x y"

text \<open>The literal \<open>1e-12\<close>.\<close>

definition TOLERANCE :: pyfloat where
  "TOLERANCE = fl (1 / 10 ^ 12)"

text \<open>\<open>math.isclose(a, b, rel_tol=1e-12, abs_tol=1e-12)\<close>\<close>

definition isclose :: "pyfloat \<Rightarrow> pyfloat \<Rightarrow> bool" where
  "isclose a b \<longleftrightarrow>
     float_eq a b
     \<or> is_finite a \<and> is_finite b
       \<and> (let diff = float_abs (float_sub b a)
          in float_le diff (float_abs (float_mult TOLERANCE b)) \<or> float_le diff (float_abs (float_mult TOLERANCE a))
             \<or> float_le diff TOLERANCE)"

lemma isclose_refl: "isclose (Fin x) (Fin x)"
  by (simp add: isclose_def)

section \<open>A row\<close>

text \<open>An early \<open>return None\<close> when a value is missing.\<close>

definition someE :: "'a option \<Rightarrow> ('a \<Rightarrow> 'e + 'b option) \<Rightarrow> 'e + 'b option" where
  "someE v f = (case v of None \<Rightarrow> Inr None | Some x \<Rightarrow> f x)"

lemma someE_simps [simp]: "someE None f = Inr None" "someE (Some x) f = f x"
  by (simp_all add: someE_def)

lemma someE_Inr_Some: "someE v f = Inr (Some q) \<longleftrightarrow> (\<exists>x. v = Some x \<and> f x = Inr (Some q))"
  by (cases v) simp_all

definition object_of :: "json option \<Rightarrow> (string \<times> json) list option" where
  "object_of v = (case v of Some (JObj kvs) \<Rightarrow> Some kvs | _ \<Rightarrow> None)"

text \<open>\<open>_timestamp\<close>: an aware time of a text.\<close>

definition timestamp_of :: "json option \<Rightarrow> py_error + datetime option" where
  "timestamp_of v = (case v of Some (JStr s) \<Rightarrow> aware_timestamp s | _ \<Rightarrow> Inr None)"

text \<open>\<open>str(di.get(key, ""))\<close>; the verification has seen that the value is a text.\<close>

definition text_field :: "string \<Rightarrow> (string \<times> json) list \<Rightarrow> string" where
  "text_field key kvs = str_or_empty (text_of (map_of kvs key))"

definition is_rate_row :: "overlay_row \<Rightarrow> bool" where
  "is_rate_row r \<longleftrightarrow> ov_component r = ds_key REAL_RATE \<and> ov_unit r = ''pct_annual'' \<and> ov_formula r = DI_FORMULA_VERSION
     \<and> ov_basis r = RETROSPECTIVE_BASIS"

definition nominal_input :: "(string \<times> json) list \<Rightarrow> rat \<Rightarrow> string \<Rightarrow> datetime \<Rightarrow> derived_error + derived_input" where
  "nominal_input di rate period available =
     make_input ''nominal_rate'' (Fin rate) ''pct_annual'' period available ''B3 DI retrospective_reference''
       [(''availability_basis'', JStr RETROSPECTIVE_BASIS), (''source_formula_version'', JStr DI_FORMULA_VERSION),
        (''maturity'', JStr (text_field ''maturity'' di)), (''symbol'', JStr (text_field ''symbol'' di))]"

definition inflation_input :: "rat \<Rightarrow> string \<Rightarrow> datetime \<Rightarrow> derived_error + derived_input" where
  "inflation_input x period available =
     make_input ''expected_inflation'' (Fin x) ''pct_annual'' period available ''Focus IPCA 12m retrospective_reference''
       [(''availability_basis'', JStr RETROSPECTIVE_BASIS), (''filter'', JStr FOCUS_12M_FILTER),
        (''series_key'', JStr FOCUS_12M_KEY), (''source_formula_version'', JStr DI_FORMULA_VERSION)]"

text \<open>The rate of the row against its inputs, and the result.\<close>

definition recomputed_result ::
    "rat \<Rightarrow> rat \<Rightarrow> rat \<Rightarrow> derived_input list \<Rightarrow> datetime \<Rightarrow> date \<Rightarrow> string \<Rightarrow> derived_error + derived_result option" where
  "recomputed_result x nominal inflation inputs captured reference hash =
     bindE (python (fisher_denominator inflation)) (\<lambda>denominator.
     if float_eq denominator (Fin 0) then Inr None
     else bindE (python (fisher_rate (Fin nominal) denominator)) (\<lambda>computed.
          if \<not> isclose computed (Fin x) then Inr None
          else bindE (make_result (Some (Fin x)) None
              ((result_args REAL_RATE captured inputs None (Some reference))\<lparr>dr_dependencies := [(''retrospective_source'', hash)]\<rparr>))
            (\<lambda>result. Inr (Some result))))"

definition rate_of_inputs ::
    "datetime \<Rightarrow> overlay_row \<Rightarrow> rat \<Rightarrow> (string \<times> json) list \<Rightarrow> date \<Rightarrow> datetime \<Rightarrow> derived_error + derived_result option" where
  "rate_of_inputs cutoff r x inputs reference captured =
     someE (object_of (map_of inputs ''di_1y'')) (\<lambda>di.
     someE (object_of (map_of inputs ''focus_12m_base0'')) (\<lambda>focus.
     bindE (python (timestamp_of (map_of di ''fetched_at''))) (\<lambda>di_available.
     bindE (python (timestamp_of (map_of focus ''available_at''))) (\<lambda>focus_available.
     bindE (python (finite_number (map_of di ''rate''))) (\<lambda>rate. someE rate (\<lambda>n.
     bindE (python (finite_number (map_of focus ''value''))) (\<lambda>inflation. someE inflation (\<lambda>e.
     someE di_available (\<lambda>dt. someE focus_available (\<lambda>ft.
     if instant cutoff < instant dt \<or> instant cutoff < instant ft then Inr None
     else someE (text_of (map_of di ''trade_date'')) (\<lambda>di_date. someE (text_of (map_of focus ''reference_date'')) (\<lambda>focus_date.
       bindE (nominal_input di n di_date dt) (\<lambda>i.
       bindE (inflation_input e focus_date ft) (\<lambda>j.
         recomputed_result x n e [i, j] captured reference (ov_hash r)))))))))))))))"

definition finite_value :: "overlay_row \<Rightarrow> rat option" where
  "finite_value r = (case ov_value r of Some (Fin x) \<Rightarrow> Some x | _ \<Rightarrow> None)"

definition rate_result ::
    "codec \<Rightarrow> datetime \<Rightarrow> di_instrument list \<Rightarrow> overlay_row \<Rightarrow> derived_error + derived_result option" where
  "rate_result c cutoff registry r =
     (if \<not> is_rate_row r then Inr None
      else bindE (python (catching (loads c (ov_inputs r)))) (\<lambda>parsed.
        someE (object_of parsed) (\<lambda>inputs. someE (finite_value r) (\<lambda>x.
        bindE (python (has_verified_di_maturities c registry (ov_inputs r))) (\<lambda>verified.
        if \<not> verified then Inr None
        else bindE (python (aware_timestamp (ov_fetched r))) (\<lambda>captured.
          someE (reference_date_of (map_of inputs ''reference_date'')) (\<lambda>reference. someE captured (\<lambda>t.
          if month_text reference \<noteq> ov_month r \<or> instant cutoff < instant t then Inr None
          else rate_of_inputs cutoff r x inputs reference t)))))))) "

definition load_retrospective_real_rate_history :: "codec \<Rightarrow> (datetime \<Rightarrow> derived_error + retro_sources) \<Rightarrow> datetime
     \<Rightarrow> derived_error + derived_result list" where
  "load_retrospective_real_rate_history c load as_of =
     bindE (python (utc_datetime as_of)) (\<lambda>cutoff.
     bindE (load cutoff) (\<lambda>sources.
     bindE (python (build_retrospective_di_values c sources)) (\<lambda>(rows, _).
       collectE (rate_result c cutoff (rs_instruments sources)) rows)))"

text \<open>The sources of the two ledgers and of the vintages at a cutoff.\<close>

definition load_retro_sources ::
    "ledger_validators \<Rightarrow> vintage_row list \<Rightarrow> (price_identity list \<times> di_price_row list) list \<Rightarrow> instrument_row list \<Rightarrow> datetime
     \<Rightarrow> derived_error + retro_sources" where
  "load_retro_sources lv vintages ledgers instruments cutoff =
     bindE (load_score_vintages lv vintages cutoff) (\<lambda>vs.
     bindE (python (load_retrospective_di_observations ledgers cutoff)) (\<lambda>ks.
     bindE (python (load_di_instrument_snapshots instruments cutoff)) (\<lambda>is.
       Inr \<lparr>rs_vintages = vs, rs_observations = ks, rs_instruments = is\<rparr>)))"

section \<open>What the history holds\<close>

lemma recomputed_result_Some:
  assumes "recomputed_result x nominal inflation inputs captured reference hash = Inr (Some q)"
  shows "well_formed_result q" "is_real_rate q" "dr_value q = Some x" "dr_reference q = Some (date_isoformat reference)"
    "dr_dependencies q = [(''retrospective_source'', hash)]" "inputs_known q" "utc_datetime captured = Inr (dr_as_of q)"
proof -
  let ?args = "(result_args REAL_RATE captured inputs None (Some reference))\<lparr>dr_dependencies := [(''retrospective_source'', hash)]\<rparr>"
  have m: "make_result (Some (Fin x)) None ?args = Inr q"
    using assms by (auto simp: recomputed_result_def bindE_Inr_iff split: if_splits)
  note q = make_result_Inr [OF m]
  have v: "dr_value q = Some x" using q(3) by (cases "dr_value q") (auto simp: float_opt_def)
  have f: "dr_key q = ds_key REAL_RATE" "dr_version q = ds_version REAL_RATE" "dr_reference q = Some (date_isoformat reference)"
    "dr_dependencies q = [(''retrospective_source'', hash)]"
    by (subst q(2), simp add: result_args_def)+
  show "well_formed_result q" "dr_value q = Some x" "dr_reference q = Some (date_isoformat reference)"
    "dr_dependencies q = [(''retrospective_source'', hash)]" by (rule q(1) v f)+
  show "is_real_rate q" by (simp add: is_real_rate_def f v)
  show "inputs_known q" using q(1) by (simp add: inputs_known_def well_formed_result_def list_all_iff available_by_def)
  show "utc_datetime captured = Inr (dr_as_of q)" using q(5) by (simp add: result_args_def)
qed

lemma rate_of_inputs_Some:
  "rate_of_inputs cutoff r x inputs reference captured = Inr (Some q) \<Longrightarrow>
    \<exists>n e i. recomputed_result x n e i captured reference (ov_hash r) = Inr (Some q)"
  by (auto simp: rate_of_inputs_def bindE_Inr_iff someE_Inr_Some split: if_split_asm)

text \<open>
  The rates that are computed from the retrospective ledgers become the history the real rate is ranked in.
\<close>

section \<open>Texts that are read back\<close>

lemma replace_zulu_isoformat [simp]: "replace_zulu (isoformat t) = isoformat t"
proof -
  have "CHR ''Z'' \<notin> set s \<Longrightarrow> replace_zulu s = s" for s by (induction s) (auto simp: replace_zulu_def)
  then show ?thesis by (simp add: isoformat_no_zulu)
qed

lemma stamp_read_back: "is_utc t \<Longrightarrow> fromisoformat (replace_zulu (isoformat t)) = Inr t"
  by (simp add: utc_text_roundtrip)

lemma aware_read_back: "is_utc t \<Longrightarrow> aware_timestamp (isoformat t) = Inr (Some t)"
  by (simp add: aware_timestamp_def utc_text_roundtrip utc_datetime_of_utc catching_def)

lemma timestamp_read_back: "is_utc t \<Longrightarrow> timestamp_of (Some (JStr (isoformat t))) = Inr (Some t)"
  by (simp add: timestamp_of_def aware_read_back)

lemma reference_read_back: "valid_date d \<Longrightarrow> reference_date_of (Some (JStr (date_isoformat d))) = Some d"
proof -
  assume d: "valid_date d"
  have "take 10 (date_isoformat d) = date_isoformat d" by (simp add: date_isoformat_def)
  then show ?thesis using d by (simp add: reference_date_of_def parse_reference_date_def date_roundtrip)
qed

lemma date_isoformat_some: "date_isoformat d \<noteq> []"
  by (simp add: date_isoformat_def)

section \<open>The sources of a rate\<close>

text \<open>Everything the sources hold was known at the cutoff, as their loaders leave it.\<close>

definition sources_known :: "datetime \<Rightarrow> retro_sources \<Rightarrow> bool" where
  "sources_known cutoff sources \<longleftrightarrow> is_utc cutoff
     \<and> list_all (proper_observation cutoff) (rs_observations sources)
     \<and> list_all (\<lambda>i. proper_instrument i \<and> instant (in_available i) \<le> instant cutoff \<and> in_hash i \<noteq> [] \<and> in_source_name i \<noteq> [])
         (rs_instruments sources)
     \<and> list_all (\<lambda>v. is_utc (sv_available v) \<and> instant (sv_available v) \<le> instant cutoff \<and> valid_date (sv_period v))
         (rs_vintages sources)"

lemma di_contracts_observed:
  assumes "di_contracts_for_date observations trade snapshots = Inr contracts" "k \<in> set contracts"
  shows "filter (\<lambda>r. ro_trade r = trade \<and> ro_symbol r = dc_symbol k) observations \<noteq> []"
proof -
  let ?rows = "filter (\<lambda>r. ro_trade r = trade) observations"
  have c: "collectE (\<lambda>symbol. contract_for snapshots trade symbol (filter (\<lambda>r. ro_symbol r = symbol) ?rows))
      (in_first_order (map ro_symbol ?rows)) = Inr contracts"
    using assms(1) by (simp add: di_contracts_for_date_def Let_def split: if_splits)
  show ?thesis
  proof (rule collectE_mem [OF c assms(2)])
    fix symbol
    assume s: "symbol \<in> set (in_first_order (map ro_symbol ?rows))"
      and k: "contract_for snapshots trade symbol (filter (\<lambda>r. ro_symbol r = symbol) ?rows) = Inr (Some k)"
    have "dc_symbol k = symbol" using k
      by (auto simp: contract_for_def Let_def retro_contract_of_def split: if_splits option.splits)
    then show ?thesis using s by (auto simp: in_first_order_def filter_empty_conv)
  qed
qed

text \<open>What a rate is computed from: a contract of the curve and the Focus expectation.\<close>

definition rate_sources :: "di_observation list \<Rightarrow> retro_contract \<Rightarrow> score_vintage \<Rightarrow> (string \<times> (string \<times> json) list) list" where
  "rate_sources observations k focus =
     [(''di_1y'', di_source_provenance observations k), (''focus_12m_base0'', focus_provenance focus)]"

definition rate_row_of ::
    "codec \<Rightarrow> retro_sources \<Rightarrow> overlay_row \<Rightarrow> pyfloat \<Rightarrow> date \<Rightarrow> retro_contract \<Rightarrow> score_vintage \<Rightarrow> bool" where
  "rate_row_of c sources r x trade k focus \<longleftrightarrow>
     focus \<in> set (rs_vintages sources) \<and> sv_period focus \<le> trade
     \<and> registered (rs_instruments sources) trade k
     \<and> filter (\<lambda>o1. ro_trade o1 = trade \<and> ro_symbol o1 = dc_symbol k) (rs_observations sources) \<noteq> []
     \<and> (\<exists>denominator. fisher_denominator (sv_value focus) = Inr denominator \<and> \<not> float_eq denominator (Fin 0)
          \<and> fisher_rate (dc_rate k) denominator = Inr x)
     \<and> di_month_row c (month_text trade) trade focus
         (ds_key REAL_RATE, x, ''pct_annual'', rate_sources (rs_observations sources) k focus) = Inr r"

lemma rate_row_from:
  assumes b: "build_retrospective_di_month c m (di_dates_of_month (rs_observations sources) m)
      (focus_of_month (rs_vintages sources) m) sources = Inr (rows, reasons)"
    and r: "r \<in> set rows" "ov_component r = ds_key REAL_RATE"
  shows "\<exists>x trade k focus. rate_row_of c sources r x trade k focus"
proof -
  have some: "rows \<noteq> []" using r(1) by auto
  obtain trade focus contracts where t: "trade \<in> set (di_dates_of_month (rs_observations sources) m)"
    and f: "focus \<in> set (focus_of_month (rs_vintages sources) m)" "sv_period focus \<le> trade"
    and contracts: "di_contracts_for_date (rs_observations sources) trade (rs_instruments sources) = Inr contracts"
    and v: "di_month_values c m trade focus (rs_observations sources) contracts = Inr (rows, reasons)"
    by (rule retrospective_di_month_curve [OF b some])
  obtain one five p where
    one: "select_di_contract_for_horizon contracts trade 365 = Inr one" and
    p: "real_rate_value focus (rs_observations sources) one = Inr p" and
    rows: "mapE (di_month_row c m trade focus) (fst p @ fst (slope_value (rs_observations sources) one five)) = Inr rows"
    using v by (auto simp: di_month_values_def bindE_Inr_iff split_def)
  obtain w where w: "w \<in> set (fst p @ fst (slope_value (rs_observations sources) one five))"
    "di_month_row c m trade focus w = Inr r" using mapE_Inr_mem [OF rows r(1)] by blast
  have "fst w = ds_key REAL_RATE"
    using w(2) r(2) by (auto simp: di_month_row_def bindE_Inr_iff Let_def split: prod.splits)
  then have "w \<in> set (fst p)"
    using w(1) by (auto simp: slope_value_def REAL_RATE_def split: option.splits if_splits)
  then obtain k denominator x where k: "one = Some k" "fisher_denominator (sv_value focus) = Inr denominator"
    "\<not> float_eq denominator (Fin 0)" "fisher_rate (dc_rate k) denominator = Inr x"
    "w = (ds_key REAL_RATE, x, ''pct_annual'', rate_sources (rs_observations sources) k focus)"
    using p by (auto simp: real_rate_value_def bindE_Inr_iff REAL_RATE_def rate_sources_def split: option.splits if_splits)
  have mem: "k \<in> set contracts" using selected_contract_mem one k(1) by blast
  have m: "m = month_text trade" using t by (auto simp: di_dates_of_month_def)
  have "rate_row_of c sources r x trade k focus"
    unfolding rate_row_of_def
    using f k(2,3,4) di_contracts_registered [OF contracts mem] di_contracts_observed [OF contracts mem] w(2)
    by (auto simp: focus_of_month_def k(5) m)
  then show ?thesis by blast
qed

section \<open>Stamps\<close>

text \<open>The times a rate is known from: the Focus expectation, the newest price and the instrument.\<close>

definition newest_price :: "di_observation list \<Rightarrow> retro_contract \<Rightarrow> datetime" where
  "newest_price observations k = ro_fetched (the (max_key (\<lambda>r. instant (ro_fetched r))
     (filter (\<lambda>r. ro_trade r = dc_trade_date k \<and> ro_symbol r = dc_symbol k) observations)))"

lemma newest_price_mem:
  assumes "filter (\<lambda>r. ro_trade r = dc_trade_date k \<and> ro_symbol r = dc_symbol k) observations \<noteq> []"
  shows "\<exists>r \<in> set observations. newest_price observations k = ro_fetched r"
proof -
  obtain r where "max_key (\<lambda>r. instant (ro_fetched r))
     (filter (\<lambda>r. ro_trade r = dc_trade_date k \<and> ro_symbol r = dc_symbol k) observations) = Some r"
    using assms max_key_None by fastforce
  then show ?thesis using max_key_Some by (fastforce simp: newest_price_def)
qed

lemma rate_stamps:
  assumes "is_utc (sv_available focus)" "is_utc (newest_price observations k)" "is_utc (rc_instrument_at k)"
  shows "row_stamps focus (rate_sources observations k focus) =
    [sv_available focus, newest_price observations k, rc_instrument_at k, sv_available focus]"
  using assms
  by (simp add: row_stamps_def rate_sources_def di_source_provenance_def focus_provenance_def Let_def stamp_of_def
      List.map_filter_simps utc_text_roundtrip newest_price_def)

section \<open>The result\<close>

lemma make_input_ok:
  assumes "key \<noteq> []" "u \<noteq> []" "period \<noteq> []" "source \<noteq> []" "[] \<notin> set (map fst md)" "distinct (map fst md)" "is_utc t"
  shows "\<exists>i. make_input key (Fin x) u period t source md = Inr i \<and> di_key i = key \<and> di_available i = t"
  using assms by (simp add: make_input_def utc_datetime_of_utc)

lemma nominal_input_ok:
  "is_utc t \<Longrightarrow> \<exists>i. nominal_input di n (date_isoformat d) t = Inr i \<and> di_key i = ''nominal_rate'' \<and> di_available i = t"
  unfolding nominal_input_def by (rule make_input_ok) (simp_all add: date_isoformat_some)

lemma inflation_input_ok:
  "is_utc t \<Longrightarrow> \<exists>i. inflation_input x (date_isoformat d) t = Inr i \<and> di_key i = ''expected_inflation'' \<and> di_available i = t"
  unfolding inflation_input_def by (rule make_input_ok) (simp_all add: date_isoformat_some)

lemma recomputed_result_total:
  assumes d: "fisher_denominator e = Inr denominator" "\<not> float_eq denominator (Fin 0)" "fisher_rate (Fin n) denominator = Inr (Fin x)"
    and i: "distinct (map di_key inputs)" "\<forall>i \<in> set inputs. instant (di_available i) \<le> instant captured"
    and t: "is_utc captured" "valid_date reference" "hash \<noteq> []"
  shows "\<exists>q. recomputed_result x n e inputs captured reference hash = Inr (Some q)"
proof -
  let ?args = "(result_args REAL_RATE captured inputs None (Some reference))\<lparr>dr_dependencies := [(''retrospective_source'', hash)]\<rparr>"
  have past: "\<not> list_ex (\<lambda>i. instant captured < instant (di_available i)) inputs" using i(2) by (auto simp: list_ex_iff not_less)
  have "\<exists>q. make_result (Some (Fin x)) None ?args = Inr q"
    using i(1) t past
    by (simp add: make_result_def result_args_def REAL_RATE_def utc_datetime_of_utc finite_opt_def date_roundtrip numbers_ok_def
        utc_opt_def contents_ok_def)
  then show ?thesis by (auto simp: recomputed_result_def d isclose_refl)
qed

section \<open>Computed rates become history\<close>

text \<open>What the inputs of the row say, read back.\<close>

lemma rate_provenance:
  assumes k: "dc_rate k = Fin n" "is_utc (newest_price observations k)"
  defines "di \<equiv> sort_key fst (di_source_provenance observations k)"
  shows "timestamp_of (map_of di ''fetched_at'') = Inr (Some (newest_price observations k))"
    "finite_number (map_of di ''rate'') = Inr (Some n)"
    "text_of (map_of di ''trade_date'') = Some (date_isoformat (dc_trade_date k))"
  unfolding di_def map_of_sort_key [OF provenance_distinct]
  using timestamp_read_back [OF k(2)] finite_number_float_json [of n]
  by (simp_all add: di_source_provenance_def Let_def k(1) newest_price_def)

lemma focus_provenance_fields:
  assumes "is_utc (sv_available v)"
  defines "focus \<equiv> sort_key fst (focus_provenance v)"
  shows "timestamp_of (map_of focus ''available_at'') = Inr (Some (sv_available v))"
    "finite_number (map_of focus ''value'') = Inr (Some (sv_value v))"
    "text_of (map_of focus ''reference_date'') = Some (date_isoformat (sv_period v))"
proof -
  have d: "distinct (map fst (focus_provenance v))" by (simp add: focus_provenance_def)
  have n: "finite_number (Some (JFloat (quotient_of (sv_value v)))) = Inr (Some (sv_value v))"
    using finite_number_float_json [of "sv_value v"] by (simp add: float_json_def)
  show "timestamp_of (map_of focus ''available_at'') = Inr (Some (sv_available v))"
    "finite_number (map_of focus ''value'') = Inr (Some (sv_value v))"
    "text_of (map_of focus ''reference_date'') = Some (date_isoformat (sv_period v))"
    unfolding focus_def map_of_sort_key [OF d] using timestamp_read_back [OF assms(1)] n
    by (simp_all add: focus_provenance_def)
qed

lemma rate_of_inputs_total:
  assumes inputs: "map_of inputs ''di_1y'' = Some (json_obj (di_source_provenance observations k))"
      "map_of inputs ''focus_12m_base0'' = Some (json_obj (focus_provenance v))"
    and k: "dc_rate k = Fin n" "is_utc (newest_price observations k)" "instant (newest_price observations k) \<le> instant captured"
    and v: "is_utc (sv_available v)" "instant (sv_available v) \<le> instant captured"
    and d: "fisher_denominator (sv_value v) = Inr denominator" "\<not> float_eq denominator (Fin 0)"
      "fisher_rate (Fin n) denominator = Inr (Fin x)"
    and t: "is_utc captured" "instant captured \<le> instant cutoff" "valid_date reference" "ov_hash r \<noteq> []"
  shows "\<exists>q. rate_of_inputs cutoff r x inputs reference captured = Inr (Some q)"
proof -
  obtain i where i: "nominal_input (sort_key fst (di_source_provenance observations k)) n (date_isoformat (dc_trade_date k))
      (newest_price observations k) = Inr i" "di_key i = ''nominal_rate''" "di_available i = newest_price observations k"
    using nominal_input_ok [OF k(2)] by blast
  obtain j where j: "inflation_input (sv_value v) (date_isoformat (sv_period v)) (sv_available v) = Inr j"
      "di_key j = ''expected_inflation''" "di_available j = sv_available v"
    using inflation_input_ok [OF v(1)] by blast
  have now: "\<not> (instant cutoff < instant (newest_price observations k) \<or> instant cutoff < instant (sv_available v))"
    using k(3) v(2) t(2) by linarith
  have "rate_of_inputs cutoff r x inputs reference captured
      = recomputed_result x n (sv_value v) [i, j] captured reference (ov_hash r)"
    using now by (simp add: rate_of_inputs_def inputs object_of_def json_obj_def rate_provenance [OF k(1,2)]
        focus_provenance_fields [OF v(1)] i(1) j(1))
  moreover have "\<exists>q. recomputed_result x n (sv_value v) [i, j] captured reference (ov_hash r) = Inr (Some q)"
    by (rule recomputed_result_total [OF d]) (use i j k(3) v(2) t in simp_all)
  ultimately show ?thesis by simp
qed

lemma rate_result_total:
  assumes row: "rate_row_of c sources r (Fin x) trade k focus" and known: "sources_known cutoff sources"
    and codec: "\<And>v. ov_inputs r = dumps c v \<Longrightarrow> loads c (ov_inputs r) = Inr v" and hash: "ov_hash r \<noteq> []"
  shows "\<exists>q inputs captured. rate_result c cutoff (rs_instruments sources) r = Inr (Some q)
    \<and> rate_of_inputs cutoff r x inputs trade captured = Inr (Some q)
    \<and> valid_date trade \<and> trade \<le> ddate cutoff \<and> is_utc captured \<and> instant captured \<le> instant cutoff"
proof -
  let ?observations = "rs_observations sources" and ?given = "rate_sources (rs_observations sources) k focus"
  let ?n = "newest_price ?observations k"
  obtain denominator where f: "focus \<in> set (rs_vintages sources)" and reg: "registered (rs_instruments sources) trade k"
    and obs: "filter (\<lambda>o1. ro_trade o1 = trade \<and> ro_symbol o1 = dc_symbol k) ?observations \<noteq> []"
    and d: "fisher_denominator (sv_value focus) = Inr denominator" "\<not> float_eq denominator (Fin 0)"
      "fisher_rate (dc_rate k) denominator = Inr (Fin x)"
    and w: "di_month_row c (month_text trade) trade focus (ds_key REAL_RATE, Fin x, ''pct_annual'', ?given) = Inr r"
    using row by (auto simp: rate_row_of_def)
  have k: "dc_trade_date k = trade" "is_finite (dc_rate k)" using reg by (simp_all add: registered_def)
  obtain n where n: "dc_rate k = Fin n" using k(2) by (cases "dc_rate k") auto
  obtain o1 where o1: "o1 \<in> set ?observations" "ro_trade o1 = trade" using obs by (auto simp: filter_empty_conv)
  have trade: "valid_date trade" "trade \<le> ddate cutoff"
    using known o1 by (auto simp: sources_known_def list_all_iff proper_observation_def)
  obtain o2 where o2: "o2 \<in> set ?observations" "?n = ro_fetched o2" using newest_price_mem obs k(1) by blast
  have price: "is_utc ?n" "instant ?n \<le> instant cutoff"
    using known o2 by (auto simp: sources_known_def list_all_iff proper_observation_def)
  have focus: "is_utc (sv_available focus)" "instant (sv_available focus) \<le> instant cutoff"
    using known f by (auto simp: sources_known_def list_all_iff)
  obtain i where i: "i \<in> set (rs_instruments sources)" "rc_instrument_at k = in_available i" using reg by (auto simp: registered_def)
  have instr: "is_utc (rc_instrument_at k)" "instant (rc_instrument_at k) \<le> instant cutoff"
    using known i by (auto simp: sources_known_def list_all_iff proper_instrument_def)
  have ok: "registry_ok (rs_instruments sources)"
    using known by (auto simp: sources_known_def registry_ok_def list_all_iff proper_instrument_def)
  note stamps = rate_stamps [OF focus(1) price(1) instr(1)]
  obtain t where t: "max_key instant (row_stamps focus ?given) = Some t"
    using max_key_None [of instant "row_stamps focus ?given"] stamps by fastforce
  have tm: "t \<in> {sv_available focus, ?n, rc_instrument_at k}" "instant (sv_available focus) \<le> instant t" "instant ?n \<le> instant t"
    using max_key_Some [OF t] unfolding stamps by auto
  have utc: "is_utc t" "instant t \<le> instant cutoff" using tm(1) focus price instr by auto
  have "astimezone_utc t = Inr t" using utc_datetime_of_utc [OF utc(1)] utc(1)
    by (simp add: utc_datetime_def is_utc_def)
  then have r: "ov_component r = ds_key REAL_RATE" "ov_month r = month_text trade" "ov_value r = Some (Fin x)" "ov_unit r = ''pct_annual''"
    "ov_formula r = DI_FORMULA_VERSION" "ov_basis r = RETROSPECTIVE_BASIS" "ov_fetched r = isoformat t"
    "ov_inputs r = dumps c (di_row_inputs trade ?given)"
    using w by (auto simp: di_month_row_def t Let_def)
  define kvs where "kvs = (''reference_date'', JStr (date_isoformat trade)) # map (\<lambda>(k, s). (k, json_obj s)) ?given"
  have read: "loads c (ov_inputs r) = Inr (JObj (sort_key fst kvs))"
    unfolding codec [OF r(8)] di_row_inputs_def kvs_def json_obj_def [of "_ # _"] ..
  have dist: "distinct (map fst kvs)" by (simp add: kvs_def rate_sources_def)
  have get: "map_of (sort_key fst kvs) = map_of kvs" by (rule map_of_sort_key [OF dist])
  have inputs: "map_of (sort_key fst kvs) ''di_1y'' = Some (json_obj (di_source_provenance ?observations k))"
    "map_of (sort_key fst kvs) ''focus_12m_base0'' = Some (json_obj (focus_provenance focus))"
    "map_of (sort_key fst kvs) ''reference_date'' = Some (JStr (date_isoformat trade))"
    unfolding get by (simp_all add: kvs_def rate_sources_def)
  obtain q where q: "rate_of_inputs cutoff r x (sort_key fst kvs) trade t = Inr (Some q)"
    using rate_of_inputs_total [OF inputs(1,2) n price(1) tm(3) focus(1) tm(2) d(1,2) d(3) [unfolded n] utc trade(1) hash] by blast
  have verifiable: "verifiable (rs_instruments sources) trade ?observations ?given"
    using reg by (auto simp: verifiable_def rate_sources_def)
  have verified: "has_verified_di_maturities c (rs_instruments sources) (ov_inputs r) = Inr True"
    by (rule verifiable_row [OF verifiable ok trade(1) codec [OF r(8)]])
  have "rate_result c cutoff (rs_instruments sources) r = Inr (Some q)"
    using q utc(2) reference_read_back [OF trade(1)] aware_read_back [OF utc(1)]
    by (simp add: rate_result_def is_rate_row_def r(1-7) read catching_def object_of_def finite_value_def verified inputs(3))
  then show ?thesis using q trade utc by blast
qed


lemma rx_known: "sources_known rx_evening rx_retro"
  by code_simp


end
