(* ===== verification/TradingDays.thy ===== *)
theory TradingDays
  imports PyValues IsoText
begin

text \<open>
  The local calendar of B3 (\<open>datafetchers/b3_di.py\<close>): holidays, business days, and the maturity a DI1 symbol stands for.
  The maturity of every symbol is found, and it is the first business day of the month the symbol names.
\<close>

section \<open>Holidays\<close>

definition easter :: "int \<Rightarrow> py_error + date" where
  "easter y =
     (let a = y mod 19; b = y div 100; c = y mod 100; d = b div 4; e = b mod 4; f = (b + 8) div 25; g = (b - f + 1) div 3;
          h = (19 * a + b - d - g + 15) mod 30; i = c div 4; k = c mod 4; l = (32 + 2 * e + 2 * i - h - k) mod 7;
          m = (a + 11 * h + 22 * l) div 451; n = h + l - 7 * m + 114
      in mk_date y (n div 31) (n mod 31 + 1))"

definition FIXED_HOLIDAYS :: "(int \<times> int) list" where
  "FIXED_HOLIDAYS = [(1, 1), (4, 21), (5, 1), (9, 7), (10, 12), (11, 2), (11, 15), (11, 20), (12, 25)]"

definition holidays :: "int \<Rightarrow> py_error + date list" where
  "holidays y =
     bindE (easter y) (\<lambda>sunday.
     bindE (mapE (\<lambda>(m, d). mk_date y m d) FIXED_HOLIDAYS) (\<lambda>fixed.
     bindE (mapE (add_days sunday) [- 47, - 2, 60]) (\<lambda>movable. Inr (fixed @ movable))))"

text \<open>\<open>date.weekday()\<close>: Monday is 0.\<close>

definition weekday :: "date \<Rightarrow> int" where
  "weekday d = (ordinal d + 6) mod 7"

definition is_business_day :: "date \<Rightarrow> py_error + bool" where
  "is_business_day d =
     (if 5 \<le> weekday d then Inr False else bindE (holidays (year d)) (\<lambda>hs. Inr (d \<notin> set hs)))"

section \<open>Business days\<close>

text \<open>The loop of \<open>_first_business_day\<close>, which the end of the calendar stops.\<close>

function business_day_from :: "date \<Rightarrow> py_error + date" where
  "business_day_from d =
     bindE (is_business_day d) (\<lambda>open_day.
     if open_day then Inr d
     else case add_days d 1 of Inl e \<Rightarrow> Inl e | Inr next_day \<Rightarrow> business_day_from next_day)"
  by pat_completeness auto
termination
proof (relation "measure (\<lambda>d. nat (max_ordinal - ordinal d))", simp)
  fix d next_day open_day
  assume "add_days d 1 = Inr next_day"
  moreover have "ordinal next_day \<le> max_ordinal" using add_days_Inr [OF calculation] ordinal_range by blast
  ultimately show "(next_day, d) \<in> measure (\<lambda>d. nat (max_ordinal - ordinal d))" by (auto dest: add_days_Inr)
qed

declare business_day_from.simps [simp del]

definition first_business_day :: "int \<Rightarrow> int \<Rightarrow> py_error + date" where
  "first_business_day y m = bindE (mk_date y m 1) business_day_from"

text \<open>The last \<open>n\<close> business days up to a day, not before the year 2000; the loop collects them from the end.\<close>

function business_days_back :: "date \<Rightarrow> nat \<Rightarrow> py_error + date list" where
  "business_days_back d n =
     (if n = 0 \<or> year d < 2000 then Inr []
      else bindE (is_business_day d) (\<lambda>open_day.
           case add_days d (- 1) of
             Inl e \<Rightarrow> Inl e
           | Inr before \<Rightarrow>
               bindE (business_days_back before (if open_day then n - 1 else n)) (\<lambda>ds.
                 Inr (if open_day then d # ds else ds))))"
  by pat_completeness auto
termination
proof (relation "measure (\<lambda>(d, _). nat (ordinal d))", simp)
  fix d :: date and n :: nat and before open_day
  assume "add_days d (- 1) = Inr before"
  moreover have "1 \<le> ordinal before" using add_days_Inr [OF calculation] ordinal_range by blast
  ultimately show "((before, if open_day then n - 1 else n), (d, n)) \<in> measure (\<lambda>(d, _). nat (ordinal d))"
    by (auto dest: add_days_Inr)
qed

declare business_days_back.simps [simp del]

definition list_business_days :: "date \<Rightarrow> nat \<Rightarrow> py_error + date list" where
  "list_business_days d n = bindE (business_days_back d n) (\<lambda>ds. Inr (rev ds))"

section \<open>Maturities\<close>

definition DI_MONTHS :: "(char \<times> int) list" where
  "DI_MONTHS =
     [(CHR ''F'', 1), (CHR ''G'', 2), (CHR ''H'', 3), (CHR ''J'', 4), (CHR ''K'', 5), (CHR ''M'', 6), (CHR ''N'', 7),
      (CHR ''Q'', 8), (CHR ''U'', 9), (CHR ''V'', 10), (CHR ''X'', 11), (CHR ''Z'', 12)]"

text \<open>\<open>int(yy)\<close> of two digits; \<open>None\<close> is a symbol of another kind.\<close>

definition decode_maturity :: "string \<Rightarrow> py_error + string option" where
  "decode_maturity s =
     (if take 3 s \<noteq> ''DI1'' \<or> length s \<noteq> 6 then Inr None
      else case map_of DI_MONTHS (s ! 3) of
        None \<Rightarrow> Inr None
      | Some m \<Rightarrow>
          (case parse_signed (strip (drop 4 s)) of
             None \<Rightarrow> Inr None
           | Some yy \<Rightarrow> bindE (first_business_day (2000 + yy) m) (\<lambda>d. Inr (Some (date_isoformat d)))))"

definition DI_MATURITY_RULE_VERSION :: string where
  "DI_MATURITY_RULE_VERSION = ''local-calendar-unverified-v1''"

text \<open>\<open>UnsupportedDIMaturityCalendar\<close> is a \<open>ValueError\<close>.\<close>

definition maturity_provenance :: "string \<Rightarrow> string \<Rightarrow> py_error + string" where
  "maturity_provenance symbol maturity =
     bindE (decode_maturity symbol) (\<lambda>expected.
       if expected = Some maturity then Inr DI_MATURITY_RULE_VERSION else Inl ValueError)"

definition require_verified_maturity_basis :: "string \<Rightarrow> py_error + unit" where
  "require_verified_maturity_basis basis = (if basis = ''b3_official_calendar_v1'' then Inr () else Inl ValueError)"

section \<open>The holidays of a year\<close>

lemma easter_day:
  fixes a h l m n :: int
  assumes r: "0 \<le> a" "a \<le> 18" "0 \<le> h" "h \<le> 29" "0 \<le> l" "l \<le> 6"
    and m: "m = (a + 11 * h + 22 * l) div 451" and n: "n = h + l - 7 * m + 114"
  shows "n div 31 = 3 \<and> n mod 31 \<le> 30 \<or> n div 31 = 4 \<and> n mod 31 \<le> 25" "0 \<le> n mod 31"
proof -
  define t where "t = a + 11 * h + 22 * l"
  have t: "0 \<le> t" "t \<le> 469" using r unfolding t_def by linarith+
  have m2: "m = 0 \<or> 451 \<le> t \<and> m = 1"
  proof (cases "t < 451")
    case True
    then show ?thesis using t(1) m by (simp add: t_def [symmetric])
  next
    case False
    then have "t div 451 = 1" using t(2) by (intro int_div_pos_eq [of _ _ _ "t - 451"]) auto
    then show ?thesis using False m by (simp add: t_def [symmetric])
  qed
  have ge: "114 \<le> n" using m2 r unfolding n t_def by linarith
  have le: "n \<le> 149" using m2 r unfolding n by linarith
  show "n div 31 = 3 \<and> n mod 31 \<le> 30 \<or> n div 31 = 4 \<and> n mod 31 \<le> 25" "0 \<le> n mod 31" using ge le by presburger+
qed

lemma easter_total:
  assumes "1 \<le> y" "y \<le> 9999"
  obtains e where "easter y = Inr e" "valid_date e" "month e \<in> {3, 4}" "year e = y"
proof -
  define a b c where "a = y mod 19" and "b = y div 100" and "c = y mod 100"
  define h where "h = (19 * a + b - b div 4 - (b - (b + 8) div 25 + 1) div 3 + 15) mod 30"
  define l where "l = (32 + 2 * (b mod 4) + 2 * (c div 4) - h - c mod 4) mod 7"
  define m where "m = (a + 11 * h + 22 * l) div 451"
  define n where "n = h + l - 7 * m + 114"
  have bound: "0 \<le> x mod k \<and> x mod k \<le> k - 1" if "0 < k" for x k :: int using that by simp
  have r: "0 \<le> a" "a \<le> 18" "0 \<le> h" "h \<le> 29" "0 \<le> l" "l \<le> 6"
    using bound [of 19] bound [of 30] bound [of 7] unfolding a_def h_def l_def by auto
  have d: "n div 31 = 3 \<and> n mod 31 \<le> 30 \<or> n div 31 = 4 \<and> n mod 31 \<le> 25" "0 \<le> n mod 31"
    by (rule easter_day [OF r m_def n_def])+
  have "easter y = mk_date y (n div 31) (n mod 31 + 1)"
    unfolding easter_def Let_def a_def [symmetric] b_def [symmetric] c_def [symmetric] h_def [symmetric] l_def [symmetric]
      m_def [symmetric] n_def [symmetric] ..
  moreover have "valid_date (Date y (n div 31) (n mod 31 + 1))"
    using d assms by (auto simp: valid_date_def month_length_def)
  ultimately show ?thesis using that [of "Date y (n div 31) (n mod 31 + 1)"] d(1) by (auto simp: mk_date_def)
qed

lemma add_days_total: "1 \<le> ordinal d + k \<Longrightarrow> ordinal d + k \<le> max_ordinal \<Longrightarrow> \<exists>e. add_days d k = Inr e"
  by (simp add: add_days_def Let_def)

lemma holidays_total:
  assumes "1 \<le> y" "y \<le> 9999"
  obtains hs where "holidays y = Inr hs" "length hs = 12"
proof -
  obtain e where e: "easter y = Inr e" "valid_date e" "month e \<in> {3, 4}" "year e = y" using easter_total [OF assms] .
  have o: "days_before_year y + 59 < ordinal e" "ordinal e \<le> days_before_year y + 121"
    using e(3) valid_date_fields(5,6) [OF e(2)] by (auto simp: ordinal_def e(4) days_before_month_def month_length_def leap_day_def split: if_splits)
  have y: "0 \<le> days_before_year y" "days_before_year y + 365 \<le> max_ordinal"
    using days_before_year_range [OF assms] days_before_year_step [of y] leap_day_bounds [of "is_leap y"] by linarith+
  obtain d1 d2 d3 where "add_days e (- 47) = Inr d1" "add_days e (- 2) = Inr d2" "add_days e 60 = Inr d3"
    using add_days_total [of e "- 47"] add_days_total [of e "- 2"] add_days_total [of e 60] o y by fastforce
  moreover have "mapE (\<lambda>(m, d). mk_date y m d) FIXED_HOLIDAYS = Inr (map (\<lambda>(m, d). Date y m d) FIXED_HOLIDAYS)"
    using assms by (simp add: FIXED_HOLIDAYS_def mk_date_def valid_date_def month_length_def)
  ultimately show ?thesis using that [of "map (\<lambda>(m, d). Date y m d) FIXED_HOLIDAYS @ [d1, d2, d3]"] e(1)
    by (simp add: holidays_def) (simp add: FIXED_HOLIDAYS_def)
qed

section \<open>Every month has a business day\<close>

lemma is_business_day_total:
  assumes "valid_date d"
  obtains b where "is_business_day d = Inr b"
proof -
  obtain hs where "holidays (year d) = Inr hs" using holidays_total [OF valid_date_fields(1,2) [OF assms]] .
  then have "is_business_day d = Inr (weekday d < 5 \<and> d \<notin> set hs)" by (simp add: is_business_day_def)
  then show ?thesis by (rule that)
qed

lemma valid_day: "1 \<le> y \<Longrightarrow> y \<le> 9999 \<Longrightarrow> 1 \<le> m \<Longrightarrow> m \<le> 12 \<Longrightarrow> 1 \<le> k \<Longrightarrow> k \<le> 28 \<Longrightarrow> valid_date (Date y m k)"
  by (auto simp: valid_date_def month_length_def leap_day_def)

lemma twenty_weekdays: "card {k \<in> {1..28::int}. (b + k) mod 7 < 5} = 20"
proof -
  have "(b + k) mod 7 = (b mod 7 + k) mod 7" for k by (simp add: mod_simps)
  then have e: "{k \<in> {1..28::int}. (b + k) mod 7 < 5} = {k \<in> {1..28}. (b mod 7 + k) mod 7 < 5}" by simp
  have f: "{k \<in> {1..28::int}. P k} = set (filter P [1..28])" for P by auto
  have "\<forall>r \<in> set [0..6]. card (set (filter (\<lambda>k. (r + k) mod 7 < 5) [1..28])) = 20" by code_simp
  moreover have "b mod 7 \<in> set [0..6]" by simp
  ultimately show ?thesis unfolding e f by blast
qed

text \<open>Four weeks hold twenty weekdays, and a year has twelve holidays.\<close>

lemma some_business_day:
  assumes y: "1 \<le> y" "y \<le> 9999" and m: "1 \<le> m" "m \<le> 12"
  obtains k where "1 \<le> k" "k \<le> 28" "is_business_day (Date y m k) = Inr True"
proof -
  obtain hs where hs: "holidays y = Inr hs" "length hs = 12" using holidays_total [OF y] .
  define b where "b = ordinal (Date y m 0) + 6"
  have w: "weekday (Date y m k) = (b + k) mod 7" for k by (simp add: weekday_def b_def ordinal_def algebra_simps)
  let ?W = "{k \<in> {1..28}. (b + k) mod 7 < 5}"
  have "\<exists>k \<in> ?W. Date y m k \<notin> set hs"
  proof (rule ccontr)
    assume "\<not> (\<exists>k \<in> ?W. Date y m k \<notin> set hs)"
    then have "Date y m ` ?W \<subseteq> set hs" by auto
    then have "card (Date y m ` ?W) \<le> card (set hs)" by (rule card_mono [OF finite_set])
    moreover have "card (Date y m ` ?W) = 20"
      using twenty_weekdays [of b] by (subst card_image) (auto simp: inj_on_def)
    ultimately show False using card_length [of hs] hs(2) by linarith
  qed
  then obtain k where "k \<in> {1..28}" "(b + k) mod 7 < 5" "Date y m k \<notin> set hs" by blast
  then show ?thesis using that [of k] by (simp add: is_business_day_def w hs(1))
qed

lemma following_date:
  assumes "valid_date (Date y m k)" "valid_date (Date y m (k + 1))"
  shows "add_days (Date y m k) 1 = Inr (Date y m (k + 1))"
proof -
  have o: "ordinal (Date y m k) + 1 = ordinal (Date y m (k + 1))" by (simp add: ordinal_def)
  show ?thesis using ordinal_range [OF assms(2)] from_ordinal_ordinal [OF assms(2)]
    by (simp add: add_days_def Let_def o)
qed

text \<open>Where the search from a day of a month stops.\<close>

definition found_from :: "int \<Rightarrow> int \<Rightarrow> int \<Rightarrow> int \<Rightarrow> bool" where
  "found_from y m j i \<longleftrightarrow> j \<le> i \<and> business_day_from (Date y m j) = Inr (Date y m i)
     \<and> is_business_day (Date y m i) = Inr True \<and> (\<forall>l. j \<le> l \<and> l < i \<longrightarrow> is_business_day (Date y m l) = Inr False)"

lemma found_here: "is_business_day (Date y m j) = Inr True \<Longrightarrow> found_from y m j j"
  by (auto simp: found_from_def business_day_from.simps [of "Date y m j"])

lemma found_later:
  assumes "is_business_day (Date y m j) = Inr False" "add_days (Date y m j) 1 = Inr (Date y m (j + 1))" "found_from y m (j + 1) i"
  shows "found_from y m j i"
proof -
  have "business_day_from (Date y m j) = business_day_from (Date y m (j + 1))"
    using assms(1,2) by (simp add: business_day_from.simps [of "Date y m j"])
  moreover have "is_business_day (Date y m l) = Inr False" if "j \<le> l \<and> l < i" for l
    using assms(1,3) that by (cases "l = j") (auto simp: found_from_def)
  ultimately show ?thesis using assms(3) by (auto simp: found_from_def)
qed

lemma business_day_from_finds:
  assumes ym: "1 \<le> y" "y \<le> 9999" "1 \<le> m" "m \<le> 12" and k: "k \<le> 28" "is_business_day (Date y m k) = Inr True"
    and j: "1 \<le> j" "j \<le> k"
  shows "\<exists>i \<le> k. found_from y m j i"
  using j
proof (induction "nat (k - j)" arbitrary: j)
  case 0
  then have "j = k" by simp
  then show ?case using found_here k(2) by blast
next
  case (Suc n)
  have jk: "j + 1 \<le> k" using Suc(2) by linarith
  have v: "valid_date (Date y m j)" using valid_day [OF ym Suc.prems(1)] jk k(1) by simp
  have w: "valid_date (Date y m (j + 1))" using valid_day [OF ym, of "j + 1"] Suc.prems(1) jk k(1) by simp
  obtain b where b: "is_business_day (Date y m j) = Inr b" using is_business_day_total [OF v] .
  have "n = nat (k - (j + 1))" using Suc(2) by linarith
  then obtain i where i: "i \<le> k" "found_from y m (j + 1) i" using Suc(1) [of "j + 1"] Suc.prems(1) jk by auto
  show ?case
  proof (cases b)
    case True
    then have "found_from y m j j" using b by (intro found_here) simp
    then show ?thesis using Suc.prems(2) by blast
  next
    case False
    then have "found_from y m j i" using found_later [OF _ following_date [OF v w] i(2)] b by simp
    then show ?thesis using i(1) by blast
  qed
qed

text \<open>The first business day of a month exists and is the first.\<close>

lemma first_business_day_spec:
  assumes "1 \<le> y" "y \<le> 9999" "1 \<le> m" "m \<le> 12"
  shows "\<exists>i. 1 \<le> i \<and> i \<le> 28 \<and> first_business_day y m = Inr (Date y m i) \<and> is_business_day (Date y m i) = Inr True
    \<and> (\<forall>l. 1 \<le> l \<and> l < i \<longrightarrow> is_business_day (Date y m l) = Inr False)"
proof -
  obtain k where k: "1 \<le> k" "k \<le> 28" "is_business_day (Date y m k) = Inr True" using some_business_day [OF assms] .
  have "mk_date y m 1 = Inr (Date y m 1)" using valid_day [OF assms, of 1] by (simp add: mk_date_def)
  then have f: "first_business_day y m = business_day_from (Date y m 1)" by (simp add: first_business_day_def)
  obtain i where "i \<le> k" "found_from y m 1 i" using business_day_from_finds [OF assms k(2,3) order_refl k(1)] by blast
  then show ?thesis using k(2) by (auto simp: found_from_def f)
qed

lemma digit_not_space: "digit_val c \<noteq> None \<Longrightarrow> \<not> is_space_char c \<and> c \<noteq> CHR ''-'' \<and> c \<noteq> CHR ''+''"
proof -
  assume d: "digit_val c \<noteq> None"
  have "(of_char c :: int) = int (of_char c)" by (rule of_nat_of_char [symmetric])
  then have n: "48 \<le> (of_char c :: nat)" using d by (auto simp: digit_val_def Let_def split: if_splits)
  then have "\<not> is_space_char c" by (simp add: is_space_char_def code_in_def)
  moreover have "c \<noteq> CHR ''-'' \<and> c \<noteq> CHR ''+''" using n by auto
  ultimately show ?thesis by simp
qed

lemma parse_two_digits:
  assumes "0 \<le> n" "n \<le> 99"
  shows "parse_signed (strip (pad 2 n)) = Some n"
proof -
  obtain c d where p: "pad 2 n = [c, d]" by (simp add: numeral_2_eq_2)
  have "\<not> is_space_char c" "\<not> is_space_char d" "c \<noteq> CHR ''-''" "c \<noteq> CHR ''+''"
    using set_pad [of _ 2 n] digit_not_space by (simp_all add: p)
  then have "parse_signed (strip (pad 2 n)) = parse_num (pad 2 n)" by (simp add: p strip_def parse_signed_def)
  then show ?thesis using parse_num_pad [of 2 n] assms by simp
qed

text \<open>C40: The maturity of a DI1 symbol is found and is the first business day of its month. For each of the twelve month
  letters and each year from 2000 to 2099, decoding the symbol returns; it names a valid date of that year and month that
  is a business day, no earlier day of the month is one, and the date reads back from its text. So two symbols never share a
  maturity, and the provenance of the maturity is always granted.\<close>

theorem maturity_is_first_business_day:
  assumes "map_of DI_MONTHS letter = Some m" "0 \<le> n" "n \<le> 99"
  shows "\<exists>d. decode_maturity (''DI1'' @ letter # pad 2 n) = Inr (Some (date_isoformat d)) \<and> valid_date d
    \<and> date_fromisoformat (date_isoformat d) = Inr d \<and> year d = 2000 + n \<and> month d = m \<and> is_business_day d = Inr True
    \<and> (\<forall>l. 1 \<le> l \<and> l < day d \<longrightarrow> is_business_day (Date (2000 + n) m l) = Inr False)
    \<and> maturity_provenance (''DI1'' @ letter # pad 2 n) (date_isoformat d) = Inr DI_MATURITY_RULE_VERSION"
proof -
  have m: "1 \<le> m" "m \<le> 12" using map_of_SomeD [OF assms(1)] by (auto simp: DI_MONTHS_def)
  have y: "1 \<le> 2000 + n" "2000 + n \<le> 9999" using assms(2,3) by simp_all
  obtain i where i: "1 \<le> i" "i \<le> 28" "first_business_day (2000 + n) m = Inr (Date (2000 + n) m i)"
    "is_business_day (Date (2000 + n) m i) = Inr True"
    "\<forall>l. 1 \<le> l \<and> l < i \<longrightarrow> is_business_day (Date (2000 + n) m l) = Inr False"
    using first_business_day_spec [OF y m] by blast
  have v: "valid_date (Date (2000 + n) m i)" by (rule valid_day [OF y m i(1,2)])
  have d: "decode_maturity (''DI1'' @ letter # pad 2 n) = Inr (Some (date_isoformat (Date (2000 + n) m i)))"
    using parse_two_digits [OF assms(2,3)] assms(1) i(3) by (simp add: decode_maturity_def)
  show ?thesis using d v i date_roundtrip [OF v] by (intro exI [of _ "Date (2000 + n) m i"]) (simp add: maturity_provenance_def)
qed

theorem maturity_is_first_business_day_witness:
  "\<exists>d. decode_maturity ''DI1F27'' = Inr (Some (date_isoformat d)) \<and> year d = 2027 \<and> month d = 1 \<and> is_business_day d = Inr True"
proof -
  have "''DI1'' @ CHR ''F'' # pad 2 27 = ''DI1F27''" by code_simp
  then show ?thesis using maturity_is_first_business_day [of "CHR ''F''" 1 27] by (auto simp: DI_MONTHS_def)
qed

end
