(* ===== verification/Spec2Isabelle.thy ===== *)
theory Spec2Isabelle
  imports EngineProperties EngineClaims BreakerClaims BudgetClaims Windows TaskPayloads SgsPlanClaims
    SgsPlanRoundtrip SgsReceiptClaims ExecutionClaims ClientClaims ScoreClaims ScorePast DerivedClaims ScoreStoreClaims
    CandidateGate Freshness RetroRate TradingDays
begin

text \<open>
  X-BRAY backend: the resumable daily refresh, its plan, and the derived indicators and macro score it feeds.
  Paths are relative to \<open>src/backend/\<close>.

  \<^bold>\<open>The program.\<close> A client (\<open>refresh_run_client.py\<close>) drives one run a day through an HTTP API. The run is a row with
  work items; each request executes one item or finalizes the run (\<open>refresh_run_execution.py\<close>,
  \<open>refresh_run_tasks.py\<close>). All coordination goes through SQL transactions (\<open>db/refresh_run_*.py\<close>,
  \<open>db/refresh_attempt.py\<close>, \<open>db/store.py\<close>): a lease per day, a claim with token and generation per item, a circuit
  breaker per provider, attempt records that fence business writes. What an item fetches is frozen in a plan
  (\<open>db/sgs_refresh_plan.py\<close>), bounded by a retry budget (\<open>ingestion_policy.py\<close>) and proved by commit and coverage
  receipts. At its end the run derives indicators (\<open>derived/\<close>) from the ledger of observation vintages, stores them as
  snapshots, and scores the macro economy (\<open>macro_score/\<close>) from vintages, targets and snapshots known at a cutoff.

  \<^bold>\<open>Foundations.\<close>
  \<^item> \<open>Prelude\<close>: \<open>bindE\<close>, \<open>mapE\<close>, tables as lists of rows; \<open>PyValues\<close>: dicts, truthiness, texts and float literals.
  \<^item> \<open>Calendar\<close>, \<open>Timestamps\<close>, \<open>IsoText\<close>, \<open>TextOrder\<close>: dates and datetimes of the standard library, their ISO texts with
    the round trips, and the order of UTC texts, which is the order of their instants: SQL compares timestamps as text.
  \<^item> \<open>Doubles\<close>: floats as rationals rounded to 53 bits, ties to even, with overflow to infinity; rounding is monotone
    and exact on the integers and halves the score uses. The two zeros are one. \<open>Selection\<close>: Python's \<open>max\<close>, \<open>min\<close> and the dict loops that keep the latest of each group.

  \<^bold>\<open>The engine.\<close>
  \<^item> \<open>RunModels\<close>, \<open>RunStore\<close> (\<open>db/refresh_run_models.py\<close>, \<open>refresh_run_sql.py\<close>): rows, enums, errors and the state \<open>db\<close>, one field
    per table. A transaction is a function to \<open>run_error + 'a \<times> db\<close>; \<open>Inl\<close> rolls back.
  \<^item> \<open>RunLifecycle\<close>, \<open>RunItems\<close>: creating, resuming and reading a run; claim, deferral, completion;
    cutoffs and finalization. \<open>Scheduler\<close> (\<open>refresh_run_scheduler.py\<close>, \<open>refresh_retry_policy.py\<close>): what may be retried.
  \<^item> \<open>Breaker\<close>, \<open>Attempts\<close> (\<open>db/store.py\<close>, \<open>db/refresh_attempt.py\<close>): the provider circuit, attempts, the fence.
  \<^item> \<open>RunInvariant\<close>, \<open>RunPreserve\<close>, \<open>RunProtocol\<close>, \<open>RunReach\<close>: the step relation over all operations of all workers with
    clocks that do not go back, the table invariant and exclusiveness, by rule induction; \<open>Engine\<close> wraps the machine in
    the locale \<open>machine\<close> and interprets it. \<open>EngineFacts\<close>, \<open>EngineGrowth\<close>, \<open>EngineLiveness\<close> serve the
    properties in \<open>EngineProperties\<close>, \<open>EngineClaims\<close> and \<open>BreakerClaims\<close>.

  \<^bold>\<open>Plans, budgets and tasks.\<close>
  \<^item> \<open>Catalog\<close>, \<open>SgsRegistry\<close>, \<open>Windows\<close> (\<open>indicator_catalog.py\<close>, \<open>source_contracts.py\<close>, \<open>db/sgs_availability.py\<close>,
    \<open>datafetchers/bcb_sgs.py\<close>): the catalogue with every entry, its contracts and start periods, request windows. The loops
    over windows take the number of years of the range plus two as fuel, and each round advances by a year or more.
  \<^item> \<open>SgsModels\<close>, \<open>SgsPlan\<close>, \<open>SgsPlanJson\<close>, \<open>SgsReceipts\<close> (\<open>db/sgs_refresh_plan.py\<close>): data, building, stored form, receipts;
    the other \<open>SgsPlan\<close> theories hold their facts. Properties in \<open>SgsPlanClaims\<close>, \<open>SgsPlanRoundtrip\<close>, \<open>SgsReceiptClaims\<close>.
  \<^item> \<open>IngestionPolicy\<close> (\<open>BudgetClaims\<close>), \<open>TaskPayloads\<close>, \<open>RunTasks\<close>: the retry budget and its audit; tasks and
    what they report (\<open>refresh.py\<close>, \<open>refresh_reporting.py\<close>).
  \<^item> \<open>Handlers\<close>, \<open>ItemExecution\<close>, \<open>ItemDispatch\<close>, \<open>RunExecution\<close>: the API as sequences of engine transactions;
    \<open>ExecutionSim\<close>, \<open>ItemSim\<close>, \<open>ApiSim\<close>: their simulation by the engine. Properties in \<open>ExecutionClaims\<close>.
  \<^item> \<open>RunClient\<close>, \<open>ClientCosts\<close>, \<open>ClientClaims\<close>: the polling client; its thousand rounds are the code's own bound.

  \<^bold>\<open>Derived indicators.\<close>
  \<^item> \<open>DerivedModels\<close>, \<open>DerivedStore\<close> (\<open>derived/models.py\<close>, \<open>derived/repository.py\<close>): inputs and results with the checks of their
    constructors, payloads, the identity of the inputs, the snapshot table with its insertion and queries.
  \<^item> \<open>DerivedIndicators\<close>, \<open>RealRate\<close>, \<open>TargetDistance\<close>: the engine and the builder of every indicator.
  \<^item> \<open>VintageLedger\<close>, \<open>DerivedRefresh\<close>: reading the ledger, recording the target rules, refreshing all snapshots. What is built
    is sound (\<open>sound_result\<close>), shown compositionally with \<open>produces\<close>; properties in \<open>DerivedClaims\<close>.

  \<^bold>\<open>Macro score.\<close>
  \<^item> \<open>ScoreModels\<close>, \<open>ScoreComponents\<close>: the methodology and the selection of vintages; the series of the eighteen components.
  \<^item> \<open>ScoreCalculator\<close> (\<open>macro_score/normalization.py\<close>, \<open>calculator.py\<close>): winsorising, percentiles, dimension scores, the
    score. Properties in \<open>ScoreClaims\<close> (histories of up to \<open>2 ^ 40\<close> points, far beyond the code's 120) and \<open>ScorePast\<close>.
  \<^item> \<open>ScoreStore\<close> (\<open>macro_score/serialization.py\<close>, \<open>repository.py\<close>, \<open>refresh.py\<close>, \<open>summary.py\<close>): payloads, the table of scores
    with its queries, the refresh as a whole, the summary of two scores; \<open>ScoreStoreClaims\<close>.

  \<^bold>\<open>Retrospective ledgers.\<close>
  \<^item> \<open>ScoreOverlay\<close>, \<open>RetroMonths\<close> (\<open>macro_score/retrospective.py\<close>): the verification of DI maturities against the registry of
    instruments, the overlay of reconstructed months on the history, and the reconstruction from SGS and Focus records. The
    windows tile the range, the Focus record of a month is the newest, and writing rows again writes nothing.
  \<^item> \<open>RetroDi\<close>, \<open>RetroDiClaims\<close> (\<open>macro_score/retrospective.py\<close>, \<open>macro_score/sources.py\<close>): the prices and instruments, the contracts of
    a trade date, the monthly DI components; their rows pass the verification they are read through.
  \<^item> \<open>RetroRate\<close> (\<open>derived/retrospective_real_rate.py\<close>): the rows as the history of the real rate; no computed rate is lost.

  \<^bold>\<open>Calendars.\<close> \<open>TradingDays\<close> (\<open>datafetchers/b3_di.py\<close>): holidays, business days, DI1 maturities; the loop over days ends with
  the calendar, and four weeks hold twenty weekdays where a year has twelve holidays. \<open>Freshness\<close>
  (\<open>reference_freshness.py\<close>): deadlines of references.

  \<^bold>\<open>Alternative sources.\<close> \<open>CandidateGate\<close> (\<open>candidate_eligibility.py\<close>, \<open>source_candidates.py\<close>,
  \<open>source_rollout.py\<close>): profiles, approvals, and the report that says which candidate may be used.

  \<^bold>\<open>Arguments of the model.\<close> JSON text, \<open>json.loads\<close> and SHA-256 are a \<open>codec\<close>; pydantic's models are validators and a payload
  adapter; clocks, identifiers, HTTP, the network functions of the tasks and the time zone of the score are arguments; so
  are, in the two refreshes, the retrospective history of the real rate and the overlay of the score's history, and the
  registry of candidates.
  A property that needs more of one of them than its type says so in a named hypothesis:
  that the codec reads back one plan or payload it wrote, or that a dependency only runs engine transactions.

  \<^bold>\<open>Not modelled.\<close> SQL text and the differences between SQLite and PostgreSQL; connections, thread pools and context
  variables; provider payload parsing in \<open>datafetchers/\<close>, \<open>provider_http.py\<close> and the shadow, canary and candidate acquisition;
  \<open>source_audit/\<close>; the FastAPI handlers, administration and monitoring; the collection of DI archives and the
  imports of \<open>macro_score/\<close>; report assembly in \<open>refresh_reporting.py\<close>. They are input and output around the modelled core: SQL over tables
  the model does not keep, HTTP, archives and pandas.
\<close>

end
